(* ===== verification/Prelude.thy ===== *)
theory Prelude
  imports Main "HOL-Library.Word" "HOL-Library.Code_Target_Nat"
begin

text \<open>
  Shared vocabulary of the development: the machine-integer types of the C++ sources, the part
  of \<open>std::string\<close> and \<open>std::vector\<close> the sources use, counted loops that write into a buffer, and
  the theorem collections that the component theories fill.

  \<^item> \<open>byte\<close>, \<open>u16\<close>, \<open>u32\<close>, \<open>u64\<close> are the fixed-width unsigned types; a C++ \<open>int\<close> is an
    \<open>int\<close> where the source cannot overflow it.
  \<^item> \<open>str_find\<close> is \<open>std::string::find\<close> (\<open>None\<close> is \<open>npos\<close>), \<open>find_entry\<close> the ``first element
    with'' loop that returns a pointer into a vector.
  \<^item> a \<open>buf\<close> is an output array of a routine; \<open>for_loop\<close> runs its body for every index of a
    list, and the \<open>writes\<close> lemmas say what a loop of stores leaves in the buffer.
\<close>

named_theorems loop_simps "what the counted loops of the sources leave behind"
named_theorems model_defs "definitions that the evaluation of a closed term unfolds"

section \<open>Machine integers\<close>

type_synonym byte = "8 word"
type_synonym u16 = "16 word"
type_synonym u32 = "32 word"
type_synonym u64 = "64 word"

section \<open>Strings and vectors\<close>

fun starts_with :: "string \<Rightarrow> string \<Rightarrow> bool" where
  "starts_with [] s = True"
| "starts_with (p # ps) [] = False"
| "starts_with (p # ps) (c # cs) = (p = c \<and> starts_with ps cs)"

fun str_find_from :: "nat \<Rightarrow> string \<Rightarrow> string \<Rightarrow> nat option" where
  "str_find_from i [] p = (if p = [] then Some i else None)"
| "str_find_from i (c # cs) p =
     (if starts_with p (c # cs) then Some i else str_find_from (Suc i) cs p)"

definition str_find :: "string \<Rightarrow> string \<Rightarrow> nat option" where
  "str_find s p = str_find_from 0 s p"

definition contains :: "string \<Rightarrow> string \<Rightarrow> bool" where
  "contains s p \<longleftrightarrow> str_find s p \<noteq> None"

declare contains_def [model_defs] str_find_def [model_defs]

text \<open>\<open>find_last_of(c)\<close>, and \<open>find(c)\<close> for a single character.\<close>

fun find_char :: "char \<Rightarrow> string \<Rightarrow> nat option" where
  "find_char c [] = None"
| "find_char c (x # xs) = (if x = c then Some 0 else map_option Suc (find_char c xs))"

fun find_last_char :: "char \<Rightarrow> string \<Rightarrow> nat option" where
  "find_last_char c [] = None"
| "find_last_char c (x # xs) =
     (case find_last_char c xs of Some i \<Rightarrow> Some (Suc i)
      | None \<Rightarrow> if x = c then Some 0 else None)"

lemma starts_with_iff: "starts_with p s \<longleftrightarrow> (\<exists>t. s = p @ t)"
  by (induction p s rule: starts_with.induct) auto

lemma str_find_from_NoneD:
  "str_find_from i s p = None \<Longrightarrow> s = a @ p @ b \<Longrightarrow> False"
proof (induction i s p arbitrary: a rule: str_find_from.induct)
  case (1 i p)
  then show ?case by (auto split: if_splits)
next
  case (2 i c cs p)
  show ?case
  proof (cases a)
    case Nil
    with "2.prems" have "starts_with p (c # cs)" by (metis append_Nil starts_with_iff)
    from this "2.prems"(1) show ?thesis by simp
  next
    case (Cons x xs)
    with 2 show ?thesis by (auto split: if_splits)
  qed
qed

lemma str_find_from_SomeD:
  "str_find_from i s p = Some k \<Longrightarrow> i \<le> k \<and> (\<exists>a b. s = a @ p @ b \<and> length a = k - i)"
proof (induction i s p rule: str_find_from.induct)
  case (1 i p)
  then show ?case by (auto split: if_splits)
next
  case (2 i c cs p)
  show ?case
  proof (cases "starts_with p (c # cs)")
    case True
    then obtain t where "c # cs = p @ t" by (auto simp: starts_with_iff)
    moreover from True "2.prems" have "k = i" by simp
    ultimately show ?thesis by (intro conjI exI[of _ "[]"] exI[of _ t]) auto
  next
    case False
    with 2 obtain a b where "Suc i \<le> k" "cs = a @ p @ b" "length a = k - Suc i" by auto
    then show ?thesis by (intro conjI exI[of _ "c # a"] exI[of _ b]) auto
  qed
qed

text \<open>\<open>s.find(p) != npos\<close> says that \<open>p\<close> occurs in \<open>s\<close>.\<close>

lemma contains_iff: "contains s p \<longleftrightarrow> (\<exists>a b. s = a @ p @ b)"
  unfolding contains_def str_find_def
  by (metis not_None_eq str_find_from_NoneD str_find_from_SomeD)

text \<open>A range-for loop that returns the address of the first element with a property.\<close>

fun find_entry :: "('a \<Rightarrow> bool) \<Rightarrow> 'a list \<Rightarrow> nat option" where
  "find_entry P [] = None"
| "find_entry P (x # xs) = (if P x then Some 0 else map_option Suc (find_entry P xs))"

lemma find_entry_None_iff: "find_entry P xs = None \<longleftrightarrow> (\<forall>x \<in> set xs. \<not> P x)"
  by (induction xs) auto

lemma find_entry_SomeD:
  "find_entry P xs = Some i \<Longrightarrow> i < length xs \<and> P (xs ! i) \<and> (\<forall>j < i. \<not> P (xs ! j))"
  by (induction xs arbitrary: i) (auto split: if_splits simp: less_Suc_eq_0_disj)

lemma find_entry_ex: "x \<in> set xs \<Longrightarrow> P x \<Longrightarrow> \<exists>i. find_entry P xs = Some i"
  using find_entry_None_iff[of P xs] by auto

section \<open>Counted loops that store into a buffer\<close>

type_synonym 'a buf = "nat \<Rightarrow> 'a"

definition for_loop :: "nat list \<Rightarrow> (nat \<Rightarrow> 's \<Rightarrow> 's) \<Rightarrow> 's \<Rightarrow> 's" where
  "for_loop ks body s = fold body ks s"

lemma for_loop_Nil [loop_simps]: "for_loop [] f s = s"
  by (simp add: for_loop_def)

lemma for_loop_Cons [loop_simps]: "for_loop (k # ks) f s = for_loop ks f (f k s)"
  by (simp add: for_loop_def)

text \<open>
  A body that only stores the value \<open>w i\<close> at the indices of a set is \<open>override_on\<close>; a loop of such
  bodies, whatever their order, stores \<open>w\<close> on the union of the sets.
\<close>

lemma override_on_twice [simp]:
  "override_on (override_on f w A) w B = override_on f w (A \<union> B)"
  by (auto simp: override_on_def fun_eq_iff)

lemma override_on_upd: "w i = v \<Longrightarrow> (override_on f w A)(i := v) = override_on f w (insert i A)"
  by (auto simp: override_on_def fun_eq_iff)

lemma upd_override_on: "w i = v \<Longrightarrow> f(i := v) = override_on f w {i}"
  by (auto simp: override_on_def fun_eq_iff)

lemma for_loop_override:
  assumes "\<And>k s. k \<in> set ks \<Longrightarrow> body k s = override_on s w (S k)"
  shows "for_loop ks body s = override_on s w (\<Union>k \<in> set ks. S k)"
  using assms
proof (induction ks arbitrary: s)
  case Nil
  then show ?case by (simp add: for_loop_def)
next
  case (Cons k ks)
  have "for_loop (k # ks) body s = for_loop ks body (override_on s w (S k))"
    using Cons.prems by (simp add: for_loop_Cons)
  also have "\<dots> = override_on (override_on s w (S k)) w (\<Union>k \<in> set ks. S k)"
    using Cons by simp
  finally show ?case by simp
qed

text \<open>A loop with an early exit on a monotone guard, \<open>for (l = 0; l < n && base + l < count; l++)\<close>.\<close>

definition while_below :: "nat \<Rightarrow> nat \<Rightarrow> nat list \<Rightarrow> nat list" where
  "while_below base count ks = takeWhile (\<lambda>l. base + l < count) ks"

lemma set_takeWhile_sorted:
  assumes "sorted ks" and "\<And>x y. x \<le> y \<Longrightarrow> P y \<Longrightarrow> P x"
  shows "set (takeWhile P ks) = {k \<in> set ks. P k}"
  using assms(1)
proof (induction ks)
  case Nil
  then show ?case by simp
next
  case (Cons k ks)
  then show ?case using assms(2) by auto
qed

lemma set_while_below:
  "sorted ks \<Longrightarrow> set (while_below base count ks) = {l \<in> set ks. base + l < count}"
  unfolding while_below_def by (rule set_takeWhile_sorted) auto

text \<open>Ceiling division, the block count of every quantised format.\<close>

definition ceil_div :: "nat \<Rightarrow> nat \<Rightarrow> nat" where
  "ceil_div n k = (n + k - 1) div k"

lemma less_ceil_div: "0 < k \<Longrightarrow> b < ceil_div n k \<longleftrightarrow> b * k < n"
proof -
  assume k: "0 < k"
  have "b < ceil_div n k \<longleftrightarrow> Suc b \<le> (n + k - 1) div k" by (simp add: ceil_div_def Suc_le_eq)
  also have "\<dots> \<longleftrightarrow> Suc b * k \<le> n + k - 1"
    using k by (simp add: less_eq_div_iff_mult_less_eq)
  also have "\<dots> \<longleftrightarrow> b * k < n" using k by auto
  finally show ?thesis .
qed

lemma ceil_div_mult [simp]: "0 < k \<Longrightarrow> ceil_div (m * k) k = m"
proof (rule antisym)
  assume k: "0 < k"
  show "ceil_div (m * k) k \<le> m"
    using less_ceil_div[OF k, of m "m * k"] k by (simp add: not_less[symmetric] del: not_less)
  show "m \<le> ceil_div (m * k) k"
    using less_ceil_div[OF k, of "m - 1" "m * k"] k by (cases m) auto
qed

lemma blocks_cover:
  assumes k: "0 < k"
  shows "(\<Union>b < ceil_div n k. {b * k..<b * k + k} \<inter> {..<n}) = {..<n}"
proof
  show "{..<n} \<subseteq> (\<Union>b < ceil_div n k. {b * k..<b * k + k} \<inter> {..<n})"
  proof
    fix i assume i: "i \<in> {..<n}"
    have "i div k * k \<le> i" by simp
    moreover have "i < i div k * k + k" using k by (metis dividend_less_div_times add.commute)
    moreover have "i div k < ceil_div n k"
      using i less_ceil_div[OF k, of "i div k" n] \<open>i div k * k \<le> i\<close> by auto
    ultimately show "i \<in> (\<Union>b < ceil_div n k. {b * k..<b * k + k} \<inter> {..<n})"
      using i by (intro UN_I[of "i div k"]) auto
  qed
qed auto

text \<open>Loops that carry a running state (pointers, shifts, masks) beside the buffer.\<close>

lemma for_loop_append: "for_loop (xs @ ys) f s = for_loop ys f (for_loop xs f s)"
  by (simp add: for_loop_def)

lemma for_loop_map: "for_loop (map f ks) body s = for_loop ks (\<lambda>k. body (f k)) s"
  by (simp add: for_loop_def fold_map comp_def)

lemma for_loop_state:
  assumes "\<And>k s. k < N \<Longrightarrow> body (f k) (st k, s) = (st (Suc k), override_on s w (S k))"
  shows "for_loop (map f [0..<N]) body (st 0, s) = (st N, override_on s w (\<Union>k < N. S k))"
  using assms
proof (induction N)
  case 0
  then show ?case by (simp add: for_loop_def)
next
  case (Suc N)
  then show ?case by (simp add: for_loop_append for_loop_def lessThan_Suc Un_commute)
qed

lemma takeWhile_map_upt:
  "\<exists>M \<le> N. takeWhile P (map f [0..<N]) = map f [0..<M] \<and> (M < N \<longrightarrow> \<not> P (f M))"
proof (induction N)
  case 0
  then show ?case by simp
next
  case (Suc N)
  then obtain M where M: "M \<le> N" "takeWhile P (map f [0..<N]) = map f [0..<M]" "M < N \<longrightarrow> \<not> P (f M)"
    by blast
  show ?case
  proof (cases "M < N")
    case True
    have "f M \<in> set (map f [0..<N])" using True by auto
    then have "takeWhile P (map f [0..<Suc N]) = takeWhile P (map f [0..<N])"
      using M(3) True takeWhile_append1[of "f M" "map f [0..<N]" P] by simp
    with M True show ?thesis by (intro exI[of _ M]) auto
  next
    case False
    with M have all: "takeWhile P (map f [0..<N]) = map f [0..<N]" and MN: "M = N" by auto
    then have ok: "\<And>x. x \<in> set (map f [0..<N]) \<Longrightarrow> P x" by (metis set_takeWhileD)
    show ?thesis
    proof (cases "P (f N)")
      case True
      then show ?thesis
        using ok by (intro exI[of _ "Suc N"]) (auto simp: takeWhile_append2)
    next
      case False
      then show ?thesis
        using ok takeWhile_append2[of "map f [0..<N]" P "[f N]"] by (intro exI[of _ N]) auto
    qed
  qed
qed

text \<open>With an early exit, when an iteration past the exit would store nothing.\<close>

lemma for_loop_state_while:
  assumes body: "\<And>k s. k < N \<Longrightarrow> body (f k) (st k, s) = (st (Suc k), override_on s w (S k))"
    and empty: "\<And>j k. j \<le> k \<Longrightarrow> k < N \<Longrightarrow> \<not> P (f j) \<Longrightarrow> S k = {}"
  shows "snd (for_loop (takeWhile P (map f [0..<N])) body (st 0, s)) = override_on s w (\<Union>k < N. S k)"
proof -
  obtain M where M: "M \<le> N" "takeWhile P (map f [0..<N]) = map f [0..<M]" "M < N \<longrightarrow> \<not> P (f M)"
    using takeWhile_map_upt by blast
  have "(\<Union>k < N. S k) = (\<Union>k < M. S k)"
  proof
    show "(\<Union>k < N. S k) \<subseteq> (\<Union>k < M. S k)"
    proof
      fix x assume "x \<in> (\<Union>k < N. S k)"
      then obtain k where k: "k < N" "x \<in> S k" by auto
      have "k < M"
      proof (rule ccontr)
        assume "\<not> k < M"
        then have "M < N" and le: "M \<le> k" using k(1) by auto
        with M(3) empty[OF le k(1)] k(2) show False by auto
      qed
      with k show "x \<in> (\<Union>k < M. S k)" by auto
    qed
    show "(\<Union>k < M. S k) \<subseteq> (\<Union>k < N. S k)"
      using M(1) by (intro UN_mono) auto
  qed
  moreover have "for_loop (map f [0..<M]) body (st 0, s) = (st M, override_on s w (\<Union>k < M. S k))"
    using M(1) body by (intro for_loop_state) auto
  ultimately show ?thesis by (simp add: M(2))
qed

text \<open>A sequence of blocks of equal length.\<close>

lemma slot_bounds: "r < tr \<Longrightarrow> g < n \<Longrightarrow> r * n + g < tr * (n :: nat)"
proof -
  assume a: "r < tr" "g < n"
  then have "r * n + g < Suc r * n" by simp
  also have "\<dots> \<le> tr * n" using a(1) by (intro mult_le_mono1) simp
  finally show ?thesis .
qed

lemma concat_blocks:
  assumes "\<And>k. k < n \<Longrightarrow> length (f k) = L"
  shows "length (concat (map f [0..<n])) = n * L" "k < n \<Longrightarrow> j < L \<Longrightarrow> concat (map f [0..<n]) ! (k * L + j) = f k ! j"
proof -
  have len: "length (concat (map f [0..<n])) = n * L" using assms by (induction n) simp_all
  then show "length (concat (map f [0..<n])) = n * L" .
  show "k < n \<Longrightarrow> j < L \<Longrightarrow> concat (map f [0..<n]) ! (k * L + j) = f k ! j"
    using assms
  proof (induction n)
    case (Suc n)
    have len: "length (concat (map f [0..<n])) = n * L" using Suc.prems(3) by (induction n) simp_all
    show ?case
    proof (cases "k < n")
      case True
      have "concat (map f [0..<n]) ! (k * L + j) = f k ! j" by (rule Suc.IH[OF True Suc.prems(2)]) (use Suc.prems(3) in simp)
      then show ?thesis using slot_bounds[OF True Suc.prems(2)] len by (simp add: nth_append)
    next
      case False
      then have "k = n" using Suc.prems(1) by simp
      then show ?thesis using len by (simp add: nth_append)
    qed
  qed simp
qed

end
