(* ===== verification/ModelPool.thy ===== *)
theory ModelPool
  imports Prelude
begin

text \<open>
  The unified model pool (\<open>src/unified_pool.h\<close>, \<open>src/unified_pool.cpp\<close>): a vector of slots, one
  per model file, each with a resident mapping of the file and a reference count. The operating
  system's \<open>map_whole_file\<close> and the header parser of a .1bp file are parameters: they only say
  whether a path can be mapped (and how large it is) and what its header holds.
\<close>

section \<open>State\<close>

record onebp_dims =
  d_H :: int
  d_NC :: int
  d_NH :: int
  d_NKV :: int
  d_HD :: int
  d_IM :: int
  d_V :: int
  d_quant :: int

definition no_dims :: onebp_dims where
  "no_dims = \<lparr>d_H = 0, d_NC = 0, d_NH = 0, d_NKV = 0, d_HD = 0, d_IM = 0, d_V = 0, d_quant = 0\<rparr>"

text \<open>\<open>ms_mapped\<close> is \<open>mmap_data != nullptr\<close>.\<close>

record model_slot =
  ms_name :: string
  ms_path :: string
  ms_kind :: string
  ms_mapped :: bool
  ms_size :: nat
  ms_dims :: onebp_dims
  ms_refcount :: int

type_synonym pool = "model_slot list"

record fs_env =
  map_file :: "string \<Rightarrow> nat option"
  open_1bp :: "string \<Rightarrow> onebp_dims option"

section \<open>Operations\<close>

definition base_name :: "string \<Rightarrow> string" where
  "base_name path =
     (let n = (case find_last_char CHR ''/'' path of None \<Rightarrow> path | Some i \<Rightarrow> drop (i + 1) path)
      in case find_last_char CHR ''.'' n of None \<Rightarrow> n | Some d \<Rightarrow> take d n)"

definition has_1bp_suffix :: "string \<Rightarrow> bool" where
  "has_1bp_suffix path \<longleftrightarrow> 4 < length path \<and> drop (length path - 4) path = ''.1bp''"

definition new_slot :: "fs_env \<Rightarrow> string \<Rightarrow> nat \<Rightarrow> model_slot" where
  "new_slot env path sz =
     (let s = \<lparr>ms_name = base_name path, ms_path = path, ms_kind = ''generic'', ms_mapped = True,
               ms_size = sz, ms_dims = no_dims, ms_refcount = 1\<rparr>
      in if has_1bp_suffix path then
           (case open_1bp env path of
              Some h \<Rightarrow> s\<lparr>ms_dims := h, ms_kind := ''1bp''\<rparr>
            | None \<Rightarrow> s)
         else s)"

definition pool_load :: "fs_env \<Rightarrow> string \<Rightarrow> pool \<Rightarrow> int \<times> pool" where
  "pool_load env path slots =
     (case find_entry (\<lambda>s. ms_path s = path) slots of
        Some i \<Rightarrow> (int i, slots[i := (slots ! i)\<lparr>ms_refcount := ms_refcount (slots ! i) + 1\<rparr>])
      | None \<Rightarrow>
          (case map_file env path of
             None \<Rightarrow> (-1, slots)
           | Some sz \<Rightarrow> (int (length slots), slots @ [new_slot env path sz])))"

definition pool_get :: "int \<Rightarrow> pool \<Rightarrow> model_slot option" where
  "pool_get slot slots =
     (if slot < 0 \<or> int (length slots) \<le> slot then None else Some (slots ! nat slot))"

definition pool_find :: "string \<Rightarrow> pool \<Rightarrow> model_slot option" where
  "pool_find name slots = map_option (\<lambda>i. slots ! i) (find_entry (\<lambda>s. ms_name s = name) slots)"

definition pool_has_path :: "string \<Rightarrow> pool \<Rightarrow> bool" where
  "pool_has_path path slots \<longleftrightarrow> find_entry (\<lambda>s. ms_path s = path) slots \<noteq> None"

definition pool_unload :: "int \<Rightarrow> pool \<Rightarrow> bool \<times> pool" where
  "pool_unload slot slots =
     (if slot < 0 \<or> int (length slots) \<le> slot then (False, slots)
      else
        let i = nat slot; s = (slots ! i)\<lparr>ms_refcount := ms_refcount (slots ! i) - 1\<rparr>
        in if 0 < ms_refcount s then (True, slots[i := s])
           else (True, slots[i := s\<lparr>ms_mapped := False\<rparr>]))"

definition pool_count :: "pool \<Rightarrow> nat" where
  "pool_count slots = length slots"

section \<open>Client sequences\<close>

datatype pool_op = Load string | Unload int

fun pool_step :: "fs_env \<Rightarrow> pool_op \<Rightarrow> pool \<Rightarrow> pool" where
  "pool_step env (Load p) slots = snd (pool_load env p slots)"
| "pool_step env (Unload i) slots = snd (pool_unload i slots)"

definition pool_run :: "fs_env \<Rightarrow> pool_op list \<Rightarrow> pool \<Rightarrow> pool" where
  "pool_run env ops slots = fold (pool_step env) ops slots"

section \<open>Invariants\<close>

text \<open>One slot per path; a slot holds a reference exactly while its file is mapped.\<close>

definition distinct_paths :: "pool \<Rightarrow> bool" where
  "distinct_paths slots \<longleftrightarrow> distinct (map ms_path slots)"

definition resident :: "pool \<Rightarrow> bool" where
  "resident slots \<longleftrightarrow> (\<forall>s \<in> set slots. (0 < ms_refcount s \<longleftrightarrow> ms_mapped s))"

text \<open>The discipline a client must keep: it loads no path whose references are spent.\<close>

fun op_allowed :: "pool \<Rightarrow> pool_op \<Rightarrow> bool" where
  "op_allowed slots (Load p) \<longleftrightarrow> (\<forall>s \<in> set slots. ms_path s = p \<longrightarrow> 0 < ms_refcount s)"
| "op_allowed slots (Unload i) \<longleftrightarrow> True"

lemma paths_pool_load:
  "map ms_path (snd (pool_load env p slots)) =
     map ms_path slots @
       (if pool_has_path p slots \<or> map_file env p = None then [] else [p])"
  by (auto simp: pool_load_def pool_has_path_def new_slot_def map_update Let_def
      split: option.splits dest!: find_entry_SomeD intro!: list_update_same_conv[THEN iffD2])

lemma paths_pool_unload: "map ms_path (snd (pool_unload i slots)) = map ms_path slots"
  by (auto simp: pool_unload_def Let_def map_update list_update_same_conv)

lemma pool_has_path_iff: "pool_has_path p slots \<longleftrightarrow> p \<in> ms_path ` set slots"
  by (auto simp: pool_has_path_def find_entry_None_iff simp del: not_None_eq)

lemma distinct_paths_step: "distinct_paths slots \<Longrightarrow> distinct_paths (pool_step env op slots)"
  by (cases op) (auto simp: distinct_paths_def paths_pool_load paths_pool_unload pool_has_path_iff)

lemma distinct_paths_run: "distinct_paths slots \<Longrightarrow> distinct_paths (pool_run env ops slots)"
  by (induction ops arbitrary: slots) (auto simp: pool_run_def intro: distinct_paths_step)

lemma resident_update:
  "resident slots \<Longrightarrow> (0 < ms_refcount s \<longleftrightarrow> ms_mapped s) \<Longrightarrow> resident (slots[i := s])"
  using set_update_subset_insert[of slots i s] by (auto simp: resident_def)

lemma resident_new_slot: "0 < ms_refcount (new_slot env p n) \<longleftrightarrow> ms_mapped (new_slot env p n)"
  by (simp add: new_slot_def Let_def split: option.splits)

lemma resident_step:
  assumes "resident slots" "op_allowed slots op"
  shows "resident (pool_step env op slots)"
proof (cases op)
  case (Load p)
  then show ?thesis
    using assms
    by (auto simp: pool_load_def split: option.splits dest!: find_entry_SomeD
        intro!: resident_update)
       (auto simp: resident_def resident_new_slot)
next
  case (Unload i)
  have "nat i < length slots \<Longrightarrow> 1 < ms_refcount (slots ! nat i) \<Longrightarrow> ms_mapped (slots ! nat i)"
    using assms(1) nth_mem[of "nat i" slots] by (force simp: resident_def)
  with Unload assms(1) show ?thesis
    by (auto simp: pool_unload_def Let_def intro!: resident_update)
qed


fun allowed_run :: "fs_env \<Rightarrow> pool \<Rightarrow> pool_op list \<Rightarrow> bool" where
  "allowed_run env slots [] \<longleftrightarrow> True"
| "allowed_run env slots (op # ops) \<longleftrightarrow>
     op_allowed slots op \<and> allowed_run env (pool_step env op slots) ops"

lemma resident_run:
  "resident slots \<Longrightarrow> allowed_run env slots ops \<Longrightarrow> resident (pool_run env ops slots)"
  by (induction ops arbitrary: slots) (auto simp: pool_run_def intro: resident_step)

section \<open>Reference counts\<close>

definition loads_of :: "string \<Rightarrow> pool_op list \<Rightarrow> int" where
  "loads_of p ops = int (length (filter (\<lambda>op. op = Load p) ops))"

definition unloads_of :: "nat \<Rightarrow> pool_op list \<Rightarrow> int" where
  "unloads_of i ops = int (length (filter (\<lambda>op. op = Unload (int i)) ops))"

lemma find_path_distinct:
  assumes "distinct_paths slots" "find_entry (\<lambda>s. ms_path s = p) slots = Some k" "i < length slots"
  shows "ms_path (slots ! i) = p \<longleftrightarrow> k = i"
  using assms find_entry_SomeD[OF assms(2)]
  by (auto simp: distinct_paths_def nth_eq_iff_index_eq[of "map ms_path slots" i k, simplified])

lemma refcount_step:
  assumes "distinct_paths slots" "i < length slots"
  shows "i < length (pool_step env op slots)"
    and "ms_path (pool_step env op slots ! i) = ms_path (slots ! i)"
    and "ms_refcount (pool_step env op slots ! i) =
      ms_refcount (slots ! i) + (if op = Load (ms_path (slots ! i)) then 1 else 0)
        - (if op = Unload (int i) then 1 else 0)"
proof -
  show "i < length (pool_step env op slots)"
    using assms by (cases op) (auto simp: pool_load_def pool_unload_def Let_def split: option.splits)
  show "ms_path (pool_step env op slots ! i) = ms_path (slots ! i)"
    using assms
    by (cases op)
       (auto simp: pool_load_def pool_unload_def Let_def nth_list_update nth_append
         split: option.splits dest!: find_entry_SomeD)
  show "ms_refcount (pool_step env op slots ! i) =
      ms_refcount (slots ! i) + (if op = Load (ms_path (slots ! i)) then 1 else 0)
        - (if op = Unload (int i) then 1 else 0)"
  proof (cases op)
    case (Load p)
    show ?thesis
    proof (cases "find_entry (\<lambda>s. ms_path s = p) slots")
      case None
      then have "ms_path (slots ! i) \<noteq> p" using assms(2) by (auto simp: find_entry_None_iff)
      with None Load assms show ?thesis
        by (auto simp: pool_load_def nth_append split: option.splits)
    next
      case (Some k)
      then show ?thesis
        using Load assms find_path_distinct[OF assms(1) Some assms(2)] find_entry_SomeD[OF Some]
        by (auto simp: pool_load_def nth_list_update)
    qed
  next
    case (Unload j)
    then show ?thesis
      using assms by (auto simp: pool_unload_def Let_def nth_list_update)
  qed
qed

lemma refcount_run:
  assumes "distinct_paths slots" "i < length slots"
  shows "ms_refcount (pool_run env ops slots ! i) =
      ms_refcount (slots ! i) + loads_of (ms_path (slots ! i)) ops - unloads_of i ops"
  using assms
proof (induction ops arbitrary: slots)
  case Nil
  then show ?case by (simp add: pool_run_def loads_of_def unloads_of_def)
next
  case (Cons op ops)
  note st = refcount_step[OF Cons.prems, of env op]
  have "ms_refcount (pool_run env ops (pool_step env op slots) ! i) =
      ms_refcount (pool_step env op slots ! i) +
        loads_of (ms_path (pool_step env op slots ! i)) ops - unloads_of i ops"
    using Cons.IH distinct_paths_step[OF Cons.prems(1)] st(1) by blast
  then show ?case
    by (simp add: st(2,3)) (simp add: pool_run_def loads_of_def unloads_of_def)
qed

section \<open>Properties\<close>

lemma pool_run_append: "pool_run env (a @ b) slots = pool_run env b (pool_run env a slots)"
  by (simp add: pool_run_def)

lemma length_pool_run: "length slots \<le> length (pool_run env ops slots)"
proof (induction ops arbitrary: slots)
  case (Cons op ops)
  have "length slots \<le> length (pool_step env op slots)"
    by (cases op) (auto simp: pool_load_def pool_unload_def Let_def split: option.splits)
  also have "\<dots> \<le> length (pool_run env ops (pool_step env op slots))" by (rule Cons.IH)
  finally show ?case by (simp add: pool_run_def)
qed (simp add: pool_run_def)

text \<open>C38. Loading a path returns -1 and leaves the pool alone exactly when the path is neither
  pooled nor mappable; otherwise the returned index addresses a slot of that path, every slot that
  was there keeps its index and path, and no path ever has two slots.\<close>

theorem pool_load_correct:
  assumes "distinct_paths slots"
  shows "case pool_load env p slots of (r, slots') \<Rightarrow>
    distinct_paths slots' \<and>
    (if p \<in> ms_path ` set slots \<or> map_file env p \<noteq> None
     then (\<exists>s. pool_get r slots' = Some s \<and> ms_path s = p)
          \<and> take (length slots) (map ms_path slots') = map ms_path slots
     else r = -1 \<and> slots' = slots)"
proof -
  have "distinct_paths (snd (pool_load env p slots))"
    using distinct_paths_step[OF assms, of env "Load p"] by simp
  moreover have "take (length slots) (map ms_path (snd (pool_load env p slots))) = map ms_path slots"
    by (simp add: paths_pool_load)
  moreover have "p \<in> ms_path ` set slots \<or> map_file env p \<noteq> None \<Longrightarrow>
      \<exists>s. pool_get (fst (pool_load env p slots)) (snd (pool_load env p slots)) = Some s \<and> ms_path s = p"
    by (auto simp: pool_load_def pool_get_def new_slot_def Let_def find_entry_None_iff nth_append
        split: option.splits dest!: find_entry_SomeD)
  moreover have "\<not> (p \<in> ms_path ` set slots \<or> map_file env p \<noteq> None) \<Longrightarrow>
      pool_load env p slots = (-1, slots)"
    using find_entry_None_iff[of "\<lambda>s. ms_path s = p" slots] by (auto simp: pool_load_def)
  ultimately show ?thesis by (auto split: prod.split)
qed

definition demo_env :: fs_env where
  "demo_env = \<lparr>map_file = (\<lambda>p. if p = ''/m/a.1bp'' \<or> p = ''b.gguf'' then Some 64 else None),
               open_1bp = (\<lambda>p. None)\<rparr>"

theorem pool_load_correct_witness:
  "distinct_paths (pool_run demo_env [Load ''b.gguf''] []) \<and>
   (case pool_load demo_env ''/m/a.1bp'' (pool_run demo_env [Load ''b.gguf''] []) of (r, slots') \<Rightarrow>
      distinct_paths slots')"
proof -
  have h: "distinct_paths (pool_run demo_env [Load ''b.gguf''] [])"
    by (rule distinct_paths_run) (simp add: distinct_paths_def)
  show ?thesis
    using h pool_load_correct[OF h, of "''/m/a.1bp''" demo_env] by (auto split: prod.splits)
qed

text \<open>C39. Reference counting is exact: after any sequence of loads and unloads of a pool, the
  count of a slot is what it was, plus the loads of its path, minus the unloads of its index; a
  slot is never moved and never changes its path.\<close>

theorem pool_refcount_exact:
  assumes "distinct_paths slots" "i < length slots"
  shows "i < length (pool_run env ops slots) \<and>
    ms_path (pool_run env ops slots ! i) = ms_path (slots ! i) \<and>
    ms_refcount (pool_run env ops slots ! i) =
      ms_refcount (slots ! i) + loads_of (ms_path (slots ! i)) ops - unloads_of i ops"
proof (intro conjI)
  show "i < length (pool_run env ops slots)"
    using assms(2) length_pool_run by (rule less_le_trans)
  show "ms_path (pool_run env ops slots ! i) = ms_path (slots ! i)"
    using assms
  proof (induction ops arbitrary: slots)
    case (Cons op ops)
    then show ?case
      using refcount_step(1,2)[OF Cons.prems, of env op] distinct_paths_step[OF Cons.prems(1)]
      by (simp add: pool_run_def)
  qed (simp add: pool_run_def)
  show "ms_refcount (pool_run env ops slots ! i) =
      ms_refcount (slots ! i) + loads_of (ms_path (slots ! i)) ops - unloads_of i ops"
    by (rule refcount_run[OF assms])
qed

definition demo_pool :: pool where
  "demo_pool = [new_slot demo_env ''b.gguf'' 64]"

lemma demo_pool_distinct: "distinct_paths demo_pool"
  by (simp add: demo_pool_def distinct_paths_def)

theorem pool_refcount_exact_witness:
  "ms_refcount (pool_run demo_env [Load ''b.gguf'', Unload 0, Load ''b.gguf''] demo_pool ! 0) = 2"
proof -
  have len: "0 < length demo_pool" by (simp add: demo_pool_def)
  have "ms_refcount (demo_pool ! 0) = 1" "ms_path (demo_pool ! 0) = ''b.gguf''"
    by (simp_all add: demo_pool_def new_slot_def Let_def has_1bp_suffix_def)
  then show ?thesis
    using pool_refcount_exact[OF demo_pool_distinct len,
        of demo_env "[Load ''b.gguf'', Unload 0, Load ''b.gguf'']"]
    by (simp add: loads_of_def unloads_of_def)
qed

text \<open>Residency: as long as a client never loads a path whose references it has already given
  back in full, a slot holds references exactly while its file is mapped, so a positive count
  always means that the mapping is live.\<close>

lemma pool_resident:
  assumes "allowed_run env [] ops" "s \<in> set (pool_run env ops [])"
  shows "0 < ms_refcount s \<longleftrightarrow> ms_mapped s"
  using resident_run[OF _ assms(1)] assms(2) by (simp add: resident_def)

lemma pool_resident_witness:
  "allowed_run demo_env [] [Load ''b.gguf'', Load ''b.gguf'', Unload 0] \<and>
   0 < ms_refcount (hd (pool_run demo_env [Load ''b.gguf'', Load ''b.gguf'', Unload 0] []))"
proof -
  have a: "allowed_run demo_env [] [Load ''b.gguf'', Load ''b.gguf'', Unload 0]"
    by (simp add: pool_load_def demo_env_def new_slot_def has_1bp_suffix_def Let_def)
  have m: "hd (pool_run demo_env [Load ''b.gguf'', Load ''b.gguf'', Unload 0] []) \<in>
      set (pool_run demo_env [Load ''b.gguf'', Load ''b.gguf'', Unload 0] [])"
    and "ms_mapped (hd (pool_run demo_env [Load ''b.gguf'', Load ''b.gguf'', Unload 0] []))"
    by (simp_all add: pool_run_def pool_load_def pool_unload_def demo_env_def new_slot_def
        has_1bp_suffix_def Let_def)
  with a pool_resident[OF a m] show ?thesis by simp
qed

text \<open>C40. The discipline of the residency theorem is needed: when the last reference of a slot is
  given back and the same path is loaded again, the load finds the spent slot, returns its index as
  a success and counts one reference, but the file is not mapped again.\<close>

theorem pool_reload_after_release_is_unmapped:
  assumes "i < length slots" "distinct_paths slots"
    and "ms_path (slots ! i) = p" "ms_refcount (slots ! i) = 1"
  shows "\<exists>s. pool_load env p (snd (pool_unload (int i) slots)) =
        (int i, (snd (pool_unload (int i) slots))[i := s]) \<and>
      ms_path s = p \<and> ms_refcount s = 1 \<and> \<not> ms_mapped s"
proof -
  define slots1 where "slots1 = snd (pool_unload (int i) slots)"
  have s1: "slots1 = slots[i := (slots ! i)\<lparr>ms_refcount := 0, ms_mapped := False\<rparr>]"
    using assms by (simp add: slots1_def pool_unload_def Let_def)
  have len: "i < length slots1" and pth: "ms_path (slots1 ! i) = p"
    using assms by (simp_all add: s1)
  have d: "distinct_paths slots1"
    using assms(2) by (simp add: slots1_def distinct_paths_def paths_pool_unload)
  obtain k where k: "find_entry (\<lambda>s. ms_path s = p) slots1 = Some k"
    using find_entry_ex[of "slots1 ! i" slots1 "\<lambda>s. ms_path s = p"] len pth by auto
  have "k = i" using find_path_distinct[OF d k len] pth by simp
  then have "pool_load env p slots1 =
      (int i, slots1[i := (slots1 ! i)\<lparr>ms_refcount := ms_refcount (slots1 ! i) + 1\<rparr>])"
    using k by (simp add: pool_load_def)
  then show ?thesis
    using assms len pth unfolding slots1_def[symmetric]
    by (intro exI[of _ "(slots1 ! i)\<lparr>ms_refcount := ms_refcount (slots1 ! i) + 1\<rparr>"])
       (auto simp: s1)
qed

theorem pool_reload_after_release_witness:
  "\<exists>s. pool_load demo_env ''b.gguf'' (snd (pool_unload 0 demo_pool)) =
        (0, (snd (pool_unload 0 demo_pool))[0 := s]) \<and> \<not> ms_mapped s"
proof -
  have "0 < length demo_pool" "ms_path (demo_pool ! 0) = ''b.gguf''" "ms_refcount (demo_pool ! 0) = 1"
    by (simp_all add: demo_pool_def new_slot_def Let_def has_1bp_suffix_def)
  then show ?thesis
    using pool_reload_after_release_is_unmapped[OF _ demo_pool_distinct, of 0 "''b.gguf''" demo_env]
    by auto
qed

end
