(* ===== verification/Bytes.thy ===== *)
theory Bytes
  imports Prelude
begin

text \<open>
  Little-endian byte access, as the loaders do it with \<open>memcpy\<close> and \<open>fread\<close> on a little-endian
  host: a \<open>ptr\<close> is a \<open>const uint8_t*\<close> into a block, \<open>adv p k\<close> is \<open>p + k\<close>. The encoders of the same
  integers append to a byte list; the locale \<open>byte_codec\<close> is the contract between the writer and
  the reader of one item, and gives the round trip of a run of items.
\<close>

unbundle bit_operations_syntax

section \<open>Masks and shifts as arithmetic\<close>

lemma unat_mask: "unat (w AND mask n) = unat w mod 2 ^ n"
  by (simp only: take_bit_eq_mask[symmetric] unsigned_take_bit_eq) (simp add: take_bit_eq_mod)

lemma unat_shift_right: "unat (drop_bit n w) = unat w div 2 ^ n"
  by (simp only: unat_drop_bit_eq) (simp add: drop_bit_eq_div)

lemma mask_numerals:
  "(1 :: 'a::len word) = mask 1" "(3 :: 'a::len word) = mask 2" "(0xF :: 'a::len word) = mask 4"
  "(0x1F :: 'a::len word) = mask 5" "(0x3F :: 'a::len word) = mask 6" "(0x3FF :: 'a::len word) = mask 10"
  by (simp_all add: mask_eq_exp_minus_1)

section \<open>Reading through a pointer\<close>

type_synonym ptr = "nat \<Rightarrow> byte"

definition adv :: "ptr \<Rightarrow> nat \<Rightarrow> ptr" where
  "adv p k = (\<lambda>i. p (k + i))"

lemma adv_apply [simp]: "adv p k i = p (k + i)"
  by (simp add: adv_def)

lemma adv_adv: "adv (adv p a) b = adv p (a + b)"
  by (simp add: adv_def fun_eq_iff add.assoc)

lemma adv_0 [simp]: "adv p 0 = p"
  by (simp add: adv_def)

definition rd16 :: "ptr \<Rightarrow> u16" where
  "rd16 p = ucast (p 0) OR push_bit 8 (ucast (p 1))"

definition rd32 :: "ptr \<Rightarrow> u32" where
  "rd32 p = ucast (p 0) OR push_bit 8 (ucast (p 1)) OR push_bit 16 (ucast (p 2))
              OR push_bit 24 (ucast (p 3))"

section \<open>Byte lists\<close>

type_synonym bstr = "byte list"

fun le_bytes :: "nat \<Rightarrow> nat \<Rightarrow> byte list" where
  "le_bytes 0 v = []"
| "le_bytes (Suc n) v = of_nat (v mod 256) # le_bytes n (v div 256)"

fun le_value :: "byte list \<Rightarrow> nat" where
  "le_value [] = 0"
| "le_value (b # bs) = unat b + 256 * le_value bs"

lemma length_le_bytes [simp]: "length (le_bytes n v) = n"
  by (induction n arbitrary: v) auto

lemma unat_byte_less [simp]: "unat (b :: byte) < 256"
  using unsigned_less[of b, where ?'a = nat] by simp

lemma le_value_le_bytes: "v < 256 ^ n \<Longrightarrow> le_value (le_bytes n v) = v"
proof (induction n arbitrary: v)
  case 0
  then show ?case by simp
next
  case (Suc n)
  then have "v div 256 < 256 ^ n" by (simp add: less_mult_imp_div_less mult.commute)
  with Suc show ?case by (simp add: unat_of_nat)
qed

lemma le_value_bound: "le_value bs < 256 ^ length bs"
proof (induction bs)
  case Nil
  then show ?case by simp
next
  case (Cons b bs)
  have "unat b < 256" by (rule unat_byte_less)
  moreover from Cons have "le_value bs + 1 \<le> 256 ^ length bs" by simp
  then have "256 * le_value bs + 256 \<le> 256 * 256 ^ length bs"
    by (metis mult_le_mono2 distrib_left mult.right_neutral)
  ultimately show ?case unfolding length_Cons power_Suc le_value.simps by linarith
qed

lemma le_bytes_le_value: "length bs = n \<Longrightarrow> le_bytes n (le_value bs) = bs"
proof (induction bs arbitrary: n)
  case Nil
  then show ?case by simp
next
  case (Cons b bs)
  then show ?case by (auto simp del: unat_byte_less) (simp_all add: unat_byte_less)
qed

section \<open>The contract between a writer and a reader\<close>

text \<open>A counted run of items, as every table of the file formats is read.\<close>

fun dec_run :: "('b list \<Rightarrow> ('a \<times> 'b list) option) \<Rightarrow> nat \<Rightarrow> 'b list \<Rightarrow> ('a list \<times> 'b list) option" where
  "dec_run dec 0 bs = Some ([], bs)"
| "dec_run dec (Suc n) bs =
     (case dec bs of None \<Rightarrow> None
      | Some (x, bs') \<Rightarrow> map_option (\<lambda>(xs, r). (x # xs, r)) (dec_run dec n bs'))"

locale byte_codec =
  fixes enc :: "'a \<Rightarrow> 'b list"
    and dec :: "'b list \<Rightarrow> ('a \<times> 'b list) option"
    and ok :: "'a \<Rightarrow> bool"
  assumes dec_enc: "ok x \<Longrightarrow> dec (enc x @ rest) = Some (x, rest)"
begin

lemma dec_run_enc:
  "\<forall>x \<in> set xs. ok x \<Longrightarrow>
     dec_run dec (length xs) (concat (map enc xs) @ rest) = Some (xs, rest)"
  by (induction xs) (auto simp: dec_enc)

lemma enc_inj:
  assumes "ok x" "ok y" "enc x @ r = enc y @ r'"
  shows "x = y \<and> r = r'"
proof -
  have "Some (x, r) = dec (enc y @ r')" using dec_enc[OF assms(1)] assms(3) by metis
  then show ?thesis using dec_enc[OF assms(2)] by auto
qed

lemma enc_run_inj:
  assumes "\<forall>x \<in> set xs. ok x" "\<forall>y \<in> set ys. ok y" "length xs = length ys"
    and "concat (map enc xs) @ r = concat (map enc ys) @ r'"
  shows "xs = ys \<and> r = r'"
proof -
  have "Some (xs, r) = dec_run dec (length ys) (concat (map enc ys) @ r')"
    using dec_run_enc[OF assms(1), of r] assms(3,4) by metis
  then show ?thesis using dec_run_enc[OF assms(2)] by auto
qed

end

definition dec_le :: "nat \<Rightarrow> byte list \<Rightarrow> (nat \<times> byte list) option" where
  "dec_le n bs = (if length bs < n then None else Some (le_value (take n bs), drop n bs))"

interpretation le_codec: byte_codec "le_bytes n" "dec_le n" "\<lambda>v. v < 256 ^ n" for n
  by unfold_locales (simp add: dec_le_def le_value_le_bytes)

end
