(* ===== verification/GgufDequant.thy ===== *)
theory GgufDequant
  imports Complex_Main Bytes
begin

text \<open>
  Dequantisation of GGUF tensor blocks (\<open>src/gguf_reader.cpp\<close>): the half-precision reader, the
  6-bit scale unpacking, one routine per block format and the dispatch on the dtype.

  The routines are translated loop by loop. Integer parts (nibbles, bit planes, 6-bit scales) are
  computed exactly; the single-precision operations on them are the fields of an arithmetic \<open>fops\<close>,
  applied in the order the code applies them, so every statement holds for IEEE floats and for any
  other arithmetic. \<open>out\<close> is the output array: a routine returns it updated.

  For each format \<open><format>_elem\<close> is the reference: the value of element \<open>i\<close> as a function of the
  block data. The loop theorems say that a routine stores exactly the reference values at the
  indices below \<open>count\<close> and touches nothing else.
\<close>

section \<open>Half precision\<close>

text \<open>A half is NaN, an infinity with its sign, or a finite value: sign and magnitude, which a
  \<open>float\<close> holds exactly.\<close>

datatype half = HNaN | HInf bool | HFin bool rat

definition read_f16 :: "ptr \<Rightarrow> half" where
  "read_f16 p =
     (let h = rd16 p; s = drop_bit 15 h AND 1; e = drop_bit 10 h AND 0x1f; m = h AND 0x3ff;
          sign = (s \<noteq> 0)
      in if e = 0 then HFin sign (of_nat (unat m) * (1 / 2 ^ 24))
         else if e = 31 then (if m \<noteq> 0 then HNaN else HInf sign)
         else HFin sign ((1 + of_nat (unat m) / 1024) * 2 powi (int (unat e) - 15)))"

section \<open>Arithmetic\<close>

record 'f fops =
  f_half :: "half \<Rightarrow> 'f"
  f_bits :: "u32 \<Rightarrow> 'f"
  f_rat :: "rat \<Rightarrow> 'f"
  f_mul :: "'f \<Rightarrow> 'f \<Rightarrow> 'f"
  f_add :: "'f \<Rightarrow> 'f \<Rightarrow> 'f"
  f_sub :: "'f \<Rightarrow> 'f \<Rightarrow> 'f"
  f_neg :: "'f \<Rightarrow> 'f"
  f_less :: "'f \<Rightarrow> 'f \<Rightarrow> bool"

text \<open>\<open>(float)k\<close> for a small integer, and the value of the \<open>float\<close> that \<open>read_f16\<close> returns.\<close>

definition f_int :: "'f fops \<Rightarrow> int \<Rightarrow> 'f" where
  "f_int fo k = f_rat fo (of_int k)"

abbreviation f16_at :: "'f fops \<Rightarrow> ptr \<Rightarrow> 'f" where
  "f16_at fo p \<equiv> f_half fo (read_f16 p)"

definition bf16_to_fp32 :: "'f fops \<Rightarrow> u16 \<Rightarrow> 'f" where
  "bf16_to_fp32 fo b = f_bits fo (push_bit 16 (ucast b))"

section \<open>Stores guarded by the element count\<close>

definition store_if :: "nat \<Rightarrow> nat \<Rightarrow> 'f \<Rightarrow> 'f buf \<Rightarrow> 'f buf" where
  "store_if n i v out = (if i < n then out(i := v) else out)"

lemma store_if_override:
  "w i = v \<Longrightarrow> store_if n i v out = override_on out w ({i} \<inter> {..<n})"
  by (auto simp: store_if_def override_on_def fun_eq_iff)

lemma store_if_override2:
  "w i = v \<Longrightarrow> w j = u \<Longrightarrow>
     store_if n j u (store_if n i v out) = override_on out w ({i, j} \<inter> {..<n})"
  by (auto simp: store_if_def override_on_def fun_eq_iff)

text \<open>Two nested loops over whole blocks of \<open>k\<close> elements.\<close>

lemma blocks_loop:
  assumes k: "0 < k"
    and body: "\<And>b s. b < ceil_div n k \<Longrightarrow>
      body b s = override_on s w ({b * k..<b * k + k} \<inter> {..<n})"
  shows "for_loop [0..<ceil_div n k] body out = override_on out w {..<n}"
proof -
  have "for_loop [0..<ceil_div n k] body out =
      override_on out w (\<Union>b \<in> set [0..<ceil_div n k]. {b * k..<b * k + k} \<inter> {..<n})"
    by (rule for_loop_override) (auto intro: body)
  then show ?thesis using blocks_cover[OF k, of n] by (simp add: lessThan_atLeast0)
qed

lemma halves_loop:
  assumes "\<And>j s. j < m \<Longrightarrow> body j s = override_on s w ({c + j, c + j + m} \<inter> {..<n})"
  shows "for_loop [0..<m] body s = override_on s w ({c..<c + 2 * m} \<inter> {..<n})"
proof -
  have "for_loop [0..<m] body s =
      override_on s w (\<Union>j \<in> set [0..<m]. {c + j, c + j + m} \<inter> {..<n})"
    by (rule for_loop_override) (auto intro: assms)
  moreover have "(\<Union>j \<in> set [0..<m]. {c + j, c + j + m} \<inter> {..<n}) = {c..<c + 2 * m} \<inter> {..<n}"
    (is "?L = ?R")
  proof
    show "?R \<subseteq> ?L"
    proof
      fix i assume i: "i \<in> ?R"
      show "i \<in> ?L"
      proof (cases "i < c + m")
        case True
        with i show ?thesis by (intro UN_I[of "i - c"]) auto
      next
        case False
        with i show ?thesis by (intro UN_I[of "i - c - m"]) auto
      qed
    qed
  qed auto
  ultimately show ?thesis by simp
qed

section \<open>The 32-element formats\<close>

definition dequant_q4_0 :: "'f fops \<Rightarrow> ptr \<Rightarrow> 'f buf \<Rightarrow> nat \<Rightarrow> 'f buf" where
  "dequant_q4_0 fo bd out count =
     for_loop [0..<ceil_div count 32] (\<lambda>b out.
       let p = adv bd (b * 18); scale = f16_at fo p; q = adv p 2
       in for_loop [0..<16] (\<lambda>j out.
            store_if count (b * 32 + j + 16)
              (f_mul fo (f_int fo (uint (drop_bit 4 (q j)) - 8)) scale)
            (store_if count (b * 32 + j)
              (f_mul fo (f_int fo (uint (q j AND 0xF) - 8)) scale) out)) out) out"

definition q4_0_elem :: "'f fops \<Rightarrow> ptr \<Rightarrow> nat \<Rightarrow> 'f" where
  "q4_0_elem fo bd i =
     (let p = adv bd (i div 32 * 18); e = i mod 32; q = adv p 2 (e mod 16)
      in f_mul fo (f_int fo ((if e < 16 then uint (q AND 0xF) else uint (drop_bit 4 q)) - 8))
           (f16_at fo p))"

lemma block32_index:
  "j < 16 \<Longrightarrow> (b * 32 + j) div 32 = b" "j < 16 \<Longrightarrow> (b * 32 + j) mod 32 = j"
  "j < 16 \<Longrightarrow> (b * 32 + j + 16) div 32 = b" "j < 16 \<Longrightarrow> (b * 32 + j + 16) mod 32 = j + 16"
  "j < 16 \<Longrightarrow> (j + 16) mod 16 = j" for b j :: nat
  by (simp_all add: add.assoc)

lemma dequant_q4_0_eq: "dequant_q4_0 fo bd out n = override_on out (q4_0_elem fo bd) {..<n}"
  unfolding dequant_q4_0_def Let_def
  by (intro blocks_loop, simp, subst halves_loop[where c = "_ * 32" and w = "q4_0_elem fo bd"])
     (auto intro!: store_if_override2 simp: q4_0_elem_def Let_def block32_index)


definition dequant_q4_1 :: "'f fops \<Rightarrow> ptr \<Rightarrow> 'f buf \<Rightarrow> nat \<Rightarrow> 'f buf" where
  "dequant_q4_1 fo bd out count =
     for_loop [0..<ceil_div count 32] (\<lambda>b out.
       let p = adv bd (b * 20); scale = f16_at fo p; mn = f16_at fo (adv p 2); q = adv p 4
       in for_loop [0..<16] (\<lambda>j out.
            store_if count (b * 32 + j + 16)
              (f_add fo (f_mul fo (f_int fo (uint (drop_bit 4 (q j)))) scale) mn)
            (store_if count (b * 32 + j)
              (f_add fo (f_mul fo (f_int fo (uint (q j AND 0xF))) scale) mn) out)) out) out"

definition q4_1_elem :: "'f fops \<Rightarrow> ptr \<Rightarrow> nat \<Rightarrow> 'f" where
  "q4_1_elem fo bd i =
     (let p = adv bd (i div 32 * 20); e = i mod 32; q = adv p 4 (e mod 16)
      in f_add fo (f_mul fo (f_int fo (if e < 16 then uint (q AND 0xF) else uint (drop_bit 4 q)))
                    (f16_at fo p))
           (f16_at fo (adv p 2)))"

lemma dequant_q4_1_eq: "dequant_q4_1 fo bd out n = override_on out (q4_1_elem fo bd) {..<n}"
  unfolding dequant_q4_1_def Let_def
  by (intro blocks_loop, simp, subst halves_loop[where c = "_ * 32" and w = "q4_1_elem fo bd"])
     (auto intro!: store_if_override2 simp: q4_1_elem_def Let_def block32_index)

text \<open>The fifth bits of a Q5 block: bit \<open>j\<close> of \<open>qh\<close> for the low half, \<open>(qh >> (j + 12)) & 0x10\<close> for
  the high half.\<close>

definition xh_0 :: "u32 \<Rightarrow> nat \<Rightarrow> byte" where
  "xh_0 qh j = ucast (push_bit 4 (drop_bit j qh) AND 0x10)"

definition xh_1 :: "u32 \<Rightarrow> nat \<Rightarrow> byte" where
  "xh_1 qh j = ucast (drop_bit (j + 12) qh AND 0x10)"

definition dequant_q5_0 :: "'f fops \<Rightarrow> ptr \<Rightarrow> 'f buf \<Rightarrow> nat \<Rightarrow> 'f buf" where
  "dequant_q5_0 fo bd out count =
     for_loop [0..<ceil_div count 32] (\<lambda>b out.
       let p = adv bd (b * 22); scale = f16_at fo p; qh = rd32 (adv p 2); q = adv p 6
       in for_loop [0..<16] (\<lambda>j out.
            store_if count (b * 32 + j + 16)
              (f_mul fo (f_int fo (uint (drop_bit 4 (q j) OR xh_1 qh j) - 16)) scale)
            (store_if count (b * 32 + j)
              (f_mul fo (f_int fo (uint ((q j AND 0xF) OR xh_0 qh j) - 16)) scale) out)) out) out"

definition q5_code :: "u32 \<Rightarrow> byte \<Rightarrow> nat \<Rightarrow> byte" where
  "q5_code qh q e = (if e < 16 then (q AND 0xF) OR xh_0 qh e else drop_bit 4 q OR xh_1 qh (e - 16))"

definition q5_0_elem :: "'f fops \<Rightarrow> ptr \<Rightarrow> nat \<Rightarrow> 'f" where
  "q5_0_elem fo bd i =
     (let p = adv bd (i div 32 * 22); e = i mod 32
      in f_mul fo (f_int fo (uint (q5_code (rd32 (adv p 2)) (adv p 6 (e mod 16)) e) - 16))
           (f16_at fo p))"

lemma dequant_q5_0_eq: "dequant_q5_0 fo bd out n = override_on out (q5_0_elem fo bd) {..<n}"
  unfolding dequant_q5_0_def Let_def
  by (intro blocks_loop, simp, subst halves_loop[where c = "_ * 32" and w = "q5_0_elem fo bd"])
     (auto intro!: store_if_override2 simp: q5_0_elem_def q5_code_def Let_def block32_index)

definition dequant_q5_1 :: "'f fops \<Rightarrow> ptr \<Rightarrow> 'f buf \<Rightarrow> nat \<Rightarrow> 'f buf" where
  "dequant_q5_1 fo bd out count =
     for_loop [0..<ceil_div count 32] (\<lambda>b out.
       let p = adv bd (b * 24); scale = f16_at fo p; mn = f16_at fo (adv p 2);
           qh = rd32 (adv p 4); q = adv p 8
       in for_loop [0..<16] (\<lambda>j out.
            store_if count (b * 32 + j + 16)
              (f_add fo (f_mul fo (f_int fo (uint (drop_bit 4 (q j) OR xh_1 qh j))) scale) mn)
            (store_if count (b * 32 + j)
              (f_add fo (f_mul fo (f_int fo (uint ((q j AND 0xF) OR xh_0 qh j))) scale) mn) out))
          out) out"

definition q5_1_elem :: "'f fops \<Rightarrow> ptr \<Rightarrow> nat \<Rightarrow> 'f" where
  "q5_1_elem fo bd i =
     (let p = adv bd (i div 32 * 24); e = i mod 32
      in f_add fo (f_mul fo (f_int fo (uint (q5_code (rd32 (adv p 4)) (adv p 8 (e mod 16)) e)))
                    (f16_at fo p))
           (f16_at fo (adv p 2)))"

lemma dequant_q5_1_eq: "dequant_q5_1 fo bd out n = override_on out (q5_1_elem fo bd) {..<n}"
  unfolding dequant_q5_1_def Let_def
  by (intro blocks_loop, simp, subst halves_loop[where c = "_ * 32" and w = "q5_1_elem fo bd"])
     (auto intro!: store_if_override2 simp: q5_1_elem_def q5_code_def Let_def block32_index)

text \<open>A run of stores that stops at \<open>count\<close>.\<close>

lemma run_loop:
  assumes "\<And>l. l < m \<Longrightarrow> w (c + l) = v l"
  shows "for_loop (while_below c n [0..<m]) (\<lambda>l out. out(c + l := v l)) s =
    override_on s w ({c..<c + m} \<inter> {..<n})"
proof -
  have "for_loop (while_below c n [0..<m]) (\<lambda>l out. out(c + l := v l)) s =
      override_on s w (\<Union>l \<in> set (while_below c n [0..<m]). {c + l})"
    by (rule for_loop_override) (auto simp: set_while_below assms intro: upd_override_on)
  moreover have "(\<Union>l \<in> set (while_below c n [0..<m]). {c + l}) = {c..<c + m} \<inter> {..<n}"
    by (auto simp: set_while_below) (metis add_diff_inverse_nat less_diff_conv2 not_le add.commute)
  ultimately show ?thesis by simp
qed

definition dequant_q8_0 :: "'f fops \<Rightarrow> ptr \<Rightarrow> 'f buf \<Rightarrow> nat \<Rightarrow> 'f buf" where
  "dequant_q8_0 fo bd out count =
     for_loop [0..<ceil_div count 32] (\<lambda>b out.
       let p = adv bd (b * 34); scale = f16_at fo p; q = adv p 2
       in for_loop (while_below (b * 32) count [0..<32]) (\<lambda>j out.
            out(b * 32 + j := f_mul fo (f_int fo (sint (q j))) scale)) out) out"

definition q8_0_elem :: "'f fops \<Rightarrow> ptr \<Rightarrow> nat \<Rightarrow> 'f" where
  "q8_0_elem fo bd i =
     (let p = adv bd (i div 32 * 34)
      in f_mul fo (f_int fo (sint (adv p 2 (i mod 32)))) (f16_at fo p))"

lemma dequant_q8_0_eq: "dequant_q8_0 fo bd out n = override_on out (q8_0_elem fo bd) {..<n}"
  unfolding dequant_q8_0_def Let_def
  by (intro blocks_loop, simp, subst run_loop[where w = "q8_0_elem fo bd"])
     (auto simp: q8_0_elem_def Let_def)


section \<open>Loops of the 256-element formats\<close>

text \<open>The block loop of a format whose block pointer runs along.\<close>

lemma blocks_state:
  assumes k: "0 < k"
    and body: "\<And>b s. b < ceil_div n k \<Longrightarrow>
      body b (b * z, s) = (Suc b * z, override_on s w ({b * k..<b * k + k} \<inter> {..<n}))"
  shows "snd (for_loop [0..<ceil_div n k] body (0, out)) = override_on out w {..<n}"
proof -
  have "for_loop (map id [0..<ceil_div n k]) body ((\<lambda>b. b * z) 0, out) =
      ((\<lambda>b. b * z) (ceil_div n k),
       override_on out w (\<Union>b < ceil_div n k. {b * k..<b * k + k} \<inter> {..<n}))"
    by (rule for_loop_state) (use body in auto)
  then show ?thesis using blocks_cover[OF k, of n] by simp
qed

lemma UN_runs: "(\<Union>k < m. {c + k * r..<c + k * r + r} \<inter> N) = {c..<c + m * r} \<inter> N" for c r :: nat
proof (induction m)
  case (Suc m)
  have "{c..<c + m * r} \<union> {c + m * r..<c + m * r + r} = {c..<c + Suc m * r}"
    by auto
  then have "{c..<c + Suc m * r} \<inter> N =
      {c..<c + m * r} \<inter> N \<union> ({c + m * r..<c + m * r + r} \<inter> N)" by blast
  with Suc show ?case by (simp only: lessThan_Suc UN_insert Un_commute)
qed simp

text \<open>A loop over \<open>m\<close> consecutive runs of \<open>r\<close> elements, and the same loop when it stops early at \<open>n\<close>.\<close>

lemma runs_loop:
  assumes "\<And>k s. k < m \<Longrightarrow>
      body k (st k, s) = (st (Suc k), override_on s w ({c + k * r..<c + k * r + r} \<inter> {..<n}))"
  shows "for_loop [0..<m] body (st 0, s) = (st m, override_on s w ({c..<c + m * r} \<inter> {..<n}))"
proof -
  have "for_loop (map id [0..<m]) body (st 0, s) =
      (st m, override_on s w (\<Union>k < m. {c + k * r..<c + k * r + r} \<inter> {..<n}))"
    by (rule for_loop_state) (use assms in auto)
  from this[unfolded UN_runs] show ?thesis by simp
qed

lemma runs_loop_while:
  assumes "\<And>k s. k < m \<Longrightarrow> body (k * r) (st k, s) =
      (st (Suc k), override_on s w ({c + k * r..<c + k * r + r} \<inter> {..<n}))"
  shows "snd (for_loop (takeWhile (\<lambda>i. c + i < n) (map (\<lambda>k. k * r) [0..<m])) body (st 0, s)) =
    override_on s w ({c..<c + m * r} \<inter> {..<n})"
proof -
  have "{c + k * r..<c + k * r + r} \<inter> {..<n} = {}" if "j \<le> k" "\<not> c + j * r < n" for j k
  proof -
    have "j * r \<le> k * r" using that(1) by simp
    then have "n \<le> c + k * r" using that(2) by linarith
    then show ?thesis by auto
  qed
  then have "snd (for_loop (takeWhile (\<lambda>i. c + i < n) (map (\<lambda>k. k * r) [0..<m])) body (st 0, s)) =
    override_on s w (\<Union>k < m. {c + k * r..<c + k * r + r} \<inter> {..<n})"
    by (intro for_loop_state_while assms) auto
  from this[unfolded UN_runs] show ?thesis by simp
qed

lemma steps_128: "[0, 128] = map (\<lambda>k. k * 128) [0..<2::nat]"
  by (simp add: upt_rec)

lemma steps_64: "[0, 64, 128, 192] = map (\<lambda>k. k * 64) [0..<4::nat]"
  by (simp add: upt_rec)

text \<open>Where an element of a 256-element block lies.\<close>

lemma kq_index16:
  fixes i b h j u l :: nat
  assumes "h < 2" "j < 4" "u < 2" "l < 16" "i = b * 256 + h * 128 + j * 32 + u * 16 + l"
  shows "i div 256 = b" "i div 128 mod 2 = h" "i div 32 mod 4 = j" "i div 16 mod 2 = u"
    "i mod 16 = l" "i mod 32 = u * 16 + l"
proof -
  have a: "i = l + (u + (j + (h + b * 2) * 4) * 2) * 16" using assms(5) by simp
  have d16: "i div 16 = u + (j + (h + b * 2) * 4) * 2"
    unfolding a using assms(4) by (subst div_mult_self1) simp_all
  have d32: "i div 32 = j + (h + b * 2) * 4"
    using div_mult2_eq[of i 16 2] assms(3) unfolding d16 by (subst (asm) div_mult_self1) simp_all
  have d128: "i div 128 = h + b * 2"
    using div_mult2_eq[of i 32 4] assms(2) unfolding d32 by (subst (asm) div_mult_self1) simp_all
  show "i div 256 = b"
    using div_mult2_eq[of i 128 2] assms(1) unfolding d128 by (subst (asm) div_mult_self1) simp_all
  show "i div 128 mod 2 = h" unfolding d128 using assms(1) by (subst mod_mult_self1) simp
  show "i div 32 mod 4 = j" unfolding d32 using assms(2) by (subst mod_mult_self1) simp
  show "i div 16 mod 2 = u" unfolding d16 using assms(3) by (subst mod_mult_self1) simp
  show "i mod 16 = l" unfolding a using assms(4) by (subst mod_mult_self1) simp
  have "i = (u * 16 + l) + (j + (h + b * 2) * 4) * 32" using assms(5) by simp
  then have "i mod 32 = (u * 16 + l) mod 32" by (simp only: mod_mult_self1)
  then show "i mod 32 = u * 16 + l" using assms(3,4) by simp
qed

text \<open>A reference given by coordinates: block, half, group of 32, run of 16 and position (\<open>elem16\<close>);
  block, half or quarter, group of 32 and position (\<open>elem32\<close>, \<open>elem64\<close>).\<close>

definition elem16 :: "(nat \<Rightarrow> nat \<Rightarrow> nat \<Rightarrow> nat \<Rightarrow> nat \<Rightarrow> 'f) \<Rightarrow> nat \<Rightarrow> 'f" where
  "elem16 V i = V (i div 256) (i div 128 mod 2) (i div 32 mod 4) (i div 16 mod 2) (i mod 16)"

definition elem32 :: "(nat \<Rightarrow> nat \<Rightarrow> nat \<Rightarrow> nat \<Rightarrow> 'f) \<Rightarrow> nat \<Rightarrow> 'f" where
  "elem32 V i = V (i div 256) (i div 128 mod 2) (i div 32 mod 4) (i mod 32)"

definition elem64 :: "(nat \<Rightarrow> nat \<Rightarrow> nat \<Rightarrow> nat \<Rightarrow> 'f) \<Rightarrow> nat \<Rightarrow> 'f" where
  "elem64 V i = V (i div 256) (i div 64 mod 4) (i div 32 mod 2) (i mod 32)"

lemma elem16_at:
  assumes "h < 2" "j < 4" "l < 16"
  shows "elem16 V (b * 256 + h * 128 + j * 32 + l) = V b h j 0 l"
    and "elem16 V (b * 256 + h * 128 + j * 32 + 16 + l) = V b h j 1 l"
proof -
  show "elem16 V (b * 256 + h * 128 + j * 32 + l) = V b h j 0 l"
    unfolding elem16_def
    by (simp only: kq_index16[OF assms(1,2) _ assms(3), where u = 0 and b = b, simplified, OF refl])
  show "elem16 V (b * 256 + h * 128 + j * 32 + 16 + l) = V b h j 1 l"
    unfolding elem16_def
    by (simp only: kq_index16[OF assms(1,2) _ assms(3), where u = 1 and b = b, simplified, OF refl]
        One_nat_def)
qed

lemma two_runs:
  assumes "\<And>l. l < m \<Longrightarrow> w (c + l) = v l" "\<And>l. l < m \<Longrightarrow> w (c + m + l) = v' l"
  shows "for_loop (while_below (c + m) n [0..<m]) (\<lambda>l out. out(c + m + l := v' l))
      (for_loop (while_below c n [0..<m]) (\<lambda>l out. out(c + l := v l)) s) =
    override_on s w ({c..<c + 2 * m} \<inter> {..<n})"
proof -
  have "{c..<c + m} \<inter> {..<n} \<union> {c + m..<c + m + m} \<inter> {..<n} = {c..<c + 2 * m} \<inter> {..<n}" by auto
  then show ?thesis
    using assms by (simp only: run_loop[where w = w] override_on_twice)
qed

lemma elem64_at:
  assumes "g < 4" "l < 32"
  shows "elem64 V (b * 256 + g * 64 + l) = V b g 0 l"
    and "elem64 V (b * 256 + g * 64 + 32 + l) = V b g 1 l"
proof -
  have *: "elem64 V i = V b g t l" if "t < 2" "i = l + (t + (g + b * 4) * 2) * 32" for t i
  proof -
    have d32: "i div 32 = t + (g + b * 4) * 2"
      unfolding that(2) using assms(2) by (subst div_mult_self1) simp_all
    have d64: "i div 64 = g + b * 4"
      using div_mult2_eq[of i 32 2] that(1) unfolding d32 by (subst (asm) div_mult_self1) simp_all
    have "i div 256 = b"
      using div_mult2_eq[of i 64 4] assms(1) unfolding d64 by (subst (asm) div_mult_self1) simp_all
    moreover have "i div 64 mod 4 = g" unfolding d64 using assms(1) by (subst mod_mult_self1) simp
    moreover have "i div 32 mod 2 = t" unfolding d32 using that(1) by (subst mod_mult_self1) simp
    moreover have "i mod 32 = l" unfolding that(2) using assms(2) by (subst mod_mult_self1) simp
    ultimately show ?thesis by (simp only: elem64_def)
  qed
  show "elem64 V (b * 256 + g * 64 + l) = V b g 0 l" by (rule *) simp_all
  show "elem64 V (b * 256 + g * 64 + 32 + l) = V b g 1 l" by (rule *) simp_all
qed

section \<open>Q2\_K\<close>

definition q2_k_group :: "'f fops \<Rightarrow> ptr \<Rightarrow> 'f \<Rightarrow> 'f \<Rightarrow> ptr \<Rightarrow> nat \<Rightarrow> nat \<Rightarrow> nat \<Rightarrow>
    (nat \<times> nat) \<times> 'f buf \<Rightarrow> (nat \<times> nat) \<times> 'f buf" where
  "q2_k_group fo scales d dmin q c count j = (\<lambda>((is, shift), out).
     let sc = scales is;
         dl = f_mul fo d (f_int fo (uint (sc AND 0xF)));
         ml = f_mul fo dmin (f_int fo (uint (drop_bit 4 sc)));
         out = for_loop (while_below (c + j * 32) count [0..<16]) (\<lambda>l out.
           out(c + j * 32 + l := f_sub fo (f_mul fo dl
                 (f_int fo (uint (drop_bit shift (q l) AND 3)))) ml)) out;
         sc = scales (is + 1);
         dl = f_mul fo d (f_int fo (uint (sc AND 0xF)));
         ml = f_mul fo dmin (f_int fo (uint (drop_bit 4 sc)));
         out = for_loop (while_below (c + j * 32 + 16) count [0..<16]) (\<lambda>l out.
           out(c + j * 32 + 16 + l := f_sub fo (f_mul fo dl
                 (f_int fo (uint (drop_bit shift (q (l + 16)) AND 3)))) ml)) out
     in ((is + 2, shift + 2), out))"

definition q2_k_half :: "'f fops \<Rightarrow> ptr \<Rightarrow> 'f \<Rightarrow> 'f \<Rightarrow> ptr \<Rightarrow> nat \<Rightarrow> nat \<Rightarrow> nat \<Rightarrow>
    (nat \<times> nat) \<times> 'f buf \<Rightarrow> (nat \<times> nat) \<times> 'f buf" where
  "q2_k_half fo scales d dmin qs base count n = (\<lambda>((is, q), out).
     let ((is, shift), out) =
           for_loop [0..<4] (q2_k_group fo scales d dmin (adv qs q) (base + n) count) ((is, 0), out)
     in ((is, q + 32), out))"

definition dequant_q2_k :: "'f fops \<Rightarrow> ptr \<Rightarrow> 'f buf \<Rightarrow> nat \<Rightarrow> 'f buf" where
  "dequant_q2_k fo bd out count =
     snd (for_loop [0..<ceil_div count 256] (\<lambda>b (p, out).
       let scales = adv bd p; p = p + 16;
           qs = adv bd p; p = p + 64;
           d = f16_at fo (adv bd p); p = p + 2;
           dmin = f16_at fo (adv bd p); p = p + 2;
           base = b * 256
       in (p, snd (for_loop (takeWhile (\<lambda>n. base + n < count) [0, 128])
                     (q2_k_half fo scales d dmin qs base count) ((0, 0), out)))) (0, out))"

definition q2_k_value :: "'f fops \<Rightarrow> ptr \<Rightarrow> nat \<Rightarrow> nat \<Rightarrow> nat \<Rightarrow> nat \<Rightarrow> nat \<Rightarrow> 'f" where
  "q2_k_value fo bd b h j u l =
     (let p = adv bd (b * 84); sc = p (8 * h + 2 * j + u); q = p (16 + h * 32 + u * 16 + l)
      in f_sub fo
           (f_mul fo (f_mul fo (f16_at fo (adv p 80)) (f_int fo (uint (sc AND 0xF))))
              (f_int fo (uint (drop_bit (2 * j) q AND 3))))
           (f_mul fo (f16_at fo (adv p 82)) (f_int fo (uint (drop_bit 4 sc)))))"

abbreviation q2_k_elem :: "'f fops \<Rightarrow> ptr \<Rightarrow> nat \<Rightarrow> 'f" where
  "q2_k_elem fo bd \<equiv> elem16 (q2_k_value fo bd)"

lemma q2_k_group_eq:
  assumes "h < 2" "j < 4"
  shows "q2_k_group fo (adv bd (b * 84)) (f16_at fo (adv bd (b * 84 + 80)))
      (f16_at fo (adv bd (b * 84 + 82))) (adv (adv bd (b * 84 + 16)) (32 * h)) (b * 256 + h * 128) n j
      ((8 * h + 2 * j, 2 * j), s) =
    ((8 * h + 2 * Suc j, 2 * Suc j),
     override_on s (q2_k_elem fo bd)
       ({b * 256 + h * 128 + j * 32..<b * 256 + h * 128 + j * 32 + 32} \<inter> {..<n}))"
  unfolding q2_k_group_def Let_def prod.case
  by (subst two_runs[where m = 16 and w = "q2_k_elem fo bd"])
     (use assms in \<open>simp_all only: elem16_at\<close>,
      simp_all add: q2_k_value_def Let_def adv_adv add.assoc mult.commute[of h])

lemma q2_k_half_eq:
  assumes "h < 2"
  shows "q2_k_half fo (adv bd (b * 84)) (f16_at fo (adv bd (b * 84 + 80)))
      (f16_at fo (adv bd (b * 84 + 82))) (adv bd (b * 84 + 16)) (b * 256) n (h * 128)
      ((8 * h, 32 * h), s) =
    ((8 * Suc h, 32 * Suc h), override_on s (q2_k_elem fo bd)
       ({b * 256 + h * 128..<b * 256 + h * 128 + 128} \<inter> {..<n}))"
  using runs_loop[where m = 4 and r = 32 and st = "\<lambda>j. (8 * h + 2 * j, 2 * j)"
      and body = "q2_k_group fo (adv bd (b * 84)) (f16_at fo (adv bd (b * 84 + 80)))
      (f16_at fo (adv bd (b * 84 + 82))) (adv (adv bd (b * 84 + 16)) (32 * h)) (b * 256 + h * 128) n",
      OF q2_k_group_eq[OF assms]]
  by (simp add: q2_k_half_def)

lemma dequant_q2_k_eq: "dequant_q2_k fo bd out n = override_on out (q2_k_elem fo bd) {..<n}"
  unfolding dequant_q2_k_def Let_def steps_128
proof (rule blocks_state[where z = 84], simp, simp only: prod.case)
  fix b s
  have "snd (for_loop (takeWhile (\<lambda>i. b * 256 + i < n) (map (\<lambda>k. k * 128) [0..<2]))
        (q2_k_half fo (adv bd (b * 84)) (f16_at fo (adv bd (b * 84 + 80)))
          (f16_at fo (adv bd (b * 84 + 82))) (adv bd (b * 84 + 16)) (b * 256) n) ((0, 0), s)) =
    override_on s (q2_k_elem fo bd) ({b * 256..<b * 256 + 256} \<inter> {..<n})"
    using runs_loop_while[where m = 2 and r = 128 and st = "\<lambda>h. (8 * h, 32 * h)"
        and body = "q2_k_half fo (adv bd (b * 84)) (f16_at fo (adv bd (b * 84 + 80)))
          (f16_at fo (adv bd (b * 84 + 82))) (adv bd (b * 84 + 16)) (b * 256) n",
        OF q2_k_half_eq]
    by simp
  then show "(b * 84 + 16 + 64 + 2 + 2,
      snd (for_loop (takeWhile (\<lambda>n'. b * 256 + n' < n) (map (\<lambda>k. k * 128) [0..<2]))
        (q2_k_half fo (adv bd (b * 84)) (f16_at fo (adv bd (b * 84 + 16 + 64)))
          (f16_at fo (adv bd (b * 84 + 16 + 64 + 2))) (adv bd (b * 84 + 16)) (b * 256) n) ((0, 0), s))) =
    (Suc b * 84, override_on s (q2_k_elem fo bd) ({b * 256..<b * 256 + 256} \<inter> {..<n}))"
    by (simp add: add.assoc add.commute add.left_commute del: add_2_eq_Suc add_2_eq_Suc')
qed

section \<open>Q3\_K\<close>

text \<open>The sixteen 6-bit scales of a block, unpacked four bytes at a time on 32-bit words.\<close>

definition q3_k_aux :: "ptr \<Rightarrow> nat \<Rightarrow> u32" where
  "q3_k_aux raw k =
     (let kmask1 = 0x03030303; kmask2 = 0x0f0f0f0f;
          aux0 = rd32 raw; aux1 = rd32 (adv raw 4); tmp = rd32 (adv raw 8)
      in if k = 0 then (aux0 AND kmask2) OR push_bit 4 (tmp AND kmask1)
         else if k = 1 then (aux1 AND kmask2) OR push_bit 4 (drop_bit 2 tmp AND kmask1)
         else if k = 2 then (drop_bit 4 aux0 AND kmask2) OR push_bit 4 (drop_bit 4 tmp AND kmask1)
         else (drop_bit 4 aux1 AND kmask2) OR push_bit 4 (drop_bit 6 tmp AND kmask1))"

definition q3_k_scale :: "ptr \<Rightarrow> nat \<Rightarrow> int" where
  "q3_k_scale raw j = sint ((ucast (drop_bit (8 * (j mod 4)) (q3_k_aux raw (j div 4))) :: byte) - 32)"

definition q3_k_group :: "'f fops \<Rightarrow> (nat \<Rightarrow> int) \<Rightarrow> 'f \<Rightarrow> ptr \<Rightarrow> ptr \<Rightarrow> nat \<Rightarrow> nat \<Rightarrow> nat \<Rightarrow>
    (nat \<times> nat \<times> byte) \<times> 'f buf \<Rightarrow> (nat \<times> nat \<times> byte) \<times> 'f buf" where
  "q3_k_group fo scales d_all hmask q c count j = (\<lambda>((is, shift, m), out).
     let dl = f_mul fo d_all (f_int fo (scales is));
         out = for_loop (while_below (c + j * 32) count [0..<16]) (\<lambda>l out.
           out(c + j * 32 + l := f_mul fo dl (f_int fo
             (sint (drop_bit shift (q l) AND 3) - (if hmask l AND m \<noteq> 0 then 0 else 4))))) out;
         dl = f_mul fo d_all (f_int fo (scales (is + 1)));
         out = for_loop (while_below (c + j * 32 + 16) count [0..<16]) (\<lambda>l out.
           out(c + j * 32 + 16 + l := f_mul fo dl (f_int fo
             (sint (drop_bit shift (q (l + 16)) AND 3)
               - (if hmask (l + 16) AND m \<noteq> 0 then 0 else 4))))) out
     in ((is + 2, shift + 2, push_bit 1 m), out))"

definition q3_k_half :: "'f fops \<Rightarrow> (nat \<Rightarrow> int) \<Rightarrow> 'f \<Rightarrow> ptr \<Rightarrow> ptr \<Rightarrow> nat \<Rightarrow> nat \<Rightarrow> nat \<Rightarrow>
    (nat \<times> nat \<times> byte) \<times> 'f buf \<Rightarrow> (nat \<times> nat \<times> byte) \<times> 'f buf" where
  "q3_k_half fo scales d_all hmask qs base count n = (\<lambda>((is, q, m), out).
     let ((is, shift, m), out) =
           for_loop [0..<4] (q3_k_group fo scales d_all hmask (adv qs q) (base + n) count)
             ((is, 0, m), out)
     in ((is, q + 32, m), out))"

definition dequant_q3_k :: "'f fops \<Rightarrow> ptr \<Rightarrow> 'f buf \<Rightarrow> nat \<Rightarrow> 'f buf" where
  "dequant_q3_k fo bd out count =
     snd (for_loop [0..<ceil_div count 256] (\<lambda>b (p, out).
       let hmask = adv bd p; p = p + 32;
           qs = adv bd p; p = p + 64;
           raw_scales = adv bd p; p = p + 12;
           d_all = f16_at fo (adv bd p); p = p + 2;
           base = b * 256
       in (p, snd (for_loop (takeWhile (\<lambda>n. base + n < count) [0, 128])
             (q3_k_half fo (q3_k_scale raw_scales) d_all hmask qs base count) ((0, 0, 1), out))))
       (0, out))"

definition q3_k_value :: "'f fops \<Rightarrow> ptr \<Rightarrow> nat \<Rightarrow> nat \<Rightarrow> nat \<Rightarrow> nat \<Rightarrow> nat \<Rightarrow> 'f" where
  "q3_k_value fo bd b h j u l =
     (let p = adv bd (b * 110);
          sc = q3_k_scale (adv bd (b * 110 + 96)) (8 * h + 2 * j + u);
          q = p (32 + h * 32 + u * 16 + l);
          hm = p (l + u * 16)
      in f_mul fo (f_mul fo (f16_at fo (adv p 108)) (f_int fo sc))
           (f_int fo (sint (drop_bit (2 * j) q AND 3)
              - (if hm AND push_bit (4 * h + j) 1 \<noteq> 0 then 0 else 4))))"

abbreviation q3_k_elem :: "'f fops \<Rightarrow> ptr \<Rightarrow> nat \<Rightarrow> 'f" where
  "q3_k_elem fo bd \<equiv> elem16 (q3_k_value fo bd)"

lemma q3_k_group_eq:
  assumes "h < 2" "j < 4"
  shows "q3_k_group fo (q3_k_scale (adv bd (b * 110 + 96))) (f16_at fo (adv bd (b * 110 + 108)))
      (adv bd (b * 110)) (adv (adv bd (b * 110 + 32)) (32 * h)) (b * 256 + h * 128) n j
      ((8 * h + 2 * j, 2 * j, push_bit (4 * h + j) 1), s) =
    ((8 * h + 2 * Suc j, 2 * Suc j, push_bit (4 * h + Suc j) 1),
     override_on s (q3_k_elem fo bd)
       ({b * 256 + h * 128 + j * 32..<b * 256 + h * 128 + j * 32 + 32} \<inter> {..<n}))"
  unfolding q3_k_group_def Let_def prod.case
  by (subst two_runs[where m = 16 and w = "q3_k_elem fo bd"])
     (use assms in \<open>simp_all only: elem16_at\<close>,
      simp_all add: q3_k_value_def Let_def adv_adv add.assoc mult.commute[of h] push_bit_push_bit
        add.commute[of 1])

lemma q3_k_half_eq:
  assumes "h < 2"
  shows "q3_k_half fo (q3_k_scale (adv bd (b * 110 + 96))) (f16_at fo (adv bd (b * 110 + 108)))
      (adv bd (b * 110)) (adv bd (b * 110 + 32)) (b * 256) n (h * 128)
      ((8 * h, 32 * h, push_bit (4 * h) 1), s) =
    ((8 * Suc h, 32 * Suc h, push_bit (4 * Suc h) 1), override_on s (q3_k_elem fo bd)
       ({b * 256 + h * 128..<b * 256 + h * 128 + 128} \<inter> {..<n}))"
  using runs_loop[where m = 4 and r = 32
      and st = "\<lambda>j. (8 * h + 2 * j, 2 * j, push_bit (4 * h + j) (1 :: byte))"
      and body = "q3_k_group fo (q3_k_scale (adv bd (b * 110 + 96)))
        (f16_at fo (adv bd (b * 110 + 108))) (adv bd (b * 110))
        (adv (adv bd (b * 110 + 32)) (32 * h)) (b * 256 + h * 128) n",
      OF q3_k_group_eq[OF assms]]
  by (simp add: q3_k_half_def add.commute)

lemma dequant_q3_k_eq: "dequant_q3_k fo bd out n = override_on out (q3_k_elem fo bd) {..<n}"
  unfolding dequant_q3_k_def Let_def steps_128
proof (rule blocks_state[where z = 110], simp, simp only: prod.case)
  fix b s
  have "snd (for_loop (takeWhile (\<lambda>i. b * 256 + i < n) (map (\<lambda>k. k * 128) [0..<2]))
        (q3_k_half fo (q3_k_scale (adv bd (b * 110 + 96))) (f16_at fo (adv bd (b * 110 + 108)))
          (adv bd (b * 110)) (adv bd (b * 110 + 32)) (b * 256) n) ((0, 0, 1), s)) =
    override_on s (q3_k_elem fo bd) ({b * 256..<b * 256 + 256} \<inter> {..<n})"
    using runs_loop_while[where m = 2 and r = 128
        and st = "\<lambda>h. (8 * h, 32 * h, push_bit (4 * h) (1 :: byte))"
        and body = "q3_k_half fo (q3_k_scale (adv bd (b * 110 + 96)))
          (f16_at fo (adv bd (b * 110 + 108))) (adv bd (b * 110)) (adv bd (b * 110 + 32)) (b * 256) n",
        OF q3_k_half_eq]
    by simp
  then show "(b * 110 + 32 + 64 + 12 + 2,
      snd (for_loop (takeWhile (\<lambda>n'. b * 256 + n' < n) (map (\<lambda>k. k * 128) [0..<2]))
        (q3_k_half fo (q3_k_scale (adv bd (b * 110 + 32 + 64)))
          (f16_at fo (adv bd (b * 110 + 32 + 64 + 12))) (adv bd (b * 110)) (adv bd (b * 110 + 32))
          (b * 256) n) ((0, 0, 1), s))) =
    (Suc b * 110, override_on s (q3_k_elem fo bd) ({b * 256..<b * 256 + 256} \<inter> {..<n}))"
    by (simp add: add.assoc add.commute add.left_commute del: add_2_eq_Suc add_2_eq_Suc')
qed

section \<open>Q4\_K and Q5\_K\<close>

text \<open>Eight 6-bit (scale, min) pairs in twelve bytes.\<close>

definition k_get_scale_min :: "ptr \<Rightarrow> nat \<Rightarrow> byte \<times> byte" where
  "k_get_scale_min scales j =
     (if j < 4 then (scales j AND 63, scales (j + 4) AND 63)
      else ((scales (j + 4) AND 0xF) OR push_bit 4 (drop_bit 6 (scales (j - 4))),
            drop_bit 4 (scales (j + 4)) OR push_bit 4 (drop_bit 6 (scales j))))"

definition q4_k_quarter :: "'f fops \<Rightarrow> ptr \<Rightarrow> 'f \<Rightarrow> 'f \<Rightarrow> ptr \<Rightarrow> nat \<Rightarrow> nat \<Rightarrow> nat \<Rightarrow>
    (nat \<times> nat) \<times> 'f buf \<Rightarrow> (nat \<times> nat) \<times> 'f buf" where
  "q4_k_quarter fo scales d dmin qs base count off = (\<lambda>((is, q), out).
     let sm = k_get_scale_min scales is;
         d1 = f_mul fo d (f_int fo (uint (fst sm))); m1 = f_mul fo dmin (f_int fo (uint (snd sm)));
         sm = k_get_scale_min scales (is + 1);
         d2 = f_mul fo d (f_int fo (uint (fst sm))); m2 = f_mul fo dmin (f_int fo (uint (snd sm)));
         out = for_loop (while_below (base + off) count [0..<32]) (\<lambda>l out.
           out(base + off + l := f_sub fo (f_mul fo d1 (f_int fo (uint (adv qs q l AND 0xF)))) m1)) out;
         out = for_loop (while_below (base + off + 32) count [0..<32]) (\<lambda>l out.
           out(base + off + 32 + l :=
             f_sub fo (f_mul fo d2 (f_int fo (uint (drop_bit 4 (adv qs q l))))) m2)) out
     in ((is + 2, q + 32), out))"

definition dequant_q4_k :: "'f fops \<Rightarrow> ptr \<Rightarrow> 'f buf \<Rightarrow> nat \<Rightarrow> 'f buf" where
  "dequant_q4_k fo bd out count =
     snd (for_loop [0..<ceil_div count 256] (\<lambda>b (p, out).
       let d = f16_at fo (adv bd p); p = p + 2;
           dmin = f16_at fo (adv bd p); p = p + 2;
           scales = adv bd p; p = p + 12;
           qs = adv bd p; p = p + 128;
           base = b * 256
       in (p, snd (for_loop (takeWhile (\<lambda>off. base + off < count) [0, 64, 128, 192])
                     (q4_k_quarter fo scales d dmin qs base count) ((0, 0), out)))) (0, out))"

definition q4_k_value :: "'f fops \<Rightarrow> ptr \<Rightarrow> nat \<Rightarrow> nat \<Rightarrow> nat \<Rightarrow> nat \<Rightarrow> 'f" where
  "q4_k_value fo bd b g t l =
     (let p = adv bd (b * 144); sm = k_get_scale_min (adv bd (b * 144 + 4)) (2 * g + t);
          q = p (16 + g * 32 + l)
      in f_sub fo
           (f_mul fo (f_mul fo (f16_at fo p) (f_int fo (uint (fst sm))))
              (f_int fo (if t = 0 then uint (q AND 0xF) else uint (drop_bit 4 q))))
           (f_mul fo (f16_at fo (adv p 2)) (f_int fo (uint (snd sm)))))"

abbreviation q4_k_elem :: "'f fops \<Rightarrow> ptr \<Rightarrow> nat \<Rightarrow> 'f" where
  "q4_k_elem fo bd \<equiv> elem64 (q4_k_value fo bd)"

lemma q4_k_quarter_eq:
  assumes "g < 4"
  shows "q4_k_quarter fo (adv bd (b * 144 + 4)) (f16_at fo (adv bd (b * 144)))
      (f16_at fo (adv bd (b * 144 + 2))) (adv bd (b * 144 + 16)) (b * 256) n (g * 64)
      ((2 * g, 32 * g), s) =
    ((2 * Suc g, 32 * Suc g), override_on s (q4_k_elem fo bd)
       ({b * 256 + g * 64..<b * 256 + g * 64 + 64} \<inter> {..<n}))"
  unfolding q4_k_quarter_def Let_def prod.case
  by (subst two_runs[where m = 32 and w = "q4_k_elem fo bd"])
     (use assms in \<open>simp_all only: elem64_at\<close>,
      simp_all add: q4_k_value_def Let_def adv_adv add.assoc mult.commute[of g])

lemma dequant_q4_k_eq: "dequant_q4_k fo bd out n = override_on out (q4_k_elem fo bd) {..<n}"
  unfolding dequant_q4_k_def Let_def steps_64
proof (rule blocks_state[where z = 144], simp, simp only: prod.case)
  fix b s
  have "snd (for_loop (takeWhile (\<lambda>i. b * 256 + i < n) (map (\<lambda>k. k * 64) [0..<4]))
        (q4_k_quarter fo (adv bd (b * 144 + 4)) (f16_at fo (adv bd (b * 144)))
          (f16_at fo (adv bd (b * 144 + 2))) (adv bd (b * 144 + 16)) (b * 256) n) ((0, 0), s)) =
    override_on s (q4_k_elem fo bd) ({b * 256..<b * 256 + 256} \<inter> {..<n})"
    using runs_loop_while[where m = 4 and r = 64 and st = "\<lambda>g. (2 * g, 32 * g)"
        and body = "q4_k_quarter fo (adv bd (b * 144 + 4)) (f16_at fo (adv bd (b * 144)))
          (f16_at fo (adv bd (b * 144 + 2))) (adv bd (b * 144 + 16)) (b * 256) n",
        OF q4_k_quarter_eq]
    by simp
  then show "(b * 144 + 2 + 2 + 12 + 128,
      snd (for_loop (takeWhile (\<lambda>off. b * 256 + off < n) (map (\<lambda>k. k * 64) [0..<4]))
        (q4_k_quarter fo (adv bd (b * 144 + 2 + 2)) (f16_at fo (adv bd (b * 144)))
          (f16_at fo (adv bd (b * 144 + 2))) (adv bd (b * 144 + 2 + 2 + 12)) (b * 256) n)
        ((0, 0), s))) =
    (Suc b * 144, override_on s (q4_k_elem fo bd) ({b * 256..<b * 256 + 256} \<inter> {..<n}))"
    by (simp add: add.assoc add.commute add.left_commute del: add_2_eq_Suc add_2_eq_Suc')
qed

definition q5_k_quarter :: "'f fops \<Rightarrow> ptr \<Rightarrow> 'f \<Rightarrow> 'f \<Rightarrow> ptr \<Rightarrow> ptr \<Rightarrow> nat \<Rightarrow> nat \<Rightarrow> nat \<Rightarrow>
    (nat \<times> nat \<times> byte \<times> byte) \<times> 'f buf \<Rightarrow> (nat \<times> nat \<times> byte \<times> byte) \<times> 'f buf" where
  "q5_k_quarter fo scales d dmin qh ql base count n = (\<lambda>((is, q, u1, u2), out).
     let sm = k_get_scale_min scales is;
         d1 = f_mul fo d (f_int fo (uint (fst sm))); m1 = f_mul fo dmin (f_int fo (uint (snd sm)));
         sm = k_get_scale_min scales (is + 1);
         d2 = f_mul fo d (f_int fo (uint (fst sm))); m2 = f_mul fo dmin (f_int fo (uint (snd sm)));
         out = for_loop (while_below (base + n) count [0..<32]) (\<lambda>l out.
           out(base + n + l := f_sub fo (f_mul fo d1 (f_int fo
             (uint (adv ql q l AND 0xF) + (if qh l AND u1 \<noteq> 0 then 16 else 0)))) m1)) out;
         out = for_loop (while_below (base + n + 32) count [0..<32]) (\<lambda>l out.
           out(base + n + 32 + l := f_sub fo (f_mul fo d2 (f_int fo
             (uint (drop_bit 4 (adv ql q l)) + (if qh l AND u2 \<noteq> 0 then 16 else 0)))) m2)) out
     in ((is + 2, q + 32, push_bit 2 u1, push_bit 2 u2), out))"

definition dequant_q5_k :: "'f fops \<Rightarrow> ptr \<Rightarrow> 'f buf \<Rightarrow> nat \<Rightarrow> 'f buf" where
  "dequant_q5_k fo bd out count =
     snd (for_loop [0..<ceil_div count 256] (\<lambda>b (p, out).
       let d = f16_at fo (adv bd p); p = p + 2;
           dmin = f16_at fo (adv bd p); p = p + 2;
           scales = adv bd p; p = p + 12;
           qh = adv bd p; p = p + 32;
           ql = adv bd p; p = p + 128;
           base = b * 256
       in (p, snd (for_loop (takeWhile (\<lambda>n. base + n < count) [0, 64, 128, 192])
                     (q5_k_quarter fo scales d dmin qh ql base count) ((0, 0, 1, 2), out))))
       (0, out))"

definition q5_k_value :: "'f fops \<Rightarrow> ptr \<Rightarrow> nat \<Rightarrow> nat \<Rightarrow> nat \<Rightarrow> nat \<Rightarrow> 'f" where
  "q5_k_value fo bd b g t l =
     (let p = adv bd (b * 176); sm = k_get_scale_min (adv bd (b * 176 + 4)) (2 * g + t);
          q = p (48 + g * 32 + l); h = p (16 + l)
      in f_sub fo
           (f_mul fo (f_mul fo (f16_at fo p) (f_int fo (uint (fst sm))))
              (f_int fo ((if t = 0 then uint (q AND 0xF) else uint (drop_bit 4 q))
                 + (if h AND push_bit (2 * g) (if t = 0 then 1 else 2) \<noteq> 0 then 16 else 0))))
           (f_mul fo (f16_at fo (adv p 2)) (f_int fo (uint (snd sm)))))"

abbreviation q5_k_elem :: "'f fops \<Rightarrow> ptr \<Rightarrow> nat \<Rightarrow> 'f" where
  "q5_k_elem fo bd \<equiv> elem64 (q5_k_value fo bd)"

lemma q5_k_quarter_eq:
  assumes "g < 4"
  shows "q5_k_quarter fo (adv bd (b * 176 + 4)) (f16_at fo (adv bd (b * 176)))
      (f16_at fo (adv bd (b * 176 + 2))) (adv bd (b * 176 + 16)) (adv bd (b * 176 + 48)) (b * 256) n
      (g * 64) ((2 * g, 32 * g, push_bit (2 * g) 1, push_bit (2 * g) 2), s) =
    ((2 * Suc g, 32 * Suc g, push_bit (2 * Suc g) 1, push_bit (2 * Suc g) 2),
     override_on s (q5_k_elem fo bd) ({b * 256 + g * 64..<b * 256 + g * 64 + 64} \<inter> {..<n}))"
  unfolding q5_k_quarter_def Let_def prod.case
  by (subst two_runs[where m = 32 and w = "q5_k_elem fo bd"])
     (use assms in \<open>simp_all only: elem64_at\<close>,
      simp_all only: q5_k_value_def Let_def adv_adv add.assoc mult.commute[of g] push_bit_push_bit
        adv_apply, simp_all)

lemma dequant_q5_k_eq: "dequant_q5_k fo bd out n = override_on out (q5_k_elem fo bd) {..<n}"
  unfolding dequant_q5_k_def Let_def steps_64
proof (rule blocks_state[where z = 176], simp, simp only: prod.case)
  fix b s
  have "snd (for_loop (takeWhile (\<lambda>i. b * 256 + i < n) (map (\<lambda>k. k * 64) [0..<4]))
        (q5_k_quarter fo (adv bd (b * 176 + 4)) (f16_at fo (adv bd (b * 176)))
          (f16_at fo (adv bd (b * 176 + 2))) (adv bd (b * 176 + 16)) (adv bd (b * 176 + 48))
          (b * 256) n) ((0, 0, 1, 2), s)) =
    override_on s (q5_k_elem fo bd) ({b * 256..<b * 256 + 256} \<inter> {..<n})"
    using runs_loop_while[where m = 4 and r = 64
        and st = "\<lambda>g. (2 * g, 32 * g, push_bit (2 * g) 1, push_bit (2 * g) 2)"
        and body = "q5_k_quarter fo (adv bd (b * 176 + 4)) (f16_at fo (adv bd (b * 176)))
          (f16_at fo (adv bd (b * 176 + 2))) (adv bd (b * 176 + 16)) (adv bd (b * 176 + 48))
          (b * 256) n",
        OF q5_k_quarter_eq]
    by simp
  then show "(b * 176 + 2 + 2 + 12 + 32 + 128,
      snd (for_loop (takeWhile (\<lambda>n'. b * 256 + n' < n) (map (\<lambda>k. k * 64) [0..<4]))
        (q5_k_quarter fo (adv bd (b * 176 + 2 + 2)) (f16_at fo (adv bd (b * 176)))
          (f16_at fo (adv bd (b * 176 + 2))) (adv bd (b * 176 + 2 + 2 + 12))
          (adv bd (b * 176 + 2 + 2 + 12 + 32)) (b * 256) n) ((0, 0, 1, 2), s))) =
    (Suc b * 176, override_on s (q5_k_elem fo bd) ({b * 256..<b * 256 + 256} \<inter> {..<n}))"
    by (simp add: add.assoc add.commute add.left_commute del: add_2_eq_Suc add_2_eq_Suc')
qed

end
