(* ===== verification/GgufBlocks.thy ===== *)
theory GgufBlocks
  imports GgufDequant
begin

text \<open>
  The remaining block formats of \<open>src/gguf_reader.cpp\<close>: Q6\_K with its four lanes, Q8\_K, and the
  two ternary formats TQ1\_0 and TQ2\_0 that write through an output cursor.
\<close>

section \<open>Q6\_K and Q8\_K\<close>

definition q6_code :: "byte \<Rightarrow> int" where
  "q6_code c = sint (c - 32)"

text \<open>A store whose guard and index the code computes from different variables.\<close>

definition put_if :: "bool \<Rightarrow> nat \<Rightarrow> 'f \<Rightarrow> 'f buf \<Rightarrow> 'f buf" where
  "put_if c i v out = (if c then out(i := v) else out)"

definition q6_k_lane :: "'f fops \<Rightarrow> ptr \<Rightarrow> 'f \<Rightarrow> nat \<Rightarrow> nat \<Rightarrow> nat \<Rightarrow> nat \<times> nat \<times> nat \<times> nat \<Rightarrow>
    nat \<Rightarrow> 'f buf \<Rightarrow> 'f buf" where
  "q6_k_lane fo bd d base count n = (\<lambda>(y, ql, qh, sc) l out.
     let is = l div 16;
         q1 = q6_code ((bd (ql + l) AND 0xF) OR push_bit 4 (drop_bit 0 (bd (qh + l)) AND 3));
         q2 = q6_code ((bd (ql + (l + 32)) AND 0xF) OR push_bit 4 (drop_bit 2 (bd (qh + l)) AND 3));
         q3 = q6_code (drop_bit 4 (bd (ql + l)) OR push_bit 4 (drop_bit 4 (bd (qh + l)) AND 3));
         q4 = q6_code (drop_bit 4 (bd (ql + (l + 32))) OR push_bit 4 (drop_bit 6 (bd (qh + l)) AND 3));
         val = (\<lambda>k q. f_mul fo (f_mul fo d (f_int fo (sint (bd (sc + (is + k)))))) (f_int fo q))
     in put_if (base + n + l + 96 < count) (y + (l + 96)) (val 6 q4)
          (put_if (base + n + l + 64 < count) (y + (l + 64)) (val 4 q3)
            (put_if (base + n + l + 32 < count) (y + (l + 32)) (val 2 q2)
              (put_if (base + n + l < count) (y + l) (val 0 q1) out))))"

definition q6_k_half :: "'f fops \<Rightarrow> ptr \<Rightarrow> 'f \<Rightarrow> nat \<Rightarrow> nat \<Rightarrow> nat \<Rightarrow>
    (nat \<times> nat \<times> nat \<times> nat) \<times> 'f buf \<Rightarrow> (nat \<times> nat \<times> nat \<times> nat) \<times> 'f buf" where
  "q6_k_half fo bd d base count n = (\<lambda>((y, ql, qh, sc), out).
     ((y + 128, ql + 64, qh + 32, sc + 8),
      for_loop [0..<32] (q6_k_lane fo bd d base count n (y, ql, qh, sc)) out))"

definition dequant_q6_k :: "'f fops \<Rightarrow> ptr \<Rightarrow> 'f buf \<Rightarrow> nat \<Rightarrow> 'f buf" where
  "dequant_q6_k fo bd out count =
     snd (for_loop [0..<ceil_div count 256] (\<lambda>b (p, out).
       let ql = p; p = p + 128;
           qh = p; p = p + 64;
           sc = p; p = p + 16;
           d = f16_at fo (adv bd p); p = p + 2;
           base = b * 256
       in (p, snd (for_loop [0, 128] (q6_k_half fo bd d base count) ((base, ql, qh, sc), out))))
       (0, out))"

definition q6_k_value :: "'f fops \<Rightarrow> ptr \<Rightarrow> nat \<Rightarrow> nat \<Rightarrow> nat \<Rightarrow> nat \<Rightarrow> 'f" where
  "q6_k_value fo bd b h t l =
     (let p = b * 210; q = bd (p + h * 64 + (l + (t mod 2) * 32)); hi = bd (p + 128 + h * 32 + l);
          sc = bd (p + 192 + h * 8 + (l div 16 + 2 * t))
      in f_mul fo (f_mul fo (f16_at fo (adv bd (p + 208))) (f_int fo (sint sc)))
           (f_int fo (q6_code ((if t < 2 then q AND 0xF else drop_bit 4 q)
              OR push_bit 4 (drop_bit (2 * t) hi AND 3)))))"

abbreviation q6_k_elem :: "'f fops \<Rightarrow> ptr \<Rightarrow> nat \<Rightarrow> 'f" where
  "q6_k_elem fo bd \<equiv> elem32 (q6_k_value fo bd)"

lemma elem32_at:
  assumes "h < 2" "l < 32" "t < 4"
  shows "elem32 V (b * 256 + h * 128 + (t * 32 + l)) = V b h t l"
proof -
  have i: "b * 256 + h * 128 + (t * 32 + l) = l + (t + (h + b * 2) * 4) * 32" by simp
  have d32: "(b * 256 + h * 128 + (t * 32 + l)) div 32 = t + (h + b * 2) * 4"
    unfolding i using assms(2) by (subst div_mult_self1) simp_all
  have d128: "(b * 256 + h * 128 + (t * 32 + l)) div 128 = h + b * 2"
    using div_mult2_eq[of "b * 256 + h * 128 + (t * 32 + l)" 32 4] assms(3)
    unfolding d32 by (subst (asm) div_mult_self1) simp_all
  have "(b * 256 + h * 128 + (t * 32 + l)) div 256 = b"
    using div_mult2_eq[of "b * 256 + h * 128 + (t * 32 + l)" 128 2] assms(1)
    unfolding d128 by (subst (asm) div_mult_self1) simp_all
  moreover have "(b * 256 + h * 128 + (t * 32 + l)) div 128 mod 2 = h"
    unfolding d128 using assms(1) by (subst mod_mult_self1) simp
  moreover have "(b * 256 + h * 128 + (t * 32 + l)) div 32 mod 4 = t"
    unfolding d32 using assms(3) by (subst mod_mult_self1) simp
  moreover have "(b * 256 + h * 128 + (t * 32 + l)) mod 32 = l"
    unfolding i using assms(2) by (subst mod_mult_self1) simp
  ultimately show ?thesis by (simp only: elem32_def)
qed

lemma four_runs:
  assumes "\<And>l s. l < m \<Longrightarrow>
      body l s = override_on s w ({c + l, c + l + m, c + l + 2 * m, c + l + 3 * m} \<inter> {..<n})"
  shows "for_loop [0..<m] body s = override_on s w ({c..<c + 4 * m} \<inter> {..<n})"
proof -
  have "for_loop [0..<m] body s = override_on s w
      (\<Union>l \<in> set [0..<m]. {c + l, c + l + m, c + l + 2 * m, c + l + 3 * m} \<inter> {..<n})"
    by (rule for_loop_override) (auto intro: assms)
  moreover have "(\<Union>l \<in> set [0..<m]. {c + l, c + l + m, c + l + 2 * m, c + l + 3 * m} \<inter> {..<n}) =
      {c..<c + 4 * m} \<inter> {..<n}" (is "?L = ?R")
  proof
    show "?R \<subseteq> ?L"
    proof
      fix i assume i: "i \<in> ?R"
      then consider "i < c + m" | "c + m \<le> i" "i < c + 2 * m"
        | "c + 2 * m \<le> i" "i < c + 3 * m" | "c + 3 * m \<le> i" by linarith
      then show "i \<in> ?L"
      proof cases
        case 1 with i show ?thesis by (intro UN_I[of "i - c"]) auto
      next
        case 2 with i show ?thesis by (intro UN_I[of "i - c - m"]) auto
      next
        case 3 with i show ?thesis by (intro UN_I[of "i - c - 2 * m"]) auto
      next
        case 4 with i show ?thesis by (intro UN_I[of "i - c - 3 * m"]) auto
      qed
    qed
  qed auto
  ultimately show ?thesis by simp
qed

lemma put_if_override:
  "w i = v \<Longrightarrow> c = (i < n) \<Longrightarrow> put_if c i v out = override_on out w ({i} \<inter> {..<n})"
  by (auto simp: put_if_def override_on_def fun_eq_iff)

lemma q6_k_lane_eq:
  assumes "h < 2" "l < 32"
  shows "q6_k_lane fo bd (f16_at fo (adv bd (b * 210 + 208))) (b * 256) n (h * 128)
      (b * 256 + h * 128, b * 210 + h * 64, b * 210 + 128 + h * 32, b * 210 + 192 + h * 8) l s =
    override_on s (q6_k_elem fo bd) ({b * 256 + h * 128 + l, b * 256 + h * 128 + (l + 32),
      b * 256 + h * 128 + (l + 64), b * 256 + h * 128 + (l + 96)} \<inter> {..<n})"
proof -
  have at: "q6_k_elem fo bd (b * 256 + h * 128 + l) = q6_k_value fo bd b h 0 l"
    "q6_k_elem fo bd (b * 256 + h * 128 + (l + 32)) = q6_k_value fo bd b h 1 l"
    "q6_k_elem fo bd (b * 256 + h * 128 + (l + 64)) = q6_k_value fo bd b h 2 l"
    "q6_k_elem fo bd (b * 256 + h * 128 + (l + 96)) = q6_k_value fo bd b h 3 l"
    using elem32_at[OF assms, where t = 0 and b = b] elem32_at[OF assms, where t = 1 and b = b]
      elem32_at[OF assms, where t = 2 and b = b] elem32_at[OF assms, where t = 3 and b = b]
    by (simp_all add: add.commute[of l])
  let ?w = "q6_k_elem fo bd"
  show ?thesis
    unfolding q6_k_lane_def prod.case Let_def
    by (subst (1 2 3 4) put_if_override[where w = ?w and n = n])
       (simp_all only: at q6_k_value_def Let_def override_on_twice, simp_all add: Int_insert_left add.assoc)
qed

lemma q6_k_half_eq:
  assumes "h < 2"
  shows "q6_k_half fo bd (f16_at fo (adv bd (b * 210 + 208))) (b * 256) n (h * 128)
      ((b * 256 + h * 128, b * 210 + h * 64, b * 210 + 128 + h * 32, b * 210 + 192 + h * 8), s) =
    ((b * 256 + Suc h * 128, b * 210 + Suc h * 64, b * 210 + 128 + Suc h * 32,
      b * 210 + 192 + Suc h * 8),
     override_on s (q6_k_elem fo bd) ({b * 256 + h * 128..<b * 256 + h * 128 + 128} \<inter> {..<n}))"
proof -
  have "for_loop [0..<32] (q6_k_lane fo bd (f16_at fo (adv bd (b * 210 + 208))) (b * 256) n (h * 128)
      (b * 256 + h * 128, b * 210 + h * 64, b * 210 + 128 + h * 32, b * 210 + 192 + h * 8)) s =
      override_on s (q6_k_elem fo bd) ({b * 256 + h * 128..<b * 256 + h * 128 + 4 * 32} \<inter> {..<n})"
    by (rule four_runs) (subst q6_k_lane_eq[OF assms], assumption, simp add: add.assoc)
  then show ?thesis by (simp add: q6_k_half_def)
qed

lemma dequant_q6_k_eq: "dequant_q6_k fo bd out n = override_on out (q6_k_elem fo bd) {..<n}"
  unfolding dequant_q6_k_def Let_def steps_128
proof (rule blocks_state[where z = 210], simp, simp only: prod.case)
  fix b s
  have "for_loop [0..<2] (\<lambda>h. q6_k_half fo bd (f16_at fo (adv bd (b * 210 + 208))) (b * 256) n (h * 128))
        ((b * 256, b * 210, b * 210 + 128, b * 210 + 192), s) =
      ((b * 256 + 2 * 128, b * 210 + 2 * 64, b * 210 + 128 + 2 * 32, b * 210 + 192 + 2 * 8),
       override_on s (q6_k_elem fo bd) ({b * 256..<b * 256 + 2 * 128} \<inter> {..<n}))"
    using runs_loop[where m = 2 and r = 128 and c = "b * 256" and w = "q6_k_elem fo bd" and n = n
        and st = "\<lambda>h. (b * 256 + h * 128, b * 210 + h * 64, b * 210 + 128 + h * 32, b * 210 + 192 + h * 8)"
        and body = "\<lambda>h. q6_k_half fo bd (f16_at fo (adv bd (b * 210 + 208))) (b * 256) n (h * 128)",
        OF q6_k_half_eq]
    by simp
  then have "snd (for_loop (map (\<lambda>k. k * 128) [0..<2])
        (q6_k_half fo bd (f16_at fo (adv bd (b * 210 + 208))) (b * 256) n)
        ((b * 256, b * 210, b * 210 + 128, b * 210 + 192), s)) =
      override_on s (q6_k_elem fo bd) ({b * 256..<b * 256 + 256} \<inter> {..<n})"
    by (simp only: for_loop_map snd_conv) simp
  then show "(b * 210 + 128 + 64 + 16 + 2,
      snd (for_loop (map (\<lambda>k. k * 128) [0..<2])
        (q6_k_half fo bd (f16_at fo (adv bd (b * 210 + 128 + 64 + 16))) (b * 256) n)
        ((b * 256, b * 210, b * 210 + 128, b * 210 + 128 + 64), s))) =
    (Suc b * 210, override_on s (q6_k_elem fo bd) ({b * 256..<b * 256 + 256} \<inter> {..<n}))"
    by (simp add: add.assoc add.commute add.left_commute)
qed

definition dequant_q8_k :: "'f fops \<Rightarrow> ptr \<Rightarrow> 'f buf \<Rightarrow> nat \<Rightarrow> 'f buf" where
  "dequant_q8_k fo bd out count =
     snd (for_loop [0..<ceil_div count 256] (\<lambda>b (p, out).
       let d = f_bits fo (rd32 (adv bd p)); p = p + 4;
           qs = adv bd p; p = p + 256;
           p = p + 32;
           base = b * 256
       in (p, for_loop (while_below base count [0..<256]) (\<lambda>l out.
            out(base + l := f_mul fo d (f_int fo (sint (qs l))))) out)) (0, out))"

definition q8_k_elem :: "'f fops \<Rightarrow> ptr \<Rightarrow> nat \<Rightarrow> 'f" where
  "q8_k_elem fo bd i =
     (let p = i div 256 * 292
      in f_mul fo (f_bits fo (rd32 (adv bd p))) (f_int fo (sint (adv bd (p + 4) (i mod 256)))))"

lemma dequant_q8_k_eq: "dequant_q8_k fo bd out n = override_on out (q8_k_elem fo bd) {..<n}"
  unfolding dequant_q8_k_def Let_def
  by (rule blocks_state[where z = 292], simp, simp only: prod.case,
      subst run_loop[where w = "q8_k_elem fo bd"])
     (simp_all add: q8_k_elem_def Let_def)

section \<open>The ternary formats\<close>

text \<open>Both write through a cursor \<open>pos\<close> that never passes \<open>count\<close>.\<close>

definition emit :: "nat \<Rightarrow> 'f \<Rightarrow> nat \<times> 'f buf \<Rightarrow> nat \<times> 'f buf" where
  "emit count v = (\<lambda>(pos, out). if count \<le> pos then (pos, out) else (pos + 1, out(pos := v)))"

definition tq1_xi :: "byte \<Rightarrow> int" where
  "tq1_xi q = uint (drop_bit 8 (ucast q * 3 :: u16))"

definition pow3 :: "nat \<Rightarrow> byte" where
  "pow3 n = [1, 3, 9, 27, 81, 243] ! n"

definition tq1_value :: "'f fops \<Rightarrow> 'f \<Rightarrow> byte \<Rightarrow> 'f" where
  "tq1_value fo d q = f_mul fo (f_int fo (tq1_xi q - 1)) d"

definition dequant_tq1_0 :: "'f fops \<Rightarrow> ptr \<Rightarrow> 'f buf \<Rightarrow> nat \<Rightarrow> 'f buf" where
  "dequant_tq1_0 fo bd out count =
     snd (for_loop [0..<ceil_div count 256] (\<lambda>b s.
       let x = adv bd (b * 54); d = f16_at fo (adv x 52);
           s = for_loop [0..<5] (\<lambda>n. for_loop [0..<32] (\<lambda>m.
                 emit count (tq1_value fo d (x m * pow3 n)))) s;
           s = for_loop [0..<5] (\<lambda>n. for_loop [32..<48] (\<lambda>m.
                 emit count (tq1_value fo d (x m * pow3 n)))) s;
           s = for_loop [0..<4] (\<lambda>n. for_loop [0..<4] (\<lambda>j.
                 emit count (tq1_value fo d (x (48 + j) * pow3 n)))) s
       in s) (0, out))"

definition dequant_tq2_0 :: "'f fops \<Rightarrow> ptr \<Rightarrow> 'f buf \<Rightarrow> nat \<Rightarrow> 'f buf" where
  "dequant_tq2_0 fo bd out count =
     snd (for_loop [0..<ceil_div count 256] (\<lambda>b.
       let x = adv bd (b * 66); d = f16_at fo (adv x 64)
       in for_loop [0..<64] (\<lambda>j. for_loop [0..<4] (\<lambda>l.
            emit count (f_mul fo (f_int fo (sint (drop_bit (l * 2) (x j) AND 3) - 1)) d)))) (0, out))"

definition tq2_0_elem :: "'f fops \<Rightarrow> ptr \<Rightarrow> nat \<Rightarrow> 'f" where
  "tq2_0_elem fo bd i =
     (let x = adv bd (i div 256 * 66); j = i mod 256 div 4; l = i mod 4
      in f_mul fo (f_int fo (sint (drop_bit (l * 2) (x j) AND 3) - 1)) (f16_at fo (adv x 64)))"

definition tq1_0_digit :: "nat \<Rightarrow> nat \<times> nat" where
  "tq1_0_digit r =
     (if r < 160 then (r div 32, r mod 32)
      else if r < 240 then ((r - 160) div 16, 32 + (r - 160) mod 16)
      else ((r - 240) div 4, 48 + (r - 240) mod 4))"

definition tq1_0_elem :: "'f fops \<Rightarrow> ptr \<Rightarrow> nat \<Rightarrow> 'f" where
  "tq1_0_elem fo bd i =
     (let x = adv bd (i div 256 * 54); (n, m) = tq1_0_digit (i mod 256)
      in tq1_value fo (f16_at fo (adv x 52)) (x m * pow3 n))"

text \<open>A loop of emits from position \<open>P\<close> writes the run starting there, cut off at \<open>count\<close>.\<close>

lemma emit_run:
  assumes "\<And>k s. k < m \<Longrightarrow> body k (min n (P + k * r), s) =
      (min n (P + Suc k * r), override_on s w ({P + k * r..<P + k * r + r} \<inter> {..<n}))"
  shows "for_loop [0..<m] body (min n P, s) =
      (min n (P + m * r), override_on s w ({P..<P + m * r} \<inter> {..<n}))"
  using runs_loop[where st = "\<lambda>k. min n (P + k * r)" and c = P, OF assms] by simp

lemma emit_one:
  "w P = v \<Longrightarrow> emit n v (min n P, s) = (min n (P + 1), override_on s w ({P..<P + 1} \<inter> {..<n}))"
  by (auto simp: emit_def override_on_def fun_eq_iff min_def)

lemma emit_loop:
  assumes "\<And>k. k < m \<Longrightarrow> w (P + k) = v k"
  shows "for_loop [0..<m] (\<lambda>k. emit n (v k)) (min n P, s) =
      (min n (P + m), override_on s w ({P..<P + m} \<inter> {..<n}))"
  using emit_run[where r = 1 and body = "\<lambda>k. emit n (v k)" and m = m and P = P and n = n and w = w and s = s]
    emit_one[of w _ _ n] assms by simp

lemma blocks_256_cursor:
  assumes "\<And>b s. b < ceil_div n 256 \<Longrightarrow> body b (min n (b * 256), s) =
      (min n (Suc b * 256), override_on s w ({b * 256..<b * 256 + 256} \<inter> {..<n}))"
  shows "snd (for_loop [0..<ceil_div n 256] body (0, out)) = override_on out w {..<n}"
proof -
  have "for_loop (map id [0..<ceil_div n 256]) body ((\<lambda>b. min n (b * 256)) 0, out) =
      ((\<lambda>b. min n (b * 256)) (ceil_div n 256),
       override_on out w (\<Union>b < ceil_div n 256. {b * 256..<b * 256 + 256} \<inter> {..<n}))"
    by (rule for_loop_state) (use assms in auto)
  then show ?thesis using blocks_cover[of 256 n] by simp
qed

lemma block256_div: "r < 256 \<Longrightarrow> (b * 256 + r) div 256 = b" "r < 256 \<Longrightarrow> (b * 256 + r) mod 256 = r"
  for b r :: nat
  by simp_all

lemma tq2_0_elem_at:
  assumes "j < 64" "l < 4"
  shows "tq2_0_elem fo bd (b * 256 + j * 4 + l) =
    f_mul fo (f_int fo (sint (drop_bit (l * 2) (adv bd (b * 66) j) AND 3) - 1))
      (f16_at fo (adv (adv bd (b * 66)) 64))"
proof -
  have r: "j * 4 + l < 256" using assms by simp
  have "(b * 256 + j * 4 + l) div 256 = b" "(b * 256 + j * 4 + l) mod 256 = j * 4 + l"
    using block256_div[OF r, of b] by (simp_all only: add.assoc)
  moreover have "(j * 4 + l) div 4 = j" using assms(2) by simp
  moreover have "(b * 256 + j * 4 + l) mod 4 = l"
  proof -
    have "b * 256 + j * 4 + l = l + (b * 64 + j) * 4" by simp
    then show ?thesis using assms(2) by (metis mod_mult_self1 mod_less)
  qed
  ultimately show ?thesis by (simp only: tq2_0_elem_def Let_def)
qed

lemma dequant_tq2_0_eq: "dequant_tq2_0 fo bd out n = override_on out (tq2_0_elem fo bd) {..<n}"
  unfolding dequant_tq2_0_def Let_def
proof (rule blocks_256_cursor)
  fix b s
  have "for_loop [0..<4] (\<lambda>l. emit n (f_mul fo (f_int fo
          (sint (drop_bit (l * 2) (adv bd (b * 66) j) AND 3) - 1)) (f16_at fo (adv (adv bd (b * 66)) 64))))
        (min n (b * 256 + j * 4), s') =
      (min n (b * 256 + Suc j * 4), override_on s' (tq2_0_elem fo bd)
        ({b * 256 + j * 4..<b * 256 + j * 4 + 4} \<inter> {..<n}))" if "j < 64" for j s'
    by (subst emit_loop[where w = "tq2_0_elem fo bd"])
       (use tq2_0_elem_at[OF that, of _ fo bd b] in \<open>simp_all add: add.assoc add.commute[of 4]\<close>)
  then show "for_loop [0..<64] (\<lambda>j. for_loop [0..<4] (\<lambda>l. emit n (f_mul fo (f_int fo
          (sint (drop_bit (l * 2) (adv bd (b * 66) j) AND 3) - 1)) (f16_at fo (adv (adv bd (b * 66)) 64)))))
        (min n (b * 256), s) =
      (min n (Suc b * 256), override_on s (tq2_0_elem fo bd) ({b * 256..<b * 256 + 256} \<inter> {..<n}))"
    by (subst emit_run[where r = 4 and w = "tq2_0_elem fo bd"]) (simp_all add: add.commute)
qed

text \<open>The three digit groups of a TQ1\_0 block: a loop over \<open>c\<close> digits of \<open>r\<close> bytes each.\<close>

lemma tq1_0_group:
  assumes "\<And>i k. i < c \<Longrightarrow> k < r \<Longrightarrow> o1 + i * r + k < 256 \<and> tq1_0_digit (o1 + i * r + k) = (i, o2 + k)"
  shows "for_loop [0..<c] (\<lambda>i. for_loop [0..<r] (\<lambda>k. emit n (tq1_value fo
          (f16_at fo (adv (adv bd (b * 54)) 52)) (adv bd (b * 54) (o2 + k) * pow3 i))))
        (min n (b * 256 + o1), s) =
      (min n (b * 256 + o1 + c * r), override_on s (tq1_0_elem fo bd)
        ({b * 256 + o1..<b * 256 + o1 + c * r} \<inter> {..<n}))"
proof (rule emit_run)
  fix i s' assume i: "i < c"
  have "tq1_0_elem fo bd (b * 256 + o1 + i * r + k) =
      tq1_value fo (f16_at fo (adv (adv bd (b * 54)) 52)) (adv bd (b * 54) (o2 + k) * pow3 i)"
    if "k < r" for k
  proof -
    have r: "o1 + i * r + k < 256" and d: "tq1_0_digit (o1 + i * r + k) = (i, o2 + k)"
      using assms[OF i that] by auto
    have "(b * 256 + o1 + i * r + k) div 256 = b"
      "(b * 256 + o1 + i * r + k) mod 256 = o1 + i * r + k"
      using block256_div[OF r, of b] by (simp_all only: add.assoc)
    then show ?thesis by (simp only: tq1_0_elem_def Let_def d prod.case)
  qed
  then show "for_loop [0..<r] (\<lambda>k. emit n (tq1_value fo
          (f16_at fo (adv (adv bd (b * 54)) 52)) (adv bd (b * 54) (o2 + k) * pow3 i)))
        (min n (b * 256 + o1 + i * r), s') =
      (min n (b * 256 + o1 + Suc i * r), override_on s' (tq1_0_elem fo bd)
        ({b * 256 + o1 + i * r..<b * 256 + o1 + i * r + r} \<inter> {..<n}))"
    by (subst emit_loop[where w = "tq1_0_elem fo bd"]) (simp_all add: add.commute add.left_commute)
qed

lemma upt_32_48: "[32..<48] = map (\<lambda>k. 32 + k) [0..<16::nat]"
  by code_simp

lemma dequant_tq1_0_eq: "dequant_tq1_0 fo bd out n = override_on out (tq1_0_elem fo bd) {..<n}"
  unfolding dequant_tq1_0_def Let_def
proof (rule blocks_256_cursor)
  fix b s
  let ?x = "adv bd (b * 54)" and ?w = "tq1_0_elem fo bd"
  let ?d = "f16_at fo (adv ?x 52)"
  have g1: "for_loop [0..<5] (\<lambda>i. for_loop [0..<32] (\<lambda>m. emit n (tq1_value fo ?d (?x m * pow3 i))))
      (min n (b * 256), s) = (min n (b * 256 + 160), override_on s ?w ({b * 256..<b * 256 + 160} \<inter> {..<n}))"
    using tq1_0_group[where c = 5 and r = 32 and ?o1.0 = 0 and ?o2.0 = 0 and n = n and b = b and fo = fo
        and bd = bd and s = s]
    by (simp add: tq1_0_digit_def)
  have g2: "for_loop [0..<5] (\<lambda>i. for_loop [32..<48] (\<lambda>m. emit n (tq1_value fo ?d (?x m * pow3 i))))
      (min n (b * 256 + 160), s') =
      (min n (b * 256 + 240), override_on s' ?w ({b * 256 + 160..<b * 256 + 240} \<inter> {..<n}))" for s'
    unfolding upt_32_48 for_loop_map
    using tq1_0_group[where c = 5 and r = 16 and ?o1.0 = 160 and ?o2.0 = 32 and n = n and b = b and fo = fo
        and bd = bd and s = s']
    by (simp add: tq1_0_digit_def add.commute)
  have g3: "for_loop [0..<4] (\<lambda>i. for_loop [0..<4] (\<lambda>j. emit n (tq1_value fo ?d (?x (48 + j) * pow3 i))))
      (min n (b * 256 + 240), s') =
      (min n (b * 256 + 256), override_on s' ?w ({b * 256 + 240..<b * 256 + 256} \<inter> {..<n}))" for s'
    using tq1_0_group[where c = 4 and r = 4 and ?o1.0 = 240 and ?o2.0 = 48 and n = n and b = b and fo = fo
        and bd = bd and s = s']
    by (simp add: tq1_0_digit_def add.commute)
  have "{b * 256..<b * 256 + 160} \<inter> {..<n} \<union> {b * 256 + 160..<b * 256 + 240} \<inter> {..<n} \<union>
      {b * 256 + 240..<b * 256 + 256} \<inter> {..<n} = {b * 256..<b * 256 + 256} \<inter> {..<n}" by auto
  then show "for_loop [0..<4] (\<lambda>i. for_loop [0..<4] (\<lambda>j. emit n (tq1_value fo ?d (?x (48 + j) * pow3 i))))
      (for_loop [0..<5] (\<lambda>i. for_loop [32..<48] (\<lambda>m. emit n (tq1_value fo ?d (?x m * pow3 i))))
        (for_loop [0..<5] (\<lambda>i. for_loop [0..<32] (\<lambda>m. emit n (tq1_value fo ?d (?x m * pow3 i))))
          (min n (b * 256), s))) =
    (min n (Suc b * 256), override_on s ?w ({b * 256..<b * 256 + 256} \<inter> {..<n}))"
    unfolding g1 g2 g3 override_on_twice by (simp add: add.commute)
qed

end
