(* ===== verification/GgufDispatch.thy ===== *)
theory GgufDispatch
  imports GgufBlocks
begin

text \<open>
  The block geometry table \<open>gguf_block_info\<close> and the dispatch \<open>gguf_dequant\<close> of
  \<open>src/gguf_reader.cpp\<close>, with the formats the dispatch handles in line.

  The locale \<open>block_format\<close> is what the tensor reader relies on: the value of an element depends
  only on the bytes of its own block, and on its position inside the block. It is interpreted on the
  references of the formats; \<open>gguf_block_format\<close> gives it for the dispatch on every supported dtype,
  with the geometry of the table.
\<close>

section \<open>Dtypes\<close>

abbreviation (input) "GGUF_DTYPE_F32 \<equiv> (0 :: u32)"
abbreviation (input) "GGUF_DTYPE_F16 \<equiv> (1 :: u32)"
abbreviation (input) "GGUF_DTYPE_Q4_0 \<equiv> (2 :: u32)"
abbreviation (input) "GGUF_DTYPE_Q4_1 \<equiv> (3 :: u32)"
abbreviation (input) "GGUF_DTYPE_Q5_0 \<equiv> (6 :: u32)"
abbreviation (input) "GGUF_DTYPE_Q5_1 \<equiv> (7 :: u32)"
abbreviation (input) "GGUF_DTYPE_Q8_0 \<equiv> (8 :: u32)"
abbreviation (input) "GGUF_DTYPE_Q8_1 \<equiv> (9 :: u32)"
abbreviation (input) "GGUF_DTYPE_Q2_K \<equiv> (10 :: u32)"
abbreviation (input) "GGUF_DTYPE_Q3_K \<equiv> (11 :: u32)"
abbreviation (input) "GGUF_DTYPE_Q4_K \<equiv> (12 :: u32)"
abbreviation (input) "GGUF_DTYPE_Q5_K \<equiv> (13 :: u32)"
abbreviation (input) "GGUF_DTYPE_Q6_K \<equiv> (14 :: u32)"
abbreviation (input) "GGUF_DTYPE_Q8_K \<equiv> (15 :: u32)"
abbreviation (input) "GGUF_DTYPE_IQ2_XXS \<equiv> (16 :: u32)"
abbreviation (input) "GGUF_DTYPE_IQ3_XXS \<equiv> (17 :: u32)"
abbreviation (input) "GGUF_DTYPE_IQ1_S \<equiv> (18 :: u32)"
abbreviation (input) "GGUF_DTYPE_IQ4_NL \<equiv> (19 :: u32)"
abbreviation (input) "GGUF_DTYPE_IQ3_S \<equiv> (20 :: u32)"
abbreviation (input) "GGUF_DTYPE_IQ2_S \<equiv> (21 :: u32)"
abbreviation (input) "GGUF_DTYPE_IQ4_XS \<equiv> (22 :: u32)"
abbreviation (input) "GGUF_DTYPE_IQ1_M \<equiv> (23 :: u32)"
abbreviation (input) "GGUF_DTYPE_BF16 \<equiv> (24 :: u32)"
abbreviation (input) "GGUF_DTYPE_Q4_0_4_4 \<equiv> (26 :: u32)"
abbreviation (input) "GGUF_DTYPE_Q4_0_4_8 \<equiv> (27 :: u32)"
abbreviation (input) "GGUF_DTYPE_Q4_0_8_8 \<equiv> (28 :: u32)"
abbreviation (input) "GGUF_DTYPE_F32_V3 \<equiv> (30 :: u32)"
abbreviation (input) "GGUF_DTYPE_TQ1_0_LLAMA \<equiv> (34 :: u32)"
abbreviation (input) "GGUF_DTYPE_TQ2_0_LLAMA \<equiv> (35 :: u32)"
abbreviation (input) "GGUF_DTYPE_Q1_0 \<equiv> (41 :: u32)"
abbreviation (input) "GGUF_DTYPE_TQ2_0_G128 \<equiv> (42 :: u32)"
abbreviation (input) "GGUF_DTYPE_Q4NX_TILE \<equiv> (43 :: u32)"
abbreviation (input) "GGUF_DTYPE_Q4_0_ROCMFP4 \<equiv> (100 :: u32)"
abbreviation (input) "GGUF_DTYPE_Q4_0_ROCMFP4_FAST \<equiv> (101 :: u32)"

definition gguf_block_info :: "u32 \<Rightarrow> nat \<times> nat" where
  "gguf_block_info dtype =
     (if dtype = GGUF_DTYPE_F32 then (1, 4) else
      if dtype = GGUF_DTYPE_F16 then (1, 2) else
      if dtype = GGUF_DTYPE_BF16 then (1, 2) else
      if dtype = GGUF_DTYPE_F32_V3 then (1, 2) else
      if dtype = GGUF_DTYPE_Q4_0 then (32, 18) else
      if dtype = GGUF_DTYPE_Q4_1 then (32, 20) else
      if dtype = GGUF_DTYPE_Q5_0 then (32, 22) else
      if dtype = GGUF_DTYPE_Q5_1 then (32, 24) else
      if dtype = GGUF_DTYPE_Q8_0 then (32, 34) else
      if dtype = GGUF_DTYPE_Q8_1 then (32, 36) else
      if dtype = GGUF_DTYPE_Q2_K then (256, 84) else
      if dtype = GGUF_DTYPE_Q3_K then (256, 110) else
      if dtype = GGUF_DTYPE_Q4_K then (256, 144) else
      if dtype = GGUF_DTYPE_Q5_K then (256, 176) else
      if dtype = GGUF_DTYPE_Q6_K then (256, 210) else
      if dtype = GGUF_DTYPE_Q8_K then (256, 292) else
      if dtype = GGUF_DTYPE_IQ1_S then (256, 50) else
      if dtype = GGUF_DTYPE_IQ1_M then (256, 56) else
      if dtype = GGUF_DTYPE_IQ2_XXS then (256, 166) else
      if dtype = GGUF_DTYPE_IQ2_S then (256, 214) else
      if dtype = GGUF_DTYPE_IQ3_XXS then (256, 198) else
      if dtype = GGUF_DTYPE_IQ3_S then (256, 238) else
      if dtype = GGUF_DTYPE_IQ4_NL then (32, 22) else
      if dtype = GGUF_DTYPE_IQ4_XS then (256, 214) else
      if dtype = GGUF_DTYPE_Q4_0_4_4 then (256, 208) else
      if dtype = GGUF_DTYPE_Q4_0_4_8 then (256, 208) else
      if dtype = GGUF_DTYPE_Q4_0_8_8 then (256, 272) else
      if dtype = GGUF_DTYPE_Q4NX_TILE then (8192, 5120) else
      if dtype = GGUF_DTYPE_TQ2_0_G128 then (128, 34) else
      if dtype = GGUF_DTYPE_TQ1_0_LLAMA then (256, 54) else
      if dtype = GGUF_DTYPE_TQ2_0_LLAMA then (256, 66) else
      if dtype = GGUF_DTYPE_Q1_0 then (128, 18) else
      if dtype = GGUF_DTYPE_Q4_0_ROCMFP4 then (32, 18) else
      if dtype = GGUF_DTYPE_Q4_0_ROCMFP4_FAST then (32, 17)
      else (0, 0))"

section \<open>The formats of the dispatch itself\<close>

text \<open>Each is a loop \<open>for (i = 0; i < count; i++) out[i] = e(i)\<close>; the definition is the body.\<close>

definition f32_elem :: "'f fops \<Rightarrow> ptr \<Rightarrow> nat \<Rightarrow> 'f" where
  "f32_elem fo data i = f_bits fo (rd32 (adv data (i * 4)))"

definition bf16_elem :: "'f fops \<Rightarrow> ptr \<Rightarrow> nat \<Rightarrow> 'f" where
  "bf16_elem fo data i = bf16_to_fp32 fo (rd16 (adv data (i * 2)))"

definition f16_elem :: "'f fops \<Rightarrow> ptr \<Rightarrow> nat \<Rightarrow> 'f" where
  "f16_elem fo data i = f16_at fo (adv data (i * 2))"

definition q8_1_elem :: "'f fops \<Rightarrow> ptr \<Rightarrow> nat \<Rightarrow> 'f" where
  "q8_1_elem fo data i =
     (let bi = i div 32; ei = i mod 32; blk = adv data (bi * 36); d = f16_at fo blk
      in f_mul fo (f_int fo (sint (blk (4 + ei)))) d)"

definition q1_0_elem :: "'f fops \<Rightarrow> ptr \<Rightarrow> nat \<Rightarrow> 'f" where
  "q1_0_elem fo data i =
     (let bi = i div 128; ei = i mod 128; blk = adv data (bi * 18); sc = f16_at fo blk
      in if drop_bit (ei mod 8) (blk (2 + ei div 8)) AND 1 \<noteq> 0 then sc else f_neg fo sc)"

definition q4nx_elem :: "'f fops \<Rightarrow> ptr \<Rightarrow> nat \<Rightarrow> 'f" where
  "q4nx_elem fo data i =
     (let t = i div (32 * 256); e = i mod (32 * 256); r = e div 256; c = e mod 256;
          tile = adv data (t * 5120);
          sc = bf16_to_fp32 fo (rd16 (adv tile ((r * 8 + c div 32) * 2)));
          zp = bf16_to_fp32 fo (rd16 (adv tile (32 * 8 * 2 + (r * 8 + c div 32) * 2)));
          sc = (if f_less fo sc (f_rat fo (1 / 10 ^ 10)) then f_rat fo 1 else sc);
          packed = tile (32 * 8 * 4 + (r * 256 + c) div 2);
          v = (if odd c then drop_bit 4 packed else packed AND 0xF)
      in f_add fo (f_mul fo (f_int fo (uint v)) sc) zp)"

definition tq2_g128_elem :: "'f fops \<Rightarrow> ptr \<Rightarrow> nat \<Rightarrow> 'f" where
  "tq2_g128_elem fo data i =
     (let bi = i div 128; ei = i mod 128; blk = adv data (bi * 34); sc = f16_at fo blk;
          c = drop_bit (ei mod 4 * 2) (blk (2 + ei div 4)) AND 3
      in if c = 0 then f_neg fo sc else if c = 2 then sc else f_rat fo 0)"

text \<open>Finite unsigned E4M3 scale, and the ten-value codebook with its sign bit.\<close>

definition ue4m3 :: "'f fops \<Rightarrow> byte \<Rightarrow> 'f" where
  "ue4m3 fo e =
     (if 0x7e < e then f_rat fo 0
      else let exp = drop_bit 3 e; mant = e AND 7
           in if exp = 0 then f_mul fo (f_int fo (uint mant)) (f_rat fo (1 / 1024))
              else f_mul fo (f_add fo (f_rat fo 8) (f_int fo (uint mant)))
                     (f_rat fo (2 powi (uint exp - 11))))"

definition cb10 :: "byte \<Rightarrow> int" where
  "cb10 q =
     (let mag3 = uint (q AND 7); mag = (if mag3 \<le> 4 then mag3 else 2 * mag3 - 4)
      in if q AND 8 \<noteq> 0 then - mag else mag)"

definition rocmfp4_elem :: "'f fops \<Rightarrow> bool \<Rightarrow> ptr \<Rightarrow> nat \<Rightarrow> 'f" where
  "rocmfp4_elem fo fast data i =
     (let block_bytes = (if fast then 17 else 18);
          bi = i div 32; ei = i mod 32; j = ei mod 16;
          blk = adv data (bi * block_bytes); q = blk j;
          nib = (if ei < 16 then q AND 0xF else drop_bit 4 q)
      in if fast then f_mul fo (f_int fo (cb10 nib)) (ue4m3 fo (blk 16))
         else let d0 = ue4m3 fo (blk 16); d1 = ue4m3 fo (blk 17)
              in f_mul fo (f_int fo (cb10 nib)) (if ei < 16 then d0 else d1))"

definition each_elem :: "(nat \<Rightarrow> 'f) \<Rightarrow> 'f buf \<Rightarrow> nat \<Rightarrow> 'f buf" where
  "each_elem e out count = for_loop [0..<count] (\<lambda>i out. out(i := e i)) out"

lemma each_elem_eq: "each_elem e out n = override_on out e {..<n}"
proof -
  have "for_loop [0..<n] (\<lambda>i out. out(i := e i)) out = override_on out e (\<Union>i \<in> set [0..<n]. {i})"
    by (rule for_loop_override) (simp add: upd_override_on)
  then show ?thesis by (simp add: each_elem_def lessThan_atLeast0)
qed

section \<open>The dispatch\<close>

definition gguf_dequant :: "'f fops \<Rightarrow> u32 \<Rightarrow> ptr \<Rightarrow> 'f buf \<Rightarrow> nat \<Rightarrow> 'f buf option" where
  "gguf_dequant fo dtype data out count =
     (if dtype = GGUF_DTYPE_F32 then Some (each_elem (f32_elem fo data) out count) else
      if dtype = GGUF_DTYPE_F32_V3 then Some (each_elem (bf16_elem fo data) out count) else
      if dtype = GGUF_DTYPE_F16 then Some (each_elem (f16_elem fo data) out count) else
      if dtype = GGUF_DTYPE_BF16 then Some (each_elem (bf16_elem fo data) out count) else
      if dtype = GGUF_DTYPE_Q4_0 then Some (dequant_q4_0 fo data out count) else
      if dtype = GGUF_DTYPE_Q4_1 then Some (dequant_q4_1 fo data out count) else
      if dtype = GGUF_DTYPE_Q5_0 then Some (dequant_q5_0 fo data out count) else
      if dtype = GGUF_DTYPE_Q5_1 then Some (dequant_q5_1 fo data out count) else
      if dtype = GGUF_DTYPE_Q8_0 then Some (dequant_q8_0 fo data out count) else
      if dtype = GGUF_DTYPE_Q8_1 then Some (each_elem (q8_1_elem fo data) out count) else
      if dtype = GGUF_DTYPE_Q2_K then Some (dequant_q2_k fo data out count) else
      if dtype = GGUF_DTYPE_Q3_K then Some (dequant_q3_k fo data out count) else
      if dtype = GGUF_DTYPE_Q4_K then Some (dequant_q4_k fo data out count) else
      if dtype = GGUF_DTYPE_Q5_K then Some (dequant_q5_k fo data out count) else
      if dtype = GGUF_DTYPE_Q6_K then Some (dequant_q6_k fo data out count) else
      if dtype = GGUF_DTYPE_Q8_K then Some (dequant_q8_k fo data out count) else
      if dtype = GGUF_DTYPE_TQ1_0_LLAMA then Some (dequant_tq1_0 fo data out count) else
      if dtype = GGUF_DTYPE_TQ2_0_LLAMA then Some (dequant_tq2_0 fo data out count) else
      if dtype = GGUF_DTYPE_Q1_0 then Some (each_elem (q1_0_elem fo data) out count) else
      if dtype = GGUF_DTYPE_Q4NX_TILE then Some (each_elem (q4nx_elem fo data) out count) else
      if dtype = GGUF_DTYPE_TQ2_0_G128 then Some (each_elem (tq2_g128_elem fo data) out count) else
      if dtype = GGUF_DTYPE_Q4_0_ROCMFP4 \<or> dtype = GGUF_DTYPE_Q4_0_ROCMFP4_FAST
      then Some (each_elem
             (rocmfp4_elem fo (dtype = GGUF_DTYPE_Q4_0_ROCMFP4_FAST) data) out count)
      else None)"

text \<open>The reference of the dispatch.\<close>

definition gguf_elem :: "'f fops \<Rightarrow> u32 \<Rightarrow> (ptr \<Rightarrow> nat \<Rightarrow> 'f) option" where
  "gguf_elem fo dtype = map_of
     [(0, f32_elem fo), (30, bf16_elem fo), (1, f16_elem fo), (24, bf16_elem fo),
      (2, q4_0_elem fo), (3, q4_1_elem fo), (6, q5_0_elem fo), (7, q5_1_elem fo),
      (8, q8_0_elem fo), (9, q8_1_elem fo),
      (10, q2_k_elem fo), (11, q3_k_elem fo), (12, q4_k_elem fo), (13, q5_k_elem fo),
      (14, q6_k_elem fo), (15, q8_k_elem fo), (34, tq1_0_elem fo), (35, tq2_0_elem fo),
      (41, q1_0_elem fo), (43, q4nx_elem fo), (42, tq2_g128_elem fo),
      (100, rocmfp4_elem fo False), (101, rocmfp4_elem fo True)] dtype"

lemmas dequant_eqs = dequant_q4_0_eq dequant_q4_1_eq dequant_q5_0_eq dequant_q5_1_eq dequant_q8_0_eq
  dequant_q2_k_eq dequant_q3_k_eq dequant_q4_k_eq dequant_q5_k_eq dequant_q6_k_eq dequant_q8_k_eq
  dequant_tq1_0_eq dequant_tq2_0_eq each_elem_eq

lemma gguf_dequant_eq:
  "gguf_dequant fo dtype data out n =
     map_option (\<lambda>e. override_on out (e data) {..<n}) (gguf_elem fo dtype)"
  unfolding gguf_dequant_def gguf_elem_def dequant_eqs by (auto simp: map_of.simps)

section \<open>Block formats\<close>

text \<open>\<open>cut n p\<close> keeps the first \<open>n\<close> bytes at \<open>p\<close> and forgets what lies behind them.\<close>

definition cut :: "nat \<Rightarrow> ptr \<Rightarrow> ptr" where
  "cut n p = (\<lambda>k. if k < n then p k else 0)"

lemma cut_apply [simp]: "k < n \<Longrightarrow> cut n p k = p k"
  by (simp add: cut_def)

lemma cut_cong: "(\<And>k. k < n \<Longrightarrow> p k = q k) \<Longrightarrow> cut n p = cut n q"
  by (auto simp: cut_def)

lemma rd16_cut [simp]: "k + 1 < n \<Longrightarrow> rd16 (adv (cut n p) k) = rd16 (adv p k)"
  by (simp add: rd16_def)

lemma rd32_cut [simp]: "k + 3 < n \<Longrightarrow> rd32 (adv (cut n p) k) = rd32 (adv p k)"
  by (simp add: rd32_def)

lemma read_f16_cut [simp]: "k + 1 < n \<Longrightarrow> read_f16 (adv (cut n p) k) = read_f16 (adv p k)"
  by (simp add: read_f16_def)

lemma f16_cut0 [simp]: "1 < n \<Longrightarrow> read_f16 (cut n p) = read_f16 p"
  using read_f16_cut[of 0 n p] by simp

lemma rd16_cut0 [simp]: "1 < n \<Longrightarrow> rd16 (cut n p) = rd16 p"
  using rd16_cut[of 0 n p] by simp

lemma rd32_cut0 [simp]: "3 < n \<Longrightarrow> rd32 (cut n p) = rd32 p"
  using rd32_cut[of 0 n p] by simp

text \<open>The contract of a format with \<open>bs\<close> elements in a block of \<open>bb\<close> bytes.\<close>

locale block_format =
  fixes elem :: "ptr \<Rightarrow> nat \<Rightarrow> 'f" and bs :: nat and bb :: nat
  assumes bs_pos: "0 < bs"
    and shift: "elem p i = elem (adv p (i div bs * bb)) (i mod bs)"
    and in_block: "e < bs \<Longrightarrow> elem (cut bb p) e = elem p e"
begin

text \<open>Starting at block \<open>b\<close> shifts the elements by whole blocks.\<close>

lemma elem_from_block: "elem (adv p (b * bb)) i = elem p (b * bs + i)"
proof -
  have "elem p (b * bs + i) = elem (adv p ((b + i div bs) * bb)) (i mod bs)"
    using shift[of p "b * bs + i"] bs_pos by simp
  also have "\<dots> = elem (adv p (b * bb)) i"
    using shift[of "adv p (b * bb)" i] by (simp add: adv_adv distrib_right)
  finally show ?thesis by simp
qed

text \<open>The first \<open>n\<close> elements are a function of the bytes of their blocks.\<close>

lemma elem_reads:
  assumes "\<And>k. k < ceil_div n bs * bb \<Longrightarrow> p k = q k" and i: "i < n"
  shows "elem p i = elem q i"
proof -
  have "i div bs * bs < n" using i by (meson div_times_less_eq_dividend le_less_trans)
  then have "i div bs < ceil_div n bs" using bs_pos by (simp add: less_ceil_div)
  then have "Suc (i div bs) * bb \<le> ceil_div n bs * bb" by (intro mult_right_mono) auto
  then have "cut bb (adv p (i div bs * bb)) = cut bb (adv q (i div bs * bb))"
    by (intro cut_cong) (simp add: assms(1))
  then have "elem (adv p (i div bs * bb)) (i mod bs) = elem (adv q (i div bs * bb)) (i mod bs)"
    using in_block[of "i mod bs"] bs_pos by (metis mod_less_divisor)
  then show ?thesis using shift[of p i] shift[of q i] by simp
qed

end

lemma mod_div_mod: "i mod (a * b) div a = i div a mod b" for i a b :: nat
  by (cases "a = 0") (simp_all add: mod_mult2_eq)

lemma mod256 [simp]:
  "i mod 256 div 128 mod 2 = i div 128 mod 2" "i mod 256 div 32 mod 4 = i div 32 mod 4"
  "i mod 256 div 16 mod 2 = i div 16 mod 2" "i mod 256 mod 16 = i mod 16"
  "i mod 256 div 64 mod 4 = i div 64 mod 4" "i mod 256 div 32 mod 2 = i div 32 mod 2"
  "i mod 256 mod 32 = i mod 32" "i mod 256 div 256 = 0" "i mod 256 mod 4 = i mod 4" for i :: nat
proof -
  have "i mod 256 div 128 = i div 128 mod 2" using mod_div_mod[of i 128 2] by simp
  then show "i mod 256 div 128 mod 2 = i div 128 mod 2" by simp
  have d32: "i mod 256 div 32 = i div 32 mod 8" using mod_div_mod[of i 32 8] by simp
  show "i mod 256 div 32 mod 4 = i div 32 mod 4" unfolding d32 by (rule mod_mod_cancel) simp
  show "i mod 256 div 32 mod 2 = i div 32 mod 2" unfolding d32 by (rule mod_mod_cancel) simp
  have d16: "i mod 256 div 16 = i div 16 mod 16" using mod_div_mod[of i 16 16] by simp
  show "i mod 256 div 16 mod 2 = i div 16 mod 2" unfolding d16 by (rule mod_mod_cancel) simp
  have "i mod 256 div 64 = i div 64 mod 4" using mod_div_mod[of i 64 4] by simp
  then show "i mod 256 div 64 mod 4 = i div 64 mod 4" by simp
  show "i mod 256 div 256 = 0" by simp
  show "i mod 256 mod 16 = i mod 16" "i mod 256 mod 32 = i mod 32" "i mod 256 mod 4 = i mod 4"
    by (rule mod_mod_cancel, simp)+
qed

lemma block_format_elem16:
  assumes "\<And>p b. V p b = V (adv p (b * bb)) 0"
    and "\<And>p h j u l. h < 2 \<Longrightarrow> j < 4 \<Longrightarrow> u < 2 \<Longrightarrow> l < 16 \<Longrightarrow> V (cut bb p) 0 h j u l = V p 0 h j u l"
  shows "block_format (\<lambda>p. elem16 (V p)) 256 bb"
  by unfold_locales (use assms in \<open>auto simp: elem16_def\<close>)

lemma block_format_elem32:
  assumes "\<And>p b. V p b = V (adv p (b * bb)) 0"
    and "\<And>p h t l. h < 2 \<Longrightarrow> t < 4 \<Longrightarrow> l < 32 \<Longrightarrow> V (cut bb p) 0 h t l = V p 0 h t l"
  shows "block_format (\<lambda>p. elem32 (V p)) 256 bb"
  by unfold_locales (use assms in \<open>auto simp: elem32_def\<close>)

lemma block_format_elem64:
  assumes "\<And>p b. V p b = V (adv p (b * bb)) 0"
    and "\<And>p g t l. g < 4 \<Longrightarrow> t < 2 \<Longrightarrow> l < 32 \<Longrightarrow> V (cut bb p) 0 g t l = V p 0 g t l"
  shows "block_format (\<lambda>p. elem64 (V p)) 256 bb"
  by unfold_locales (use assms in \<open>auto simp: elem64_def\<close>)

lemma block_format_flat:
  assumes "0 < bs" "\<And>p i. E p i = V (adv p (i div bs * bb)) (i mod bs)"
    and "\<And>p e. e < bs \<Longrightarrow> V (cut bb p) e = V p e"
  shows "block_format E bs bb"
  by unfold_locales (use assms in auto)

text \<open>Bounds of the positions inside a block.\<close>

lemma mod_div_less: "0 < b \<Longrightarrow> e mod (a * b) div a < b" for e a b :: nat
  by (simp add: mod_div_mod)

interpretation bf_f32: block_format "f32_elem fo" 1 4 for fo
  by (rule block_format_flat[where V = "\<lambda>p e. f_bits fo (rd32 p)"]) (simp_all add: f32_elem_def)

interpretation bf_bf16: block_format "bf16_elem fo" 1 2 for fo
  by (rule block_format_flat[where V = "\<lambda>p e. bf16_to_fp32 fo (rd16 p)"]) (simp_all add: bf16_elem_def)

interpretation bf_f16: block_format "f16_elem fo" 1 2 for fo
  by (rule block_format_flat[where V = "\<lambda>p e. f16_at fo p"]) (simp_all add: f16_elem_def)

interpretation bf_q4_0: block_format "q4_0_elem fo" 32 18 for fo
  by unfold_locales (auto simp: q4_0_elem_def Let_def)

interpretation bf_q4_1: block_format "q4_1_elem fo" 32 20 for fo
  by unfold_locales (auto simp: q4_1_elem_def Let_def adv_adv)

interpretation bf_q5_0: block_format "q5_0_elem fo" 32 22 for fo
  by unfold_locales (auto simp: q5_0_elem_def Let_def adv_adv)

interpretation bf_q5_1: block_format "q5_1_elem fo" 32 24 for fo
  by unfold_locales (auto simp: q5_1_elem_def Let_def adv_adv)

interpretation bf_q8_0: block_format "q8_0_elem fo" 32 34 for fo
  by unfold_locales (auto simp: q8_0_elem_def Let_def adv_adv)

interpretation bf_q8_1: block_format "q8_1_elem fo" 32 36 for fo
  by unfold_locales (auto simp: q8_1_elem_def Let_def adv_adv)

interpretation bf_q2_k: block_format "q2_k_elem fo" 256 84 for fo
  by (rule block_format_elem16) (auto simp: q2_k_value_def Let_def adv_adv fun_eq_iff add.assoc)

interpretation bf_q3_k: block_format "q3_k_elem fo" 256 110 for fo
  by (rule block_format_elem16)
     (auto simp: q3_k_value_def q3_k_scale_def q3_k_aux_def Let_def adv_adv fun_eq_iff add.assoc)

interpretation bf_q4_k: block_format "q4_k_elem fo" 256 144 for fo
  by (rule block_format_elem64)
     (auto simp: q4_k_value_def k_get_scale_min_def Let_def adv_adv fun_eq_iff add.assoc)

interpretation bf_q5_k: block_format "q5_k_elem fo" 256 176 for fo
  by (rule block_format_elem64)
     (auto simp: q5_k_value_def k_get_scale_min_def Let_def adv_adv fun_eq_iff add.assoc)

interpretation bf_q6_k: block_format "q6_k_elem fo" 256 210 for fo
  by (rule block_format_elem32) (auto simp: q6_k_value_def Let_def adv_adv fun_eq_iff add.assoc)

interpretation bf_q8_k: block_format "q8_k_elem fo" 256 292 for fo
  by unfold_locales (auto simp: q8_k_elem_def Let_def adv_adv)

interpretation bf_tq1_0: block_format "tq1_0_elem fo" 256 54 for fo
  by unfold_locales (auto simp: tq1_0_elem_def tq1_0_digit_def Let_def adv_adv split: prod.splits)

interpretation bf_tq2_0: block_format "tq2_0_elem fo" 256 66 for fo
  by unfold_locales (auto simp: tq2_0_elem_def Let_def adv_adv)

interpretation bf_q1_0: block_format "q1_0_elem fo" 128 18 for fo
  by unfold_locales (auto simp: q1_0_elem_def Let_def adv_adv)

interpretation bf_tq2_g128: block_format "tq2_g128_elem fo" 128 34 for fo
  by unfold_locales (auto simp: tq2_g128_elem_def Let_def adv_adv)

interpretation bf_rocmfp4: block_format "rocmfp4_elem fo fast" 32 "(if fast then 17 else 18)" for fo fast
  by unfold_locales (auto simp: rocmfp4_elem_def Let_def adv_adv)

interpretation bf_q4nx: block_format "q4nx_elem fo" 8192 5120 for fo
  by unfold_locales (auto simp: q4nx_elem_def Let_def adv_adv)

lemmas block_formats = bf_f32.block_format_axioms
  bf_bf16.block_format_axioms
  bf_f16.block_format_axioms
  bf_q4_0.block_format_axioms
  bf_q4_1.block_format_axioms
  bf_q5_0.block_format_axioms
  bf_q5_1.block_format_axioms
  bf_q8_0.block_format_axioms
  bf_q8_1.block_format_axioms
  bf_q2_k.block_format_axioms
  bf_q3_k.block_format_axioms
  bf_q4_k.block_format_axioms
  bf_q5_k.block_format_axioms
  bf_q6_k.block_format_axioms
  bf_q8_k.block_format_axioms
  bf_tq1_0.block_format_axioms
  bf_tq2_0.block_format_axioms
  bf_q1_0.block_format_axioms
  bf_tq2_g128.block_format_axioms
  bf_rocmfp4.block_format_axioms
  bf_q4nx.block_format_axioms

text \<open>What the dispatch decodes has the geometry of the table.\<close>

lemma gguf_block_format:
  assumes "gguf_elem fo dtype = Some e" "gguf_block_info dtype = (bs, bb)"
  shows "block_format e bs bb"
  using assms bf_rocmfp4.block_format_axioms[of fo True] bf_rocmfp4.block_format_axioms[of fo False]
  unfolding gguf_elem_def
  by (auto simp: gguf_block_info_def simp del: One_nat_def split: if_splits intro: block_formats)

section \<open>What the dispatch promises\<close>

text \<open>C32. The dequantiser of every supported dtype (thirteen block routines with their nested loops,
  running pointers and early exits, and the formats decoded in line) stores exactly the reference
  value of each element below \<open>count\<close> and nothing else; every other dtype is refused.
\<close>

theorem gguf_dequant_correct:
  "gguf_dequant fo dtype data out n =
     (case gguf_elem fo dtype of None \<Rightarrow> None
      | Some e \<Rightarrow> Some (\<lambda>i. if i < n then e data i else out i))"
  unfolding gguf_dequant_eq by (auto simp: override_on_def split: option.splits)

text \<open>C33. Dequantising \<open>n\<close> elements depends only on the \<open>ceil(n / bs)\<close> blocks of \<open>bb\<close> bytes that the
  geometry table announces: what follows in memory is never looked at in a way that shows.
\<close>

theorem gguf_dequant_reads_blocks:
  assumes "gguf_block_info dtype = (bs, bb)" and "\<forall>k < ceil_div n bs * bb. data k = data' k"
  shows "gguf_dequant fo dtype data out n = gguf_dequant fo dtype data' out n"
proof (cases "gguf_elem fo dtype")
  case None
  then show ?thesis by (simp add: gguf_dequant_eq)
next
  case (Some e)
  then have "block_format e bs bb" using assms(1) by (rule gguf_block_format)
  then have "e data i = e data' i" if "i < n" for i
    using block_format.elem_reads[of e bs bb n data data' i] assms(2) that by blast
  with Some show ?thesis by (auto simp: gguf_dequant_eq override_on_def)
qed

theorem gguf_dequant_reads_blocks_witness:
  "\<forall>(fo :: rat fops) out.
     gguf_dequant fo 2 (\<lambda>_. 3) out 40 = gguf_dequant fo 2 (\<lambda>k. if k < 36 then 3 else 7) out 40"
  by (intro allI, rule gguf_dequant_reads_blocks[of _ 32 18]) (auto simp: gguf_block_info_def ceil_div_def)

end
