(* ===== verification/GgufBits.thy ===== *)
theory GgufBits
  imports GgufDispatch
begin

text \<open>
  What the bit manipulation of the block formats computes: the 6-bit scales that \<open>dequant_q3_k\<close>
  unpacks four at a time, the packed (scale, min) pairs of Q4\_K and Q5\_K, the base-3 digits of
  TQ1\_0, the fifth bits of Q5\_0 and Q5\_1, and the order of the finite half-precision patterns.
\<close>

section \<open>Bytes out of words\<close>

lemma byte_eqI: "(\<And>n. n < 8 \<Longrightarrow> bit (a :: byte) n = bit b n) \<Longrightarrow> a = b"
  by (rule bit_word_eqI) simp

lemma sint_minus_32: "b < 64 \<Longrightarrow> sint ((b :: byte) - 32) = uint b - 32"
proof -
  assume "b < 64"
  then have b: "b = of_nat (unat b)" "unat b < 64" by (simp_all add: word_less_nat_alt)
  have "\<forall>k \<in> set [0..<64]. sint ((of_nat k :: byte) - 32) = uint (of_nat k :: byte) - 32"
    by code_simp
  with b(2) have "sint ((of_nat (unat b) :: byte) - 32) = uint (of_nat (unat b) :: byte) - 32"
    by (metis atLeastLessThan_iff le0 set_upt)
  then show ?thesis by (simp only: b(1)[symmetric])
qed

definition byte_at :: "nat \<Rightarrow> u32 \<Rightarrow> byte" where
  "byte_at c w = ucast (drop_bit (8 * c) w)"

lemma byte_at_OR: "byte_at c (a OR b) = byte_at c a OR byte_at c b"
  by (rule bit_word_eqI) (auto simp: byte_at_def bit_simps)

lemma lane_cases: "c < 4 \<Longrightarrow> c = 0 \<or> c = 1 \<or> c = 2 \<or> c = (3 :: nat)"
  by auto

lemma masks:
  assumes "c < 4" "n < 8"
  shows "bit (0x0f0f0f0f :: u32) (8 * c + n) = bit (0xF :: byte) n"
    and "bit (0x03030303 :: u32) (8 * c + n) = bit (3 :: byte) n"
proof -
  have "\<forall>c \<in> set [0..<4]. \<forall>n \<in> set [0..<8].
      bit (0x0f0f0f0f :: u32) (8 * c + n) = bit (0xF :: byte) n \<and>
      bit (0x03030303 :: u32) (8 * c + n) = bit (3 :: byte) n" by code_simp
  then show "bit (0x0f0f0f0f :: u32) (8 * c + n) = bit (0xF :: byte) n"
    "bit (0x03030303 :: u32) (8 * c + n) = bit (3 :: byte) n" using assms by auto
qed

lemma byte_at_bit: "n < 8 \<Longrightarrow> c < 4 \<Longrightarrow> bit (byte_at c w) n = bit w (8 * c + n)"
  by (auto simp: byte_at_def bit_simps)

lemma bit_high: "8 \<le> n \<Longrightarrow> \<not> bit (b :: byte) n"
  using bit_imp_le_length[of b n] by auto

lemma byte_at_rd32: "c < 4 \<Longrightarrow> byte_at c (rd32 p) = p c"
  by (drule lane_cases, rule byte_eqI)
     (auto simp: byte_at_bit rd32_def bit_simps bit_high)

lemma byte_at_nibble: "c < 4 \<Longrightarrow> byte_at c (w AND 0x0f0f0f0f) = byte_at c w AND 0xF"
  by (rule byte_eqI) (simp only: byte_at_bit bit_and_iff masks)

lemma mask_room:
  "\<forall>n \<in> set [0..<8]. bit (0xF :: byte) n \<longrightarrow> n < 4" "\<forall>n \<in> set [0..<8]. bit (3 :: byte) n \<longrightarrow> n < 2"
  by code_simp+

text \<open>A shifted mask keeps the shift inside the byte.\<close>

lemma byte_at_shifted:
  assumes "c < 4" "s < 8" "\<And>n. n < 8 \<Longrightarrow> bit M n \<Longrightarrow> n + s < 8"
    and "\<And>n. n < 8 \<Longrightarrow> bit (m :: u32) (8 * c + n) = bit M n"
  shows "byte_at c (drop_bit s w AND m) = drop_bit s (byte_at c w) AND M"
proof (rule byte_eqI)
  fix n :: nat assume n: "n < 8"
  show "bit (byte_at c (drop_bit s w AND m)) n = bit (drop_bit s (byte_at c w) AND M) n"
  proof (cases "bit M n")
    case True
    then show ?thesis
      using n assms by (simp add: byte_at_bit bit_and_iff bit_drop_bit_eq ac_simps)
  next
    case False
    then show ?thesis using n assms by (simp add: byte_at_bit bit_and_iff)
  qed
qed

lemma byte_at_push:
  assumes "c < 4"
  shows "byte_at c (push_bit 4 (x AND 0x03030303)) = push_bit 4 (byte_at c x AND 3)"
proof (rule byte_eqI)
  fix n :: nat assume n: "n < 8"
  have two: "\<not> bit (3 :: byte) (k + 4)" if "k < 4" for k
  proof
    assume "bit (3 :: byte) (k + 4)"
    moreover have "k + 4 \<in> set [0..<8]" using that by simp
    ultimately have "k + 4 < 2" using mask_room(2) by blast
    then show False by simp
  qed
  show "bit (byte_at c (push_bit 4 (x AND 0x03030303))) n = bit (push_bit 4 (byte_at c x AND 3)) n"
  proof (cases "4 \<le> n")
    case True
    then have "8 * c + n - 4 = 8 * c + (n - 4)" by simp
    moreover have "n - 4 < 8" using n by simp
    ultimately show ?thesis
      using n assms True
      by (simp only: byte_at_bit bit_and_iff bit_push_bit_iff masks(2)) simp
  next
    case False
    have "\<not> (4 \<le> 8 * c + n \<and> bit (0x03030303 :: u32) (8 * c + n - 4))"
    proof (cases c)
      case (Suc c')
      then have eq: "8 * c + n - 4 = 8 * c' + (n + 4)" by simp
      have "c' < 4" "n + 4 < 8" "n < 4" using assms Suc False by auto
      then show ?thesis unfolding eq using masks(2)[of c' "n + 4"] two[of n] by blast
    qed (use False in auto)
    then show ?thesis
      using n assms False by (simp only: byte_at_bit bit_and_iff bit_push_bit_iff) blast
  qed
qed

section \<open>Q3\_K scales\<close>

text \<open>The layout of the twelve bytes: a low nibble in the first eight bytes, two high bits in the last four.\<close>

definition q3_k_scale_code :: "ptr \<Rightarrow> nat \<Rightarrow> byte" where
  "q3_k_scale_code raw j =
     (if j < 8 then raw j AND 0xF else drop_bit 4 (raw (j - 8)))
       OR push_bit 4 (drop_bit (2 * (j div 4)) (raw (8 + j mod 4)) AND 3)"

lemma high_nibble: "drop_bit 4 b AND 0xF = drop_bit 4 (b :: byte)"
proof (rule byte_eqI)
  fix n :: nat
  have "\<forall>k \<in> set [0..<4]. bit (0xF :: byte) k" by code_simp
  then show "bit (drop_bit 4 b AND 0xF) n = bit (drop_bit 4 b) n"
    using bit_high[of "4 + n" b] by (cases "n < 4") (auto simp: bit_and_iff bit_drop_bit_eq)
qed

lemma byte_at_two: "c < 4 \<Longrightarrow> s \<le> 6 \<Longrightarrow>
    byte_at c (drop_bit s w AND 0x03030303) = drop_bit s (byte_at c w) AND 3"
  using mask_room(2) by (intro byte_at_shifted masks) fastforce+

lemma byte_at_high:
  assumes "c < 4"
  shows "byte_at c (drop_bit 4 w AND 0x0f0f0f0f) = drop_bit 4 (byte_at c w)"
proof -
  have "byte_at c (drop_bit 4 w AND 0x0f0f0f0f) = drop_bit 4 (byte_at c w) AND 0xF"
    by (rule byte_at_shifted[OF assms], simp, use mask_room(1) in fastforce, rule masks[OF assms])
  then show ?thesis by (simp only: high_nibble)
qed

lemma q3_k_aux_at:
  "q3_k_aux raw 0 = (rd32 raw AND 0x0f0f0f0f) OR push_bit 4 (rd32 (adv raw 8) AND 0x03030303)"
  "q3_k_aux raw 1 =
     (rd32 (adv raw 4) AND 0x0f0f0f0f) OR push_bit 4 (drop_bit 2 (rd32 (adv raw 8)) AND 0x03030303)"
  "q3_k_aux raw 2 = (drop_bit 4 (rd32 raw) AND 0x0f0f0f0f) OR
     push_bit 4 (drop_bit 4 (rd32 (adv raw 8)) AND 0x03030303)"
  "q3_k_aux raw 3 = (drop_bit 4 (rd32 (adv raw 4)) AND 0x0f0f0f0f) OR
     push_bit 4 (drop_bit 6 (rd32 (adv raw 8)) AND 0x03030303)"
  by (simp_all add: q3_k_aux_def Let_def)

lemmas byte_at_simps = byte_at_OR byte_at_nibble byte_at_high byte_at_rd32 adv_apply

lemma q3_k_aux_byte:
  assumes "k < 4" and c: "c < 4"
  shows "byte_at c (q3_k_aux raw k) = q3_k_scale_code raw (4 * k + c)"
proof -
  have push: "byte_at c (push_bit 4 (drop_bit s w AND 0x03030303)) =
      push_bit 4 (drop_bit s (byte_at c w) AND 3)" if "s \<le> 6" for s w
    unfolding byte_at_push[OF c]
    using byte_at_push[OF c, of "drop_bit s w"] byte_at_two[OF c that, of w] byte_at_two[OF c, of 0 "drop_bit s w"]
    by (simp only: drop_bit_0 id_apply le0 simp_thms)
  have pushes: "byte_at c (push_bit 4 (w AND 0x03030303)) = push_bit 4 (byte_at c w AND 3)"
    "byte_at c (push_bit 4 (drop_bit 2 w AND 0x03030303)) = push_bit 4 (drop_bit 2 (byte_at c w) AND 3)"
    "byte_at c (push_bit 4 (drop_bit 4 w AND 0x03030303)) = push_bit 4 (drop_bit 4 (byte_at c w) AND 3)"
    "byte_at c (push_bit 4 (drop_bit 6 w AND 0x03030303)) = push_bit 4 (drop_bit 6 (byte_at c w) AND 3)"
    for w
    by (rule byte_at_push[OF c]) (rule push, simp)+
  have at: "(4 * j + c) div 4 = j" "(4 * j + c) mod 4 = c" for j using c by auto
  from lane_cases[OF assms(1)] show ?thesis
    by (elim disjE; hypsubst; unfold q3_k_scale_code_def at;
        simp only: q3_k_aux_at byte_at_OR byte_at_high byte_at_rd32 adv_apply c pushes(2-4); (simp only: pushes(1) byte_at_simps c)?; use c in simp)
qed

lemma join_nibble: "a < 16 \<Longrightarrow> b < 4 \<Longrightarrow> unat (a OR push_bit 4 (b :: byte)) = unat a + 16 * unat b"
proof -
  assume "a < 16" "b < 4"
  then have "unat a \<in> set [0..<16]" "unat b \<in> set [0..<4]" by (simp_all add: word_less_nat_alt)
  moreover have "\<forall>a \<in> set [0..<16]. \<forall>b \<in> set [0..<4].
      unat ((of_nat a :: byte) OR push_bit 4 (of_nat b)) = a + 16 * b" by code_simp
  ultimately have "unat ((of_nat (unat a) :: byte) OR push_bit 4 (of_nat (unat b))) = unat a + 16 * unat b"
    by blast
  then show ?thesis by simp
qed

lemma byte_masks: "unat (a AND 0xF :: byte) = unat a mod 16" "unat (a AND 3 :: byte) = unat a mod 4"
  by (simp_all only: mask_numerals unat_mask) simp_all

lemma q3_k_scale_code_value:
  "unat (q3_k_scale_code raw j) =
     (if j < 8 then unat (raw j) mod 16 else unat (raw (j - 8)) div 16)
       + 16 * (unat (raw (8 + j mod 4)) div 4 ^ (j div 4) mod 4)"
proof -
  have "(if j < 8 then raw j AND 0xF else drop_bit 4 (raw (j - 8))) < 16"
    by (simp add: word_less_nat_alt byte_masks unat_shift_right less_mult_imp_div_less)
  moreover have "drop_bit (2 * (j div 4)) (raw (8 + j mod 4)) AND 3 < 4"
    by (simp only: word_less_nat_alt byte_masks) simp
  ultimately show ?thesis
    unfolding q3_k_scale_code_def
    by (subst join_nibble) (simp_all only: byte_masks unat_shift_right power_mult, simp_all add: byte_masks unat_shift_right)
qed

text \<open>The word-parallel unpacking of the Q3\_K scales is the per-scale layout of the format: scale
  \<open>j\<close> is the 6-bit number with low nibble \<open>j\<close> (first the eight low nibbles of bytes 0 to 7, then their
  high nibbles) and high bits \<open>j / 4\<close> of byte \<open>8 + j mod 4\<close>, minus 32.
\<close>

lemma q3_k_scale_layout:
  assumes "j < 16"
  shows "q3_k_scale raw j =
    int ((if j < 8 then unat (raw j) mod 16 else unat (raw (j - 8)) div 16)
         + 16 * (unat (raw (8 + j mod 4)) div 4 ^ (j div 4) mod 4)) - 32"
proof -
  let ?c = "q3_k_scale_code raw j"
  have "byte_at (j mod 4) (q3_k_aux raw (j div 4)) = ?c"
    using q3_k_aux_byte[of "j div 4" "j mod 4" raw] assms by simp
  moreover have "unat ?c < 64"
  proof -
    have lo: "(if j < 8 then unat (raw j) mod 16 else unat (raw (j - 8)) div 16) < 16"
      by (auto simp: less_mult_imp_div_less)
    have "unat (raw (8 + j mod 4)) div 4 ^ (j div 4) mod 4 < 4" by simp
    with lo show ?thesis unfolding q3_k_scale_code_value by linarith
  qed
  ultimately show ?thesis
    using sint_minus_32[of ?c] unfolding q3_k_scale_def byte_at_def
    by (simp add: word_less_nat_alt q3_k_scale_code_value uint_nat)
qed

lemma q3_k_scale_layout_witness:
  "q3_k_scale (\<lambda>k. of_nat (k + 37)) 9 =
    int (38 div 16 + 16 * (46 div 4 ^ 2 mod 4)) - 32"
  using q3_k_scale_layout[of 9 "\<lambda>k. of_nat (k + 37)"] by simp

section \<open>The packed scales and mins of Q4\_K and Q5\_K\<close>

text \<open>The packing that \<open>k_get_scale_min\<close> inverts: the first four pairs take six bits of the first eight
  bytes, the last four put their low nibbles in the last four bytes and their high bits on top.\<close>

definition k_pack :: "(nat \<Rightarrow> byte) \<Rightarrow> (nat \<Rightarrow> byte) \<Rightarrow> ptr" where
  "k_pack sc mn k =
     (if k < 4 then sc k OR push_bit 6 (drop_bit 4 (sc (k + 4)))
      else if k < 8 then mn (k - 4) OR push_bit 6 (drop_bit 4 (mn k))
      else (sc (k - 4) AND 0xF) OR push_bit 4 (mn (k - 4)))"

lemma small_bits: "a < 64 \<Longrightarrow> bit (a :: byte) n \<Longrightarrow> n < 6"
proof -
  assume "a < 64"
  then have "a AND mask 6 = a" by (simp add: mask_eq_iff word_less_def)
  then show "bit a n \<Longrightarrow> n < 6" by (metis bit_and_iff bit_mask_iff)
qed

lemma byte_mask_bits:
  "bit (63 :: byte) n \<longleftrightarrow> n < 6" "bit (0xF :: byte) n \<longleftrightarrow> n < 4"
proof -
  have eq: "(63 :: byte) = mask 6" "(0xF :: byte) = mask 4" by (simp_all add: mask_eq_exp_minus_1)
  show "bit (63 :: byte) n \<longleftrightarrow> n < 6" "bit (0xF :: byte) n \<longleftrightarrow> n < 4"
    unfolding eq by (simp_all only: bit_mask_iff) auto
qed

lemma k_pack_bytes:
  assumes "a < 64" "b < 64"
  shows "(a OR push_bit 6 (drop_bit 4 b)) AND 63 = (a :: byte)"
    and "drop_bit 6 (a OR push_bit 6 (drop_bit 4 b)) = drop_bit 4 (b :: byte)"
    and "((a AND 0xF) OR push_bit 4 b) AND 0xF = a AND 0xF"
    and "drop_bit 4 ((a AND 0xF) OR push_bit 4 b) = b AND 0xF"
    and "(a AND 0xF) OR push_bit 4 (drop_bit 4 a) = a"
  by (rule byte_eqI; use small_bits[OF assms(1)] small_bits[OF assms(2)] in
      \<open>simp only: bit_and_iff bit_or_iff bit_push_bit_iff bit_drop_bit_eq byte_mask_bits o_def\<close>;
      use small_bits[OF assms(1)] small_bits[OF assms(2)] in fastforce)+

text \<open>The 6-bit unpacking shared by Q4\_K and Q5\_K recovers every one of the eight (scale, min)
  pairs that the twelve-byte packing stores.
\<close>

lemma k_get_scale_min_roundtrip:
  assumes "\<forall>k < 8. sc k < 64 \<and> mn k < 64" "j < 8"
  shows "k_get_scale_min (k_pack sc mn) j = (sc j, mn j)"
proof (cases "j < 4")
  case True
  then have "sc j < 64" "sc (j + 4) < 64" "mn j < 64" "mn (j + 4) < 64" using assms by auto
  with True show ?thesis
    by (simp add: k_get_scale_min_def k_pack_def k_pack_bytes(1))
next
  case False
  then have "sc j < 64" "sc (j - 4) < 64" "mn j < 64" "mn (j - 4) < 64" "j - 4 < 4" using assms by auto
  have b: "k_pack sc mn (j + 4) = (sc j AND 0xF) OR push_bit 4 (mn j)"
    "k_pack sc mn (j - 4) = sc (j - 4) OR push_bit 6 (drop_bit 4 (sc j))"
    "k_pack sc mn j = mn (j - 4) OR push_bit 6 (drop_bit 4 (mn j))"
    using False assms(2) \<open>j - 4 < 4\<close> by (simp_all only: k_pack_def) simp_all
  show ?thesis
    using False by (simp only: k_get_scale_min_def b if_False k_pack_bytes(2-4)
      k_pack_bytes(5)[OF \<open>sc j < 64\<close> \<open>sc j < 64\<close>] k_pack_bytes(5)[OF \<open>mn j < 64\<close> \<open>mn j < 64\<close>]
      \<open>sc j < 64\<close> \<open>sc (j - 4) < 64\<close> \<open>mn j < 64\<close> \<open>mn (j - 4) < 64\<close>)
qed

lemma k_get_scale_min_roundtrip_witness:
  "k_get_scale_min (k_pack (\<lambda>k. of_nat (k * 7)) (\<lambda>k. of_nat (63 - k))) 6 = (42, 57)"
proof -
  have "\<forall>k < 8. (of_nat (k * 7) :: byte) < 64 \<and> (of_nat (63 - k) :: byte) < 64"
  proof -
    have "\<forall>k \<in> set [0..<8]. (of_nat (k * 7) :: byte) < 64 \<and> (of_nat (63 - k) :: byte) < 64"
      by code_simp
    then show ?thesis by simp
  qed
  then show ?thesis using k_get_scale_min_roundtrip[of "\<lambda>k. of_nat (k * 7)" "\<lambda>k. of_nat (63 - k)" 6] by simp
qed

section \<open>Base-3 digits\<close>

text \<open>A TQ1\_0 byte that encodes the five-digit base-3 number \<open>v\<close> as \<open>(256 * v + 242) / 243\<close> gives its
  digits back, most significant first: multiplying by \<open>3^n\<close> modulo 256 and taking the overflow of a
  further factor 3 is digit \<open>n\<close>, with no rounding error for any \<open>v\<close>.
\<close>

lemma tq1_digits:
  assumes "v < 243" "n < 5"
  shows "tq1_xi (of_nat ((256 * v + 242) div 243) * pow3 n) = int (v div 3 ^ (4 - n) mod 3)"
proof -
  have "\<forall>n \<in> set [0..<5]. \<forall>v \<in> set [0..242].
      tq1_xi (of_int ((256 * v + 242) div 243) * pow3 n) = v div 3 ^ (4 - n) mod 3"
    by code_simp
  then have "tq1_xi (of_int ((256 * int v + 242) div 243) * pow3 n) = int v div 3 ^ (4 - n) mod 3"
    using assms by auto
  moreover have "(256 * int v + 242) div 243 = int ((256 * v + 242) div 243)" by (simp add: zdiv_int)
  ultimately show ?thesis by (simp only: of_int_of_nat_eq) (simp add: zdiv_int zmod_int)
qed

lemma tq1_digits_witness: "tq1_xi (of_nat ((256 * 200 + 242) div 243) * pow3 1) = 1"
  using tq1_digits[of 200 1] by simp

section \<open>The fifth bits of Q5\<close>

text \<open>In a Q5\_0 or Q5\_1 block the fifth bit of element \<open>e\<close> is bit \<open>e\<close> of \<open>qh\<close>, for the high half too:
  shifting by \<open>j + 12\<close> and masking with \<open>0x10\<close> selects bit \<open>j + 16\<close>, so the code of an element is its
  nibble plus 16 times that bit.
\<close>

lemma q5_code_value:
  assumes "e < 32"
  shows "uint (q5_code qh q e) =
    (if e < 16 then uint q mod 16 else uint q div 16) + 16 * of_bool (bit qh e)"
proof -
  have join: "unat (a OR (if c then 16 else 0)) = unat a + (if c then 16 else 0)" if "a < 16" for a :: byte and c
    using join_nibble[OF that, of 1] by (cases c) simp_all
  have "(0x10 :: u32) = push_bit 4 1" "(16 :: byte) = push_bit 4 1" by simp_all
  then have b16: "bit (0x10 :: u32) n \<longleftrightarrow> n = 4" "bit (16 :: byte) n \<longleftrightarrow> n = 4" for n
    by (simp_all only: bit_push_bit_iff bit_1_iff) auto
  have xh: "xh_0 qh j = (if bit qh j then 16 else 0)" "xh_1 qh j = (if bit qh (j + 16) then 16 else 0)" for j
    unfolding xh_0_def xh_1_def
    by (rule byte_eqI; cases "bit qh j"; cases "bit qh (j + 16)";
        simp only: bit_ucast_iff bit_and_iff bit_push_bit_iff bit_drop_bit_eq b16 o_def if_True if_False
          bit_0_eq; fastforce simp: add.commute)+
  have lo: "q AND 0xF < 16" "drop_bit 4 q < 16"
    by (simp_all add: word_less_nat_alt byte_masks unat_shift_right less_mult_imp_div_less)
  have "unat (q5_code qh q e) =
      (if e < 16 then unat q mod 16 else unat q div 16) + (if bit qh e then 16 else 0)"
  proof (cases "e < 16")
    case True
    then show ?thesis by (simp only: q5_code_def if_True xh join[OF lo(1)] byte_masks)
  next
    case False
    then have "e - 16 + 16 = e" by simp
    with False show ?thesis
      by (simp only: q5_code_def if_False xh join[OF lo(2)] unat_shift_right) simp
  qed
  then show ?thesis by (simp only: uint_nat) (simp add: zdiv_int zmod_int)
qed

lemma q5_code_value_witness: "uint (q5_code 0x00100000 0x73 20) = 7 + 16"
  using q5_code_value[of 20 "0x00100000" "0x73"] by simp

section \<open>The order of the half-precision patterns\<close>

definition half_mag :: "nat \<Rightarrow> rat" where
  "half_mag k = (if k < 1024 then of_nat k / 2 ^ 24
                 else of_nat (1024 + k mod 1024) * 2 ^ (k div 1024) / 2 ^ 25)"

lemma half_mag_step: "half_mag k < half_mag (Suc k)"
proof (cases "Suc k mod 1024 = 0")
  case False
  have "Suc k div 1024 = k div 1024" "Suc k mod 1024 = Suc (k mod 1024)"
    using False by (simp_all add: div_Suc mod_Suc split: if_splits)
  moreover have "Suc k < 1024" if "k < 1024" using False that by (cases "k = 1023") auto
  ultimately show ?thesis
    by (auto simp: half_mag_def divide_strict_right_mono)
next
  case True
  then obtain c where c: "Suc k = 1024 * c" by (auto elim: dvdE simp: mod_eq_0_iff_dvd)
  then have "c \<noteq> 0" by (cases c) auto
  then obtain d where d: "c = Suc d" by (cases c) auto
  then have k: "k = 1023 + d * 1024" using c by simp
  have "k mod 1024 = 1023" "k div 1024 = d" unfolding k by (subst mod_mult_self1 div_mult_self1; simp)+
  then show ?thesis
    using True c d by (auto simp: half_mag_def k divide_simps)
qed

lemma half_mag_mono: "i < k \<Longrightarrow> half_mag i < half_mag k"
  by (rule lift_Suc_mono_less[of half_mag, OF half_mag_step])

lemma read_f16_positive:
  assumes "rd16 p < 0x7c00"
  shows "read_f16 p = HFin False (half_mag (unat (rd16 p)))"
proof -
  let ?h = "rd16 p" and ?k = "unat (rd16 p)"
  have k: "?k < 31744" using assms by (simp add: word_less_nat_alt)
  have e: "?k div 1024 < 31" "?k div 32768 = 0" using k by auto
  have u: "unat (drop_bit 15 ?h AND mask 1) = 0" "unat (drop_bit 10 ?h AND mask 5) = ?k div 1024"
    "unat (?h AND mask 10) = ?k mod 1024"
    using e by (simp_all only: unat_mask unat_shift_right) simp_all
  define S E M where "S = drop_bit 15 ?h AND 1" and "E = drop_bit 10 ?h AND 0x1f" and "M = ?h AND 0x3ff"
  have S: "S = 0" and E: "unat E = ?k div 1024" and M: "unat M = ?k mod 1024"
    using u unfolding S_def E_def M_def
    by (simp_all only: mask_numerals(1)[where 'a = 16] mask_numerals(4,6) unat_eq_zero)
  have eq: "read_f16 p = (if E = 0 then HFin (S \<noteq> 0) (of_nat (unat M) * (1 / 2 ^ 24))
         else if E = 31 then (if M \<noteq> 0 then HNaN else HInf (S \<noteq> 0))
         else HFin (S \<noteq> 0) ((1 + of_nat (unat M) / 1024) * 2 powi (int (unat E) - 15)))"
    by (simp only: read_f16_def Let_def S_def E_def M_def)
  show ?thesis
  proof (cases "?k < 1024")
    case True
    then have "E = 0" using E by (simp add: unat_eq_zero[symmetric])
    with True S M show ?thesis by (simp add: eq half_mag_def)
  next
    case False
    have "E \<noteq> 0" "E \<noteq> 31" using E False e(1) by auto
    moreover have "(2 :: rat) powi (int (?k div 1024) - 15) = 2 ^ (?k div 1024) / 2 ^ 15"
      by (simp add: power_int_diff)
    ultimately show ?thesis
      using False S by (simp only: eq half_mag_def M E if_False refl not_True_eq_False) (simp add: field_simps)
  qed
qed

text \<open>\<open>read_f16\<close> is strictly monotone on the finite positive half-precision patterns, subnormals and
  normals together: a larger pattern is a larger value, so no two of them collide.
\<close>

lemma read_f16_monotone:
  assumes "rd16 p < rd16 q" "rd16 q < 0x7c00"
  shows "\<exists>a b. read_f16 p = HFin False a \<and> read_f16 q = HFin False b \<and> a < b"
proof -
  have "rd16 p < 0x7c00" using assms by (rule less_trans)
  moreover have "half_mag (unat (rd16 p)) < half_mag (unat (rd16 q))"
    using assms(1) by (intro half_mag_mono) (simp add: word_less_nat_alt)
  ultimately show ?thesis using assms(2) read_f16_positive by blast
qed

lemma read_f16_monotone_witness:
  "\<exists>a b. read_f16 ((\<lambda>_. 0)(0 := 0xff, 1 := 0x03)) = HFin False a \<and>
     read_f16 ((\<lambda>_. 0)(1 := 0x04)) = HFin False b \<and> a < b"
  by (rule read_f16_monotone) (simp_all add: rd16_def)

end
