(* ===== verification/GgufFile.thy ===== *)
theory GgufFile
  imports Bytes
begin

text \<open>
  The metadata part of a GGUF file as \<open>GgufReader\<close> reads it (\<open>src/gguf_reader.cpp\<close>): the C stream
  with its cursor, strings, and the typed key/value section with its nested arrays.

  A stream is the file's bytes and a cursor. \<open>fread1\<close> is \<open>fread(&v, n, 1, f)\<close>: a short read fails and
  leaves the cursor at the end of the file. \<open>fseek_cur\<close> is \<open>fseeko(f, off, SEEK_CUR)\<close> with a signed
  64-bit offset: a seek before the start of the file fails and leaves the cursor where it is.

  \<open>skip_kv_value\<close> recurses once per nesting level of arrays. The model carries a bound on the nesting
  (\<open>fuel\<close>) and answers \<open>OutOfFuel\<close> beyond it; \<open>skip_kv_returns\<close> gives a bound that is enough for a file
  without a length field above \<open>2^63\<close>, and \<open>skip_kv_diverges\<close> shows that no bound is enough for
  another file.
\<close>

section \<open>The stream\<close>

type_synonym gfile = "byte list"

definition bytes_of :: "string \<Rightarrow> bstr" where
  "bytes_of s = map of_char s"

definition fread1 :: "gfile \<Rightarrow> nat \<Rightarrow> nat \<Rightarrow> bstr option \<times> nat" where
  "fread1 fl n p =
     (if p + n \<le> length fl then (Some (take n (drop p fl)), p + n) else (None, max p (length fl)))"

definition fseek_cur :: "int \<Rightarrow> nat \<Rightarrow> nat" where
  "fseek_cur off p = (let q = int p + off in if q < 0 \<or> 2 ^ 63 \<le> q then p else nat q)"

definition fseek_set :: "u64 \<Rightarrow> nat \<Rightarrow> nat" where
  "fseek_set off p = (if sint off < 0 then p else unat off)"

text \<open>A little-endian unsigned field of \<open>n\<close> bytes.\<close>

definition read_uint :: "gfile \<Rightarrow> nat \<Rightarrow> nat \<Rightarrow> nat option \<times> nat" where
  "read_uint fl n p = (case fread1 fl n p of (None, p') \<Rightarrow> (None, p') | (Some b, p') \<Rightarrow> (Some (le_value b), p'))"

text \<open>\<open>read_string\<close>: a length above 1 MiB seeks over the text and yields a marker.\<close>

definition read_string :: "gfile \<Rightarrow> nat \<Rightarrow> bstr \<times> nat" where
  "read_string fl p =
     (case read_uint fl 8 p of
        (None, p) \<Rightarrow> ([], p)
      | (Some len, p) \<Rightarrow>
          if 1024 * 1024 < len then (bytes_of ''truncated'', fseek_cur (sint (of_nat len :: u64)) p)
          else if len = 0 then ([], p)
          else (case fread1 fl len p of (None, p) \<Rightarrow> ([], p) | (Some s, p) \<Rightarrow> (s, p)))"

section \<open>Values\<close>

datatype 'a outcome = OutOfFuel | Fail | Ok 'a

fun repeat_ok :: "nat \<Rightarrow> ('s \<Rightarrow> 's outcome) \<Rightarrow> 's \<Rightarrow> 's outcome" where
  "repeat_ok 0 step s = Ok s"
| "repeat_ok (Suc n) step s =
     (case step s of Ok s' \<Rightarrow> repeat_ok n step s' | OutOfFuel \<Rightarrow> OutOfFuel | Fail \<Rightarrow> Fail)"

definition MAX_ARRAY_COUNT :: nat where
  "MAX_ARRAY_COUNT = 1000000"

fun skip_kv_value :: "nat \<Rightarrow> gfile \<Rightarrow> u32 \<Rightarrow> nat \<Rightarrow> nat outcome" where
  "skip_kv_value 0 fl vtype p = OutOfFuel"
| "skip_kv_value (Suc fuel) fl vtype p =
     (if vtype \<in> {0, 1, 7} then Ok (fseek_cur 1 p)
      else if vtype \<in> {2, 3} then Ok (fseek_cur 2 p)
      else if vtype \<in> {4, 5, 6} then Ok (fseek_cur 4 p)
      else if vtype = 8 then Ok (snd (read_string fl p))
      else if vtype = 9 then
        (case read_uint fl 4 p of (None, p) \<Rightarrow> Ok p | (Some at, p) \<Rightarrow>
          (case read_uint fl 8 p of (None, p) \<Rightarrow> Ok p | (Some an, p) \<Rightarrow>
             let an = (if MAX_ARRAY_COUNT < an then 0 else an)
             in if at = 8 then repeat_ok an (\<lambda>p. Ok (snd (read_string fl p))) p
                else repeat_ok an (skip_kv_value fuel fl (of_nat at)) p))
      else if vtype \<in> {10, 11, 12} then Ok (fseek_cur 8 p)
      else Ok p)"

text \<open>The floating-point field of a value keeps the bits that were read.\<close>

datatype fval = F32bits u32 | F64bits u64 | FromInt int

record kv =
  kv_vtype :: u32
  kv_u :: u64
  kv_f :: fval
  kv_s :: bstr
  kv_arr_str :: "bstr list"
  kv_arr_u32 :: "u32 list"

definition kv0 :: "u32 \<Rightarrow> kv" where
  "kv0 vtype = \<lparr>kv_vtype = vtype, kv_u = 0, kv_f = F64bits 0, kv_s = [], kv_arr_str = [], kv_arr_u32 = []\<rparr>"

text \<open>\<open>k\<close> strings, and \<open>k\<close> 32-bit fields, in sequence.\<close>

fun read_strings :: "gfile \<Rightarrow> nat \<Rightarrow> nat \<Rightarrow> bstr list \<times> nat" where
  "read_strings fl 0 p = ([], p)"
| "read_strings fl (Suc k) p =
     (let (s, p) = read_string fl p; (ss, p) = read_strings fl k p in (s # ss, p))"

fun read_u32s :: "gfile \<Rightarrow> nat \<Rightarrow> nat \<Rightarrow> (u32 list \<times> nat) option" where
  "read_u32s fl 0 p = Some ([], p)"
| "read_u32s fl (Suc k) p =
     (case read_uint fl 4 p of (None, p) \<Rightarrow> None
      | (Some v, p) \<Rightarrow> map_option (\<lambda>(vs, p). (of_nat v # vs, p)) (read_u32s fl k p))"

text \<open>A fixed-width field read into the value: \<open>n\<close> bytes, stored by \<open>set\<close>.\<close>

definition read_field :: "gfile \<Rightarrow> nat \<Rightarrow> (nat \<Rightarrow> kv \<Rightarrow> kv) \<Rightarrow> kv \<Rightarrow> nat \<Rightarrow> (kv \<times> nat) outcome" where
  "read_field fl n set_fld out p =
     (case read_uint fl n p of (None, p) \<Rightarrow> Fail | (Some v, p) \<Rightarrow> Ok (set_fld v out, p))"

definition set_u :: "u64 \<Rightarrow> kv \<Rightarrow> kv" where
  "set_u v out = out\<lparr>kv_u := v\<rparr>"

text \<open>\<open>out.vtype = at\<close> and the value of a one-element array.\<close>

definition read_single :: "nat \<Rightarrow> gfile \<Rightarrow> nat \<Rightarrow> kv \<Rightarrow> nat \<Rightarrow> (kv \<times> nat) outcome" where
  "read_single fuel fl at out p =
     (let out = out\<lparr>kv_vtype := of_nat at\<rparr>
      in if at = 4 then read_field fl 4 (\<lambda>v. set_u (of_nat v)) out p
         else if at = 5 then read_field fl 4 (\<lambda>v. set_u (scast (of_nat v :: u32))) out p
         else if at = 10 then read_field fl 8 (\<lambda>v. set_u (of_nat v)) out p
         else if at = 11 then read_field fl 8 (\<lambda>v. set_u (of_nat v)) out p
         else if at = 6 then read_field fl 4 (\<lambda>v out. out\<lparr>kv_f := F32bits (of_nat v)\<rparr>) out p
         else (case skip_kv_value fuel fl (of_nat at) p of
                 Ok p \<Rightarrow> Ok (out, p) | OutOfFuel \<Rightarrow> OutOfFuel | Fail \<Rightarrow> Fail))"

definition read_array :: "nat \<Rightarrow> gfile \<Rightarrow> kv \<Rightarrow> nat \<Rightarrow> (kv \<times> nat) outcome" where
  "read_array fuel fl out p =
     (case read_uint fl 4 p of (None, p) \<Rightarrow> Fail | (Some at, p) \<Rightarrow>
       (case read_uint fl 8 p of (None, p) \<Rightarrow> Fail | (Some an, p) \<Rightarrow>
          if MAX_ARRAY_COUNT < an then
            (case repeat_ok MAX_ARRAY_COUNT (skip_kv_value fuel fl (of_nat at)) p of
               OutOfFuel \<Rightarrow> OutOfFuel | _ \<Rightarrow> Fail)
          else if at = 8 then
            (let (ss, p) = read_strings fl an p in Ok (out\<lparr>kv_arr_str := ss\<rparr>, p))
          else if at = 4 \<or> at = 5 then
            (case read_u32s fl an p of None \<Rightarrow> Fail
             | Some (vs, p) \<Rightarrow> Ok (out\<lparr>kv_arr_u32 := vs\<rparr>, p))
          else if an = 1 then read_single fuel fl at out p
          else (case repeat_ok an (skip_kv_value fuel fl (of_nat at)) p of
                  Ok p \<Rightarrow> Ok (out, p) | OutOfFuel \<Rightarrow> OutOfFuel | Fail \<Rightarrow> Fail)))"

definition read_kv_value :: "nat \<Rightarrow> gfile \<Rightarrow> u32 \<Rightarrow> nat \<Rightarrow> (kv \<times> nat) outcome" where
  "read_kv_value fuel fl vtype p =
     (let out = kv0 vtype
      in if vtype = 0 then read_field fl 1 (\<lambda>v. set_u (of_nat v)) out p
         else if vtype = 1 then read_field fl 1 (\<lambda>v. set_u (scast (of_nat v :: byte))) out p
         else if vtype = 2 then read_field fl 2 (\<lambda>v. set_u (of_nat v)) out p
         else if vtype = 3 then read_field fl 2 (\<lambda>v. set_u (scast (of_nat v :: u16))) out p
         else if vtype = 4 then read_field fl 4 (\<lambda>v. set_u (of_nat v)) out p
         else if vtype = 5 then read_field fl 4 (\<lambda>v. set_u (scast (of_nat v :: u32))) out p
         else if vtype = 6 then read_field fl 4 (\<lambda>v out. out\<lparr>kv_f := F32bits (of_nat v)\<rparr>) out p
         else if vtype = 7 then read_field fl 1 (\<lambda>v. set_u (of_nat v)) out p
         else if vtype = 8 then (let (s, p) = read_string fl p in Ok (out\<lparr>kv_s := s\<rparr>, p))
         else if vtype = 9 then read_array fuel fl out p
         else if vtype = 10 then read_field fl 8 (\<lambda>v. set_u (of_nat v)) out p
         else if vtype = 11 then read_field fl 8 (\<lambda>v. set_u (of_nat v)) out p
         else if vtype = 12 then read_field fl 8 (\<lambda>v out. out\<lparr>kv_f := F64bits (of_nat v)\<rparr>) out p
         else Fail)"

section \<open>The cursor\<close>

lemma read_uint_cases:
  obtains "read_uint fl n p = (None, max p (length fl))" "length fl < p + n"
  | "read_uint fl n p = (Some (le_value (take n (drop p fl))), p + n)" "p + n \<le> length fl"
  by (cases "p + n \<le> length fl") (auto simp: read_uint_def fread1_def)

text \<open>No eight bytes of the file are a length of \<open>2^63\<close> or more.\<close>

definition no_back_seek :: "gfile \<Rightarrow> bool" where
  "no_back_seek fl \<longleftrightarrow> (\<forall>i < length fl. i + 8 \<le> length fl \<longrightarrow> le_value (take 8 (drop i fl)) < 2 ^ 63)"

lemma fseek_forward: "0 \<le> off \<Longrightarrow> p \<le> fseek_cur off p"
  by (auto simp: fseek_cur_def Let_def)

lemma sint_len: "v < 2 ^ 63 \<Longrightarrow> sint (of_nat v :: u64) = int v"
  by (simp add: signed_of_nat signed_take_bit_int_eq_self)

lemma read_string_forward: "no_back_seek fl \<Longrightarrow> p \<le> snd (read_string fl p)"
proof (cases rule: read_uint_cases[of fl 8 p])
  case 1
  then show ?thesis by (simp add: read_string_def)
next
  case 2
  assume nb: "no_back_seek fl"
  define len where "len = le_value (take 8 (drop p fl))"
  have "len < 2 ^ 63" using nb 2(2) by (simp add: no_back_seek_def len_def)
  then have "p + 8 \<le> fseek_cur (sint (of_nat len :: u64)) (p + 8)"
    by (intro fseek_forward) (simp add: sint_len)
  then show ?thesis
    using 2(1) by (simp add: read_string_def len_def fread1_def le_max_iff_disj)
qed

lemma repeat_ok_inv:
  "(\<And>s. I s \<Longrightarrow> \<exists>s'. step s = Ok s' \<and> I s') \<Longrightarrow> I s \<Longrightarrow> \<exists>s'. repeat_ok n step s = Ok s' \<and> I s'"
  by (induction n arbitrary: s) (fastforce split: outcome.splits)+

lemma skip_kv_array:
  "skip_kv_value (Suc fuel) fl 9 p =
    (case read_uint fl 4 p of (None, p) \<Rightarrow> Ok p | (Some at, p) \<Rightarrow>
      (case read_uint fl 8 p of (None, p) \<Rightarrow> Ok p | (Some an, p) \<Rightarrow>
         let an = (if MAX_ARRAY_COUNT < an then 0 else an)
         in if at = 8 then repeat_ok an (\<lambda>p. Ok (snd (read_string fl p))) p
            else repeat_ok an (skip_kv_value fuel fl (of_nat at)) p))"
  by simp

lemma repeat_ok_success:
  "repeat_ok n step s = Ok s' \<Longrightarrow> I s \<Longrightarrow> (\<And>s s'. I s \<Longrightarrow> step s = Ok s' \<Longrightarrow> I s') \<Longrightarrow> I s'"
  by (induction n arbitrary: s) (auto split: outcome.splits)

lemma repeat_ok_returns: "(\<And>s. step s \<noteq> OutOfFuel) \<Longrightarrow> repeat_ok n step s \<noteq> OutOfFuel"
  by (induction n arbitrary: s) (auto split: outcome.splits)

text \<open>Without backward seeks every nesting level consumes twelve bytes, which bounds the recursion.\<close>

lemma skip_kv_ok:
  "no_back_seek fl \<Longrightarrow> length fl - p < 12 * fuel \<Longrightarrow>
     \<exists>q \<ge> p. skip_kv_value fuel fl vtype p = Ok q"
proof (induction fuel arbitrary: vtype p)
  case 0
  then show ?case by simp
next
  case (Suc fuel)
  note nb = Suc.prems(1)
  have strings: "\<exists>q. repeat_ok n (\<lambda>p. Ok (snd (read_string fl p))) r = Ok q \<and> r \<le> q" for n r
    by (rule repeat_ok_inv) (use read_string_forward[OF nb] order_trans in blast)+
  have arrays: "\<exists>q. repeat_ok n (skip_kv_value fuel fl t) r = Ok q \<and> r \<le> q"
    if "length fl - r < 12 * fuel" for n r t
  proof (rule repeat_ok_inv[where I = "\<lambda>q. r \<le> q"])
    fix q assume q: "r \<le> q"
    then have "length fl - q < 12 * fuel" using that by simp
    from Suc.IH[OF nb this] q show "\<exists>q'. skip_kv_value fuel fl t q = Ok q' \<and> r \<le> q'"
      using order_trans by blast
  qed simp
  show ?case
  proof (cases "vtype = 9")
    case False
    then show ?thesis
      using fseek_forward[of _ p] read_string_forward[OF nb, of p] by auto
  next
    case True
    show ?thesis
    proof (cases rule: read_uint_cases[of fl 4 p])
      case 1
      then show ?thesis using True by (simp add: skip_kv_array del: skip_kv_value.simps)
    next
      case a: 2
      show ?thesis
      proof (cases rule: read_uint_cases[of fl 8 "p + 4"])
        case 1
        then show ?thesis using True a by (simp add: skip_kv_array del: skip_kv_value.simps)
      next
        case 2
        then have "length fl - (12 + p) < 12 * fuel" using Suc.prems(2) by presburger
        then show ?thesis
          using True a(1) 2(1) arrays[of "12 + p"] strings[of _ "12 + p"]
          by (simp add: skip_kv_array Let_def del: skip_kv_value.simps) (meson add_leD2)
      qed
    qed
  qed
qed

lemma read_strings_forward: "no_back_seek fl \<Longrightarrow> read_strings fl k p = (ss, q) \<Longrightarrow> p \<le> q"
proof (induction k arbitrary: p ss)
  case (Suc k)
  then show ?case
    using read_string_forward[of fl p]
    by (auto split: prod.splits) (meson order_trans)
qed simp

lemma read_u32s_forward: "read_u32s fl k p = Some (vs, q) \<Longrightarrow> q = p + 4 * k \<and> (k = 0 \<or> q \<le> length fl)"
proof (induction k arbitrary: p vs)
  case (Suc k)
  show ?case
  proof (cases rule: read_uint_cases[of fl 4 p])
    case 1
    with Suc.prems show ?thesis by simp
  next
    case 2
    with Suc show ?thesis by (cases k) fastforce+
  qed
qed simp

text \<open>Reading a value of any type returns, and never moves the cursor back.\<close>

definition returns_forward :: "nat \<Rightarrow> ('a \<times> nat) outcome \<Rightarrow> bool" where
  "returns_forward p r \<longleftrightarrow> r \<noteq> OutOfFuel \<and> (\<forall>x q. r = Ok (x, q) \<longrightarrow> p \<le> q)"

lemma returns_forward_if:
  "returns_forward p a \<Longrightarrow> returns_forward p b \<Longrightarrow> returns_forward p (if c then a else b)"
  by simp

lemma read_field_forward: "returns_forward p (read_field fl n st out p)"
  by (cases rule: read_uint_cases[of fl n p]) (simp_all add: read_field_def returns_forward_def)

lemma repeat_skip_ok:
  assumes "no_back_seek fl" "length fl < 12 * fuel"
  shows "\<exists>q. repeat_ok n (skip_kv_value fuel fl t) p = Ok q \<and> p \<le> q"
proof (rule repeat_ok_inv[where I = "\<lambda>q. p \<le> q"])
  fix q assume "p \<le> q"
  moreover have "length fl - q < 12 * fuel" using assms(2) by simp
  ultimately show "\<exists>q'. skip_kv_value fuel fl t q = Ok q' \<and> p \<le> q'"
    using skip_kv_ok[OF assms(1)] order_trans by blast
qed simp

lemma read_single_forward:
  assumes "no_back_seek fl" "length fl < 12 * fuel"
  shows "returns_forward p (read_single fuel fl t out p)"
proof -
  have "\<exists>q. skip_kv_value fuel fl (of_nat t) p = Ok q \<and> p \<le> q"
    using skip_kv_ok[OF assms(1), of p fuel] assms(2) by (meson le_less_trans diff_le_self)
  then show ?thesis
    using read_field_forward by (auto simp: read_single_def Let_def returns_forward_def)
qed

lemma read_array_forward:
  assumes "no_back_seek fl" "length fl < 12 * fuel"
  shows "returns_forward p (read_array fuel fl out p)"
proof (cases rule: read_uint_cases[of fl 4 p])
  case 1
  then show ?thesis by (simp add: read_array_def returns_forward_def)
next
  case a: 2
  show ?thesis
  proof (cases rule: read_uint_cases[of fl 8 "p + 4"])
    case 1
    with a show ?thesis by (simp add: read_array_def returns_forward_def)
  next
    case 2
    define t n where "t = le_value (take 4 (drop p fl))" and "n = le_value (take 8 (drop (p + 4) fl))"
    note skips = repeat_skip_ok[OF assms, of _ "of_nat t" "p + 12"]
    have single: "returns_forward p (read_single fuel fl t out (p + 12))"
      using read_single_forward[OF assms, of "p + 12" t out]
      by (auto simp: returns_forward_def dest: add_leD1)
    have strs: "p \<le> q" if "read_strings fl n (p + 12) = (ss, q)" for ss q
      using read_strings_forward[OF assms(1) that] by simp
    have u32s: "p \<le> q" if "read_u32s fl n (p + 12) = Some (vs, q)" for vs q
      using read_u32s_forward[OF that] by simp
    have eq: "read_array fuel fl out p =
        (if MAX_ARRAY_COUNT < n then
            (case repeat_ok MAX_ARRAY_COUNT (skip_kv_value fuel fl (of_nat t)) (p + 12) of
               OutOfFuel \<Rightarrow> OutOfFuel | _ \<Rightarrow> Fail)
          else if t = 8 then
            (let (ss, p) = read_strings fl n (p + 12) in Ok (out\<lparr>kv_arr_str := ss\<rparr>, p))
          else if t = 4 \<or> t = 5 then
            (case read_u32s fl n (p + 12) of None \<Rightarrow> Fail
             | Some (vs, p) \<Rightarrow> Ok (out\<lparr>kv_arr_u32 := vs\<rparr>, p))
          else if n = 1 then read_single fuel fl t out (p + 12)
          else (case repeat_ok n (skip_kv_value fuel fl (of_nat t)) (p + 12) of
                  Ok p \<Rightarrow> Ok (out, p) | OutOfFuel \<Rightarrow> OutOfFuel | Fail \<Rightarrow> Fail))"
      using a(1) 2(1) by (simp add: read_array_def t_def n_def add.assoc)
    show ?thesis
      using skips[of MAX_ARRAY_COUNT] skips[of n] single strs u32s
      unfolding eq
      by (auto simp: returns_forward_def split: prod.splits option.splits)
  qed
qed

lemma read_kv_value_forward:
  assumes "no_back_seek fl" "length fl < 12 * fuel"
  shows "returns_forward p (read_kv_value fuel fl t p)"
proof -
  have str: "returns_forward p (let (s, p) = read_string fl p in Ok (out\<lparr>kv_s := s\<rparr>, p))" for out
    using read_string_forward[OF assms(1), of p] by (auto simp: returns_forward_def split: prod.splits)
  have Fail: "returns_forward p Fail" by (simp add: returns_forward_def)
  show ?thesis
    unfolding read_kv_value_def Let_def[of "kv0 t"]
    by (intro returns_forward_if str Fail read_field_forward read_array_forward assms)
qed

end
