(* ===== verification/GgufReader.thy ===== *)
theory GgufReader
  imports GgufFile GgufDispatch
begin

text \<open>
  \<open>GgufReader\<close> (\<open>include/gguf_reader.h\<close>, \<open>src/gguf_reader.cpp\<close>): opening a file, the metadata
  accessors with the architecture-prefix fallback, and reading a tensor raw or dequantised.

  A reader whose \<open>open\<close> succeeded is the record \<open>gguf\<close>: the file, the architecture, the two hash
  maps and the declaration order. \<open>gguf_open\<close> answers \<open>Fail\<close> where the code closes the file and returns
  false. Offsets and element counts are \<open>u64\<close> and wrap where the code's do.

  The lemmas show what a successful \<open>open\<close> guarantees (\<open>gguf_open_invariant\<close>) and carry it to the two
  tensor reads.
\<close>

record tensor_info =
  ti_shape :: "u64 list"
  ti_dtype :: u32
  ti_abs_offset :: u64
  ti_numel :: u64

type_synonym tensor_map = "bstr \<Rightarrow> tensor_info option"

record gguf =
  gr_file :: gfile
  gr_arch :: bstr
  gr_tensors :: tensor_map
  gr_order :: "bstr list"
  gr_kv :: "bstr \<Rightarrow> kv option"

section \<open>Metadata lookups\<close>

definition find_kv :: "bstr \<Rightarrow> (bstr \<Rightarrow> kv option) \<Rightarrow> bstr \<Rightarrow> kv option" where
  "find_kv arch m key =
     (case m key of Some v \<Rightarrow> Some v
      | None \<Rightarrow>
          (case find_entry ((=) 0x2E) key of
             Some dot \<Rightarrow> (let suf = drop (dot + 1) key in if suf \<noteq> [] then m suf else None)
           | None \<Rightarrow> if arch \<noteq> [] then m (arch @ [0x2E] @ key) else None))"

definition kv_bool :: "kv \<Rightarrow> bool" where
  "kv_bool v \<longleftrightarrow> kv_u v \<noteq> 0"

definition kv_u32 :: "kv \<Rightarrow> u32 option" where
  "kv_u32 v =
     (if kv_vtype v \<le> 5 \<or> kv_vtype v = 7 \<or> kv_vtype v = 10 \<or> kv_vtype v = 11
      then Some (ucast (kv_u v)) else None)"

definition kv_f32 :: "kv \<Rightarrow> fval option" where
  "kv_f32 v =
     (if kv_vtype v = 6 \<or> kv_vtype v = 12 then Some (kv_f v)
      else if kv_vtype v \<le> 5 \<or> kv_vtype v = 10 \<or> kv_vtype v = 11 then Some (FromInt (sint (kv_u v)))
      else None)"

definition kv_string :: "kv \<Rightarrow> bstr option" where
  "kv_string v = (if kv_vtype v \<noteq> 8 then None else Some (kv_s v))"

definition kv_string_array :: "kv \<Rightarrow> bstr list option" where
  "kv_string_array v = (if kv_vtype v \<noteq> 9 then None else Some (kv_arr_str v))"

definition kv_u32_array :: "kv \<Rightarrow> u32 list option" where
  "kv_u32_array v = (if kv_vtype v \<noteq> 9 \<or> kv_arr_u32 v = [] then None else Some (kv_arr_u32 v))"

definition get_bool :: "gguf \<Rightarrow> bstr \<Rightarrow> bool option" where
  "get_bool r key = map_option kv_bool (find_kv (gr_arch r) (gr_kv r) key)"

definition get_u32 :: "gguf \<Rightarrow> bstr \<Rightarrow> u32 option" where
  "get_u32 r key = Option.bind (find_kv (gr_arch r) (gr_kv r) key) kv_u32"

definition get_f32 :: "gguf \<Rightarrow> bstr \<Rightarrow> fval option" where
  "get_f32 r key = Option.bind (find_kv (gr_arch r) (gr_kv r) key) kv_f32"

definition get_string :: "gguf \<Rightarrow> bstr \<Rightarrow> bstr option" where
  "get_string r key = Option.bind (find_kv (gr_arch r) (gr_kv r) key) kv_string"

definition get_string_array :: "gguf \<Rightarrow> bstr \<Rightarrow> bstr list option" where
  "get_string_array r key = Option.bind (find_kv (gr_arch r) (gr_kv r) key) kv_string_array"

definition get_u32_array :: "gguf \<Rightarrow> bstr \<Rightarrow> u32 list option" where
  "get_u32_array r key = Option.bind (find_kv (gr_arch r) (gr_kv r) key) kv_u32_array"

definition has_tensor :: "gguf \<Rightarrow> bstr \<Rightarrow> bool" where
  "has_tensor r name \<longleftrightarrow> gr_tensors r name \<noteq> None"

section \<open>Opening a file\<close>

definition read_kv_entry :: "nat \<Rightarrow> gfile \<Rightarrow> (bstr \<Rightarrow> kv option) \<times> nat \<Rightarrow> ((bstr \<Rightarrow> kv option) \<times> nat) outcome" where
  "read_kv_entry fuel fl = (\<lambda>(m, p).
     let (key, p) = read_string fl p
     in case read_uint fl 4 p of (None, p) \<Rightarrow> Fail
        | (Some vtype, p) \<Rightarrow>
            (case read_kv_value fuel fl (of_nat vtype) p of
               Ok (v, p) \<Rightarrow> Ok (m(key \<mapsto> v), p) | OutOfFuel \<Rightarrow> OutOfFuel | Fail \<Rightarrow> Fail))"

fun read_dims :: "gfile \<Rightarrow> nat \<Rightarrow> nat \<Rightarrow> (u64 list \<times> nat) option" where
  "read_dims fl 0 p = Some ([], p)"
| "read_dims fl (Suc k) p =
     (case read_uint fl 8 p of (None, p) \<Rightarrow> None
      | (Some d, p) \<Rightarrow>
          if 2 ^ 24 < d then None
          else map_option (\<lambda>(ds, p). (of_nat d # ds, p)) (read_dims fl k p))"

text \<open>The saturating product of the dimensions.\<close>

fun numel_from :: "u64 \<Rightarrow> u64 list \<Rightarrow> u64" where
  "numel_from n [] = n"
| "numel_from n (s # ss) =
     (if 0 < s \<and> (- 1) div s < n then - 1 else numel_from (n * (if s \<noteq> 0 then s else 1)) ss)"

definition read_tensor_entry :: "gfile \<Rightarrow> (tensor_map \<times> bstr list) \<times> nat \<Rightarrow>
    ((tensor_map \<times> bstr list) \<times> nat) outcome" where
  "read_tensor_entry fl = (\<lambda>((ts, order), p).
     let (name, p) = read_string fl p
     in case read_uint fl 4 p of (None, p) \<Rightarrow> Fail
        | (Some ndim, p) \<Rightarrow>
            if 16 < ndim then Fail
            else (case read_dims fl ndim p of None \<Rightarrow> Fail
                  | Some (shape, p) \<Rightarrow>
                      (case read_uint fl 4 p of (None, p) \<Rightarrow> Fail
                       | (Some dtype, p) \<Rightarrow>
                           (case read_uint fl 8 p of (None, p) \<Rightarrow> Fail
                            | (Some rel, p) \<Rightarrow>
                                Ok ((ts(name \<mapsto> \<lparr>ti_shape = shape, ti_dtype = of_nat dtype,
                                       ti_abs_offset = of_nat rel, ti_numel = numel_from 1 shape\<rparr>),
                                     order @ [name]), p)))))"

definition align_up :: "u64 \<Rightarrow> u64 \<Rightarrow> u64" where
  "align_up x a = (let rem = x mod a in if rem \<noteq> 0 then x + (a - rem) else x)"

definition shift_offset :: "u64 \<Rightarrow> bstr \<Rightarrow> tensor_map \<Rightarrow> tensor_map" where
  "shift_offset start name ts =
     ts(name := map_option (\<lambda>ti. ti\<lparr>ti_abs_offset := ti_abs_offset ti + start\<rparr>) (ts name))"

text \<open>The check of one tensor against the size of the file; an unknown dtype is only checked for its
  offset.\<close>

definition extent_ok :: "u64 \<Rightarrow> tensor_info \<Rightarrow> bool" where
  "extent_ok fsize ti \<longleftrightarrow>
     \<not> fsize < ti_abs_offset ti \<and>
     (let (bs, bb) = gguf_block_info (ti_dtype ti)
      in if bs = 0 \<or> bb = 0 then True
         else let n_blocks = (ti_numel ti + of_nat bs - 1) div of_nat bs; need = n_blocks * of_nat bb
              in \<not> fsize - ti_abs_offset ti < need)"

definition alignment_of :: "bstr \<Rightarrow> (bstr \<Rightarrow> kv option) \<Rightarrow> u64" where
  "alignment_of arch m =
     (case Option.bind (find_kv arch m (bytes_of ''general.alignment'')) kv_u32 of
        Some a \<Rightarrow> if 0 < a then ucast a else 32 | None \<Rightarrow> 32)"

definition arch_of :: "(bstr \<Rightarrow> kv option) \<Rightarrow> bstr" where
  "arch_of m =
     (case m (bytes_of ''general.architecture'') of
        Some v \<Rightarrow> if kv_vtype v = 8 then kv_s v else [] | None \<Rightarrow> [])"

text \<open>Everything behind the header: the two tables, the data offset and the extent checks.\<close>

definition open_tables :: "nat \<Rightarrow> gfile \<Rightarrow> nat \<Rightarrow> nat \<Rightarrow> nat \<Rightarrow> gguf outcome" where
  "open_tables fuel fl tensor_count kv_count p =
     (case repeat_ok kv_count (read_kv_entry fuel fl) (\<lambda>_. None, p) of
        OutOfFuel \<Rightarrow> OutOfFuel | Fail \<Rightarrow> Fail
      | Ok (m, p) \<Rightarrow>
          let arch = arch_of m; alignment = alignment_of arch m
          in case repeat_ok tensor_count (read_tensor_entry fl) ((\<lambda>_. None, []), p) of
               OutOfFuel \<Rightarrow> OutOfFuel | Fail \<Rightarrow> Fail
             | Ok ((ts, order), p) \<Rightarrow>
                 let data_start = align_up (of_nat p) alignment;
                     ts = fold (shift_offset data_start) order ts
                 in if list_all (\<lambda>name. extent_ok (of_nat (length fl)) (the (ts name))) (remdups order)
                    then Ok \<lparr>gr_file = fl, gr_arch = arch, gr_tensors = ts, gr_order = order, gr_kv = m\<rparr>
                    else Fail)"

definition gguf_open :: "nat \<Rightarrow> gfile \<Rightarrow> gguf outcome" where
  "gguf_open fuel fl =
     (case fread1 fl 4 0 of (None, p) \<Rightarrow> Fail
      | (Some magic, p) \<Rightarrow>
          if magic \<noteq> bytes_of ''GGUF'' then Fail
          else (case read_uint fl 4 p of (None, p) \<Rightarrow> Fail
                | (Some version, p) \<Rightarrow>
                    if version \<noteq> 2 \<and> version \<noteq> 3 then Fail
                    else (case read_uint fl 8 p of (None, p) \<Rightarrow> Fail
                          | (Some tensor_count, p) \<Rightarrow>
                              (case read_uint fl 8 p of (None, p) \<Rightarrow> Fail
                               | (Some kv_count, p) \<Rightarrow>
                                   if 200000 < tensor_count \<or> 200000 < kv_count then Fail
                                   else open_tables fuel fl tensor_count kv_count p))))"

section \<open>Reading tensors\<close>

definition get_tensor_raw :: "gguf \<Rightarrow> bstr \<Rightarrow> int \<Rightarrow> int \<Rightarrow> bstr option" where
  "get_tensor_raw r name block_size block_bytes =
     (case gr_tensors r name of None \<Rightarrow> None
      | Some ti \<Rightarrow>
          if block_size \<le> 0 \<or> block_bytes \<le> 0 then None
          else if 2 ^ 31 < ti_numel ti then None
          else let n_blocks = (ti_numel ti + of_int block_size - 1) div of_int block_size;
                   n = unat (n_blocks * of_int block_bytes)
               in fst (fread1 (gr_file r) n (fseek_set (ti_abs_offset ti) 0)))"

text \<open>The bytes of a block buffer, and a routine that writes behind \<open>out.data() + start\<close>.\<close>

definition ptr_of :: "bstr \<Rightarrow> ptr" where
  "ptr_of b k = (if k < length b then b ! k else 0)"

definition buf_shift :: "nat \<Rightarrow> 'f buf \<Rightarrow> 'f buf" where
  "buf_shift start out = (\<lambda>i. out (start + i))"

definition buf_put :: "nat \<Rightarrow> 'f buf \<Rightarrow> 'f buf \<Rightarrow> 'f buf" where
  "buf_put start d out = (\<lambda>i. if start \<le> i then d (i - start) else out i)"

definition read_block :: "'f fops \<Rightarrow> gfile \<Rightarrow> tensor_info \<Rightarrow> nat \<Rightarrow> nat \<Rightarrow> nat \<Rightarrow>
    nat \<times> 'f buf \<Rightarrow> (nat \<times> 'f buf) option" where
  "read_block fo fl ti bs bb b = (\<lambda>(p, out).
     let start = b * bs; count = min bs (unat (ti_numel ti) - start)
     in case fread1 fl bb p of (None, p) \<Rightarrow> None
        | (Some block, p) \<Rightarrow>
            map_option (\<lambda>d. (p, buf_put start d out))
              (gguf_dequant fo (ti_dtype ti) (ptr_of block) (buf_shift start out) count))"

fun for_option :: "nat list \<Rightarrow> (nat \<Rightarrow> 's \<Rightarrow> 's option) \<Rightarrow> 's \<Rightarrow> 's option" where
  "for_option [] f s = Some s"
| "for_option (k # ks) f s = (case f k s of None \<Rightarrow> None | Some s' \<Rightarrow> for_option ks f s')"

definition get_tensor_f32 :: "'f fops \<Rightarrow> gguf \<Rightarrow> bstr \<Rightarrow> 'f buf \<Rightarrow> 'f buf option" where
  "get_tensor_f32 fo r name out =
     (case gr_tensors r name of None \<Rightarrow> None
      | Some ti \<Rightarrow>
          if 2 ^ 31 < ti_numel ti then None
          else let (bs, bb) = gguf_block_info (ti_dtype ti)
               in if bs = 0 \<or> bb = 0 then None
                  else let n_blocks = (ti_numel ti + of_nat bs - 1) div of_nat bs
                       in map_option snd
                            (for_option [0..<unat n_blocks] (read_block fo (gr_file r) ti bs bb)
                              (fseek_set (ti_abs_offset ti) 0, out)))"

section \<open>What a successful open guarantees\<close>

lemma tensor_table_dom:
  assumes "repeat_ok n (read_tensor_entry fl) s = Ok s'" and "dom (fst (fst s)) = set (snd (fst s))"
  shows "dom (fst (fst s')) = set (snd (fst s'))"
  using assms
proof (rule repeat_ok_success)
  fix s s' assume "dom (fst (fst s)) = set (snd (fst s))" "read_tensor_entry fl s = Ok s'"
  then show "dom (fst (fst s')) = set (snd (fst s'))"
    by (clarsimp simp: read_tensor_entry_def split: prod.splits option.splits if_splits)
qed

lemma fold_shift_offset:
  "fold (shift_offset d) order ts name =
     map_option (\<lambda>ti. ti\<lparr>ti_abs_offset := ti_abs_offset ti + of_nat (count_list order name) * d\<rparr>) (ts name)"
proof (induction order arbitrary: ts)
  case Nil
  then show ?case by (cases "ts name") simp_all
next
  case (Cons x xs)
  then show ?case
    by (cases "ts name") (auto simp: shift_offset_def algebra_simps)
qed

lemma gguf_open_OkD:
  assumes "gguf_open fuel fl = Ok r"
  obtains n s ts order p d where
    "repeat_ok n (read_tensor_entry fl) ((\<lambda>_. None, []), s) = Ok ((ts, order), p)"
    "d = align_up (of_nat p) (alignment_of (gr_arch r) (gr_kv r))"
    "gr_file r = fl" "gr_order r = order" "gr_tensors r = fold (shift_offset d) order ts"
    "\<And>name. name \<in> set order \<Longrightarrow> extent_ok (of_nat (length fl)) (the (gr_tensors r name))"
  using assms
  unfolding gguf_open_def open_tables_def Let_def
  by (auto split: option.splits prod.splits if_splits outcome.splits simp: list_all_iff)

lemma gguf_open_tensors:
  assumes "gguf_open fuel fl = Ok r" "gr_tensors r name = Some ti"
  shows "extent_ok (of_nat (length fl)) ti" and "gr_file r = fl" and "name \<in> set (gr_order r)"
proof -
  obtain n s ts order p d where o:
    "repeat_ok n (read_tensor_entry fl) ((\<lambda>_. None, []), s) = Ok ((ts, order), p)"
    "gr_file r = fl" "gr_order r = order" "gr_tensors r = fold (shift_offset d) order ts"
    "\<And>name. name \<in> set order \<Longrightarrow> extent_ok (of_nat (length fl)) (the (gr_tensors r name))"
    by (rule gguf_open_OkD[OF assms(1)]) blast
  have "dom ts = set order" using tensor_table_dom[OF o(1)] by simp
  moreover have "name \<in> dom ts" using assms(2) o(4) by (auto simp: fold_shift_offset)
  ultimately show "name \<in> set (gr_order r)" using o(3) by simp
  with o(3,5) assms(2) show "extent_ok (of_nat (length fl)) ti" by fastforce
  show "gr_file r = fl" by (rule o(2))
qed

text \<open>The 64-bit arithmetic of the extent check is exact for a tensor of at most \<open>2^31\<close> elements.\<close>

lemma gguf_block_info_bounds:
  "gguf_block_info dtype = (bs, bb) \<Longrightarrow> bs \<le> 8192 \<and> bb \<le> 5120 \<and> (0 < bs \<longleftrightarrow> 0 < bb)"
  by (auto simp: gguf_block_info_def split: if_splits)

lemma n_blocks_exact:
  assumes "unat numel \<le> 2 ^ 31" "0 < bs" "bs \<le> 2 ^ 31"
  shows "unat ((numel + of_nat bs - 1) div of_nat bs :: u64) = ceil_div (unat numel) bs"
proof -
  have bs: "unat (of_nat bs :: u64) = bs" using assms(3) by (simp add: unat_of_nat)
  have "(numel + of_nat bs - 1 :: u64) = of_nat (unat numel + bs - 1)"
    using assms(2) by (simp add: of_nat_diff)
  moreover have "unat (of_nat (unat numel + bs - 1) :: u64) = unat numel + bs - 1"
    using assms by (simp add: unat_of_nat del: of_nat_diff)
  ultimately show ?thesis
    by (simp only: ceil_div_def unat_div bs)
qed

lemma ceil_div_le: "0 < k \<Longrightarrow> ceil_div n k \<le> n"
proof (rule ccontr)
  assume k: "0 < k" and "\<not> ceil_div n k \<le> n"
  then have "n * k < n" using less_ceil_div[OF k, of n n] by simp
  with k show False by (cases k) auto
qed

lemma extent_ok_exact:
  assumes "extent_ok (of_nat fsize) ti" "fsize < 2 ^ 63"
    and g: "gguf_block_info (ti_dtype ti) = (bs, bb)" "0 < bs"
    and n: "unat (ti_numel ti) \<le> 2 ^ 31"
  shows "unat (ti_abs_offset ti) + ceil_div (unat (ti_numel ti)) bs * bb \<le> fsize"
proof -
  define w where "w = ((ti_numel ti + of_nat bs - 1) div of_nat bs :: u64)"
  have b: "bs \<le> 8192" "bb \<le> 5120" "0 < bb" using gguf_block_info_bounds[OF g(1)] g(2) by auto
  have nb: "unat w = ceil_div (unat (ti_numel ti)) bs"
    unfolding w_def using n g(2) b(1) by (intro n_blocks_exact) auto
  have "ceil_div (unat (ti_numel ti)) bs \<le> 2 ^ 31" using ceil_div_le[OF g(2)] n by (rule order_trans)
  then have "ceil_div (unat (ti_numel ti)) bs * bb \<le> 2 ^ 31 * 5120"
    using b(2) by (rule mult_le_mono)
  then have "unat (w * of_nat bb) = ceil_div (unat (ti_numel ti)) bs * bb"
    using b(2) by (simp add: unat_word_ariths nb unat_of_nat)
  moreover have fs: "unat (of_nat fsize :: u64) = fsize" using assms(2) by (simp add: unat_of_nat)
  moreover have off: "ti_abs_offset ti \<le> of_nat fsize"
    and "w * of_nat bb \<le> of_nat fsize - ti_abs_offset ti"
    using assms(1) g b(3) by (auto simp: extent_ok_def Let_def not_less w_def)
  ultimately show ?thesis
    by (auto simp: word_le_nat_alt unat_sub)
qed

section \<open>Block-wise decoding of a tensor\<close>

lemma for_option_state:
  "(\<And>k. k < N \<Longrightarrow> f k (st k) = Some (st (Suc k))) \<Longrightarrow> for_option [0..<N] f (st 0) = Some (st N)"
proof (induction N)
  case 0
  then show ?case by simp
next
  case (Suc N)
  have app: "for_option (xs @ ys) f s = Option.bind (for_option xs f s) (for_option ys f)" for xs ys s
    by (induction xs arbitrary: s) (auto split: option.splits)
  show ?case using Suc by (simp add: app)
qed

lemma buf_put_override:
  "buf_put start (override_on (buf_shift start out) v {..<c}) out =
     override_on out (\<lambda>i. v (i - start)) {start..<start + c}"
  by (auto simp: buf_put_def buf_shift_def override_on_def fun_eq_iff)

lemma fread1_ok: "p + n \<le> length fl \<Longrightarrow> fread1 fl n p = (Some (take n (drop p fl)), p + n)"
  by (simp add: fread1_def)

lemma read_block_eq:
  assumes e: "gguf_elem fo (ti_dtype ti) = Some e" and g: "gguf_block_info (ti_dtype ti) = (bs, bb)"
    and b: "b * bs < n" and n: "n = unat (ti_numel ti)"
    and room: "off + Suc b * bb \<le> length fl"
  shows "read_block fo fl ti bs bb b
      (off + b * bb, override_on out (e (ptr_of (drop off fl))) {..<min n (b * bs)}) =
    Some (off + Suc b * bb, override_on out (e (ptr_of (drop off fl))) {..<min n (Suc b * bs)})"
proof -
  have bf: "block_format e bs bb" using e g by (rule gguf_block_format)
  note bs_pos = block_format.bs_pos[OF bf]
  let ?blk = "take bb (drop (off + b * bb) fl)" and ?w = "e (ptr_of (drop off fl))"
  let ?c = "min bs (n - b * bs)"
  have val: "e (ptr_of ?blk) j = ?w (b * bs + j)" if j: "j < ?c" for j
  proof -
    have "ceil_div ?c bs * bb \<le> bb"
    proof -
      have "ceil_div ?c bs \<le> 1"
        using less_ceil_div[OF bs_pos, of 1 ?c] by (simp add: not_less[symmetric] del: not_less)
      then show ?thesis by simp
    qed
    moreover have "ptr_of ?blk k = adv (ptr_of (drop off fl)) (b * bb) k" if "k < bb" for k
    proof -
      have "off + b * bb + k < length fl" using room that by simp
      then have "b * bb + k < length fl - off" "k < length fl - (off + b * bb)" by linarith+
      with that show ?thesis by (simp add: ptr_of_def add.assoc)
    qed
    ultimately have "e (ptr_of ?blk) j = e (adv (ptr_of (drop off fl)) (b * bb)) j"
      by (intro block_format.elem_reads[OF bf _ j]) (meson order_less_le_trans)
    then show ?thesis by (simp only: block_format.elem_from_block[OF bf])
  qed
  have "override_on (override_on out ?w {..<b * bs}) (\<lambda>i. e (ptr_of ?blk) (i - b * bs)) {b * bs..<b * bs + ?c} =
      override_on out ?w {..<min n (Suc b * bs)}" (is "?l = ?r")
  proof
    fix i show "?l i = ?r i"
      using val[of "i - b * bs"] b by (auto simp: override_on_def min_def split: if_splits)
  qed
  moreover have "min n (b * bs) = b * bs" using b by simp
  ultimately show ?thesis
    using room e n
    by (simp add: read_block_def fread1_ok Let_def gguf_dequant_eq buf_put_override add.assoc)
qed

lemma fseek_set_small: "unat off < 2 ^ 63 \<Longrightarrow> fseek_set off p = unat off"
  using sint_len[of "unat off"] by (simp add: fseek_set_def)

lemma get_tensor_f32_eq:
  assumes ti: "gr_tensors r name = Some ti"
    and e: "gguf_elem fo (ti_dtype ti) = Some e" and g: "gguf_block_info (ti_dtype ti) = (bs, bb)"
    and n: "unat (ti_numel ti) \<le> 2 ^ 31"
    and room: "unat (ti_abs_offset ti) + ceil_div (unat (ti_numel ti)) bs * bb \<le> length (gr_file r)"
    and size: "length (gr_file r) < 2 ^ 63"
  shows "get_tensor_f32 fo r name out =
    Some (override_on out (e (ptr_of (drop (unat (ti_abs_offset ti)) (gr_file r)))) {..<unat (ti_numel ti)})"
proof -
  have bf: "block_format e bs bb" using e g by (rule gguf_block_format)
  note bs_pos = block_format.bs_pos[OF bf]
  let ?n = "unat (ti_numel ti)" and ?off = "unat (ti_abs_offset ti)" and ?fl = "gr_file r"
  let ?N = "ceil_div ?n bs" and ?w = "e (ptr_of (drop ?off ?fl))"
  define st where "st b = (?off + b * bb, override_on out ?w {..<min ?n (b * bs)})" for b
  have bnd: "bs \<le> 8192" "0 < bb" using gguf_block_info_bounds[OF g] bs_pos by auto
  have "read_block fo ?fl ti bs bb b (st b) = Some (st (Suc b))" if "b < ?N" for b
  proof -
    have "Suc b * bb \<le> ?N * bb" using that by (intro mult_right_mono) auto
    then have "?off + Suc b * bb \<le> length ?fl" using room by linarith
    moreover have "b * bs < ?n" using that by (simp add: less_ceil_div bs_pos)
    ultimately show ?thesis unfolding st_def by (intro read_block_eq[OF e g]) simp_all
  qed
  then have loop: "for_option [0..<?N] (read_block fo ?fl ti bs bb) (st 0) = Some (st ?N)"
    by (rule for_option_state)
  have "\<not> ?N * bs < ?n" using less_ceil_div[OF bs_pos, of ?N ?n] by simp
  then have "min ?n (?N * bs) = ?n" by simp
  moreover have "unat ((ti_numel ti + of_nat bs - 1) div of_nat bs) = ?N"
    using n bnd bs_pos by (intro n_blocks_exact) auto
  moreover have "fseek_set (ti_abs_offset ti) 0 = ?off"
    using room size by (intro fseek_set_small) simp
  moreover have "\<not> 2 ^ 31 < ti_numel ti" using n by (simp add: word_less_nat_alt not_less)
  ultimately show ?thesis
    using ti g bs_pos bnd loop by (simp add: get_tensor_f32_def Let_def st_def)
qed

section \<open>Properties\<close>

lemma get_tensor_raw_eq:
  assumes ti: "gr_tensors r name = Some ti" and g: "0 < bs" "bs \<le> 8192" "0 < bb" "bb \<le> 5120"
    and n: "unat (ti_numel ti) \<le> 2 ^ 31"
    and room: "unat (ti_abs_offset ti) + ceil_div (unat (ti_numel ti)) bs * bb \<le> length (gr_file r)"
    and size: "length (gr_file r) < 2 ^ 63"
  shows "get_tensor_raw r name (int bs) (int bb) =
    Some (take (ceil_div (unat (ti_numel ti)) bs * bb) (drop (unat (ti_abs_offset ti)) (gr_file r)))"
proof -
  define w where "w = ((ti_numel ti + of_nat bs - 1) div of_nat bs :: u64)"
  have nb: "unat w = ceil_div (unat (ti_numel ti)) bs"
    unfolding w_def using n g by (intro n_blocks_exact) auto
  have "ceil_div (unat (ti_numel ti)) bs * bb < 2 ^ 64" using room size by simp
  then have "unat (w * of_nat bb) = ceil_div (unat (ti_numel ti)) bs * bb"
    using g(4) by (simp add: unat_word_ariths nb unat_of_nat)
  moreover have "\<not> 2 ^ 31 < ti_numel ti" using n by (simp add: word_less_nat_alt not_less)
  moreover have "fseek_set (ti_abs_offset ti) 0 = unat (ti_abs_offset ti)"
    using room size by (intro fseek_set_small) simp
  ultimately show ?thesis
    using ti g(1,3) room by (simp add: get_tensor_raw_def Let_def w_def fread1_ok)
qed

text \<open>C30. After a successful \<open>open\<close>, \<open>get_tensor_f32\<close> of a declared tensor of a supported dtype with at
  most \<open>2^31\<close> elements succeeds, and writes exactly the reference values of the bytes at the tensor's
  offset: reading block by block through a block buffer is the same as decoding the whole tensor in
  memory, and elements past the tensor are not touched.
\<close>

theorem get_tensor_f32_correct:
  assumes "gguf_open fuel fl = Ok r" "length fl < 2 ^ 63"
    and "gr_tensors r name = Some ti" "gguf_elem fo (ti_dtype ti) = Some e" "unat (ti_numel ti) \<le> 2 ^ 31"
  shows "get_tensor_f32 fo r name out =
    Some (\<lambda>i. if i < unat (ti_numel ti) then e (ptr_of (drop (unat (ti_abs_offset ti)) fl)) i else out i)"
proof -
  obtain bs bb where g: "gguf_block_info (ti_dtype ti) = (bs, bb)" by (cases "gguf_block_info (ti_dtype ti)")
  then have "0 < bs" using gguf_block_format[OF assms(4)] block_format.bs_pos by blast
  note opened = gguf_open_tensors[OF assms(1,3)]
  have "unat (ti_abs_offset ti) + ceil_div (unat (ti_numel ti)) bs * bb \<le> length fl"
    by (rule extent_ok_exact[OF opened(1) assms(2) g \<open>0 < bs\<close> assms(5)])
  then have "get_tensor_f32 fo r name out =
      Some (override_on out (e (ptr_of (drop (unat (ti_abs_offset ti)) fl))) {..<unat (ti_numel ti)})"
    using get_tensor_f32_eq[OF assms(3,4) g assms(5)] assms(2) opened(2) by simp
  then show ?thesis by (auto simp: override_on_def)
qed

text \<open>C31. After a successful \<open>open\<close> a raw read of a tensor of a known dtype with the geometry of the table refuses
  more than \<open>2^31\<close> elements, and otherwise returns exactly the tensor's bytes, all of which lie inside the file: up
  to that size the 64-bit arithmetic of the truncation check does not wrap (it does for larger declared tensors, see
  \<open>extent_check_wraps\<close>).
\<close>

theorem open_then_raw_read:
  assumes "gguf_open fuel fl = Ok r" "length fl < 2 ^ 63"
    and "gr_tensors r name = Some ti" "gguf_block_info (ti_dtype ti) = (bs, bb)" "0 < bs"
  shows "if 2 ^ 31 < unat (ti_numel ti) then get_tensor_raw r name (int bs) (int bb) = None
    else unat (ti_abs_offset ti) + ceil_div (unat (ti_numel ti)) bs * bb \<le> length fl \<and>
      get_tensor_raw r name (int bs) (int bb) =
        Some (take (ceil_div (unat (ti_numel ti)) bs * bb) (drop (unat (ti_abs_offset ti)) fl))"
proof (cases "2 ^ 31 < unat (ti_numel ti)")
  case True
  then have "2 ^ 31 < ti_numel ti" by (simp add: word_less_nat_alt)
  then show ?thesis using True assms(3) by (simp add: get_tensor_raw_def)
next
  case False
  then have n: "unat (ti_numel ti) \<le> 2 ^ 31" by simp
  note opened = gguf_open_tensors[OF assms(1,3)] and b = gguf_block_info_bounds[OF assms(4)]
  have room: "unat (ti_abs_offset ti) + ceil_div (unat (ti_numel ti)) bs * bb \<le> length fl"
    by (rule extent_ok_exact[OF opened(1) assms(2,4,5) n])
  then have "get_tensor_raw r name (int bs) (int bb) =
      Some (take (ceil_div (unat (ti_numel ti)) bs * bb) (drop (unat (ti_abs_offset ti)) fl))"
    using get_tensor_raw_eq[OF assms(3) assms(5), of bb] b assms(2,5) n opened(2) by simp
  then show ?thesis using False room by simp
qed

text \<open>A declared shape of \<open>2^32\<close> by \<open>2^32\<close> saturates the element count; the number of blocks wraps to 0, and the
  truncation check accepts the tensor in any file that reaches its offset.\<close>

lemma extent_check_wraps:
  "numel_from 1 [2 ^ 32, 2 ^ 32] = 2 ^ 64 - 1 \<and>
   (64 \<le> fsize \<longrightarrow> extent_ok fsize \<lparr>ti_shape = [2 ^ 32, 2 ^ 32], ti_dtype = 2, ti_abs_offset = 64, ti_numel = 2 ^ 64 - 1\<rparr>)"
proof -
  have "numel_from 1 [2 ^ 32, 2 ^ 32] = 2 ^ 64 - 1" by code_simp
  moreover have "(- 1 + 32 - 1 :: u64) div 32 = 0" by code_simp
  ultimately show ?thesis by (auto simp: extent_ok_def gguf_block_info_def Let_def not_less)
qed

text \<open>A file with one Q4\_0 tensor of 40 elements, for the witnesses.\<close>

definition tiny_tensor :: tensor_info where
  "tiny_tensor = \<lparr>ti_shape = [40], ti_dtype = 2, ti_abs_offset = 64, ti_numel = 40\<rparr>"

definition tiny_file :: gfile where
  "tiny_file = bytes_of ''GGUF'' @ le_bytes 4 3 @ le_bytes 8 1 @ le_bytes 8 0
     @ le_bytes 8 1 @ bytes_of ''w'' @ le_bytes 4 1 @ le_bytes 8 40 @ le_bytes 4 2 @ le_bytes 8 0
     @ replicate 7 0 @ [0, 0x3c] @ replicate 16 0x5a @ [0, 0x40] @ replicate 16 0x7f"

lemma tiny_file_opens:
  "\<exists>r. gguf_open 1 tiny_file = Ok r \<and> gr_tensors r (bytes_of ''w'') = Some tiny_tensor"
proof -
  have "(case gguf_open 1 tiny_file of Ok r \<Rightarrow> gr_tensors r (bytes_of ''w'') = Some tiny_tensor
         | _ \<Rightarrow> False)"
    by code_simp
  then show ?thesis by (simp split: outcome.splits)
qed

theorem get_tensor_f32_correct_witness:
  "\<exists>r. gguf_open 1 tiny_file = Ok r \<and>
     (\<forall>(fo :: rat fops) out. get_tensor_f32 fo r (bytes_of ''w'') out =
       Some (\<lambda>i. if i < 40 then q4_0_elem fo (ptr_of (drop 64 tiny_file)) i else out i))"
proof -
  obtain r where r: "gguf_open 1 tiny_file = Ok r" "gr_tensors r (bytes_of ''w'') = Some tiny_tensor"
    using tiny_file_opens by blast
  have "length tiny_file < 2 ^ 63" by (simp add: tiny_file_def bytes_of_def)
  then have "get_tensor_f32 fo r (bytes_of ''w'') out =
      Some (\<lambda>i. if i < unat (ti_numel tiny_tensor)
        then q4_0_elem fo (ptr_of (drop (unat (ti_abs_offset tiny_tensor)) tiny_file)) i else out i)"
    for fo :: "rat fops" and out
    by (rule get_tensor_f32_correct[OF r(1) _ r(2)]) (simp_all add: tiny_tensor_def gguf_elem_def)
  with r(1) show ?thesis by (auto simp: tiny_tensor_def)
qed

theorem open_then_raw_read_witness:
  "\<exists>r. gguf_open 1 tiny_file = Ok r \<and>
     get_tensor_raw r (bytes_of ''w'') 32 18 = Some (take 36 (drop 64 tiny_file))"
proof -
  obtain r where r: "gguf_open 1 tiny_file = Ok r" "gr_tensors r (bytes_of ''w'') = Some tiny_tensor"
    using tiny_file_opens by blast
  have "length tiny_file < 2 ^ 63" by (simp add: tiny_file_def bytes_of_def)
  then have "get_tensor_raw r (bytes_of ''w'') (int 32) (int 18) =
      Some (take (ceil_div (unat (ti_numel tiny_tensor)) 32 * 18)
        (drop (unat (ti_abs_offset tiny_tensor)) tiny_file))"
    using open_then_raw_read[OF r(1) _ r(2), of 32 18]
    by (simp add: tiny_tensor_def gguf_block_info_def)
  with r(1) show ?thesis by (auto simp: tiny_tensor_def ceil_div_def)
qed

section \<open>Termination of the metadata parser\<close>

lemma read_kv_entry_returns:
  assumes "no_back_seek fl" "length fl < 12 * fuel"
  shows "read_kv_entry fuel fl s \<noteq> OutOfFuel"
  using read_kv_value_forward[OF assms]
  by (auto simp: read_kv_entry_def returns_forward_def split: prod.splits option.splits outcome.splits)

lemma read_tensor_entry_returns: "read_tensor_entry fl s \<noteq> OutOfFuel"
  by (auto simp: read_tensor_entry_def split: prod.splits option.splits)

text \<open>C34. \<open>open\<close> returns, whatever the file holds otherwise, when no eight bytes of it are a length of
  \<open>2^63\<close> or more: a nesting depth of one twelfth of the file is enough for the recursion over nested
  arrays.
\<close>

theorem gguf_open_returns:
  assumes "no_back_seek fl" "length fl < 12 * fuel"
  shows "gguf_open fuel fl \<noteq> OutOfFuel"
  using repeat_ok_returns[of "read_kv_entry fuel fl", OF read_kv_entry_returns[OF assms]]
    repeat_ok_returns[of "read_tensor_entry fl", OF read_tensor_entry_returns]
  by (auto simp: gguf_open_def open_tables_def Let_def split: option.splits prod.splits outcome.splits)

theorem gguf_open_returns_witness: "gguf_open 9 tiny_file \<noteq> OutOfFuel"
proof (rule gguf_open_returns)
  have "list_all (\<lambda>i. le_value (take 8 (drop i tiny_file)) < 2 ^ 63) [0..<length tiny_file - 7]"
    by code_simp
  then show "no_back_seek tiny_file"
    by (auto simp: no_back_seek_def list_all_iff)
  show "length tiny_file < 12 * 9" by (simp add: tiny_file_def bytes_of_def)
qed

text \<open>A file whose string length is negative as a seek offset: the array at byte 49 has two elements;
  the first is an array with one string whose length leads the cursor back to byte 49.\<close>

definition loop_file :: gfile where
  "loop_file = bytes_of ''GGUF'' @ le_bytes 4 3 @ le_bytes 8 0 @ le_bytes 8 1
     @ le_bytes 8 1 @ bytes_of ''k'' @ le_bytes 4 9 @ le_bytes 4 9 @ le_bytes 8 1
     @ le_bytes 4 9 @ le_bytes 8 2 @ le_bytes 4 8 @ le_bytes 8 1 @ le_bytes 8 (2 ^ 64 - 32)"

lemma loop_file_reads:
  "read_uint loop_file 4 49 = (Some 9, 53)" "read_uint loop_file 8 53 = (Some 2, 61)"
  "read_uint loop_file 4 61 = (Some 8, 65)" "read_uint loop_file 8 65 = (Some 1, 73)"
  "snd (read_string loop_file 73) = 49"
  by code_simp+

lemma skip_kv_diverges: "skip_kv_value fuel loop_file 9 49 = OutOfFuel"
proof (induction fuel)
  case 0
  then show ?case by simp
next
  case (Suc fuel)
  have two: "repeat_ok 2 step s =
      (case step s of Ok s' \<Rightarrow> (case step s' of Ok s'' \<Rightarrow> Ok s'' | OutOfFuel \<Rightarrow> OutOfFuel | Fail \<Rightarrow> Fail)
       | OutOfFuel \<Rightarrow> OutOfFuel | Fail \<Rightarrow> Fail)" for step :: "nat \<Rightarrow> nat outcome" and s
    by (simp add: numeral_2_eq_2 cong: outcome.case_cong split: outcome.splits)
  have first: "skip_kv_value fuel loop_file 9 61 = OutOfFuel \<or> skip_kv_value fuel loop_file 9 61 = Ok 49"
  proof (cases fuel)
    case (Suc f)
    then show ?thesis
      by (simp add: skip_kv_array loop_file_reads MAX_ARRAY_COUNT_def del: skip_kv_value.simps)
  qed simp
  have "skip_kv_value (Suc fuel) loop_file 9 49 = repeat_ok 2 (skip_kv_value fuel loop_file 9) 61"
    by (simp add: skip_kv_array loop_file_reads MAX_ARRAY_COUNT_def del: skip_kv_value.simps)
  then show ?case using first Suc.IH by (auto simp: two simp del: skip_kv_value.simps)
qed

text \<open>C35. There is a file of 81 bytes on which \<open>open\<close> never returns: the length of a string inside an
  array is negative as a seek offset, the cursor goes back to the enclosing array, and the recursion
  exceeds every bound.
\<close>

theorem gguf_open_diverges:
  "length loop_file = 81 \<and> (\<forall>fuel. gguf_open fuel loop_file = OutOfFuel)"
proof -
  have hd: "fread1 loop_file 4 0 = (Some (bytes_of ''GGUF''), 4)" "read_uint loop_file 4 4 = (Some 3, 8)"
    "read_uint loop_file 8 8 = (Some 0, 16)" "read_uint loop_file 8 16 = (Some 1, 24)"
    "read_string loop_file 24 = (bytes_of ''k'', 33)" "read_uint loop_file 4 33 = (Some 9, 37)"
    "read_uint loop_file 4 37 = (Some 9, 41)" "read_uint loop_file 8 41 = (Some 1, 49)"
    by code_simp+
  have "read_kv_value fuel loop_file 9 37 = OutOfFuel" for fuel
    by (simp add: read_kv_value_def read_array_def hd MAX_ARRAY_COUNT_def read_single_def skip_kv_diverges)
  then have "read_kv_entry fuel loop_file (\<lambda>_. None, 24) = OutOfFuel" for fuel
    by (simp add: read_kv_entry_def hd)
  then have "gguf_open fuel loop_file = OutOfFuel" for fuel
    by (simp add: gguf_open_def hd open_tables_def)
  moreover have "length loop_file = 81" by (simp add: loop_file_def bytes_of_def)
  ultimately show ?thesis by blast
qed

section \<open>Offsets\<close>

text \<open>The data offset of a declared tensor is its relative offset plus the aligned end of the tables,
  once for every time its name is declared: exact when the names are distinct, and too far when a
  name is repeated.
\<close>

lemma gguf_open_offsets:
  assumes "gguf_open fuel fl = Ok r"
  shows "\<exists>ts p n s. repeat_ok n (read_tensor_entry fl) ((\<lambda>_. None, []), s) = Ok ((ts, gr_order r), p) \<and>
    (\<forall>name. gr_tensors r name = map_option (\<lambda>ti. ti\<lparr>ti_abs_offset := ti_abs_offset ti +
       of_nat (count_list (gr_order r) name) * align_up (of_nat p) (alignment_of (gr_arch r) (gr_kv r))\<rparr>)
       (ts name))"
  by (rule gguf_open_OkD[OF assms]) (auto simp: fold_shift_offset)

text \<open>A file that declares the same one-block tensor twice; its tables end at byte 90, its data starts at 96.\<close>

definition dup_file :: gfile where
  "dup_file = bytes_of ''GGUF'' @ le_bytes 4 3 @ le_bytes 8 2 @ le_bytes 8 0
     @ (let entry = le_bytes 8 1 @ bytes_of ''w'' @ le_bytes 4 1 @ le_bytes 8 32 @ le_bytes 4 2 @ le_bytes 8 0
        in entry @ entry)
     @ replicate 120 0"

lemma gguf_open_offsets_witness:
  "\<exists>r ts p n s. gguf_open 1 dup_file = Ok r \<and>
    repeat_ok n (read_tensor_entry dup_file) ((\<lambda>_. None, []), s) = Ok ((ts, gr_order r), p) \<and>
    gr_tensors r (bytes_of ''w'') = map_option (\<lambda>ti. ti\<lparr>ti_abs_offset := ti_abs_offset ti +
       of_nat 2 * align_up (of_nat p) (alignment_of (gr_arch r) (gr_kv r))\<rparr>) (ts (bytes_of ''w'')) \<and>
    map_option ti_abs_offset (gr_tensors r (bytes_of ''w'')) = Some (2 * 96)"
proof -
  have "(case gguf_open 1 dup_file of
         Ok r \<Rightarrow> count_list (gr_order r) (bytes_of ''w'') = 2 \<and>
           map_option ti_abs_offset (gr_tensors r (bytes_of ''w'')) = Some (2 * 96) | _ \<Rightarrow> False)"
    by code_simp
  then obtain r where r: "gguf_open 1 dup_file = Ok r" "count_list (gr_order r) (bytes_of ''w'') = 2"
    "map_option ti_abs_offset (gr_tensors r (bytes_of ''w'')) = Some (2 * 96)"
    by (auto split: outcome.splits)
  obtain ts p n s where o:
    "repeat_ok n (read_tensor_entry dup_file) ((\<lambda>_. None, []), s) = Ok ((ts, gr_order r), p)"
    "\<forall>name. gr_tensors r name = map_option (\<lambda>ti. ti\<lparr>ti_abs_offset := ti_abs_offset ti +
       of_nat (count_list (gr_order r) name) * align_up (of_nat p) (alignment_of (gr_arch r) (gr_kv r))\<rparr>)
       (ts name)"
    using gguf_open_offsets[OF r(1)] by (elim exE conjE)
  show ?thesis
    by (rule exI[of _ r], rule exI[of _ ts], rule exI[of _ p], rule exI[of _ n], rule exI[of _ s])
       (use r(1,3) o(1) o(2)[rule_format, of "bytes_of ''w''", unfolded r(2)] in blast)
qed

end
