(* ===== verification/Utf8.thy ===== *)
theory Utf8
  imports Bytes
begin

text \<open>
  The character layer of \<open>src/tokenizer.cpp\<close>: UTF-8 encoding and (lenient) decoding of one code point,
  and the GPT-2 table that maps every byte to a printable code point and back.

  \<open>utf8_decode\<close> works on the bytes that are left and answers the code point and the bytes read. It
  accepts any continuation bytes; what it promises is progress (at least one byte, never more than are
  left) and the round trip with \<open>utf8_encode\<close>.
\<close>

section \<open>One code point\<close>

definition utf8_encode :: "u32 \<Rightarrow> bstr" where
  "utf8_encode cp =
     (if cp < 0x80 then [ucast cp]
      else if cp < 0x800 then [ucast (0xC0 OR drop_bit 6 cp), ucast (0x80 OR (cp AND 0x3F))]
      else if cp < 0x10000 then
        [ucast (0xE0 OR drop_bit 12 cp), ucast (0x80 OR (drop_bit 6 cp AND 0x3F)),
         ucast (0x80 OR (cp AND 0x3F))]
      else
        [ucast (0xF0 OR drop_bit 18 cp), ucast (0x80 OR (drop_bit 12 cp AND 0x3F)),
         ucast (0x80 OR (drop_bit 6 cp AND 0x3F)), ucast (0x80 OR (cp AND 0x3F))])"

definition utf8_decode :: "bstr \<Rightarrow> u32 \<times> nat" where
  "utf8_decode s =
     (if s = [] then (0, 0)
      else let b0 = s ! 0; cont = (\<lambda>k. ucast (s ! k AND 0x3F) :: u32)
           in if b0 < 0x80 then (ucast b0, 1)
              else if b0 AND 0xE0 = 0xC0 \<and> 2 \<le> length s then
                (push_bit 6 (ucast (b0 AND 0x1F)) OR cont 1, 2)
              else if b0 AND 0xF0 = 0xE0 \<and> 3 \<le> length s then
                (push_bit 12 (ucast (b0 AND 0x0F)) OR push_bit 6 (cont 1) OR cont 2, 3)
              else if b0 AND 0xF8 = 0xF0 \<and> 4 \<le> length s then
                (push_bit 18 (ucast (b0 AND 0x07)) OR push_bit 12 (cont 1) OR push_bit 6 (cont 2)
                   OR cont 3, 4)
              else (0xFFFD, 1))"

lemma utf8_decode_progress:
  "s \<noteq> [] \<Longrightarrow> 0 < snd (utf8_decode s) \<and> snd (utf8_decode s) \<le> length s"
  by (auto simp: utf8_decode_def Let_def Suc_le_eq)

lemma utf8_decode_len_le: "snd (utf8_decode s) \<le> length s"
  by (cases "s = []") (use utf8_decode_progress in \<open>auto simp: utf8_decode_def\<close>)

text \<open>Bits of the masks and of the bounds.\<close>

lemma mask32_bits:
  "bit (0x3F :: u32) n \<longleftrightarrow> n < 6" "bit (0x3F :: byte) n \<longleftrightarrow> n < 6" "bit (0x1F :: byte) n \<longleftrightarrow> n < 5"
  "bit (0x0F :: byte) n \<longleftrightarrow> n < 4" "bit (0x07 :: byte) n \<longleftrightarrow> n < 3" "bit (0x80 :: u32) n \<longleftrightarrow> n = 7"
proof -
  have eq: "(0x3F :: u32) = mask 6" "(0x3F :: byte) = mask 6" "(0x1F :: byte) = mask 5"
    "(0x0F :: byte) = mask 4" "(0x07 :: byte) = mask 3" "(0x80 :: u32) = push_bit 7 1"
    by (simp_all add: mask_eq_exp_minus_1)
  show "bit (0x3F :: u32) n \<longleftrightarrow> n < 6" "bit (0x3F :: byte) n \<longleftrightarrow> n < 6" "bit (0x1F :: byte) n \<longleftrightarrow> n < 5"
    "bit (0x0F :: byte) n \<longleftrightarrow> n < 4" "bit (0x07 :: byte) n \<longleftrightarrow> n < 3" "bit (0x80 :: u32) n \<longleftrightarrow> n = 7"
    unfolding eq by (simp_all only: bit_mask_iff bit_push_bit_iff bit_1_iff) auto
qed

lemma bit_bound: "unat cp < 2 ^ k \<Longrightarrow> bit (cp :: 'a::len word) n \<Longrightarrow> n < k"
proof -
  assume "unat cp < 2 ^ k"
  then have "uint cp < 2 ^ k" by (metis of_nat_less_iff of_nat_numeral of_nat_power uint_nat)
  then have "cp AND mask k = cp" by (simp only: mask_eq_iff)
  then show "bit cp n \<Longrightarrow> n < k" by (metis bit_and_iff bit_mask_iff)
qed

lemma lead_bits:
  "bit (0xC0 :: u32) n \<longleftrightarrow> 6 \<le> n \<and> n < 8" "bit (0xE0 :: u32) n \<longleftrightarrow> 5 \<le> n \<and> n < 8"
  "bit (0xF0 :: u32) n \<longleftrightarrow> 4 \<le> n \<and> n < 8"
  "bit (0xC0 :: byte) n \<longleftrightarrow> 6 \<le> n \<and> n < 8" "bit (0xE0 :: byte) n \<longleftrightarrow> 5 \<le> n \<and> n < 8"
  "bit (0xF0 :: byte) n \<longleftrightarrow> 4 \<le> n \<and> n < 8" "bit (0xF8 :: byte) n \<longleftrightarrow> 3 \<le> n \<and> n < 8"
proof -
  have eq: "(0xC0 :: u32) = push_bit 6 (mask 2)" "(0xE0 :: u32) = push_bit 5 (mask 3)"
    "(0xF0 :: u32) = push_bit 4 (mask 4)" "(0xC0 :: byte) = push_bit 6 (mask 2)"
    "(0xE0 :: byte) = push_bit 5 (mask 3)" "(0xF0 :: byte) = push_bit 4 (mask 4)"
    "(0xF8 :: byte) = push_bit 3 (mask 5)"
    by (simp_all add: mask_eq_exp_minus_1)
  show "bit (0xC0 :: u32) n \<longleftrightarrow> 6 \<le> n \<and> n < 8" "bit (0xE0 :: u32) n \<longleftrightarrow> 5 \<le> n \<and> n < 8"
    "bit (0xF0 :: u32) n \<longleftrightarrow> 4 \<le> n \<and> n < 8"
    "bit (0xC0 :: byte) n \<longleftrightarrow> 6 \<le> n \<and> n < 8" "bit (0xE0 :: byte) n \<longleftrightarrow> 5 \<le> n \<and> n < 8"
    "bit (0xF0 :: byte) n \<longleftrightarrow> 4 \<le> n \<and> n < 8" "bit (0xF8 :: byte) n \<longleftrightarrow> 3 \<le> n \<and> n < 8"
    unfolding eq by (simp_all only: bit_mask_iff bit_push_bit_iff) auto
qed

lemmas utf8_bits = bit_and_iff bit_or_iff bit_push_bit_iff bit_drop_bit_eq bit_ucast_iff o_def
  mask32_bits lead_bits

lemma not_small_byte: "bit (b :: byte) 7 \<Longrightarrow> \<not> b < 0x80"
  using bit_bound[of b 7 7] by (auto simp: word_less_nat_alt)

lemma cont_byte: "ucast ((ucast (0x80 OR (c AND 0x3F)) :: byte) AND 0x3F) = (c AND 0x3F :: u32)"
  by (rule bit_word_eqI) (simp only: utf8_bits, auto)

lemma utf8_two:
  assumes "unat cp < 2 ^ 11"
  shows "(ucast (0xC0 OR drop_bit 6 cp) :: byte) AND 0xE0 = 0xC0"
    and "bit (ucast (0xC0 OR drop_bit 6 cp) :: byte) 7"
    and "push_bit 6 (ucast ((ucast (0xC0 OR drop_bit 6 cp) :: byte) AND 0x1F)) OR (cp AND 0x3F) = (cp :: u32)"
proof -
  note b = bit_bound[OF assms]
  show "(ucast (0xC0 OR drop_bit 6 cp) :: byte) AND 0xE0 = 0xC0"
    by (rule bit_word_eqI) (simp only: utf8_bits, use b in fastforce)
  show "bit (ucast (0xC0 OR drop_bit 6 cp) :: byte) 7" by (simp only: utf8_bits) simp
  show "push_bit 6 (ucast ((ucast (0xC0 OR drop_bit 6 cp) :: byte) AND 0x1F)) OR (cp AND 0x3F) = (cp :: u32)"
    by (rule bit_word_eqI) (simp only: utf8_bits, use b in fastforce)
qed

lemma utf8_three:
  assumes "unat cp < 2 ^ 16"
  shows "(ucast (0xE0 OR drop_bit 12 cp) :: byte) AND 0xE0 = 0xE0"
    and "(ucast (0xE0 OR drop_bit 12 cp) :: byte) AND 0xF0 = 0xE0"
    and "bit (ucast (0xE0 OR drop_bit 12 cp) :: byte) 7"
    and "push_bit 12 (ucast ((ucast (0xE0 OR drop_bit 12 cp) :: byte) AND 0x0F))
      OR push_bit 6 (drop_bit 6 cp AND 0x3F) OR (cp AND 0x3F) = (cp :: u32)"
proof -
  note b = bit_bound[OF assms]
  show "(ucast (0xE0 OR drop_bit 12 cp) :: byte) AND 0xE0 = 0xE0"
    "(ucast (0xE0 OR drop_bit 12 cp) :: byte) AND 0xF0 = 0xE0"
    by (rule bit_word_eqI, simp only: utf8_bits, use b in fastforce)+
  show "bit (ucast (0xE0 OR drop_bit 12 cp) :: byte) 7" by (simp only: utf8_bits) simp
  show "push_bit 12 (ucast ((ucast (0xE0 OR drop_bit 12 cp) :: byte) AND 0x0F))
      OR push_bit 6 (drop_bit 6 cp AND 0x3F) OR (cp AND 0x3F) = (cp :: u32)"
    by (rule bit_word_eqI) (simp only: utf8_bits, use b in fastforce)
qed

lemma utf8_four:
  assumes "unat cp < 2 ^ 21"
  shows "(ucast (0xF0 OR drop_bit 18 cp) :: byte) AND 0xE0 = 0xE0"
    and "(ucast (0xF0 OR drop_bit 18 cp) :: byte) AND 0xF0 = 0xF0"
    and "(ucast (0xF0 OR drop_bit 18 cp) :: byte) AND 0xF8 = 0xF0"
    and "bit (ucast (0xF0 OR drop_bit 18 cp) :: byte) 7"
    and "push_bit 18 (ucast ((ucast (0xF0 OR drop_bit 18 cp) :: byte) AND 0x07))
      OR push_bit 12 (drop_bit 12 cp AND 0x3F)
      OR push_bit 6 (drop_bit 6 cp AND 0x3F) OR (cp AND 0x3F) = (cp :: u32)"
proof -
  note b = bit_bound[OF assms]
  show "(ucast (0xF0 OR drop_bit 18 cp) :: byte) AND 0xE0 = 0xE0"
    "(ucast (0xF0 OR drop_bit 18 cp) :: byte) AND 0xF0 = 0xF0"
    "(ucast (0xF0 OR drop_bit 18 cp) :: byte) AND 0xF8 = 0xF0"
    by (rule bit_word_eqI, simp only: utf8_bits, use b in fastforce)+
  show "bit (ucast (0xF0 OR drop_bit 18 cp) :: byte) 7" by (simp only: utf8_bits) simp
  show "push_bit 18 (ucast ((ucast (0xF0 OR drop_bit 18 cp) :: byte) AND 0x07))
      OR push_bit 12 (drop_bit 12 cp AND 0x3F)
      OR push_bit 6 (drop_bit 6 cp AND 0x3F) OR (cp AND 0x3F) = (cp :: u32)"
  proof (rule bit_word_eqI)
    fix n :: nat
    have cases: "n < 6 \<or> 6 \<le> n \<and> n < 12 \<or> 12 \<le> n \<and> n < 18 \<or> 18 \<le> n" by linarith
    show "bit (push_bit 18 (ucast ((ucast (0xF0 OR drop_bit 18 cp) :: byte) AND 0x07))
      OR push_bit 12 (drop_bit 12 cp AND 0x3F)
      OR push_bit 6 (drop_bit 6 cp AND 0x3F) OR (cp AND 0x3F)) n = bit cp n"
      using cases b[of n] by (elim disjE; simp only: utf8_bits) auto
  qed
qed

lemma utf8_decode_encode:
  assumes "unat cp < 2 ^ 21"
  shows "utf8_decode (utf8_encode cp @ rest) = (cp, length (utf8_encode cp))"
proof -
  consider "cp < 0x80" | "\<not> cp < 0x80" "cp < 0x800" | "\<not> cp < 0x80" "\<not> cp < 0x800" "cp < 0x10000"
    | "\<not> cp < 0x80" "\<not> cp < 0x800" "\<not> cp < 0x10000" by blast
  then show ?thesis
  proof cases
    case 1
    then have "unat cp < 128" by (simp add: word_less_nat_alt)
    then have "unat (ucast cp :: byte) = unat cp"
      by (simp add: unsigned_ucast_eq take_bit_nat_eq_self)
    then have "(ucast cp :: byte) < 0x80" "ucast (ucast cp :: byte) = cp"
      using \<open>unat cp < 128\<close>
      by (simp_all add: word_less_nat_alt word_unat_eq_iff unsigned_ucast_eq unsigned_take_bit_eq take_bit_nat_eq_self)
    with 1 show ?thesis by (simp add: utf8_encode_def utf8_decode_def)
  next
    case 2
    then have "unat cp < 2 ^ 11" by (simp add: word_less_nat_alt)
    note u = utf8_two[OF this]
    from 2 u not_small_byte[OF u(2)] show ?thesis
      by (simp add: utf8_encode_def utf8_decode_def Let_def cont_byte del: push_bit_and drop_bit_and)
  next
    case 3
    then have "unat cp < 2 ^ 16" by (simp add: word_less_nat_alt)
    note u = utf8_three[OF this]
    from 3 u not_small_byte[OF u(3)] show ?thesis
      by (simp add: utf8_encode_def utf8_decode_def Let_def cont_byte del: push_bit_and drop_bit_and)
  next
    case 4
    note u = utf8_four[OF assms]
    from 4 u not_small_byte[OF u(4)] show ?thesis
      by (simp add: utf8_encode_def utf8_decode_def Let_def cont_byte del: push_bit_and drop_bit_and)
  qed
qed

text \<open>Decoding the UTF-8 form of any code point below \<open>2^21\<close>, whatever follows it, gives the code
  point back and consumes exactly its bytes.\<close>

lemma utf8_roundtrip:
  assumes "unat cp < 2 ^ 21"
  shows "utf8_decode (utf8_encode cp @ rest) = (cp, length (utf8_encode cp))"
  by (rule utf8_decode_encode[OF assms])

lemma utf8_roundtrip_witness: "utf8_decode (utf8_encode 0x1F600 @ [7]) = (0x1F600, 4)"
  using utf8_roundtrip[of "0x1F600" "[7]"] by (simp add: utf8_encode_def)

section \<open>The GPT-2 byte table\<close>

text \<open>The bytes in the order the constructor lists them (the printable ones, then the rest), and their
  code points: printable bytes stand for themselves, the others follow from \<open>U+0100\<close>.\<close>

definition printable_bytes :: "nat list" where
  "printable_bytes = [0x21..<0x7F] @ [0xA1..<0xAD] @ [0xAE..<0x100]"

definition other_bytes :: "nat list" where
  "other_bytes = filter (\<lambda>b. b \<notin> set printable_bytes) [0..<256]"

definition map_bytes :: "nat list" where
  "map_bytes = printable_bytes @ other_bytes"

definition map_cps :: "nat list" where
  "map_cps = printable_bytes @ map (\<lambda>n. 0x100 + n) [0..<length other_bytes]"

definition byte_to_cp :: "byte \<Rightarrow> u32" where
  "byte_to_cp b = of_nat (the (map_of (zip map_bytes map_cps) (unat b)))"

definition cp_to_byte :: "u32 \<Rightarrow> byte option" where
  "cp_to_byte cp =
     (if unat cp < 0x180 then map_option of_nat (map_of (zip map_cps map_bytes) (unat cp)) else None)"

lemma set_printable: "set printable_bytes \<subseteq> {..<256}"
  by (auto simp: printable_bytes_def simp del: upt_rec_numeral)

lemma map_bytes_facts: "distinct map_bytes" "set map_bytes = {..<256}" "length map_bytes = length map_cps"
  using set_printable
  by (auto simp: map_bytes_def map_cps_def other_bytes_def printable_bytes_def simp del: upt_rec_numeral)

lemma length_other_bytes: "length other_bytes = 68"
proof -
  have "length map_bytes = 256"
    using map_bytes_facts(1,2) distinct_card[of map_bytes] by simp
  then show ?thesis by (simp add: map_bytes_def printable_bytes_def del: upt_rec_numeral)
qed

lemma map_cps_facts: "distinct map_cps" "set map_cps \<subseteq> {..<0x180}"
  using set_printable length_other_bytes
  by (auto simp: map_cps_def printable_bytes_def distinct_map inj_on_def simp del: upt_rec_numeral)

lemma byte_to_cp_nth: "i < length map_bytes \<Longrightarrow> map_bytes ! i = unat b \<Longrightarrow> byte_to_cp b = of_nat (map_cps ! i)"
  using map_of_zip_nth[of map_bytes map_cps i] map_bytes_facts by (simp add: byte_to_cp_def)

lemma byte_index: "\<exists>i < length map_bytes. map_bytes ! i = unat (b :: byte)"
  using map_bytes_facts(2) by (metis in_set_conv_nth lessThan_iff unat_byte_less)

lemma cp_bound: "i < length map_bytes \<Longrightarrow> map_cps ! i < 0x180"
  using map_cps_facts(2) map_bytes_facts(3) by (metis lessThan_iff nth_mem subsetD)

lemma cp_to_byte_of_byte: "cp_to_byte (byte_to_cp b) = Some b"
proof -
  obtain i where i: "i < length map_bytes" "map_bytes ! i = unat b" using byte_index by blast
  have "unat (of_nat (map_cps ! i) :: u32) = map_cps ! i"
    using cp_bound[OF i(1)] by (simp add: unat_of_nat)
  then show ?thesis
    using i cp_bound[OF i(1)] map_of_zip_nth[of map_cps map_bytes i] map_bytes_facts map_cps_facts
    by (simp add: byte_to_cp_nth[OF i] cp_to_byte_def)
qed

lemma byte_to_cp_small: "unat (byte_to_cp b) < 0x180"
  using cp_to_byte_of_byte[of b] by (auto simp: cp_to_byte_def split: if_splits)

text \<open>C37. The GPT-2 table is a bijection between the 256 bytes and the code points it uses: every byte is
  recovered from its code point, and every code point that maps to a byte is the one of that byte.\<close>

theorem byte_map_bijective:
  "cp_to_byte cp = Some b \<longleftrightarrow> cp = byte_to_cp b"
proof
  assume a: "cp_to_byte cp = Some b"
  then have c: "unat cp < 0x180" by (simp add: cp_to_byte_def split: if_splits)
  with a obtain k where k: "map_of (zip map_cps map_bytes) (unat cp) = Some k" "b = of_nat k"
    by (auto simp: cp_to_byte_def)
  from map_of_SomeD[OF k(1)] obtain i where
    i: "i < length map_bytes" "map_cps ! i = unat cp" "map_bytes ! i = k"
    by (auto simp: set_zip)
  have "k < 256" using i(1,3) map_bytes_facts(2) nth_mem by fastforce
  then have "map_bytes ! i = unat b" using i(3) k(2) by (simp add: unat_of_nat)
  then have "byte_to_cp b = of_nat (map_cps ! i)" using byte_to_cp_nth[OF i(1)] by simp
  then show "cp = byte_to_cp b" using i(2) by simp
qed (simp add: cp_to_byte_of_byte)

text \<open>The printable bytes stand for themselves, in one byte when they are ASCII.\<close>

lemma byte_to_cp_printable: "unat b \<in> set printable_bytes \<Longrightarrow> byte_to_cp b = ucast b"
proof -
  assume "unat b \<in> set printable_bytes"
  then obtain i where i: "i < length printable_bytes" "printable_bytes ! i = unat b"
    by (auto simp: in_set_conv_nth)
  then have "map_bytes ! i = unat b" "map_cps ! i = unat b" "i < length map_bytes"
    by (simp_all add: map_bytes_def map_cps_def nth_append)
  then show ?thesis using byte_to_cp_nth[of i b] by simp
qed

lemma printable_iff:
  "b \<in> set printable_bytes \<longleftrightarrow> (0x21 \<le> b \<and> b < 0x7F) \<or> (0xA1 \<le> b \<and> b < 0xAD) \<or> (0xAE \<le> b \<and> b < 0x100)"
  by (auto simp: printable_bytes_def simp del: upt_rec_numeral)

lemma ascii_glyph:
  assumes "0x21 \<le> b" "b < 0x7F"
  shows "utf8_encode (byte_to_cp b) = [b]"
proof -
  have u: "33 \<le> unat b" "unat b < 127" using assms by (simp_all add: word_le_nat_alt word_less_nat_alt)
  then have "byte_to_cp b = ucast b" by (intro byte_to_cp_printable) (simp add: printable_iff)
  moreover have "(ucast b :: u32) < 0x80"
    using u by (simp add: word_less_nat_alt unsigned_ucast_eq take_bit_nat_eq_self)
  moreover have "(ucast (ucast b :: u32) :: byte) = b"
    by (rule bit_word_eqI) (auto simp: bit_ucast_iff dest: bit_imp_le_length)
  ultimately show ?thesis by (simp add: utf8_encode_def)
qed

lemma glyph_short: "length (utf8_encode (byte_to_cp b)) \<le> 2"
  using byte_to_cp_small[of b] by (simp add: utf8_encode_def word_less_nat_alt)

end
