(* ===== verification/Pretokenizer.thy ===== *)
theory Pretokenizer
  imports Utf8
begin

text \<open>
  The pre-tokenizers of \<open>src/tokenizer.cpp\<close>: the character classes, the LLaMA-3 splitter with its
  patterns tried in order, and the SentencePiece splitter.

  The code walks a byte position over the text; the model passes the bytes from that position on, and
  every pattern answers how many bytes it takes. \<open>chunk_len\<close> is one round of the loop of
  \<open>llama3_pre_tokenize\<close>; \<open>splitter\<close> is the contract the byte-pair encoder relies on: a splitter loses no
  byte and produces no empty chunk.
\<close>

section \<open>Character classes\<close>

definition in_range :: "u32 \<Rightarrow> u32 \<Rightarrow> u32 \<Rightarrow> bool" where
  "in_range lo hi cp \<longleftrightarrow> lo \<le> cp \<and> cp \<le> hi"

definition is_letter :: "u32 \<Rightarrow> bool" where
  "is_letter cp \<longleftrightarrow>
     (if cp < 0x80 then in_range 0x41 0x5A cp \<or> in_range 0x61 0x7A cp
      else cp \<le> 0x06FF \<or> in_range 0x0750 0x085F cp \<or> in_range 0x0900 0x0D7F cp
        \<or> in_range 0x0D80 0x109F cp \<or> in_range 0x10A0 0x11FF cp \<or> in_range 0x1200 0x137F cp
        \<or> in_range 0x13A0 0x14FF cp \<or> in_range 0x1680 0x16FF cp \<or> in_range 0x1700 0x18AF cp
        \<or> in_range 0x2E80 0x2FFF cp \<or> in_range 0x3000 0x30FF cp \<or> in_range 0x4E00 0x9FFF cp
        \<or> in_range 0xA000 0xA4FF cp \<or> in_range 0xAC00 0xD7AF cp \<or> in_range 0x20000 0x2FFFF cp
        \<or> in_range 0x30000 0x3FFFF cp)"

definition is_number :: "u32 \<Rightarrow> bool" where
  "is_number cp \<longleftrightarrow>
     (if cp < 0x80 then in_range 0x30 0x39 cp
      else in_range 0x00B2 0x00B3 cp \<or> cp = 0x00B9 \<or> in_range 0x0660 0x0669 cp
        \<or> in_range 0x06F0 0x06F9 cp \<or> in_range 0x0966 0x096F cp \<or> in_range 0x09E6 0x09EF cp
        \<or> in_range 0x0A66 0x0A6F cp \<or> in_range 0x0AE6 0x0AEF cp \<or> in_range 0x0B66 0x0B6F cp
        \<or> in_range 0x0BE6 0x0BEF cp \<or> in_range 0x0C66 0x0C6F cp \<or> in_range 0x0CE6 0x0CEF cp
        \<or> in_range 0x0D66 0x0D6F cp \<or> in_range 0x1040 0x1049 cp \<or> in_range 0x17E0 0x17E9 cp
        \<or> in_range 0x19D0 0x19D9 cp \<or> in_range 0xFF10 0xFF19 cp \<or> in_range 0x1D7CE 0x1D7FF cp)"

definition is_whitespace :: "u32 \<Rightarrow> bool" where
  "is_whitespace cp \<longleftrightarrow>
     (if cp = 0x0D \<or> cp = 0x0A \<or> cp = 0x09 \<or> cp = 0x0C \<or> cp = 0x0B then True
      else if cp < 0x80 then cp = 0x20 \<or> cp = 0x0D \<or> cp = 0x0A \<or> cp = 0x09
      else cp = 0x00A0 \<or> cp = 0x1680 \<or> in_range 0x2000 0x200A cp \<or> cp = 0x2028 \<or> cp = 0x2029
        \<or> cp = 0x202F \<or> cp = 0x205F \<or> cp = 0x3000)"

definition is_other :: "u32 \<Rightarrow> bool" where
  "is_other cp \<longleftrightarrow> \<not> is_letter cp \<and> \<not> is_number cp \<and> \<not> is_whitespace cp"

definition is_newline :: "u32 \<Rightarrow> bool" where
  "is_newline cp \<longleftrightarrow> cp = 0x0D \<or> cp = 0x0A"

section \<open>Scanning\<close>

text \<open>\<open>scan_while(p, pred)\<close>: the bytes of the longest run of characters with the property.\<close>

function scan_while :: "(u32 \<Rightarrow> bool) \<Rightarrow> bstr \<Rightarrow> nat" where
  "scan_while P s =
     (if s = [] then 0
      else let (cp, len) = utf8_decode s
           in if \<not> P cp then 0 else len + scan_while P (drop len s))"
  by auto

termination
  by (relation "measure (\<lambda>(P, s). length s)")
     (use utf8_decode_progress in \<open>auto simp: prod_eq_iff\<close>)

declare scan_while.simps [simp del]

fun count_digits :: "nat \<Rightarrow> bstr \<Rightarrow> nat" where
  "count_digits 0 s = 0"
| "count_digits (Suc i) s =
     (let (cp, len) = utf8_decode s
      in if len = 0 \<or> \<not> is_number cp then 0 else len + count_digits i (drop len s))"

lemma scan_while_le: "scan_while P s \<le> length s"
proof (induction P s rule: scan_while.induct)
  case (1 P s)
  show ?case
  proof (cases "s = []")
    case False
    obtain cp len where d: "utf8_decode s = (cp, len)" by (cases "utf8_decode s")
    then have "len \<le> length s" using utf8_decode_progress[OF False] by simp
    moreover have "P cp \<Longrightarrow> scan_while P (drop len s) \<le> length s - len"
      using "1.IH"[OF False refl d[symmetric]] d by simp
    ultimately show ?thesis using False d by (subst scan_while.simps) auto
  qed (subst scan_while.simps, simp)
qed

text \<open>A run stops at the end or before a character without the property.\<close>

lemma scan_while_stops:
  "drop (scan_while P s) s = [] \<or> \<not> P (fst (utf8_decode (drop (scan_while P s) s)))"
proof (induction P s rule: scan_while.induct)
  case (1 P s)
  show ?case
  proof (cases "s = []")
    case False
    obtain cp len where d: "utf8_decode s = (cp, len)" by (cases "utf8_decode s")
    have "P cp \<Longrightarrow> scan_while P s = len + scan_while P (drop len s)"
      and "\<not> P cp \<Longrightarrow> scan_while P s = 0"
      using False d by (subst scan_while.simps, simp)+
    then show ?thesis
      using "1.IH"[OF False refl d[symmetric]] d by (cases "P cp") (simp_all add: add.commute)
  qed simp
qed

lemma count_digits_le: "count_digits i s \<le> length s"
proof (induction i s rule: count_digits.induct)
  case (2 i s)
  obtain cp len where d: "utf8_decode s = (cp, len)" by (cases "utf8_decode s")
  then have "len \<le> length s" using utf8_decode_len_le[of s] by simp
  then show ?case using "2.IH"[OF d[symmetric] refl] d by (auto simp: le_diff_conv2 add.commute)
qed simp

section \<open>The patterns\<close>

text \<open>Each pattern gets the first character, its length and the bytes from it on, and answers the bytes of the
  chunk when it matches.\<close>

definition contraction1 :: "u32 \<Rightarrow> bool" where
  "contraction1 c \<longleftrightarrow> c = 0x73 \<or> c = 0x74 \<or> c = 0x6D \<or> c = 0x64 \<or> c = 0x53 \<or> c = 0x54 \<or> c = 0x4D \<or> c = 0x44"

definition contraction2 :: "u32 \<Rightarrow> u32 \<Rightarrow> bool" where
  "contraction2 c d \<longleftrightarrow>
     (c = 0x72 \<or> c = 0x52) \<and> (d = 0x65 \<or> d = 0x45) \<or> (c = 0x76 \<or> c = 0x56) \<and> (d = 0x65 \<or> d = 0x45)
     \<or> (c = 0x6C \<or> c = 0x4C) \<and> (d = 0x6C \<or> d = 0x4C)"

definition pattern1 :: "u32 \<Rightarrow> nat \<Rightarrow> bstr \<Rightarrow> nat option" where
  "pattern1 cp len s =
     (if cp = 0x27 then
        let (nxt, l1) = (if len < length s then utf8_decode (drop len s) else (0, 0))
        in if 0 < l1 then
             if contraction1 nxt then Some (len + l1)
             else let p2 = len + l1;
                      (nxt2, l2) = (if p2 < length s then utf8_decode (drop p2 s) else (0, 0))
                  in if 0 < l2 \<and> contraction2 nxt nxt2 then Some (p2 + l2) else None
           else None
      else None)"

definition pattern2 :: "u32 \<Rightarrow> nat \<Rightarrow> bstr \<Rightarrow> nat option" where
  "pattern2 cp len s =
     (if \<not> is_newline cp \<and> (is_letter cp \<or> (\<not> is_letter cp \<and> \<not> is_number cp)) then
        if \<not> is_letter cp then
          if len < length s then
            let (lcp, ll) = utf8_decode (drop len s)
            in if 0 < lcp \<and> is_letter lcp then Some (len + scan_while is_letter (drop len s)) else None
          else None
        else Some (scan_while is_letter s)
      else None)"

definition pattern3 :: "u32 \<Rightarrow> nat \<Rightarrow> bstr \<Rightarrow> nat option" where
  "pattern3 cp len s = (if is_number cp then Some (count_digits 3 s) else None)"

definition pattern4 :: "u32 \<Rightarrow> nat \<Rightarrow> bstr \<Rightarrow> nat option" where
  "pattern4 cp len s =
     (if cp = 0x20 \<or> is_other cp then
        let p = (if cp = 0x20 then len else 0)
        in if p < length s then
             let (ocp, ll) = utf8_decode (drop p s)
             in if is_other ocp then
                  let p = p + ll;
                      p = p + scan_while is_other (drop p s);
                      p = p + scan_while is_newline (drop p s)
                  in Some p
                else None
           else None
      else None)"

definition pattern5 :: "u32 \<Rightarrow> nat \<Rightarrow> bstr \<Rightarrow> nat option" where
  "pattern5 cp len s =
     (if is_whitespace cp then
        let p = scan_while is_whitespace s
        in if p < length s then
             let (nc, ll) = utf8_decode (drop p s)
             in if is_newline nc then
                  let p = p + ll; p = p + scan_while is_newline (drop p s) in Some p
                else None
           else None
      else None)"

definition pattern6 :: "u32 \<Rightarrow> nat \<Rightarrow> bstr \<Rightarrow> nat option" where
  "pattern6 cp len s =
     (if is_whitespace cp then
        let p = scan_while is_whitespace s
        in if length s \<le> p then Some p
           else let (after, ll) = utf8_decode (drop p s)
                in if is_newline after then Some p else None
      else None)"

definition chunk_len :: "bstr \<Rightarrow> nat" where
  "chunk_len s =
     (let (cp, len) = utf8_decode s
      in case pattern1 cp len s of Some k \<Rightarrow> k | None \<Rightarrow>
        (case pattern2 cp len s of Some k \<Rightarrow> k | None \<Rightarrow>
          (case pattern3 cp len s of Some k \<Rightarrow> k | None \<Rightarrow>
            (case pattern4 cp len s of Some k \<Rightarrow> k | None \<Rightarrow>
              (case pattern5 cp len s of Some k \<Rightarrow> k | None \<Rightarrow>
                (case pattern6 cp len s of Some k \<Rightarrow> k | None \<Rightarrow> len))))))"

lemma drop_len: "k \<le> length (drop p s) \<Longrightarrow> p \<le> length s \<Longrightarrow> p + k \<le> length s"
  by simp

definition fits :: "bstr \<Rightarrow> nat option \<Rightarrow> bool" where
  "fits s r \<longleftrightarrow> (\<forall>k. r = Some k \<longrightarrow> 0 < k \<and> k \<le> length s)"

lemma scan_while_step:
  "s \<noteq> [] \<Longrightarrow> utf8_decode s = (cp, len) \<Longrightarrow> P cp \<Longrightarrow> scan_while P s = len + scan_while P (drop len s)"
  by (subst scan_while.simps) simp

lemma next_bounds:
  "p < length s \<Longrightarrow> utf8_decode (drop p s) = (c, l) \<Longrightarrow> 0 < l \<and> p + l \<le> length s"
  using utf8_decode_progress[of "drop p s"] by auto

lemma scan_next_bounds: "p \<le> length s \<Longrightarrow> p + scan_while P (drop p s) \<le> length s"
  using scan_while_le[of P "drop p s"] by simp

definition first_char :: "bstr \<Rightarrow> u32 \<Rightarrow> nat \<Rightarrow> bool" where
  "first_char s cp len \<longleftrightarrow> s \<noteq> [] \<and> utf8_decode s = (cp, len)"

lemma first_charD: "first_char s cp len \<Longrightarrow> utf8_decode s = (cp, len) \<and> 0 < len \<and> len \<le> length s"
  using utf8_decode_progress[of s] by (auto simp: first_char_def)

lemma scan_bounds: "first_char s cp len \<Longrightarrow> P cp \<Longrightarrow> 0 < scan_while P s"
  using scan_while_step[of s cp len P] first_charD[of s cp len] by (simp add: first_char_def)

lemma fits_simps [simp]:
  "fits s None" "fits s (Some k) \<longleftrightarrow> 0 < k \<and> k \<le> length s"
  by (auto simp: fits_def)

lemma pattern1_fits: "first_char s cp len \<Longrightarrow> fits s (pattern1 cp len s)"
  using next_bounds[of _ s] first_charD[of s cp len]
  by (auto simp: pattern1_def Let_def split: prod.splits)

lemma pattern2_fits: "first_char s cp len \<Longrightarrow> fits s (pattern2 cp len s)"
  using scan_bounds[of s cp len is_letter] scan_next_bounds[of len s is_letter]
    scan_while_le[of is_letter s] first_charD[of s cp len]
  by (auto simp: pattern2_def Let_def split: prod.splits)

lemma pattern3_fits: "first_char s cp len \<Longrightarrow> fits s (pattern3 cp len s)"
  using count_digits_le[of 3 s] first_charD[of s cp len]
  by (auto simp: pattern3_def numeral_3_eq_3)

lemma next_run_fits:
  "p < length s \<Longrightarrow> utf8_decode (drop p s) = (c, l) \<Longrightarrow>
     fits s (Some (p + l + scan_while P (drop (p + l) s)))"
  using next_bounds[of p s c l] scan_next_bounds[of "p + l" s P] by simp

lemma next_runs_fit:
  assumes "p < length s" "utf8_decode (drop p s) = (c, l)"
  shows "fits s (Some (p + l + scan_while P (drop (p + l) s)
      + scan_while Q (drop (p + l + scan_while P (drop (p + l) s)) s)))"
  using next_run_fits[OF assms, of P] scan_next_bounds[of "p + l + scan_while P (drop (p + l) s)" s Q]
  by simp

lemma pattern4_fits: "fits s (pattern4 cp len s)"
proof -
  define T where "T p =
      (if p < length s then
         let (ocp, ll) = utf8_decode (drop p s)
         in if is_other ocp then
              let p = p + ll;
                  p = p + scan_while is_other (drop p s);
                  p = p + scan_while is_newline (drop p s)
              in Some p
            else None
       else None)" for p
  have "fits s (T p)" for p
    unfolding T_def
    by (auto simp del: fits_simps(2) simp: Let_def split: prod.splits intro!: next_runs_fit)
  moreover have "pattern4 cp len s =
      (if cp = 0x20 \<or> is_other cp then T (if cp = 0x20 then len else 0) else None)"
    by (simp only: pattern4_def T_def Let_def)
  ultimately show ?thesis by simp
qed

lemma pattern5_fits: "fits s (pattern5 cp len s)"
  unfolding pattern5_def
  by (auto simp del: fits_simps(2) simp: Let_def split: prod.splits intro!: next_run_fits)

lemma pattern6_fits: "first_char s cp len \<Longrightarrow> fits s (pattern6 cp len s)"
  using scan_bounds[of s cp len is_whitespace] scan_while_le[of is_whitespace s]
  by (auto simp: pattern6_def Let_def split: prod.splits)

lemma chunk_len_bounds:
  assumes "s \<noteq> []"
  shows "0 < chunk_len s \<and> chunk_len s \<le> length s"
proof -
  obtain cp len where d: "utf8_decode s = (cp, len)" by (cases "utf8_decode s")
  then have f: "first_char s cp len" using assms by (simp add: first_char_def)
  show ?thesis
    using pattern1_fits[OF f] pattern2_fits[OF f] pattern3_fits[OF f] pattern4_fits[of s cp len]
      pattern5_fits[of s cp len] pattern6_fits[OF f] first_charD[OF f]
    by (auto simp: chunk_len_def split: option.splits)
qed

section \<open>The two splitters\<close>

function llama3_pre_tokenize :: "bstr \<Rightarrow> bstr list" where
  "llama3_pre_tokenize s =
     (if s = [] then []
      else let k = chunk_len s in take k s # llama3_pre_tokenize (drop k s))"
  by auto

termination
  by (relation "measure length") (use chunk_len_bounds in auto)

declare llama3_pre_tokenize.simps [simp del]

text \<open>The SentencePiece splitter: runs of whitespace, letters and digits, and runs of the rest.\<close>

definition word_char :: "u32 \<Rightarrow> bool" where
  "word_char cp \<longleftrightarrow> is_whitespace cp \<or> is_letter cp \<or> is_number cp"

definition spm_chunk_len :: "bstr \<Rightarrow> nat" where
  "spm_chunk_len s =
     (let (cp, len) = utf8_decode s;
          p = (if word_char cp then scan_while word_char s else scan_while (\<lambda>c. \<not> word_char c) s)
      in if p = 0 then len else p)"

lemma spm_chunk_len_bounds: "s \<noteq> [] \<Longrightarrow> 0 < spm_chunk_len s \<and> spm_chunk_len s \<le> length s"
  using scan_while_le[of word_char s] scan_while_le[of "\<lambda>c. \<not> word_char c" s] utf8_decode_progress[of s]
  by (auto simp: spm_chunk_len_def Let_def split: prod.splits)

function spm_pre_tokenize :: "bstr \<Rightarrow> bstr list" where
  "spm_pre_tokenize s =
     (if s = [] then []
      else let k = spm_chunk_len s in take k s # spm_pre_tokenize (drop k s))"
  by auto

termination
  by (relation "measure length") (use spm_chunk_len_bounds in auto)

declare spm_pre_tokenize.simps [simp del]

text \<open>The contract of a splitter.\<close>

locale splitter =
  fixes split :: "bstr \<Rightarrow> bstr list"
  assumes lossless: "concat (split s) = s"
    and nonempty: "c \<in> set (split s) \<Longrightarrow> c \<noteq> []"
begin

lemma split_Nil: "split [] = []"
proof -
  have "concat (split []) = []" by (rule lossless)
  then have "\<forall>c \<in> set (split []). c = []" by (simp add: concat_eq_Nil_conv)
  with nonempty[of _ "[]"] show ?thesis by (cases "split []") auto
qed

lemma split_length: "length (split s) \<le> length s"
proof -
  have "length xs \<le> length (concat xs)" if "\<forall>c \<in> set xs. c \<noteq> []" for xs :: "bstr list"
    using that by (induction xs) (auto simp: Suc_le_eq, metis add_mono One_nat_def Suc_le_eq length_greater_0_conv plus_1_eq_Suc)
  then show ?thesis using nonempty[of _ s] lossless[of s] by metis
qed

text \<open>Encoding chunk by chunk with an encoder of single bytes' pieces covers the text in order.\<close>

lemma concat_map_bytes: "concat (map (\<lambda>c. map f c) (split s)) = map f s"
  using lossless[of s] by (metis map_concat)

end

interpretation llama3: splitter llama3_pre_tokenize
proof
  show "concat (llama3_pre_tokenize s) = s" for s
    by (induction s rule: llama3_pre_tokenize.induct)
       (subst llama3_pre_tokenize.simps, simp add: Let_def)
  show "c \<in> set (llama3_pre_tokenize s) \<Longrightarrow> c \<noteq> []" for c s
  proof (induction s rule: llama3_pre_tokenize.induct)
    case (1 s)
    have "s \<noteq> []" using "1.prems" by (auto simp: llama3_pre_tokenize.simps[of "[]"])
    with "1.prems" have "c = take (chunk_len s) s \<or> c \<in> set (llama3_pre_tokenize (drop (chunk_len s) s))"
      by (simp add: llama3_pre_tokenize.simps[of s] Let_def)
    with "1.IH"[OF \<open>s \<noteq> []\<close> refl] chunk_len_bounds[OF \<open>s \<noteq> []\<close>] \<open>s \<noteq> []\<close> show ?case by auto
  qed
qed

interpretation spm: splitter spm_pre_tokenize
proof
  show "concat (spm_pre_tokenize s) = s" for s
    by (induction s rule: spm_pre_tokenize.induct)
       (subst spm_pre_tokenize.simps, simp add: Let_def)
  show "c \<in> set (spm_pre_tokenize s) \<Longrightarrow> c \<noteq> []" for c s
  proof (induction s rule: spm_pre_tokenize.induct)
    case (1 s)
    have "s \<noteq> []" using "1.prems" by (auto simp: spm_pre_tokenize.simps[of "[]"])
    with "1.prems" have "c = take (spm_chunk_len s) s \<or> c \<in> set (spm_pre_tokenize (drop (spm_chunk_len s) s))"
      by (simp add: spm_pre_tokenize.simps[of s] Let_def)
    with "1.IH"[OF \<open>s \<noteq> []\<close> refl] spm_chunk_len_bounds[OF \<open>s \<noteq> []\<close>] \<open>s \<noteq> []\<close> show ?case by auto
  qed
qed

section \<open>Properties\<close>

text \<open>C36. Both pre-tokenizers cut any byte string, valid UTF-8 or not, into non-empty chunks whose
  concatenation is the text: nothing is lost, repeated or reordered.\<close>

theorem pre_tokenize_lossless:
  "concat (llama3_pre_tokenize s) = s \<and> [] \<notin> set (llama3_pre_tokenize s) \<and>
   concat (spm_pre_tokenize s) = s \<and> [] \<notin> set (spm_pre_tokenize s)"
  using llama3.lossless llama3.nonempty spm.lossless spm.nonempty by blast

lemma newline_is_whitespace: "is_newline cp \<Longrightarrow> is_whitespace cp"
  by (auto simp: is_newline_def is_whitespace_def)

text \<open>The pattern for newline runs, \<open>\s*[\r\n]+\<close>, never matches: the scan over whitespace before it
  already takes the newlines. Two line breaks before a word come out as two chunks, where the regular
  expression in the comment makes them one.\<close>

lemma newline_pattern_dead:
  "pattern5 cp len s = None \<and>
   llama3_pre_tokenize [0x0A, 0x0A, 0x61] = [[0x0A], [0x0A], [0x61]]"
proof
  have "\<not> is_newline (fst (utf8_decode (drop (scan_while is_whitespace s) s)))"
    if "scan_while is_whitespace s < length s"
    using scan_while_stops[of is_whitespace s] newline_is_whitespace that by auto
  then show "pattern5 cp len s = None"
    by (auto simp: pattern5_def Let_def split: prod.splits)
  show "llama3_pre_tokenize [0x0A, 0x0A, 0x61] = [[0x0A], [0x0A], [0x61]]" by code_simp
qed

end
