(* ===== verification/Bpe.thy ===== *)
theory Bpe
  imports Pretokenizer
begin

text \<open>
  The byte-pair encoder of \<open>src/tokenizer.cpp\<close>: \<open>rcpp_tokenizer_encode\<close> with its special-token
  pre-pass, the merge loop with its iteration cap, and \<open>rcpp_tokenizer_decode\<close> for the GPT-2 and the
  SentencePiece vocabularies.

  Token ids are natural numbers inside the encoder and integers at the C interface. A lookup failure
  of a byte piece is \<open>None\<close> (the code returns \<open>RCPP_INTERNAL\<close>).
\<close>

record tokenizer =
  tk_id_to_bytes :: "bstr list"
  tk_bytes_to_id :: "bstr \<Rightarrow> nat option"
  tk_merges :: "nat \<times> nat \<Rightarrow> (nat \<times> nat) option"
  tk_bos :: int
  tk_eos :: int
  tk_spm :: bool
  tk_special :: "nat list"

section \<open>The special-token pre-pass\<close>

datatype seg = Plain bstr | Special nat

text \<open>\<open>s.find(sp)\<close> on bytes.\<close>

fun is_prefix_at :: "bstr \<Rightarrow> bstr \<Rightarrow> bool" where
  "is_prefix_at [] s = True"
| "is_prefix_at (p # ps) [] = False"
| "is_prefix_at (p # ps) (c # cs) = (p = c \<and> is_prefix_at ps cs)"

fun find_bytes :: "bstr \<Rightarrow> bstr \<Rightarrow> nat option" where
  "find_bytes p [] = (if p = [] then Some 0 else None)"
| "find_bytes p (c # cs) =
     (if is_prefix_at p (c # cs) then Some 0 else map_option Suc (find_bytes p cs))"

text \<open>One pass over the special ids: the leftmost hit, the first id among equals.\<close>

definition special_step :: "tokenizer \<Rightarrow> bstr \<Rightarrow> nat \<Rightarrow> (nat \<times> nat) option \<Rightarrow> (nat \<times> nat) option" where
  "special_step t s sid best =
     (let sp = tk_id_to_bytes t ! sid
      in if sp = [] then best
         else (case find_bytes sp s of None \<Rightarrow> best
               | Some hit \<Rightarrow>
                   (case best of None \<Rightarrow> Some (hit, sid)
                    | Some (b, i) \<Rightarrow> if hit < b then Some (hit, sid) else best)))"

definition best_special :: "tokenizer \<Rightarrow> bstr \<Rightarrow> (nat \<times> nat) option" where
  "best_special t s = fold (special_step t s) (tk_special t) None"



definition special_ok :: "tokenizer \<Rightarrow> bstr \<Rightarrow> (nat \<times> nat) option \<Rightarrow> bool" where
  "special_ok t s best \<longleftrightarrow>
     (case best of None \<Rightarrow> True
      | Some (h, i) \<Rightarrow> i \<in> set (tk_special t) \<and> tk_id_to_bytes t ! i \<noteq> [] \<and>
          find_bytes (tk_id_to_bytes t ! i) s = Some h)"

lemma special_step_ok:
  "sid \<in> set (tk_special t) \<Longrightarrow> special_ok t s best \<Longrightarrow> special_ok t s (special_step t s sid best)"
proof (cases best)
  case (Some x)
  then obtain h i where "best = Some (h, i)" by (cases x) simp
  then show "sid \<in> set (tk_special t) \<Longrightarrow> special_ok t s best \<Longrightarrow> ?thesis"
    by (simp add: special_step_def special_ok_def Let_def split: option.split)
qed (simp add: special_step_def special_ok_def Let_def split: option.split)

lemma best_special_ok: "special_ok t s (best_special t s)"
proof -
  have "special_ok t s (fold (special_step t s) xs b)"
    if "set xs \<subseteq> set (tk_special t)" "special_ok t s b" for xs b
    using that by (induction xs arbitrary: b) (simp_all add: special_step_ok)
  from this[of "tk_special t" None] show ?thesis by (simp add: best_special_def special_ok_def)
qed

lemma best_special_SomeD:
  "best_special t s = Some (hit, sid) \<Longrightarrow> sid \<in> set (tk_special t) \<and> tk_id_to_bytes t ! sid \<noteq> [] \<and>
    find_bytes (tk_id_to_bytes t ! sid) s = Some hit"
  using best_special_ok[of t s] by (simp add: special_ok_def)

function split_specials :: "tokenizer \<Rightarrow> bstr \<Rightarrow> seg list" where
  "split_specials t s =
     (if s = [] then []
      else case best_special t s of
             None \<Rightarrow> [Plain s]
           | Some (best, sid) \<Rightarrow>
               (if 0 < best then [Plain (take best s)] else [])
               @ Special sid # split_specials t (drop (best + length (tk_id_to_bytes t ! sid)) s))"
  by auto

termination
  by (relation "measure (\<lambda>(t, s). length s)") (use best_special_SomeD in \<open>auto simp: length_greater_0_conv\<close>)

declare split_specials.simps [simp del]

definition segments :: "tokenizer \<Rightarrow> bstr \<Rightarrow> seg list" where
  "segments t s = (if tk_special t \<noteq> [] then split_specials t s else [Plain s])"

section \<open>Pieces and merges\<close>

text \<open>\<open>"\u2581"\<close> in UTF-8, and \<open>snprintf("<0x%02X>")\<close>.\<close>

definition spm_space :: bstr where
  "spm_space = [0xE2, 0x96, 0x81]"

definition hex_digit :: "nat \<Rightarrow> byte" where
  "hex_digit d = of_nat (if d < 10 then 48 + d else 55 + d)"

definition byte_token :: "byte \<Rightarrow> bstr" where
  "byte_token b = [0x3C, 0x30, 0x78, hex_digit (unat b div 16), hex_digit (unat b mod 16), 0x3E]"

definition byte_piece :: "bool \<Rightarrow> byte \<Rightarrow> bstr" where
  "byte_piece spm b = (if spm \<and> b = 0x20 then spm_space else utf8_encode (byte_to_cp b))"

definition byte_level_split :: "bool \<Rightarrow> bstr \<Rightarrow> (bstr \<times> byte) list" where
  "byte_level_split spm s = map (\<lambda>b. (byte_piece spm b, b)) s"

definition piece_id :: "tokenizer \<Rightarrow> bstr \<times> byte \<Rightarrow> nat option" where
  "piece_id t = (\<lambda>(p, raw).
     case tk_bytes_to_id t p of Some i \<Rightarrow> Some i
     | None \<Rightarrow> (case tk_bytes_to_id t [raw] of Some i \<Rightarrow> Some i | None \<Rightarrow> tk_bytes_to_id t (byte_token raw)))"

fun map_all :: "('a \<Rightarrow> 'b option) \<Rightarrow> 'a list \<Rightarrow> 'b list option" where
  "map_all f [] = Some []"
| "map_all f (x # xs) =
     (case f x of None \<Rightarrow> None | Some y \<Rightarrow> map_option (Cons y) (map_all f xs))"

text \<open>The scan for the pair of lowest rank, and the merge loop with its cap.\<close>

definition best_pair :: "(nat \<times> nat \<Rightarrow> (nat \<times> nat) option) \<Rightarrow> nat list \<Rightarrow> nat \<times> (nat \<times> nat) option" where
  "best_pair m ids =
     fold (\<lambda>i (rank, best).
         case m (ids ! i, ids ! (i + 1)) of
           Some (merged, r) \<Rightarrow> if r < rank then (r, Some (i, merged)) else (rank, best)
         | None \<Rightarrow> (rank, best))
       [0..<length ids - 1] (2147483647, None)"

definition merge_at :: "nat \<Rightarrow> nat \<Rightarrow> nat list \<Rightarrow> nat list" where
  "merge_at pos new ids = take pos ids @ new # drop (pos + 2) ids"

fun bpe_loop :: "(nat \<times> nat \<Rightarrow> (nat \<times> nat) option) \<Rightarrow> nat \<Rightarrow> nat list \<Rightarrow> nat list" where
  "bpe_loop m 0 ids = ids"
| "bpe_loop m (Suc iters) ids =
     (case snd (best_pair m ids) of
        None \<Rightarrow> ids
      | Some (pos, new) \<Rightarrow>
          let ids = merge_at pos new ids
          in if length ids < 2 then ids else bpe_loop m iters ids)"

definition bpe_chunk :: "tokenizer \<Rightarrow> (bstr \<times> byte) list \<Rightarrow> nat list option" where
  "bpe_chunk t pieces = map_option (\<lambda>ids. bpe_loop (tk_merges t) (length ids) ids) (map_all (piece_id t) pieces)"

definition encode_seg :: "tokenizer \<Rightarrow> seg \<Rightarrow> nat list option" where
  "encode_seg t sg =
     (case sg of Special sid \<Rightarrow> Some [sid]
      | Plain s \<Rightarrow>
          map_option concat (map_all (\<lambda>chunk. bpe_chunk t (byte_level_split (tk_spm t) chunk))
            (if tk_spm t then spm_pre_tokenize s else llama3_pre_tokenize s)))"

definition tokenizer_encode :: "tokenizer \<Rightarrow> bstr \<Rightarrow> bool \<Rightarrow> int list option" where
  "tokenizer_encode t s add_bos =
     (if s = [] then Some []
      else map_option (\<lambda>idss. (if add_bos then [tk_bos t] else []) @ map int (concat idss))
             (map_all (encode_seg t) (segments t s)))"

section \<open>Decoding\<close>

definition hex_value :: "byte \<Rightarrow> int" where
  "hex_value c =
     (if 0x30 \<le> c \<and> c \<le> 0x39 then uint c - 0x30
      else if 0x41 \<le> c \<and> c \<le> 0x46 then uint c - 0x41 + 10
      else if 0x61 \<le> c \<and> c \<le> 0x66 then uint c - 0x61 + 10
      else - 1)"

fun decode_spm :: "bstr \<Rightarrow> bstr" where
  "decode_spm [] = []"
| "decode_spm (b # bs) =
     (if is_prefix_at spm_space (b # bs) then 0x20 # decode_spm (drop 2 bs)
      else if 5 \<le> length bs \<and> b = 0x3C \<and> bs ! 0 = 0x30 \<and> bs ! 1 = 0x78 \<and> bs ! 4 = 0x3E
              \<and> 0 \<le> hex_value (bs ! 2) \<and> 0 \<le> hex_value (bs ! 3)
      then of_int (hex_value (bs ! 2) * 16 + hex_value (bs ! 3)) # decode_spm (drop 5 bs)
      else b # decode_spm bs)"

function decode_gpt2 :: "bstr \<Rightarrow> bstr" where
  "decode_gpt2 s =
     (if s = [] then []
      else let (cp, used) = utf8_decode s
           in (case cp_to_byte cp of Some b \<Rightarrow> [b] | None \<Rightarrow> []) @ decode_gpt2 (drop used s))"
  by auto

termination
  by (relation "measure length") (use utf8_decode_progress in \<open>auto simp: prod_eq_iff\<close>)

declare decode_gpt2.simps [simp del]

definition mapped_bytes :: "tokenizer \<Rightarrow> int list \<Rightarrow> bstr" where
  "mapped_bytes t ids =
     concat (map (\<lambda>id. if id < 0 \<or> int (length (tk_id_to_bytes t)) \<le> id then []
                       else tk_id_to_bytes t ! nat id) ids)"

definition tokenizer_decode :: "tokenizer \<Rightarrow> int list \<Rightarrow> bstr" where
  "tokenizer_decode t ids =
     (if tk_spm t then decode_spm (mapped_bytes t ids) else decode_gpt2 (mapped_bytes t ids))"

section \<open>The pre-pass loses nothing\<close>






section \<open>The merge loop\<close>

definition pair_rank :: "(nat \<times> nat \<Rightarrow> (nat \<times> nat) option) \<Rightarrow> nat list \<Rightarrow> nat \<Rightarrow> (nat \<times> nat) option" where
  "pair_rank m ids i = m (ids ! i, ids ! (i + 1))"

definition best_inv :: "(nat \<times> nat \<Rightarrow> (nat \<times> nat) option) \<Rightarrow> nat list \<Rightarrow> nat \<Rightarrow> nat \<times> (nat \<times> nat) option \<Rightarrow> bool" where
  "best_inv m ids k rb \<longleftrightarrow>
     (\<forall>i < k. \<forall>new r. pair_rank m ids i = Some (new, r) \<longrightarrow> fst rb \<le> r) \<and>
     (case snd rb of None \<Rightarrow> fst rb = 2147483647
      | Some (i, new) \<Rightarrow> i < k \<and> pair_rank m ids i = Some (new, fst rb))"

lemma best_pair_inv: "best_inv m ids (length ids - 1) (best_pair m ids)"
proof -
  let ?f = "\<lambda>i (rank, best). case m (ids ! i, ids ! (i + 1)) of
         Some (merged, r) \<Rightarrow> if r < rank then (r, Some (i, merged)) else (rank, best)
       | None \<Rightarrow> (rank, best)"
  have "best_inv m ids k (fold ?f [0..<k] (2147483647, None))" for k
  proof (induction k)
    case 0
    then show ?case by (simp add: best_inv_def)
  next
    case (Suc k)
    obtain rank best where rb: "fold ?f [0..<k] (2147483647, None) = (rank, best)" by fastforce
    then have inv: "best_inv m ids k (rank, best)" using Suc by simp
    have f: "fold ?f [0..<Suc k] (2147483647, None) = ?f k (rank, best)" using rb by simp
    show ?case
    proof (cases "m (ids ! k, ids ! (k + 1))")
      case None
      then show ?thesis
        using inv unfolding f by (auto simp: best_inv_def pair_rank_def less_Suc_eq split: option.splits)
    next
      case (Some x)
      obtain new r where x: "x = (new, r)" by (cases x) simp
      show ?thesis
        using inv Some unfolding f x
        by (auto simp: best_inv_def pair_rank_def less_Suc_eq split: option.splits)
    qed
  qed
  then show ?thesis by (simp add: best_pair_def)
qed

lemma best_pair_SomeD:
  assumes "snd (best_pair m ids) = Some (pos, new)"
  shows "pos + 1 < length ids" and "m (ids ! pos, ids ! (pos + 1)) = Some (new, fst (best_pair m ids))"
  using best_pair_inv[of m ids] assms by (auto simp: best_inv_def pair_rank_def)

lemma best_pair_NoneD:
  assumes "snd (best_pair m ids) = None" "i + 1 < length ids" "m (ids ! i, ids ! (i + 1)) = Some (new, r)"
  shows "2147483647 \<le> r"
proof -
  have inv: "\<forall>i < length ids - 1. \<forall>new r. pair_rank m ids i = Some (new, r) \<longrightarrow> fst (best_pair m ids) \<le> r"
    "fst (best_pair m ids) = 2147483647"
    using best_pair_inv[of m ids] assms(1) by (auto simp: best_inv_def)
  have "i < length ids - 1" "pair_rank m ids i = Some (new, r)" using assms(2,3) by (simp_all add: pair_rank_def)
  with inv show ?thesis by metis
qed

lemma length_merge_at: "pos + 1 < length ids \<Longrightarrow> length (merge_at pos new ids) = length ids - 1"
  by (simp add: merge_at_def min_def)

text \<open>No adjacent pair of the result can be merged any more.\<close>

definition irreducible :: "(nat \<times> nat \<Rightarrow> (nat \<times> nat) option) \<Rightarrow> nat list \<Rightarrow> bool" where
  "irreducible m ids \<longleftrightarrow> (\<forall>i. i + 1 < length ids \<longrightarrow> m (ids ! i, ids ! (i + 1)) = None)"

lemma bpe_loop_irreducible:
  assumes "\<And>p new r. m p = Some (new, r) \<Longrightarrow> r < 2147483647"
  shows "length ids \<le> n \<Longrightarrow> irreducible m (bpe_loop m n ids)"
proof (induction n arbitrary: ids)
  case 0
  then show ?case by (simp add: irreducible_def)
next
  case (Suc n)
  show ?case
  proof (cases "snd (best_pair m ids)")
    case None
    then have "m (ids ! i, ids ! (i + 1)) = None" if "i + 1 < length ids" for i
      using best_pair_NoneD[OF None that] assms by (metis not_less option.exhaust surj_pair)
    then show ?thesis using None by (simp add: irreducible_def)
  next
    case (Some x)
    then obtain pos new where b: "snd (best_pair m ids) = Some (pos, new)" by (cases x) simp
    have "length (merge_at pos new ids) \<le> n"
      using length_merge_at[OF best_pair_SomeD(1)[OF b]] Suc.prems by simp
    then show ?thesis using Suc.IH b by (auto simp: Let_def irreducible_def)
  qed
qed

lemma bpe_loop_shorter: "length (bpe_loop m n ids) \<le> length ids"
proof (induction n arbitrary: ids)
  case (Suc n)
  show ?case
  proof (cases "snd (best_pair m ids)")
    case (Some x)
    then obtain pos new where b: "snd (best_pair m ids) = Some (pos, new)" by (cases x) simp
    show ?thesis
      using length_merge_at[OF best_pair_SomeD(1)[OF b], of new] Suc.IH[of "merge_at pos new ids"] b
      by (auto simp: Let_def)
  qed simp
qed simp

text \<open>A property of ids that the merges keep, and the bytes of a sequence of ids.\<close>

lemma bpe_loop_set:
  assumes "\<And>p new r. m p = Some (new, r) \<Longrightarrow> Q new"
  shows "\<forall>i \<in> set ids. Q i \<Longrightarrow> \<forall>i \<in> set (bpe_loop m n ids). Q i"
proof (induction n arbitrary: ids)
  case (Suc n)
  show ?case
  proof (cases "snd (best_pair m ids)")
    case (Some x)
    then obtain pos new where b: "snd (best_pair m ids) = Some (pos, new)" by (cases x) simp
    then have "Q new" using best_pair_SomeD(2)[OF b] assms by blast
    then have "\<forall>i \<in> set (merge_at pos new ids). Q i"
      using Suc.prems by (auto simp: merge_at_def dest: in_set_takeD in_set_dropD)
    then show ?thesis using Suc.IH b by (simp add: Let_def)
  qed (use Suc.prems in simp)
qed simp

lemma bpe_loop_bytes:
  assumes "\<And>a b new r. m (a, b) = Some (new, r) \<Longrightarrow> f new = f a @ f b"
  shows "concat (map f (bpe_loop m n ids)) = concat (map f ids)"
proof (induction n arbitrary: ids)
  case (Suc n)
  show ?case
  proof (cases "snd (best_pair m ids)")
    case (Some x)
    then obtain pos new where b: "snd (best_pair m ids) = Some (pos, new)" by (cases x) simp
    note p = best_pair_SomeD[OF b]
    have "ids = take pos ids @ ids ! pos # ids ! (pos + 1) # drop (pos + 2) ids"
      using p(1) by (metis Cons_nth_drop_Suc Suc_eq_plus1 Suc_lessD add_2_eq_Suc' append_take_drop_id)
    then have "concat (map f ids) =
        concat (map f (take pos ids)) @ f (ids ! pos) @ f (ids ! (pos + 1)) @ concat (map f (drop (pos + 2) ids))"
      by (metis concat.simps(2) concat_append list.simps(9) map_append)
    then have "concat (map f (merge_at pos new ids)) = concat (map f ids)"
      using assms[OF p(2)] by (simp add: merge_at_def)
    then show ?thesis using Suc.IH b by (simp add: Let_def)
  qed simp
qed simp

section \<open>Round trip\<close>

definition glyphs :: "bstr \<Rightarrow> bstr" where
  "glyphs s = concat (map (\<lambda>b. utf8_encode (byte_to_cp b)) s)"



lemma utf8_encode_nonempty: "utf8_encode cp \<noteq> []"
  by (simp add: utf8_encode_def)

lemma utf8_byte_roundtrip:
  "utf8_decode (utf8_encode (byte_to_cp b) @ rest) = (byte_to_cp b, length (utf8_encode (byte_to_cp b)))"
  using byte_to_cp_small[of b] by (intro utf8_decode_encode) simp

lemma decode_gpt2_glyphs: "decode_gpt2 (glyphs s) = s"
proof (induction s)
  case Nil
  then show ?case by (simp add: glyphs_def decode_gpt2.simps)
next
  case (Cons b s)
  have "decode_gpt2 (utf8_encode (byte_to_cp b) @ glyphs s) = b # decode_gpt2 (glyphs s)"
    using utf8_encode_nonempty[of "byte_to_cp b"]
    by (subst decode_gpt2.simps) (simp add: utf8_byte_roundtrip cp_to_byte_of_byte)
  with Cons show ?case by (simp add: glyphs_def)
qed

text \<open>What loading establishes, and what a vocabulary must satisfy for lossless text.\<close>

definition tk_wf :: "tokenizer \<Rightarrow> bool" where
  "tk_wf t \<longleftrightarrow>
     (\<forall>s i. tk_bytes_to_id t s = Some i \<longrightarrow> i < length (tk_id_to_bytes t) \<and> tk_id_to_bytes t ! i = s) \<and>
     (\<forall>a b new r. tk_merges t (a, b) = Some (new, r) \<longrightarrow>
        a < length (tk_id_to_bytes t) \<and> b < length (tk_id_to_bytes t) \<and> new < length (tk_id_to_bytes t) \<and> r < 2147483647) \<and>
     (\<forall>i \<in> set (tk_special t). i < length (tk_id_to_bytes t))"

definition merges_concat :: "tokenizer \<Rightarrow> bool" where
  "merges_concat t \<longleftrightarrow>
     (\<forall>a b new r. tk_merges t (a, b) = Some (new, r) \<longrightarrow>
        tk_id_to_bytes t ! new = tk_id_to_bytes t ! a @ tk_id_to_bytes t ! b)"

definition covers_bytes :: "tokenizer \<Rightarrow> bool" where
  "covers_bytes t \<longleftrightarrow>
     (\<forall>b. tk_bytes_to_id t (utf8_encode (byte_to_cp b)) \<noteq> None) \<and>
     (\<forall>i \<in> set (tk_special t). glyphs (tk_id_to_bytes t ! i) = tk_id_to_bytes t ! i)"

text \<open>\<open>spells t ids s\<close>: the ids are in the vocabulary and their bytes are \<open>s\<close>.\<close>

definition spells :: "tokenizer \<Rightarrow> nat list \<Rightarrow> bstr \<Rightarrow> bool" where
  "spells t ids s \<longleftrightarrow>
     (\<forall>i \<in> set ids. i < length (tk_id_to_bytes t)) \<and> concat (map (\<lambda>i. tk_id_to_bytes t ! i) ids) = s"



lemma piece_spells:
  assumes "tk_wf t" "covers_bytes t"
  shows "\<exists>i. piece_id t (utf8_encode (byte_to_cp b), b) = Some i \<and> spells t [i] (utf8_encode (byte_to_cp b))"
proof -
  obtain i where "tk_bytes_to_id t (utf8_encode (byte_to_cp b)) = Some i"
    using assms(2) by (auto simp: covers_bytes_def)
  with assms(1) show ?thesis by (auto simp: piece_id_def spells_def tk_wf_def)
qed

lemma chunk_spells:
  assumes "tk_wf t" "covers_bytes t" "merges_concat t"
  shows "\<exists>ids. bpe_chunk t (byte_level_split False s) = Some ids \<and> spells t ids (glyphs s)"
proof -
  have "\<exists>ids. map_all (piece_id t) (byte_level_split False s) = Some ids \<and> spells t ids (glyphs s)"
  proof (induction s)
    case Nil
    then show ?case by (simp add: byte_level_split_def spells_def glyphs_def)
  next
    case (Cons b s)
    then obtain ids where "map_all (piece_id t) (byte_level_split False s) = Some ids" "spells t ids (glyphs s)"
      by blast
    moreover obtain i where "piece_id t (utf8_encode (byte_to_cp b), b) = Some i"
      "spells t [i] (utf8_encode (byte_to_cp b))"
      using piece_spells[OF assms(1,2)] by blast
    ultimately show ?case
      by (auto simp: byte_level_split_def byte_piece_def spells_def glyphs_def)
  qed
  then obtain ids where ids: "map_all (piece_id t) (byte_level_split False s) = Some ids" "spells t ids (glyphs s)"
    by blast
  let ?r = "bpe_loop (tk_merges t) (length ids) ids"
  have "\<forall>i \<in> set ?r. i < length (tk_id_to_bytes t)"
    using assms(1) ids(2) by (intro bpe_loop_set) (auto simp: tk_wf_def spells_def)
  moreover have "concat (map (\<lambda>i. tk_id_to_bytes t ! i) ?r) = concat (map (\<lambda>i. tk_id_to_bytes t ! i) ids)"
    using assms(3) by (intro bpe_loop_bytes) (auto simp: merges_concat_def)
  ultimately have "spells t ?r (glyphs s)" using ids(2) by (simp add: spells_def)
  then show ?thesis using ids(1) by (simp add: bpe_chunk_def)
qed








text \<open>A special token of printable ASCII does not decode to the empty text.\<close>

lemma special_token_decodes_to_itself:
  assumes "i < length (tk_id_to_bytes t)" "glyphs (tk_id_to_bytes t ! i) = tk_id_to_bytes t ! i" "\<not> tk_spm t"
  shows "tokenizer_decode t [int i] = tk_id_to_bytes t ! i"
  using assms decode_gpt2_glyphs[of "tk_id_to_bytes t ! i"] by (simp add: tokenizer_decode_def mapped_bytes_def)

text \<open>A small vocabulary for the witnesses: all bytes, one merge and one special token.\<close>

definition demo_vocab :: "bstr list" where
  "demo_vocab = map (\<lambda>k. utf8_encode (byte_to_cp (of_nat k))) [0..<256]
     @ [[0x74, 0x68], [0x3C, 0x7C, 0x73, 0x7C, 0x3E]]"

definition demo_tok :: tokenizer where
  "demo_tok = \<lparr>tk_id_to_bytes = demo_vocab, tk_bytes_to_id = (\<lambda>s. find_entry ((=) s) demo_vocab),
     tk_merges = (\<lambda>p. if p = (116, 104) then Some (256, 0) else None), tk_bos = 0, tk_eos = 0,
     tk_spm = False, tk_special = [257]\<rparr>"

lemma demo_vocab_nth: "demo_vocab ! 256 = [0x74, 0x68]" "demo_vocab ! 257 = [0x3C, 0x7C, 0x73, 0x7C, 0x3E]"
  "length demo_vocab = 258" "k < 256 \<Longrightarrow> demo_vocab ! k = utf8_encode (byte_to_cp (of_nat k))"
  by (simp_all add: demo_vocab_def nth_append)

lemma demo_glyphs: "glyphs [0x3C, 0x7C, 0x73, 0x7C, 0x3E] = [0x3C, 0x7C, 0x73, 0x7C, 0x3E]"
  "utf8_encode (byte_to_cp 0x74) = [0x74]" "utf8_encode (byte_to_cp 0x68) = [0x68]"
  by (simp_all add: glyphs_def ascii_glyph)

lemma demo_tok_ok: "tk_wf demo_tok" "covers_bytes demo_tok" "merges_concat demo_tok" "\<not> tk_spm demo_tok"
proof -
  show "tk_wf demo_tok"
    using find_entry_SomeD[of "(=) _" demo_vocab]
    by (auto simp: tk_wf_def demo_tok_def demo_vocab_nth split: if_splits)
  have "\<exists>i. find_entry ((=) (utf8_encode (byte_to_cp b))) demo_vocab = Some i" for b
  proof (rule find_entry_ex)
    have "unat b < length demo_vocab" using unat_byte_less[of b] unfolding demo_vocab_nth(3) by linarith
    then show "demo_vocab ! unat b \<in> set demo_vocab" by (rule nth_mem)
    show "utf8_encode (byte_to_cp b) = demo_vocab ! unat b" by (simp add: demo_vocab_nth)
  qed
  then show "covers_bytes demo_tok"
    by (auto simp: covers_bytes_def demo_tok_def demo_vocab_nth demo_glyphs)
  show "merges_concat demo_tok"
    by (auto simp: merges_concat_def demo_tok_def demo_vocab_nth demo_glyphs split: if_splits)
  show "\<not> tk_spm demo_tok" by (simp add: demo_tok_def)
qed


text \<open>C4. The merge loop runs to the end within its iteration cap: in the ids of a chunk no two neighbours
  can be merged any more, and there are never more ids than bytes.\<close>

theorem bpe_chunk_complete:
  assumes "tk_wf t" "bpe_chunk t (byte_level_split spm s) = Some ids"
  shows "irreducible (tk_merges t) ids \<and> length ids \<le> length s"
proof -
  obtain ids0 where 0: "map_all (piece_id t) (byte_level_split spm s) = Some ids0"
    "ids = bpe_loop (tk_merges t) (length ids0) ids0"
    using assms(2) by (auto simp: bpe_chunk_def)
  have len: "map_all f xs = Some ys \<Longrightarrow> length ys = length xs" for f :: "bstr \<times> byte \<Rightarrow> nat option" and xs ys
    by (induction xs arbitrary: ys) (auto split: option.splits)
  have "length ids0 = length s" using len[OF 0(1)] by (simp add: byte_level_split_def)
  moreover have "irreducible (tk_merges t) ids"
    unfolding 0(2) using assms(1) by (intro bpe_loop_irreducible) (auto simp: tk_wf_def)
  ultimately show ?thesis using bpe_loop_shorter[of "tk_merges t" "length ids0" ids0] by (simp add: 0(2))
qed

theorem bpe_chunk_complete_witness:
  "\<exists>ids. bpe_chunk demo_tok (byte_level_split False [0x74, 0x68, 0x74]) = Some ids \<and>
     irreducible (tk_merges demo_tok) ids \<and> length ids \<le> 3"
proof -
  obtain ids where "bpe_chunk demo_tok (byte_level_split False [0x74, 0x68, 0x74]) = Some ids"
    using chunk_spells[OF demo_tok_ok(1-3)] by blast
  with bpe_chunk_complete[OF demo_tok_ok(1) this] show ?thesis by auto
qed

section \<open>SentencePiece vocabularies\<close>

text \<open>A SentencePiece vocabulary that has the two letters whose code points are the GPT-2 glyphs of the
  bytes of \<open>U+00E9\<close>, and the byte tokens of those bytes.\<close>

definition spm_tok :: tokenizer where
  "spm_tok = (let vocab = [spm_space, [0xC3, 0x83], [0xC2, 0xA9], byte_token 0xC3, byte_token 0xA9]
     in \<lparr>tk_id_to_bytes = vocab, tk_bytes_to_id = (\<lambda>s. find_entry ((=) s) vocab),
         tk_merges = (\<lambda>_. None), tk_bos = 0, tk_eos = 0, tk_spm = True, tk_special = []\<rparr>)"

text \<open>With a SentencePiece vocabulary non-ASCII text does not survive: the encoder looks the bytes up by
  their GPT-2 glyphs first, the decoder of this mode does not undo the glyphs, and the two bytes of
  \<open>U+00E9\<close> come back as four, although the byte tokens that would carry them are in the vocabulary.\<close>

lemma spm_glyph_collision:
  "tokenizer_encode spm_tok [0xC3, 0xA9] False = Some [1, 2] \<and>
   tokenizer_decode spm_tok [1, 2] = [0xC3, 0x83, 0xC2, 0xA9] \<and>
   tokenizer_decode spm_tok [3, 4] = [0xC3, 0xA9]"
proof -
  have cp: "byte_to_cp 0xC3 = 0xC3" "byte_to_cp 0xA9 = 0xA9"
    using byte_to_cp_printable[of "0xC3"] byte_to_cp_printable[of "0xA9"] by (simp_all add: printable_iff)
  have enc: "utf8_encode 0xC3 = [0xC3, 0x83]" "utf8_encode 0xA9 = [0xC2, 0xA9]" by code_simp+
  have chunks: "spm_pre_tokenize [0xC3, 0xA9] = [[0xC3, 0xA9]]" by code_simp
  have seg: "segments spm_tok [0xC3, 0xA9] = [Plain [0xC3, 0xA9]]" "tk_spm spm_tok"
    by (simp_all add: segments_def spm_tok_def Let_def)
  have pieces: "byte_level_split True [0xC3, 0xA9] = [([0xC3, 0x83], 0xC3), ([0xC2, 0xA9], 0xA9)]"
    by (simp add: byte_level_split_def byte_piece_def cp enc)
  have "bpe_chunk spm_tok [([0xC3, 0x83], 0xC3), ([0xC2, 0xA9], 0xA9)] = Some [1, 2]"
    by code_simp
  then have "tokenizer_encode spm_tok [0xC3, 0xA9] False = Some [1, 2]"
    by (simp add: tokenizer_encode_def seg encode_seg_def chunks pieces)
  moreover have "tokenizer_decode spm_tok [1, 2] = [0xC3, 0x83, 0xC2, 0xA9]"
    "tokenizer_decode spm_tok [3, 4] = [0xC3, 0xA9]" by code_simp+
  ultimately show ?thesis by blast
qed

end
