(* ===== verification/Htok.thy ===== *)
theory Htok
  imports Bpe GgufReader
begin

text \<open>
  The \<open>.htok\<close> tokenizer file: \<open>GgufReader::write_htok\<close> (\<open>src/gguf_reader.cpp\<close>), which exports the
  tokenizer of a GGUF file, and \<open>rcpp_tokenizer_load\<close> (\<open>src/tokenizer.cpp\<close>), which reads it back.

  The loader reads through an \<open>ifstream\<close>: a short read stores the bytes there are, sets the fail bit,
  and every later read stores nothing. A field that is not read keeps its initial 0. The loader checks
  the fail bit after the vocabulary entries and the merges, and only there.
\<close>

section \<open>The input stream\<close>

type_synonym istr = "bstr \<times> bool"

definition ird :: "nat \<Rightarrow> istr \<Rightarrow> bstr \<times> istr" where
  "ird n = (\<lambda>(rest, good).
     if good then (take n rest, (drop n rest, n \<le> length rest)) else ([], (rest, False)))"

definition ird_u :: "nat \<Rightarrow> istr \<Rightarrow> nat \<times> istr" where
  "ird_u n st = (let (b, st) = ird n st in (le_value b, st))"

section \<open>Loading\<close>

fun load_vocab :: "nat \<Rightarrow> istr \<Rightarrow> (bstr list \<times> istr) option" where
  "load_vocab 0 st = Some ([], st)"
| "load_vocab (Suc n) st =
     (let (len, st) = ird_u 2 st; (s, st) = (if len \<noteq> 0 then ird len st else ([], st))
      in if \<not> snd st then None
         else map_option (\<lambda>(ss, st). (s # ss, st)) (load_vocab n st))"

fun load_merges :: "nat \<Rightarrow> nat \<Rightarrow> istr \<Rightarrow> ((nat \<times> nat \<times> nat) list \<times> istr) option" where
  "load_merges vocab_size 0 st = Some ([], st)"
| "load_merges vocab_size (Suc n) st =
     (let (a, st) = ird_u 4 st; (b, st) = ird_u 4 st; (m, st) = ird_u 4 st
      in if \<not> snd st then None
         else if vocab_size \<le> a \<or> vocab_size \<le> b \<or> vocab_size \<le> m then None
         else map_option (\<lambda>(ms, st). ((a, b, m) # ms, st)) (load_merges vocab_size n st))"

fun load_specials :: "nat \<Rightarrow> nat \<Rightarrow> istr \<Rightarrow> nat list option" where
  "load_specials vocab_size 0 st = Some []"
| "load_specials vocab_size (Suc n) st =
     (let (sid, st) = ird_u 4 st
      in if vocab_size \<le> sid then None else map_option (Cons sid) (load_specials vocab_size n st))"

text \<open>\<open>bytes_to_id[s] = i\<close> in order (the last entry wins), \<open>merges.emplace\<close> in order (the first wins).\<close>

fun index_vocab :: "nat \<Rightarrow> bstr list \<Rightarrow> (bstr \<Rightarrow> nat option) \<Rightarrow> bstr \<Rightarrow> nat option" where
  "index_vocab i [] m = m"
| "index_vocab i (s # ss) m = index_vocab (Suc i) ss (if s \<noteq> [] then m(s \<mapsto> i) else m)"

fun index_merges :: "nat \<Rightarrow> (nat \<times> nat \<times> nat) list \<Rightarrow> (nat \<times> nat \<Rightarrow> (nat \<times> nat) option) \<Rightarrow>
    nat \<times> nat \<Rightarrow> (nat \<times> nat) option" where
  "index_merges i [] mp = mp"
| "index_merges i ((a, b, m) # ms) mp =
     index_merges (Suc i) ms (if mp (a, b) = None then mp((a, b) \<mapsto> (m, i)) else mp)"

definition build_tokenizer :: "bstr list \<Rightarrow> (nat \<times> nat \<times> nat) list \<Rightarrow> nat list \<Rightarrow> nat \<Rightarrow> nat \<Rightarrow> tokenizer" where
  "build_tokenizer toks ms specials bos eos =
     (let ids = index_vocab 0 toks (\<lambda>_. None)
      in \<lparr>tk_id_to_bytes = toks, tk_bytes_to_id = ids, tk_merges = index_merges 0 ms (\<lambda>_. None),
          tk_bos = sint (of_nat bos :: u32), tk_eos = sint (of_nat eos :: u32),
          tk_spm = (ids spm_space \<noteq> None), tk_special = specials\<rparr>)"

definition htok_load :: "bstr \<Rightarrow> tokenizer option" where
  "htok_load fl =
     (let (magic, st) = ird 4 (fl, True);
          (version, st) = ird_u 4 st; (vocab_size, st) = ird_u 4 st; (num_merges, st) = ird_u 4 st;
          (bos, st) = ird_u 4 st; (eos, st) = ird_u 4 st
      in if magic \<noteq> bytes_of ''HTOK'' then None
         else if vocab_size = 0 \<or> 2 ^ 20 < vocab_size \<or> 2 ^ 22 < num_merges then None
         else (case load_vocab vocab_size st of None \<Rightarrow> None
           | Some (toks, st) \<Rightarrow>
               (case load_merges vocab_size num_merges st of None \<Rightarrow> None
                | Some (ms, st) \<Rightarrow>
                    (if 2 \<le> version then
                       let (num_special, st) = ird_u 4 st
                       in map_option (\<lambda>sp. build_tokenizer toks ms sp bos eos)
                            (load_specials vocab_size num_special st)
                     else Some (build_tokenizer toks ms [] bos eos)))))"

section \<open>Exporting\<close>





definition put_token :: "bstr \<Rightarrow> bstr" where
  "put_token t = le_bytes 2 (length t) @ t"

definition put_merge :: "nat \<times> nat \<times> nat \<Rightarrow> bstr" where
  "put_merge = (\<lambda>(a, b, m). le_bytes 4 a @ le_bytes 4 b @ le_bytes 4 m)"

definition put_htok :: "bstr list \<Rightarrow> (nat \<times> nat \<times> nat) list \<Rightarrow> nat list \<Rightarrow> nat \<Rightarrow> nat \<Rightarrow> bstr" where
  "put_htok toks ms specials bos eos =
     bytes_of ''HTOK'' @ le_bytes 4 3 @ le_bytes 4 (length toks) @ le_bytes 4 (length ms)
       @ le_bytes 4 bos @ le_bytes 4 eos @ concat (map put_token toks) @ concat (map put_merge ms)
       @ le_bytes 4 (length specials) @ concat (map (le_bytes 4) specials)"




section \<open>Every loaded tokenizer is well formed\<close>

lemma index_vocab_SomeD:
  "index_vocab k ss m s = Some i \<Longrightarrow> m s = Some i \<or> (k \<le> i \<and> i < k + length ss \<and> ss ! (i - k) = s)"
proof (induction k ss m rule: index_vocab.induct)
  case (2 k x ss m)
  then have "(if x \<noteq> [] then m(x \<mapsto> k) else m) s = Some i \<or>
      (Suc k \<le> i \<and> i < Suc k + length ss \<and> ss ! (i - Suc k) = s)" by simp
  then show ?case by (auto split: if_splits simp: nth_Cons' Suc_diff_le)
qed simp



lemma index_merges_SomeD:
  "index_merges i ms mp (a, b) = Some (new, r) \<Longrightarrow>
     mp (a, b) = Some (new, r) \<or> (r < i + length ms \<and> (a, b, new) \<in> set ms)"
proof (induction i ms mp rule: index_merges.induct)
  case (2 i x y m ms mp)
  then have "(if mp (x, y) = None then mp((x, y) \<mapsto> (m, i)) else mp) (a, b) = Some (new, r) \<or>
      (r < Suc i + length ms \<and> (a, b, new) \<in> set ms)" by simp
  then show ?case by (auto split: if_splits)
qed simp

definition merges_in :: "nat \<Rightarrow> (nat \<times> nat \<times> nat) list \<Rightarrow> bool" where
  "merges_in n ms \<longleftrightarrow> (\<forall>(a, b, m) \<in> set ms. a < n \<and> b < n \<and> m < n)"

lemma build_tokenizer_wf:
  assumes "merges_in (length toks) ms" "length ms < 2147483647" "\<forall>i \<in> set sp. i < length toks"
  shows "tk_wf (build_tokenizer toks ms sp bos eos)"
  using assms index_vocab_SomeD[of 0 toks "\<lambda>_. None"] index_merges_SomeD[of 0 ms "\<lambda>_. None"]
  by (fastforce simp: tk_wf_def build_tokenizer_def Let_def merges_in_def)

lemma load_vocab_length: "load_vocab n st = Some (ss, st') \<Longrightarrow> length ss = n"
  by (induction n arbitrary: st ss st') (auto simp: Let_def split: prod.splits if_splits)

lemma load_merges_in: "load_merges v n st = Some (ms, st') \<Longrightarrow> merges_in v ms \<and> length ms = n"
proof (induction n arbitrary: st ms)
  case 0
  then show ?case by (simp add: merges_in_def)
next
  case (Suc n)
  obtain a s1 where a: "ird_u 4 st = (a, s1)" by (cases "ird_u 4 st")
  obtain b s2 where b: "ird_u 4 s1 = (b, s2)" by (cases "ird_u 4 s1")
  obtain m s3 where m: "ird_u 4 s2 = (m, s3)" by (cases "ird_u 4 s2")
  obtain ms' where ms': "load_merges v n s3 = Some (ms', st')" "ms = (a, b, m) # ms'"
    "a < v" "b < v" "m < v"
    using Suc.prems by (auto simp: a b m not_le split: if_splits)
  with Suc.IH[OF ms'(1)] show ?case by (simp add: merges_in_def)
qed

lemma load_specials_in: "load_specials v n st = Some sp \<Longrightarrow> \<forall>i \<in> set sp. i < v"
  by (induction n arbitrary: st sp) (auto simp: Let_def split: prod.splits if_splits)

text \<open>C3. Whatever the bytes of the file, a tokenizer that \<open>rcpp_tokenizer_load\<close> accepts has between one and \<open>2^20\<close>
  tokens, and the ids of its reverse index, of both sides and the results of its merges and of its special tokens
  lie inside the vocabulary, so that no lookup of the encoder or the decoder leaves the table; a rank is below
  \<open>2^22\<close>. The BOS and EOS ids are not checked: they are any 32-bit integers.\<close>

theorem htok_load_wf:
  assumes "htok_load fl = Some t"
  shows "tk_wf t \<and> length (tk_id_to_bytes t) \<in> {1..2 ^ 20} \<and> (\<forall>p new r. tk_merges t p = Some (new, r) \<longrightarrow> r < 2 ^ 22) \<and>
    tk_bos t \<in> {- (2 ^ 31)..<2 ^ 31} \<and> tk_eos t \<in> {- (2 ^ 31)..<2 ^ 31}"
proof -
  obtain n k st toks st' ms st'' sp bos eos where
    p: "load_vocab n st = Some (toks, st')" "load_merges n k st' = Some (ms, st'')" "k \<le> 2 ^ 22" "n \<noteq> 0" "n \<le> 2 ^ 20"
    "t = build_tokenizer toks ms sp bos eos" "\<forall>i \<in> set sp. i < n"
    using assms unfolding htok_load_def Let_def
    by (auto split: prod.splits option.splits if_splits dest: load_specials_in)
  have wf: "tk_wf (build_tokenizer toks ms sp bos eos)"
    using load_vocab_length[OF p(1)] load_merges_in[OF p(2)] p(3,7) by (intro build_tokenizer_wf) auto
  have ranks: "r < 2 ^ 22" if "tk_merges (build_tokenizer toks ms sp bos eos) q = Some (new, r)" for q new r
    using that index_merges_SomeD[of 0 ms "\<lambda>_. None" "fst q" "snd q" new r] load_merges_in[OF p(2)] p(3)
    by (simp add: build_tokenizer_def Let_def)
  have range: "sint (w :: u32) \<in> {- (2 ^ 31)..<2 ^ 31}" for w using sint_greater_eq[of w] sint_less[of w] by simp
  have n: "length toks \<in> {1..2 ^ 20}" using load_vocab_length[OF p(1)] p(4,5) by simp
  show ?thesis using wf ranks n range unfolding p(6) by (simp add: build_tokenizer_def Let_def)
qed

section \<open>Reading back what was written\<close>

lemma ird_append: "length b = n \<Longrightarrow> ird n (b @ rest, True) = (b, (rest, True))"
  by (auto simp: ird_def)

lemma ird_u_le: "v < 256 ^ n \<Longrightarrow> ird_u n (le_bytes n v @ rest, True) = (v, (rest, True))"
  by (simp add: ird_u_def ird_append le_value_le_bytes)

lemma load_vocab_put:
  "\<forall>t \<in> set toks. length t \<le> 65535 \<Longrightarrow>
     load_vocab (length toks) (concat (map put_token toks) @ rest, True) = Some (toks, (rest, True))"
  by (induction toks) (auto simp: put_token_def ird_u_le ird_append)

lemma load_merges_put:
  "merges_in v ms \<Longrightarrow> v \<le> 2 ^ 32 \<Longrightarrow>
     load_merges v (length ms) (concat (map put_merge ms) @ rest, True) = Some (ms, (rest, True))"
proof (induction ms)
  case (Cons x ms)
  obtain a b m where x: "x = (a, b, m)" by (cases x) simp
  have "a < 256 ^ 4" "b < 256 ^ 4" "m < 256 ^ 4" "a < v" "b < v" "m < v" "merges_in v ms"
    using Cons.prems by (auto simp: x merges_in_def)
  with Cons show ?case by (simp add: x put_merge_def ird_u_le)
qed simp

lemma load_specials_put:
  "\<forall>i \<in> set sp. i < v \<Longrightarrow> v \<le> 2 ^ 32 \<Longrightarrow>
     load_specials v (length sp) (concat (map (le_bytes 4) sp) @ rest, True) = Some sp"
proof (induction sp)
  case (Cons i sp)
  then have "i < 256 ^ 4" "i < v" by auto
  with Cons show ?case by (simp add: ird_u_le)
qed simp

lemma htok_load_put:
  assumes "\<forall>t \<in> set toks. length t \<le> 65535" "toks \<noteq> []" "length toks \<le> 2 ^ 20"
    "merges_in (length toks) ms" "length ms \<le> 2 ^ 22" "\<forall>i \<in> set sp. i < length toks"
    "length sp < 2 ^ 32" "bos < 2 ^ 32" "eos < 2 ^ 32"
  shows "htok_load (put_htok toks ms sp bos eos) = Some (build_tokenizer toks ms sp bos eos)"
proof -
  have b: "3 < (256 :: nat) ^ 4" "length toks < 256 ^ 4" "length ms < 256 ^ 4" "length sp < 256 ^ 4"
    "bos < 256 ^ 4" "eos < 256 ^ 4" "length toks \<le> 2 ^ 32"
    using assms by simp_all
  have magic: "ird 4 (bytes_of ''HTOK'' @ rest, True) = (bytes_of ''HTOK'', (rest, True))" for rest
    by (rule ird_append) (simp add: bytes_of_def)
  have sp: "load_specials (length toks) (length sp) (concat (map (le_bytes 4) sp), True) = Some sp"
    using load_specials_put[of sp "length toks" "[]"] assms(6) b(7) by simp
  show ?thesis
    using assms(2,3,5)
    by (simp add: htok_load_def put_htok_def magic ird_u_le b[simplified] load_vocab_put[OF assms(1)]
        load_merges_put[OF assms(4) b(7)] sp Let_def)
qed

theorem htok_load_wf_witness: "\<exists>t. htok_load (put_htok [[0x61], [0x62]] [(0, 1, 1)] [1] 0 0) = Some t \<and> tk_wf t"
proof -
  have "htok_load (put_htok [[0x61], [0x62]] [(0, 1, 1)] [1] 0 0) =
      Some (build_tokenizer [[0x61], [0x62]] [(0, 1, 1)] [1] 0 0)"
    by (rule htok_load_put) (simp_all add: merges_in_def)
  from this htok_load_wf[OF this] show ?thesis by blast
qed

text \<open>A file whose BOS id is outside its vocabulary is accepted; \<open>encode\<close> puts the id in front of the others.\<close>

lemma htok_bos_unchecked:
  "\<exists>t. htok_load (put_htok [[0x61], [0x62]] [] [] 9 0) = Some t \<and> length (tk_id_to_bytes t) = 2 \<and> tk_bos t = 9"
proof -
  have "htok_load (put_htok [[0x61], [0x62]] [] [] 9 0) = Some (build_tokenizer [[0x61], [0x62]] [] [] 9 0)"
    by (rule htok_load_put) (simp_all add: merges_in_def)
  then show ?thesis by (simp add: build_tokenizer_def Let_def)
qed

section \<open>The exported parts\<close>








section \<open>Properties\<close>





text \<open>A file that ends right after the count of special tokens is accepted: the loader does not look at the
  stream there, and every missing special id is 0, the id of the first token.\<close>

lemma htok_truncated_specials:
  assumes "\<forall>t \<in> set toks. length t \<le> 65535" "toks \<noteq> []" "length toks \<le> 2 ^ 20"
    "merges_in (length toks) ms" "length ms \<le> 2 ^ 22" "\<forall>i \<in> set sp. i < length toks"
    "length sp < 2 ^ 32" "bos < 2 ^ 32" "eos < 2 ^ 32"
  shows "htok_load (take (length (put_htok toks ms sp bos eos) - 4 * length sp) (put_htok toks ms sp bos eos)) =
    Some (build_tokenizer toks ms (replicate (length sp) 0) bos eos)"
proof -
  have b: "3 < (256 :: nat) ^ 4" "length toks < 256 ^ 4" "length ms < 256 ^ 4" "length sp < 256 ^ 4"
    "bos < 256 ^ 4" "eos < 256 ^ 4" "length toks \<le> 2 ^ 32"
    using assms by simp_all
  have magic: "ird 4 (bytes_of ''HTOK'' @ rest, True) = (bytes_of ''HTOK'', (rest, True))" for rest
    by (rule ird_append) (simp add: bytes_of_def)
  have "length (concat (map (le_bytes 4) sp)) = 4 * length sp" by (induction sp) auto
  then have cut: "take (length (put_htok toks ms sp bos eos) - 4 * length sp) (put_htok toks ms sp bos eos) =
      bytes_of ''HTOK'' @ le_bytes 4 3 @ le_bytes 4 (length toks) @ le_bytes 4 (length ms)
       @ le_bytes 4 bos @ le_bytes 4 eos @ concat (map put_token toks) @ concat (map put_merge ms)
       @ le_bytes 4 (length sp) @ []"
    by (simp add: put_htok_def)
  have eof: "load_specials (length toks) n ([], g) = Some (replicate n 0)" for n g
    using assms(2) by (induction n arbitrary: g) (simp_all add: ird_u_def ird_def)
  show ?thesis
    unfolding cut using assms(2,3,5)
    by (simp add: htok_load_def magic ird_u_le b[simplified] load_vocab_put[OF assms(1)]
        load_merges_put[OF assms(4) b(7)] eof Let_def del: append_Nil2)
qed

lemma htok_truncated_specials_witness:
  "htok_load (take (length (put_htok [[0x61], [0x62]] [] [1, 1] 0 0) - 8) (put_htok [[0x61], [0x62]] [] [1, 1] 0 0)) =
    Some (build_tokenizer [[0x61], [0x62]] [] [0, 0] 0 0)"
  using htok_truncated_specials[of "[[0x61], [0x62]]" "[]" "[1, 1]" 0 0] by (simp add: merges_in_def)

end
