(* ===== verification/ArchTable.thy ===== *)
theory ArchTable
  imports Prelude
begin

text \<open>
  The architecture registry of \<open>include/rocm_cpp/bitnet_model.h\<close>: the enumerators of
  \<open>rcpp_arch_t\<close> and the table of names that \<open>rcpp_arch_from_string\<close> goes through, row by row in the
  order of its tests. A token is the value of its enumerator.
\<close>

type_synonym arch = int

section \<open>The tokens\<close>

abbreviation (input) RCPP_ARCH_BITNET :: arch where "RCPP_ARCH_BITNET \<equiv> 0"
abbreviation (input) RCPP_ARCH_QWEN3 :: arch where "RCPP_ARCH_QWEN3 \<equiv> 1"
abbreviation (input) RCPP_ARCH_LLAMA :: arch where "RCPP_ARCH_LLAMA \<equiv> 2"
abbreviation (input) RCPP_ARCH_MISTRAL :: arch where "RCPP_ARCH_MISTRAL \<equiv> 3"
abbreviation (input) RCPP_ARCH_QWEN2 :: arch where "RCPP_ARCH_QWEN2 \<equiv> 4"
abbreviation (input) RCPP_ARCH_GEMMA :: arch where "RCPP_ARCH_GEMMA \<equiv> 5"
abbreviation (input) RCPP_ARCH_PHI :: arch where "RCPP_ARCH_PHI \<equiv> 6"
abbreviation (input) RCPP_ARCH_ZAMBA2 :: arch where "RCPP_ARCH_ZAMBA2 \<equiv> 7"
abbreviation (input) RCPP_ARCH_ZAMBA :: arch where "RCPP_ARCH_ZAMBA \<equiv> 8"
abbreviation (input) RCPP_ARCH_MAMBA :: arch where "RCPP_ARCH_MAMBA \<equiv> 9"
abbreviation (input) RCPP_ARCH_LAGUNA :: arch where "RCPP_ARCH_LAGUNA \<equiv> 10"
abbreviation (input) RCPP_ARCH_FALCON :: arch where "RCPP_ARCH_FALCON \<equiv> 11"
abbreviation (input) RCPP_ARCH_OLMO :: arch where "RCPP_ARCH_OLMO \<equiv> 12"
abbreviation (input) RCPP_ARCH_ZAYA :: arch where "RCPP_ARCH_ZAYA \<equiv> 13"
abbreviation (input) RCPP_ARCH_QWEN2VL :: arch where "RCPP_ARCH_QWEN2VL \<equiv> 14"
abbreviation (input) RCPP_ARCH_WHISPER :: arch where "RCPP_ARCH_WHISPER \<equiv> 15"
abbreviation (input) RCPP_ARCH_DEEPSEEK :: arch where "RCPP_ARCH_DEEPSEEK \<equiv> 16"
abbreviation (input) RCPP_ARCH_QWEN3VL :: arch where "RCPP_ARCH_QWEN3VL \<equiv> 17"
abbreviation (input) RCPP_ARCH_KIMI_K3 :: arch where "RCPP_ARCH_KIMI_K3 \<equiv> 18"
abbreviation (input) RCPP_ARCH_MOONLIGHT :: arch where "RCPP_ARCH_MOONLIGHT \<equiv> 19"
abbreviation (input) RCPP_ARCH_KIMI_VL :: arch where "RCPP_ARCH_KIMI_VL \<equiv> 20"
abbreviation (input) RCPP_ARCH_QWEN35 :: arch where "RCPP_ARCH_QWEN35 \<equiv> 21"
abbreviation (input) RCPP_ARCH_DEEPSEEK_V4 :: arch where "RCPP_ARCH_DEEPSEEK_V4 \<equiv> 22"
abbreviation (input) RCPP_ARCH_GPT2 :: arch where "RCPP_ARCH_GPT2 \<equiv> 23"
abbreviation (input) RCPP_ARCH_GPTNEOX :: arch where "RCPP_ARCH_GPTNEOX \<equiv> 24"
abbreviation (input) RCPP_ARCH_OPT :: arch where "RCPP_ARCH_OPT \<equiv> 25"
abbreviation (input) RCPP_ARCH_GPTNEO :: arch where "RCPP_ARCH_GPTNEO \<equiv> 26"
abbreviation (input) RCPP_ARCH_CODEGEN :: arch where "RCPP_ARCH_CODEGEN \<equiv> 27"
abbreviation (input) RCPP_ARCH_GPTJ :: arch where "RCPP_ARCH_GPTJ \<equiv> 28"
abbreviation (input) RCPP_ARCH_GPTOSS :: arch where "RCPP_ARCH_GPTOSS \<equiv> 29"
abbreviation (input) RCPP_ARCH_STEP1 :: arch where "RCPP_ARCH_STEP1 \<equiv> 30"
abbreviation (input) RCPP_ARCH_BLOOM :: arch where "RCPP_ARCH_BLOOM \<equiv> 31"
abbreviation (input) RCPP_ARCH_LFM2 :: arch where "RCPP_ARCH_LFM2 \<equiv> 32"
abbreviation (input) RCPP_ARCH_NANOCHAT :: arch where "RCPP_ARCH_NANOCHAT \<equiv> 33"
abbreviation (input) RCPP_ARCH_NEMOTRONH :: arch where "RCPP_ARCH_NEMOTRONH \<equiv> 34"
abbreviation (input) RCPP_ARCH_MINIMAXM2 :: arch where "RCPP_ARCH_MINIMAXM2 \<equiv> 35"
abbreviation (input) RCPP_ARCH_COHERE2 :: arch where "RCPP_ARCH_COHERE2 \<equiv> 36"
abbreviation (input) RCPP_ARCH_FALCONH1 :: arch where "RCPP_ARCH_FALCONH1 \<equiv> 37"
abbreviation (input) RCPP_ARCH_RWKV :: arch where "RCPP_ARCH_RWKV \<equiv> 38"
abbreviation (input) RCPP_ARCH_GRANITEMOEHYBRID :: arch where "RCPP_ARCH_GRANITEMOEHYBRID \<equiv> 39"
abbreviation (input) RCPP_ARCH_LFM2MOE :: arch where "RCPP_ARCH_LFM2MOE \<equiv> 40"
abbreviation (input) RCPP_ARCH_HYV3 :: arch where "RCPP_ARCH_HYV3 \<equiv> 41"
abbreviation (input) RCPP_ARCH_AFMOE :: arch where "RCPP_ARCH_AFMOE \<equiv> 42"
abbreviation (input) RCPP_ARCH_ERNIE45MOE :: arch where "RCPP_ARCH_ERNIE45MOE \<equiv> 43"
abbreviation (input) RCPP_ARCH_MELLUM :: arch where "RCPP_ARCH_MELLUM \<equiv> 44"
abbreviation (input) RCPP_ARCH_PHIMOE :: arch where "RCPP_ARCH_PHIMOE \<equiv> 45"
abbreviation (input) RCPP_ARCH_MINIMAX :: arch where "RCPP_ARCH_MINIMAX \<equiv> 46"
abbreviation (input) RCPP_ARCH_COHERE2MOE :: arch where "RCPP_ARCH_COHERE2MOE \<equiv> 47"
abbreviation (input) RCPP_ARCH_EXAONEMOE :: arch where "RCPP_ARCH_EXAONEMOE \<equiv> 48"
abbreviation (input) RCPP_ARCH_FALCONMAMBA :: arch where "RCPP_ARCH_FALCONMAMBA \<equiv> 49"
abbreviation (input) RCPP_ARCH_JETMOE :: arch where "RCPP_ARCH_JETMOE \<equiv> 50"
abbreviation (input) RCPP_ARCH_QWEN3NEXT :: arch where "RCPP_ARCH_QWEN3NEXT \<equiv> 51"
abbreviation (input) RCPP_ARCH_PICO :: arch where "RCPP_ARCH_PICO \<equiv> 52"
abbreviation (input) RCPP_ARCH_DYNAMICALIBI :: arch where "RCPP_ARCH_DYNAMICALIBI \<equiv> 53"
abbreviation (input) RCPP_ARCH_LLAMA4 :: arch where "RCPP_ARCH_LLAMA4 \<equiv> 54"
abbreviation (input) RCPP_ARCH_JAIS :: arch where "RCPP_ARCH_JAIS \<equiv> 55"
abbreviation (input) RCPP_ARCH_DYNAMICFORGETTING :: arch where "RCPP_ARCH_DYNAMICFORGETTING \<equiv> 56"
abbreviation (input) RCPP_ARCH_DYNAMICSLIDINGWINDOW :: arch where "RCPP_ARCH_DYNAMICSLIDINGWINDOW \<equiv> 57"
abbreviation (input) RCPP_ARCH_KORMO :: arch where "RCPP_ARCH_KORMO \<equiv> 58"
abbreviation (input) RCPP_ARCH_RWKV7 :: arch where "RCPP_ARCH_RWKV7 \<equiv> 59"
abbreviation (input) RCPP_ARCH_CHATGLM :: arch where "RCPP_ARCH_CHATGLM \<equiv> 60"
abbreviation (input) RCPP_ARCH_SARVAM :: arch where "RCPP_ARCH_SARVAM \<equiv> 61"
abbreviation (input) RCPP_ARCH_RAVEN :: arch where "RCPP_ARCH_RAVEN \<equiv> 62"
abbreviation (input) RCPP_ARCH_TALKIE :: arch where "RCPP_ARCH_TALKIE \<equiv> 63"
abbreviation (input) RCPP_ARCH_LLADA2 :: arch where "RCPP_ARCH_LLADA2 \<equiv> 64"
abbreviation (input) RCPP_ARCH_LOOPLM :: arch where "RCPP_ARCH_LOOPLM \<equiv> 65"
abbreviation (input) RCPP_ARCH_STEP3P5 :: arch where "RCPP_ARCH_STEP3P5 \<equiv> 66"
abbreviation (input) RCPP_ARCH_DAISY :: arch where "RCPP_ARCH_DAISY \<equiv> 67"
abbreviation (input) RCPP_ARCH_MULTISCALE :: arch where "RCPP_ARCH_MULTISCALE \<equiv> 68"
abbreviation (input) RCPP_ARCH_SKIPMIDDLE :: arch where "RCPP_ARCH_SKIPMIDDLE \<equiv> 69"
abbreviation (input) RCPP_ARCH_MOTIF :: arch where "RCPP_ARCH_MOTIF \<equiv> 70"
abbreviation (input) RCPP_ARCH_QUASAR :: arch where "RCPP_ARCH_QUASAR \<equiv> 71"
abbreviation (input) RCPP_ARCH_HGRN :: arch where "RCPP_ARCH_HGRN \<equiv> 72"
abbreviation (input) RCPP_ARCH_RETNET :: arch where "RCPP_ARCH_RETNET \<equiv> 73"
abbreviation (input) RCPP_ARCH_CUBELM :: arch where "RCPP_ARCH_CUBELM \<equiv> 74"
abbreviation (input) RCPP_ARCH_RECURRENTGEMMA :: arch where "RCPP_ARCH_RECURRENTGEMMA \<equiv> 75"
abbreviation (input) RCPP_ARCH_LIGHTNINGTRANSFORMER :: arch where "RCPP_ARCH_LIGHTNINGTRANSFORMER \<equiv> 76"
abbreviation (input) RCPP_ARCH_SPIKEWHALE :: arch where "RCPP_ARCH_SPIKEWHALE \<equiv> 77"
abbreviation (input) RCPP_ARCH_STL :: arch where "RCPP_ARCH_STL \<equiv> 78"
abbreviation (input) RCPP_ARCH_XPERTGPT :: arch where "RCPP_ARCH_XPERTGPT \<equiv> 79"
abbreviation (input) RCPP_ARCH_YATGPT :: arch where "RCPP_ARCH_YATGPT \<equiv> 80"
abbreviation (input) RCPP_ARCH_CENO :: arch where "RCPP_ARCH_CENO \<equiv> 81"
abbreviation (input) RCPP_ARCH_FIMMY :: arch where "RCPP_ARCH_FIMMY \<equiv> 82"
abbreviation (input) RCPP_ARCH_HYENADNA :: arch where "RCPP_ARCH_HYENADNA \<equiv> 83"
abbreviation (input) RCPP_ARCH_LLAMAMOE :: arch where "RCPP_ARCH_LLAMAMOE \<equiv> 84"
abbreviation (input) RCPP_ARCH_MODERNBERTDECODER :: arch where "RCPP_ARCH_MODERNBERTDECODER \<equiv> 85"
abbreviation (input) RCPP_ARCH_ORKHON :: arch where "RCPP_ARCH_ORKHON \<equiv> 86"
abbreviation (input) RCPP_ARCH_ROFORMER :: arch where "RCPP_ARCH_ROFORMER \<equiv> 87"
abbreviation (input) RCPP_ARCH_STRIPEDHYENA :: arch where "RCPP_ARCH_STRIPEDHYENA \<equiv> 88"
abbreviation (input) RCPP_ARCH_ARGONNE :: arch where "RCPP_ARCH_ARGONNE \<equiv> 89"
abbreviation (input) RCPP_ARCH_EMO :: arch where "RCPP_ARCH_EMO \<equiv> 90"
abbreviation (input) RCPP_ARCH_FORGETTINGTRANSFORMER :: arch where "RCPP_ARCH_FORGETTINGTRANSFORMER \<equiv> 91"
abbreviation (input) RCPP_ARCH_GPTBERT :: arch where "RCPP_ARCH_GPTBERT \<equiv> 92"
abbreviation (input) RCPP_ARCH_GPTJXMOE :: arch where "RCPP_ARCH_GPTJXMOE \<equiv> 93"
abbreviation (input) RCPP_ARCH_KEURALMOE :: arch where "RCPP_ARCH_KEURALMOE \<equiv> 94"
abbreviation (input) RCPP_ARCH_FINANCEDECODER :: arch where "RCPP_ARCH_FINANCEDECODER \<equiv> 95"
abbreviation (input) RCPP_ARCH_REFORMER :: arch where "RCPP_ARCH_REFORMER \<equiv> 96"
abbreviation (input) RCPP_ARCH_ACIP :: arch where "RCPP_ARCH_ACIP \<equiv> 97"
abbreviation (input) RCPP_ARCH_COGNICAPOE :: arch where "RCPP_ARCH_COGNICAPOE \<equiv> 98"
abbreviation (input) RCPP_ARCH_GRUGMOE :: arch where "RCPP_ARCH_GRUGMOE \<equiv> 99"
abbreviation (input) RCPP_ARCH_LONGCAT :: arch where "RCPP_ARCH_LONGCAT \<equiv> 100"
abbreviation (input) RCPP_ARCH_TELECHAT :: arch where "RCPP_ARCH_TELECHAT \<equiv> 101"
abbreviation (input) RCPP_ARCH_BTLM :: arch where "RCPP_ARCH_BTLM \<equiv> 102"
abbreviation (input) RCPP_ARCH_DUCHIFAT :: arch where "RCPP_ARCH_DUCHIFAT \<equiv> 103"
abbreviation (input) RCPP_ARCH_DUO :: arch where "RCPP_ARCH_DUO \<equiv> 104"
abbreviation (input) RCPP_ARCH_ESHMUN :: arch where "RCPP_ARCH_ESHMUN \<equiv> 105"
abbreviation (input) RCPP_ARCH_GLA :: arch where "RCPP_ARCH_GLA \<equiv> 106"
abbreviation (input) RCPP_ARCH_POLYVERSE :: arch where "RCPP_ARCH_POLYVERSE \<equiv> 107"
abbreviation (input) RCPP_ARCH_TRANSFOXL :: arch where "RCPP_ARCH_TRANSFOXL \<equiv> 108"
abbreviation (input) RCPP_ARCH_TRANSNORMER :: arch where "RCPP_ARCH_TRANSNORMER \<equiv> 109"
abbreviation (input) RCPP_ARCH_TWINY :: arch where "RCPP_ARCH_TWINY \<equiv> 110"
abbreviation (input) RCPP_ARCH_GPTPANGU :: arch where "RCPP_ARCH_GPTPANGU \<equiv> 111"
abbreviation (input) RCPP_ARCH_BVV :: arch where "RCPP_ARCH_BVV \<equiv> 112"
abbreviation (input) RCPP_ARCH_A194LOGITENSEMBLE :: arch where "RCPP_ARCH_A194LOGITENSEMBLE \<equiv> 551"
abbreviation (input) RCPP_ARCH_ABIR :: arch where "RCPP_ARCH_ABIR \<equiv> 552"
abbreviation (input) RCPP_ARCH_ABU2HEAD :: arch where "RCPP_ARCH_ABU2HEAD \<equiv> 553"
abbreviation (input) RCPP_ARCH_ACERAG :: arch where "RCPP_ARCH_ACERAG \<equiv> 554"
abbreviation (input) RCPP_ARCH_ACSWIGLU :: arch where "RCPP_ARCH_ACSWIGLU \<equiv> 555"
abbreviation (input) RCPP_ARCH_ADAPTIVERIVER :: arch where "RCPP_ARCH_ADAPTIVERIVER \<equiv> 556"
abbreviation (input) RCPP_ARCH_AETHERMICRO :: arch where "RCPP_ARCH_AETHERMICRO \<equiv> 557"
abbreviation (input) RCPP_ARCH_AILO :: arch where "RCPP_ARCH_AILO \<equiv> 558"
abbreviation (input) RCPP_ARCH_AILOLOOP :: arch where "RCPP_ARCH_AILOLOOP \<equiv> 559"
abbreviation (input) RCPP_ARCH_ALINLIGHT :: arch where "RCPP_ARCH_ALINLIGHT \<equiv> 560"
abbreviation (input) RCPP_ARCH_AMADABLAM :: arch where "RCPP_ARCH_AMADABLAM \<equiv> 561"
abbreviation (input) RCPP_ARCH_ANCIENTAIV :: arch where "RCPP_ARCH_ANCIENTAIV \<equiv> 562"
abbreviation (input) RCPP_ARCH_ANUBISMOE :: arch where "RCPP_ARCH_ANUBISMOE \<equiv> 563"
abbreviation (input) RCPP_ARCH_APRIEL2 :: arch where "RCPP_ARCH_APRIEL2 \<equiv> 564"
abbreviation (input) RCPP_ARCH_ARAR381M :: arch where "RCPP_ARCH_ARAR381M \<equiv> 565"
abbreviation (input) RCPP_ARCH_ASCLE :: arch where "RCPP_ARCH_ASCLE \<equiv> 566"
abbreviation (input) RCPP_ARCH_ASGTRANSFORMER :: arch where "RCPP_ARCH_ASGTRANSFORMER \<equiv> 567"
abbreviation (input) RCPP_ARCH_ATTNONLY :: arch where "RCPP_ARCH_ATTNONLY \<equiv> 568"
abbreviation (input) RCPP_ARCH_AUTOENCODER :: arch where "RCPP_ARCH_AUTOENCODER \<equiv> 569"
abbreviation (input) RCPP_ARCH_AUTOGUI :: arch where "RCPP_ARCH_AUTOGUI \<equiv> 570"
abbreviation (input) RCPP_ARCH_AVEYDECODERMOE :: arch where "RCPP_ARCH_AVEYDECODERMOE \<equiv> 571"
abbreviation (input) RCPP_ARCH_AXON :: arch where "RCPP_ARCH_AXON \<equiv> 572"
abbreviation (input) RCPP_ARCH_AYAVISION :: arch where "RCPP_ARCH_AYAVISION \<equiv> 573"
abbreviation (input) RCPP_ARCH_BACFORMERGM :: arch where "RCPP_ARCH_BACFORMERGM \<equiv> 574"
abbreviation (input) RCPP_ARCH_BACKBONECONCEPT :: arch where "RCPP_ARCH_BACKBONECONCEPT \<equiv> 575"
abbreviation (input) RCPP_ARCH_BAC :: arch where "RCPP_ARCH_BAC \<equiv> 576"
abbreviation (input) RCPP_ARCH_BAILINGMOELINEAR :: arch where "RCPP_ARCH_BAILINGMOELINEAR \<equiv> 577"
abbreviation (input) RCPP_ARCH_BANANAMIND2MEDIUM :: arch where "RCPP_ARCH_BANANAMIND2MEDIUM \<equiv> 578"
abbreviation (input) RCPP_ARCH_BANANAMIND2MICRO :: arch where "RCPP_ARCH_BANANAMIND2MICRO \<equiv> 579"
abbreviation (input) RCPP_ARCH_BANANAMIND2MINI :: arch where "RCPP_ARCH_BANANAMIND2MINI \<equiv> 580"
abbreviation (input) RCPP_ARCH_BANANAMIND2MOE :: arch where "RCPP_ARCH_BANANAMIND2MOE \<equiv> 581"
abbreviation (input) RCPP_ARCH_BANANAMIND2NANO :: arch where "RCPP_ARCH_BANANAMIND2NANO \<equiv> 582"
abbreviation (input) RCPP_ARCH_BANANAMIND2PRO :: arch where "RCPP_ARCH_BANANAMIND2PRO \<equiv> 583"
abbreviation (input) RCPP_ARCH_BANGLAGAMBA :: arch where "RCPP_ARCH_BANGLAGAMBA \<equiv> 584"
abbreviation (input) RCPP_ARCH_BANGLAGSG :: arch where "RCPP_ARCH_BANGLAGSG \<equiv> 585"
abbreviation (input) RCPP_ARCH_BARBET :: arch where "RCPP_ARCH_BARBET \<equiv> 586"
abbreviation (input) RCPP_ARCH_BEETLEMOEHF :: arch where "RCPP_ARCH_BEETLEMOEHF \<equiv> 587"
abbreviation (input) RCPP_ARCH_BHARATAI :: arch where "RCPP_ARCH_BHARATAI \<equiv> 588"
abbreviation (input) RCPP_ARCH_BIATRON :: arch where "RCPP_ARCH_BIATRON \<equiv> 589"
abbreviation (input) RCPP_ARCH_BIGBRAINLANGUAGE :: arch where "RCPP_ARCH_BIGBRAINLANGUAGE \<equiv> 590"
abbreviation (input) RCPP_ARCH_BINARYL :: arch where "RCPP_ARCH_BINARYL \<equiv> 591"
abbreviation (input) RCPP_ARCH_BITSKIPV1WITHEARLYEXIT :: arch where "RCPP_ARCH_BITSKIPV1WITHEARLYEXIT \<equiv> 592"
abbreviation (input) RCPP_ARCH_BITSKIPV2WITHEARLYEXIT :: arch where "RCPP_ARCH_BITSKIPV2WITHEARLYEXIT \<equiv> 593"
abbreviation (input) RCPP_ARCH_BITSKIPV3 :: arch where "RCPP_ARCH_BITSKIPV3 \<equiv> 594"
abbreviation (input) RCPP_ARCH_BORAMOE :: arch where "RCPP_ARCH_BORAMOE \<equiv> 595"
abbreviation (input) RCPP_ARCH_BRAILLE256 :: arch where "RCPP_ARCH_BRAILLE256 \<equiv> 596"
abbreviation (input) RCPP_ARCH_BRANCHYCAUSAL :: arch where "RCPP_ARCH_BRANCHYCAUSAL \<equiv> 597"
abbreviation (input) RCPP_ARCH_BRIDGEVQA :: arch where "RCPP_ARCH_BRIDGEVQA \<equiv> 598"
abbreviation (input) RCPP_ARCH_BUCKETMEMORY :: arch where "RCPP_ARCH_BUCKETMEMORY \<equiv> 599"
abbreviation (input) RCPP_ARCH_BUNGEO :: arch where "RCPP_ARCH_BUNGEO \<equiv> 600"
abbreviation (input) RCPP_ARCH_CABLE :: arch where "RCPP_ARCH_CABLE \<equiv> 601"
abbreviation (input) RCPP_ARCH_CAUSALLMOE :: arch where "RCPP_ARCH_CAUSALLMOE \<equiv> 602"
abbreviation (input) RCPP_ARCH_CELERITY :: arch where "RCPP_ARCH_CELERITY \<equiv> 603"
abbreviation (input) RCPP_ARCH_CFRD :: arch where "RCPP_ARCH_CFRD \<equiv> 604"
abbreviation (input) RCPP_ARCH_CHAMELEONXLLMX :: arch where "RCPP_ARCH_CHAMELEONXLLMX \<equiv> 605"
abbreviation (input) RCPP_ARCH_CI :: arch where "RCPP_ARCH_CI \<equiv> 606"
abbreviation (input) RCPP_ARCH_CINNABAR :: arch where "RCPP_ARCH_CINNABAR \<equiv> 607"
abbreviation (input) RCPP_ARCH_CLARITYMR1 :: arch where "RCPP_ARCH_CLARITYMR1 \<equiv> 608"
abbreviation (input) RCPP_ARCH_CLINAMEN :: arch where "RCPP_ARCH_CLINAMEN \<equiv> 609"
abbreviation (input) RCPP_ARCH_CLOVER :: arch where "RCPP_ARCH_CLOVER \<equiv> 610"
abbreviation (input) RCPP_ARCH_CMA :: arch where "RCPP_ARCH_CMA \<equiv> 611"
abbreviation (input) RCPP_ARCH_CODIFY :: arch where "RCPP_ARCH_CODIFY \<equiv> 612"
abbreviation (input) RCPP_ARCH_CODVA1 :: arch where "RCPP_ARCH_CODVA1 \<equiv> 613"
abbreviation (input) RCPP_ARCH_COFFEECHATAI :: arch where "RCPP_ARCH_COFFEECHATAI \<equiv> 614"
abbreviation (input) RCPP_ARCH_COHERENCEMOMENTUM :: arch where "RCPP_ARCH_COHERENCEMOMENTUM \<equiv> 615"
abbreviation (input) RCPP_ARCH_COMPLIANTL :: arch where "RCPP_ARCH_COMPLIANTL \<equiv> 616"
abbreviation (input) RCPP_ARCH_CONVAICAUSAL :: arch where "RCPP_ARCH_CONVAICAUSAL \<equiv> 617"
abbreviation (input) RCPP_ARCH_COSMICFISH :: arch where "RCPP_ARCH_COSMICFISH \<equiv> 618"
abbreviation (input) RCPP_ARCH_CPMANT :: arch where "RCPP_ARCH_CPMANT \<equiv> 619"
abbreviation (input) RCPP_ARCH_CPMBEE :: arch where "RCPP_ARCH_CPMBEE \<equiv> 620"
abbreviation (input) RCPP_ARCH_CUBICPIPELINEOPTIMIZER :: arch where "RCPP_ARCH_CUBICPIPELINEOPTIMIZER \<equiv> 621"
abbreviation (input) RCPP_ARCH_CUBICV11LONGCONTEXT :: arch where "RCPP_ARCH_CUBICV11LONGCONTEXT \<equiv> 622"
abbreviation (input) RCPP_ARCH_CUBICZANMOE :: arch where "RCPP_ARCH_CUBICZANMOE \<equiv> 623"
abbreviation (input) RCPP_ARCH_CUSTOMDECODERONLYT5 :: arch where "RCPP_ARCH_CUSTOMDECODERONLYT5 \<equiv> 624"
abbreviation (input) RCPP_ARCH_CUSTOM5 :: arch where "RCPP_ARCH_CUSTOM5 \<equiv> 625"
abbreviation (input) RCPP_ARCH_CUSTOMTAGALOGL :: arch where "RCPP_ARCH_CUSTOMTAGALOGL \<equiv> 626"
abbreviation (input) RCPP_ARCH_CUSTOMTRANSFORMER :: arch where "RCPP_ARCH_CUSTOMTRANSFORMER \<equiv> 627"
abbreviation (input) RCPP_ARCH_CYCLICFORMER :: arch where "RCPP_ARCH_CYCLICFORMER \<equiv> 628"
abbreviation (input) RCPP_ARCH_D3PMSANSKRIT :: arch where "RCPP_ARCH_D3PMSANSKRIT \<equiv> 629"
abbreviation (input) RCPP_ARCH_DARKITV15 :: arch where "RCPP_ARCH_DARKITV15 \<equiv> 630"
abbreviation (input) RCPP_ARCH_DARKITV25 :: arch where "RCPP_ARCH_DARKITV25 \<equiv> 631"
abbreviation (input) RCPP_ARCH_DARWINDUOORCHESTRATOR :: arch where "RCPP_ARCH_DARWINDUOORCHESTRATOR \<equiv> 632"
abbreviation (input) RCPP_ARCH_DATA2VECTEXT :: arch where "RCPP_ARCH_DATA2VECTEXT \<equiv> 633"
abbreviation (input) RCPP_ARCH_DCFORMER :: arch where "RCPP_ARCH_DCFORMER \<equiv> 634"
abbreviation (input) RCPP_ARCH_DECODERONLYTRANSFORMER :: arch where "RCPP_ARCH_DECODERONLYTRANSFORMER \<equiv> 635"
abbreviation (input) RCPP_ARCH_DECODON :: arch where "RCPP_ARCH_DECODON \<equiv> 636"
abbreviation (input) RCPP_ARCH_DENSEL :: arch where "RCPP_ARCH_DENSEL \<equiv> 637"
abbreviation (input) RCPP_ARCH_DFM :: arch where "RCPP_ARCH_DFM \<equiv> 638"
abbreviation (input) RCPP_ARCH_DISTILLIX :: arch where "RCPP_ARCH_DISTILLIX \<equiv> 639"
abbreviation (input) RCPP_ARCH_DOMAINTRANSFORMER :: arch where "RCPP_ARCH_DOMAINTRANSFORMER \<equiv> 640"
abbreviation (input) RCPP_ARCH_DOT :: arch where "RCPP_ARCH_DOT \<equiv> 641"
abbreviation (input) RCPP_ARCH_DOTSOCR :: arch where "RCPP_ARCH_DOTSOCR \<equiv> 642"
abbreviation (input) RCPP_ARCH_DSHYBRID :: arch where "RCPP_ARCH_DSHYBRID \<equiv> 643"
abbreviation (input) RCPP_ARCH_DWARF :: arch where "RCPP_ARCH_DWARF \<equiv> 644"
abbreviation (input) RCPP_ARCH_DYNAMICMINDMOE :: arch where "RCPP_ARCH_DYNAMICMINDMOE \<equiv> 645"
abbreviation (input) RCPP_ARCH_DYNAMICNEURALNETWORK :: arch where "RCPP_ARCH_DYNAMICNEURALNETWORK \<equiv> 646"
abbreviation (input) RCPP_ARCH_ECHO :: arch where "RCPP_ARCH_ECHO \<equiv> 647"
abbreviation (input) RCPP_ARCH_ECHOES :: arch where "RCPP_ARCH_ECHOES \<equiv> 648"
abbreviation (input) RCPP_ARCH_ECOACO :: arch where "RCPP_ARCH_ECOACO \<equiv> 649"
abbreviation (input) RCPP_ARCH_ELASTICGPT :: arch where "RCPP_ARCH_ELASTICGPT \<equiv> 650"
abbreviation (input) RCPP_ARCH_ENSEMBLE :: arch where "RCPP_ARCH_ENSEMBLE \<equiv> 651"
abbreviation (input) RCPP_ARCH_ERKLINEAR :: arch where "RCPP_ARCH_ERKLINEAR \<equiv> 652"
abbreviation (input) RCPP_ARCH_EVAFRILLMO :: arch where "RCPP_ARCH_EVAFRILLMO \<equiv> 653"
abbreviation (input) RCPP_ARCH_EVEMOE :: arch where "RCPP_ARCH_EVEMOE \<equiv> 654"
abbreviation (input) RCPP_ARCH_EVO1 :: arch where "RCPP_ARCH_EVO1 \<equiv> 655"
abbreviation (input) RCPP_ARCH_FASTPLUS :: arch where "RCPP_ARCH_FASTPLUS \<equiv> 656"
abbreviation (input) RCPP_ARCH_FASTPLUS125M :: arch where "RCPP_ARCH_FASTPLUS125M \<equiv> 657"
abbreviation (input) RCPP_ARCH_FASTPLUS40M :: arch where "RCPP_ARCH_FASTPLUS40M \<equiv> 658"
abbreviation (input) RCPP_ARCH_FASTY :: arch where "RCPP_ARCH_FASTY \<equiv> 659"
abbreviation (input) RCPP_ARCH_FELA :: arch where "RCPP_ARCH_FELA \<equiv> 660"
abbreviation (input) RCPP_ARCH_FERN3B :: arch where "RCPP_ARCH_FERN3B \<equiv> 661"
abbreviation (input) RCPP_ARCH_FIELDSHUB :: arch where "RCPP_ARCH_FIELDSHUB \<equiv> 662"
abbreviation (input) RCPP_ARCH_FIPHINEURALARK39ULTRA :: arch where "RCPP_ARCH_FIPHINEURALARK39ULTRA \<equiv> 663"
abbreviation (input) RCPP_ARCH_FIXEDENHANCEDHYBRIDTRANS :: arch where "RCPP_ARCH_FIXEDENHANCEDHYBRIDTRANS \<equiv> 664"
abbreviation (input) RCPP_ARCH_FLEXRANK :: arch where "RCPP_ARCH_FLEXRANK \<equiv> 665"
abbreviation (input) RCPP_ARCH_FONTAINE :: arch where "RCPP_ARCH_FONTAINE \<equiv> 666"
abbreviation (input) RCPP_ARCH_FRAWDL :: arch where "RCPP_ARCH_FRAWDL \<equiv> 667"
abbreviation (input) RCPP_ARCH_FRENCHL :: arch where "RCPP_ARCH_FRENCHL \<equiv> 668"
abbreviation (input) RCPP_ARCH_FSGPT :: arch where "RCPP_ARCH_FSGPT \<equiv> 669"
abbreviation (input) RCPP_ARCH_FSGPTMOE :: arch where "RCPP_ARCH_FSGPTMOE \<equiv> 670"
abbreviation (input) RCPP_ARCH_FUSE3 :: arch where "RCPP_ARCH_FUSE3 \<equiv> 671"
abbreviation (input) RCPP_ARCH_FUSE3V2 :: arch where "RCPP_ARCH_FUSE3V2 \<equiv> 672"
abbreviation (input) RCPP_ARCH_FUTUREGQ47M :: arch where "RCPP_ARCH_FUTUREGQ47M \<equiv> 673"
abbreviation (input) RCPP_ARCH_FUTUREGQ47Q :: arch where "RCPP_ARCH_FUTUREGQ47Q \<equiv> 674"
abbreviation (input) RCPP_ARCH_FUXITRANYU :: arch where "RCPP_ARCH_FUXITRANYU \<equiv> 675"
abbreviation (input) RCPP_ARCH_FWKVLANGUAGE :: arch where "RCPP_ARCH_FWKVLANGUAGE \<equiv> 676"
abbreviation (input) RCPP_ARCH_G0NANO :: arch where "RCPP_ARCH_G0NANO \<equiv> 677"
abbreviation (input) RCPP_ARCH_GAD2FORAGENTICING :: arch where "RCPP_ARCH_GAD2FORAGENTICING \<equiv> 678"
abbreviation (input) RCPP_ARCH_GADFORAGENTICING :: arch where "RCPP_ARCH_GADFORAGENTICING \<equiv> 679"
abbreviation (input) RCPP_ARCH_GALAHAD :: arch where "RCPP_ARCH_GALAHAD \<equiv> 680"
abbreviation (input) RCPP_ARCH_GATEDDELTAPRODUCT :: arch where "RCPP_ARCH_GATEDDELTAPRODUCT \<equiv> 681"
abbreviation (input) RCPP_ARCH_GAZELLE :: arch where "RCPP_ARCH_GAZELLE \<equiv> 682"
abbreviation (input) RCPP_ARCH_GEMBYTINY :: arch where "RCPP_ARCH_GEMBYTINY \<equiv> 683"
abbreviation (input) RCPP_ARCH_GEOV :: arch where "RCPP_ARCH_GEOV \<equiv> 684"
abbreviation (input) RCPP_ARCH_GIFTOFGAB :: arch where "RCPP_ARCH_GIFTOFGAB \<equiv> 685"
abbreviation (input) RCPP_ARCH_GLUB :: arch where "RCPP_ARCH_GLUB \<equiv> 686"
abbreviation (input) RCPP_ARCH_GODQUEENIV :: arch where "RCPP_ARCH_GODQUEENIV \<equiv> 687"
abbreviation (input) RCPP_ARCH_GRAVITYMOE :: arch where "RCPP_ARCH_GRAVITYMOE \<equiv> 688"
abbreviation (input) RCPP_ARCH_GROK2 :: arch where "RCPP_ARCH_GROK2 \<equiv> 689"
abbreviation (input) RCPP_ARCH_GROUNDEDBLIP :: arch where "RCPP_ARCH_GROUNDEDBLIP \<equiv> 690"
abbreviation (input) RCPP_ARCH_GUPPY :: arch where "RCPP_ARCH_GUPPY \<equiv> 691"
abbreviation (input) RCPP_ARCH_H2OVLCHAT :: arch where "RCPP_ARCH_H2OVLCHAT \<equiv> 692"
abbreviation (input) RCPP_ARCH_HAIPAI :: arch where "RCPP_ARCH_HAIPAI \<equiv> 693"
abbreviation (input) RCPP_ARCH_HALTCOT :: arch where "RCPP_ARCH_HALTCOT \<equiv> 694"
abbreviation (input) RCPP_ARCH_HANFORGE :: arch where "RCPP_ARCH_HANFORGE \<equiv> 695"
abbreviation (input) RCPP_ARCH_HCXVISION :: arch where "RCPP_ARCH_HCXVISION \<equiv> 696"
abbreviation (input) RCPP_ARCH_HCXVISIONV2 :: arch where "RCPP_ARCH_HCXVISIONV2 \<equiv> 697"
abbreviation (input) RCPP_ARCH_HELLOAGENT :: arch where "RCPP_ARCH_HELLOAGENT \<equiv> 698"
abbreviation (input) RCPP_ARCH_HENLACONFED :: arch where "RCPP_ARCH_HENLACONFED \<equiv> 699"
abbreviation (input) RCPP_ARCH_HFBYTEETM :: arch where "RCPP_ARCH_HFBYTEETM \<equiv> 700"
abbreviation (input) RCPP_ARCH_HFOPENMOE :: arch where "RCPP_ARCH_HFOPENMOE \<equiv> 701"
abbreviation (input) RCPP_ARCH_HINDICAUSAL :: arch where "RCPP_ARCH_HINDICAUSAL \<equiv> 702"
abbreviation (input) RCPP_ARCH_HLM5 :: arch where "RCPP_ARCH_HLM5 \<equiv> 703"
abbreviation (input) RCPP_ARCH_HRM :: arch where "RCPP_ARCH_HRM \<equiv> 704"
abbreviation (input) RCPP_ARCH_HRMCOSMICFISH :: arch where "RCPP_ARCH_HRMCOSMICFISH \<equiv> 705"
abbreviation (input) RCPP_ARCH_HRMTEXTMOE :: arch where "RCPP_ARCH_HRMTEXTMOE \<equiv> 706"
abbreviation (input) RCPP_ARCH_HTDN :: arch where "RCPP_ARCH_HTDN \<equiv> 707"
abbreviation (input) RCPP_ARCH_HYBRIDECHO :: arch where "RCPP_ARCH_HYBRIDECHO \<equiv> 708"
abbreviation (input) RCPP_ARCH_HYBRIDFOURIER :: arch where "RCPP_ARCH_HYBRIDFOURIER \<equiv> 709"
abbreviation (input) RCPP_ARCH_HYBRIDGATEDDELTANET :: arch where "RCPP_ARCH_HYBRIDGATEDDELTANET \<equiv> 710"
abbreviation (input) RCPP_ARCH_HYBRIDMORMOE :: arch where "RCPP_ARCH_HYBRIDMORMOE \<equiv> 711"
abbreviation (input) RCPP_ARCH_HYBRIDTINY :: arch where "RCPP_ARCH_HYBRIDTINY \<equiv> 712"
abbreviation (input) RCPP_ARCH_HYBRIDTRANSFORMERV2 :: arch where "RCPP_ARCH_HYBRIDTRANSFORMERV2 \<equiv> 713"
abbreviation (input) RCPP_ARCH_HYBRIKO :: arch where "RCPP_ARCH_HYBRIKO \<equiv> 714"
abbreviation (input) RCPP_ARCH_I3HYBRIDCHAT :: arch where "RCPP_ARCH_I3HYBRIDCHAT \<equiv> 715"
abbreviation (input) RCPP_ARCH_INFIMMHD :: arch where "RCPP_ARCH_INFIMMHD \<equiv> 716"
abbreviation (input) RCPP_ARCH_INFIMMVICUNA :: arch where "RCPP_ARCH_INFIMMVICUNA \<equiv> 717"
abbreviation (input) RCPP_ARCH_INFIMMZEPHYR :: arch where "RCPP_ARCH_INFIMMZEPHYR \<equiv> 718"
abbreviation (input) RCPP_ARCH_INKLING :: arch where "RCPP_ARCH_INKLING \<equiv> 719"
abbreviation (input) RCPP_ARCH_INVERSIONFROMHIDDENSTATE :: arch where "RCPP_ARCH_INVERSIONFROMHIDDENSTATE \<equiv> 720"
abbreviation (input) RCPP_ARCH_IONS1 :: arch where "RCPP_ARCH_IONS1 \<equiv> 721"
abbreviation (input) RCPP_ARCH_ISLLMAI50M :: arch where "RCPP_ARCH_ISLLMAI50M \<equiv> 722"
abbreviation (input) RCPP_ARCH_IVMECODERV1 :: arch where "RCPP_ARCH_IVMECODERV1 \<equiv> 723"
abbreviation (input) RCPP_ARCH_IVMECONVERSATES :: arch where "RCPP_ARCH_IVMECONVERSATES \<equiv> 724"
abbreviation (input) RCPP_ARCH_IVMECONVERSATESV2INSTRUC :: arch where "RCPP_ARCH_IVMECONVERSATESV2INSTRUC \<equiv> 725"
abbreviation (input) RCPP_ARCH_IVMEXL :: arch where "RCPP_ARCH_IVMEXL \<equiv> 726"
abbreviation (input) RCPP_ARCH_JEENEY :: arch where "RCPP_ARCH_JEENEY \<equiv> 727"
abbreviation (input) RCPP_ARCH_JEEVES :: arch where "RCPP_ARCH_JEEVES \<equiv> 728"
abbreviation (input) RCPP_ARCH_JUDGEXL :: arch where "RCPP_ARCH_JUDGEXL \<equiv> 729"
abbreviation (input) RCPP_ARCH_KATEAI :: arch where "RCPP_ARCH_KATEAI \<equiv> 730"
abbreviation (input) RCPP_ARCH_KEYSTONEFUSE :: arch where "RCPP_ARCH_KEYSTONEFUSE \<equiv> 731"
abbreviation (input) RCPP_ARCH_KFM :: arch where "RCPP_ARCH_KFM \<equiv> 732"
abbreviation (input) RCPP_ARCH_KLEARMOE :: arch where "RCPP_ARCH_KLEARMOE \<equiv> 733"
abbreviation (input) RCPP_ARCH_KNKVF :: arch where "RCPP_ARCH_KNKVF \<equiv> 734"
abbreviation (input) RCPP_ARCH_KOPRIA :: arch where "RCPP_ARCH_KOPRIA \<equiv> 735"
abbreviation (input) RCPP_ARCH_KORMOMOE :: arch where "RCPP_ARCH_KORMOMOE \<equiv> 736"
abbreviation (input) RCPP_ARCH_KOSMOS25TEXT :: arch where "RCPP_ARCH_KOSMOS25TEXT \<equiv> 737"
abbreviation (input) RCPP_ARCH_KSBYTE :: arch where "RCPP_ARCH_KSBYTE \<equiv> 738"
abbreviation (input) RCPP_ARCH_KVLATENT :: arch where "RCPP_ARCH_KVLATENT \<equiv> 739"
abbreviation (input) RCPP_ARCH_LAMINARNET :: arch where "RCPP_ARCH_LAMINARNET \<equiv> 740"
abbreviation (input) RCPP_ARCH_LANCEAI :: arch where "RCPP_ARCH_LANCEAI \<equiv> 741"
abbreviation (input) RCPP_ARCH_LANEFORMER :: arch where "RCPP_ARCH_LANEFORMER \<equiv> 742"
abbreviation (input) RCPP_ARCH_LATENTRECURRENTDEPTH :: arch where "RCPP_ARCH_LATENTRECURRENTDEPTH \<equiv> 743"
abbreviation (input) RCPP_ARCH_LEDGERNET :: arch where "RCPP_ARCH_LEDGERNET \<equiv> 744"
abbreviation (input) RCPP_ARCH_LIGERGLA :: arch where "RCPP_ARCH_LIGERGLA \<equiv> 745"
abbreviation (input) RCPP_ARCH_LIGHTBRAINHYBRID :: arch where "RCPP_ARCH_LIGHTBRAINHYBRID \<equiv> 746"
abbreviation (input) RCPP_ARCH_LLAVAMONET :: arch where "RCPP_ARCH_LLAVAMONET \<equiv> 747"
abbreviation (input) RCPP_ARCH_LLAVAVISTRAL :: arch where "RCPP_ARCH_LLAVAVISTRAL \<equiv> 748"
abbreviation (input) RCPP_ARCH_LLTRANSFORMER :: arch where "RCPP_ARCH_LLTRANSFORMER \<equiv> 749"
abbreviation (input) RCPP_ARCH_LOAF :: arch where "RCPP_ARCH_LOAF \<equiv> 750"
abbreviation (input) RCPP_ARCH_LOCALL :: arch where "RCPP_ARCH_LOCALL \<equiv> 751"
abbreviation (input) RCPP_ARCH_LOLEVE :: arch where "RCPP_ARCH_LOLEVE \<equiv> 752"
abbreviation (input) RCPP_ARCH_LONGCATFLASHOMNI :: arch where "RCPP_ARCH_LONGCATFLASHOMNI \<equiv> 753"
abbreviation (input) RCPP_ARCH_LONGCATNEXT :: arch where "RCPP_ARCH_LONGCATNEXT \<equiv> 754"
abbreviation (input) RCPP_ARCH_LOOMFORMER :: arch where "RCPP_ARCH_LOOMFORMER \<equiv> 755"
abbreviation (input) RCPP_ARCH_LSMOE :: arch where "RCPP_ARCH_LSMOE \<equiv> 756"
abbreviation (input) RCPP_ARCH_LSWT :: arch where "RCPP_ARCH_LSWT \<equiv> 757"
abbreviation (input) RCPP_ARCH_LUMEES :: arch where "RCPP_ARCH_LUMEES \<equiv> 758"
abbreviation (input) RCPP_ARCH_LUMEN :: arch where "RCPP_ARCH_LUMEN \<equiv> 759"
abbreviation (input) RCPP_ARCH_LUMENSPARK :: arch where "RCPP_ARCH_LUMENSPARK \<equiv> 760"
abbreviation (input) RCPP_ARCH_MACCY :: arch where "RCPP_ARCH_MACCY \<equiv> 761"
abbreviation (input) RCPP_ARCH_MAGNETAR :: arch where "RCPP_ARCH_MAGNETAR \<equiv> 762"
abbreviation (input) RCPP_ARCH_MARKUPDM :: arch where "RCPP_ARCH_MARKUPDM \<equiv> 763"
abbreviation (input) RCPP_ARCH_MATHBANANAMIND :: arch where "RCPP_ARCH_MATHBANANAMIND \<equiv> 764"
abbreviation (input) RCPP_ARCH_MATILDA :: arch where "RCPP_ARCH_MATILDA \<equiv> 765"
abbreviation (input) RCPP_ARCH_MATRIOCHKA :: arch where "RCPP_ARCH_MATRIOCHKA \<equiv> 766"
abbreviation (input) RCPP_ARCH_MCQHF :: arch where "RCPP_ARCH_MCQHF \<equiv> 767"
abbreviation (input) RCPP_ARCH_MD :: arch where "RCPP_ARCH_MD \<equiv> 768"
abbreviation (input) RCPP_ARCH_MDLMBPEV4 :: arch where "RCPP_ARCH_MDLMBPEV4 \<equiv> 769"
abbreviation (input) RCPP_ARCH_MEDHEMO :: arch where "RCPP_ARCH_MEDHEMO \<equiv> 770"
abbreviation (input) RCPP_ARCH_MEDHEMOEARCP :: arch where "RCPP_ARCH_MEDHEMOEARCP \<equiv> 771"
abbreviation (input) RCPP_ARCH_MEGATRON :: arch where "RCPP_ARCH_MEGATRON \<equiv> 772"
abbreviation (input) RCPP_ARCH_MEGREZMOE :: arch where "RCPP_ARCH_MEGREZMOE \<equiv> 773"
abbreviation (input) RCPP_ARCH_METAL :: arch where "RCPP_ARCH_METAL \<equiv> 774"
abbreviation (input) RCPP_ARCH_METISMOR :: arch where "RCPP_ARCH_METISMOR \<equiv> 775"
abbreviation (input) RCPP_ARCH_MICROBANANA :: arch where "RCPP_ARCH_MICROBANANA \<equiv> 776"
abbreviation (input) RCPP_ARCH_MICROSTORYBANANAMIND :: arch where "RCPP_ARCH_MICROSTORYBANANAMIND \<equiv> 777"
abbreviation (input) RCPP_ARCH_MINGRU :: arch where "RCPP_ARCH_MINGRU \<equiv> 778"
abbreviation (input) RCPP_ARCH_MINGRU_MING :: arch where "RCPP_ARCH_MINGRU_MING \<equiv> 779"
abbreviation (input) RCPP_ARCH_MINIART :: arch where "RCPP_ARCH_MINIART \<equiv> 780"
abbreviation (input) RCPP_ARCH_MINIENEDINA :: arch where "RCPP_ARCH_MINIENEDINA \<equiv> 781"
abbreviation (input) RCPP_ARCH_MINIGEMINIMIXTRAL :: arch where "RCPP_ARCH_MINIGEMINIMIXTRAL \<equiv> 782"
abbreviation (input) RCPP_ARCH_MINITRANSFORMER :: arch where "RCPP_ARCH_MINITRANSFORMER \<equiv> 783"
abbreviation (input) RCPP_ARCH_MINSPARK :: arch where "RCPP_ARCH_MINSPARK \<equiv> 784"
abbreviation (input) RCPP_ARCH_MIRIDIHLLAVA :: arch where "RCPP_ARCH_MIRIDIHLLAVA \<equiv> 785"
abbreviation (input) RCPP_ARCH_MIXTRAL8X7B :: arch where "RCPP_ARCH_MIXTRAL8X7B \<equiv> 786"
abbreviation (input) RCPP_ARCH_MLPSPECULATORPRETRAINED :: arch where "RCPP_ARCH_MLPSPECULATORPRETRAINED \<equiv> 787"
abbreviation (input) RCPP_ARCH_MMMADNESSLLM :: arch where "RCPP_ARCH_MMMADNESSLLM \<equiv> 788"
abbreviation (input) RCPP_ARCH_MOAMETRIC :: arch where "RCPP_ARCH_MOAMETRIC \<equiv> 789"
abbreviation (input) RCPP_ARCH_MOBILINTCOHERE2 :: arch where "RCPP_ARCH_MOBILINTCOHERE2 \<equiv> 790"
abbreviation (input) RCPP_ARCH_MOCHIVA :: arch where "RCPP_ARCH_MOCHIVA \<equiv> 791"
abbreviation (input) RCPP_ARCH_MODULEFORMER :: arch where "RCPP_ARCH_MODULEFORMER \<equiv> 792"
abbreviation (input) RCPP_ARCH_MOE :: arch where "RCPP_ARCH_MOE \<equiv> 793"
abbreviation (input) RCPP_ARCH_MOETRANSFORMER :: arch where "RCPP_ARCH_MOETRANSFORMER \<equiv> 794"
abbreviation (input) RCPP_ARCH_MOIRAICAUSAL :: arch where "RCPP_ARCH_MOIRAICAUSAL \<equiv> 795"
abbreviation (input) RCPP_ARCH_MOLEXAR :: arch where "RCPP_ARCH_MOLEXAR \<equiv> 796"
abbreviation (input) RCPP_ARCH_MONAD1 :: arch where "RCPP_ARCH_MONAD1 \<equiv> 797"
abbreviation (input) RCPP_ARCH_MOTHERCORE :: arch where "RCPP_ARCH_MOTHERCORE \<equiv> 798"
abbreviation (input) RCPP_ARCH_MUDDFORMER :: arch where "RCPP_ARCH_MUDDFORMER \<equiv> 799"
abbreviation (input) RCPP_ARCH_MULTIMODALSUPER :: arch where "RCPP_ARCH_MULTIMODALSUPER \<equiv> 800"
abbreviation (input) RCPP_ARCH_MULTISCREEN :: arch where "RCPP_ARCH_MULTISCREEN \<equiv> 801"
abbreviation (input) RCPP_ARCH_MUXX11 :: arch where "RCPP_ARCH_MUXX11 \<equiv> 802"
abbreviation (input) RCPP_ARCH_MYCOACH :: arch where "RCPP_ARCH_MYCOACH \<equiv> 803"
abbreviation (input) RCPP_ARCH_MYGROK :: arch where "RCPP_ARCH_MYGROK \<equiv> 804"
abbreviation (input) RCPP_ARCH_NABLAVL :: arch where "RCPP_ARCH_NABLAVL \<equiv> 805"
abbreviation (input) RCPP_ARCH_NAFIE :: arch where "RCPP_ARCH_NAFIE \<equiv> 806"
abbreviation (input) RCPP_ARCH_NANOCHRONO :: arch where "RCPP_ARCH_NANOCHRONO \<equiv> 807"
abbreviation (input) RCPP_ARCH_NANOMOE :: arch where "RCPP_ARCH_NANOMOE \<equiv> 808"
abbreviation (input) RCPP_ARCH_NANOS11LITE :: arch where "RCPP_ARCH_NANOS11LITE \<equiv> 809"
abbreviation (input) RCPP_ARCH_NANOTHINK :: arch where "RCPP_ARCH_NANOTHINK \<equiv> 810"
abbreviation (input) RCPP_ARCH_NANOTRANSFORMER :: arch where "RCPP_ARCH_NANOTRANSFORMER \<equiv> 811"
abbreviation (input) RCPP_ARCH_NANOWHALEDIME :: arch where "RCPP_ARCH_NANOWHALEDIME \<equiv> 812"
abbreviation (input) RCPP_ARCH_NARCTINY :: arch where "RCPP_ARCH_NARCTINY \<equiv> 813"
abbreviation (input) RCPP_ARCH_NATURECODEOCEAN :: arch where "RCPP_ARCH_NATURECODEOCEAN \<equiv> 814"
abbreviation (input) RCPP_ARCH_NDLMOE :: arch where "RCPP_ARCH_NDLMOE \<equiv> 815"
abbreviation (input) RCPP_ARCH_NEE :: arch where "RCPP_ARCH_NEE \<equiv> 816"
abbreviation (input) RCPP_ARCH_NEEDCONVERSATIONAL :: arch where "RCPP_ARCH_NEEDCONVERSATIONAL \<equiv> 817"
abbreviation (input) RCPP_ARCH_NEKOMINDMOE :: arch where "RCPP_ARCH_NEKOMINDMOE \<equiv> 818"
abbreviation (input) RCPP_ARCH_NEPALEDGE :: arch where "RCPP_ARCH_NEPALEDGE \<equiv> 819"
abbreviation (input) RCPP_ARCH_NEURON :: arch where "RCPP_ARCH_NEURON \<equiv> 820"
abbreviation (input) RCPP_ARCH_NEURONSPARK :: arch where "RCPP_ARCH_NEURONSPARK \<equiv> 821"
abbreviation (input) RCPP_ARCH_NEXARA :: arch where "RCPP_ARCH_NEXARA \<equiv> 822"
abbreviation (input) RCPP_ARCH_NGEN3 :: arch where "RCPP_ARCH_NGEN3 \<equiv> 823"
abbreviation (input) RCPP_ARCH_NGEN3_NGEN :: arch where "RCPP_ARCH_NGEN3_NGEN \<equiv> 824"
abbreviation (input) RCPP_ARCH_NGEN4 :: arch where "RCPP_ARCH_NGEN4 \<equiv> 825"
abbreviation (input) RCPP_ARCH_NGEN4OW10T :: arch where "RCPP_ARCH_NGEN4OW10T \<equiv> 826"
abbreviation (input) RCPP_ARCH_NILEX :: arch where "RCPP_ARCH_NILEX \<equiv> 827"
abbreviation (input) RCPP_ARCH_NOEUM :: arch where "RCPP_ARCH_NOEUM \<equiv> 828"
abbreviation (input) RCPP_ARCH_NOTOKENGEN :: arch where "RCPP_ARCH_NOTOKENGEN \<equiv> 829"
abbreviation (input) RCPP_ARCH_NTV3GENERATIVE :: arch where "RCPP_ARCH_NTV3GENERATIVE \<equiv> 830"
abbreviation (input) RCPP_ARCH_NUSHY5 :: arch where "RCPP_ARCH_NUSHY5 \<equiv> 831"
abbreviation (input) RCPP_ARCH_OBILANGUAGE :: arch where "RCPP_ARCH_OBILANGUAGE \<equiv> 832"
abbreviation (input) RCPP_ARCH_OBSIDIANMULTISCREEN :: arch where "RCPP_ARCH_OBSIDIANMULTISCREEN \<equiv> 833"
abbreviation (input) RCPP_ARCH_ODINNEXT :: arch where "RCPP_ARCH_ODINNEXT \<equiv> 834"
abbreviation (input) RCPP_ARCH_OLM3NANO :: arch where "RCPP_ARCH_OLM3NANO \<equiv> 835"
abbreviation (input) RCPP_ARCH_OPENMYTHOS :: arch where "RCPP_ARCH_OPENMYTHOS \<equiv> 836"
abbreviation (input) RCPP_ARCH_OPENTHAIWILAI :: arch where "RCPP_ARCH_OPENTHAIWILAI \<equiv> 837"
abbreviation (input) RCPP_ARCH_OPENVLAFORACTIONPREDICTI :: arch where "RCPP_ARCH_OPENVLAFORACTIONPREDICTI \<equiv> 838"
abbreviation (input) RCPP_ARCH_ORIONMOECAUSAL :: arch where "RCPP_ARCH_ORIONMOECAUSAL \<equiv> 839"
abbreviation (input) RCPP_ARCH_OS24 :: arch where "RCPP_ARCH_OS24 \<equiv> 840"
abbreviation (input) RCPP_ARCH_OTTER :: arch where "RCPP_ARCH_OTTER \<equiv> 841"
abbreviation (input) RCPP_ARCH_OUTLIERMOE :: arch where "RCPP_ARCH_OUTLIERMOE \<equiv> 842"
abbreviation (input) RCPP_ARCH_PACKEDL :: arch where "RCPP_ARCH_PACKEDL \<equiv> 843"
abbreviation (input) RCPP_ARCH_PAGNOLXL :: arch where "RCPP_ARCH_PAGNOLXL \<equiv> 844"
abbreviation (input) RCPP_ARCH_PAINTER :: arch where "RCPP_ARCH_PAINTER \<equiv> 845"
abbreviation (input) RCPP_ARCH_PANO :: arch where "RCPP_ARCH_PANO \<equiv> 846"
abbreviation (input) RCPP_ARCH_PARAM1MOE :: arch where "RCPP_ARCH_PARAM1MOE \<equiv> 847"
abbreviation (input) RCPP_ARCH_PARAM2MOE :: arch where "RCPP_ARCH_PARAM2MOE \<equiv> 848"
abbreviation (input) RCPP_ARCH_PARAMTATVATRANSFORMER :: arch where "RCPP_ARCH_PARAMTATVATRANSFORMER \<equiv> 849"
abbreviation (input) RCPP_ARCH_PARCHMENT :: arch where "RCPP_ARCH_PARCHMENT \<equiv> 850"
abbreviation (input) RCPP_ARCH_PERSIMMON :: arch where "RCPP_ARCH_PERSIMMON \<equiv> 851"
abbreviation (input) RCPP_ARCH_PINANOLM100M :: arch where "RCPP_ARCH_PINANOLM100M \<equiv> 852"
abbreviation (input) RCPP_ARCH_PINANOLM20M :: arch where "RCPP_ARCH_PINANOLM20M \<equiv> 853"
abbreviation (input) RCPP_ARCH_PINANOLM50M :: arch where "RCPP_ARCH_PINANOLM50M \<equiv> 854"
abbreviation (input) RCPP_ARCH_PINKELEPHANT :: arch where "RCPP_ARCH_PINKELEPHANT \<equiv> 855"
abbreviation (input) RCPP_ARCH_PLAPT :: arch where "RCPP_ARCH_PLAPT \<equiv> 856"
abbreviation (input) RCPP_ARCH_PLBART :: arch where "RCPP_ARCH_PLBART \<equiv> 857"
abbreviation (input) RCPP_ARCH_PLETINY :: arch where "RCPP_ARCH_PLETINY \<equiv> 858"
abbreviation (input) RCPP_ARCH_PMMINIFINL :: arch where "RCPP_ARCH_PMMINIFINL \<equiv> 859"
abbreviation (input) RCPP_ARCH_PORTHORMOE :: arch where "RCPP_ARCH_PORTHORMOE \<equiv> 860"
abbreviation (input) RCPP_ARCH_PRAJNASTUDENTMULTILAYER :: arch where "RCPP_ARCH_PRAJNASTUDENTMULTILAYER \<equiv> 861"
abbreviation (input) RCPP_ARCH_PRATCHYA :: arch where "RCPP_ARCH_PRATCHYA \<equiv> 862"
abbreviation (input) RCPP_ARCH_PRISMCHARMLP :: arch where "RCPP_ARCH_PRISMCHARMLP \<equiv> 863"
abbreviation (input) RCPP_ARCH_PRIVATEL :: arch where "RCPP_ARCH_PRIVATEL \<equiv> 864"
abbreviation (input) RCPP_ARCH_PZDRKREASONING :: arch where "RCPP_ARCH_PZDRKREASONING \<equiv> 865"
abbreviation (input) RCPP_ARCH_QMOE :: arch where "RCPP_ARCH_QMOE \<equiv> 866"
abbreviation (input) RCPP_ARCH_QOFFICESUITERUNTIME :: arch where "RCPP_ARCH_QOFFICESUITERUNTIME \<equiv> 867"
abbreviation (input) RCPP_ARCH_QOVARYX :: arch where "RCPP_ARCH_QOVARYX \<equiv> 868"
abbreviation (input) RCPP_ARCH_QUADORBIT :: arch where "RCPP_ARCH_QUADORBIT \<equiv> 869"
abbreviation (input) RCPP_ARCH_RAMO :: arch where "RCPP_ARCH_RAMO \<equiv> 870"
abbreviation (input) RCPP_ARCH_RAVENGUARD :: arch where "RCPP_ARCH_RAVENGUARD \<equiv> 871"
abbreviation (input) RCPP_ARCH_REALTRANSFORMER :: arch where "RCPP_ARCH_REALTRANSFORMER \<equiv> 872"
abbreviation (input) RCPP_ARCH_RECOMBINATIONTRANSFORMER :: arch where "RCPP_ARCH_RECOMBINATIONTRANSFORMER \<equiv> 873"
abbreviation (input) RCPP_ARCH_RECURSIVECOMPRESSOR :: arch where "RCPP_ARCH_RECURSIVECOMPRESSOR \<equiv> 874"
abbreviation (input) RCPP_ARCH_RECURSIVELANGUAGE :: arch where "RCPP_ARCH_RECURSIVELANGUAGE \<equiv> 875"
abbreviation (input) RCPP_ARCH_REGRESSIONISATTENTION :: arch where "RCPP_ARCH_REGRESSIONISATTENTION \<equiv> 876"
abbreviation (input) RCPP_ARCH_RITA :: arch where "RCPP_ARCH_RITA \<equiv> 877"
abbreviation (input) RCPP_ARCH_RUBIR :: arch where "RCPP_ARCH_RUBIR \<equiv> 878"
abbreviation (input) RCPP_ARCH_SAFFU :: arch where "RCPP_ARCH_SAFFU \<equiv> 879"
abbreviation (input) RCPP_ARCH_SASEQUINTILLIONASI :: arch where "RCPP_ARCH_SASEQUINTILLIONASI \<equiv> 880"
abbreviation (input) RCPP_ARCH_SDARMOE :: arch where "RCPP_ARCH_SDARMOE \<equiv> 881"
abbreviation (input) RCPP_ARCH_SENTINELBRAIN :: arch where "RCPP_ARCH_SENTINELBRAIN \<equiv> 882"
abbreviation (input) RCPP_ARCH_SEQAX :: arch where "RCPP_ARCH_SEQAX \<equiv> 883"
abbreviation (input) RCPP_ARCH_SEQCOND :: arch where "RCPP_ARCH_SEQCOND \<equiv> 884"
abbreviation (input) RCPP_ARCH_SERMENTAL :: arch where "RCPP_ARCH_SERMENTAL \<equiv> 885"
abbreviation (input) RCPP_ARCH_SEWYV2 :: arch where "RCPP_ARCH_SEWYV2 \<equiv> 886"
abbreviation (input) RCPP_ARCH_SHIVIKM1 :: arch where "RCPP_ARCH_SHIVIKM1 \<equiv> 887"
abbreviation (input) RCPP_ARCH_SHIVIKM2 :: arch where "RCPP_ARCH_SHIVIKM2 \<equiv> 888"
abbreviation (input) RCPP_ARCH_SHIVIKM4 :: arch where "RCPP_ARCH_SHIVIKM4 \<equiv> 889"
abbreviation (input) RCPP_ARCH_SHRINK :: arch where "RCPP_ARCH_SHRINK \<equiv> 890"
abbreviation (input) RCPP_ARCH_SIGER :: arch where "RCPP_ARCH_SIGER \<equiv> 891"
abbreviation (input) RCPP_ARCH_SIMPLESTORIES :: arch where "RCPP_ARCH_SIMPLESTORIES \<equiv> 892"
abbreviation (input) RCPP_ARCH_SIMPLESTORIES4M :: arch where "RCPP_ARCH_SIMPLESTORIES4M \<equiv> 893"
abbreviation (input) RCPP_ARCH_SIXPERTMOE :: arch where "RCPP_ARCH_SIXPERTMOE \<equiv> 894"
abbreviation (input) RCPP_ARCH_SLIMMOE :: arch where "RCPP_ARCH_SLIMMOE \<equiv> 895"
abbreviation (input) RCPP_ARCH_SLMOE :: arch where "RCPP_ARCH_SLMOE \<equiv> 896"
abbreviation (input) RCPP_ARCH_SMALLLANGUAGE :: arch where "RCPP_ARCH_SMALLLANGUAGE \<equiv> 897"
abbreviation (input) RCPP_ARCH_SMARTCODERMOE :: arch where "RCPP_ARCH_SMARTCODERMOE \<equiv> 898"
abbreviation (input) RCPP_ARCH_SMDM :: arch where "RCPP_ARCH_SMDM \<equiv> 899"
abbreviation (input) RCPP_ARCH_SM :: arch where "RCPP_ARCH_SM \<equiv> 900"
abbreviation (input) RCPP_ARCH_SMT :: arch where "RCPP_ARCH_SMT \<equiv> 901"
abbreviation (input) RCPP_ARCH_SOFANOR :: arch where "RCPP_ARCH_SOFANOR \<equiv> 902"
abbreviation (input) RCPP_ARCH_SOLOL :: arch where "RCPP_ARCH_SOLOL \<equiv> 903"
abbreviation (input) RCPP_ARCH_SONAMATH :: arch where "RCPP_ARCH_SONAMATH \<equiv> 904"
abbreviation (input) RCPP_ARCH_SORAFORS :: arch where "RCPP_ARCH_SORAFORS \<equiv> 905"
abbreviation (input) RCPP_ARCH_SOVYTHOS :: arch where "RCPP_ARCH_SOVYTHOS \<equiv> 906"
abbreviation (input) RCPP_ARCH_SPHERICALKANBYTE :: arch where "RCPP_ARCH_SPHERICALKANBYTE \<equiv> 907"
abbreviation (input) RCPP_ARCH_SRCPROBER :: arch where "RCPP_ARCH_SRCPROBER \<equiv> 908"
abbreviation (input) RCPP_ARCH_STATEHEAD :: arch where "RCPP_ARCH_STATEHEAD \<equiv> 909"
abbreviation (input) RCPP_ARCH_STEERLING :: arch where "RCPP_ARCH_STEERLING \<equiv> 910"
abbreviation (input) RCPP_ARCH_STELLARAI :: arch where "RCPP_ARCH_STELLARAI \<equiv> 911"
abbreviation (input) RCPP_ARCH_STOCHASTICFREQUENCYFILTE :: arch where "RCPP_ARCH_STOCHASTICFREQUENCYFILTE \<equiv> 912"
abbreviation (input) RCPP_ARCH_SUPRABRAIN :: arch where "RCPP_ARCH_SUPRABRAIN \<equiv> 913"
abbreviation (input) RCPP_ARCH_SWARMMOE :: arch where "RCPP_ARCH_SWARMMOE \<equiv> 914"
abbreviation (input) RCPP_ARCH_SWETA :: arch where "RCPP_ARCH_SWETA \<equiv> 915"
abbreviation (input) RCPP_ARCH_SYKOCAUSAL :: arch where "RCPP_ARCH_SYKOCAUSAL \<equiv> 916"
abbreviation (input) RCPP_ARCH_TAHQIQGENESIS :: arch where "RCPP_ARCH_TAHQIQGENESIS \<equiv> 917"
abbreviation (input) RCPP_ARCH_TAMAZIGHT :: arch where "RCPP_ARCH_TAMAZIGHT \<equiv> 918"
abbreviation (input) RCPP_ARCH_TAME :: arch where "RCPP_ARCH_TAME \<equiv> 919"
abbreviation (input) RCPP_ARCH_TAMILTINYSTORIES :: arch where "RCPP_ARCH_TAMILTINYSTORIES \<equiv> 920"
abbreviation (input) RCPP_ARCH_TAONETMINIT2 :: arch where "RCPP_ARCH_TAONETMINIT2 \<equiv> 921"
abbreviation (input) RCPP_ARCH_TCMOE :: arch where "RCPP_ARCH_TCMOE \<equiv> 922"
abbreviation (input) RCPP_ARCH_THINKER :: arch where "RCPP_ARCH_THINKER \<equiv> 923"
abbreviation (input) RCPP_ARCH_TINY :: arch where "RCPP_ARCH_TINY \<equiv> 924"
abbreviation (input) RCPP_ARCH_TINYBUDDY :: arch where "RCPP_ARCH_TINYBUDDY \<equiv> 925"
abbreviation (input) RCPP_ARCH_TINY_TINY :: arch where "RCPP_ARCH_TINY_TINY \<equiv> 926"
abbreviation (input) RCPP_ARCH_TINYMIND :: arch where "RCPP_ARCH_TINYMIND \<equiv> 927"
abbreviation (input) RCPP_ARCH_TINYPEL :: arch where "RCPP_ARCH_TINYPEL \<equiv> 928"
abbreviation (input) RCPP_ARCH_TINYV4 :: arch where "RCPP_ARCH_TINYV4 \<equiv> 929"
abbreviation (input) RCPP_ARCH_TINYWAY :: arch where "RCPP_ARCH_TINYWAY \<equiv> 930"
abbreviation (input) RCPP_ARCH_TNL1385M10BTOKENNOACT :: arch where "RCPP_ARCH_TNL1385M10BTOKENNOACT \<equiv> 931"
abbreviation (input) RCPP_ARCH_TOKENFORMER :: arch where "RCPP_ARCH_TOKENFORMER \<equiv> 932"
abbreviation (input) RCPP_ARCH_TOKI :: arch where "RCPP_ARCH_TOKI \<equiv> 933"
abbreviation (input) RCPP_ARCH_TOYL :: arch where "RCPP_ARCH_TOYL \<equiv> 934"
abbreviation (input) RCPP_ARCH_TRANSCOREMQWEN :: arch where "RCPP_ARCH_TRANSCOREMQWEN \<equiv> 935"
abbreviation (input) RCPP_ARCH_TRANSFORMERCHATBOT :: arch where "RCPP_ARCH_TRANSFORMERCHATBOT \<equiv> 936"
abbreviation (input) RCPP_ARCH_TRANSFORMER :: arch where "RCPP_ARCH_TRANSFORMER \<equiv> 937"
abbreviation (input) RCPP_ARCH_TRANSFORMERWITHPRUNING :: arch where "RCPP_ARCH_TRANSFORMERWITHPRUNING \<equiv> 938"
abbreviation (input) RCPP_ARCH_TRMTEXTISM :: arch where "RCPP_ARCH_TRMTEXTISM \<equiv> 939"
abbreviation (input) RCPP_ARCH_TROCR :: arch where "RCPP_ARCH_TROCR \<equiv> 940"
abbreviation (input) RCPP_ARCH_TRTCV4 :: arch where "RCPP_ARCH_TRTCV4 \<equiv> 941"
abbreviation (input) RCPP_ARCH_TTTPILOTMAC :: arch where "RCPP_ARCH_TTTPILOTMAC \<equiv> 942"
abbreviation (input) RCPP_ARCH_TURING :: arch where "RCPP_ARCH_TURING \<equiv> 943"
abbreviation (input) RCPP_ARCH_TWINKELL :: arch where "RCPP_ARCH_TWINKELL \<equiv> 944"
abbreviation (input) RCPP_ARCH_TYNEROX :: arch where "RCPP_ARCH_TYNEROX \<equiv> 945"
abbreviation (input) RCPP_ARCH_ULLAVA :: arch where "RCPP_ARCH_ULLAVA \<equiv> 946"
abbreviation (input) RCPP_ARCH_ULLAVACORE :: arch where "RCPP_ARCH_ULLAVACORE \<equiv> 947"
abbreviation (input) RCPP_ARCH_UNIFIED :: arch where "RCPP_ARCH_UNIFIED \<equiv> 948"
abbreviation (input) RCPP_ARCH_URCHINPARALLEL :: arch where "RCPP_ARCH_URCHINPARALLEL \<equiv> 949"
abbreviation (input) RCPP_ARCH_VANFAST :: arch where "RCPP_ARCH_VANFAST \<equiv> 950"
abbreviation (input) RCPP_ARCH_VEGA :: arch where "RCPP_ARCH_VEGA \<equiv> 951"
abbreviation (input) RCPP_ARCH_VEGAV1 :: arch where "RCPP_ARCH_VEGAV1 \<equiv> 952"
abbreviation (input) RCPP_ARCH_VERAMOELITE :: arch where "RCPP_ARCH_VERAMOELITE \<equiv> 953"
abbreviation (input) RCPP_ARCH_VERANTYX :: arch where "RCPP_ARCH_VERANTYX \<equiv> 954"
abbreviation (input) RCPP_ARCH_VGT8LENGINE :: arch where "RCPP_ARCH_VGT8LENGINE \<equiv> 955"
abbreviation (input) RCPP_ARCH_VILA :: arch where "RCPP_ARCH_VILA \<equiv> 956"
abbreviation (input) RCPP_ARCH_VLITE3 :: arch where "RCPP_ARCH_VLITE3 \<equiv> 957"
abbreviation (input) RCPP_ARCH_VLITE35 :: arch where "RCPP_ARCH_VLITE35 \<equiv> 958"
abbreviation (input) RCPP_ARCH_VLITE7 :: arch where "RCPP_ARCH_VLITE7 \<equiv> 959"
abbreviation (input) RCPP_ARCH_VLITE7MINI20M :: arch where "RCPP_ARCH_VLITE7MINI20M \<equiv> 960"
abbreviation (input) RCPP_ARCH_VRINDA :: arch where "RCPP_ARCH_VRINDA \<equiv> 961"
abbreviation (input) RCPP_ARCH_VRITYA :: arch where "RCPP_ARCH_VRITYA \<equiv> 962"
abbreviation (input) RCPP_ARCH_VSB :: arch where "RCPP_ARCH_VSB \<equiv> 963"
abbreviation (input) RCPP_ARCH_WASMINTERPRETERTRANSFORM :: arch where "RCPP_ARCH_WASMINTERPRETERTRANSFORM \<equiv> 964"
abbreviation (input) RCPP_ARCH_WBOT15 :: arch where "RCPP_ARCH_WBOT15 \<equiv> 965"
abbreviation (input) RCPP_ARCH_WELMIA :: arch where "RCPP_ARCH_WELMIA \<equiv> 966"
abbreviation (input) RCPP_ARCH_WILDNERVETLM01 :: arch where "RCPP_ARCH_WILDNERVETLM01 \<equiv> 967"
abbreviation (input) RCPP_ARCH_WIOLA :: arch where "RCPP_ARCH_WIOLA \<equiv> 968"
abbreviation (input) RCPP_ARCH_WORDLATENTTRANSFORMER :: arch where "RCPP_ARCH_WORDLATENTTRANSFORMER \<equiv> 969"
abbreviation (input) RCPP_ARCH_WYRMLING :: arch where "RCPP_ARCH_WYRMLING \<equiv> 970"
abbreviation (input) RCPP_ARCH_XEROBIOAI :: arch where "RCPP_ARCH_XEROBIOAI \<equiv> 971"
abbreviation (input) RCPP_ARCH_XLSTM :: arch where "RCPP_ARCH_XLSTM \<equiv> 972"
abbreviation (input) RCPP_ARCH_XOMDICH :: arch where "RCPP_ARCH_XOMDICH \<equiv> 973"
abbreviation (input) RCPP_ARCH_YAZH :: arch where "RCPP_ARCH_YAZH \<equiv> 974"
abbreviation (input) RCPP_ARCH_Y11 :: arch where "RCPP_ARCH_Y11 \<equiv> 975"
abbreviation (input) RCPP_ARCH_Y2 :: arch where "RCPP_ARCH_Y2 \<equiv> 976"
abbreviation (input) RCPP_ARCH_Y3 :: arch where "RCPP_ARCH_Y3 \<equiv> 977"
abbreviation (input) RCPP_ARCH_Y31 :: arch where "RCPP_ARCH_Y31 \<equiv> 978"
abbreviation (input) RCPP_ARCH_ZETAGRID25B :: arch where "RCPP_ARCH_ZETAGRID25B \<equiv> 979"
abbreviation (input) RCPP_ARCH_ZIPFORMER :: arch where "RCPP_ARCH_ZIPFORMER \<equiv> 980"
abbreviation (input) RCPP_ARCH_ZORIXNANO :: arch where "RCPP_ARCH_ZORIXNANO \<equiv> 981"
abbreviation (input) RCPP_ARCH_ZZJRABBIT2 :: arch where "RCPP_ARCH_ZZJRABBIT2 \<equiv> 982"
abbreviation (input) RCPP_ARCH_ZZJRABBIT22 :: arch where "RCPP_ARCH_ZZJRABBIT22 \<equiv> 983"
abbreviation (input) RCPP_ARCH_ZZJRABBIT3 :: arch where "RCPP_ARCH_ZZJRABBIT3 \<equiv> 984"
abbreviation (input) RCPP_ARCH_ZZJRABBIT :: arch where "RCPP_ARCH_ZZJRABBIT \<equiv> 985"
abbreviation (input) RCPP_ARCH_FUYU :: arch where "RCPP_ARCH_FUYU \<equiv> 986"
abbreviation (input) RCPP_ARCH_MUSE :: arch where "RCPP_ARCH_MUSE \<equiv> 987"
abbreviation (input) RCPP_ARCH_NEMOTRON :: arch where "RCPP_ARCH_NEMOTRON \<equiv> 989"
abbreviation (input) RCPP_ARCH_BARETORCH :: arch where "RCPP_ARCH_BARETORCH \<equiv> 990"
abbreviation (input) RCPP_ARCH_QU_SSM :: arch where "RCPP_ARCH_QU_SSM \<equiv> 991"
abbreviation (input) RCPP_ARCH_ARO_BABYLM :: arch where "RCPP_ARCH_ARO_BABYLM \<equiv> 992"
abbreviation (input) RCPP_ARCH_BREEZE_TTS :: arch where "RCPP_ARCH_BREEZE_TTS \<equiv> 993"
abbreviation (input) RCPP_ARCH_HYV4 :: arch where "RCPP_ARCH_HYV4 \<equiv> 994"
abbreviation (input) RCPP_ARCH_BANANAMIND21CODER :: arch where "RCPP_ARCH_BANANAMIND21CODER \<equiv> 995"
abbreviation (input) RCPP_ARCH_BANANAMIND21LITE :: arch where "RCPP_ARCH_BANANAMIND21LITE \<equiv> 996"
abbreviation (input) RCPP_ARCH_CONCEPT_DOMINANT_GPTBERT :: arch where "RCPP_ARCH_CONCEPT_DOMINANT_GPTBERT \<equiv> 997"
abbreviation (input) RCPP_ARCH_TRHASH :: arch where "RCPP_ARCH_TRHASH \<equiv> 998"
abbreviation (input) RCPP_ARCH_LLAVAONEVISION :: arch where "RCPP_ARCH_LLAVAONEVISION \<equiv> 999"
abbreviation (input) RCPP_ARCH_SPARK2_5 :: arch where "RCPP_ARCH_SPARK2_5 \<equiv> 1000"
abbreviation (input) RCPP_ARCH_TINYTRANSFORMER :: arch where "RCPP_ARCH_TINYTRANSFORMER \<equiv> 1001"
abbreviation (input) RCPP_ARCH_IKNN :: arch where "RCPP_ARCH_IKNN \<equiv> 1002"
abbreviation (input) RCPP_ARCH_K2HORIZON :: arch where "RCPP_ARCH_K2HORIZON \<equiv> 1003"
abbreviation (input) RCPP_ARCH_JUGNUVR :: arch where "RCPP_ARCH_JUGNUVR \<equiv> 1004"
abbreviation (input) RCPP_ARCH_M2R :: arch where "RCPP_ARCH_M2R \<equiv> 1005"
abbreviation (input) RCPP_ARCH_ENGLISHBASE :: arch where "RCPP_ARCH_ENGLISHBASE \<equiv> 1006"
abbreviation (input) RCPP_ARCH_UNKNOWN :: arch where "RCPP_ARCH_UNKNOWN \<equiv> 988"

definition arch_tokens_1 :: "arch list" where
  "arch_tokens_1 =
   [
    RCPP_ARCH_BITNET, RCPP_ARCH_QWEN3, RCPP_ARCH_LLAMA, RCPP_ARCH_MISTRAL, RCPP_ARCH_QWEN2,
    RCPP_ARCH_GEMMA, RCPP_ARCH_PHI, RCPP_ARCH_ZAMBA2, RCPP_ARCH_ZAMBA, RCPP_ARCH_MAMBA,
    RCPP_ARCH_LAGUNA, RCPP_ARCH_FALCON, RCPP_ARCH_OLMO, RCPP_ARCH_ZAYA, RCPP_ARCH_QWEN2VL,
    RCPP_ARCH_WHISPER, RCPP_ARCH_DEEPSEEK, RCPP_ARCH_QWEN3VL, RCPP_ARCH_KIMI_K3,
    RCPP_ARCH_MOONLIGHT, RCPP_ARCH_KIMI_VL, RCPP_ARCH_QWEN35, RCPP_ARCH_DEEPSEEK_V4,
    RCPP_ARCH_GPT2, RCPP_ARCH_GPTNEOX, RCPP_ARCH_OPT, RCPP_ARCH_GPTNEO, RCPP_ARCH_CODEGEN,
    RCPP_ARCH_GPTJ, RCPP_ARCH_GPTOSS, RCPP_ARCH_STEP1, RCPP_ARCH_BLOOM, RCPP_ARCH_LFM2,
    RCPP_ARCH_NANOCHAT, RCPP_ARCH_NEMOTRONH, RCPP_ARCH_MINIMAXM2, RCPP_ARCH_COHERE2,
    RCPP_ARCH_FALCONH1, RCPP_ARCH_RWKV, RCPP_ARCH_GRANITEMOEHYBRID, RCPP_ARCH_LFM2MOE,
    RCPP_ARCH_HYV3, RCPP_ARCH_AFMOE, RCPP_ARCH_ERNIE45MOE, RCPP_ARCH_MELLUM, RCPP_ARCH_PHIMOE,
    RCPP_ARCH_MINIMAX, RCPP_ARCH_COHERE2MOE, RCPP_ARCH_EXAONEMOE, RCPP_ARCH_FALCONMAMBA,
    RCPP_ARCH_JETMOE, RCPP_ARCH_QWEN3NEXT, RCPP_ARCH_PICO, RCPP_ARCH_DYNAMICALIBI,
    RCPP_ARCH_LLAMA4, RCPP_ARCH_JAIS, RCPP_ARCH_DYNAMICFORGETTING, RCPP_ARCH_DYNAMICSLIDINGWINDOW,
    RCPP_ARCH_KORMO, RCPP_ARCH_RWKV7, RCPP_ARCH_CHATGLM, RCPP_ARCH_SARVAM, RCPP_ARCH_RAVEN,
    RCPP_ARCH_TALKIE, RCPP_ARCH_LLADA2, RCPP_ARCH_LOOPLM, RCPP_ARCH_STEP3P5, RCPP_ARCH_DAISY,
    RCPP_ARCH_MULTISCALE, RCPP_ARCH_SKIPMIDDLE, RCPP_ARCH_MOTIF, RCPP_ARCH_QUASAR, RCPP_ARCH_HGRN,
    RCPP_ARCH_RETNET, RCPP_ARCH_CUBELM, RCPP_ARCH_RECURRENTGEMMA, RCPP_ARCH_LIGHTNINGTRANSFORMER,
    RCPP_ARCH_SPIKEWHALE, RCPP_ARCH_STL, RCPP_ARCH_XPERTGPT, RCPP_ARCH_YATGPT, RCPP_ARCH_CENO,
    RCPP_ARCH_FIMMY, RCPP_ARCH_HYENADNA, RCPP_ARCH_LLAMAMOE, RCPP_ARCH_MODERNBERTDECODER,
    RCPP_ARCH_ORKHON, RCPP_ARCH_ROFORMER, RCPP_ARCH_STRIPEDHYENA, RCPP_ARCH_ARGONNE, RCPP_ARCH_EMO,
    RCPP_ARCH_FORGETTINGTRANSFORMER, RCPP_ARCH_GPTBERT, RCPP_ARCH_GPTJXMOE, RCPP_ARCH_KEURALMOE,
    RCPP_ARCH_FINANCEDECODER, RCPP_ARCH_REFORMER, RCPP_ARCH_ACIP, RCPP_ARCH_COGNICAPOE,
    RCPP_ARCH_GRUGMOE, RCPP_ARCH_LONGCAT, RCPP_ARCH_TELECHAT, RCPP_ARCH_BTLM, RCPP_ARCH_DUCHIFAT,
    RCPP_ARCH_DUO, RCPP_ARCH_ESHMUN, RCPP_ARCH_GLA, RCPP_ARCH_POLYVERSE, RCPP_ARCH_TRANSFOXL,
    RCPP_ARCH_TRANSNORMER, RCPP_ARCH_TWINY, RCPP_ARCH_GPTPANGU, RCPP_ARCH_BVV,
    RCPP_ARCH_A194LOGITENSEMBLE, RCPP_ARCH_ABIR, RCPP_ARCH_ABU2HEAD, RCPP_ARCH_ACERAG,
    RCPP_ARCH_ACSWIGLU, RCPP_ARCH_ADAPTIVERIVER, RCPP_ARCH_AETHERMICRO, RCPP_ARCH_AILO,
    RCPP_ARCH_AILOLOOP, RCPP_ARCH_ALINLIGHT, RCPP_ARCH_AMADABLAM, RCPP_ARCH_ANCIENTAIV,
    RCPP_ARCH_ANUBISMOE, RCPP_ARCH_APRIEL2, RCPP_ARCH_ARAR381M, RCPP_ARCH_ASCLE,
    RCPP_ARCH_ASGTRANSFORMER, RCPP_ARCH_ATTNONLY, RCPP_ARCH_AUTOENCODER, RCPP_ARCH_AUTOGUI,
    RCPP_ARCH_AVEYDECODERMOE, RCPP_ARCH_AXON, RCPP_ARCH_AYAVISION, RCPP_ARCH_BACFORMERGM,
    RCPP_ARCH_BACKBONECONCEPT, RCPP_ARCH_BAC, RCPP_ARCH_BAILINGMOELINEAR,
    RCPP_ARCH_BANANAMIND2MEDIUM, RCPP_ARCH_BANANAMIND2MICRO, RCPP_ARCH_BANANAMIND2MINI,
    RCPP_ARCH_BANANAMIND2MOE, RCPP_ARCH_BANANAMIND2NANO]"

definition arch_tokens_2 :: "arch list" where
  "arch_tokens_2 =
   [
    RCPP_ARCH_BANANAMIND2PRO, RCPP_ARCH_BANGLAGAMBA, RCPP_ARCH_BANGLAGSG, RCPP_ARCH_BARBET,
    RCPP_ARCH_BEETLEMOEHF, RCPP_ARCH_BHARATAI, RCPP_ARCH_BIATRON, RCPP_ARCH_BIGBRAINLANGUAGE,
    RCPP_ARCH_BINARYL, RCPP_ARCH_BITSKIPV1WITHEARLYEXIT, RCPP_ARCH_BITSKIPV2WITHEARLYEXIT,
    RCPP_ARCH_BITSKIPV3, RCPP_ARCH_BORAMOE, RCPP_ARCH_BRAILLE256, RCPP_ARCH_BRANCHYCAUSAL,
    RCPP_ARCH_BRIDGEVQA, RCPP_ARCH_BUCKETMEMORY, RCPP_ARCH_BUNGEO, RCPP_ARCH_CABLE,
    RCPP_ARCH_CAUSALLMOE, RCPP_ARCH_CELERITY, RCPP_ARCH_CFRD, RCPP_ARCH_CHAMELEONXLLMX,
    RCPP_ARCH_CI, RCPP_ARCH_CINNABAR, RCPP_ARCH_CLARITYMR1, RCPP_ARCH_CLINAMEN, RCPP_ARCH_CLOVER,
    RCPP_ARCH_CMA, RCPP_ARCH_CODIFY, RCPP_ARCH_CODVA1, RCPP_ARCH_COFFEECHATAI,
    RCPP_ARCH_COHERENCEMOMENTUM, RCPP_ARCH_COMPLIANTL, RCPP_ARCH_CONVAICAUSAL,
    RCPP_ARCH_COSMICFISH, RCPP_ARCH_CPMANT, RCPP_ARCH_CPMBEE, RCPP_ARCH_CUBICPIPELINEOPTIMIZER,
    RCPP_ARCH_CUBICV11LONGCONTEXT, RCPP_ARCH_CUBICZANMOE, RCPP_ARCH_CUSTOMDECODERONLYT5,
    RCPP_ARCH_CUSTOM5, RCPP_ARCH_CUSTOMTAGALOGL, RCPP_ARCH_CUSTOMTRANSFORMER,
    RCPP_ARCH_CYCLICFORMER, RCPP_ARCH_D3PMSANSKRIT, RCPP_ARCH_DARKITV15, RCPP_ARCH_DARKITV25,
    RCPP_ARCH_DARWINDUOORCHESTRATOR, RCPP_ARCH_DATA2VECTEXT, RCPP_ARCH_DCFORMER,
    RCPP_ARCH_DECODERONLYTRANSFORMER, RCPP_ARCH_DECODON, RCPP_ARCH_DENSEL, RCPP_ARCH_DFM,
    RCPP_ARCH_DISTILLIX, RCPP_ARCH_DOMAINTRANSFORMER, RCPP_ARCH_DOT, RCPP_ARCH_DOTSOCR,
    RCPP_ARCH_DSHYBRID, RCPP_ARCH_DWARF, RCPP_ARCH_DYNAMICMINDMOE, RCPP_ARCH_DYNAMICNEURALNETWORK,
    RCPP_ARCH_ECHO, RCPP_ARCH_ECHOES, RCPP_ARCH_ECOACO, RCPP_ARCH_ELASTICGPT, RCPP_ARCH_ENSEMBLE,
    RCPP_ARCH_ERKLINEAR, RCPP_ARCH_EVAFRILLMO, RCPP_ARCH_EVEMOE, RCPP_ARCH_EVO1,
    RCPP_ARCH_FASTPLUS, RCPP_ARCH_FASTPLUS125M, RCPP_ARCH_FASTPLUS40M, RCPP_ARCH_FASTY,
    RCPP_ARCH_FELA, RCPP_ARCH_FERN3B, RCPP_ARCH_FIELDSHUB, RCPP_ARCH_FIPHINEURALARK39ULTRA,
    RCPP_ARCH_FIXEDENHANCEDHYBRIDTRANS, RCPP_ARCH_FLEXRANK, RCPP_ARCH_FONTAINE, RCPP_ARCH_FRAWDL,
    RCPP_ARCH_FRENCHL, RCPP_ARCH_FSGPT, RCPP_ARCH_FSGPTMOE, RCPP_ARCH_FUSE3, RCPP_ARCH_FUSE3V2,
    RCPP_ARCH_FUTUREGQ47M, RCPP_ARCH_FUTUREGQ47Q, RCPP_ARCH_FUXITRANYU, RCPP_ARCH_FWKVLANGUAGE,
    RCPP_ARCH_G0NANO, RCPP_ARCH_GAD2FORAGENTICING, RCPP_ARCH_GADFORAGENTICING, RCPP_ARCH_GALAHAD,
    RCPP_ARCH_GATEDDELTAPRODUCT, RCPP_ARCH_GAZELLE, RCPP_ARCH_GEMBYTINY, RCPP_ARCH_GEOV,
    RCPP_ARCH_GIFTOFGAB, RCPP_ARCH_GLUB, RCPP_ARCH_GODQUEENIV, RCPP_ARCH_GRAVITYMOE,
    RCPP_ARCH_GROK2, RCPP_ARCH_GROUNDEDBLIP, RCPP_ARCH_GUPPY, RCPP_ARCH_H2OVLCHAT,
    RCPP_ARCH_HAIPAI, RCPP_ARCH_HALTCOT, RCPP_ARCH_HANFORGE, RCPP_ARCH_HCXVISION,
    RCPP_ARCH_HCXVISIONV2, RCPP_ARCH_HELLOAGENT, RCPP_ARCH_HENLACONFED, RCPP_ARCH_HFBYTEETM,
    RCPP_ARCH_HFOPENMOE, RCPP_ARCH_HINDICAUSAL, RCPP_ARCH_HLM5, RCPP_ARCH_HRM,
    RCPP_ARCH_HRMCOSMICFISH, RCPP_ARCH_HRMTEXTMOE, RCPP_ARCH_HTDN, RCPP_ARCH_HYBRIDECHO,
    RCPP_ARCH_HYBRIDFOURIER, RCPP_ARCH_HYBRIDGATEDDELTANET, RCPP_ARCH_HYBRIDMORMOE,
    RCPP_ARCH_HYBRIDTINY, RCPP_ARCH_HYBRIDTRANSFORMERV2, RCPP_ARCH_HYBRIKO, RCPP_ARCH_I3HYBRIDCHAT,
    RCPP_ARCH_INFIMMHD, RCPP_ARCH_INFIMMVICUNA, RCPP_ARCH_INFIMMZEPHYR, RCPP_ARCH_INKLING,
    RCPP_ARCH_INVERSIONFROMHIDDENSTATE, RCPP_ARCH_IONS1, RCPP_ARCH_ISLLMAI50M,
    RCPP_ARCH_IVMECODERV1, RCPP_ARCH_IVMECONVERSATES, RCPP_ARCH_IVMECONVERSATESV2INSTRUC,
    RCPP_ARCH_IVMEXL, RCPP_ARCH_JEENEY, RCPP_ARCH_JEEVES, RCPP_ARCH_JUDGEXL, RCPP_ARCH_KATEAI,
    RCPP_ARCH_KEYSTONEFUSE, RCPP_ARCH_KFM]"

definition arch_tokens_3 :: "arch list" where
  "arch_tokens_3 =
   [
    RCPP_ARCH_KLEARMOE, RCPP_ARCH_KNKVF, RCPP_ARCH_KOPRIA, RCPP_ARCH_KORMOMOE,
    RCPP_ARCH_KOSMOS25TEXT, RCPP_ARCH_KSBYTE, RCPP_ARCH_KVLATENT, RCPP_ARCH_LAMINARNET,
    RCPP_ARCH_LANCEAI, RCPP_ARCH_LANEFORMER, RCPP_ARCH_LATENTRECURRENTDEPTH, RCPP_ARCH_LEDGERNET,
    RCPP_ARCH_LIGERGLA, RCPP_ARCH_LIGHTBRAINHYBRID, RCPP_ARCH_LLAVAMONET, RCPP_ARCH_LLAVAVISTRAL,
    RCPP_ARCH_LLTRANSFORMER, RCPP_ARCH_LOAF, RCPP_ARCH_LOCALL, RCPP_ARCH_LOLEVE,
    RCPP_ARCH_LONGCATFLASHOMNI, RCPP_ARCH_LONGCATNEXT, RCPP_ARCH_LOOMFORMER, RCPP_ARCH_LSMOE,
    RCPP_ARCH_LSWT, RCPP_ARCH_LUMEES, RCPP_ARCH_LUMEN, RCPP_ARCH_LUMENSPARK, RCPP_ARCH_MACCY,
    RCPP_ARCH_MAGNETAR, RCPP_ARCH_MARKUPDM, RCPP_ARCH_MATHBANANAMIND, RCPP_ARCH_MATILDA,
    RCPP_ARCH_MATRIOCHKA, RCPP_ARCH_MCQHF, RCPP_ARCH_MD, RCPP_ARCH_MDLMBPEV4, RCPP_ARCH_MEDHEMO,
    RCPP_ARCH_MEDHEMOEARCP, RCPP_ARCH_MEGATRON, RCPP_ARCH_MEGREZMOE, RCPP_ARCH_METAL,
    RCPP_ARCH_METISMOR, RCPP_ARCH_MICROBANANA, RCPP_ARCH_MICROSTORYBANANAMIND, RCPP_ARCH_MINGRU,
    RCPP_ARCH_MINGRU_MING, RCPP_ARCH_MINIART, RCPP_ARCH_MINIENEDINA, RCPP_ARCH_MINIGEMINIMIXTRAL,
    RCPP_ARCH_MINITRANSFORMER, RCPP_ARCH_MINSPARK, RCPP_ARCH_MIRIDIHLLAVA, RCPP_ARCH_MIXTRAL8X7B,
    RCPP_ARCH_MLPSPECULATORPRETRAINED, RCPP_ARCH_MMMADNESSLLM, RCPP_ARCH_MOAMETRIC,
    RCPP_ARCH_MOBILINTCOHERE2, RCPP_ARCH_MOCHIVA, RCPP_ARCH_MODULEFORMER, RCPP_ARCH_MOE,
    RCPP_ARCH_MOETRANSFORMER, RCPP_ARCH_MOIRAICAUSAL, RCPP_ARCH_MOLEXAR, RCPP_ARCH_MONAD1,
    RCPP_ARCH_MOTHERCORE, RCPP_ARCH_MUDDFORMER, RCPP_ARCH_MULTIMODALSUPER, RCPP_ARCH_MULTISCREEN,
    RCPP_ARCH_MUXX11, RCPP_ARCH_MYCOACH, RCPP_ARCH_MYGROK, RCPP_ARCH_NABLAVL, RCPP_ARCH_NAFIE,
    RCPP_ARCH_NANOCHRONO, RCPP_ARCH_NANOMOE, RCPP_ARCH_NANOS11LITE, RCPP_ARCH_NANOTHINK,
    RCPP_ARCH_NANOTRANSFORMER, RCPP_ARCH_NANOWHALEDIME, RCPP_ARCH_NARCTINY,
    RCPP_ARCH_NATURECODEOCEAN, RCPP_ARCH_NDLMOE, RCPP_ARCH_NEE, RCPP_ARCH_NEEDCONVERSATIONAL,
    RCPP_ARCH_NEKOMINDMOE, RCPP_ARCH_NEPALEDGE, RCPP_ARCH_NEURON, RCPP_ARCH_NEURONSPARK,
    RCPP_ARCH_NEXARA, RCPP_ARCH_NGEN3, RCPP_ARCH_NGEN3_NGEN, RCPP_ARCH_NGEN4, RCPP_ARCH_NGEN4OW10T,
    RCPP_ARCH_NILEX, RCPP_ARCH_NOEUM, RCPP_ARCH_NOTOKENGEN, RCPP_ARCH_NTV3GENERATIVE,
    RCPP_ARCH_NUSHY5, RCPP_ARCH_OBILANGUAGE, RCPP_ARCH_OBSIDIANMULTISCREEN, RCPP_ARCH_ODINNEXT,
    RCPP_ARCH_OLM3NANO, RCPP_ARCH_OPENMYTHOS, RCPP_ARCH_OPENTHAIWILAI,
    RCPP_ARCH_OPENVLAFORACTIONPREDICTI, RCPP_ARCH_ORIONMOECAUSAL, RCPP_ARCH_OS24, RCPP_ARCH_OTTER,
    RCPP_ARCH_OUTLIERMOE, RCPP_ARCH_PACKEDL, RCPP_ARCH_PAGNOLXL, RCPP_ARCH_PAINTER, RCPP_ARCH_PANO,
    RCPP_ARCH_PARAM1MOE, RCPP_ARCH_PARAM2MOE, RCPP_ARCH_PARAMTATVATRANSFORMER, RCPP_ARCH_PARCHMENT,
    RCPP_ARCH_PERSIMMON, RCPP_ARCH_PINANOLM100M, RCPP_ARCH_PINANOLM20M, RCPP_ARCH_PINANOLM50M,
    RCPP_ARCH_PINKELEPHANT, RCPP_ARCH_PLAPT, RCPP_ARCH_PLBART, RCPP_ARCH_PLETINY,
    RCPP_ARCH_PMMINIFINL, RCPP_ARCH_PORTHORMOE, RCPP_ARCH_PRAJNASTUDENTMULTILAYER,
    RCPP_ARCH_PRATCHYA, RCPP_ARCH_PRISMCHARMLP, RCPP_ARCH_PRIVATEL, RCPP_ARCH_PZDRKREASONING,
    RCPP_ARCH_QMOE, RCPP_ARCH_QOFFICESUITERUNTIME, RCPP_ARCH_QOVARYX, RCPP_ARCH_QUADORBIT,
    RCPP_ARCH_RAMO, RCPP_ARCH_RAVENGUARD, RCPP_ARCH_REALTRANSFORMER,
    RCPP_ARCH_RECOMBINATIONTRANSFORMER, RCPP_ARCH_RECURSIVECOMPRESSOR, RCPP_ARCH_RECURSIVELANGUAGE,
    RCPP_ARCH_REGRESSIONISATTENTION, RCPP_ARCH_RITA, RCPP_ARCH_RUBIR, RCPP_ARCH_SAFFU,
    RCPP_ARCH_SASEQUINTILLIONASI, RCPP_ARCH_SDARMOE, RCPP_ARCH_SENTINELBRAIN]"

definition arch_tokens_4 :: "arch list" where
  "arch_tokens_4 =
   [
    RCPP_ARCH_SEQAX, RCPP_ARCH_SEQCOND, RCPP_ARCH_SERMENTAL, RCPP_ARCH_SEWYV2, RCPP_ARCH_SHIVIKM1,
    RCPP_ARCH_SHIVIKM2, RCPP_ARCH_SHIVIKM4, RCPP_ARCH_SHRINK, RCPP_ARCH_SIGER,
    RCPP_ARCH_SIMPLESTORIES, RCPP_ARCH_SIMPLESTORIES4M, RCPP_ARCH_SIXPERTMOE, RCPP_ARCH_SLIMMOE,
    RCPP_ARCH_SLMOE, RCPP_ARCH_SMALLLANGUAGE, RCPP_ARCH_SMARTCODERMOE, RCPP_ARCH_SMDM,
    RCPP_ARCH_SM, RCPP_ARCH_SMT, RCPP_ARCH_SOFANOR, RCPP_ARCH_SOLOL, RCPP_ARCH_SONAMATH,
    RCPP_ARCH_SORAFORS, RCPP_ARCH_SOVYTHOS, RCPP_ARCH_SPHERICALKANBYTE, RCPP_ARCH_SRCPROBER,
    RCPP_ARCH_STATEHEAD, RCPP_ARCH_STEERLING, RCPP_ARCH_STELLARAI,
    RCPP_ARCH_STOCHASTICFREQUENCYFILTE, RCPP_ARCH_SUPRABRAIN, RCPP_ARCH_SWARMMOE, RCPP_ARCH_SWETA,
    RCPP_ARCH_SYKOCAUSAL, RCPP_ARCH_TAHQIQGENESIS, RCPP_ARCH_TAMAZIGHT, RCPP_ARCH_TAME,
    RCPP_ARCH_TAMILTINYSTORIES, RCPP_ARCH_TAONETMINIT2, RCPP_ARCH_TCMOE, RCPP_ARCH_THINKER,
    RCPP_ARCH_TINY, RCPP_ARCH_TINYBUDDY, RCPP_ARCH_TINY_TINY, RCPP_ARCH_TINYMIND,
    RCPP_ARCH_TINYPEL, RCPP_ARCH_TINYV4, RCPP_ARCH_TINYWAY, RCPP_ARCH_TNL1385M10BTOKENNOACT,
    RCPP_ARCH_TOKENFORMER, RCPP_ARCH_TOKI, RCPP_ARCH_TOYL, RCPP_ARCH_TRANSCOREMQWEN,
    RCPP_ARCH_TRANSFORMERCHATBOT, RCPP_ARCH_TRANSFORMER, RCPP_ARCH_TRANSFORMERWITHPRUNING,
    RCPP_ARCH_TRMTEXTISM, RCPP_ARCH_TROCR, RCPP_ARCH_TRTCV4, RCPP_ARCH_TTTPILOTMAC,
    RCPP_ARCH_TURING, RCPP_ARCH_TWINKELL, RCPP_ARCH_TYNEROX, RCPP_ARCH_ULLAVA,
    RCPP_ARCH_ULLAVACORE, RCPP_ARCH_UNIFIED, RCPP_ARCH_URCHINPARALLEL, RCPP_ARCH_VANFAST,
    RCPP_ARCH_VEGA, RCPP_ARCH_VEGAV1, RCPP_ARCH_VERAMOELITE, RCPP_ARCH_VERANTYX,
    RCPP_ARCH_VGT8LENGINE, RCPP_ARCH_VILA, RCPP_ARCH_VLITE3, RCPP_ARCH_VLITE35, RCPP_ARCH_VLITE7,
    RCPP_ARCH_VLITE7MINI20M, RCPP_ARCH_VRINDA, RCPP_ARCH_VRITYA, RCPP_ARCH_VSB,
    RCPP_ARCH_WASMINTERPRETERTRANSFORM, RCPP_ARCH_WBOT15, RCPP_ARCH_WELMIA,
    RCPP_ARCH_WILDNERVETLM01, RCPP_ARCH_WIOLA, RCPP_ARCH_WORDLATENTTRANSFORMER, RCPP_ARCH_WYRMLING,
    RCPP_ARCH_XEROBIOAI, RCPP_ARCH_XLSTM, RCPP_ARCH_XOMDICH, RCPP_ARCH_YAZH, RCPP_ARCH_Y11,
    RCPP_ARCH_Y2, RCPP_ARCH_Y3, RCPP_ARCH_Y31, RCPP_ARCH_ZETAGRID25B, RCPP_ARCH_ZIPFORMER,
    RCPP_ARCH_ZORIXNANO, RCPP_ARCH_ZZJRABBIT2, RCPP_ARCH_ZZJRABBIT22, RCPP_ARCH_ZZJRABBIT3,
    RCPP_ARCH_ZZJRABBIT, RCPP_ARCH_FUYU, RCPP_ARCH_MUSE, RCPP_ARCH_NEMOTRON, RCPP_ARCH_BARETORCH,
    RCPP_ARCH_QU_SSM, RCPP_ARCH_ARO_BABYLM, RCPP_ARCH_BREEZE_TTS, RCPP_ARCH_HYV4,
    RCPP_ARCH_BANANAMIND21CODER, RCPP_ARCH_BANANAMIND21LITE, RCPP_ARCH_CONCEPT_DOMINANT_GPTBERT,
    RCPP_ARCH_TRHASH, RCPP_ARCH_LLAVAONEVISION, RCPP_ARCH_SPARK2_5, RCPP_ARCH_TINYTRANSFORMER,
    RCPP_ARCH_IKNN, RCPP_ARCH_K2HORIZON, RCPP_ARCH_JUGNUVR, RCPP_ARCH_M2R, RCPP_ARCH_ENGLISHBASE,
    RCPP_ARCH_UNKNOWN]"

definition arch_tokens :: "arch list" where
  "arch_tokens = arch_tokens_1 @ arch_tokens_2 @ arch_tokens_3 @ arch_tokens_4"

section \<open>The names\<close>

definition arch_rows_1 :: "(string \<times> arch) list" where
  "arch_rows_1 =
   [
    (''bitnet'', RCPP_ARCH_BITNET), (''qwen3'', RCPP_ARCH_QWEN3), (''llama'', RCPP_ARCH_LLAMA),
    (''mistral'', RCPP_ARCH_MISTRAL), (''ministral'', RCPP_ARCH_MISTRAL),
    (''ministral3'', RCPP_ARCH_LLAMA), (''sparsemistralforcausallm'', RCPP_ARCH_MISTRAL),
    (''qwen2'', RCPP_ARCH_QWEN2), (''gemma'', RCPP_ARCH_GEMMA), (''gemma2'', RCPP_ARCH_GEMMA),
    (''gemma3'', RCPP_ARCH_GEMMA), (''gemma4'', RCPP_ARCH_GEMMA), (''phi'', RCPP_ARCH_PHI),
    (''mixformersequential'', RCPP_ARCH_PHI), (''zamba2'', RCPP_ARCH_ZAMBA2),
    (''zamba'', RCPP_ARCH_ZAMBA), (''mamba'', RCPP_ARCH_MAMBA), (''laguna'', RCPP_ARCH_LAGUNA),
    (''falcon'', RCPP_ARCH_FALCON), (''falcon3'', RCPP_ARCH_FALCON), (''rw'', RCPP_ARCH_FALCON),
    (''olmo'', RCPP_ARCH_OLMO), (''olmo2'', RCPP_ARCH_OLMO), (''olmo3'', RCPP_ARCH_OLMO),
    (''olmoe'', RCPP_ARCH_OLMO), (''zaya'', RCPP_ARCH_ZAYA), (''qwen2vl'', RCPP_ARCH_QWEN2VL),
    (''qwen3vl'', RCPP_ARCH_QWEN3VL), (''deepseek'', RCPP_ARCH_QWEN2),
    (''deepseek2'', RCPP_ARCH_DEEPSEEK), (''deepseek3'', RCPP_ARCH_DEEPSEEK),
    (''stablelm'', RCPP_ARCH_LLAMA), (''stablelmepoch'', RCPP_ARCH_LLAMA),
    (''tinyllama'', RCPP_ARCH_LLAMA), (''openlm'', RCPP_ARCH_LLAMA),
    (''mobilellm'', RCPP_ARCH_LLAMA), (''customllama'', RCPP_ARCH_LLAMA),
    (''yi'', RCPP_ARCH_LLAMA), (''decilm'', RCPP_ARCH_LLAMA), (''hunyuan'', RCPP_ARCH_LLAMA),
    (''nanbeige'', RCPP_ARCH_LLAMA), (''recast8b_llama'', RCPP_ARCH_LLAMA),
    (''hyperllama'', RCPP_ARCH_LLAMA), (''sparsellama'', RCPP_ARCH_LLAMA),
    (''constrainedllama'', RCPP_ARCH_LLAMA), (''mosaic'', RCPP_ARCH_LLAMA),
    (''mpt'', RCPP_ARCH_LLAMA), (''pixtral'', RCPP_ARCH_MISTRAL), (''whisper'', RCPP_ARCH_WHISPER),
    (''granite'', RCPP_ARCH_GEMMA), (''granitemoe'', RCPP_ARCH_GEMMA), (''phi3'', RCPP_ARCH_PHI),
    (''phi3small'', RCPP_ARCH_PHI), (''kphi3'', RCPP_ARCH_PHI), (''phi4'', RCPP_ARCH_PHI),
    (''starcoder'', RCPP_ARCH_LLAMA), (''starcoder2'', RCPP_ARCH_LLAMA),
    (''command-r'', RCPP_ARCH_LLAMA), (''dbrx'', RCPP_ARCH_LLAMA), (''jamba'', RCPP_ARCH_LLAMA),
    (''baichuan'', RCPP_ARCH_LLAMA), (''baichuan2'', RCPP_ARCH_LLAMA),
    (''BaichuanForCausalLM'', RCPP_ARCH_LLAMA), (''exaone'', RCPP_ARCH_LLAMA),
    (''glm4'', RCPP_ARCH_LLAMA), (''ExaoneForCausalLM'', RCPP_ARCH_LLAMA),
    (''solar'', RCPP_ARCH_LLAMA), (''solaropen'', RCPP_ARCH_LLAMA),
    (''solaropen2'', RCPP_ARCH_LLAMA), (''internlm'', RCPP_ARCH_LLAMA),
    (''internlm2'', RCPP_ARCH_LLAMA), (''xverse'', RCPP_ARCH_LLAMA), (''qwen'', RCPP_ARCH_QWEN2),
    (''openelm'', RCPP_ARCH_LLAMA), (''OpenELMForCausalLM'', RCPP_ARCH_LLAMA),
    (''nemotron'', RCPP_ARCH_NEMOTRON), (''NemotronForCausalLM'', RCPP_ARCH_NEMOTRON),
    (''englishbase'', RCPP_ARCH_ENGLISHBASE), (''EnglishBaseForCausalLM'', RCPP_ARCH_ENGLISHBASE),
    (''englishbaseforcausallm'', RCPP_ARCH_ENGLISHBASE),
    (''fabryka_english_base'', RCPP_ARCH_ENGLISHBASE), (''minicpm'', RCPP_ARCH_LLAMA),
    (''MiniCPMForCausalLM'', RCPP_ARCH_LLAMA), (''smolvlm'', RCPP_ARCH_QWEN2VL),
    (''llava'', RCPP_ARCH_QWEN2VL), (''molmo'', RCPP_ARCH_OLMO), (''ovis'', RCPP_ARCH_GEMMA),
    (''paligemma'', RCPP_ARCH_GEMMA), (''florence'', RCPP_ARCH_QWEN2VL),
    (''phi_moe'', RCPP_ARCH_PHI), (''deepseek_v3'', RCPP_ARCH_DEEPSEEK),
    (''deepseek_v4'', RCPP_ARCH_DEEPSEEK_V4), (''deepseek4'', RCPP_ARCH_DEEPSEEK_V4),
    (''dflash'', RCPP_ARCH_DEEPSEEK_V4), (''dflashdraft'', RCPP_ARCH_QWEN3),
    (''qwen3dspark'', RCPP_ARCH_QWEN3), (''engramqwen'', RCPP_ARCH_QWEN3),
    (''deepseek4_dspark'', RCPP_ARCH_DEEPSEEK_V4), (''smollm'', RCPP_ARCH_LLAMA),
    (''smollm2'', RCPP_ARCH_LLAMA), (''smollm3'', RCPP_ARCH_LLAMA), (''apertus'', RCPP_ARCH_LLAMA),
    (''cohere'', RCPP_ARCH_LLAMA), (''gptbigcode'', RCPP_ARCH_LLAMA),
    (''internlm3'', RCPP_ARCH_LLAMA), (''mixtral'', RCPP_ARCH_MISTRAL),
    (''qwen2moe'', RCPP_ARCH_QWEN2), (''qwen3moe'', RCPP_ARCH_QWEN3),
    (''deepseekv2'', RCPP_ARCH_DEEPSEEK), (''deepseekv3'', RCPP_ARCH_DEEPSEEK),
    (''deepseekv32'', RCPP_ARCH_DEEPSEEK), (''deepseekv4'', RCPP_ARCH_DEEPSEEK_V4),
    (''gpt2'', RCPP_ARCH_GPT2), (''gpt2lmheadcustom'', RCPP_ARCH_GPT2),
    (''biogpt'', RCPP_ARCH_GPT2), (''xglm'', RCPP_ARCH_GPT2), (''gpjtgpt2model'', RCPP_ARCH_GPT2),
    (''gpt2almhead'', RCPP_ARCH_GPT2), (''poptorchpipelinedgpt2lmhead'', RCPP_ARCH_GPT2),
    (''gptneox'', RCPP_ARCH_GPTNEOX), (''opt'', RCPP_ARCH_OPT), (''gptneo'', RCPP_ARCH_GPTNEO),
    (''codegen'', RCPP_ARCH_CODEGEN), (''gptj'', RCPP_ARCH_GPTJ), (''gptjiang'', RCPP_ARCH_GPTJ),
    (''gptoss'', RCPP_ARCH_GPTOSS), (''step1'', RCPP_ARCH_STEP1), (''step1moe'', RCPP_ARCH_STEP1),
    (''bloom'', RCPP_ARCH_BLOOM), (''lfm2'', RCPP_ARCH_LFM2), (''bailingmoe'', RCPP_ARCH_LLAMA),
    (''bailingmoev2'', RCPP_ARCH_LLAMA), (''bailingmoev2_5'', RCPP_ARCH_LLAMA)]"

definition arch_rows_2 :: "(string \<times> arch) list" where
  "arch_rows_2 =
   [
    (''bailingmoev3'', RCPP_ARCH_LLAMA), (''bailingmoelinearv2'', RCPP_ARCH_LLAMA),
    (''bamba'', RCPP_ARCH_LLAMA), (''kimik25'', RCPP_ARCH_DEEPSEEK),
    (''instella'', RCPP_ARCH_DEEPSEEK), (''hybridqwen3'', RCPP_ARCH_LLAMA),
    (''gpt2moe'', RCPP_ARCH_GPT2), (''modeling_sparsetral.mistral'', RCPP_ARCH_MISTRAL),
    (''adavocabgemma'', RCPP_ARCH_GEMMA),
    (''aicraftar-tharo.g-conditionalgeneration'', RCPP_ARCH_QWEN2VL),
    (''antihal'', RCPP_ARCH_GEMMA), (''asvdopt'', RCPP_ARCH_OPT),
    (''automodel'', RCPP_ARCH_MISTRAL), (''backpackgpt2'', RCPP_ARCH_GPT2),
    (''bunnyqwen'', RCPP_ARCH_QWEN2), (''careaqa'', RCPP_ARCH_LLAMA),
    (''chexagent'', RCPP_ARCH_PHI), (''codebharat'', RCPP_ARCH_LLAMA),
    (''cogpt2'', RCPP_ARCH_GPT2), (''craneai'', RCPP_ARCH_GEMMA),
    (''custom_mpt'', RCPP_ARCH_LLAMA), (''custombiogpt'', RCPP_ARCH_GPT2),
    (''custommixtral'', RCPP_ARCH_MISTRAL), (''custommodel3'', RCPP_ARCH_GPTNEOX),
    (''dashqphi3'', RCPP_ARCH_PHI), (''deepseekv2mobe'', RCPP_ARCH_DEEPSEEK),
    (''deepseekv2sparsemobe'', RCPP_ARCH_DEEPSEEK),
    (''deepseekv3forcausallmnextn'', RCPP_ARCH_DEEPSEEK), (''denseformer'', RCPP_ARCH_LLAMA),
    (''dflashlaguna'', RCPP_ARCH_LAGUNA), (''dribble'', RCPP_ARCH_PHI),
    (''dribblellama'', RCPP_ARCH_LLAMA), (''duolaguna'', RCPP_ARCH_LAGUNA),
    (''dusmistral'', RCPP_ARCH_MISTRAL), (''edullm'', RCPP_ARCH_MISTRAL),
    (''efficientdlm'', RCPP_ARCH_QWEN3), (''exaonetd'', RCPP_ARCH_LLAMA),
    (''flashgptneox'', RCPP_ARCH_GPTNEOX), (''flaxgptj'', RCPP_ARCH_GPTJ),
    (''forcausallm'', RCPP_ARCH_GEMMA), (''fsdpgptoss'', RCPP_ARCH_GPTOSS),
    (''gemma4text'', RCPP_ARCH_GEMMA), (''gemmagain'', RCPP_ARCH_GEMMA),
    (''gfusionfordiffusionlm'', RCPP_ARCH_DEEPSEEK), (''gistgptneo'', RCPP_ARCH_GPTNEO),
    (''glamm'', RCPP_ARCH_QWEN2VL), (''paddleocrvl'', RCPP_ARCH_QWEN2VL),
    (''glus'', RCPP_ARCH_QWEN2VL), (''gpt2forquestionanswering'', RCPP_ARCH_GPT2),
    (''gpt2forsequenceclassification'', RCPP_ARCH_GPT2), (''gpt2lmandvaluehead'', RCPP_ARCH_GPT2),
    (''gptbigcodeforsequenceclassification'', RCPP_ARCH_LLAMA), (''gretriever'', RCPP_ARCH_LLAMA),
    (''int8opt'', RCPP_ARCH_OPT), (''internlm2forreward'', RCPP_ARCH_LLAMA),
    (''internlmxcomposer2'', RCPP_ARCH_LLAMA), (''interns2preview'', RCPP_ARCH_QWEN35),
    (''kblamphi3'', RCPP_ARCH_PHI), (''kimik2'', RCPP_ARCH_QWEN35),
    (''layerwiseminicpm'', RCPP_ARCH_LLAMA), (''leanllama'', RCPP_ARCH_LLAMA),
    (''leanmixtral'', RCPP_ARCH_MISTRAL), (''lexadelta'', RCPP_ARCH_GPTOSS),
    (''lfm2bidirectionalformaskedlm'', RCPP_ARCH_LFM2), (''lightonocr'', RCPP_ARCH_MISTRAL),
    (''llamaforcausallmeagle3'', RCPP_ARCH_LLAMA),
    (''llamaforsequenceclassification'', RCPP_ARCH_LLAMA), (''llavaqwen'', RCPP_ARCH_QWEN2VL),
    (''loragpt2'', RCPP_ARCH_GPT2), (''mahler60/prueba'', RCPP_ARCH_GPTNEOX),
    (''mamba2'', RCPP_ARCH_MAMBA), (''mambamodel'', RCPP_ARCH_MAMBA),
    (''memllama'', RCPP_ARCH_LLAMA), (''meteormamba'', RCPP_ARCH_MAMBA),
    (''mimoaudio'', RCPP_ARCH_QWEN2), (''miniphi3'', RCPP_ARCH_PHI),
    (''mixformervlsequential'', RCPP_ARCH_PHI), (''mobillama'', RCPP_ARCH_LLAMA),
    (''monoformer'', RCPP_ARCH_LLAMA), (''moyi'', RCPP_ARCH_QWEN2),
    (''multiheadgptneo'', RCPP_ARCH_GPTNEO), (''multimodalstarcoder2'', RCPP_ARCH_LLAMA),
    (''mutorgemma'', RCPP_ARCH_GEMMA), (''mybaichuan'', RCPP_ARCH_LLAMA),
    (''myqwen'', RCPP_ARCH_QWEN2), (''myxverse'', RCPP_ARCH_LLAMA),
    (''nemotronhaugmented'', RCPP_ARCH_NEMOTRONH), (''notagen'', RCPP_ARCH_GPT2),
    (''olmo2forsequenceclassification'', RCPP_ARCH_OLMO), (''olmo3sink'', RCPP_ARCH_OLMO),
    (''olmomodel'', RCPP_ARCH_OLMO), (''opt_prompttuned_for_sentimentanalysis'', RCPP_ARCH_OPT),
    (''pawqwen3'', RCPP_ARCH_QWEN3), (''phi3forsequenceclassification'', RCPP_ARCH_PHI),
    (''poptorchpipelinedgpt2'', RCPP_ARCH_GPT2), (''poptorchpipelinedwhisper'', RCPP_ARCH_WHISPER),
    (''quark'', RCPP_ARCH_QWEN35), (''qwen2forcausallmpostblocksteeringfixed'', RCPP_ARCH_QWEN2),
    (''qwen2forprocessreward'', RCPP_ARCH_QWEN2),
    (''qwen2forsequenceclassification'', RCPP_ARCH_QWEN2), (''qwen2reasoning'', RCPP_ARCH_QWEN2),
    (''qwen2vlaudio'', RCPP_ARCH_QWEN2VL), (''qwen2vlextended'', RCPP_ARCH_QWEN2VL),
    (''qwen2vlforconditionalgenerationwithaudio'', RCPP_ARCH_QWEN2VL),
    (''qwen3_5dllm'', RCPP_ARCH_QWEN35), (''qwen3_5text'', RCPP_ARCH_QWEN35),
    (''qwen3forsequenceclassification'', RCPP_ARCH_QWEN3), (''qwen3gated'', RCPP_ARCH_QWEN3),
    (''qwen3mobe'', RCPP_ARCH_QWEN3), (''qwen3sparsemobe'', RCPP_ARCH_QWEN3),
    (''qwen3vlseg'', RCPP_ARCH_QWEN3VL), (''rnj1'', RCPP_ARCH_GEMMA),
    (''ruqwen2'', RCPP_ARCH_QWEN2), (''serayuki'', RCPP_ARCH_LLAMA), (''sewy3'', RCPP_ARCH_GEMMA),
    (''smollm3model'', RCPP_ARCH_LLAMA), (''stablediffcoder'', RCPP_ARCH_LLAMA),
    (''streamvln'', RCPP_ARCH_QWEN2VL), (''symbolicgpt'', RCPP_ARCH_GPT2),
    (''titansmactransformer'', RCPP_ARCH_LLAMA), (''trimkvphi3'', RCPP_ARCH_PHI),
    (''trimkvqwen3'', RCPP_ARCH_QWEN3), (''uyu2'', RCPP_ARCH_GEMMA),
    (''vlclipgptneox'', RCPP_ARCH_GPTNEOX), (''whaleye'', RCPP_ARCH_DEEPSEEK),
    (''xcuros'', RCPP_ARCH_QWEN2), (''nanochat'', RCPP_ARCH_NANOCHAT), (''pico'', RCPP_ARCH_PICO),
    (''picodecoder'', RCPP_ARCH_PICO), (''picodecoderhf'', RCPP_ARCH_PICO),
    (''caca'', RCPP_ARCH_LLAMA), (''gateddeltanet'', RCPP_ARCH_QWEN3NEXT),
    (''dynamicalibi'', RCPP_ARCH_DYNAMICALIBI), (''glm'', RCPP_ARCH_LLAMA),
    (''roleslm'', RCPP_ARCH_LLAMA), (''slm'', RCPP_ARCH_LLAMA),
    (''slmforcausallm'', RCPP_ARCH_LLAMA), (''slmmodel'', RCPP_ARCH_LLAMA),
    (''industryslm'', RCPP_ARCH_LLAMA), (''hfhealthslm'', RCPP_ARCH_LLAMA),
    (''sdlcslm'', RCPP_ARCH_LLAMA), (''hrmtext'', RCPP_ARCH_LLAMA),
    (''longcatcausallm'', RCPP_ARCH_LLAMA), (''gpt'', RCPP_ARCH_GPT2),
    (''pldrllm'', RCPP_ARCH_QWEN2), (''rwkv5'', RCPP_ARCH_RWKV), (''rwkv6'', RCPP_ARCH_RWKV)]"

definition arch_rows_3 :: "(string \<times> arch) list" where
  "arch_rows_3 =
   [
    (''llavaphi'', RCPP_ARCH_PHI), (''adelicllama'', RCPP_ARCH_LLAMA),
    (''aligngpt'', RCPP_ARCH_LLAMA), (''axk2'', RCPP_ARCH_LLAMA), (''biomedgpt'', RCPP_ARCH_LLAMA),
    (''blockffn'', RCPP_ARCH_LLAMA), (''dots1'', RCPP_ARCH_LLAMA),
    (''dummyllama'', RCPP_ARCH_LLAMA), (''experiemental'', RCPP_ARCH_LLAMA),
    (''fabric'', RCPP_ARCH_LLAMA), (''fingpt'', RCPP_ARCH_LLAMA), (''flamingo'', RCPP_ARCH_LLAMA),
    (''gptmini'', RCPP_ARCH_LLAMA), (''h3'', RCPP_ARCH_LLAMA),
    (''internlmxcomposer'', RCPP_ARCH_LLAMA), (''internvl'', RCPP_ARCH_LLAMA),
    (''k3dspark'', RCPP_ARCH_LLAMA), (''kambo'', RCPP_ARCH_LLAMA), (''koliber'', RCPP_ARCH_LLAMA),
    (''lilm'', RCPP_ARCH_LLAMA), (''llmjpvl'', RCPP_ARCH_LLAMA), (''youtuvl'', RCPP_ARCH_LLAMA),
    (''kmoshi'', RCPP_ARCH_LLAMA), (''livemem'', RCPP_ARCH_LLAMA), (''llama2'', RCPP_ARCH_LLAMA),
    (''llavabaichuan2'', RCPP_ARCH_LLAMA), (''lmdeploy'', RCPP_ARCH_LLAMA),
    (''lumma'', RCPP_ARCH_LLAMA), (''megha'', RCPP_ARCH_LLAMA), (''midm'', RCPP_ARCH_LLAMA),
    (''minibanana'', RCPP_ARCH_LLAMA), (''minigpt'', RCPP_ARCH_LLAMA),
    (''namer'', RCPP_ARCH_LLAMA), (''ndl'', RCPP_ARCH_LLAMA), (''nextchat'', RCPP_ARCH_LLAMA),
    (''ngme'', RCPP_ARCH_LLAMA), (''olmohybrid'', RCPP_ARCH_LLAMA),
    (''omnillama'', RCPP_ARCH_LLAMA), (''plm'', RCPP_ARCH_LLAMA), (''regqwen'', RCPP_ARCH_LLAMA),
    (''rllama'', RCPP_ARCH_LLAMA), (''sky21b'', RCPP_ARCH_LLAMA), (''sllama'', RCPP_ARCH_LLAMA),
    (''stllama'', RCPP_ARCH_LLAMA), (''taffy'', RCPP_ARCH_LLAMA),
    (''tensormind'', RCPP_ARCH_LLAMA), (''vllama'', RCPP_ARCH_LLAMA),
    (''xmodel'', RCPP_ARCH_LLAMA), (''xmodellm'', RCPP_ARCH_LLAMA), (''yayiuie'', RCPP_ARCH_LLAMA),
    (''youtu'', RCPP_ARCH_LLAMA), (''a2dqwen'', RCPP_ARCH_LLAMA),
    (''a2dqwen3_5'', RCPP_ARCH_QWEN2), (''aetherv211attn'', RCPP_ARCH_LLAMA),
    (''aetherv27way'', RCPP_ARCH_LLAMA), (''alexallama'', RCPP_ARCH_LLAMA),
    (''apriel'', RCPP_ARCH_LLAMA), (''arcanalama'', RCPP_ARCH_LLAMA),
    (''arcanallama'', RCPP_ARCH_LLAMA), (''armormforsequenceclassification'', RCPP_ARCH_LLAMA),
    (''auroragpt2'', RCPP_ARCH_GPT2), (''beit3llavallama'', RCPP_ARCH_LLAMA),
    (''blastmodel'', RCPP_ARCH_LLAMA), (''c3qwen'', RCPP_ARCH_LLAMA),
    (''cbhybridllama'', RCPP_ARCH_LLAMA), (''chatunivillama'', RCPP_ARCH_LLAMA),
    (''codalanguage'', RCPP_ARCH_LLAMA), (''cogvlmvideo'', RCPP_ARCH_LLAMA),
    (''continue1'', RCPP_ARCH_LLAMA), (''crystalcoder'', RCPP_ARCH_GPT2),
    (''ddllama'', RCPP_ARCH_LLAMA), (''deepseekfixed'', RCPP_ARCH_LLAMA),
    (''deepstackllama'', RCPP_ARCH_LLAMA), (''dharaar'', RCPP_ARCH_LLAMA),
    (''dharaformaskeddiffusion'', RCPP_ARCH_LLAMA), (''editgptmistral'', RCPP_ARCH_LLAMA),
    (''energytransformer'', RCPP_ARCH_LLAMA), (''erk'', RCPP_ARCH_LLAMA),
    (''erniepixel'', RCPP_ARCH_LLAMA), (''evellama'', RCPP_ARCH_LLAMA),
    (''evomistral'', RCPP_ARCH_LLAMA), (''exaone4forcausallmconv'', RCPP_ARCH_LLAMA),
    (''extendedllama'', RCPP_ARCH_LLAMA), (''fast_dllm_qwen'', RCPP_ARCH_LLAMA),
    (''fegeollama'', RCPP_ARCH_LLAMA), (''fm9g'', RCPP_ARCH_LLAMA),
    (''freedomomega'', RCPP_ARCH_LLAMA), (''fuse2'', RCPP_ARCH_LLAMA),
    (''gemma3n'', RCPP_ARCH_GEMMA), (''geochatllama'', RCPP_ARCH_LLAMA),
    (''gexqwen'', RCPP_ARCH_LLAMA), (''gigachat35'', RCPP_ARCH_LLAMA),
    (''gptjlora'', RCPP_ARCH_GPTJ), (''gptoptim'', RCPP_ARCH_GPT2),
    (''gptrefact'', RCPP_ARCH_GPT2), (''gpts14m'', RCPP_ARCH_LLAMA), (''gpts3'', RCPP_ARCH_LLAMA),
    (''gptsdprelu'', RCPP_ARCH_GPT2), (''gptx3'', RCPP_ARCH_LLAMA),
    (''graphllama'', RCPP_ARCH_LLAMA), (''heterollama'', RCPP_ARCH_LLAMA),
    (''hunyuanimage3forcausalmm'', RCPP_ARCH_LLAMA), (''hybrid'', RCPP_ARCH_LLAMA),
    (''hyv3vl'', RCPP_ARCH_LLAMA), (''illuminator'', RCPP_ARCH_GPT2),
    (''infllmv2_llama'', RCPP_ARCH_LLAMA), (''iquestpltcoder'', RCPP_ARCH_LLAMA),
    (''jumplanderpython'', RCPP_ARCH_LLAMA), (''kanana2tiny'', RCPP_ARCH_LLAMA),
    (''kanana2vec'', RCPP_ARCH_LLAMA), (''kangpt2'', RCPP_ARCH_GPT2),
    (''kormoforcausallmwithmtp'', RCPP_ARCH_LLAMA), (''lam'', RCPP_ARCH_LLAMA),
    (''lamedllama'', RCPP_ARCH_LLAMA), (''lamedphi3'', RCPP_ARCH_LLAMA),
    (''latentqwen'', RCPP_ARCH_LLAMA), (''lckvllama'', RCPP_ARCH_LLAMA),
    (''legollama'', RCPP_ARCH_LLAMA), (''litallama'', RCPP_ARCH_LLAMA),
    (''lizzy'', RCPP_ARCH_LLAMA), (''llaaallama'', RCPP_ARCH_LLAMA),
    (''llamabutler'', RCPP_ARCH_LLAMA), (''llamadeepseek'', RCPP_ARCH_LLAMA),
    (''llamahydra'', RCPP_ARCH_LLAMA), (''llamaladder'', RCPP_ARCH_LLAMA),
    (''llamalongbel'', RCPP_ARCH_LLAMA), (''llamamla'', RCPP_ARCH_LLAMA),
    (''llamaskipconnection'', RCPP_ARCH_LLAMA), (''llamasparse'', RCPP_ARCH_LLAMA),
    (''llamasyncabel'', RCPP_ARCH_LLAMA), (''llamavidllava'', RCPP_ARCH_LLAMA),
    (''llasa'', RCPP_ARCH_LLAMA), (''llavacrystal'', RCPP_ARCH_GPT2),
    (''llavallamaimagebindselect'', RCPP_ARCH_LLAMA), (''llavaminerva'', RCPP_ARCH_LLAMA),
    (''llavaonevision1_5_'', RCPP_ARCH_QWEN2), (''llavasearchllama'', RCPP_ARCH_LLAMA),
    (''llavastablelm_1_6b'', RCPP_ARCH_LLAMA), (''llavastablelmepoch'', RCPP_ARCH_LLAMA),
    (''llm2slmgpt2'', RCPP_ARCH_GPT2), (''lumina'', RCPP_ARCH_LLAMA),
    (''mambainqwen'', RCPP_ARCH_LLAMA), (''mgmllama'', RCPP_ARCH_LLAMA),
    (''mimogdn'', RCPP_ARCH_LLAMA), (''minigeminillama'', RCPP_ARCH_LLAMA),
    (''minimindomni'', RCPP_ARCH_LLAMA), (''ministraldualrope'', RCPP_ARCH_LLAMA),
    (''mistralreconfig3'', RCPP_ARCH_LLAMA), (''mixsensellama'', RCPP_ARCH_LLAMA)]"

definition arch_rows_4 :: "(string \<times> arch) list" where
  "arch_rows_4 =
   [
    (''mllama'', RCPP_ARCH_LLAMA), (''modeling_camelidae.llama'', RCPP_ARCH_LLAMA),
    (''modeling_llama_butler.llamabutler'', RCPP_ARCH_LLAMA),
    (''modelstarolmhead'', RCPP_ARCH_GPT2), (''monoid'', RCPP_ARCH_LLAMA),
    (''morllama'', RCPP_ARCH_LLAMA), (''moss'', RCPP_ARCH_GPT2),
    (''multimodalllama'', RCPP_ARCH_LLAMA), (''mymoss'', RCPP_ARCH_GPT2),
    (''nemotronh_nano_omni_reasoning_v3'', RCPP_ARCH_NEMOTRONH),
    (''nerfllmllama'', RCPP_ARCH_LLAMA), (''neuralnet'', RCPP_ARCH_LLAMA),
    (''neutrino'', RCPP_ARCH_LLAMA), (''olmo1124'', RCPP_ARCH_LLAMA),
    (''olmo1124forsequenceclassification'', RCPP_ARCH_LLAMA),
    (''olmo2noqknormprenorm'', RCPP_ARCH_LLAMA), (''olmo2retrofit'', RCPP_ARCH_LLAMA),
    (''olmo3siamesedepth'', RCPP_ARCH_LLAMA), (''omnispeech2sllama'', RCPP_ARCH_LLAMA),
    (''openllama'', RCPP_ARCH_LLAMA), (''openpanguv2'', RCPP_ARCH_LLAMA),
    (''oryxllama'', RCPP_ARCH_LLAMA), (''oryxqwen'', RCPP_ARCH_LLAMA),
    (''ospreyllama'', RCPP_ARCH_LLAMA), (''palo'', RCPP_ARCH_LLAMA),
    (''panguembedded'', RCPP_ARCH_LLAMA), (''parallax'', RCPP_ARCH_LLAMA),
    (''parambharatgen'', RCPP_ARCH_LLAMA), (''pointllmllama'', RCPP_ARCH_LLAMA),
    (''positionxlnet'', RCPP_ARCH_LLAMA), (''progressiveyocollama'', RCPP_ARCH_LLAMA),
    (''quasarlong'', RCPP_ARCH_LLAMA), (''qwerkyllamamambahybrid'', RCPP_ARCH_LLAMA),
    (''qyrouarch'', RCPP_ARCH_LLAMA), (''rbdashllama'', RCPP_ARCH_LLAMA),
    (''recast1b_llama'', RCPP_ARCH_LLAMA), (''recast7b_llama'', RCPP_ARCH_LLAMA),
    (''rixis1'', RCPP_ARCH_LLAMA), (''rosex1'', RCPP_ARCH_LLAMA),
    (''rwkvhybrid'', RCPP_ARCH_LLAMA), (''sageloopcoder'', RCPP_ARCH_LLAMA),
    (''scrapegoat'', RCPP_ARCH_LLAMA), (''scratchllama'', RCPP_ARCH_LLAMA),
    (''share4vllama'', RCPP_ARCH_LLAMA), (''shatest'', RCPP_ARCH_LLAMA),
    (''sheikhf1'', RCPP_ARCH_GPT2), (''shikrallama'', RCPP_ARCH_LLAMA),
    (''siq_vl'', RCPP_ARCH_QWEN2), (''sky'', RCPP_ARCH_LLAMA), (''skycrest'', RCPP_ARCH_LLAMA),
    (''slicedllama'', RCPP_ARCH_LLAMA), (''sumiformaskgeneration'', RCPP_ARCH_LLAMA),
    (''switchgpt2'', RCPP_ARCH_GPT2), (''tridafordlm'', RCPP_ARCH_LLAMA),
    (''typhoon2audio2audio'', RCPP_ARCH_LLAMA), (''upcycledsmollm'', RCPP_ARCH_LLAMA),
    (''valleyllama'', RCPP_ARCH_LLAMA), (''vcoderdsllavallama'', RCPP_ARCH_LLAMA),
    (''vcoderllavallama'', RCPP_ARCH_LLAMA), (''videochatgptllama'', RCPP_ARCH_LLAMA),
    (''vstreamllama'', RCPP_ARCH_LLAMA), (''windedge'', RCPP_ARCH_LLAMA),
    (''wrappedllamav2'', RCPP_ARCH_LLAMA), (''xllm'', RCPP_ARCH_LLAMA),
    (''dmtdqwen3'', RCPP_ARCH_QWEN3), (''a2dqwen2'', RCPP_ARCH_QWEN2),
    (''a2dqwen3'', RCPP_ARCH_QWEN3), (''bunnyqwen2'', RCPP_ARCH_QWEN2),
    (''devilqwen2'', RCPP_ARCH_QWEN2), (''fegeoqwen2'', RCPP_ARCH_QWEN2),
    (''hicomqwen2'', RCPP_ARCH_QWEN2), (''impqwen2'', RCPP_ARCH_QWEN2),
    (''infllmv2_qwen3'', RCPP_ARCH_QWEN3), (''minigeminiqwen2'', RCPP_ARCH_QWEN2),
    (''mobilintqwen2eagle3'', RCPP_ARCH_QWEN2), (''mobilintqwen3eagle3'', RCPP_ARCH_QWEN3),
    (''oryxqwen2'', RCPP_ARCH_QWEN2), (''penguinvlqwen3'', RCPP_ARCH_QWEN3),
    (''qwen2_5_xray'', RCPP_ARCH_QWEN2), (''qwen2adapter'', RCPP_ARCH_QWEN2),
    (''qwen2bl'', RCPP_ARCH_QWEN2), (''qwen2ch'', RCPP_ARCH_QWEN2),
    (''qwen2forcausallmwithhrm'', RCPP_ARCH_QWEN2), (''qwen2hybrid'', RCPP_ARCH_QWEN2),
    (''qwen2layerwisesae'', RCPP_ARCH_QWEN2), (''qwen2mm'', RCPP_ARCH_QWEN2),
    (''qwen2nomicvision'', RCPP_ARCH_QWEN2), (''qwen2parscale'', RCPP_ARCH_QWEN2),
    (''qwen2steeringvector'', RCPP_ARCH_QWEN2), (''qwen2ts'', RCPP_ARCH_QWEN2),
    (''qwen3asvd'', RCPP_ARCH_QWEN3), (''qwen3attnres'', RCPP_ARCH_QWEN3),
    (''qwen3audiowrapped'', RCPP_ARCH_QWEN3), (''qwen3kvpop'', RCPP_ARCH_QWEN3),
    (''qwen3lcqatforcompression'', RCPP_ARCH_QWEN3), (''qwen3mhcforcausallmv2'', RCPP_ARCH_QWEN3),
    (''qwen3mtp'', RCPP_ARCH_QWEN3), (''qwen3recovered'', RCPP_ARCH_QWEN3),
    (''qwen3scaleseq'', RCPP_ARCH_QWEN3), (''rwkv7qwen2'', RCPP_ARCH_QWEN2),
    (''slicedqwen2'', RCPP_ARCH_QWEN2), (''slicegptqwen2'', RCPP_ARCH_QWEN2),
    (''tpullama'', RCPP_ARCH_QWEN3), (''tpuqwen3'', RCPP_ARCH_QWEN3),
    (''videollama2qwen2'', RCPP_ARCH_QWEN2), (''videollama3qwen2'', RCPP_ARCH_QWEN2),
    (''vllmtfbqwen2'', RCPP_ARCH_QWEN2), (''wisentqwen2'', RCPP_ARCH_QWEN2),
    (''abia'', RCPP_ARCH_LLAMA), (''ahaqwen3'', RCPP_ARCH_LLAMA), (''apollo'', RCPP_ARCH_LLAMA),
    (''aprielh'', RCPP_ARCH_LLAMA), (''aquiladense'', RCPP_ARCH_LLAMA),
    (''armt'', RCPP_ARCH_LLAMA), (''axiom'', RCPP_ARCH_LLAMA), (''axk1'', RCPP_ARCH_LLAMA),
    (''baiwen3'', RCPP_ARCH_LLAMA), (''boomer'', RCPP_ARCH_LLAMA), (''breen'', RCPP_ARCH_LLAMA),
    (''brumby'', RCPP_ARCH_LLAMA), (''buddygpt'', RCPP_ARCH_LLAMA),
    (''bunnyminicpm'', RCPP_ARCH_LLAMA), (''cambrianphi3'', RCPP_ARCH_LLAMA),
    (''causallm'', RCPP_ARCH_LLAMA), (''chemq3mtp'', RCPP_ARCH_LLAMA),
    (''clinicalllama'', RCPP_ARCH_LLAMA), (''clokcem'', RCPP_ARCH_LLAMA),
    (''continuum'', RCPP_ARCH_LLAMA), (''cosmos'', RCPP_ARCH_LLAMA), (''creek'', RCPP_ARCH_LLAMA),
    (''crowelogicmini'', RCPP_ARCH_LLAMA), (''cs336'', RCPP_ARCH_LLAMA),
    (''dat'', RCPP_ARCH_LLAMA), (''deepllama'', RCPP_ARCH_LLAMA), (''diffllama'', RCPP_ARCH_LLAMA),
    (''dpmm'', RCPP_ARCH_LLAMA), (''duchifat'', RCPP_ARCH_LLAMA), (''egollm'', RCPP_ARCH_LLAMA),
    (''forgelm'', RCPP_ARCH_LLAMA), (''g9v3'', RCPP_ARCH_LLAMA),
    (''gigachataudio'', RCPP_ARCH_LLAMA), (''gopu'', RCPP_ARCH_LLAMA),
    (''gptosspuzzle'', RCPP_ARCH_LLAMA), (''gritlm'', RCPP_ARCH_LLAMA),
    (''grok'', RCPP_ARCH_LLAMA), (''h'', RCPP_ARCH_LLAMA), (''halos'', RCPP_ARCH_LLAMA),
    (''hanzi'', RCPP_ARCH_LLAMA), (''helionosc'', RCPP_ARCH_LLAMA)]"

definition arch_rows_5 :: "(string \<times> arch) list" where
  "arch_rows_5 =
   [
    (''henyo'', RCPP_ARCH_LLAMA), (''hnet'', RCPP_ARCH_LLAMA), (''icarus'', RCPP_ARCH_LLAMA),
    (''illada'', RCPP_ARCH_LLAMA), (''induction'', RCPP_ARCH_LLAMA),
    (''interns1'', RCPP_ARCH_LLAMA), (''jetnemotron'', RCPP_ARCH_LLAMA),
    (''jibay2'', RCPP_ARCH_LLAMA), (''jinsoollm'', RCPP_ARCH_LLAMA),
    (''jirackternary'', RCPP_ARCH_LLAMA), (''jirackternary1b'', RCPP_ARCH_LLAMA),
    (''jirackternarypro1b'', RCPP_ARCH_LLAMA), (''kinoe'', RCPP_ARCH_LLAMA),
    (''led'', RCPP_ARCH_LLAMA), (''ligergsa'', RCPP_ARCH_LLAMA), (''lingowhale'', RCPP_ARCH_LLAMA),
    (''llamamixlora'', RCPP_ARCH_LLAMA), (''lulu2'', RCPP_ARCH_LLAMA), (''mae'', RCPP_ARCH_LLAMA),
    (''magic'', RCPP_ARCH_LLAMA), (''maplept'', RCPP_ARCH_LLAMA), (''medusa'', RCPP_ARCH_LLAMA),
    (''metadiffusion'', RCPP_ARCH_LLAMA), (''microllama'', RCPP_ARCH_LLAMA),
    (''mightyllama'', RCPP_ARCH_LLAMA), (''mindi'', RCPP_ARCH_LLAMA),
    (''minillama3'', RCPP_ARCH_LLAMA), (''minimix'', RCPP_ARCH_LLAMA),
    (''miniqwen'', RCPP_ARCH_LLAMA), (''mistraldenseformer'', RCPP_ARCH_LLAMA),
    (''mists'', RCPP_ARCH_LLAMA), (''mnemosyne'', RCPP_ARCH_LLAMA),
    (''mobilereasoningllm'', RCPP_ARCH_LLAMA), (''mobilintexaone4'', RCPP_ARCH_LLAMA),
    (''moho'', RCPP_ARCH_LLAMA), (''moss2'', RCPP_ARCH_LLAMA), (''mugen'', RCPP_ARCH_LLAMA),
    (''murzik'', RCPP_ARCH_LLAMA), (''myqwen2'', RCPP_ARCH_LLAMA),
    (''nanollama'', RCPP_ARCH_LLAMA), (''nanolm'', RCPP_ARCH_LLAMA),
    (''nanoqwen'', RCPP_ARCH_LLAMA), (''nda'', RCPP_ARCH_LLAMA), (''nebulax'', RCPP_ARCH_LLAMA),
    (''neollm'', RCPP_ARCH_LLAMA), (''nextgen'', RCPP_ARCH_LLAMA), (''ngpt'', RCPP_ARCH_LLAMA),
    (''omnilmm'', RCPP_ARCH_LLAMA), (''open'', RCPP_ARCH_LLAMA), (''opengpt'', RCPP_ARCH_LLAMA),
    (''palm'', RCPP_ARCH_LLAMA), (''palullama'', RCPP_ARCH_LLAMA), (''pebblelm'', RCPP_ARCH_LLAMA),
    (''pheonix'', RCPP_ARCH_LLAMA), (''pica'', RCPP_ARCH_LLAMA), (''pluto'', RCPP_ARCH_LLAMA),
    (''pothana'', RCPP_ARCH_LLAMA), (''privatewhisper'', RCPP_ARCH_LLAMA),
    (''qed'', RCPP_ARCH_LLAMA), (''quietqwen'', RCPP_ARCH_LLAMA),
    (''qwen2_5_memory'', RCPP_ARCH_LLAMA), (''qwen3reasoning'', RCPP_ARCH_LLAMA),
    (''race'', RCPP_ARCH_LLAMA), (''rafflesia'', RCPP_ARCH_LLAMA), (''rapnss'', RCPP_ARCH_LLAMA),
    (''re_gpt'', RCPP_ARCH_LLAMA), (''recallmllama'', RCPP_ARCH_LLAMA),
    (''recallmqwen2'', RCPP_ARCH_LLAMA), (''repeated'', RCPP_ARCH_LLAMA),
    (''rio3'', RCPP_ARCH_LLAMA), (''rnd1'', RCPP_ARCH_LLAMA), (''rogue'', RCPP_ARCH_LLAMA),
    (''sardine'', RCPP_ARCH_LLAMA), (''seed'', RCPP_ARCH_LLAMA), (''shivik'', RCPP_ARCH_LLAMA),
    (''shivikcode'', RCPP_ARCH_LLAMA), (''shrnk'', RCPP_ARCH_LLAMA), (''simple'', RCPP_ARCH_LLAMA),
    (''sixpert'', RCPP_ARCH_LLAMA), (''skyai'', RCPP_ARCH_LLAMA), (''soka'', RCPP_ARCH_LLAMA),
    (''spec'', RCPP_ARCH_LLAMA), (''ssllm'', RCPP_ARCH_LLAMA), (''swen'', RCPP_ARCH_LLAMA),
    (''switchllama'', RCPP_ARCH_LLAMA), (''tachbit'', RCPP_ARCH_LLAMA), (''tcv'', RCPP_ARCH_LLAMA),
    (''teleflm'', RCPP_ARCH_LLAMA), (''tharo.g'', RCPP_ARCH_LLAMA),
    (''tinystate'', RCPP_ARCH_LLAMA), (''transllama'', RCPP_ARCH_LLAMA),
    (''trouter'', RCPP_ARCH_LLAMA), (''turingmm'', RCPP_ARCH_LLAMA), (''unbox'', RCPP_ARCH_LLAMA),
    (''veridian'', RCPP_ARCH_LLAMA), (''veronica'', RCPP_ARCH_LLAMA),
    (''vexionlm'', RCPP_ARCH_LLAMA), (''veyra2apricot'', RCPP_ARCH_LLAMA),
    (''voxtral'', RCPP_ARCH_LLAMA), (''yivl'', RCPP_ARCH_LLAMA), (''yua'', RCPP_ARCH_LLAMA),
    (''zagros'', RCPP_ARCH_LLAMA), (''zebra'', RCPP_ARCH_LLAMA), (''zhiyin'', RCPP_ARCH_LLAMA),
    (''amit'', RCPP_ARCH_GPT2), (''aries'', RCPP_ARCH_GPT2), (''arlow'', RCPP_ARCH_GPT2),
    (''aurora'', RCPP_ARCH_GPT2), (''bagel'', RCPP_ARCH_GPT2), (''baseline'', RCPP_ARCH_GPT2),
    (''bitnetgpt'', RCPP_ARCH_GPT2), (''canary'', RCPP_ARCH_GPT2), (''cats'', RCPP_ARCH_GPT2),
    (''clever'', RCPP_ARCH_GPT2), (''curious'', RCPP_ARCH_GPT2), (''dart'', RCPP_ARCH_GPT2),
    (''dexv1'', RCPP_ARCH_GPT2), (''dialogpt'', RCPP_ARCH_GPT2), (''elysium'', RCPP_ARCH_GPT2),
    (''ember'', RCPP_ARCH_GPT2), (''emg'', RCPP_ARCH_GPT2), (''enigma'', RCPP_ARCH_GPT2),
    (''friday'', RCPP_ARCH_GPT2), (''gator'', RCPP_ARCH_GPT2), (''gecko'', RCPP_ARCH_GPT2),
    (''geomotiongpt'', RCPP_ARCH_GPT2), (''gome'', RCPP_ARCH_GPT2),
    (''gpt2custom'', RCPP_ARCH_GPT2), (''gpt2withroles'', RCPP_ARCH_GPT2),
    (''gptx'', RCPP_ARCH_GPT2), (''hanse'', RCPP_ARCH_GPT2), (''hils'', RCPP_ARCH_GPT2),
    (''humangpt'', RCPP_ARCH_GPT2), (''humanv'', RCPP_ARCH_GPT2),
    (''hummingbird'', RCPP_ARCH_GPT2), (''ilama'', RCPP_ARCH_GPT2), (''imu1'', RCPP_ARCH_GPT2),
    (''lenna'', RCPP_ARCH_GPT2), (''lime'', RCPP_ARCH_GPT2), (''linglong'', RCPP_ARCH_GPT2),
    (''lizard'', RCPP_ARCH_GPT2), (''manta'', RCPP_ARCH_GPT2), (''memory'', RCPP_ARCH_GPT2),
    (''molformer'', RCPP_ARCH_GPT2), (''nepaligpt'', RCPP_ARCH_GPT2), (''ours'', RCPP_ARCH_GPT2),
    (''peer'', RCPP_ARCH_GPT2), (''pega'', RCPP_ARCH_GPT2), (''personamini'', RCPP_ARCH_GPT2),
    (''phi2'', RCPP_ARCH_GPT2)]"

definition arch_rows_6 :: "(string \<times> arch) list" where
  "arch_rows_6 =
   [
    (''ptp'', RCPP_ARCH_GPT2), (''qgpt2'', RCPP_ARCH_GPT2), (''raptor'', RCPP_ARCH_GPT2),
    (''remote'', RCPP_ARCH_GPT2), (''reward'', RCPP_ARCH_GPT2), (''rpt'', RCPP_ARCH_GPT2),
    (''sakhi'', RCPP_ARCH_GPT2), (''scan'', RCPP_ARCH_GPT2), (''sesame'', RCPP_ARCH_GPT2),
    (''shrike'', RCPP_ARCH_GPT2), (''sinhalagpt'', RCPP_ARCH_GPT2), (''smoothie'', RCPP_ARCH_GPT2),
    (''solo'', RCPP_ARCH_GPT2), (''spect1'', RCPP_ARCH_GPT2), (''ssai'', RCPP_ARCH_GPT2),
    (''student'', RCPP_ARCH_GPT2), (''tensa'', RCPP_ARCH_GPT2), (''theta'', RCPP_ARCH_GPT2),
    (''tinygpt2'', RCPP_ARCH_GPT2), (''trol'', RCPP_ARCH_GPT2), (''turkishgpt'', RCPP_ARCH_GPT2),
    (''vora'', RCPP_ARCH_GPT2), (''yasin'', RCPP_ARCH_GPT2), (''miphaphi'', RCPP_ARCH_PHI),
    (''qwen2vlvae'', RCPP_ARCH_QWEN2), (''asterisk'', RCPP_ARCH_LLAMA),
    (''baichuanm1'', RCPP_ARCH_LLAMA), (''cambrianllama'', RCPP_ARCH_LLAMA),
    (''codellama'', RCPP_ARCH_LLAMA), (''cwic'', RCPP_ARCH_LLAMA),
    (''distributedllama'', RCPP_ARCH_LLAMA), (''dockgen'', RCPP_ARCH_LLAMA),
    (''ernie'', RCPP_ARCH_LLAMA), (''fineweb'', RCPP_ARCH_LLAMA), (''grok1'', RCPP_ARCH_LLAMA),
    (''keylm75m'', RCPP_ARCH_LLAMA), (''kirim'', RCPP_ARCH_LLAMA), (''kogum'', RCPP_ARCH_LLAMA),
    (''lille'', RCPP_ARCH_LLAMA), (''llada'', RCPP_ARCH_LLAMA), (''llama2bias'', RCPP_ARCH_LLAMA),
    (''llavaminillama'', RCPP_ARCH_LLAMA), (''llavaphi3'', RCPP_ARCH_LLAMA),
    (''lstllama'', RCPP_ARCH_LLAMA), (''maincoder'', RCPP_ARCH_LLAMA),
    (''maira2'', RCPP_ARCH_LLAMA), (''minicpmsala'', RCPP_ARCH_LLAMA),
    (''mobilellama'', RCPP_ARCH_LLAMA), (''molllama'', RCPP_ARCH_LLAMA),
    (''mymodel'', RCPP_ARCH_LLAMA), (''nemotronflash'', RCPP_ARCH_LLAMA),
    (''neuroblast'', RCPP_ARCH_LLAMA), (''nova'', RCPP_ARCH_LLAMA), (''nova1'', RCPP_ARCH_LLAMA),
    (''peftmodel'', RCPP_ARCH_LLAMA), (''plasmidlm'', RCPP_ARCH_LLAMA),
    (''smallthinker'', RCPP_ARCH_LLAMA), (''spatiallmllama'', RCPP_ARCH_LLAMA),
    (''susono'', RCPP_ARCH_LLAMA), (''swarm'', RCPP_ARCH_LLAMA), (''telechat3'', RCPP_ARCH_LLAMA),
    (''tinyllm'', RCPP_ARCH_LLAMA), (''trillion'', RCPP_ARCH_LLAMA),
    (''tttlinear'', RCPP_ARCH_LLAMA), (''tttmlp'', RCPP_ARCH_LLAMA), (''vaetki'', RCPP_ARCH_LLAMA),
    (''vwllama'', RCPP_ARCH_LLAMA), (''zeus'', RCPP_ARCH_LLAMA), (''codeshell'', RCPP_ARCH_GPT2),
    (''customgpt2'', RCPP_ARCH_GPT2), (''doge2'', RCPP_ARCH_GPT2), (''gpt2mimo'', RCPP_ARCH_GPT2),
    (''kayra'', RCPP_ARCH_GPT2), (''latex'', RCPP_ARCH_GPT2), (''lola'', RCPP_ARCH_GPT2),
    (''mola'', RCPP_ARCH_GPT2), (''ndm'', RCPP_ARCH_GPT2), (''ysnrfd'', RCPP_ARCH_GPT2),
    (''tinyllavaphi'', RCPP_ARCH_PHI), (''emovaqwen2'', RCPP_ARCH_QWEN2),
    (''qwen3ts'', RCPP_ARCH_QWEN3), (''helpingai'', RCPP_ARCH_LLAMA), (''maple'', RCPP_ARCH_LLAMA),
    (''wedlm'', RCPP_ARCH_LLAMA), (''helium'', RCPP_ARCH_LLAMA), (''bluelm'', RCPP_ARCH_LLAMA),
    (''bunnyllama'', RCPP_ARCH_LLAMA), (''longllama'', RCPP_ARCH_LLAMA),
    (''minimind'', RCPP_ARCH_LLAMA), (''bolmo'', RCPP_ARCH_LLAMA), (''imp'', RCPP_ARCH_LLAMA),
    (''llavamistral7'', RCPP_ARCH_LLAMA), (''tpp'', RCPP_ARCH_GPT2), (''monet'', RCPP_ARCH_GPT2),
    (''gpt3dev'', RCPP_ARCH_GPT2), (''gpt2l'', RCPP_ARCH_GPT2), (''lordcoder'', RCPP_ARCH_GPT2),
    (''gear'', RCPP_ARCH_GPT2), (''hawk'', RCPP_ARCH_GPT2), (''smallm'', RCPP_ARCH_GPT2),
    (''aragpt2'', RCPP_ARCH_GPT2), (''arctic'', RCPP_ARCH_GPT2), (''customgpt'', RCPP_ARCH_GPT2),
    (''isaac'', RCPP_ARCH_GPT2), (''otter'', RCPP_ARCH_GPT2), (''taonet'', RCPP_ARCH_GPT2),
    (''idefics'', RCPP_ARCH_LLAMA), (''cogagent'', RCPP_ARCH_LLAMA),
    (''idefics3'', RCPP_ARCH_LLAMA), (''detikzifycambrian'', RCPP_ARCH_QWEN2),
    (''lfm2vl'', RCPP_ARCH_LFM2), (''cohere2vision'', RCPP_ARCH_COHERE2),
    (''llavaqwen1_5'', RCPP_ARCH_QWEN2), (''qwen2_5omnithinker'', RCPP_ARCH_QWEN2),
    (''vmistral'', RCPP_ARCH_MISTRAL), (''deep'', RCPP_ARCH_DEEPSEEK_V4),
    (''mobilintqwen2'', RCPP_ARCH_QWEN2), (''qwen2bm'', RCPP_ARCH_QWEN2),
    (''openaigpt'', RCPP_ARCH_GPT2), (''ctrl'', RCPP_ARCH_GPT2), (''chessgpt'', RCPP_ARCH_GPTNEOX),
    (''opensci'', RCPP_ARCH_LLAMA), (''myllama'', RCPP_ARCH_LLAMA), (''plamo'', RCPP_ARCH_LLAMA),
    (''internvlchat'', RCPP_ARCH_LLAMA), (''ncpolmo3'', RCPP_ARCH_OLMO),
    (''detikzify'', RCPP_ARCH_LLAMA), (''cogvlm'', RCPP_ARCH_LLAMA), (''aquila'', RCPP_ARCH_LLAMA),
    (''dream'', RCPP_ARCH_GEMMA), (''index'', RCPP_ARCH_GEMMA), (''mimov2flash'', RCPP_ARCH_QWEN2),
    (''mimo'', RCPP_ARCH_QWEN2), (''qwen2_5omni'', RCPP_ARCH_QWEN2),
    (''llavanext'', RCPP_ARCH_QWEN2), (''molm'', RCPP_ARCH_OLMO), (''moondream'', RCPP_ARCH_PHI),
    (''bitllama'', RCPP_ARCH_LLAMA), (''iquestcoder'', RCPP_ARCH_LLAMA),
    (''mplugowl2llama'', RCPP_ARCH_LLAMA), (''zhinao'', RCPP_ARCH_LLAMA),
    (''kimilinear'', RCPP_ARCH_LLAMA), (''flexolmo'', RCPP_ARCH_LLAMA),
    (''hymba'', RCPP_ARCH_LLAMA), (''longcatflashngram'', RCPP_ARCH_LLAMA),
    (''arcee'', RCPP_ARCH_LLAMA)]"

definition arch_rows_7 :: "(string \<times> arch) list" where
  "arch_rows_7 =
   [
    (''revision'', RCPP_ARCH_LLAMA), (''tinyllava'', RCPP_ARCH_LLAMA),
    (''ernie4_5_'', RCPP_ARCH_LLAMA), (''ernie4_5'', RCPP_ARCH_LLAMA),
    (''mobilintllama'', RCPP_ARCH_LLAMA), (''minicpm3'', RCPP_ARCH_LLAMA),
    (''yuan'', RCPP_ARCH_LLAMA), (''anemone'', RCPP_ARCH_LLAMA), (''babyllama'', RCPP_ARCH_LLAMA),
    (''iquestloopcoder'', RCPP_ARCH_LLAMA), (''moshi'', RCPP_ARCH_LLAMA),
    (''transformer'', RCPP_ARCH_GPT2), (''lisa'', RCPP_ARCH_GPT2), (''helix'', RCPP_ARCH_GPT2),
    (''sdar'', RCPP_ARCH_GPT2), (''ouro'', RCPP_ARCH_GPT2), (''doge'', RCPP_ARCH_GPT2),
    (''skywork'', RCPP_ARCH_GPT2), (''progen'', RCPP_ARCH_GPT2), (''gpt2a'', RCPP_ARCH_GPT2),
    (''quiet'', RCPP_ARCH_GPT2), (''nandi'', RCPP_ARCH_GPT2), (''pegasus'', RCPP_ARCH_GPT2),
    (''tinygpt'', RCPP_ARCH_GPT2), (''ttt'', RCPP_ARCH_GPT2), (''avey'', RCPP_ARCH_GPT2),
    (''mega'', RCPP_ARCH_GPT2), (''mobilintqwen3'', RCPP_ARCH_QWEN3), (''chess'', RCPP_ARCH_GPT2),
    (''chesstransformer'', RCPP_ARCH_GPT2), (''gemma4assistant'', RCPP_ARCH_GEMMA),
    (''phi3v'', RCPP_ARCH_PHI), (''phi4mm'', RCPP_ARCH_PHI), (''moondream1'', RCPP_ARCH_PHI),
    (''llavamistral'', RCPP_ARCH_MISTRAL), (''sparsemistral'', RCPP_ARCH_MISTRAL),
    (''mimov2'', RCPP_ARCH_QWEN2), (''mplugowl2'', RCPP_ARCH_LLAMA), (''orion'', RCPP_ARCH_LLAMA),
    (''qwen35text'', RCPP_ARCH_QWEN35), (''refinedwebmodel'', RCPP_ARCH_FALCON),
    (''phimsft'', RCPP_ARCH_PHI), (''nemotronh'', RCPP_ARCH_NEMOTRONH),
    (''nemotron_h'', RCPP_ARCH_NEMOTRONH), (''qwen3next'', RCPP_ARCH_QWEN3NEXT),
    (''qwen3_5_moe_text'', RCPP_ARCH_QWEN3NEXT), (''qwen3_next'', RCPP_ARCH_QWEN3NEXT),
    (''minimaxm2'', RCPP_ARCH_MINIMAXM2), (''minimax_m2'', RCPP_ARCH_MINIMAXM2),
    (''cohere2'', RCPP_ARCH_COHERE2), (''cohere2_model'', RCPP_ARCH_COHERE2),
    (''falconh1'', RCPP_ARCH_FALCONH1), (''falcon_h1'', RCPP_ARCH_FALCONH1),
    (''rwkv'', RCPP_ARCH_RWKV), (''granitemoehybrid'', RCPP_ARCH_GRANITEMOEHYBRID),
    (''lfm2_moe'', RCPP_ARCH_LFM2MOE), (''lfm2moe'', RCPP_ARCH_LFM2MOE),
    (''hy_v3'', RCPP_ARCH_HYV3), (''hyv3'', RCPP_ARCH_HYV3), (''afmoe'', RCPP_ARCH_AFMOE),
    (''ernie4_5_moe'', RCPP_ARCH_ERNIE45MOE), (''ernie45moe'', RCPP_ARCH_ERNIE45MOE),
    (''mellum'', RCPP_ARCH_MELLUM), (''phimoe'', RCPP_ARCH_PHIMOE),
    (''minimax'', RCPP_ARCH_MINIMAX), (''cohere2_moe'', RCPP_ARCH_COHERE2MOE),
    (''cohere2moe'', RCPP_ARCH_COHERE2MOE), (''exaone_moe'', RCPP_ARCH_EXAONEMOE),
    (''exaonemoe'', RCPP_ARCH_EXAONEMOE), (''falcon_mamba'', RCPP_ARCH_FALCONMAMBA),
    (''falconmamba'', RCPP_ARCH_FALCONMAMBA), (''jetmoe'', RCPP_ARCH_JETMOE),
    (''rwkv7'', RCPP_ARCH_RWKV7), (''kimi_k3'', RCPP_ARCH_KIMI_K3),
    (''kimik3'', RCPP_ARCH_KIMI_K3), (''kimi'', RCPP_ARCH_KIMI_K3),
    (''moonlight'', RCPP_ARCH_MOONLIGHT), (''kimi_vl'', RCPP_ARCH_KIMI_VL),
    (''kimi_vl_a3b'', RCPP_ARCH_KIMI_VL), (''qwen35'', RCPP_ARCH_QWEN35),
    (''qwen35moe'', RCPP_ARCH_QWEN35), (''qwen3_5'', RCPP_ARCH_QWEN35),
    (''qwen3_5moe'', RCPP_ARCH_QWEN35), (''mistral3'', RCPP_ARCH_MISTRAL),
    (''qwen2_5_vl'', RCPP_ARCH_QWEN2VL), (''qwen3vlmoe'', RCPP_ARCH_QWEN3VL),
    (''gemma4unified'', RCPP_ARCH_GEMMA), (''llavallama'', RCPP_ARCH_LLAMA),
    (''cambrianqwen'', RCPP_ARCH_QWEN2), (''llavaqwen2'', RCPP_ARCH_QWEN2),
    (''hunyuandensev1'', RCPP_ARCH_LLAMA), (''seedoss'', RCPP_ARCH_LLAMA),
    (''glm4moe'', RCPP_ARCH_LLAMA), (''glmmoedsa'', RCPP_ARCH_LLAMA),
    (''glm4moelite'', RCPP_ARCH_LLAMA), (''qwen3_5vl'', RCPP_ARCH_QWEN35),
    (''gpt_neox'', RCPP_ARCH_GPTNEOX), (''gpt_neo'', RCPP_ARCH_GPTNEO),
    (''gpt_j'', RCPP_ARCH_GPTJ), (''gpt_bigcode'', RCPP_ARCH_LLAMA),
    (''qwen2_vl'', RCPP_ARCH_QWEN2VL), (''qwen3_vl'', RCPP_ARCH_QWEN3VL),
    (''qwen3_moe'', RCPP_ARCH_QWEN3), (''qwen2_moe'', RCPP_ARCH_QWEN2),
    (''mistral_moe'', RCPP_ARCH_MISTRAL), (''granite_moe'', RCPP_ARCH_GEMMA),
    (''gemma3_text'', RCPP_ARCH_GEMMA), (''gemma4_text'', RCPP_ARCH_GEMMA),
    (''llava_llama'', RCPP_ARCH_LLAMA), (''llava_qwen2'', RCPP_ARCH_QWEN2),
    (''deepseek_v2'', RCPP_ARCH_DEEPSEEK), (''stablelm_epoch'', RCPP_ARCH_LLAMA),
    (''cambrian_qwen'', RCPP_ARCH_QWEN2), (''hunyuan_v1_dense'', RCPP_ARCH_LLAMA),
    (''exaone4'', RCPP_ARCH_LLAMA), (''fp8_qwen3'', RCPP_ARCH_QWEN3),
    (''fp8_qwen2'', RCPP_ARCH_QWEN2), (''fp8_llama'', RCPP_ARCH_LLAMA),
    (''bit_llama'', RCPP_ARCH_LLAMA), (''llama4'', RCPP_ARCH_LLAMA4),
    (''llama4_text'', RCPP_ARCH_LLAMA4), (''jais'', RCPP_ARCH_JAIS),
    (''dynamicforgetting'', RCPP_ARCH_DYNAMICFORGETTING),
    (''dynamic_forgetting'', RCPP_ARCH_DYNAMICFORGETTING),
    (''dynamicslidingwindow'', RCPP_ARCH_DYNAMICSLIDINGWINDOW),
    (''dynamic_sliding_window'', RCPP_ARCH_DYNAMICSLIDINGWINDOW), (''kormo'', RCPP_ARCH_KORMO),
    (''chatglm'', RCPP_ARCH_CHATGLM), (''sarvammoe'', RCPP_ARCH_SARVAM)]"

definition arch_rows_8 :: "(string \<times> arch) list" where
  "arch_rows_8 =
   [
    (''sarvam_moe'', RCPP_ARCH_SARVAM), (''sarvammla'', RCPP_ARCH_SARVAM),
    (''sarvam_mla'', RCPP_ARCH_SARVAM), (''raven'', RCPP_ARCH_RAVEN),
    (''huginn_raven'', RCPP_ARCH_RAVEN), (''talkie'', RCPP_ARCH_TALKIE),
    (''llada2moemodellm'', RCPP_ARCH_LLADA2), (''llada2_moe'', RCPP_ARCH_LLADA2),
    (''looplm'', RCPP_ARCH_LOOPLM), (''loop-lm'', RCPP_ARCH_LOOPLM),
    (''step3p5'', RCPP_ARCH_STEP3P5), (''daisy'', RCPP_ARCH_DAISY),
    (''multiscale'', RCPP_ARCH_MULTISCALE), (''multiscale_transformer'', RCPP_ARCH_MULTISCALE),
    (''skipmiddle'', RCPP_ARCH_SKIPMIDDLE), (''motif'', RCPP_ARCH_MOTIF),
    (''quasar'', RCPP_ARCH_QUASAR), (''hgrn'', RCPP_ARCH_HGRN), (''hgrn_bit'', RCPP_ARCH_HGRN),
    (''retnet'', RCPP_ARCH_RETNET), (''cubelm'', RCPP_ARCH_CUBELM),
    (''recurrentgemma'', RCPP_ARCH_RECURRENTGEMMA),
    (''recurrent_gemma'', RCPP_ARCH_RECURRENTGEMMA),
    (''lightningtransformermodel'', RCPP_ARCH_LIGHTNINGTRANSFORMER),
    (''lightning_transformer'', RCPP_ARCH_LIGHTNINGTRANSFORMER),
    (''spikewhalelm'', RCPP_ARCH_SPIKEWHALE), (''spike_whale'', RCPP_ARCH_SPIKEWHALE),
    (''stl'', RCPP_ARCH_STL), (''stldec16'', RCPP_ARCH_STL), (''xpertgpt'', RCPP_ARCH_XPERTGPT),
    (''yatgpt'', RCPP_ARCH_YATGPT), (''yatnmn_gpt'', RCPP_ARCH_YATGPT), (''ceno'', RCPP_ARCH_CENO),
    (''fimmy'', RCPP_ARCH_FIMMY), (''hyenadna'', RCPP_ARCH_HYENADNA),
    (''llamamoe'', RCPP_ARCH_LLAMAMOE), (''llama_moe'', RCPP_ARCH_LLAMAMOE),
    (''modernbertdecoder'', RCPP_ARCH_MODERNBERTDECODER),
    (''modernbert-decoder'', RCPP_ARCH_MODERNBERTDECODER),
    (''modernbert'', RCPP_ARCH_MODERNBERTDECODER), (''orkhon'', RCPP_ARCH_ORKHON),
    (''roformer'', RCPP_ARCH_ROFORMER), (''stripedhyenamodel'', RCPP_ARCH_STRIPEDHYENA),
    (''stripedhyena'', RCPP_ARCH_STRIPEDHYENA), (''argonne'', RCPP_ARCH_ARGONNE),
    (''argonne2'', RCPP_ARCH_ARGONNE), (''emo'', RCPP_ARCH_EMO),
    (''forgettingtransformer'', RCPP_ARCH_FORGETTINGTRANSFORMER),
    (''forgetting_transformer'', RCPP_ARCH_FORGETTINGTRANSFORMER),
    (''gptbert'', RCPP_ARCH_GPTBERT), (''gpt-bert'', RCPP_ARCH_GPTBERT),
    (''gptjxmoe'', RCPP_ARCH_GPTJXMOE), (''keuralmoecausallm'', RCPP_ARCH_KEURALMOE),
    (''keural'', RCPP_ARCH_KEURALMOE), (''financedecoder'', RCPP_ARCH_FINANCEDECODER),
    (''qovaryx_finance_decoder'', RCPP_ARCH_FINANCEDECODER),
    (''reformermodelwithlmhead'', RCPP_ARCH_REFORMER), (''reformer'', RCPP_ARCH_REFORMER),
    (''acip'', RCPP_ARCH_ACIP), (''acip_model'', RCPP_ARCH_ACIP),
    (''cognicapoe'', RCPP_ARCH_COGNICAPOE), (''cognica_poe'', RCPP_ARCH_COGNICAPOE),
    (''grugmoe'', RCPP_ARCH_GRUGMOE), (''longcatflash'', RCPP_ARCH_LONGCAT),
    (''longcat_flash'', RCPP_ARCH_LONGCAT), (''telechat'', RCPP_ARCH_TELECHAT),
    (''btlm'', RCPP_ARCH_BTLM), (''duchifatcore'', RCPP_ARCH_DUCHIFAT),
    (''duchifat_v2'', RCPP_ARCH_DUCHIFAT), (''duo'', RCPP_ARCH_DUO),
    (''eshmun'', RCPP_ARCH_ESHMUN), (''gla'', RCPP_ARCH_GLA), (''polyverse'', RCPP_ARCH_POLYVERSE),
    (''transfoxl'', RCPP_ARCH_TRANSFOXL), (''transformer_xl'', RCPP_ARCH_TRANSFOXL),
    (''transnormer'', RCPP_ARCH_TRANSNORMER), (''twiny'', RCPP_ARCH_TWINY),
    (''gptpangu'', RCPP_ARCH_GPTPANGU), (''gpt_pangu'', RCPP_ARCH_GPTPANGU),
    (''bvv'', RCPP_ARCH_BVV), (''model_unfrozen'', RCPP_ARCH_BVV),
    (''adaptermoellavaqwen3'', RCPP_ARCH_QWEN3VL), (''bananamind2pico'', RCPP_ARCH_PICO),
    (''bananamind21test'', RCPP_ARCH_PICO), (''bunnyphi'', RCPP_ARCH_PHI),
    (''bunnyphi3'', RCPP_ARCH_PHI), (''colmaskmoellavaqwen3'', RCPP_ARCH_QWEN3VL),
    (''deepqwenvl'', RCPP_ARCH_QWEN2VL), (''dyncolmaskmoellavaqwen2'', RCPP_ARCH_QWEN2VL),
    (''emu3'', RCPP_ARCH_LLAMA), (''gemma4unifiedassistant'', RCPP_ARCH_GEMMA),
    (''gptjx'', RCPP_ARCH_GPTJ), (''graniteswitch'', RCPP_ARCH_GEMMA), (''hgrn2'', RCPP_ARCH_HGRN),
    (''jais2'', RCPP_ARCH_JAIS), (''japanesestablelmalpha'', RCPP_ARCH_LLAMA),
    (''llavagemma'', RCPP_ARCH_GEMMA), (''llavagpt2'', RCPP_ARCH_GPT2),
    (''llavamamba'', RCPP_ARCH_MAMBA), (''llavampt'', RCPP_ARCH_LLAMA),
    (''llavaqwen3'', RCPP_ARCH_QWEN3VL), (''maskmoellavaqwen3'', RCPP_ARCH_QWEN3VL),
    (''minimaxm1'', RCPP_ARCH_MINIMAX), (''minimaxm3sparse'', RCPP_ARCH_MINIMAX),
    (''mobilintexaone'', RCPP_ARCH_LLAMA), (''moellavaqwen3'', RCPP_ARCH_QWEN3VL),
    (''mosaicgpt'', RCPP_ARCH_LLAMA), (''nanogpt'', RCPP_ARCH_GPT2),
    (''nmmaskmoellavaqwen3'', RCPP_ARCH_QWEN3VL), (''phi4flash'', RCPP_ARCH_PHI),
    (''plamo2'', RCPP_ARCH_LLAMA), (''plamo3'', RCPP_ARCH_LLAMA),
    (''qwen2chunking'', RCPP_ARCH_QWEN2), (''qwen3omnimoe'', RCPP_ARCH_QWEN3VL),
    (''rwkv6qwen2'', RCPP_ARCH_QWEN2), (''spatiallmqwen'', RCPP_ARCH_QWEN2VL),
    (''stablelmalpha'', RCPP_ARCH_LLAMA), (''tpugemma3'', RCPP_ARCH_GEMMA),
    (''mfuyu'', RCPP_ARCH_FUYU), (''fuyu'', RCPP_ARCH_FUYU), (''museglimmer'', RCPP_ARCH_MUSE),
    (''muse_glimmer'', RCPP_ARCH_MUSE), (''alibi'', RCPP_ARCH_GPT2), (''gsa'', RCPP_ARCH_LLAMA),
    (''gptx2'', RCPP_ARCH_LLAMA), (''mosmamba'', RCPP_ARCH_MAMBA), (''gemmoe'', RCPP_ARCH_GEMMA),
    (''gemma3moe'', RCPP_ARCH_GEMMA), (''mixtralmole'', RCPP_ARCH_MISTRAL),
    (''hybridgpt2'', RCPP_ARCH_GPT2), (''activationsgptneo'', RCPP_ARCH_GPTNEOX),
    (''attnqwen'', RCPP_ARCH_QWEN3), (''bitmamba2lm'', RCPP_ARCH_MAMBA),
    (''replitlm'', RCPP_ARCH_LLAMA), (''pharia'', RCPP_ARCH_LLAMA),
    (''step3p7'', RCPP_ARCH_STEP3P5), (''inflm'', RCPP_ARCH_LLAMA),
    (''extendedmpt'', RCPP_ARCH_LLAMA), (''deltanet'', RCPP_ARCH_QWEN3NEXT),
    (''tinygdn'', RCPP_ARCH_QWEN3NEXT), (''phi2moe'', RCPP_ARCH_PHI),
    (''latentmoellavaphi'', RCPP_ARCH_PHI), (''nmmaskmoellavaphi'', RCPP_ARCH_PHI),
    (''qwen3sharedmoe'', RCPP_ARCH_QWEN3)]"

definition arch_rows_9 :: "(string \<times> arch) list" where
  "arch_rows_9 =
   [
    (''nanochatgpt'', RCPP_ARCH_NANOCHAT), (''pit'', RCPP_ARCH_GPT2),
    (''chesstrm'', RCPP_ARCH_GPT2), (''randygpt'', RCPP_ARCH_GPT2),
    (''stickbreaking'', RCPP_ARCH_GPT2), (''pinyincode'', RCPP_ARCH_GPT2),
    (''brujula'', RCPP_ARCH_GPT2), (''phonelm'', RCPP_ARCH_LLAMA),
    (''norovoxalphamoe'', RCPP_ARCH_LLAMA), (''progen2forpretraining'', RCPP_ARCH_GPT2),
    (''evo2'', RCPP_ARCH_STRIPEDHYENA), (''embformer'', RCPP_ARCH_LLAMA),
    (''starvector'', RCPP_ARCH_LLAMA), (''eagle3speculator'', RCPP_ARCH_LLAMA),
    (''agora'', RCPP_ARCH_QWEN2), (''andrea'', RCPP_ARCH_GPTNEOX),
    (''aquilamoe'', RCPP_ARCH_LLAMA), (''babylm'', RCPP_ARCH_OPT),
    (''chessllm'', RCPP_ARCH_GPTNEOX), (''custom'', RCPP_ARCH_QWEN3),
    (''custommodel'', RCPP_ARCH_FALCON), (''dendro'', RCPP_ARCH_GPTNEOX),
    (''eryon'', RCPP_ARCH_MISTRAL), (''expandedjetmoe'', RCPP_ARCH_LLAMA),
    (''finermoe'', RCPP_ARCH_LLAMA), (''gitllama'', RCPP_ARCH_LLAMA),
    (''grin-moe'', RCPP_ARCH_LLAMA), (''gtlm'', RCPP_ARCH_MISTRAL),
    (''helion'', RCPP_ARCH_MISTRAL), (''husky'', RCPP_ARCH_QWEN2), (''i3'', RCPP_ARCH_LLAMA),
    (''iconn'', RCPP_ARCH_MISTRAL), (''idefics2'', RCPP_ARCH_LLAMA),
    (''intellix'', RCPP_ARCH_QWEN2), (''ivme'', RCPP_ARCH_LLAMA), (''llama3'', RCPP_ARCH_LLAMA),
    (''llamavision'', RCPP_ARCH_LLAMA), (''llamoe'', RCPP_ARCH_LLAMA),
    (''logos'', RCPP_ARCH_MISTRAL), (''mgmomni'', RCPP_ARCH_LLAMA),
    (''minicpmo'', RCPP_ARCH_LLAMA), (''minimaxtext01'', RCPP_ARCH_LLAMA),
    (''moedl'', RCPP_ARCH_LLAMA), (''moegpt'', RCPP_ARCH_GPTNEOX),
    (''moellavaqwen'', RCPP_ARCH_LLAMA), (''moellavaqwen2'', RCPP_ARCH_LLAMA),
    (''monkey'', RCPP_ARCH_LLAMA), (''nanonano'', RCPP_ARCH_QWEN3), (''new'', RCPP_ARCH_QWEN3),
    (''openaimoe'', RCPP_ARCH_MISTRAL), (''pangupromoe'', RCPP_ARCH_LLAMA),
    (''phogpt'', RCPP_ARCH_LLAMA), (''rabbit'', RCPP_ARCH_LLAMA), (''ressai'', RCPP_ARCH_GEMMA),
    (''rwkv-6'', RCPP_ARCH_RWKV), (''scidfm'', RCPP_ARCH_LLAMA), (''tanuki'', RCPP_ARCH_LLAMA),
    (''thanatos'', RCPP_ARCH_GPTNEOX), (''tinymixtral'', RCPP_ARCH_MISTRAL),
    (''traxlmistral'', RCPP_ARCH_MISTRAL), (''trm'', RCPP_ARCH_BLOOM),
    (''wikimini'', RCPP_ARCH_GEMMA), (''yayi'', RCPP_ARCH_BLOOM), (''hixtral'', RCPP_ARCH_PHI),
    (''a2dgptneox'', RCPP_ARCH_GPTNEOX), (''arabicgpt'', RCPP_ARCH_GPT2),
    (''axion'', RCPP_ARCH_DEEPSEEK), (''batgpt'', RCPP_ARCH_GPT2), (''bettergpt'', RCPP_ARCH_GPT2),
    (''bharatgpt'', RCPP_ARCH_GPT2), (''birwkv7'', RCPP_ARCH_RWKV), (''bytegpt'', RCPP_ARCH_GPT2),
    (''campgpt'', RCPP_ARCH_GPT2), (''circuitgpt'', RCPP_ARCH_GPT2),
    (''cognitiveagent'', RCPP_ARCH_GEMMA), (''colmaskmoellavaqwen2'', RCPP_ARCH_QWEN2),
    (''convgpt'', RCPP_ARCH_GPT2), (''costwisegemma'', RCPP_ARCH_GEMMA),
    (''cubichierlm'', RCPP_ARCH_GEMMA), (''dcpythia'', RCPP_ARCH_GPTNEOX),
    (''deepseeknano'', RCPP_ARCH_DEEPSEEK), (''deepseekocr'', RCPP_ARCH_DEEPSEEK),
    (''deepseekvlv2'', RCPP_ARCH_DEEPSEEK), (''diseasegpt'', RCPP_ARCH_GPT2),
    (''dyncolmaskmoellavaqwen3'', RCPP_ARCH_QWEN2),
    (''dynhiercolmaskmoellavaqwen2'', RCPP_ARCH_QWEN2), (''enggptmoe'', RCPP_ARCH_GPT2),
    (''esm2llamainstruct'', RCPP_ARCH_LLAMA), (''evagpt'', RCPP_ARCH_GPT2),
    (''exaone4_5_'', RCPP_ARCH_LLAMA), (''flex_qwen2_5_vlmoe'', RCPP_ARCH_QWEN2),
    (''gelugpt'', RCPP_ARCH_GPT2), (''gemma2moe'', RCPP_ARCH_GEMMA),
    (''gemma3px'', RCPP_ARCH_GEMMA), (''gemma4e2bithybrid'', RCPP_ARCH_GEMMA),
    (''gemma4nano'', RCPP_ARCH_GEMMA), (''glm4moeliteplusplus'', RCPP_ARCH_LLAMA),
    (''glm4v'', RCPP_ARCH_LLAMA), (''goatvvv'', RCPP_ARCH_GPT2), (''gpt2vision'', RCPP_ARCH_GPT2),
    (''gpt300m'', RCPP_ARCH_GPT2), (''gpt4dev'', RCPP_ARCH_GPT2), (''gptcustom'', RCPP_ARCH_GPT2),
    (''gptjmoe'', RCPP_ARCH_GPTJ), (''gptneoxjapanese'', RCPP_ARCH_GPTNEOX),
    (''gptossmoe'', RCPP_ARCH_GPTOSS), (''gptossvl'', RCPP_ARCH_GPTOSS),
    (''gptsanjapanese'', RCPP_ARCH_GPT2), (''gqagpt2'', RCPP_ARCH_GPT2),
    (''granitemoeswa'', RCPP_ARCH_GEMMA), (''graniteswa'', RCPP_ARCH_GEMMA),
    (''haipailm'', RCPP_ARCH_GPT2), (''hangulgemmadeobfuscator'', RCPP_ARCH_GEMMA),
    (''hebrewgpt'', RCPP_ARCH_GPT2), (''hiercolmaskmoellavaqwen2'', RCPP_ARCH_QWEN2),
    (''huazangqwen'', RCPP_ARCH_QWEN2), (''hybridgpt'', RCPP_ARCH_GPT2),
    (''hybridmamba'', RCPP_ARCH_MAMBA), (''hypermambalm'', RCPP_ARCH_MAMBA),
    (''impphi3'', RCPP_ARCH_PHI), (''latentmoellavaqwen2'', RCPP_ARCH_QWEN2),
    (''latentmoellavaqwen3'', RCPP_ARCH_QWEN3), (''lfm2idk'', RCPP_ARCH_LFM2),
    (''lfm2moecustom'', RCPP_ARCH_LFM2), (''lightgpthuggingface'', RCPP_ARCH_GPT2),
    (''llama3custom'', RCPP_ARCH_LLAMA), (''llama3forcausallmwithearlyexit'', RCPP_ARCH_LLAMA),
    (''llamamoeupscaling'', RCPP_ARCH_LLAMA), (''llamavarlayer'', RCPP_ARCH_LLAMA),
    (''llamawithmoe'', RCPP_ARCH_LLAMA), (''llavamixtral'', RCPP_ARCH_MISTRAL),
    (''llavapythia'', RCPP_ARCH_GPTNEOX), (''llavastablelm'', RCPP_ARCH_LLAMA),
    (''mamba3causallm'', RCPP_ARCH_MAMBA), (''marshmellogpt'', RCPP_ARCH_GPT2),
    (''maskmoellavaqwen2'', RCPP_ARCH_QWEN2), (''mcgpt'', RCPP_ARCH_GPT2),
    (''meglm'', RCPP_ARCH_LLAMA), (''minicpmv'', RCPP_ARCH_LLAMA),
    (''minicpmv4_6'', RCPP_ARCH_LLAMA)]"

definition arch_rows_10 :: "(string \<times> arch) list" where
  "arch_rows_10 =
   [
    (''minideepseekv3'', RCPP_ARCH_DEEPSEEK), (''minideepseekv4'', RCPP_ARCH_DEEPSEEK),
    (''minigeminigemma'', RCPP_ARCH_GEMMA), (''miniqwen3next'', RCPP_ARCH_QWEN2),
    (''mmgptqwen'', RCPP_ARCH_GPT2), (''moderngptmoe'', RCPP_ARCH_GPT2),
    (''moegpt2'', RCPP_ARCH_GPT2), (''moellavamistral'', RCPP_ARCH_MISTRAL),
    (''moellavaphi'', RCPP_ARCH_PHI), (''moellavaqwen1_5'', RCPP_ARCH_QWEN2),
    (''moellavastablelm'', RCPP_ARCH_LLAMA), (''muddpythia'', RCPP_ARCH_GPTNEOX),
    (''muongpt'', RCPP_ARCH_GPT2), (''myphi'', RCPP_ARCH_PHI),
    (''nanochatwasmfused'', RCPP_ARCH_NANOCHAT), (''nanogptcompressed'', RCPP_ARCH_GPT2),
    (''nemotrondenseaudex'', RCPP_ARCH_NEMOTRONH), (''nemotronhaudex'', RCPP_ARCH_NEMOTRONH),
    (''nemotronhpuzzle'', RCPP_ARCH_NEMOTRONH), (''nmmaskmoellavaqwen2'', RCPP_ARCH_QWEN2),
    (''nopegpthuggingface'', RCPP_ARCH_GPT2), (''nrgpt'', RCPP_ARCH_GPT2),
    (''olmoeuprop'', RCPP_ARCH_OLMO), (''optimus3'', RCPP_ARCH_OPT), (''optrix'', RCPP_ARCH_OPT),
    (''phiforlogicalreasoning'', RCPP_ARCH_PHI), (''polyllama'', RCPP_ARCH_LLAMA),
    (''qwen2mtp'', RCPP_ARCH_QWEN2), (''qwen3moeplusplus'', RCPP_ARCH_QWEN2),
    (''qwen3omni'', RCPP_ARCH_QWEN2), (''recgpt'', RCPP_ARCH_GPT2),
    (''renneellamahfwrapper'', RCPP_ARCH_LLAMA), (''ropegpt2'', RCPP_ARCH_GPT2),
    (''rugpt3xl'', RCPP_ARCH_GPT2), (''rustnngpt'', RCPP_ARCH_GPT2), (''rwkv07i'', RCPP_ARCH_RWKV),
    (''rwkv07imoe'', RCPP_ARCH_RWKV), (''schoolmoe'', RCPP_ARCH_OLMO),
    (''semiticgpt'', RCPP_ARCH_GPT2), (''sentinelguardedphi'', RCPP_ARCH_PHI),
    (''simamba'', RCPP_ARCH_MAMBA), (''smallllm'', RCPP_ARCH_GPT2),
    (''smollllama'', RCPP_ARCH_LLAMA), (''sologpt'', RCPP_ARCH_GPT2),
    (''sovyn85m'', RCPP_ARCH_GPT2), (''stepvl'', RCPP_ARCH_STEP1),
    (''stieltjesgpt2'', RCPP_ARCH_GPT2), (''supermaskmoellavagemma'', RCPP_ARCH_GEMMA),
    (''tallavagemma'', RCPP_ARCH_GEMMA), (''tinychartphi'', RCPP_ARCH_PHI),
    (''tinyqwen3engramhc'', RCPP_ARCH_QWEN2), (''tinyqwen3novelty'', RCPP_ARCH_QWEN2),
    (''traxl'', RCPP_ARCH_GPT2), (''trmgpt'', RCPP_ARCH_GPT2), (''vaultgemma'', RCPP_ARCH_GEMMA),
    (''verysmollgpt'', RCPP_ARCH_GPT2), (''vexiongpt'', RCPP_ARCH_GPT2), (''vopt'', RCPP_ARCH_OPT),
    (''yatfullgpt'', RCPP_ARCH_GPT2), (''a194logitensemble'', RCPP_ARCH_A194LOGITENSEMBLE),
    (''abir'', RCPP_ARCH_ABIR), (''abu2head'', RCPP_ARCH_ABU2HEAD), (''acerag'', RCPP_ARCH_ACERAG),
    (''acswiglu'', RCPP_ARCH_ACSWIGLU), (''adaptiveriverlm'', RCPP_ARCH_ADAPTIVERIVER),
    (''aethermicro'', RCPP_ARCH_AETHERMICRO), (''ailo'', RCPP_ARCH_AILO),
    (''ailoloop'', RCPP_ARCH_AILOLOOP), (''alinlight'', RCPP_ARCH_ALINLIGHT),
    (''amadablam'', RCPP_ARCH_AMADABLAM), (''ancientaiv'', RCPP_ARCH_ANCIENTAIV),
    (''anubismoe'', RCPP_ARCH_ANUBISMOE), (''apriel2'', RCPP_ARCH_APRIEL2),
    (''arar381m'', RCPP_ARCH_ARAR381M), (''asclelm'', RCPP_ARCH_ASCLE),
    (''asgtransformer'', RCPP_ARCH_ASGTRANSFORMER), (''attnonly'', RCPP_ARCH_ATTNONLY),
    (''autoencoder'', RCPP_ARCH_AUTOENCODER), (''autogui'', RCPP_ARCH_AUTOGUI),
    (''aveydecodermoe'', RCPP_ARCH_AVEYDECODERMOE), (''axon'', RCPP_ARCH_AXON),
    (''ayavision'', RCPP_ARCH_AYAVISION), (''bacformerforcausalgm'', RCPP_ARCH_BACFORMERGM),
    (''backboneconceptlm'', RCPP_ARCH_BACKBONECONCEPT), (''baclm'', RCPP_ARCH_BAC),
    (''bailingmoelinear'', RCPP_ARCH_BAILINGMOELINEAR),
    (''bananamind2medium'', RCPP_ARCH_BANANAMIND2MEDIUM),
    (''bananamind2micro'', RCPP_ARCH_BANANAMIND2MICRO),
    (''bananamind2mini'', RCPP_ARCH_BANANAMIND2MINI),
    (''bananamind2moe'', RCPP_ARCH_BANANAMIND2MOE),
    (''bananamind2nano'', RCPP_ARCH_BANANAMIND2NANO),
    (''bananamind2pro'', RCPP_ARCH_BANANAMIND2PRO), (''banglagamba'', RCPP_ARCH_BANGLAGAMBA),
    (''banglagsg'', RCPP_ARCH_BANGLAGSG), (''barbet'', RCPP_ARCH_BARBET),
    (''beetlemoehf'', RCPP_ARCH_BEETLEMOEHF), (''bharatai'', RCPP_ARCH_BHARATAI),
    (''biatron'', RCPP_ARCH_BIATRON), (''bigbrainlanguage'', RCPP_ARCH_BIGBRAINLANGUAGE),
    (''binaryllm'', RCPP_ARCH_BINARYL),
    (''bitskipv1forcausallmwithearlyexit'', RCPP_ARCH_BITSKIPV1WITHEARLYEXIT),
    (''bitskipv2forcausallmwithearlyexit'', RCPP_ARCH_BITSKIPV2WITHEARLYEXIT),
    (''bitskipv3'', RCPP_ARCH_BITSKIPV3), (''boramoe'', RCPP_ARCH_BORAMOE),
    (''braille256'', RCPP_ARCH_BRAILLE256), (''branchycausal'', RCPP_ARCH_BRANCHYCAUSAL),
    (''bridgevqa'', RCPP_ARCH_BRIDGEVQA), (''bucketmemory'', RCPP_ARCH_BUCKETMEMORY),
    (''bungeo'', RCPP_ARCH_BUNGEO), (''cable'', RCPP_ARCH_CABLE),
    (''causallmoe'', RCPP_ARCH_CAUSALLMOE), (''celerity'', RCPP_ARCH_CELERITY),
    (''cfrd'', RCPP_ARCH_CFRD), (''chameleonxllmx'', RCPP_ARCH_CHAMELEONXLLMX),
    (''cimodel'', RCPP_ARCH_CI), (''cinnabarlm'', RCPP_ARCH_CINNABAR),
    (''claritymr1'', RCPP_ARCH_CLARITYMR1), (''clinamen'', RCPP_ARCH_CLINAMEN),
    (''cloverlm'', RCPP_ARCH_CLOVER), (''cma'', RCPP_ARCH_CMA), (''codify'', RCPP_ARCH_CODIFY),
    (''codva1'', RCPP_ARCH_CODVA1), (''coffeechatai'', RCPP_ARCH_COFFEECHATAI),
    (''coherencemomentum'', RCPP_ARCH_COHERENCEMOMENTUM), (''compliantllm'', RCPP_ARCH_COMPLIANTL),
    (''convaicausallm'', RCPP_ARCH_CONVAICAUSAL), (''cosmicfish'', RCPP_ARCH_COSMICFISH),
    (''cpmant'', RCPP_ARCH_CPMANT), (''cpmbee'', RCPP_ARCH_CPMBEE),
    (''cubicpipelineoptimizer'', RCPP_ARCH_CUBICPIPELINEOPTIMIZER),
    (''cubicv11longcontext'', RCPP_ARCH_CUBICV11LONGCONTEXT),
    (''cubiczanmoe'', RCPP_ARCH_CUBICZANMOE),
    (''customdecoderonlyt5'', RCPP_ARCH_CUSTOMDECODERONLYT5),
    (''custommodel5'', RCPP_ARCH_CUSTOM5), (''customtagalogllm'', RCPP_ARCH_CUSTOMTAGALOGL),
    (''customtransformer'', RCPP_ARCH_CUSTOMTRANSFORMER),
    (''cyclicformer'', RCPP_ARCH_CYCLICFORMER), (''d3pmsanskrit'', RCPP_ARCH_D3PMSANSKRIT),
    (''darkit-v1.5'', RCPP_ARCH_DARKITV15), (''darkit-v2.5'', RCPP_ARCH_DARKITV25),
    (''darwinduoorchestrator'', RCPP_ARCH_DARWINDUOORCHESTRATOR),
    (''data2vectext'', RCPP_ARCH_DATA2VECTEXT), (''dcformer'', RCPP_ARCH_DCFORMER),
    (''decoderonlytransformer'', RCPP_ARCH_DECODERONLYTRANSFORMER),
    (''decodon'', RCPP_ARCH_DECODON), (''densellm'', RCPP_ARCH_DENSEL), (''dfm'', RCPP_ARCH_DFM),
    (''distillix'', RCPP_ARCH_DISTILLIX), (''domaintransformer'', RCPP_ARCH_DOMAINTRANSFORMER)]"

definition arch_rows_11 :: "(string \<times> arch) list" where
  "arch_rows_11 =
   [
    (''dotlm'', RCPP_ARCH_DOT), (''dotsocr'', RCPP_ARCH_DOTSOCR),
    (''dshybrid'', RCPP_ARCH_DSHYBRID), (''dwarf'', RCPP_ARCH_DWARF),
    (''dynamicmindmoe'', RCPP_ARCH_DYNAMICMINDMOE),
    (''dynamicneuralnetwork'', RCPP_ARCH_DYNAMICNEURALNETWORK), (''echo'', RCPP_ARCH_ECHO),
    (''echoes'', RCPP_ARCH_ECHOES), (''ecoaco'', RCPP_ARCH_ECOACO),
    (''elasticgpt'', RCPP_ARCH_ELASTICGPT), (''ensemblemodel'', RCPP_ARCH_ENSEMBLE),
    (''erklinear'', RCPP_ARCH_ERKLINEAR), (''evafrillmo'', RCPP_ARCH_EVAFRILLMO),
    (''evemoe'', RCPP_ARCH_EVEMOE), (''evo1'', RCPP_ARCH_EVO1), (''fastplus'', RCPP_ARCH_FASTPLUS),
    (''fastplus125m'', RCPP_ARCH_FASTPLUS125M), (''fastplus40m'', RCPP_ARCH_FASTPLUS40M),
    (''fasty'', RCPP_ARCH_FASTY), (''fela'', RCPP_ARCH_FELA), (''fern3b'', RCPP_ARCH_FERN3B),
    (''fieldshub'', RCPP_ARCH_FIELDSHUB),
    (''fiphi-neuralark-3.9-ultra'', RCPP_ARCH_FIPHINEURALARK39ULTRA),
    (''fixedenhancedhybridtransformer'', RCPP_ARCH_FIXEDENHANCEDHYBRIDTRANS),
    (''flexrank'', RCPP_ARCH_FLEXRANK), (''fontainelm'', RCPP_ARCH_FONTAINE),
    (''frawdllm'', RCPP_ARCH_FRAWDL), (''frenchllm'', RCPP_ARCH_FRENCHL),
    (''fsgpt'', RCPP_ARCH_FSGPT), (''fsgptmoe'', RCPP_ARCH_FSGPTMOE), (''fuse3'', RCPP_ARCH_FUSE3),
    (''fuse3v2'', RCPP_ARCH_FUSE3V2), (''futuregq47m'', RCPP_ARCH_FUTUREGQ47M),
    (''futuregq47q'', RCPP_ARCH_FUTUREGQ47Q), (''fuxitranyu'', RCPP_ARCH_FUXITRANYU),
    (''fwkvlanguage'', RCPP_ARCH_FWKVLANGUAGE), (''g0nano'', RCPP_ARCH_G0NANO),
    (''gad2foragenticmodeling'', RCPP_ARCH_GAD2FORAGENTICING),
    (''gadforagenticmodeling'', RCPP_ARCH_GADFORAGENTICING), (''galahad'', RCPP_ARCH_GALAHAD),
    (''gateddeltaproduct'', RCPP_ARCH_GATEDDELTAPRODUCT), (''gazelle'', RCPP_ARCH_GAZELLE),
    (''gembytiny'', RCPP_ARCH_GEMBYTINY), (''geov'', RCPP_ARCH_GEOV),
    (''giftofgab'', RCPP_ARCH_GIFTOFGAB), (''glublm'', RCPP_ARCH_GLUB),
    (''godqueeniv'', RCPP_ARCH_GODQUEENIV), (''gravitymoe'', RCPP_ARCH_GRAVITYMOE),
    (''grok2'', RCPP_ARCH_GROK2), (''groundedbliplm'', RCPP_ARCH_GROUNDEDBLIP),
    (''guppylm'', RCPP_ARCH_GUPPY), (''h2ovlchat'', RCPP_ARCH_H2OVLCHAT),
    (''haipai'', RCPP_ARCH_HAIPAI), (''haltcot'', RCPP_ARCH_HALTCOT),
    (''hanforge'', RCPP_ARCH_HANFORGE), (''hcxvision'', RCPP_ARCH_HCXVISION),
    (''hcxvisionv2'', RCPP_ARCH_HCXVISIONV2), (''helloagent'', RCPP_ARCH_HELLOAGENT),
    (''henlaconfed'', RCPP_ARCH_HENLACONFED), (''hfbyteetm'', RCPP_ARCH_HFBYTEETM),
    (''hfopenmoe'', RCPP_ARCH_HFOPENMOE), (''hindicausallm'', RCPP_ARCH_HINDICAUSAL),
    (''hlm5'', RCPP_ARCH_HLM5), (''hrm'', RCPP_ARCH_HRM),
    (''hrmcosmicfish'', RCPP_ARCH_HRMCOSMICFISH), (''hrmtextmoe'', RCPP_ARCH_HRMTEXTMOE),
    (''htdn'', RCPP_ARCH_HTDN), (''hybridecho'', RCPP_ARCH_HYBRIDECHO),
    (''hybridfourierlm'', RCPP_ARCH_HYBRIDFOURIER),
    (''hybridgateddeltanet'', RCPP_ARCH_HYBRIDGATEDDELTANET),
    (''hybridmormoe'', RCPP_ARCH_HYBRIDMORMOE), (''hybridtiny'', RCPP_ARCH_HYBRIDTINY),
    (''hybridtransformerv2'', RCPP_ARCH_HYBRIDTRANSFORMERV2), (''hybriko'', RCPP_ARCH_HYBRIKO),
    (''i3hybridchat'', RCPP_ARCH_I3HYBRIDCHAT), (''infimmhd'', RCPP_ARCH_INFIMMHD),
    (''infimmvicuna'', RCPP_ARCH_INFIMMVICUNA), (''infimmzephyr'', RCPP_ARCH_INFIMMZEPHYR),
    (''inkling'', RCPP_ARCH_INKLING),
    (''inversionfromhiddenstates'', RCPP_ARCH_INVERSIONFROMHIDDENSTATE),
    (''ions1'', RCPP_ARCH_IONS1), (''isllmai50m'', RCPP_ARCH_ISLLMAI50M),
    (''ivmecoderv1'', RCPP_ARCH_IVMECODERV1), (''ivmeconversates'', RCPP_ARCH_IVMECONVERSATES),
    (''ivmeconversatesv2instruct'', RCPP_ARCH_IVMECONVERSATESV2INSTRUC),
    (''ivmexl'', RCPP_ARCH_IVMEXL), (''jeeney'', RCPP_ARCH_JEENEY), (''jeeves'', RCPP_ARCH_JEEVES),
    (''judgexl'', RCPP_ARCH_JUDGEXL), (''kateai'', RCPP_ARCH_KATEAI),
    (''keystonefuse'', RCPP_ARCH_KEYSTONEFUSE), (''kfm'', RCPP_ARCH_KFM),
    (''klearmoe'', RCPP_ARCH_KLEARMOE), (''knkvf'', RCPP_ARCH_KNKVF),
    (''koprialm'', RCPP_ARCH_KOPRIA), (''kormomoe'', RCPP_ARCH_KORMOMOE),
    (''kosmos2_5text'', RCPP_ARCH_KOSMOS25TEXT), (''ksbyte'', RCPP_ARCH_KSBYTE),
    (''kvlatent'', RCPP_ARCH_KVLATENT), (''laminarnet'', RCPP_ARCH_LAMINARNET),
    (''lanceai'', RCPP_ARCH_LANCEAI), (''laneformer'', RCPP_ARCH_LANEFORMER),
    (''latentrecurrentdepth'', RCPP_ARCH_LATENTRECURRENTDEPTH),
    (''ledgernet'', RCPP_ARCH_LEDGERNET), (''ligergla'', RCPP_ARCH_LIGERGLA),
    (''lightbrainhybrid'', RCPP_ARCH_LIGHTBRAINHYBRID), (''llavamonet'', RCPP_ARCH_LLAVAMONET),
    (''llavavistral'', RCPP_ARCH_LLAVAVISTRAL), (''lltransformer'', RCPP_ARCH_LLTRANSFORMER),
    (''loaflm'', RCPP_ARCH_LOAF), (''localllm'', RCPP_ARCH_LOCALL), (''loleve'', RCPP_ARCH_LOLEVE),
    (''longcat'', RCPP_ARCH_LONGCAT), (''longcatflashomni'', RCPP_ARCH_LONGCATFLASHOMNI),
    (''longcatnext'', RCPP_ARCH_LONGCATNEXT), (''loomformer'', RCPP_ARCH_LOOMFORMER),
    (''lsmoe'', RCPP_ARCH_LSMOE), (''lswt'', RCPP_ARCH_LSWT), (''lumees'', RCPP_ARCH_LUMEES),
    (''lumen'', RCPP_ARCH_LUMEN), (''lumenspark'', RCPP_ARCH_LUMENSPARK),
    (''maccy'', RCPP_ARCH_MACCY), (''magnetar'', RCPP_ARCH_MAGNETAR),
    (''markupdm'', RCPP_ARCH_MARKUPDM), (''mathbananamind'', RCPP_ARCH_MATHBANANAMIND),
    (''matilda'', RCPP_ARCH_MATILDA), (''matriochka'', RCPP_ARCH_MATRIOCHKA),
    (''mcqhf'', RCPP_ARCH_MCQHF), (''mdlm'', RCPP_ARCH_MD), (''mdlmbpev4'', RCPP_ARCH_MDLMBPEV4),
    (''medhemo'', RCPP_ARCH_MEDHEMO), (''medhemoearcp'', RCPP_ARCH_MEDHEMOEARCP),
    (''megatron'', RCPP_ARCH_MEGATRON), (''megrezmoe'', RCPP_ARCH_MEGREZMOE),
    (''metallm'', RCPP_ARCH_METAL), (''metismor'', RCPP_ARCH_METISMOR),
    (''microbanana'', RCPP_ARCH_MICROBANANA),
    (''microstorybananamind'', RCPP_ARCH_MICROSTORYBANANAMIND), (''mingru'', RCPP_ARCH_MINGRU),
    (''mingrulm'', RCPP_ARCH_MINGRU_MING), (''miniart'', RCPP_ARCH_MINIART),
    (''minienedina'', RCPP_ARCH_MINIENEDINA), (''minigeminimixtral'', RCPP_ARCH_MINIGEMINIMIXTRAL),
    (''minitransformer'', RCPP_ARCH_MINITRANSFORMER), (''minspark'', RCPP_ARCH_MINSPARK),
    (''miridih_llava'', RCPP_ARCH_MIRIDIHLLAVA), (''mixtral 8x7b'', RCPP_ARCH_MIXTRAL8X7B),
    (''mlpspeculatorpretrained'', RCPP_ARCH_MLPSPECULATORPRETRAINED),
    (''mmmadnessllmmodel'', RCPP_ARCH_MMMADNESSLLM), (''moametriclm'', RCPP_ARCH_MOAMETRIC)]"

definition arch_rows_12 :: "(string \<times> arch) list" where
  "arch_rows_12 =
   [
    (''mobilintcohere2'', RCPP_ARCH_MOBILINTCOHERE2), (''mochiva'', RCPP_ARCH_MOCHIVA),
    (''moduleformer'', RCPP_ARCH_MODULEFORMER), (''moe'', RCPP_ARCH_MOE),
    (''moetransformer'', RCPP_ARCH_MOETRANSFORMER), (''moiraicausallm'', RCPP_ARCH_MOIRAICAUSAL),
    (''molexar'', RCPP_ARCH_MOLEXAR), (''monad1'', RCPP_ARCH_MONAD1),
    (''mothercore'', RCPP_ARCH_MOTHERCORE), (''muddformer'', RCPP_ARCH_MUDDFORMER),
    (''multimodalsuper'', RCPP_ARCH_MULTIMODALSUPER), (''multiscreen'', RCPP_ARCH_MULTISCREEN),
    (''muxx11'', RCPP_ARCH_MUXX11), (''mycoach'', RCPP_ARCH_MYCOACH),
    (''mygrok'', RCPP_ARCH_MYGROK), (''nablavl'', RCPP_ARCH_NABLAVL), (''nafie'', RCPP_ARCH_NAFIE),
    (''nanochrono'', RCPP_ARCH_NANOCHRONO), (''nanomoe'', RCPP_ARCH_NANOMOE),
    (''nanos1_1lite'', RCPP_ARCH_NANOS11LITE), (''nanothink'', RCPP_ARCH_NANOTHINK),
    (''nanotransformer'', RCPP_ARCH_NANOTRANSFORMER), (''nanowhaledime'', RCPP_ARCH_NANOWHALEDIME),
    (''narctiny'', RCPP_ARCH_NARCTINY), (''naturecodeocean'', RCPP_ARCH_NATURECODEOCEAN),
    (''ndlmoe'', RCPP_ARCH_NDLMOE), (''nee'', RCPP_ARCH_NEE),
    (''needconversational'', RCPP_ARCH_NEEDCONVERSATIONAL),
    (''nekomindmoe'', RCPP_ARCH_NEKOMINDMOE), (''nepaledgelm'', RCPP_ARCH_NEPALEDGE),
    (''neuronlm'', RCPP_ARCH_NEURON), (''neuronspark'', RCPP_ARCH_NEURONSPARK),
    (''nexara'', RCPP_ARCH_NEXARA), (''ngen3'', RCPP_ARCH_NGEN3),
    (''ngen3forcasuallm'', RCPP_ARCH_NGEN3_NGEN), (''ngen4'', RCPP_ARCH_NGEN4),
    (''ngen4ow10t'', RCPP_ARCH_NGEN4OW10T), (''nilex'', RCPP_ARCH_NILEX),
    (''noeum'', RCPP_ARCH_NOEUM), (''notokengen'', RCPP_ARCH_NOTOKENGEN),
    (''ntv3generative'', RCPP_ARCH_NTV3GENERATIVE), (''nushy5'', RCPP_ARCH_NUSHY5),
    (''obilanguage'', RCPP_ARCH_OBILANGUAGE),
    (''obsidianmultiscreen'', RCPP_ARCH_OBSIDIANMULTISCREEN), (''odinnext'', RCPP_ARCH_ODINNEXT),
    (''olm3nano'', RCPP_ARCH_OLM3NANO), (''openmythos'', RCPP_ARCH_OPENMYTHOS),
    (''openthaiwilai'', RCPP_ARCH_OPENTHAIWILAI),
    (''openvlaforactionprediction'', RCPP_ARCH_OPENVLAFORACTIONPREDICTI),
    (''orionmoecausallm'', RCPP_ARCH_ORIONMOECAUSAL), (''os24'', RCPP_ARCH_OS24),
    (''otterlm'', RCPP_ARCH_OTTER), (''outliermoe'', RCPP_ARCH_OUTLIERMOE),
    (''packedllm'', RCPP_ARCH_PACKEDL), (''pagnolxl'', RCPP_ARCH_PAGNOLXL),
    (''paintermodel'', RCPP_ARCH_PAINTER), (''panolm'', RCPP_ARCH_PANO),
    (''param1moe'', RCPP_ARCH_PARAM1MOE), (''param2moe'', RCPP_ARCH_PARAM2MOE),
    (''paramtatvatransformer'', RCPP_ARCH_PARAMTATVATRANSFORMER),
    (''parchment'', RCPP_ARCH_PARCHMENT), (''persimmon'', RCPP_ARCH_PERSIMMON),
    (''pinanolm100m'', RCPP_ARCH_PINANOLM100M), (''pinanolm20m'', RCPP_ARCH_PINANOLM20M),
    (''pinanolm50m'', RCPP_ARCH_PINANOLM50M), (''pinkelephant'', RCPP_ARCH_PINKELEPHANT),
    (''plapt'', RCPP_ARCH_PLAPT), (''plbart'', RCPP_ARCH_PLBART),
    (''pletinylm'', RCPP_ARCH_PLETINY), (''pm_minifinllm_'', RCPP_ARCH_PMMINIFINL),
    (''porthormoe'', RCPP_ARCH_PORTHORMOE),
    (''prajnastudentmultilayer'', RCPP_ARCH_PRAJNASTUDENTMULTILAYER),
    (''pratchya'', RCPP_ARCH_PRATCHYA), (''prismcharmlp'', RCPP_ARCH_PRISMCHARMLP),
    (''privatellm'', RCPP_ARCH_PRIVATEL), (''pzdrk-reasoning'', RCPP_ARCH_PZDRKREASONING),
    (''qmoe'', RCPP_ARCH_QMOE), (''qofficesuiteruntime'', RCPP_ARCH_QOFFICESUITERUNTIME),
    (''qovaryx'', RCPP_ARCH_QOVARYX), (''quadorbit'', RCPP_ARCH_QUADORBIT),
    (''ramo'', RCPP_ARCH_RAMO), (''ravenguard'', RCPP_ARCH_RAVENGUARD),
    (''realtransformer'', RCPP_ARCH_REALTRANSFORMER),
    (''recombinationtransformer'', RCPP_ARCH_RECOMBINATIONTRANSFORMER),
    (''recursivecompressorlm'', RCPP_ARCH_RECURSIVECOMPRESSOR),
    (''recursivelanguage'', RCPP_ARCH_RECURSIVELANGUAGE),
    (''regressionisattention'', RCPP_ARCH_REGRESSIONISATTENTION), (''ritamodel'', RCPP_ARCH_RITA),
    (''rubirlm'', RCPP_ARCH_RUBIR), (''saffu'', RCPP_ARCH_SAFFU),
    (''sasequintillionasi'', RCPP_ARCH_SASEQUINTILLIONASI), (''sdarmoe'', RCPP_ARCH_SDARMOE),
    (''sentinelbrain'', RCPP_ARCH_SENTINELBRAIN), (''seqax'', RCPP_ARCH_SEQAX),
    (''seqcond'', RCPP_ARCH_SEQCOND), (''sermental'', RCPP_ARCH_SERMENTAL),
    (''sewyv2'', RCPP_ARCH_SEWYV2), (''shivikm1'', RCPP_ARCH_SHIVIKM1),
    (''shivikm2'', RCPP_ARCH_SHIVIKM2), (''shivikm4'', RCPP_ARCH_SHIVIKM4),
    (''shrinkmodel'', RCPP_ARCH_SHRINK), (''siger'', RCPP_ARCH_SIGER),
    (''simplestories'', RCPP_ARCH_SIMPLESTORIES), (''simplestories4m'', RCPP_ARCH_SIMPLESTORIES4M),
    (''sixpertmoe'', RCPP_ARCH_SIXPERTMOE), (''slimmoe'', RCPP_ARCH_SLIMMOE),
    (''slmoe'', RCPP_ARCH_SLMOE), (''smalllanguage'', RCPP_ARCH_SMALLLANGUAGE),
    (''smartcodermoe'', RCPP_ARCH_SMARTCODERMOE), (''smdm'', RCPP_ARCH_SMDM),
    (''smmodel'', RCPP_ARCH_SM), (''smtmodel'', RCPP_ARCH_SMT), (''sofanor'', RCPP_ARCH_SOFANOR),
    (''solollm'', RCPP_ARCH_SOLOL), (''sonamath'', RCPP_ARCH_SONAMATH),
    (''soraforslm'', RCPP_ARCH_SORAFORS), (''sovythos'', RCPP_ARCH_SOVYTHOS),
    (''sphericalkanbytelm'', RCPP_ARCH_SPHERICALKANBYTE), (''srcprober'', RCPP_ARCH_SRCPROBER),
    (''statehead'', RCPP_ARCH_STATEHEAD), (''steerling'', RCPP_ARCH_STEERLING),
    (''stellarai'', RCPP_ARCH_STELLARAI),
    (''stochasticfrequencyfilter'', RCPP_ARCH_STOCHASTICFREQUENCYFILTE),
    (''suprabrain'', RCPP_ARCH_SUPRABRAIN), (''swarmmoe'', RCPP_ARCH_SWARMMOE),
    (''sweta'', RCPP_ARCH_SWETA), (''sykocausallm'', RCPP_ARCH_SYKOCAUSAL),
    (''tahqiqgenesis'', RCPP_ARCH_TAHQIQGENESIS), (''tamazight'', RCPP_ARCH_TAMAZIGHT),
    (''tamelm'', RCPP_ARCH_TAME), (''tamiltinystories'', RCPP_ARCH_TAMILTINYSTORIES),
    (''taonetminit2'', RCPP_ARCH_TAONETMINIT2), (''tcmoe'', RCPP_ARCH_TCMOE),
    (''thinkerlm'', RCPP_ARCH_THINKER), (''tiny'', RCPP_ARCH_TINY),
    (''tinybuddy'', RCPP_ARCH_TINYBUDDY), (''tinylm'', RCPP_ARCH_TINY_TINY),
    (''tinymind'', RCPP_ARCH_TINYMIND), (''tinypellm'', RCPP_ARCH_TINYPEL),
    (''tinyv4'', RCPP_ARCH_TINYV4), (''tinyway'', RCPP_ARCH_TINYWAY),
    (''tnl1-385m-10b-token_no-act'', RCPP_ARCH_TNL1385M10BTOKENNOACT),
    (''tokenformer'', RCPP_ARCH_TOKENFORMER), (''tokilm'', RCPP_ARCH_TOKI),
    (''toyllm'', RCPP_ARCH_TOYL), (''transcoremqwen'', RCPP_ARCH_TRANSCOREMQWEN),
    (''transformerchatbot'', RCPP_ARCH_TRANSFORMERCHATBOT),
    (''transformermodel'', RCPP_ARCH_TRANSFORMER),
    (''transformerwithpruning'', RCPP_ARCH_TRANSFORMERWITHPRUNING),
    (''trmtextism'', RCPP_ARCH_TRMTEXTISM)]"

definition arch_rows_13 :: "(string \<times> arch) list" where
  "arch_rows_13 =
   [
    (''trocr'', RCPP_ARCH_TROCR), (''trtcv4'', RCPP_ARCH_TRTCV4),
    (''tttpilotmac'', RCPP_ARCH_TTTPILOTMAC), (''turinglm'', RCPP_ARCH_TURING),
    (''twinkelllm'', RCPP_ARCH_TWINKELL), (''tynerox'', RCPP_ARCH_TYNEROX),
    (''ullava'', RCPP_ARCH_ULLAVA), (''ullavacore'', RCPP_ARCH_ULLAVACORE),
    (''unifiedlm'', RCPP_ARCH_UNIFIED), (''urchinparallel'', RCPP_ARCH_URCHINPARALLEL),
    (''vanfast'', RCPP_ARCH_VANFAST), (''vegalm'', RCPP_ARCH_VEGA), (''vegav1'', RCPP_ARCH_VEGAV1),
    (''veramoelite'', RCPP_ARCH_VERAMOELITE), (''verantyx'', RCPP_ARCH_VERANTYX),
    (''vgt_8l_engine'', RCPP_ARCH_VGT8LENGINE), (''vilaforcasuallm'', RCPP_ARCH_VILA),
    (''vlite3'', RCPP_ARCH_VLITE3), (''vlite3_5'', RCPP_ARCH_VLITE35),
    (''vlite7'', RCPP_ARCH_VLITE7), (''vlite7mini20m'', RCPP_ARCH_VLITE7MINI20M),
    (''vrinda'', RCPP_ARCH_VRINDA), (''vritya'', RCPP_ARCH_VRITYA), (''vsb'', RCPP_ARCH_VSB),
    (''wasminterpretertransformer'', RCPP_ARCH_WASMINTERPRETERTRANSFORM),
    (''wbot_1_5'', RCPP_ARCH_WBOT15), (''welmia'', RCPP_ARCH_WELMIA),
    (''wildnerve_tlm01'', RCPP_ARCH_WILDNERVETLM01), (''wiola'', RCPP_ARCH_WIOLA),
    (''wordlatenttransformer'', RCPP_ARCH_WORDLATENTTRANSFORMER),
    (''wyrmling'', RCPP_ARCH_WYRMLING), (''xerobioai'', RCPP_ARCH_XEROBIOAI),
    (''xlstm'', RCPP_ARCH_XLSTM), (''xomdich'', RCPP_ARCH_XOMDICH), (''yazh'', RCPP_ARCH_YAZH),
    (''yforcausallm1_1'', RCPP_ARCH_Y11), (''yforcausallm2'', RCPP_ARCH_Y2),
    (''yforcausallm3'', RCPP_ARCH_Y3), (''yforcausallm31'', RCPP_ARCH_Y31),
    (''zetagrid25b'', RCPP_ARCH_ZETAGRID25B), (''zipformer'', RCPP_ARCH_ZIPFORMER),
    (''zorixnano'', RCPP_ARCH_ZORIXNANO), (''zzjrabbit2'', RCPP_ARCH_ZZJRABBIT2),
    (''zzjrabbit22'', RCPP_ARCH_ZZJRABBIT22), (''zzjrabbit3'', RCPP_ARCH_ZZJRABBIT3),
    (''zzjrabbitmodel'', RCPP_ARCH_ZZJRABBIT), (''glm5next'', RCPP_ARCH_LLAMA),
    (''glm5_next'', RCPP_ARCH_LLAMA), (''baretorch'', RCPP_ARCH_BARETORCH),
    (''cs_lrad'', RCPP_ARCH_BARETORCH), (''qu_ssm'', RCPP_ARCH_QU_SSM),
    (''arobabylm'', RCPP_ARCH_ARO_BABYLM), (''qussm'', RCPP_ARCH_QU_SSM),
    (''breeze'', RCPP_ARCH_BREEZE_TTS), (''hy_v4'', RCPP_ARCH_HYV4), (''hyv4'', RCPP_ARCH_HYV4),
    (''bananamind21_coder'', RCPP_ARCH_BANANAMIND21CODER),
    (''bananamind21coder'', RCPP_ARCH_BANANAMIND21CODER),
    (''bananamind21_lite_25m'', RCPP_ARCH_BANANAMIND21LITE),
    (''bananamind21lite25m'', RCPP_ARCH_BANANAMIND21LITE),
    (''concept_dominant_gptbert'', RCPP_ARCH_CONCEPT_DOMINANT_GPTBERT),
    (''conceptdominantgptbertforpretraining'', RCPP_ARCH_CONCEPT_DOMINANT_GPTBERT),
    (''spark2_5'', RCPP_ARCH_SPARK2_5), (''spark2_5forcausallm'', RCPP_ARCH_SPARK2_5),
    (''tinytransformer'', RCPP_ARCH_TINYTRANSFORMER),
    (''tiny_transformer'', RCPP_ARCH_TINYTRANSFORMER),
    (''tinytransformerforcausallm'', RCPP_ARCH_TINYTRANSFORMER), (''tinygemma'', RCPP_ARCH_GEMMA),
    (''tinygemmaforcausallm'', RCPP_ARCH_GEMMA),
    (''decodertransformer'', RCPP_ARCH_DECODERONLYTRANSFORMER),
    (''decoder_transformer_scratch'', RCPP_ARCH_DECODERONLYTRANSFORMER),
    (''decodertransformerforcausallm'', RCPP_ARCH_DECODERONLYTRANSFORMER),
    (''iknn'', RCPP_ARCH_IKNN), (''iknn-rl1-a1'', RCPP_ARCH_IKNN),
    (''iknnrl1a1forcausallm'', RCPP_ARCH_IKNN), (''iknn-rl1-a1forcausallm'', RCPP_ARCH_IKNN),
    (''k2horizon'', RCPP_ARCH_K2HORIZON), (''k2_horizon_mova'', RCPP_ARCH_K2HORIZON),
    (''k2horizonforcausallm'', RCPP_ARCH_K2HORIZON), (''jugnuvr'', RCPP_ARCH_JUGNUVR),
    (''jugnuvrforcausallm'', RCPP_ARCH_JUGNUVR), (''m2r'', RCPP_ARCH_M2R),
    (''m2rforcausallm'', RCPP_ARCH_M2R), (''trhash'', RCPP_ARCH_TRHASH),
    (''tr_hash_moe'', RCPP_ARCH_TRHASH), (''trhashforcausallm'', RCPP_ARCH_TRHASH),
    (''llavaonevision'', RCPP_ARCH_LLAVAONEVISION),
    (''llava_onevision'', RCPP_ARCH_LLAVAONEVISION),
    (''llavaonevisionforconditionalgeneration'', RCPP_ARCH_LLAVAONEVISION),
    (''lladamodellm'', RCPP_ARCH_LLAMA), (''llada_model_lm'', RCPP_ARCH_LLAMA)]"

definition arch_rows_14 :: "(string \<times> arch) list" where
  "arch_rows_14 =
   [
    (''lfm2dsparkdraft'', RCPP_ARCH_LFM2), (''museglimmerassistant'', RCPP_ARCH_MUSE),
    (''muse_glimmer_assistant'', RCPP_ARCH_MUSE), (''qwen4exp'', RCPP_ARCH_QWEN3NEXT),
    (''qwen4_exp'', RCPP_ARCH_QWEN3NEXT), (''dflash2draft'', RCPP_ARCH_QWEN3),
    (''lowonmind'', RCPP_ARCH_LLAMA), (''oxmini'', RCPP_ARCH_LLAMA),
    (''cagliostro'', RCPP_ARCH_LLAMA), (''gmma-jepa'', RCPP_ARCH_GEMMA),
    (''gmmajepa'', RCPP_ARCH_GEMMA), (''moe_greeting'', RCPP_ARCH_LLAMA),
    (''moegreeting'', RCPP_ARCH_LLAMA), (''muse_moe'', RCPP_ARCH_MUSE),
    (''musemoe'', RCPP_ARCH_MUSE), (''qaptaan'', RCPP_ARCH_LLAMA), (''speck'', RCPP_ARCH_LLAMA),
    (''dsparkdraft'', RCPP_ARCH_DEEPSEEK_V4), (''eagle3draft'', RCPP_ARCH_LLAMA),
    (''mobilemoe'', RCPP_ARCH_MOE), (''mediko'', RCPP_ARCH_LLAMA),
    (''t2mlrwrapper'', RCPP_ARCH_LLAMA), (''uniphysgenqwen3'', RCPP_ARCH_QWEN3),
    (''muse2'', RCPP_ARCH_LLAMA), (''nanoexpand'', RCPP_ARCH_LLAMA),
    (''prunedqwen3_5moe'', RCPP_ARCH_QWEN35), (''rost'', RCPP_ARCH_LLAMA),
    (''apertus1p5'', RCPP_ARCH_LLAMA), (''recurrentqwen'', RCPP_ARCH_QWEN3),
    (''blaze'', RCPP_ARCH_LLAMA), (''bananamind21unified'', RCPP_ARCH_BANANAMIND21LITE),
    (''lact'', RCPP_ARCH_LLAMA), (''uuno'', RCPP_ARCH_LLAMA), (''rotor'', RCPP_ARCH_LLAMA),
    (''minibeatrix'', RCPP_ARCH_LLAMA), (''emberproelia'', RCPP_ARCH_LLAMA),
    (''neroxsa'', RCPP_ARCH_LLAMA), (''upcycledllama'', RCPP_ARCH_LLAMA),
    (''e2tttswiglu'', RCPP_ARCH_MAMBA), (''minillama'', RCPP_ARCH_LLAMA),
    (''pebblegpt'', RCPP_ARCH_LLAMA), (''spark'', RCPP_ARCH_LLAMA), (''pebble'', RCPP_ARCH_LLAMA),
    (''qwen4exptext'', RCPP_ARCH_QWEN3), (''interns2mobius'', RCPP_ARCH_LLAMA),
    (''nexus'', RCPP_ARCH_LLAMA), (''longcatflashsparse'', RCPP_ARCH_LONGCAT),
    (''bdh'', RCPP_ARCH_LLAMA), (''sai'', RCPP_ARCH_LLAMA), (''winnowlaguna'', RCPP_ARCH_LAGUNA),
    (''fuseglm'', RCPP_ARCH_LLAMA), (''emender'', RCPP_ARCH_LLAMA), (''emu'', RCPP_ARCH_LLAMA),
    (''e2tttmlp'', RCPP_ARCH_MAMBA), (''maximusmoe'', RCPP_ARCH_MOE),
    (''prismcustom'', RCPP_ARCH_LLAMA), (''holographicqwen'', RCPP_ARCH_QWEN3),
    (''modernllm'', RCPP_ARCH_LLAMA),
    (''smollm2_135m_trigger_v2_quadorbit_lm'', RCPP_ARCH_QUADORBIT),
    (''shadow250m'', RCPP_ARCH_LLAMA), (''zyr3'', RCPP_ARCH_LLAMA),
    (''aurora80k'', RCPP_ARCH_LLAMA), (''kohaku'', RCPP_ARCH_LLAMA),
    (''qwen3mamba2'', RCPP_ARCH_MAMBA), (''susiai'', RCPP_ARCH_LLAMA),
    (''mobilintllamaeagle3'', RCPP_ARCH_LLAMA), (''aaiemoe'', RCPP_ARCH_MOE),
    (''latentcot'', RCPP_ARCH_LLAMA), (''mirai5'', RCPP_ARCH_LLAMA),
    (''qwen35gdn24'', RCPP_ARCH_QWEN35), (''sutra'', RCPP_ARCH_MOE),
    (''overfitter'', RCPP_ARCH_LLAMA), (''extraai'', RCPP_ARCH_LLAMA),
    (''hfluminolex'', RCPP_ARCH_LLAMA), (''sahaj'', RCPP_ARCH_LLAMA),
    (''malayalammoe'', RCPP_ARCH_MOE), (''metacog'', RCPP_ARCH_LLAMA),
    (''vedikacodeprov1'', RCPP_ARCH_LLAMA), (''emendergdn2'', RCPP_ARCH_LLAMA),
    (''qtensorhybridllama'', RCPP_ARCH_LLAMA), (''xonelm'', RCPP_ARCH_LLAMA),
    (''smollm2_135m_trigger_v3_travel_lm'', RCPP_ARCH_LLAMA), (''vedikavyom'', RCPP_ARCH_LLAMA),
    (''lfm2mosaic'', RCPP_ARCH_LFM2), (''thoxmicroprocessor'', RCPP_ARCH_LLAMA),
    (''tianqimoe'', RCPP_ARCH_MOE), (''sankarshana'', RCPP_ARCH_LLAMA),
    (''quillanroninoni'', RCPP_ARCH_LLAMA), (''ember2'', RCPP_ARCH_LLAMA),
    (''frontd11m'', RCPP_ARCH_LLAMA), (''orphea'', RCPP_ARCH_LLAMA),
    (''alphaer'', RCPP_ARCH_LLAMA), (''smallmwolof'', RCPP_ARCH_LLAMA),
    (''vyuhu'', RCPP_ARCH_LLAMA), (''aaieddensegft'', RCPP_ARCH_LLAMA),
    (''vesemir'', RCPP_ARCH_LLAMA), (''qwen3moepteadapter'', RCPP_ARCH_QWEN3),
    (''spark2a'', RCPP_ARCH_LLAMA), (''tinyllama_1_1b_argo1_oov1_lm'', RCPP_ARCH_LLAMA),
    (''qwen3loop'', RCPP_ARCH_QWEN3), (''sparklm'', RCPP_ARCH_LLAMA), (''ruqlm'', RCPP_ARCH_LLAMA),
    (''sarus'', RCPP_ARCH_LLAMA), (''surjoexp'', RCPP_ARCH_LLAMA), (''arkav3'', RCPP_ARCH_LLAMA),
    (''atomk3dspark'', RCPP_ARCH_LLAMA), (''konkangpt'', RCPP_ARCH_LLAMA),
    (''agnes'', RCPP_ARCH_LLAMA), (''hfmetis'', RCPP_ARCH_LLAMA), (''mimans'', RCPP_ARCH_LLAMA),
    (''aaieddense'', RCPP_ARCH_LLAMA), (''cilo'', RCPP_ARCH_LLAMA),
    (''moderatorrrmoe'', RCPP_ARCH_MOE), (''qwen3_8mtp'', RCPP_ARCH_QWEN3),
    (''lavel'', RCPP_ARCH_LLAMA), (''dizellm'', RCPP_ARCH_LLAMA), (''hybridlm'', RCPP_ARCH_LLAMA),
    (''localagent'', RCPP_ARCH_LLAMA), (''tinyllama_1_1b_trigger_v3_travel_lm'', RCPP_ARCH_LLAMA),
    (''neodecodermodelv2'', RCPP_ARCH_LLAMA), (''fp8qwen3'', RCPP_ARCH_QWEN3),
    (''_a2dqwen3'', RCPP_ARCH_QWEN3), (''xqwen3'', RCPP_ARCH_QWEN3),
    (''qwen3tdmoe'', RCPP_ARCH_QWEN3), (''moeqwen3'', RCPP_ARCH_QWEN3),
    (''moeqwen3b'', RCPP_ARCH_QWEN3), (''qwen3moefused'', RCPP_ARCH_QWEN3),
    (''qwen3_5_moe'', RCPP_ARCH_QWEN3)]"

definition arch_rows_15 :: "(string \<times> arch) list" where
  "arch_rows_15 =
   [
    (''dashqqwen3_5moe'', RCPP_ARCH_QWEN3), (''qwen3canon'', RCPP_ARCH_QWEN3),
    (''qwen3terminator'', RCPP_ARCH_QWEN3), (''qwen3forguard'', RCPP_ARCH_QWEN3),
    (''qwen3forcut'', RCPP_ARCH_QWEN3), (''rnsaqwen3'', RCPP_ARCH_QWEN3),
    (''seerattnqwen3'', RCPP_ARCH_QWEN3), (''moloraqwen'', RCPP_ARCH_QWEN3),
    (''fsdpqwen3'', RCPP_ARCH_QWEN3), (''squaredreluqwen3'', RCPP_ARCH_QWEN3),
    (''mixfp4qwen3_5moe'', RCPP_ARCH_QWEN3), (''streamqwen3_5'', RCPP_ARCH_QWEN3),
    (''editableqwen3'', RCPP_ARCH_QWEN3), (''continuousqwen3'', RCPP_ARCH_QWEN3),
    (''mementoqwen3'', RCPP_ARCH_QWEN3), (''fp8qwen2'', RCPP_ARCH_QWEN2),
    (''dashqqwen2'', RCPP_ARCH_QWEN2), (''customqwen2'', RCPP_ARCH_QWEN2),
    (''awqcompatibleqwen2'', RCPP_ARCH_QWEN2), (''hypernetembeddedqwen2'', RCPP_ARCH_QWEN2),
    (''sdlmqwen2'', RCPP_ARCH_QWEN2), (''seerattnqwen2'', RCPP_ARCH_QWEN2),
    (''qwen2caprese'', RCPP_ARCH_QWEN2), (''qwen2_5_'', RCPP_ARCH_QWEN2),
    (''adavocabqwen2'', RCPP_ARCH_QWEN2), (''qwenmhc'', RCPP_ARCH_QWEN2),
    (''fp8llama'', RCPP_ARCH_LLAMA), (''int8llama'', RCPP_ARCH_LLAMA),
    (''llamaforcasuallm'', RCPP_ARCH_LLAMA), (''llama_'', RCPP_ARCH_LLAMA),
    (''userllama'', RCPP_ARCH_LLAMA), (''smallllama'', RCPP_ARCH_LLAMA),
    (''gistllama'', RCPP_ARCH_LLAMA), (''asvdllama'', RCPP_ARCH_LLAMA),
    (''dashqllama'', RCPP_ARCH_LLAMA), (''awqcompatiblellama'', RCPP_ARCH_LLAMA),
    (''covsvdllama'', RCPP_ARCH_LLAMA), (''gaudillama'', RCPP_ARCH_LLAMA),
    (''offsetllama'', RCPP_ARCH_LLAMA), (''pawllama'', RCPP_ARCH_LLAMA),
    (''seerattnllama'', RCPP_ARCH_LLAMA), (''vulavulallama'', RCPP_ARCH_LLAMA),
    (''llamawithintervention'', RCPP_ARCH_LLAMA), (''llamaglidedecoderlayer'', RCPP_ARCH_LLAMA),
    (''moellama'', RCPP_ARCH_LLAMA), (''compressedllama'', RCPP_ARCH_LLAMA),
    (''hookedllama'', RCPP_ARCH_LLAMA), (''colarllama'', RCPP_ARCH_LLAMA),
    (''ferretllama'', RCPP_ARCH_LLAMA), (''generativepromptllama'', RCPP_ARCH_LLAMA),
    (''dlmllama'', RCPP_ARCH_LLAMA), (''fsdpllama'', RCPP_ARCH_LLAMA),
    (''proximastarkvllama'', RCPP_ARCH_LLAMA), (''qllama'', RCPP_ARCH_LLAMA),
    (''eagle3llama'', RCPP_ARCH_LLAMA), (''mmgptllama'', RCPP_ARCH_LLAMA),
    (''llamaforcausallmeagle'', RCPP_ARCH_LLAMA), (''selfdebiasinggpt2'', RCPP_ARCH_GPT2),
    (''ringattentiongpt2'', RCPP_ARCH_GPT2), (''tfgpt2'', RCPP_ARCH_GPT2),
    (''gpt2rope'', RCPP_ARCH_GPT2), (''gpt2mtp'', RCPP_ARCH_GPT2),
    (''gpt2withhm'', RCPP_ARCH_GPT2), (''pipelinedgpt2'', RCPP_ARCH_GPT2),
    (''zsgpt2'', RCPP_ARCH_GPT2), (''rotarygpt2'', RCPP_ARCH_GPT2),
    (''multiheadgpt2'', RCPP_ARCH_GPT2), (''sparsegpt2'', RCPP_ARCH_GPT2),
    (''gpt2headwithvalue'', RCPP_ARCH_GPT2), (''gpt2hlc'', RCPP_ARCH_GPT2),
    (''conditionalgpt'', RCPP_ARCH_GPT2), (''conditionalgpt2'', RCPP_ARCH_GPT2),
    (''gpt3devlm'', RCPP_ARCH_GPT2), (''gptneoforcausallmtiered'', RCPP_ARCH_GPTNEOX),
    (''gptneoxlong'', RCPP_ARCH_GPTNEOX), (''xmistral'', RCPP_ARCH_MISTRAL),
    (''xmixtral'', RCPP_ARCH_MISTRAL), (''mistralstar'', RCPP_ARCH_MISTRAL),
    (''phi2model'', RCPP_ARCH_PHI), (''phi3withvectormemory'', RCPP_ARCH_PHI),
    (''phixtral'', RCPP_ARCH_PHI)]"

definition arch_table :: "(string \<times> arch) list" where
  "arch_table = arch_rows_1 @ arch_rows_2 @ arch_rows_3 @ arch_rows_4 @ arch_rows_5 @ arch_rows_6 @ arch_rows_7 @ arch_rows_8 @ arch_rows_9 @ arch_rows_10 @ arch_rows_11 @ arch_rows_12 @ arch_rows_13 @ arch_rows_14 @ arch_rows_15"

text \<open>\<open>None\<close> is the null pointer.\<close>

definition arch_from_string :: "string option \<Rightarrow> arch" where
  "arch_from_string s =
     (case s of None \<Rightarrow> RCPP_ARCH_BITNET
      | Some s \<Rightarrow> (case map_of arch_table s of Some a \<Rightarrow> a | None \<Rightarrow> RCPP_ARCH_UNKNOWN))"

section \<open>What the table answers\<close>

lemma arch_tokens_ranges:
  "arch_tokens_1 = [0..112] @ [551..582]"
  "arch_tokens_2 = [583..732]"
  "arch_tokens_3 = [733..882]"
  "arch_tokens_4 = [883..987] @ [989..1006] @ [988..988]"
  by (unfold arch_tokens_1_def arch_tokens_2_def arch_tokens_3_def arch_tokens_4_def) code_simp+

lemma set_arch_tokens: "set arch_tokens = {0..112} \<union> {551..1006}"
  by (auto simp: arch_tokens_def arch_tokens_ranges simp del: upto_rec_numeral)

definition row_in_range :: "string \<times> arch \<Rightarrow> bool" where
  "row_in_range r \<longleftrightarrow> 0 \<le> snd r \<and> snd r \<le> 112 \<or> 551 \<le> snd r \<and> snd r \<le> 1006"

lemma arch_rows_in_range:
  "list_all row_in_range arch_rows_1"
  "list_all row_in_range arch_rows_2"
  "list_all row_in_range arch_rows_3"
  "list_all row_in_range arch_rows_4"
  "list_all row_in_range arch_rows_5"
  "list_all row_in_range arch_rows_6"
  "list_all row_in_range arch_rows_7"
  "list_all row_in_range arch_rows_8"
  "list_all row_in_range arch_rows_9"
  "list_all row_in_range arch_rows_10"
  "list_all row_in_range arch_rows_11"
  "list_all row_in_range arch_rows_12"
  "list_all row_in_range arch_rows_13"
  "list_all row_in_range arch_rows_14"
  "list_all row_in_range arch_rows_15"
  by (simp_all add: row_in_range_def arch_rows_1_def arch_rows_2_def arch_rows_3_def arch_rows_4_def arch_rows_5_def arch_rows_6_def arch_rows_7_def arch_rows_8_def arch_rows_9_def arch_rows_10_def arch_rows_11_def arch_rows_12_def arch_rows_13_def arch_rows_14_def arch_rows_15_def)

lemma arch_table_in_range: "list_all row_in_range arch_table"
  by (simp add: arch_table_def arch_rows_in_range)

text \<open>The spellings of the Qwen3.5-MoE family, as \<open>model_router.cpp\<close> recognises them.\<close>

definition qwen35moe_name :: "string \<Rightarrow> bool" where
  "qwen35moe_name a \<longleftrightarrow> contains a ''qwen3_5moe'' \<or> contains a ''qwen35moe'' \<or> contains a ''qwen3_5_moe''"

definition family_row :: "string \<times> arch \<Rightarrow> bool" where
  "family_row r \<longleftrightarrow> qwen35moe_name (fst r)"

text \<open>Every spelling has a digit 5, which sets most rows aside at once.\<close>

definition row_with_5 :: "string \<times> arch \<Rightarrow> bool" where
  "row_with_5 r \<longleftrightarrow> CHR ''5'' \<in> set (fst r)"

lemma family_row_with_5: "family_row r \<Longrightarrow> row_with_5 r"
  by (auto simp: family_row_def row_with_5_def qwen35moe_name_def contains_iff)

lemma filter_family: "filter family_row rs = filter family_row (filter row_with_5 rs)"
  using family_row_with_5 by (induction rs) auto


lemma arch_rows_1_with_5:
  "filter row_with_5 arch_rows_1 =
     [(''bailingmoev2_5'', RCPP_ARCH_LLAMA)]"
  by (simp add: row_with_5_def arch_rows_1_def)

lemma arch_rows_2_with_5:
  "filter row_with_5 arch_rows_2 =
     [(''kimik25'', RCPP_ARCH_DEEPSEEK),
      (''qwen3_5dllm'', RCPP_ARCH_QWEN35),
      (''qwen3_5text'', RCPP_ARCH_QWEN35),
      (''rwkv5'', RCPP_ARCH_RWKV)]"
  by (simp add: row_with_5_def arch_rows_2_def)

lemma arch_rows_3_with_5:
  "filter row_with_5 arch_rows_3 =
     [(''a2dqwen3_5'', RCPP_ARCH_QWEN2),
      (''gigachat35'', RCPP_ARCH_LLAMA),
      (''llavaonevision1_5_'', RCPP_ARCH_QWEN2)]"
  by (simp add: row_with_5_def arch_rows_3_def)

lemma arch_rows_4_with_5:
  "filter row_with_5 arch_rows_4 =
     [(''qwen2_5_xray'', RCPP_ARCH_QWEN2)]"
  by (simp add: row_with_5_def arch_rows_4_def)

lemma arch_rows_5_with_5:
  "filter row_with_5 arch_rows_5 =
     [(''qwen2_5_memory'', RCPP_ARCH_LLAMA)]"
  by (simp add: row_with_5_def arch_rows_5_def)

lemma arch_rows_6_with_5:
  "filter row_with_5 arch_rows_6 =
     [(''keylm75m'', RCPP_ARCH_LLAMA),
      (''llavaqwen1_5'', RCPP_ARCH_QWEN2),
      (''qwen2_5omnithinker'', RCPP_ARCH_QWEN2),
      (''qwen2_5omni'', RCPP_ARCH_QWEN2)]"
  by (simp add: row_with_5_def arch_rows_6_def)

lemma arch_rows_7_with_5:
  "filter row_with_5 arch_rows_7 =
     [(''ernie4_5_'', RCPP_ARCH_LLAMA),
      (''ernie4_5'', RCPP_ARCH_LLAMA),
      (''qwen35text'', RCPP_ARCH_QWEN35),
      (''qwen3_5_moe_text'', RCPP_ARCH_QWEN3NEXT),
      (''ernie4_5_moe'', RCPP_ARCH_ERNIE45MOE),
      (''ernie45moe'', RCPP_ARCH_ERNIE45MOE),
      (''qwen35'', RCPP_ARCH_QWEN35),
      (''qwen35moe'', RCPP_ARCH_QWEN35),
      (''qwen3_5'', RCPP_ARCH_QWEN35),
      (''qwen3_5moe'', RCPP_ARCH_QWEN35),
      (''qwen2_5_vl'', RCPP_ARCH_QWEN2VL),
      (''qwen3_5vl'', RCPP_ARCH_QWEN35)]"
  by (simp add: row_with_5_def arch_rows_7_def)

lemma arch_rows_8_with_5:
  "filter row_with_5 arch_rows_8 =
     [(''step3p5'', RCPP_ARCH_STEP3P5)]"
  by (simp add: row_with_5_def arch_rows_8_def)

lemma arch_rows_9_with_5:
  "filter row_with_5 arch_rows_9 =
     [(''exaone4_5_'', RCPP_ARCH_LLAMA),
      (''flex_qwen2_5_vlmoe'', RCPP_ARCH_QWEN2)]"
  by (simp add: row_with_5_def arch_rows_9_def)

lemma arch_rows_10_with_5:
  "filter row_with_5 arch_rows_10 =
     [(''moellavaqwen1_5'', RCPP_ARCH_QWEN2),
      (''sovyn85m'', RCPP_ARCH_GPT2),
      (''braille256'', RCPP_ARCH_BRAILLE256),
      (''customdecoderonlyt5'', RCPP_ARCH_CUSTOMDECODERONLYT5),
      (''custommodel5'', RCPP_ARCH_CUSTOM5),
      (''darkit-v1.5'', RCPP_ARCH_DARKITV15),
      (''darkit-v2.5'', RCPP_ARCH_DARKITV25)]"
  by (simp add: row_with_5_def arch_rows_10_def)

lemma arch_rows_11_with_5:
  "filter row_with_5 arch_rows_11 =
     [(''fastplus125m'', RCPP_ARCH_FASTPLUS125M),
      (''hlm5'', RCPP_ARCH_HLM5),
      (''isllmai50m'', RCPP_ARCH_ISLLMAI50M),
      (''kosmos2_5text'', RCPP_ARCH_KOSMOS25TEXT)]"
  by (simp add: row_with_5_def arch_rows_11_def)

lemma arch_rows_12_with_5:
  "filter row_with_5 arch_rows_12 =
     [(''nushy5'', RCPP_ARCH_NUSHY5),
      (''pinanolm50m'', RCPP_ARCH_PINANOLM50M),
      (''tnl1-385m-10b-token_no-act'', RCPP_ARCH_TNL1385M10BTOKENNOACT)]"
  by (simp add: row_with_5_def arch_rows_12_def)

lemma arch_rows_13_with_5:
  "filter row_with_5 arch_rows_13 =
     [(''vlite3_5'', RCPP_ARCH_VLITE35),
      (''wbot_1_5'', RCPP_ARCH_WBOT15),
      (''zetagrid25b'', RCPP_ARCH_ZETAGRID25B),
      (''glm5next'', RCPP_ARCH_LLAMA),
      (''glm5_next'', RCPP_ARCH_LLAMA),
      (''bananamind21_lite_25m'', RCPP_ARCH_BANANAMIND21LITE),
      (''bananamind21lite25m'', RCPP_ARCH_BANANAMIND21LITE),
      (''spark2_5'', RCPP_ARCH_SPARK2_5),
      (''spark2_5forcausallm'', RCPP_ARCH_SPARK2_5)]"
  by (simp add: row_with_5_def arch_rows_13_def)

lemma arch_rows_14_with_5:
  "filter row_with_5 arch_rows_14 =
     [(''prunedqwen3_5moe'', RCPP_ARCH_QWEN35),
      (''apertus1p5'', RCPP_ARCH_LLAMA),
      (''smollm2_135m_trigger_v2_quadorbit_lm'', RCPP_ARCH_QUADORBIT),
      (''shadow250m'', RCPP_ARCH_LLAMA),
      (''mirai5'', RCPP_ARCH_LLAMA),
      (''qwen35gdn24'', RCPP_ARCH_QWEN35),
      (''smollm2_135m_trigger_v3_travel_lm'', RCPP_ARCH_LLAMA),
      (''qwen3_5_moe'', RCPP_ARCH_QWEN3)]"
  by (simp add: row_with_5_def arch_rows_14_def)

lemma arch_rows_15_with_5:
  "filter row_with_5 arch_rows_15 =
     [(''dashqqwen3_5moe'', RCPP_ARCH_QWEN3),
      (''mixfp4qwen3_5moe'', RCPP_ARCH_QWEN3),
      (''streamqwen3_5'', RCPP_ARCH_QWEN3),
      (''qwen2_5_'', RCPP_ARCH_QWEN2)]"
  by (simp add: row_with_5_def arch_rows_15_def)

lemmas arch_rows_with_5 =
  arch_rows_1_with_5 arch_rows_2_with_5 arch_rows_3_with_5 arch_rows_4_with_5 arch_rows_5_with_5 arch_rows_6_with_5 arch_rows_7_with_5 arch_rows_8_with_5 arch_rows_9_with_5 arch_rows_10_with_5 arch_rows_11_with_5 arch_rows_12_with_5 arch_rows_13_with_5 arch_rows_14_with_5 arch_rows_15_with_5

lemma arch_rows_family:
  "filter family_row arch_rows_1 = []"
  "filter family_row arch_rows_2 = []"
  "filter family_row arch_rows_3 = []"
  "filter family_row arch_rows_4 = []"
  "filter family_row arch_rows_5 = []"
  "filter family_row arch_rows_6 = []"
  "filter family_row arch_rows_7 = [(''qwen3_5_moe_text'', RCPP_ARCH_QWEN3NEXT), (''qwen35moe'', RCPP_ARCH_QWEN35), (''qwen3_5moe'', RCPP_ARCH_QWEN35)]"
  "filter family_row arch_rows_8 = []"
  "filter family_row arch_rows_9 = []"
  "filter family_row arch_rows_10 = []"
  "filter family_row arch_rows_11 = []"
  "filter family_row arch_rows_12 = []"
  "filter family_row arch_rows_13 = []"
  "filter family_row arch_rows_14 = [(''prunedqwen3_5moe'', RCPP_ARCH_QWEN35), (''qwen3_5_moe'', RCPP_ARCH_QWEN3)]"
  "filter family_row arch_rows_15 = [(''dashqqwen3_5moe'', RCPP_ARCH_QWEN3), (''mixfp4qwen3_5moe'', RCPP_ARCH_QWEN3)]"
  by (subst filter_family, simp add: arch_rows_with_5 family_row_def qwen35moe_name_def contains_def str_find_def)+

lemma arch_table_family:
  "filter family_row arch_table =
     [(''qwen3_5_moe_text'', RCPP_ARCH_QWEN3NEXT),
      (''qwen35moe'', RCPP_ARCH_QWEN35),
      (''qwen3_5moe'', RCPP_ARCH_QWEN35),
      (''prunedqwen3_5moe'', RCPP_ARCH_QWEN35),
      (''qwen3_5_moe'', RCPP_ARCH_QWEN3),
      (''dashqqwen3_5moe'', RCPP_ARCH_QWEN3),
      (''mixfp4qwen3_5moe'', RCPP_ARCH_QWEN3)]"
  by (simp add: arch_table_def arch_rows_family)

text \<open>Whatever name a file carries, and when it carries none, \<open>rcpp_arch_from_string\<close> answers an
  enumerator of \<open>rcpp_arch_t\<close>.\<close>

lemma arch_from_string_type: "arch_from_string s \<in> set arch_tokens"
proof (cases s)
  case None
  then show ?thesis by (simp add: arch_from_string_def set_arch_tokens)
next
  case (Some n)
  show ?thesis
  proof (cases "map_of arch_table n")
    case None
    then show ?thesis by (simp add: arch_from_string_def set_arch_tokens Some)
  next
    case (Some a)
    then have "row_in_range (n, a)"
      using arch_table_in_range map_of_SomeD[OF Some] by (auto simp: list_all_iff)
    then show ?thesis using Some \<open>s = _\<close> by (auto simp: arch_from_string_def set_arch_tokens row_in_range_def)
  qed
qed

end
