(* ===== verification/ModelRouter.thy ===== *)
theory ModelRouter
  imports ArchTable
begin

text \<open>
  \<open>src/model_router.cpp\<close>: the static table that orders the backends of a model. The configuration
  record holds the fields of \<open>ModelConfig\<close> the router and the backend manager read; a route is the list
  of backend ids. The human-readable reason of a route is left out.
\<close>

datatype model_format = FmtUnknown | GGUF | H1B | Q4NX | Safetensors | RawBin | OneBP | MLX

record model_config =
  mc_format :: model_format
  mc_num_experts :: int
  mc_arch :: arch
  mc_architecture :: string
  mc_model_path :: string

definition select_backend_route :: "model_config \<Rightarrow> string list" where
  "select_backend_route cfg =
     (let fmt = mc_format cfg; arch = mc_arch cfg; a = mc_architecture cfg
      in if fmt = MLX then [''lse'', ''cpu_generic'']
         else if 0 < mc_num_experts cfg \<and> fmt \<noteq> GGUF \<and> fmt \<noteq> H1B
                 \<and> arch \<noteq> RCPP_ARCH_MAMBA \<and> arch \<noteq> RCPP_ARCH_LAGUNA
         then [''hip_gpu'', ''cpu_scalar'']
         else if arch = RCPP_ARCH_LAGUNA then [''laguna_gpu'', ''zinc_gpu'', ''cpu_generic'']
         else if arch = RCPP_ARCH_ZAMBA2
         then [''ggml_vulkan'', ''zamba2_vulkan'', ''zamba2_gpu'', ''cpu_generic'']
         else if arch = RCPP_ARCH_NEMOTRONH then [''nemotron_h_cpu'', ''cpu_generic'']
         else if arch = RCPP_ARCH_MAMBA \<or> arch = RCPP_ARCH_ZAMBA then [''mamba1_gpu'', ''cpu_generic'']
         else if arch = RCPP_ARCH_FALCON then [''hip_gpu'', ''cpu_generic'']
         else if arch = RCPP_ARCH_DEEPSEEK then [''hip_gpu'', ''cpu_generic'']
         else if arch = RCPP_ARCH_DEEPSEEK_V4 then [''cpu_deepseek_v4'', ''hip_gpu'', ''cpu_generic'']
         else if a = ''glmmoedsa'' \<or> a = ''glm_moe_dsa''
         then [''cpu_glm_moe_dsa'', ''hip_gpu'', ''cpu_generic'']
         else if a = ''mimov2flash'' \<or> a = ''mimo_v2'' \<or> a = ''mimov2'' \<or> a = ''mimo''
         then [''cpu_mimo_v2'', ''hip_gpu'', ''cpu_generic'']
         else if contains a ''qwen3_5moe'' \<or> contains a ''qwen35moe'' \<or> contains a ''qwen3_5_moe''
         then [''cpu_qwen3_next'', ''npu_flm'', ''cpu_generic'']
         else if arch = RCPP_ARCH_QWEN35 \<or> a = ''qwen35'' \<or> a = ''qwen3_5'' \<or> a = ''qwen3_5text''
         then [''cpu_qwen3_5'', ''hip_gpu'', ''cpu_generic'']
         else if arch = RCPP_ARCH_WHISPER then [''cpu_generic'']
         else if arch = RCPP_ARCH_OLMO then [''hip_gpu'', ''cpu_generic'']
         else if arch = RCPP_ARCH_QWEN3VL then [''vision_encoder'', ''hip_gpu'', ''cpu_generic'']
         else if a = ''qwen3'' \<or> arch = RCPP_ARCH_QWEN3
         then (if fmt = OneBP then [''fused_gpu_npu'', ''hip_1bp_gpu'', ''vulkan_hpp_gpu'', ''cpu_generic'']
               else if fmt = Q4NX then [''npu_xrt'', ''npu_flm'', ''cpu_generic'']
               else [''hrx_gpu'', ''ggml_vulkan'', ''zinc_gpu'', ''cpu_generic''])
         else if arch = RCPP_ARCH_BARETORCH then [''cpu_baretorch'', ''hip_gpu'', ''cpu_generic'']
         else if fmt = GGUF \<or> fmt = H1B then [''hrx_gpu'', ''ggml_vulkan'', ''zinc_gpu'', ''cpu_generic'']
         else if fmt = OneBP
         then [''fused_gpu_npu'', ''hip_1bp_gpu'', ''vulkan_hpp_gpu'', ''hip_gpu'', ''cpu_generic'']
         else [''hip_gpu'', ''cpu_generic''])"

text \<open>Every shape of route, for statements about all of them.\<close>

definition known_routes :: "string list list" where
  "known_routes =
     [[''lse'', ''cpu_generic''], [''hip_gpu'', ''cpu_scalar''], [''laguna_gpu'', ''zinc_gpu'', ''cpu_generic''],
      [''ggml_vulkan'', ''zamba2_vulkan'', ''zamba2_gpu'', ''cpu_generic''], [''nemotron_h_cpu'', ''cpu_generic''],
      [''mamba1_gpu'', ''cpu_generic''], [''hip_gpu'', ''cpu_generic''],
      [''cpu_deepseek_v4'', ''hip_gpu'', ''cpu_generic''], [''cpu_glm_moe_dsa'', ''hip_gpu'', ''cpu_generic''],
      [''cpu_mimo_v2'', ''hip_gpu'', ''cpu_generic''], [''cpu_qwen3_next'', ''npu_flm'', ''cpu_generic''],
      [''cpu_qwen3_5'', ''hip_gpu'', ''cpu_generic''], [''cpu_generic''],
      [''vision_encoder'', ''hip_gpu'', ''cpu_generic''],
      [''fused_gpu_npu'', ''hip_1bp_gpu'', ''vulkan_hpp_gpu'', ''cpu_generic''],
      [''npu_xrt'', ''npu_flm'', ''cpu_generic''], [''hrx_gpu'', ''ggml_vulkan'', ''zinc_gpu'', ''cpu_generic''],
      [''cpu_baretorch'', ''hip_gpu'', ''cpu_generic''],
      [''fused_gpu_npu'', ''hip_1bp_gpu'', ''vulkan_hpp_gpu'', ''hip_gpu'', ''cpu_generic'']]"

lemma if_inI: "x \<in> S \<Longrightarrow> y \<in> S \<Longrightarrow> (if c then x else y) \<in> S"
  by simp

lemma route_known: "select_backend_route cfg \<in> set known_routes"
  unfolding select_backend_route_def Let_def
  by (intro if_inI; simp add: known_routes_def)

lemma known_routes_shape:
  "list_all (\<lambda>r. r \<noteq> [] \<and> distinct r \<and> (last r = ''cpu_generic'' \<or> last r = ''cpu_scalar'')) known_routes"
  by (simp add: known_routes_def)

lemma route_shape:
  "select_backend_route cfg \<noteq> []" "distinct (select_backend_route cfg)"
  "last (select_backend_route cfg) = ''cpu_generic'' \<or> last (select_backend_route cfg) = ''cpu_scalar''"
  using route_known[of cfg] known_routes_shape by (auto simp: list_all_iff)

lemma family_table:
  assumes "(n, a) \<in> set arch_table" "qwen35moe_name n"
  shows "(n, a) \<in> {(''qwen3_5_moe_text'', RCPP_ARCH_QWEN3NEXT), (''qwen35moe'', RCPP_ARCH_QWEN35),
      (''qwen3_5moe'', RCPP_ARCH_QWEN35), (''prunedqwen3_5moe'', RCPP_ARCH_QWEN35),
      (''qwen3_5_moe'', RCPP_ARCH_QWEN3), (''dashqqwen3_5moe'', RCPP_ARCH_QWEN3),
      (''mixfp4qwen3_5moe'', RCPP_ARCH_QWEN3)}"
proof -
  have "(n, a) \<in> set (filter family_row arch_table)" using assms by (simp add: family_row_def)
  then show ?thesis unfolding arch_table_family by simp
qed

text \<open>The Qwen3.5-MoE family: a name of the registry that carries one of the family's markers is one of
  seven, and a model under any of them, with the token the registry gives the name, is routed to the
  dedicated CPU engine, then the NPU, then the generic CPU, outside the MLX format and the native expert
  kernels.\<close>

lemma qwen35moe_route:
  assumes "(n, a) \<in> set arch_table" "qwen35moe_name n" "mc_architecture cfg = n" "mc_arch cfg = a"
    "mc_format cfg \<noteq> MLX" "mc_num_experts cfg \<le> 0 \<or> mc_format cfg = GGUF \<or> mc_format cfg = H1B"
  shows "n \<in> {''qwen3_5_moe_text'', ''qwen35moe'', ''qwen3_5moe'', ''prunedqwen3_5moe'', ''qwen3_5_moe'',
      ''dashqqwen3_5moe'', ''mixfp4qwen3_5moe''} \<and>
    select_backend_route cfg = [''cpu_qwen3_next'', ''npu_flm'', ''cpu_generic'']"
  using family_table[OF assms(1,2)] assms(2-6)
  by (auto simp: select_backend_route_def qwen35moe_name_def)

lemma qwen35moe_route_witness:
  "select_backend_route \<lparr>mc_format = GGUF, mc_num_experts = 256, mc_arch = RCPP_ARCH_QWEN3,
     mc_architecture = ''qwen3_5_moe'', mc_model_path = []\<rparr> = [''cpu_qwen3_next'', ''npu_flm'', ''cpu_generic'']"
proof -
  have "(''qwen3_5_moe'', RCPP_ARCH_QWEN3) \<in> set (filter family_row arch_table)"
    unfolding arch_table_family by simp
  then have "(''qwen3_5_moe'', RCPP_ARCH_QWEN3) \<in> set arch_table" "qwen35moe_name ''qwen3_5_moe''"
    by (simp_all add: family_row_def)
  then show ?thesis
    using qwen35moe_route[of "''qwen3_5_moe''" RCPP_ARCH_QWEN3
        "\<lparr>mc_format = GGUF, mc_num_experts = 256, mc_arch = RCPP_ARCH_QWEN3,
          mc_architecture = ''qwen3_5_moe'', mc_model_path = []\<rparr>"] by simp
qed

text \<open>The native expert kernels come before every dedicated engine: outside GGUF, H1B and MLX a model with
  experts goes to \<open>hip_gpu\<close> whatever its architecture, unless it is a Mamba or a Laguna model. A
  safetensors checkpoint of the Qwen3.5-MoE, DeepSeek V4, GLM or MiMo family never reaches its engine.\<close>

lemma moe_branch_shadows_engines:
  assumes "0 < mc_num_experts cfg" "mc_format cfg \<notin> {MLX, GGUF, H1B}"
    "mc_arch cfg \<noteq> RCPP_ARCH_MAMBA" "mc_arch cfg \<noteq> RCPP_ARCH_LAGUNA"
  shows "select_backend_route cfg = [''hip_gpu'', ''cpu_scalar'']"
  using assms by (simp add: select_backend_route_def)

lemma moe_branch_shadows_engines_witness:
  "select_backend_route \<lparr>mc_format = Safetensors, mc_num_experts = 256, mc_arch = RCPP_ARCH_QWEN3,
     mc_architecture = ''qwen3_5_moe'', mc_model_path = []\<rparr> = [''hip_gpu'', ''cpu_scalar'']"
  using moe_branch_shadows_engines[of "\<lparr>mc_format = Safetensors, mc_num_experts = 256,
     mc_arch = RCPP_ARCH_QWEN3, mc_architecture = ''qwen3_5_moe'', mc_model_path = []\<rparr>"] by simp

end
