(* ===== verification/Engines.thy ===== *)
theory Engines
  imports Complex_Main ModelRouter
begin

text \<open>
  What the orchestration code (\<open>src/dynamic_router.cpp\<close>, \<open>src/backend_manager.cpp\<close>) calls. An inference
  engine is a \<open>Backend\<close> object behind a shared pointer: a pointer is an address, and every call on an
  engine goes to the record \<open>engine_ops\<close> with the address and the state \<open>'w\<close> of all engines, so two holders
  of one pointer share the object. The engines themselves (GPU and NPU runtimes, plugins) are not
  modelled; a call that throws is \<open>None\<close> (creating an engine and \<open>can_infer\<close> do not: every
  \<open>can_infer\<close> of the tree returns a flag). A wall-clock duration comes back with the result of the call.

  Latencies and scores are of an abstract type with the operations the code applies to them.
\<close>

datatype backend_type = NONE | HIP_GPU | VULKAN | NPU_XRT | CPU_AVX512 | CPU_SCALAR | GENERIC | ZAMBA2 | ZAMBA2_GPU
  | ZINC_GPU | Q4NX_FUSION | CUDA_GPU | METAL_GPU | VART | ONNX_NPU | LSE_GPU | HRX_GPU

text \<open>Where a factory symbol is looked up: linked in, in a shared library, or in the running program.\<close>

datatype origin = Linked | Library string | Program

text \<open>\<open>init()\<close> within its time budget: true, false, an exception, or the budget runs out.\<close>

datatype init_outcome = InitOk | InitFailed | InitThrew | InitTimeout

record 'f nums =
  nm_rat :: "rat \<Rightarrow> 'f"
  nm_less :: "'f \<Rightarrow> 'f \<Rightarrow> bool"
  nm_add :: "'f \<Rightarrow> 'f \<Rightarrow> 'f"
  nm_mul :: "'f \<Rightarrow> 'f \<Rightarrow> 'f"
  nm_div :: "'f \<Rightarrow> 'f \<Rightarrow> 'f"

abbreviation zero :: "'f nums \<Rightarrow> 'f" where "zero nm \<equiv> nm_rat nm 0"

record ('w, 'f) engine_ops =
  eo_create :: "origin \<Rightarrow> string \<Rightarrow> 'w \<Rightarrow> nat option \<times> 'w"
  eo_set_budget :: "nat \<Rightarrow> int \<Rightarrow> int \<Rightarrow> 'w \<Rightarrow> 'w"
  eo_init :: "nat \<Rightarrow> model_config \<Rightarrow> int \<Rightarrow> 'w \<Rightarrow> init_outcome \<times> 'w"
  eo_init_blocking :: "nat \<Rightarrow> model_config \<Rightarrow> 'w \<Rightarrow> bool option \<times> 'w"
  eo_can_infer :: "nat \<Rightarrow> 'w \<Rightarrow> bool"
  eo_reset :: "nat \<Rightarrow> 'w \<Rightarrow> bool option \<times> 'w"
  eo_generate :: "nat \<Rightarrow> int \<Rightarrow> 'w \<Rightarrow> (int option \<times> 'f) \<times> 'w"
  eo_generate_text :: "nat \<Rightarrow> string \<Rightarrow> 'w \<Rightarrow> string option \<times> 'w"
  eo_forward :: "nat \<Rightarrow> int \<Rightarrow> 'w \<Rightarrow> (bool \<times> 'f) \<times> 'w"
  eo_lm_head :: "nat \<Rightarrow> 'w \<Rightarrow> bool \<times> 'w"
  eo_benchmark :: "nat \<Rightarrow> int \<Rightarrow> 'w \<Rightarrow> 'f option \<times> 'w"

text \<open>What a caller sees of a call: its result, an exception, or nothing because the thread waits for a mutex it
  holds itself.\<close>

datatype 'a call_result = Returns 'a | Throws | Hangs

text \<open>The token a call gives to its caller: a call that throws counts as a failure.\<close>

definition token_of :: "int option \<Rightarrow> int" where
  "token_of r = (case r of Some v \<Rightarrow> v | None \<Rightarrow> - 1)"

end
