(* ===== verification/DynRouter.thy ===== *)
theory DynRouter
  imports Engines
begin

text \<open>
  \<open>src/dynamic_router.cpp\<close>: the per-token router. The model keeps the vector of entries, the strategy, the
  round counter and the id of the last failed backend; the mutexes serialise the operations, so a
  run is a sequence of them. Each entry owns a compute mutex that is held during a call of its backend. The counter is an \<open>int\<close> in the code and counts picks without a bound here.
\<close>

datatype strategy = FASTEST | GPU_BACKFILL | NPU_BACKFILL | GPU_ONLY | NPU_ONLY

record 'f backend_stats =
  bs_id :: string
  bs_avg :: 'f
  bs_tok_s :: 'f
  bs_total :: nat
  bs_failed :: nat
  bs_alive :: bool

record 'f backend_entry =
  en_id :: string
  en_backend :: "nat option"
  en_stats :: "'f backend_stats"
  en_recent :: "'f list"

record 'f router =
  rt_entries :: "'f backend_entry list"
  rt_strategy :: strategy
  rt_counter :: nat
  rt_last_failed :: string

definition new_stats :: "'f nums \<Rightarrow> string \<Rightarrow> 'f backend_stats" where
  "new_stats nm bid = \<lparr>bs_id = bid, bs_avg = zero nm, bs_tok_s = zero nm, bs_total = 0, bs_failed = 0, bs_alive = True\<rparr>"

section \<open>Entries\<close>

definition has_id :: "string \<Rightarrow> 'f backend_entry \<Rightarrow> bool" where
  "has_id bid e \<longleftrightarrow> en_id e = bid"

definition add_backend :: "'f nums \<Rightarrow> string \<Rightarrow> nat option \<Rightarrow> strategy \<Rightarrow> 'f router \<Rightarrow> 'f router" where
  "add_backend nm bid b s rt =
     (let es = rt_entries rt
      in case find_entry (has_id bid) es of
           Some i \<Rightarrow> rt\<lparr>rt_entries := es[i := (es ! i)\<lparr>en_backend := b, en_stats := new_stats nm []\<rparr>]\<rparr>
         | None \<Rightarrow> rt\<lparr>rt_entries := es @ [\<lparr>en_id = bid, en_backend = b, en_stats = new_stats nm bid, en_recent = []\<rparr>],
                      rt_strategy := s\<rparr>)"

definition remove_backend :: "string \<Rightarrow> 'f router \<Rightarrow> 'f router" where
  "remove_backend bid rt = rt\<lparr>rt_entries := filter (\<lambda>e. en_id e \<noteq> bid) (rt_entries rt)\<rparr>"

definition clear :: "'f router \<Rightarrow> 'f router" where
  "clear rt = rt\<lparr>rt_entries := []\<rparr>"

definition set_strategy :: "strategy \<Rightarrow> 'f router \<Rightarrow> 'f router" where
  "set_strategy s rt = rt\<lparr>rt_strategy := s\<rparr>"

text \<open>\<open>reset_all\<close>: an entry whose reset throws is marked dead and does not make the whole call fail.\<close>

definition reset_entry ::
    "('w, 'f) engine_ops \<Rightarrow> 'f backend_entry \<Rightarrow> bool \<times> 'w \<Rightarrow> 'f backend_entry \<times> bool \<times> 'w" where
  "reset_entry eo e = (\<lambda>(ok, w).
     case en_backend e of
       Some b \<Rightarrow>
         if bs_alive (en_stats e) then
           (case eo_reset eo b w of
              (Some r, w) \<Rightarrow> (e, r \<and> ok, w)
            | (None, w) \<Rightarrow> (e\<lparr>en_stats := (en_stats e)\<lparr>bs_alive := False\<rparr>\<rparr>, ok, w))
         else (e, ok, w)
     | None \<Rightarrow> (e, ok, w))"

fun reset_entries ::
    "('w, 'f) engine_ops \<Rightarrow> 'f backend_entry list \<Rightarrow> bool \<times> 'w \<Rightarrow> 'f backend_entry list \<times> bool \<times> 'w" where
  "reset_entries eo [] (ok, w) = ([], ok, w)"
| "reset_entries eo (e # es) (ok, w) =
     (let (e, ok, w) = reset_entry eo e (ok, w); (es, ok, w) = reset_entries eo es (ok, w) in (e # es, ok, w))"

definition reset_all :: "('w, 'f) engine_ops \<Rightarrow> 'f router \<Rightarrow> 'w \<Rightarrow> bool \<times> 'f router \<times> 'w" where
  "reset_all eo rt w =
     (let (es, ok, w) = reset_entries eo (rt_entries rt) (True, w) in (ok, rt\<lparr>rt_entries := es\<rparr>, w))"

section \<open>Choosing a backend\<close>

definition window_avg :: "'f nums \<Rightarrow> 'f backend_entry \<Rightarrow> 'f" where
  "window_avg nm e =
     (if en_recent e = [] then nm_rat nm (10 ^ 30)
      else nm_div nm (foldl (nm_add nm) (zero nm) (en_recent e)) (nm_rat nm (of_nat (length (en_recent e)))))"

definition gpu_id :: "string \<Rightarrow> bool" where
  "gpu_id bid \<longleftrightarrow> contains bid ''gpu'' \<or> contains bid ''hip''"

definition npu_id :: "string \<Rightarrow> bool" where
  "npu_id bid \<longleftrightarrow> contains bid ''npu''"

text \<open>The loops of the two pickers differ in the extra condition \<open>ok\<close> only.\<close>

definition fastest :: "'f nums \<Rightarrow> ('f backend_entry \<Rightarrow> bool) \<Rightarrow> 'f backend_entry list \<Rightarrow> nat option" where
  "fastest nm ok es =
     (let live = (\<lambda>e. bs_alive (en_stats e) \<and> en_backend e \<noteq> None \<and> ok e);
          best = fst (fold (\<lambda>i (best, best_avg).
              if live (es ! i) \<and> nm_less nm (window_avg nm (es ! i)) best_avg
              then (Some i, window_avg nm (es ! i)) else (best, best_avg))
            [0..<length es] (None, nm_rat nm (10 ^ 30)))
      in case best of Some i \<Rightarrow> Some i | None \<Rightarrow> find_entry live es)"

definition strategy_pick :: "'f nums \<Rightarrow> ('f backend_entry \<Rightarrow> bool) \<Rightarrow> 'f router \<Rightarrow> nat option" where
  "strategy_pick nm ok rt =
     (let es = rt_entries rt; cycle = rt_counter rt mod 5;
          gpu = find_entry (\<lambda>e. gpu_id (en_id e) \<and> ok e) es;
          npu = find_entry (\<lambda>e. npu_id (en_id e) \<and> ok e) es
      in case rt_strategy rt of
           GPU_ONLY \<Rightarrow> find_entry (\<lambda>e. (en_id e = ''hip_gpu'' \<or> en_id e = ''zinc_gpu'') \<and> ok e) es
         | NPU_ONLY \<Rightarrow> find_entry (\<lambda>e. (en_id e = ''npu_flm'' \<or> en_id e = ''npu_xrt'') \<and> ok e) es
         | GPU_BACKFILL \<Rightarrow> if cycle < 4 then gpu else npu
         | NPU_BACKFILL \<Rightarrow> if cycle < 4 then npu else gpu
         | FASTEST \<Rightarrow> fastest nm ok es)"

definition tick :: "'f router \<Rightarrow> 'f router" where
  "tick rt = (if rt_strategy rt = GPU_BACKFILL \<or> rt_strategy rt = NPU_BACKFILL
              then rt\<lparr>rt_counter := rt_counter rt + 1\<rparr> else rt)"

definition or_first :: "nat option \<Rightarrow> nat option" where
  "or_first p = (case p of Some i \<Rightarrow> Some i | None \<Rightarrow> Some 0)"

definition pick_backend :: "'f nums \<Rightarrow> 'f router \<Rightarrow> nat option \<times> 'f router" where
  "pick_backend nm rt =
     (if rt_entries rt = [] then (None, rt)
      else if length (rt_entries rt) = 1 then (Some 0, rt)
      else (or_first (strategy_pick nm (\<lambda>_. True) rt), tick rt))"

definition pick_backend_excluding :: "'f nums \<Rightarrow> string \<Rightarrow> 'f router \<Rightarrow> nat option \<times> 'f router" where
  "pick_backend_excluding nm exclude rt =
     (if rt_entries rt = [] then (None, rt)
      else if length (rt_entries rt) = 1
      then (if en_id (rt_entries rt ! 0) = exclude then None else Some 0, rt)
      else (or_first (strategy_pick nm (\<lambda>e. en_id e \<noteq> exclude) rt), tick rt))"

section \<open>Inference\<close>

definition record_latency :: "'f nums \<Rightarrow> 'f \<Rightarrow> bool \<Rightarrow> 'f backend_entry \<Rightarrow> 'f backend_entry" where
  "record_latency nm ms success e =
     (let st = (en_stats e)\<lparr>bs_total := bs_total (en_stats e) + 1\<rparr>
      in if \<not> success then e\<lparr>en_stats := st\<lparr>bs_failed := bs_failed st + 1\<rparr>\<rparr>
         else let recent = en_recent e @ [ms];
                  recent = (if 10 < length recent then tl recent else recent);
                  e = e\<lparr>en_recent := recent\<rparr>;
                  avg = window_avg nm e
              in e\<lparr>en_stats := st\<lparr>bs_avg := avg,
                     bs_tok_s := (if nm_less nm (zero nm) avg then nm_div nm (nm_rat nm 1000) avg else zero nm)\<rparr>\<rparr>)"

text \<open>The entry is looked up again by its id after the call.\<close>

definition record_by_id :: "'f nums \<Rightarrow> string \<Rightarrow> 'f \<Rightarrow> bool \<Rightarrow> 'f router \<Rightarrow> 'f router" where
  "record_by_id nm bid ms success rt =
     (let es = rt_entries rt
      in case find_entry (has_id bid) es of
           Some i \<Rightarrow> rt\<lparr>rt_entries := es[i := record_latency nm ms success (es ! i)]\<rparr>
         | None \<Rightarrow> rt)"

text \<open>One depth of \<open>generate_with_failover\<close>: the id that was asked and its token.\<close>

definition attempt :: "('f router \<Rightarrow> nat option \<times> 'f router) \<Rightarrow> ('w, 'f) engine_ops \<Rightarrow> 'f nums \<Rightarrow> int \<Rightarrow>
    'f router \<Rightarrow> 'w \<Rightarrow> (string \<times> int) option \<times> 'f router \<times> 'w" where
  "attempt pick eo nm token rt w =
     (case pick rt of
        (None, rt) \<Rightarrow> (None, rt, w)
      | (Some i, rt) \<Rightarrow>
          (case en_backend (rt_entries rt ! i) of
             None \<Rightarrow> (None, rt, w)
           | Some b \<Rightarrow>
               let bid = en_id (rt_entries rt ! i); ((r, ms), w) = eo_generate eo b token w;
                   result = token_of r
               in (Some (bid, result), record_by_id nm bid ms (0 \<le> result) rt, w)))"

text \<open>The retry runs while the first call still holds the compute mutex of its entry. An entry is known by its
  id (\<open>router_invariant\<close>): when the retry picks the entry of the failed backend again, the thread locks a
  \<open>std::mutex\<close> that it holds and does not go on.\<close>

definition relocks :: "'f nums \<Rightarrow> string \<Rightarrow> 'f router \<Rightarrow> bool" where
  "relocks nm held rt =
     (case fst (pick_backend_excluding nm held rt) of
        None \<Rightarrow> False
      | Some j \<Rightarrow> en_backend (rt_entries rt ! j) \<noteq> None \<and> en_id (rt_entries rt ! j) = held)"

definition router_generate :: "('w, 'f) engine_ops \<Rightarrow> 'f nums \<Rightarrow> int \<Rightarrow> 'f router \<Rightarrow> 'w \<Rightarrow> int call_result \<times> 'f router \<times> 'w" where
  "router_generate eo nm token rt w =
     (case attempt (pick_backend nm) eo nm token rt w of
        (None, rt, w) \<Rightarrow> (Returns (- 1), rt, w)
      | (Some (bid, result), rt, w) \<Rightarrow>
          if result < 0 \<and> 1 < length (rt_entries rt) then
            let rt = rt\<lparr>rt_last_failed := bid\<rparr>
            in if relocks nm bid rt then (Hangs, snd (pick_backend_excluding nm bid rt), w)
               else
                 let (retry, rt, w) = attempt (pick_backend_excluding nm (rt_last_failed rt)) eo nm token rt w;
                     result = (case retry of Some (_, r) \<Rightarrow> r | None \<Rightarrow> - 1)
                 in (Returns result, rt\<lparr>rt_last_failed := []\<rparr>, w)
          else (Returns result, rt, w))"

definition picked_backend :: "'f nums \<Rightarrow> 'f router \<Rightarrow> nat option \<times> 'f router" where
  "picked_backend nm rt =
     (case pick_backend nm rt of
        (Some i, rt) \<Rightarrow> (en_backend (rt_entries rt ! i), rt) | (None, rt) \<Rightarrow> (None, rt))"

definition router_forward :: "('w, 'f) engine_ops \<Rightarrow> 'f nums \<Rightarrow> int \<Rightarrow> 'f router \<Rightarrow> 'w \<Rightarrow> bool \<times> 'f router \<times> 'w" where
  "router_forward eo nm token rt w =
     (case picked_backend nm rt of
        (Some b, rt) \<Rightarrow> (let ((ok, _), w) = eo_forward eo b token w in (ok, rt, w))
      | (None, rt) \<Rightarrow> (False, rt, w))"

definition router_lm_head :: "('w, 'f) engine_ops \<Rightarrow> 'f nums \<Rightarrow> 'f router \<Rightarrow> 'w \<Rightarrow> bool \<times> 'f router \<times> 'w" where
  "router_lm_head eo nm rt w =
     (case picked_backend nm rt of
        (Some b, rt) \<Rightarrow> (let (ok, w) = eo_lm_head eo b w in (ok, rt, w))
      | (None, rt) \<Rightarrow> (False, rt, w))"

definition strategy_from_string :: "string \<Rightarrow> strategy" where
  "strategy_from_string s =
     (if s = ''fastest'' then FASTEST
      else if s = ''gpu_backfill'' \<or> s = ''gpu'' then GPU_BACKFILL
      else if s = ''npu_backfill'' \<or> s = ''npu'' then NPU_BACKFILL
      else if s = ''gpu_only'' then GPU_ONLY
      else if s = ''npu_only'' then NPU_ONLY else FASTEST)"

section \<open>Well-formed routers\<close>

definition entry_wf :: "'f backend_entry \<Rightarrow> bool" where
  "entry_wf e \<longleftrightarrow> length (en_recent e) \<le> 10 \<and> bs_failed (en_stats e) \<le> bs_total (en_stats e)"

definition router_wf :: "'f router \<Rightarrow> bool" where
  "router_wf rt \<longleftrightarrow> distinct (map en_id (rt_entries rt)) \<and> (\<forall>e \<in> set (rt_entries rt). entry_wf e)"

lemma record_latency_id [simp]: "en_id (record_latency nm ms s e) = en_id e"
  and record_latency_backend [simp]: "en_backend (record_latency nm ms s e) = en_backend e"
  and record_latency_alive [simp]: "bs_alive (en_stats (record_latency nm ms s e)) = bs_alive (en_stats e)"
  by (simp_all add: record_latency_def Let_def)

lemma record_latency_wf: "entry_wf e \<Longrightarrow> entry_wf (record_latency nm ms s e)"
  by (auto simp: record_latency_def entry_wf_def Let_def)

lemma update_wf:
  assumes "router_wf rt" "i < length (rt_entries rt)" "en_id e = en_id (rt_entries rt ! i)" "entry_wf e"
  shows "router_wf (rt\<lparr>rt_entries := (rt_entries rt)[i := e]\<rparr>)"
proof -
  have "map en_id ((rt_entries rt)[i := e]) = map en_id (rt_entries rt)"
    using assms(2,3) by (simp add: map_update list_update_same_conv)
  moreover have "\<forall>x \<in> set ((rt_entries rt)[i := e]). entry_wf x"
    using assms(1,4) set_update_subset_insert[of "rt_entries rt" i e] by (auto simp: router_wf_def)
  ultimately show ?thesis using assms(1) by (simp add: router_wf_def)
qed

lemma record_by_id_ids [simp]: "map en_id (rt_entries (record_by_id nm bid ms s rt)) = map en_id (rt_entries rt)"
  by (auto simp: record_by_id_def Let_def map_update list_update_same_conv dest: find_entry_SomeD split: option.split)

lemma record_by_id_length [simp]: "length (rt_entries (record_by_id nm bid ms s rt)) = length (rt_entries rt)"
  using record_by_id_ids[of nm bid ms s rt] by (metis length_map)

lemma record_by_id_strategy [simp]: "rt_strategy (record_by_id nm bid ms s rt) = rt_strategy rt"
  by (simp add: record_by_id_def Let_def split: option.split)

lemma nth_update_same: "h (g (xs ! k)) = h (xs ! k) \<Longrightarrow> i < length xs \<Longrightarrow> h (xs[k := g (xs ! k)] ! i) = h (xs ! i)"
  by (cases "k = i") auto

lemma record_by_id_nth:
  assumes "i < length (rt_entries rt)"
  shows "en_backend (rt_entries (record_by_id nm bid ms s rt) ! i) = en_backend (rt_entries rt ! i)"
    and "bs_alive (en_stats (rt_entries (record_by_id nm bid ms s rt) ! i)) = bs_alive (en_stats (rt_entries rt ! i))"
    and "en_id (rt_entries (record_by_id nm bid ms s rt) ! i) = en_id (rt_entries rt ! i)"
  using assms nth_update_same[where h = en_backend and g = "record_latency nm ms s"]
    nth_update_same[where h = "\<lambda>e. bs_alive (en_stats e)" and g = "record_latency nm ms s"]
    nth_update_same[where h = en_id and g = "record_latency nm ms s"]
  by (simp_all add: record_by_id_def Let_def split: option.split)

lemma record_by_id_wf: "router_wf rt \<Longrightarrow> router_wf (record_by_id nm bid ms s rt)"
proof (cases "find_entry (has_id bid) (rt_entries rt)")
  case (Some i)
  assume wf: "router_wf rt"
  have i: "i < length (rt_entries rt)" using find_entry_SomeD[OF Some] by simp
  with wf have "entry_wf (rt_entries rt ! i)" by (simp add: router_wf_def)
  from record_latency_wf[OF this] show ?thesis
    using update_wf[OF wf i, of "record_latency nm ms s (rt_entries rt ! i)"]
    by (simp add: record_by_id_def Some Let_def)
qed (simp add: record_by_id_def)

section \<open>The pickers\<close>

text \<open>What the inference code relies on: a pick points at an entry and changes no entry.\<close>

locale picker =
  fixes pick :: "'f router \<Rightarrow> nat option \<times> 'f router"
  assumes pick_range: "pick rt = (Some i, rt') \<Longrightarrow> i < length (rt_entries rt)"
    and pick_entries: "pick rt = (p, rt') \<Longrightarrow> rt_entries rt' = rt_entries rt"
    and pick_strategy: "pick rt = (p, rt') \<Longrightarrow> rt_strategy rt' = rt_strategy rt"
begin

lemma attempt_cases:
  obtains (Refused) rt' where "attempt pick eo nm token rt w = (None, rt', w)" "rt_entries rt' = rt_entries rt"
    "rt_strategy rt' = rt_strategy rt"
  | (Asked) i b rt' r ms w' where "pick rt = (Some i, rt')" "i < length (rt_entries rt)" "en_backend (rt_entries rt ! i) = Some b"
    "eo_generate eo b token w = ((r, ms), w')" "rt_entries rt' = rt_entries rt" "rt_strategy rt' = rt_strategy rt"
    "attempt pick eo nm token rt w =
       (Some (en_id (rt_entries rt ! i), token_of r), record_by_id nm (en_id (rt_entries rt ! i)) ms (0 \<le> token_of r) rt', w')"
proof (cases "pick rt")
  case (Pair p rt')
  note keep = pick_entries[OF Pair] pick_strategy[OF Pair]
  show thesis
  proof (cases p)
    case None
    then show thesis using Refused keep Pair by (simp add: attempt_def)
  next
    case (Some i)
    then have i: "i < length (rt_entries rt)" using pick_range Pair by simp
    show thesis
    proof (cases "en_backend (rt_entries rt ! i)")
      case None
      then show thesis using Refused keep Pair Some by (simp add: attempt_def)
    next
      case b: (Some b)
      obtain r ms w' where g: "eo_generate eo b token w = ((r, ms), w')"
        by (cases "eo_generate eo b token w") auto
      show thesis
        using Asked[OF _ i b g keep] Pair Some b g keep by (simp add: attempt_def Let_def)
    qed
  qed
qed

lemma attempt_asks:
  assumes "pick rt = (Some i, rt')" "en_backend (rt_entries rt ! i) \<noteq> None"
  shows "\<exists>r ms w'. eo_generate eo (the (en_backend (rt_entries rt ! i))) token w = ((r, ms), w') \<and>
    attempt pick eo nm token rt w =
      (Some (en_id (rt_entries rt ! i), token_of r), record_by_id nm (en_id (rt_entries rt ! i)) ms (0 \<le> token_of r) rt', w')"
  using assms pick_entries[OF assms(1)]
  by (cases "eo_generate eo (the (en_backend (rt_entries rt ! i))) token w")
     (auto simp: attempt_def Let_def split: prod.splits)

lemma attempt_keeps:
  assumes "attempt pick eo nm token rt w = (r, rt', w')"
  shows "map en_id (rt_entries rt') = map en_id (rt_entries rt)" and "rt_strategy rt' = rt_strategy rt"
    and "router_wf rt \<Longrightarrow> router_wf rt'"
proof -
  have "map en_id (rt_entries rt') = map en_id (rt_entries rt) \<and> rt_strategy rt' = rt_strategy rt \<and>
      (router_wf rt \<longrightarrow> router_wf rt')"
  proof (cases rule: attempt_cases[of eo nm token rt w])
    case (Refused rt1)
    then show ?thesis using assms by (simp add: router_wf_def)
  next
    case (Asked i b rt1 x ms w1)
    have "router_wf rt \<Longrightarrow> router_wf rt1" using Asked(5) by (simp add: router_wf_def)
    then show ?thesis using assms Asked(5-7) by (auto intro: record_by_id_wf)
  qed
  then show "map en_id (rt_entries rt') = map en_id (rt_entries rt)" "rt_strategy rt' = rt_strategy rt"
    "router_wf rt \<Longrightarrow> router_wf rt'" by simp_all
qed

end

lemma fastest_range: "fastest nm ok es = Some i \<Longrightarrow> i < length es \<and> ok (es ! i) \<and> en_backend (es ! i) \<noteq> None"
proof -
  let ?live = "\<lambda>e. bs_alive (en_stats e) \<and> en_backend e \<noteq> None \<and> ok e"
  let ?f = "\<lambda>i (best, best_avg). if ?live (es ! i) \<and> nm_less nm (window_avg nm (es ! i)) best_avg
              then (Some i, window_avg nm (es ! i)) else (best, best_avg)"
  have best: "case fst (fold ?f xs (None, a)) of None \<Rightarrow> True | Some i \<Rightarrow> i \<in> set xs \<and> ?live (es ! i)" for xs a
    by (induction xs rule: rev_induct) (auto split: option.splits prod.splits)
  assume "fastest nm ok es = Some i"
  then show ?thesis
    using best[of "[0..<length es]" "nm_rat nm (10 ^ 30)"] find_entry_SomeD[of ?live es i]
    by (auto simp: fastest_def Let_def split: option.splits)
qed

lemma strategy_pick_range:
  "strategy_pick nm ok rt = Some i \<Longrightarrow> i < length (rt_entries rt) \<and> ok (rt_entries rt ! i)"
  by (auto simp: strategy_pick_def Let_def dest!: find_entry_SomeD fastest_range split: strategy.splits if_splits)

lemma tick_keeps [simp]: "rt_entries (tick rt) = rt_entries rt" "rt_strategy (tick rt) = rt_strategy rt"
  by (simp_all add: tick_def)

lemma or_first_range:
  "rt_entries rt \<noteq> [] \<Longrightarrow> or_first (strategy_pick nm ok rt) = Some i \<Longrightarrow> i < length (rt_entries rt)"
  by (auto simp: or_first_def dest: strategy_pick_range split: option.splits)

interpretation any: picker "pick_backend nm" for nm :: "'f nums"
proof
  fix rt rt' :: "'f router" and i
  assume "pick_backend nm rt = (Some i, rt')"
  then show "i < length (rt_entries rt)"
    by (auto simp: pick_backend_def split: if_splits dest: or_first_range)
qed (auto simp: pick_backend_def split: if_splits)

interpretation other: picker "pick_backend_excluding nm x" for nm :: "'f nums" and x
proof
  fix rt rt' :: "'f router" and i
  assume "pick_backend_excluding nm x rt = (Some i, rt')"
  then show "i < length (rt_entries rt)"
    by (auto simp: pick_backend_excluding_def split: if_splits dest: or_first_range)
qed (auto simp: pick_backend_excluding_def split: if_splits)

section \<open>Runs\<close>

datatype router_op = Add string "nat option" strategy | Remove string | Clear | SetStrategy strategy
  | ResetAll | Generate int | Forward int | LmHead

definition router_step :: "('w, 'f) engine_ops \<Rightarrow> 'f nums \<Rightarrow> router_op \<Rightarrow> 'f router \<times> 'w \<Rightarrow> 'f router \<times> 'w" where
  "router_step eo nm act = (\<lambda>(rt, w).
     case act of
       Add bid b s \<Rightarrow> (add_backend nm bid b s rt, w)
     | Remove bid \<Rightarrow> (remove_backend bid rt, w)
     | Clear \<Rightarrow> (clear rt, w)
     | SetStrategy s \<Rightarrow> (set_strategy s rt, w)
     | ResetAll \<Rightarrow> snd (reset_all eo rt w)
     | Generate token \<Rightarrow> snd (router_generate eo nm token rt w)
     | Forward token \<Rightarrow> snd (router_forward eo nm token rt w)
     | LmHead \<Rightarrow> snd (router_lm_head eo nm rt w))"

definition new_router :: "'f router" where
  "new_router = \<lparr>rt_entries = [], rt_strategy = FASTEST, rt_counter = 0, rt_last_failed = []\<rparr>"

lemma add_backend_wf: "router_wf rt \<Longrightarrow> router_wf (add_backend nm bid b s rt)"
proof (cases "find_entry (has_id bid) (rt_entries rt)")
  case None
  assume wf: "router_wf rt"
  have "add_backend nm bid b s rt = rt\<lparr>rt_entries := rt_entries rt @
      [\<lparr>en_id = bid, en_backend = b, en_stats = new_stats nm bid, en_recent = []\<rparr>], rt_strategy := s\<rparr>"
    by (simp add: add_backend_def None Let_def)
  with wf None show ?thesis by (auto simp: router_wf_def entry_wf_def new_stats_def find_entry_None_iff has_id_def)
next
  case (Some i)
  assume wf: "router_wf rt"
  have i: "i < length (rt_entries rt)" using find_entry_SomeD[OF Some] by simp
  with wf have "entry_wf ((rt_entries rt ! i)\<lparr>en_backend := b, en_stats := new_stats nm []\<rparr>)"
    by (simp add: router_wf_def entry_wf_def new_stats_def)
  with update_wf[OF wf i] show ?thesis by (simp add: add_backend_def Some Let_def)
qed

lemma reset_entries_wf:
  "reset_entries eo es (ok, w) = (es', ok', w') \<Longrightarrow> \<forall>e \<in> set es. entry_wf e \<Longrightarrow>
     map en_id es' = map en_id es \<and> (\<forall>e \<in> set es'. entry_wf e)"
proof (induction es arbitrary: ok w es' ok' w')
  case (Cons e es)
  obtain e1 ok1 w1 where e1: "reset_entry eo e (ok, w) = (e1, ok1, w1)" by (cases "reset_entry eo e (ok, w)") auto
  obtain es1 ok2 w2 where es1: "reset_entries eo es (ok1, w1) = (es1, ok2, w2)"
    by (cases "reset_entries eo es (ok1, w1)") auto
  have "en_id e1 = en_id e \<and> (entry_wf e \<longrightarrow> entry_wf e1)"
    using e1 by (auto simp: reset_entry_def entry_wf_def split: option.splits if_splits prod.splits)
  moreover have "es' = e1 # es1" using Cons.prems(1) by (simp add: e1 es1)
  ultimately show ?case using Cons.IH[OF es1] Cons.prems(2) by simp
qed simp

lemma router_generate_wf: "router_wf rt \<Longrightarrow> router_wf (fst (snd (router_generate eo nm token rt w)))"
proof -
  assume wf: "router_wf rt"
  obtain r rt1 w1 where a: "attempt (pick_backend nm) eo nm token rt w = (r, rt1, w1)" by (metis prod_cases3)
  have wf1: "router_wf rt1" by (rule any.attempt_keeps(3)[OF a wf])
  show ?thesis
  proof (cases r)
    case None
    then show ?thesis using a wf1 by (simp add: router_generate_def)
  next
    case (Some p)
    obtain bid res where p: "p = (bid, res)" by (cases p)
    let ?rt = "rt1\<lparr>rt_last_failed := bid\<rparr>"
    obtain q rt2 w2 where b: "attempt (pick_backend_excluding nm bid) eo nm token ?rt w1 = (q, rt2, w2)"
      by (metis prod_cases3)
    have "router_wf rt2" by (rule other.attempt_keeps(3)[OF b]) (use wf1 in \<open>simp add: router_wf_def\<close>)
    moreover have "rt_entries (snd (pick_backend_excluding nm bid ?rt)) = rt_entries ?rt"
      by (cases "pick_backend_excluding nm bid ?rt") (simp add: other.pick_entries)
    ultimately show ?thesis using a b wf1 Some p by (simp add: router_generate_def router_wf_def Let_def)
  qed
qed

lemma picked_backend_entries: "rt_entries (snd (picked_backend nm rt)) = rt_entries rt"
  by (auto simp: picked_backend_def any.pick_entries split: prod.split option.split)

lemma router_step_wf: "router_wf rt \<Longrightarrow> router_wf (fst (router_step eo nm act (rt, w)))"
proof -
  assume wf: "router_wf rt"
  have same: "router_wf (snd (picked_backend nm rt))"
    using wf picked_backend_entries[of nm rt] by (simp add: router_wf_def)
  show ?thesis
  proof (cases act)
    case ResetAll
    obtain es ok w' where e: "reset_entries eo (rt_entries rt) (True, w) = (es, ok, w')" by (metis prod_cases3)
    with reset_entries_wf[OF e] wf show ?thesis
      by (simp add: ResetAll router_step_def reset_all_def router_wf_def)
  next
    case (Forward token)
    with same show ?thesis
      by (auto simp: router_step_def router_forward_def split: prod.splits option.splits)
  next
    case LmHead
    with same show ?thesis
      by (auto simp: router_step_def router_lm_head_def split: prod.splits option.splits)
  next
    case (Remove x2)
    with wf show ?thesis by (auto simp: router_step_def remove_backend_def router_wf_def distinct_map_filter)
  next
    case (Add x y z)
    with wf show ?thesis by (simp add: router_step_def add_backend_wf)
  next
    case (Generate token)
    with wf show ?thesis by (simp add: router_step_def router_generate_wf)
  qed (use wf in \<open>simp_all add: router_step_def clear_def set_strategy_def router_wf_def\<close>)
qed

text \<open>C18. After any sequence of operations, whatever the engines do, the router has at most one entry per
  backend id, no latency window longer than ten and no entry with more failures than calls.\<close>

theorem router_invariant:
  fixes eo :: "('w, 'f) engine_ops"
  shows "router_wf (fst (fold (router_step eo nm) acts (new_router, w)))"
proof -
  have "router_wf rt \<Longrightarrow> router_wf (fst (fold (router_step eo nm) acts (rt, w)))" for rt :: "'f router" and w
  proof (induction acts arbitrary: rt w)
    case (Cons act acts)
    obtain rt' w' where s: "router_step eo nm act (rt, w) = (rt', w')" by (cases "router_step eo nm act (rt, w)")
    then have "router_wf rt'" using router_step_wf[OF Cons.prems, of eo nm act w] by simp
    from Cons.IH[OF this] show ?case by (simp add: s)
  qed simp
  moreover have "router_wf (new_router :: 'f router)" by (simp add: new_router_def router_wf_def)
  ultimately show ?thesis by blast
qed

section \<open>The 80/20 split\<close>

fun picks :: "'f nums \<Rightarrow> nat \<Rightarrow> 'f router \<Rightarrow> nat option list" where
  "picks nm 0 rt = []"
| "picks nm (Suc k) rt = (let (p, rt) = pick_backend nm rt in p # picks nm k rt)"

lemma pick_backfill:
  assumes "1 < length (rt_entries rt)" "rt_strategy rt = GPU_BACKFILL"
    "find_entry (\<lambda>e. gpu_id (en_id e)) (rt_entries rt) = Some g" "find_entry (\<lambda>e. npu_id (en_id e)) (rt_entries rt) = Some n"
  shows "pick_backend nm rt = (Some (if rt_counter rt mod 5 < 4 then g else n), rt\<lparr>rt_counter := rt_counter rt + 1\<rparr>)"
  using assms by (auto simp: pick_backend_def strategy_pick_def tick_def or_first_def Let_def)

lemma picks_backfill:
  assumes "1 < length (rt_entries rt)" "rt_strategy rt = GPU_BACKFILL"
    "find_entry (\<lambda>e. gpu_id (en_id e)) (rt_entries rt) = Some g" "find_entry (\<lambda>e. npu_id (en_id e)) (rt_entries rt) = Some n"
  shows "picks nm k rt = map (\<lambda>j. Some (if (rt_counter rt + j) mod 5 < 4 then g else n)) [0..<k]"
  using assms
proof (induction k arbitrary: rt)
  case (Suc k)
  have "picks nm k (rt\<lparr>rt_counter := rt_counter rt + 1\<rparr>) =
      map (\<lambda>j. Some (if (rt_counter rt + 1 + j) mod 5 < 4 then g else n)) [0..<k]"
    using Suc.IH[of "rt\<lparr>rt_counter := rt_counter rt + 1\<rparr>"] Suc.prems by simp
  then show ?case
    by (simp add: pick_backfill[OF Suc.prems] upt_conv_Cons map_Suc_upt[symmetric] comp_def del: upt_Suc)
qed simp

lemma window_of_five:
  "length (filter (\<lambda>j. (c + j) mod 5 < 4) [5 * k..<5 * k + 5]) = (4 :: nat)"
proof -
  have "[5 * k..<5 * k + 5] = map (\<lambda>i. i + 5 * k) [0..<5]" by (simp add: map_add_upt add.commute)
  moreover have "(\<lambda>i. (c + (i + 5 * k)) mod 5 < 4) = (\<lambda>i. (c mod 5 + i) mod 5 < 4)"
    by (rule ext) presburger
  moreover consider "c mod 5 = 0" | "c mod 5 = 1" | "c mod 5 = 2" | "c mod 5 = 3" | "c mod 5 = 4" by linarith
  then have "length (filter (\<lambda>i. (c mod 5 + i) mod 5 < 4) [0..<5]) = 4"
    by cases (simp_all add: upt_rec)
  ultimately show ?thesis by (simp add: filter_map comp_def)
qed

lemma backfill_count: "length (filter (\<lambda>j. (c + j) mod 5 < 4) [0..<5 * k]) = (4 * k :: nat)"
proof (induction k)
  case (Suc k)
  have "[0..<5 * Suc k] = [0..<5 * k] @ [5 * k..<5 * k + 5]"
    by (metis add.commute le0 mult_Suc_right upt_add_eq_append)
  with Suc window_of_five[of c k] show ?case by simp
qed simp

lemma count_choice:
  "g \<noteq> n \<Longrightarrow> count_list (map (\<lambda>j. Some (if P j then g else n)) xs) (Some g) = length (filter P xs)"
  "g \<noteq> n \<Longrightarrow> count_list (map (\<lambda>j. Some (if P j then g else n)) xs) (Some n) = length (filter (\<lambda>j. \<not> P j) xs)"
  by (induction xs) auto

text \<open>With a GPU and an NPU entry the GPU-backfill strategy sends exactly four of every five tokens to the
  first GPU entry and the fifth to the first NPU entry, from whatever point of the cycle.\<close>

lemma gpu_backfill_ratio:
  assumes "1 < length (rt_entries rt)" "rt_strategy rt = GPU_BACKFILL"
    "find_entry (\<lambda>e. gpu_id (en_id e)) (rt_entries rt) = Some g" "find_entry (\<lambda>e. npu_id (en_id e)) (rt_entries rt) = Some n"
    "g \<noteq> n"
  shows "count_list (picks nm (5 * k) rt) (Some g) = 4 * k \<and> count_list (picks nm (5 * k) rt) (Some n) = k"
proof -
  let ?P = "\<lambda>j. (rt_counter rt + j) mod 5 < 4"
  have "length (filter (\<lambda>j. \<not> ?P j) [0..<5 * k]) = k"
    using sum_length_filter_compl[of ?P "[0..<5 * k]"] backfill_count[of "rt_counter rt" k] by simp
  then show ?thesis
    using backfill_count[of "rt_counter rt" k] count_choice[OF assms(5), of ?P "[0..<5 * k]"]
    by (simp only: picks_backfill[OF assms(1-4)])
qed

definition demo_entry :: "'f nums \<Rightarrow> string \<Rightarrow> nat \<Rightarrow> 'f backend_entry" where
  "demo_entry nm bid b = \<lparr>en_id = bid, en_backend = Some b, en_stats = new_stats nm bid, en_recent = []\<rparr>"

definition demo_router :: "'f nums \<Rightarrow> string \<Rightarrow> string \<Rightarrow> strategy \<Rightarrow> 'f router" where
  "demo_router nm a b s = \<lparr>rt_entries = [demo_entry nm a 0, demo_entry nm b 1], rt_strategy = s, rt_counter = 3,
     rt_last_failed = []\<rparr>"

lemma gpu_backfill_ratio_witness:
  "\<forall>nm :: 'f nums. count_list (picks nm 20 (demo_router nm ''hip_gpu'' ''npu_flm'' GPU_BACKFILL)) (Some 0) = 16"
proof
  fix nm :: "'f nums"
  show "count_list (picks nm 20 (demo_router nm ''hip_gpu'' ''npu_flm'' GPU_BACKFILL)) (Some 0) = 16"
    using gpu_backfill_ratio[of "demo_router nm ''hip_gpu'' ''npu_flm'' GPU_BACKFILL" 0 1 nm 4]
    by (simp add: demo_router_def demo_entry_def gpu_id_def npu_id_def model_defs)
qed

section \<open>Failover\<close>

lemma fastest_finds:
  assumes "e \<in> set es" "bs_alive (en_stats e)" "en_backend e \<noteq> None" "ok e"
  shows "fastest nm ok es \<noteq> None"
  using find_entry_ex[of e es "\<lambda>e. bs_alive (en_stats e) \<and> en_backend e \<noteq> None \<and> ok e"] assms
  by (auto simp: fastest_def Let_def split: option.split)

definition live_entry :: "'f backend_entry \<Rightarrow> bool" where
  "live_entry e \<longleftrightarrow> bs_alive (en_stats e) \<and> en_backend e \<noteq> None"

lemma live_after_record:
  "\<forall>e \<in> set (rt_entries rt). live_entry e \<Longrightarrow> \<forall>e \<in> set (rt_entries (record_by_id nm bid ms s rt)). live_entry e"
  unfolding all_set_conv_all_nth by (simp add: live_entry_def record_by_id_nth)

text \<open>C15. Under the FASTEST strategy one broken backend does not stall a token: when every entry is alive and has
  a backend, there are at least two of them and every backend but one answers, \<open>generate\<close> answers.\<close>

theorem failover_answers:
  assumes "router_wf rt" "rt_strategy rt = FASTEST" "2 \<le> length (rt_entries rt)"
    "\<forall>e \<in> set (rt_entries rt). live_entry e"
    "\<forall>e \<in> set (rt_entries rt). en_id e \<noteq> x \<longrightarrow>
       (\<forall>w. 0 \<le> token_of (fst (fst (eo_generate eo (the (en_backend e)) token w))))"
  shows "\<exists>r. fst (router_generate eo nm token rt w) = Returns r \<and> 0 \<le> r"
proof -
  let ?es = "rt_entries rt"
  have many: "?es \<noteq> []" "length ?es \<noteq> 1" using assms(3) by auto
  have "?es ! 0 \<in> set ?es" using assms(3) by (cases ?es) simp_all
  with assms(4) have "fastest nm (\<lambda>_. True) ?es \<noteq> None"
    by (intro fastest_finds[of "?es ! 0"]) (auto simp: live_entry_def)
  then obtain i where i: "pick_backend nm rt = (Some i, rt)"
    using assms(2) many by (auto simp: pick_backend_def strategy_pick_def tick_def or_first_def Let_def)
  then have im: "?es ! i \<in> set ?es" by (intro nth_mem any.pick_range)
  then have "en_backend (?es ! i) \<noteq> None" using assms(4) by (simp add: live_entry_def)
  from any.attempt_asks[OF i this, of eo token w nm] obtain r ms w1 where
    g: "eo_generate eo (the (en_backend (?es ! i))) token w = ((r, ms), w1)" and
    a: "attempt (pick_backend nm) eo nm token rt w =
      (Some (en_id (?es ! i), token_of r), record_by_id nm (en_id (?es ! i)) ms (0 \<le> token_of r) rt, w1)" by blast
  show ?thesis
  proof (cases "0 \<le> token_of r")
    case True
    then show ?thesis by (simp add: router_generate_def a)
  next
    case False
    then have x: "en_id (?es ! i) = x" using assms(5) im g by (metis fst_conv)
    let ?rt = "(record_by_id nm x ms False rt)\<lparr>rt_last_failed := x\<rparr>"
    have len: "length (rt_entries ?rt) = length ?es" by simp
    then have many2: "rt_entries ?rt \<noteq> []" "length (rt_entries ?rt) \<noteq> 1"
      using many by (metis length_0_conv, metis)
    have live: "\<forall>e \<in> set (rt_entries ?rt). live_entry e" using live_after_record[OF assms(4)] by simp
    obtain k where k: "k < length ?es" "en_id (?es ! k) \<noteq> x"
    proof -
      have "en_id (?es ! 0) \<noteq> en_id (?es ! 1)"
        using assms(1,3) many nth_eq_iff_index_eq[of "map en_id ?es" 0 1] by (simp add: router_wf_def)
      then show thesis using that[of 0] that[of 1] assms(3) by fastforce
    qed
    have "rt_entries ?rt ! k \<in> set (rt_entries ?rt)" using k len by (intro nth_mem) simp
    moreover have "en_id (rt_entries ?rt ! k) \<noteq> x" using k record_by_id_nth(3)[of k rt] by simp
    ultimately have "fastest nm (\<lambda>e. en_id e \<noteq> x) (rt_entries ?rt) \<noteq> None"
      using live by (intro fastest_finds) (auto simp: live_entry_def)
    then obtain j where sp: "strategy_pick nm (\<lambda>e. en_id e \<noteq> x) ?rt = Some j"
      using assms(2) by (auto simp: strategy_pick_def Let_def)
    then have j: "pick_backend_excluding nm x ?rt = (Some j, ?rt)"
      using assms(2) many2 by (simp add: pick_backend_excluding_def tick_def or_first_def)
    have jl: "j < length ?es" "en_id (rt_entries ?rt ! j) \<noteq> x" using strategy_pick_range[OF sp] len by simp_all
    then have jm: "?es ! j \<in> set ?es" and jid: "en_id (?es ! j) \<noteq> x"
      and jb: "en_backend (rt_entries ?rt ! j) = en_backend (?es ! j)"
      using record_by_id_nth[of j rt] by simp_all
    have "en_backend (rt_entries ?rt ! j) \<noteq> None" using jb jm assms(4) by (simp add: live_entry_def)
    from other.attempt_asks[OF j this, of eo token w1 nm] obtain r2 ms2 w2 where
      g2: "eo_generate eo (the (en_backend (?es ! j))) token w1 = ((r2, ms2), w2)" and
      a2: "fst (attempt (pick_backend_excluding nm x) eo nm token ?rt w1) = Some (en_id (rt_entries ?rt ! j), token_of r2)"
      using jb by auto
    have "0 \<le> token_of r2" using assms(5) jm jid g2 by (metis fst_conv)
    moreover have "\<not> relocks nm x ?rt" using j jl(2) by (simp add: relocks_def)
    ultimately show ?thesis
      using False a a2 x assms(3)
      by (cases "attempt (pick_backend_excluding nm x) eo nm token ?rt w1")
         (auto simp: router_generate_def Let_def split: prod.splits)
  qed
qed

definition demo_ops :: "(nat \<Rightarrow> bool) \<Rightarrow> ('w, 'f) engine_ops \<Rightarrow> 'f \<Rightarrow> ('w, 'f) engine_ops" where
  "demo_ops works eo ms = eo\<lparr>eo_generate := \<lambda>b token w. ((if works b then Some token else None, ms), w)\<rparr>"

theorem failover_answers_witness:
  "\<forall>(eo :: ('w, 'f) engine_ops) nm ms w. \<exists>r. fst (router_generate (demo_ops (\<lambda>b. b \<noteq> 0) eo ms) nm 7
     (demo_router nm ''hip_gpu'' ''cpu_generic'' FASTEST) w) = Returns r \<and> 0 \<le> r"
proof (intro allI)
  fix eo :: "('w, 'f) engine_ops" and nm ms w
  show "\<exists>r. fst (router_generate (demo_ops (\<lambda>b. b \<noteq> 0) eo ms) nm 7
     (demo_router nm ''hip_gpu'' ''cpu_generic'' FASTEST) w) = Returns r \<and> 0 \<le> r"
    by (rule failover_answers[of _ "''hip_gpu''"])
       (auto simp: demo_router_def demo_entry_def router_wf_def entry_wf_def live_entry_def new_stats_def
         demo_ops_def token_of_def)
qed




end
