(* ===== verification/Sorting.thy ===== *)
theory Sorting
  imports Prelude "HOL-Library.Multiset"
begin

text \<open>
  \<open>std::sort\<close> with a comparison: strict weak orders, their lexicographic combination, and a stable insertion
  sort (the standard leaves the order of equivalent elements open; the sources rely on none).
\<close>

definition strict_weak :: "('a \<Rightarrow> 'a \<Rightarrow> bool) \<Rightarrow> bool" where
  "strict_weak R \<longleftrightarrow> (\<forall>a b. R a b \<longrightarrow> \<not> R b a) \<and> (\<forall>a b c. R a c \<longrightarrow> R a b \<or> R b c)"

definition lex_before :: "('a \<Rightarrow> 'a \<Rightarrow> bool) \<Rightarrow> ('a \<Rightarrow> 'a \<Rightarrow> bool) \<Rightarrow> 'a \<Rightarrow> 'a \<Rightarrow> bool" where
  "lex_before R S a b \<longleftrightarrow> R a b \<or> \<not> R b a \<and> S a b"

lemma strict_weak_lex: "strict_weak R \<Longrightarrow> strict_weak S \<Longrightarrow> strict_weak (lex_before R S)"
  unfolding strict_weak_def lex_before_def by metis

lemma strict_weak_holds: "strict_weak (\<lambda>a b. P a \<and> \<not> P b)"
  by (auto simp: strict_weak_def)

lemma strict_weak_greater: "strict_weak (\<lambda>a b. f b < (f a :: int))"
  by (auto simp: strict_weak_def)

fun insert_by :: "('a \<Rightarrow> 'a \<Rightarrow> bool) \<Rightarrow> 'a \<Rightarrow> 'a list \<Rightarrow> 'a list" where
  "insert_by lt x [] = [x]"
| "insert_by lt x (y # ys) = (if lt x y then x # y # ys else y # insert_by lt x ys)"

definition sort_by :: "('a \<Rightarrow> 'a \<Rightarrow> bool) \<Rightarrow> 'a list \<Rightarrow> 'a list" where
  "sort_by lt xs = fold (insert_by lt) xs []"

lemma insert_by_mset: "mset (insert_by lt x ys) = add_mset x (mset ys)"
  by (induction ys) auto

lemma sort_by_mset: "mset (sort_by lt xs) = mset xs"
proof -
  have "mset (fold (insert_by lt) xs ys) = mset xs + mset ys" for ys
    by (induction xs arbitrary: ys) (simp_all add: insert_by_mset)
  from this[of "[]"] show ?thesis by (simp add: sort_by_def)
qed

lemma insert_by_sorted:
  assumes "strict_weak lt"
  shows "sorted_wrt (\<lambda>a b. \<not> lt b a) ys \<Longrightarrow> sorted_wrt (\<lambda>a b. \<not> lt b a) (insert_by lt x ys)"
proof (induction ys)
  case (Cons y ys)
  have set: "set (insert_by lt x ys) = insert x (set ys)"
    using insert_by_mset[of lt x ys] by (metis set_mset_add_mset_insert set_mset_mset)
  show ?case
    using Cons assms unfolding strict_weak_def by (auto simp: set) metis
qed simp

lemma sort_by_sorted: "strict_weak lt \<Longrightarrow> sorted_wrt (\<lambda>a b. \<not> lt b a) (sort_by lt xs)"
proof -
  assume lt: "strict_weak lt"
  have "sorted_wrt (\<lambda>a b. \<not> lt b a) ys \<Longrightarrow> sorted_wrt (\<lambda>a b. \<not> lt b a) (fold (insert_by lt) xs ys)" for ys
    by (induction xs arbitrary: ys) (simp_all add: insert_by_sorted[OF lt])
  from this[of "[]"] show ?thesis by (simp add: sort_by_def)
qed

end
