(* ===== verification/Backends.thy ===== *)
theory Backends
  imports DynRouter Sorting
begin

text \<open>
  The lanes of \<open>src/backend_manager.cpp\<close>: the descriptor of a backend, the registration table that
  \<open>discover()\<close> fills from the hardware probes, the factories \<open>create_instance_rt()\<close> tries for a lane, and the
  order \<open>rank_backends()\<close> puts the lanes in.

  The descriptions and the plugin handle are left out. Some registrations do not set the counters of
  the descriptor; the model starts all of them at 0. \<open>std::sort\<close> may order lanes that compare equal in
  any way; the model keeps their order.
\<close>

datatype tier = T1_ACCELERATOR | T2_GPU | T3_CPU

record 'f backend_info =
  bi_id :: string
  bi_type :: backend_type
  bi_tier :: tier
  bi_priority :: int
  bi_score :: 'f
  bi_available :: bool
  bi_functional :: bool
  bi_auto :: bool
  bi_total :: nat
  bi_failed :: nat
  bi_cumulative :: 'f
  bi_instance :: "nat option"

datatype selection = SEL_FASTEST | SEL_LOWEST_POWER | SEL_MANUAL | SEL_ROUND_ROBIN

datatype fallback_policy = FB_NONE | FB_SEQUENTIAL | FB_BEST_EFFORT

fun tier_priority :: "tier \<Rightarrow> int" where
  "tier_priority T1_ACCELERATOR = 300"
| "tier_priority T2_GPU = 200"
| "tier_priority T3_CPU = 100"

section \<open>Discovery\<close>

record hardware =
  hw_npu :: bool
  hw_hip :: bool
  hw_vulkan :: bool
  hw_avx512 :: bool

record build_flags =
  bf_zinc_disabled :: bool
  bf_static_hip :: bool
  bf_static_npu :: bool

definition lane :: "'f nums \<Rightarrow> string \<Rightarrow> backend_type \<Rightarrow> tier \<Rightarrow> int \<Rightarrow> bool \<Rightarrow> rat \<Rightarrow> bool \<Rightarrow> 'f backend_info" where
  "lane nm bid ty t bonus av score auto =
     \<lparr>bi_id = bid, bi_type = ty, bi_tier = t, bi_priority = tier_priority t + bonus, bi_score = nm_rat nm score,
      bi_available = av, bi_functional = False, bi_auto = auto, bi_total = 0, bi_failed = 0,
      bi_cumulative = zero nm, bi_instance = None\<rparr>"

definition accelerator_lanes :: "'f nums \<Rightarrow> build_flags \<Rightarrow> hardware \<Rightarrow> 'f backend_info list" where
  "accelerator_lanes nm bf hw =
     [lane nm ''npu_xrt'' NPU_XRT T1_ACCELERATOR 50 (hw_npu hw) 0 True,
      lane nm ''hip_1bp_gpu'' HIP_GPU T2_GPU 60 (hw_hip hw) 50 True,
      lane nm ''fused_gpu_npu'' HIP_GPU T2_GPU 65 (hw_hip hw) (31 / 10) True,
      lane nm ''vulkan_hpp_gpu'' HIP_GPU T2_GPU 55 (hw_vulkan hw) 0 True,
      lane nm ''ggml_vulkan'' HIP_GPU T2_GPU 58 (hw_vulkan hw) (28 / 10) True,
      lane nm ''npu_flm'' NPU_XRT T1_ACCELERATOR 45 True 0 True,
      lane nm ''zinc_gpu'' ZINC_GPU T2_GPU 40 (\<not> bf_zinc_disabled bf \<and> (hw_vulkan hw \<or> hw_hip hw)) 0 True]"

definition gpu_lanes :: "'f nums \<Rightarrow> build_flags \<Rightarrow> hardware \<Rightarrow> 'f backend_info list" where
  "gpu_lanes nm bf hw =
     [lane nm ''hip_gpu'' HIP_GPU T2_GPU 50 (hw_hip hw) 0 True,
      lane nm ''mamba1_gpu'' HIP_GPU T2_GPU 49 (hw_hip hw) 0 True,
      lane nm ''zamba2_gpu'' HIP_GPU T2_GPU 48 (hw_hip hw) 0 True,
      lane nm ''zamba2_vulkan'' ZINC_GPU T2_GPU 49 (\<not> bf_zinc_disabled bf \<and> hw_vulkan hw) 0 True,
      lane nm ''nemotron_h_cpu'' GENERIC T3_CPU 30 True 0 True,
      lane nm ''laguna_gpu'' GENERIC T2_GPU 47 (hw_hip hw) 0 True,
      lane nm ''vulkan_gpu'' VULKAN T2_GPU 30 (hw_vulkan hw) 0 True]"

definition cpu_lanes :: "'f nums \<Rightarrow> hardware \<Rightarrow> 'f backend_info list" where
  "cpu_lanes nm hw =
     [lane nm ''cpu_avx512'' CPU_AVX512 T3_CPU 30 (hw_avx512 hw) 0 True,
      lane nm ''cpu_scalar'' CPU_SCALAR T3_CPU 10 True 0 True,
      lane nm ''cpu_generic'' GENERIC T3_CPU 20 True 0 True]"

definition frontier_lanes :: "'f nums \<Rightarrow> 'f backend_info list" where
  "frontier_lanes nm =
     map (\<lambda>bid. lane nm bid GENERIC T3_CPU 15 True 0 False)
       [''cpu_deepseek_v4'', ''cpu_glm_moe_dsa'', ''cpu_mimo_v2'', ''cpu_qwen3_5'']"

definition subprocess_lanes :: "'f nums \<Rightarrow> 'f backend_info list" where
  "subprocess_lanes nm =
     [lane nm ''lse'' LSE_GPU T2_GPU 10 True 0 True,
      lane nm ''hrx_gpu'' HRX_GPU T2_GPU 62 True 0 True]"

definition registered :: "'f nums \<Rightarrow> build_flags \<Rightarrow> hardware \<Rightarrow> 'f backend_info list" where
  "registered nm bf hw =
     accelerator_lanes nm bf hw @ gpu_lanes nm bf hw @ cpu_lanes nm hw @ frontier_lanes nm @ subprocess_lanes nm"

section \<open>Ranking\<close>

definition scored :: "'f nums \<Rightarrow> 'f backend_info \<Rightarrow> bool" where
  "scored nm a \<longleftrightarrow> nm_less nm (zero nm) (bi_score a)"

definition rank_before :: "'f nums \<Rightarrow> selection \<Rightarrow> 'f backend_info \<Rightarrow> 'f backend_info \<Rightarrow> bool" where
  "rank_before nm s a b =
     (if bi_available a \<noteq> bi_available b then bi_available a
      else if bi_functional a \<noteq> bi_functional b then bi_functional a
      else if s = SEL_FASTEST then
        (if scored nm a \<noteq> scored nm b then scored nm a
         else if scored nm a \<and> scored nm b \<and> bi_score a \<noteq> bi_score b then nm_less nm (bi_score a) (bi_score b)
         else bi_priority b < bi_priority a)
      else if bi_priority a \<noteq> bi_priority b then bi_priority b < bi_priority a
      else if scored nm a \<and> scored nm b then nm_less nm (bi_score a) (bi_score b)
      else nm_less nm (bi_score b) (bi_score a))"

definition rank_backends :: "'f nums \<Rightarrow> selection \<Rightarrow> 'f backend_info list \<Rightarrow> 'f backend_info list" where
  "rank_backends nm s = sort_by (rank_before nm s)"

section \<open>Factories\<close>

definition dynamic :: "string \<Rightarrow> string \<Rightarrow> (origin \<times> string) list" where
  "dynamic lib symb = [(Library ''librocm_cpp.so'', symb), (Library lib, symb), (Program, symb)]"

definition linked_if :: "bool \<Rightarrow> string \<Rightarrow> (origin \<times> string) list" where
  "linked_if b symb = (if b then [(Linked, symb)] else [])"

definition hip_factories :: "build_flags \<Rightarrow> string \<Rightarrow> (origin \<times> string) list" where
  "hip_factories bf bid =
     (let hip = bf_static_hip bf
      in if bid = ''mamba1_gpu'' then
           linked_if hip ''create_mamba1_backend'' @ dynamic ''libmamba1_backend.so'' ''create_mamba1_backend''
         else if bid = ''zamba2_gpu'' then
           linked_if hip ''create_zamba2_backend'' @ dynamic ''libzamba2_backend.so'' ''create_zamba2_backend''
         else if bid = ''nemotron_h_cpu'' then
           dynamic ''libnemotron_h_backend.so'' ''create_nemotron_h_backend''
         else if bid = ''hip_1bp_gpu'' then
           linked_if hip ''create_hip_1bp_backend'' @ dynamic ''libhip_1bp_backend.so'' ''create_hip_1bp_backend''
         else if bid = ''fused_gpu_npu'' then [(Program, ''create_fused_backend'')]
         else if bid = ''vulkan_hpp_gpu'' then [(Program, ''create_vulkan_hpp_backend'')]
         else if bid = ''ggml_vulkan'' then [(Program, ''create_ggml_vulkan_backend'')]
         else linked_if hip ''create_hip_backend'' @ dynamic ''libhip_backend.so'' ''create_hip_backend'')"

definition npu_factories :: "build_flags \<Rightarrow> string \<Rightarrow> (origin \<times> string) list" where
  "npu_factories bf bid =
     (if bid = ''npu_flm'' then
        linked_if (bf_static_npu bf) ''create_npu_flm_backend''
          @ dynamic ''libnpu_flm_backend.so'' ''create_npu_flm_backend''
      else linked_if (bf_static_npu bf) ''create_npu_backend'' @ dynamic ''libnpu_backend.so'' ''create_npu_backend'')"

definition generic_factories :: "build_flags \<Rightarrow> string \<Rightarrow> (origin \<times> string) list" where
  "generic_factories bf bid =
     (if bid = ''laguna_gpu'' then
        linked_if (bf_static_hip bf) ''create_laguna_backend'' @ dynamic ''liblaguna_backend.so'' ''create_laguna_backend''
      else (if bid = ''cpu_deepseek_v4'' then [(Linked, ''create_frontier_deepseek_v4_backend'')]
            else if bid = ''cpu_glm_moe_dsa'' then [(Linked, ''create_frontier_glm_moe_dsa_backend'')]
            else if bid = ''cpu_mimo_v2'' then [(Linked, ''create_frontier_mimo_v2_backend'')]
            else if bid = ''cpu_qwen3_next'' then [(Linked, ''create_qwen3next_backend'')]
            else if bid = ''cpu_baretorch'' then [(Linked, ''create_baretorch_backend'')]
            else if bid = ''cpu_qwen3_5'' then [(Linked, ''create_frontier_qwen3_5_backend'')]
            else []) @ [(Linked, ''create_generic_backend'')])"

definition zinc_factories :: "build_flags \<Rightarrow> string \<Rightarrow> (origin \<times> string) list" where
  "zinc_factories bf bid =
     (if bf_zinc_disabled bf then []
      else if bid = ''zamba2_vulkan'' then
        linked_if (bf_static_hip bf) ''create_zamba2_vulkan_backend''
          @ dynamic ''libzamba2_vulkan_backend.so'' ''create_zamba2_vulkan_backend''
      else [(Linked, ''create_zinc_backend'')])"

definition factories :: "build_flags \<Rightarrow> backend_type \<Rightarrow> string \<Rightarrow> (origin \<times> string) list" where
  "factories bf ty bid =
     (case ty of
        HIP_GPU \<Rightarrow> hip_factories bf bid
      | VULKAN \<Rightarrow> dynamic ''libvulkan_backend.so'' ''create_vulkan_backend''
      | NPU_XRT \<Rightarrow> npu_factories bf bid
      | CPU_AVX512 \<Rightarrow> [(Linked, ''create_cpu_backend'')]
      | CPU_SCALAR \<Rightarrow> [(Linked, ''create_cpu_backend'')]
      | LSE_GPU \<Rightarrow> (Linked, ''create_lse_backend'') # dynamic ''liblse_backend.so'' ''create_lse_backend''
      | HRX_GPU \<Rightarrow> (Linked, ''create_hrx_backend'') # dynamic ''libhrx_backend.so'' ''create_hrx_backend''
      | GENERIC \<Rightarrow> generic_factories bf bid
      | ZINC_GPU \<Rightarrow> zinc_factories bf bid
      | _ \<Rightarrow> [])"

fun try_factories :: "('w, 'f) engine_ops \<Rightarrow> (origin \<times> string) list \<Rightarrow> 'w \<Rightarrow> nat option \<times> 'w" where
  "try_factories eo [] w = (None, w)"
| "try_factories eo ((loc, symb) # rest) w =
     (case eo_create eo loc symb w of (Some b, w) \<Rightarrow> (Some b, w) | (None, w) \<Rightarrow> try_factories eo rest w)"

definition create_instance_rt :: "('w, 'f) engine_ops \<Rightarrow> build_flags \<Rightarrow> 'f backend_info \<Rightarrow> 'w \<Rightarrow> nat option \<times> 'w" where
  "create_instance_rt eo bf info w = try_factories eo (factories bf (bi_type info) (bi_id info)) w"

text \<open>The registered NemotronH lane has the type \<open>GENERIC\<close>, and its own factory is a case of \<open>HIP_GPU\<close>.\<close>

lemma nemotron_gets_the_generic_engine:
  "\<forall>b \<in> set (registered nm bf hw). bi_id b = ''nemotron_h_cpu'' \<longrightarrow>
     factories bf (bi_type b) (bi_id b) = [(Linked, ''create_generic_backend'')]"
  by (simp add: registered_def accelerator_lanes_def gpu_lanes_def cpu_lanes_def frontier_lanes_def
      subprocess_lanes_def lane_def factories_def generic_factories_def)

section \<open>The order is a strict weak order\<close>

text \<open>Scores without NaN: a strict linear order.\<close>

definition strict_linear :: "'f nums \<Rightarrow> bool" where
  "strict_linear nm \<longleftrightarrow> (\<forall>x. \<not> nm_less nm x x) \<and>
     (\<forall>x y z. nm_less nm x y \<longrightarrow> nm_less nm y z \<longrightarrow> nm_less nm x z) \<and> (\<forall>x y. x = y \<or> nm_less nm x y \<or> nm_less nm y x)"

definition faster :: "'f nums \<Rightarrow> 'f backend_info \<Rightarrow> 'f backend_info \<Rightarrow> bool" where
  "faster nm a b \<longleftrightarrow> scored nm a \<and> (scored nm b \<longrightarrow> nm_less nm (bi_score a) (bi_score b))"

definition better_score :: "'f nums \<Rightarrow> 'f backend_info \<Rightarrow> 'f backend_info \<Rightarrow> bool" where
  "better_score nm a b \<longleftrightarrow>
     (if scored nm a \<and> scored nm b then nm_less nm (bi_score a) (bi_score b) else nm_less nm (bi_score b) (bi_score a))"

lemma strict_weak_faster: "strict_linear nm \<Longrightarrow> strict_weak (faster nm)"
  unfolding strict_linear_def strict_weak_def faster_def by metis

lemma strict_weak_better: "strict_linear nm \<Longrightarrow> strict_weak (better_score nm)"
  unfolding strict_linear_def strict_weak_def better_score_def scored_def by (smt (verit))

lemma rank_before_lex:
  assumes "strict_linear nm"
  shows "rank_before nm s =
    lex_before (\<lambda>a b. bi_available a \<and> \<not> bi_available b) (lex_before (\<lambda>a b. bi_functional a \<and> \<not> bi_functional b)
      (if s = SEL_FASTEST then lex_before (faster nm) (\<lambda>a b. bi_priority b < bi_priority a)
       else lex_before (\<lambda>a b. bi_priority b < bi_priority a) (better_score nm)))"
  using assms by (intro ext) (auto simp: rank_before_def lex_before_def faster_def better_score_def strict_linear_def)

lemma rank_before_strict_weak: "strict_linear nm \<Longrightarrow> strict_weak (rank_before nm s)"
  by (simp add: rank_before_lex strict_weak_lex strict_weak_holds strict_weak_greater strict_weak_faster strict_weak_better)

lemma rank_backends_mset: "mset (rank_backends nm s bs) = mset bs"
  by (simp add: rank_backends_def sort_by_mset)

text \<open>C20. For scores without NaN the comparison that \<open>rank_backends\<close> hands to \<open>std::sort\<close> is a strict weak order
  under every strategy, as \<open>std::sort\<close> requires, and the lanes come out as a permutation in that order.\<close>

theorem rank_backends_correct:
  assumes "strict_linear nm"
  shows "strict_weak (rank_before nm s) \<and> mset (rank_backends nm s bs) = mset bs \<and>
    sorted_wrt (\<lambda>a b. \<not> rank_before nm s b a) (rank_backends nm s bs)"
  using rank_before_strict_weak[OF assms] sort_by_sorted[of "rank_before nm s" bs]
  by (simp add: rank_backends_mset) (simp add: rank_backends_def)

definition rat_nums :: "rat nums" where
  "rat_nums = \<lparr>nm_rat = (\<lambda>q. q), nm_less = (<), nm_add = (+), nm_mul = (*), nm_div = (/)\<rparr>"

lemma rat_nums_linear: "strict_linear rat_nums"
  unfolding strict_linear_def rat_nums_def by (auto intro: less_trans)

theorem rank_backends_correct_witness:
  "strict_weak (rank_before rat_nums SEL_FASTEST)"
  using rank_backends_correct[OF rat_nums_linear] by blast

end
