(* ===== verification/BackendManager.thy ===== *)
theory BackendManager
  imports Backends
begin

text \<open>
  \<open>src/backend_manager.cpp\<close>: the state machine that initialises the lanes for a model, selects the active
  one, generates with failover and re-ranks at run time. One operation is one call under the manager's
  mutex; the calls on engines go through \<open>engine_ops\<close>. Calls to the performance monitor and to the
  prefetcher are kept as a log of events. Messages, the weights directory (passed along unchanged) and
  the destructors of released engines are left out.
\<close>

datatype 'f event = MonRecord string 'f bool | MonFailure string string | MonFallback string string
  | MonHealthy string bool | PilotStop | PilotStart nat | PilotReset

record 'f manager =
  bm_backends :: "'f backend_info list"
  bm_active :: nat
  bm_fallback :: nat
  bm_cfg :: model_config
  bm_strategy :: selection
  bm_policy :: fallback_policy
  bm_router :: "'f router"
  bm_pilot :: bool
  bm_initialized :: bool
  bm_skip :: "string list"
  bm_retries :: int
  bm_timeout :: int
  bm_log :: "'f event list"

definition default_config :: model_config where
  "default_config = \<lparr>mc_format = FmtUnknown, mc_num_experts = 16, mc_arch = RCPP_ARCH_BITNET, mc_architecture = [],
     mc_model_path = []\<rparr>"

definition new_manager :: "'f manager" where
  "new_manager = \<lparr>bm_backends = [], bm_active = 0, bm_fallback = 1, bm_cfg = default_config, bm_strategy = SEL_FASTEST,
     bm_policy = FB_SEQUENTIAL, bm_router = new_router, bm_pilot = False, bm_initialized = False, bm_skip = [],
     bm_retries = 0, bm_timeout = 0, bm_log = []\<rparr>"

abbreviation info_at :: "'f manager \<Rightarrow> nat \<Rightarrow> 'f backend_info" where
  "info_at m i \<equiv> bm_backends m ! i"

definition upd_info :: "nat \<Rightarrow> ('f backend_info \<Rightarrow> 'f backend_info) \<Rightarrow> 'f manager \<Rightarrow> 'f manager" where
  "upd_info i f m = m\<lparr>bm_backends := (bm_backends m)[i := f (info_at m i)]\<rparr>"

definition logged :: "'f event list \<Rightarrow> 'f manager \<Rightarrow> 'f manager" where
  "logged evs m = m\<lparr>bm_log := bm_log m @ evs\<rparr>"

definition destroy_instance :: "nat \<Rightarrow> 'f manager \<Rightarrow> 'f manager" where
  "destroy_instance i = upd_info i (\<lambda>b. b\<lparr>bi_instance := None\<rparr>)"

definition discover :: "'f nums \<Rightarrow> build_flags \<Rightarrow> hardware \<Rightarrow> 'f manager \<Rightarrow> 'f manager" where
  "discover nm bf hw m =
     (let bs = rank_backends nm (bm_strategy m) (registered nm bf hw)
      in m\<lparr>bm_backends := bs, bm_active := length bs\<rparr>)"

section \<open>Initialisation\<close>

text \<open>The strategy a lane is registered with at the per-token router.\<close>

definition lane_strategy :: "string \<Rightarrow> strategy" where
  "lane_strategy bid =
     (if contains bid ''npu'' then NPU_BACKFILL
      else if contains bid ''gpu'' \<or> contains bid ''hip'' then GPU_BACKFILL else FASTEST)"

definition register_lane :: "'f nums \<Rightarrow> nat \<Rightarrow> nat \<Rightarrow> 'f manager \<Rightarrow> 'f manager" where
  "register_lane nm idx b m =
     (let info = info_at m idx
      in if bi_id info = ''npu_flm'' \<and> bi_id info \<notin> set (select_backend_route (bm_cfg m)) \<and> bi_tier info \<noteq> T3_CPU
         then m
         else m\<lparr>bm_router := add_backend nm (bi_id info) (Some b) (lane_strategy (bi_id info)) (bm_router m)\<rparr>)"

definition start_pilot :: "nat \<Rightarrow> nat \<Rightarrow> 'f manager \<Rightarrow> 'f manager" where
  "start_pilot idx b m =
     (if \<not> bm_pilot m \<and> bi_tier (info_at m idx) \<noteq> T3_CPU
      then logged [PilotStart b] (m\<lparr>bm_pilot := True\<rparr>) else m)"

text \<open>The state of the loop: the manager, the two kept flags, \<open>any_ok\<close> and the engines. A \<open>reset\<close> that throws is not
  caught: \<open>any_ok\<close> is then \<open>None\<close>, the exception leaves the loop and no other lane is tried.\<close>

type_synonym ('w, 'f) init_state = "'f manager \<times> bool \<times> bool \<times> bool option \<times> 'w"

text \<open>The body of the loop after \<open>init()\<close> has returned true.\<close>

definition keep_lane :: "('w, 'f) engine_ops \<Rightarrow> 'f nums \<Rightarrow> nat \<Rightarrow> nat \<Rightarrow> ('w, 'f) init_state \<Rightarrow> ('w, 'f) init_state" where
  "keep_lane eo nm idx b = (\<lambda>(m, acc, cpu, ok, w).
     let info = info_at m idx; is_cpu = (bi_tier info = T3_CPU)
     in if acc \<and> \<not> is_cpu \<or> cpu \<and> is_cpu then
          (destroy_instance idx (m\<lparr>bm_router := remove_backend (bi_id info) (bm_router m)\<rparr>), acc, cpu, ok, w)
        else
          let acc = (acc \<or> \<not> is_cpu); cpu = (cpu \<or> is_cpu)
          in if \<not> eo_can_infer eo b w then
               (destroy_instance idx (upd_info idx (\<lambda>i. i\<lparr>bi_functional := False\<rparr>) m), acc, cpu, ok, w)
             else
               let m = upd_info idx (\<lambda>i. i\<lparr>bi_functional := True\<rparr>) m
               in (case eo_reset eo b w of
                     (None, w) \<Rightarrow> (m, acc, cpu, None, w)
                   | (Some _, w) \<Rightarrow>
                       let m = m\<lparr>bm_initialized := True, bm_active := idx\<rparr>;
                           m = logged [MonHealthy (bi_id info) True] m;
                           m = start_pilot idx b (register_lane nm idx b m)
                       in (m, acc, cpu, Some True, w)))"

definition try_lane :: "('w, 'f) engine_ops \<Rightarrow> 'f nums \<Rightarrow> build_flags \<Rightarrow> model_config \<Rightarrow> nat \<Rightarrow>
    ('w, 'f) init_state \<Rightarrow> ('w, 'f) init_state" where
  "try_lane eo nm bf cfg idx = (\<lambda>(m, acc, cpu, ok, w).
     let info = info_at m idx
     in if ok = None then (m, acc, cpu, ok, w)
        else if \<not> bi_available info \<or> \<not> bi_auto info then (m, acc, cpu, ok, w)
        else if bi_id info \<in> set (bm_skip m) then (m, acc, cpu, ok, w)
        else (case create_instance_rt eo bf info w of
                (None, w) \<Rightarrow> (m, acc, cpu, ok, w)
              | (Some b, w) \<Rightarrow>
                  let m = upd_info idx (\<lambda>i. i\<lparr>bi_instance := Some b\<rparr>) m;
                      w = (if 0 < bm_retries m \<or> 0 < bm_timeout m
                           then eo_set_budget eo b (bm_retries m) (bm_timeout m) w else w);
                      cap = (if 0 < bm_timeout m then bm_timeout m else 120)
                  in (case eo_init eo b cfg cap w of
                        (InitOk, w) \<Rightarrow> keep_lane eo nm idx b (m, acc, cpu, ok, w)
                      | (_, w) \<Rightarrow> (destroy_instance idx m, acc, cpu, ok, w))))"

definition init_in_order :: "('w, 'f) engine_ops \<Rightarrow> 'f nums \<Rightarrow> build_flags \<Rightarrow> model_config \<Rightarrow> nat list \<Rightarrow>
    'f manager \<Rightarrow> 'w \<Rightarrow> bool option \<times> 'f manager \<times> 'w" where
  "init_in_order eo nm bf cfg order m w =
     (let m = (if bm_pilot m then logged [PilotStop] (m\<lparr>bm_pilot := False\<rparr>) else m);
          m = m\<lparr>bm_router := clear (bm_router m)\<rparr>;
          (m, _, _, ok, w) = fold (try_lane eo nm bf cfg) order (m, False, False, Some False, w)
      in (ok, if ok = Some True then m\<lparr>bm_initialized := True\<rparr> else m, w))"

text \<open>The preferred ids first, each at its first unused lane, then the other lanes.\<close>

definition find_unused :: "'f backend_info list \<Rightarrow> nat list \<Rightarrow> string \<Rightarrow> nat option" where
  "find_unused bs used bid = find_entry (\<lambda>i. i \<notin> set used \<and> bi_id (bs ! i) = bid) [0..<length bs]"

fun preferred_order :: "'f backend_info list \<Rightarrow> string list \<Rightarrow> nat list \<Rightarrow> nat list" where
  "preferred_order bs [] used = used"
| "preferred_order bs (bid # ids) used =
     preferred_order bs ids (case find_unused bs used bid of Some i \<Rightarrow> used @ [i] | None \<Rightarrow> used)"

definition lane_order :: "'f backend_info list \<Rightarrow> string list \<Rightarrow> nat list" where
  "lane_order bs ids = (let p = preferred_order bs ids [] in p @ filter (\<lambda>i. i \<notin> set p) [0..<length bs])"

text \<open>Both overloads of \<open>init\<close>; \<open>is_file\<close> is the \<open>stat\<close> of the model path. The two-argument overload has no
  preferred ids. \<open>None\<close> is an exception that leaves the call.\<close>

definition init :: "('w, 'f) engine_ops \<Rightarrow> 'f nums \<Rightarrow> build_flags \<Rightarrow> (string \<Rightarrow> bool) \<Rightarrow> model_config \<Rightarrow> string list \<Rightarrow>
    'f manager \<Rightarrow> 'w \<Rightarrow> bool option \<times> 'f manager \<times> 'w" where
  "init eo nm bf is_file cfg preferred m w =
     (let m = m\<lparr>bm_cfg := cfg\<rparr>
      in if bm_backends m = [] then (Some False, m, w)
         else
           let m = (if mc_model_path cfg \<noteq> [] \<and> mc_format cfg \<noteq> MLX \<and> \<not> is_file (mc_model_path cfg)
                    then m\<lparr>bm_cfg := (bm_cfg m)\<lparr>mc_model_path := []\<rparr>\<rparr> else m)
           in init_in_order eo nm bf cfg (lane_order (bm_backends m) preferred) m w)"

section \<open>Selection\<close>

definition usable :: "'f backend_info \<Rightarrow> bool" where
  "usable b \<longleftrightarrow> bi_available b \<and> bi_functional b"

text \<open>The lane with the lowest positive score among those that satisfy a condition.\<close>

definition best_scored :: "'f nums \<Rightarrow> ('f backend_info \<Rightarrow> bool) \<Rightarrow> 'f backend_info list \<Rightarrow> nat option" where
  "best_scored nm ok bs =
     fst (fold (\<lambda>i (best, best_score).
         if ok (bs ! i) \<and> scored nm (bs ! i) \<and> nm_less nm (bi_score (bs ! i)) best_score
         then (Some i, bi_score (bs ! i)) else (best, best_score))
       [0..<length bs] (None, nm_rat nm (10 ^ 30)))"

definition or_else :: "'a option \<Rightarrow> 'a option \<Rightarrow> 'a option" where
  "or_else a b = (case a of Some x \<Rightarrow> Some x | None \<Rightarrow> b)"

text \<open>The first lane that satisfies a condition, going round from a position.\<close>

definition find_cyclic :: "('f backend_info \<Rightarrow> bool) \<Rightarrow> 'f backend_info list \<Rightarrow> nat \<Rightarrow> nat option" where
  "find_cyclic ok bs start =
     (let idxs = map (\<lambda>i. (start + i) mod length bs) [0..<length bs]
      in map_option ((!) idxs) (find_entry (\<lambda>i. ok (bs ! i)) idxs))"

definition active_usable :: "'f manager \<Rightarrow> bool" where
  "active_usable m \<longleftrightarrow> bm_active m < length (bm_backends m) \<and> usable (info_at m (bm_active m))"

definition select_best :: "'f nums \<Rightarrow> 'f manager \<Rightarrow> bool \<times> 'f manager" where
  "select_best nm m =
     (let bs = bm_backends m; ok = (\<lambda>b. usable b \<and> bi_auto b);
          set_active = (\<lambda>p. case p of Some i \<Rightarrow> (True, m\<lparr>bm_active := i\<rparr>) | None \<Rightarrow> (False, m))
      in case bm_strategy m of
           SEL_FASTEST \<Rightarrow> set_active (or_else (best_scored nm ok bs) (find_entry ok bs))
         | SEL_LOWEST_POWER \<Rightarrow> set_active (find_entry ok bs)
         | SEL_ROUND_ROBIN \<Rightarrow> set_active (find_cyclic ok bs ((bm_active m + 1) mod length bs))
         | SEL_MANUAL \<Rightarrow> if active_usable m then (True, m) else set_active (find_entry usable bs))"

definition select_where :: "('f backend_info \<Rightarrow> bool) \<Rightarrow> 'f manager \<Rightarrow> bool \<times> 'f manager" where
  "select_where P m =
     (case find_entry (\<lambda>b. P b \<and> usable b) (bm_backends m) of
        Some i \<Rightarrow> (True, m\<lparr>bm_active := i, bm_strategy := SEL_MANUAL\<rparr>)
      | None \<Rightarrow> (False, m))"

definition select_backend :: "string \<Rightarrow> 'f manager \<Rightarrow> bool \<times> 'f manager" where
  "select_backend bid = select_where (\<lambda>b. bi_id b = bid)"

definition select_backend_type :: "backend_type \<Rightarrow> 'f manager \<Rightarrow> bool \<times> 'f manager" where
  "select_backend_type ty = select_where (\<lambda>b. bi_type b = ty)"

definition active_backend :: "'f manager \<Rightarrow> nat option" where
  "active_backend m = (if length (bm_backends m) \<le> bm_active m then None else bi_instance (info_at m (bm_active m)))"

definition active_info :: "'f manager \<Rightarrow> 'f backend_info option" where
  "active_info m = (if length (bm_backends m) \<le> bm_active m then None else Some (info_at m (bm_active m)))"

definition best_for_tier :: "tier \<Rightarrow> 'f manager \<Rightarrow> nat option" where
  "best_for_tier t m = find_entry (\<lambda>b. bi_tier b = t \<and> usable b) (bm_backends m)"

text \<open>The benchmark of every lane; an \<open>init\<close> or a benchmark that throws is caught here.\<close>

definition compatible :: "string list \<Rightarrow> 'f backend_info \<Rightarrow> bool" where
  "compatible route b \<longleftrightarrow> bi_tier b = T3_CPU \<or> bi_instance b \<noteq> None \<or> bi_id b \<in> set route"

definition ensure_instance :: "('w, 'f) engine_ops \<Rightarrow> build_flags \<Rightarrow> nat \<Rightarrow> 'f manager \<Rightarrow> 'w \<Rightarrow>
    nat option \<times> 'f manager \<times> 'w" where
  "ensure_instance eo bf idx m w =
     (case bi_instance (info_at m idx) of
        Some b \<Rightarrow> (Some b, m, w)
      | None \<Rightarrow>
          (case create_instance_rt eo bf (info_at m idx) w of
             (None, w) \<Rightarrow> (None, m, w)
           | (Some b, w) \<Rightarrow>
               let m = upd_info idx (\<lambda>i. i\<lparr>bi_instance := Some b\<rparr>) m
               in (case eo_init_blocking eo b (bm_cfg m) w of
                     (Some True, w) \<Rightarrow> (Some b, m, w)
                   | (_, w) \<Rightarrow> (None, destroy_instance idx m, w))))"

definition benchmark_lane :: "('w, 'f) engine_ops \<Rightarrow> 'f nums \<Rightarrow> build_flags \<Rightarrow> int \<Rightarrow> nat \<Rightarrow> 'f manager \<times> 'w \<Rightarrow>
    'f manager \<times> 'w" where
  "benchmark_lane eo nm bf tokens idx = (\<lambda>(m, w).
     let info = info_at m idx
     in if \<not> bi_available info \<or> \<not> compatible (select_backend_route (bm_cfg m)) info then (m, w)
        else if bi_type info = CPU_SCALAR \<and> list_ex (\<lambda>b. bi_type b = CPU_AVX512 \<and> scored nm b) (bm_backends m)
        then (upd_info idx (\<lambda>i. i\<lparr>bi_score := nm_rat nm 9999\<rparr>) m, w)
        else
          (case ensure_instance eo bf idx m w of
             (None, m, w) \<Rightarrow> (m, w)
           | (Some b, m, w) \<Rightarrow>
               (case eo_benchmark eo b tokens w of
                  (None, w) \<Rightarrow>
                    (destroy_instance idx (upd_info idx (\<lambda>i. i\<lparr>bi_available := False, bi_functional := False\<rparr>) m), w)
                | (Some ms, w) \<Rightarrow> (upd_info idx (\<lambda>i. i\<lparr>bi_score := ms, bi_functional := True\<rparr>) m, w))))"

definition benchmark_all :: "('w, 'f) engine_ops \<Rightarrow> 'f nums \<Rightarrow> build_flags \<Rightarrow> int \<Rightarrow> 'f manager \<Rightarrow> 'w \<Rightarrow>
    'f manager \<times> 'w" where
  "benchmark_all eo nm bf tokens m w =
     (let (m, w) = fold (benchmark_lane eo nm bf tokens) [0..<length (bm_backends m)] (m, w)
      in (m\<lparr>bm_backends := rank_backends nm (bm_strategy m) (bm_backends m)\<rparr>, w))"

definition set_score :: "string \<Rightarrow> 'f \<Rightarrow> 'f manager \<Rightarrow> 'f manager" where
  "set_score bid ms m =
     (case find_entry (\<lambda>b. bi_id b = bid) (bm_backends m) of
        Some i \<Rightarrow> upd_info i (\<lambda>b. b\<lparr>bi_score := ms, bi_functional := True\<rparr>) m
      | None \<Rightarrow> m)"

definition old_id :: "'f manager \<Rightarrow> string" where
  "old_id m = (case active_info m of Some b \<Rightarrow> bi_id b | None \<Rightarrow> ''none'')"

definition re_evaluate :: "'f nums \<Rightarrow> 'f manager \<Rightarrow> bool \<times> 'f manager" where
  "re_evaluate nm m =
     (let old_idx = bm_active m; oid = old_id m;
          m = m\<lparr>bm_backends := rank_backends nm (bm_strategy m) (bm_backends m)\<rparr>;
          bs = bm_backends m; n = length bs;
          best = (case bm_strategy m of
              SEL_FASTEST \<Rightarrow> or_else (best_scored nm usable bs) (find_entry usable bs)
            | SEL_LOWEST_POWER \<Rightarrow> find_entry usable bs
            | SEL_ROUND_ROBIN \<Rightarrow>
                (let pos = (case find_entry (\<lambda>b. bi_id b = oid) bs of Some i \<Rightarrow> i | None \<Rightarrow> n)
                 in or_else (find_cyclic usable bs (pos + 1)) (find_entry usable bs))
            | SEL_MANUAL \<Rightarrow> if active_usable m then Some old_idx else None)
      in case best of
           Some i \<Rightarrow> (i \<noteq> old_idx \<or> bi_id (bs ! i) \<noteq> oid, m\<lparr>bm_active := i\<rparr>)
         | None \<Rightarrow> (False, m))"

definition manager_set_strategy :: "'f nums \<Rightarrow> selection \<Rightarrow> 'f manager \<Rightarrow> 'f manager" where
  "manager_set_strategy nm s m =
     (let m = m\<lparr>bm_strategy := s\<rparr> in if s = SEL_MANUAL then m else snd (re_evaluate nm m))"

section \<open>Failover\<close>

definition route_lane :: "'f backend_info list \<Rightarrow> nat list \<Rightarrow> string list" where
  "route_lane bs idxs = map (\<lambda>i. bi_id (bs ! i)) idxs"

definition fallback_order :: "'f manager \<Rightarrow> string list" where
  "fallback_order m = route_lane (bm_backends m) (lane_order (bm_backends m) (select_backend_route (bm_cfg m)))"

definition take_over :: "('w, 'f) engine_ops \<Rightarrow> nat \<Rightarrow> nat \<Rightarrow> 'f manager \<Rightarrow> 'w \<Rightarrow> bool option \<times> 'f manager \<times> 'w" where
  "take_over eo idx b m w =
     (let m = m\<lparr>bm_active := idx, bm_fallback := (idx + 1) mod length (bm_backends m)\<rparr>
      in (case eo_reset eo b w of (None, w) \<Rightarrow> (None, m, w) | (Some _, w) \<Rightarrow> (Some True, m, w)))"

text \<open>One lane of the cascade, and the cascade. Neither \<open>init\<close> nor \<open>reset\<close> is guarded here: \<open>None\<close> is an exception that
  leaves \<open>failover\<close>, also when lanes are left to try; the engine whose \<open>init\<close> threw stays in its lane.\<close>

definition try_failover :: "('w, 'f) engine_ops \<Rightarrow> build_flags \<Rightarrow> nat \<Rightarrow> 'f manager \<Rightarrow> 'w \<Rightarrow> bool option \<times> 'f manager \<times> 'w" where
  "try_failover eo bf idx m w =
     (let info = info_at m idx
      in if \<not> bi_available info then (Some False, m, w)
         else case bi_instance info of
           Some b \<Rightarrow> if bi_functional info then take_over eo idx b m w else (Some False, m, w)
         | None \<Rightarrow>
             (case create_instance_rt eo bf info w of
                (None, w) \<Rightarrow> (Some False, m, w)
              | (Some b, w) \<Rightarrow>
                  let m = upd_info idx (\<lambda>i. i\<lparr>bi_instance := Some b\<rparr>) m
                  in (case eo_init_blocking eo b (bm_cfg m) w of
                        (None, w) \<Rightarrow> (None, m, w)
                      | (Some False, w) \<Rightarrow> (Some False, destroy_instance idx m, w)
                      | (Some True, w) \<Rightarrow>
                          if \<not> eo_can_infer eo b w then (Some False, m, w)
                          else take_over eo idx b (upd_info idx (\<lambda>i. i\<lparr>bi_functional := True\<rparr>) m) w)))"

fun failover_loop :: "('w, 'f) engine_ops \<Rightarrow> build_flags \<Rightarrow> string \<Rightarrow> string list \<Rightarrow> 'f manager \<Rightarrow> 'w \<Rightarrow>
    bool option \<times> 'f manager \<times> 'w" where
  "failover_loop eo bf failed [] m w = (Some False, m, w)"
| "failover_loop eo bf failed (bid # ids) m w =
     (if bid = failed then failover_loop eo bf failed ids m w
      else case find_entry (\<lambda>b. bi_id b = bid) (bm_backends m) of
        None \<Rightarrow> failover_loop eo bf failed ids m w
      | Some idx \<Rightarrow>
          (case try_failover eo bf idx m w of
             (Some False, m, w) \<Rightarrow> failover_loop eo bf failed ids m w
           | (r, m, w) \<Rightarrow> (r, m, w)))"

definition failed_id :: "'f manager \<Rightarrow> string" where
  "failed_id m = (case active_info m of Some b \<Rightarrow> bi_id b | None \<Rightarrow> [])"

definition failover :: "('w, 'f) engine_ops \<Rightarrow> build_flags \<Rightarrow> 'f manager \<Rightarrow> 'w \<Rightarrow> bool option \<times> 'f manager \<times> 'w" where
  "failover eo bf m w =
     (if bm_policy m = FB_NONE then (Some False, m, w)
      else
        let m = (if bm_active m < length (bm_backends m)
                 then upd_info (bm_active m) (\<lambda>b. b\<lparr>bi_functional := False\<rparr>) m else m)
        in failover_loop eo bf (failed_id m) (fallback_order m) m w)"

section \<open>Orders of lanes\<close>

abbreviation lane_ids :: "'f manager \<Rightarrow> string list" where
  "lane_ids m \<equiv> map bi_id (bm_backends m)"

lemma find_unused_SomeD:
  "find_unused bs used bid = Some i \<Longrightarrow> i < length bs \<and> i \<notin> set used \<and> bi_id (bs ! i) = bid"
  by (auto simp: find_unused_def dest!: find_entry_SomeD)

lemma find_unused_None:
  assumes "find_unused bs used bid = None" "\<forall>i \<in> set used. bi_id (bs ! i) \<noteq> bid"
  shows "bid \<notin> bi_id ` set bs"
proof
  assume "bid \<in> bi_id ` set bs"
  then obtain i where "i < length bs" "bi_id (bs ! i) = bid" by (auto simp: in_set_conv_nth)
  with assms show False by (auto simp: find_unused_def find_entry_None_iff)
qed

lemma preferred_order_wf:
  "distinct used \<Longrightarrow> set used \<subseteq> {..<length bs} \<Longrightarrow>
   distinct (preferred_order bs ids used) \<and> set (preferred_order bs ids used) \<subseteq> {..<length bs}"
proof (induction bs ids used rule: preferred_order.induct)
  case (2 bs bid ids used)
  then show ?case using find_unused_SomeD[of bs used bid] by (cases "find_unused bs used bid") simp_all
qed simp

lemma lane_order_mset: "mset (lane_order bs ids) = mset [0..<length bs]"
proof -
  have p: "distinct (preferred_order bs ids [])" "set (preferred_order bs ids []) \<subseteq> {..<length bs}"
    using preferred_order_wf[of "[]" bs ids] by simp_all
  have "distinct (lane_order bs ids)" using p(1) by (auto simp: lane_order_def Let_def)
  moreover have "set (lane_order bs ids) = set [0..<length bs]" using p(2) by (auto simp: lane_order_def Let_def)
  ultimately show ?thesis by (metis distinct_upt set_eq_iff_mset_eq_distinct)
qed

lemma lane_order_distinct: "distinct (lane_order bs ids)"
  using lane_order_mset[of bs ids] by (metis distinct_upt mset_eq_imp_distinct_iff)

lemma lane_order_set: "set (lane_order bs ids) = {..<length bs}"
  using lane_order_mset[of bs ids] by (metis atLeast_upt mset_eq_setD)

lemma preferred_order_ids:
  "distinct ids \<Longrightarrow> set ids \<inter> (\<lambda>i. bi_id (bs ! i)) ` set used = {} \<Longrightarrow>
   route_lane bs (preferred_order bs ids used) =
     route_lane bs used @ filter (\<lambda>bid. bid \<in> bi_id ` set bs) ids"
proof (induction bs ids used rule: preferred_order.induct)
  case (2 bs bid ids used)
  show ?case
  proof (cases "find_unused bs used bid")
    case None
    then have "bid \<notin> bi_id ` set bs" using 2(3) by (intro find_unused_None) auto
    then show ?thesis using 2 None by simp
  next
    case (Some i)
    then have i: "i < length bs" "bi_id (bs ! i) = bid" using find_unused_SomeD by blast+
    then have "bid \<in> bi_id ` set bs" by (metis image_eqI nth_mem)
    then show ?thesis using 2 Some i by (auto simp: route_lane_def)
  qed
qed (simp add: route_lane_def)

lemma fallback_order_mset: "mset (fallback_order m) = mset (lane_ids m)"
proof -
  have "mset (fallback_order m) = image_mset (\<lambda>i. bi_id (bm_backends m ! i)) (mset [0..<length (bm_backends m)])"
    by (simp only: fallback_order_def route_lane_def mset_map lane_order_mset)
  also have "\<dots> = mset (map bi_id (map (\<lambda>i. bm_backends m ! i) [0..<length (bm_backends m)]))" by (simp add: comp_def)
  finally show ?thesis by (simp only: map_nth)
qed

text \<open>C19. The failover order covers every lane exactly once, and starts with the lanes of the model's route, in the
  order of the route; ids of the route without a lane are dropped.\<close>

theorem fallback_order_covers:
  "mset (fallback_order m) = mset (lane_ids m) \<and>
   (\<exists>rest. fallback_order m =
      filter (\<lambda>bid. bid \<in> bi_id ` set (bm_backends m)) (select_backend_route (bm_cfg m)) @ rest)"
proof -
  have "fallback_order m = filter (\<lambda>bid. bid \<in> bi_id ` set (bm_backends m)) (select_backend_route (bm_cfg m))
      @ route_lane (bm_backends m) (filter (\<lambda>i. i \<notin> set (preferred_order (bm_backends m)
          (select_backend_route (bm_cfg m)) [])) [0..<length (bm_backends m)])"
    using preferred_order_ids[OF route_shape(2), where cfg1 = "bm_cfg m" and bs = "bm_backends m" and used = "[]"]
    by (simp add: fallback_order_def lane_order_def route_lane_def Let_def)
  then show ?thesis using fallback_order_mset by blast
qed

section \<open>Failover finds a working lane\<close>

text \<open>A lane that failover can use: it has a working engine, or an engine for it can be created, initialised and
  used for inference.\<close>

definition lane_ready :: "('w, 'f) engine_ops \<Rightarrow> build_flags \<Rightarrow> model_config \<Rightarrow> 'f backend_info \<Rightarrow> bool" where
  "lane_ready eo bf cfg b \<longleftrightarrow> bi_available b \<and>
     (case bi_instance b of
        Some _ \<Rightarrow> bi_functional b
      | None \<Rightarrow> \<forall>w. \<exists>x w1 w2. create_instance_rt eo bf b w = (Some x, w1) \<and>
                  eo_init_blocking eo x cfg w1 = (Some True, w2) \<and> eo_can_infer eo x w2)"

definition never_throws :: "('w, 'f) engine_ops \<Rightarrow> bool" where
  "never_throws eo \<longleftrightarrow> (\<forall>b cfg w. fst (eo_init_blocking eo b cfg w) \<noteq> None) \<and> (\<forall>b w. fst (eo_reset eo b w) \<noteq> None)"

definition active_ready :: "'f manager \<Rightarrow> bool" where
  "active_ready m \<longleftrightarrow> active_usable m \<and> active_backend m \<noteq> None"

lemma upd_info_length [simp]: "length (bm_backends (upd_info i f m)) = length (bm_backends m)"
  by (simp add: upd_info_def)

lemma upd_info_same [simp]: "i < length (bm_backends m) \<Longrightarrow> info_at (upd_info i f m) i = f (info_at m i)"
  by (simp add: upd_info_def)

lemma upd_info_other [simp]: "i \<noteq> j \<Longrightarrow> info_at (upd_info i f m) j = info_at m j"
  by (simp add: upd_info_def)

lemma upd_info_fields [simp]:
  "bm_cfg (upd_info i f m) = bm_cfg m" "bm_active (upd_info i f m) = bm_active m"
  "bm_router (upd_info i f m) = bm_router m" "bm_pilot (upd_info i f m) = bm_pilot m"
  "bm_policy (upd_info i f m) = bm_policy m" "bm_initialized (upd_info i f m) = bm_initialized m"
  "bm_skip (upd_info i f m) = bm_skip m"
  by (simp_all add: upd_info_def)

lemma upd_info_ids [simp]:
  "(\<And>b. bi_id (f b) = bi_id b) \<Longrightarrow> lane_ids (upd_info i f m) = lane_ids m"
  by (cases "i < length (bm_backends m)") (simp_all add: upd_info_def map_update list_update_same_conv list_update_beyond)

lemma same_id_same_lane:
  "distinct (lane_ids m) \<Longrightarrow> i < length (bm_backends m) \<Longrightarrow> j < length (bm_backends m) \<Longrightarrow>
   bi_id (info_at m i) = bi_id (info_at m j) \<Longrightarrow> i = j"
  by (metis distinct_conv_nth length_map nth_map)

lemma take_over_result: "fst (take_over eo idx b m w) \<noteq> Some False" "never_throws eo \<Longrightarrow> fst (take_over eo idx b m w) = Some True"
proof -
  obtain r w' where reset: "eo_reset eo b w = (r, w')" by (meson surj_pair)
  then show "fst (take_over eo idx b m w) \<noteq> Some False" by (cases r) (simp_all add: take_over_def)
  assume "never_throws eo"
  then have "r \<noteq> None" using reset by (metis fst_conv never_throws_def)
  then show "fst (take_over eo idx b m w) = Some True" using reset by (auto simp: take_over_def)
qed

lemma try_failover_ready:
  assumes "i < length (bm_backends m)" "lane_ready eo bf (bm_cfg m) (info_at m i)"
  shows "fst (try_failover eo bf i m w) \<noteq> Some False"
proof (cases "bi_instance (info_at m i)")
  case None
  then have "\<exists>x w1 w2. create_instance_rt eo bf (info_at m i) w = (Some x, w1) \<and>
    eo_init_blocking eo x (bm_cfg m) w1 = (Some True, w2) \<and> eo_can_infer eo x w2"
    using assms(2) by (simp add: lane_ready_def)
  then obtain x w1 w2 where "create_instance_rt eo bf (info_at m i) w = (Some x, w1)"
    "eo_init_blocking eo x (bm_cfg m) w1 = (Some True, w2)" "eo_can_infer eo x w2" by blast
  then show ?thesis
    using None assms by (simp add: try_failover_def take_over_result lane_ready_def)
next
  case (Some b)
  then show ?thesis using assms by (simp add: try_failover_def take_over_result lane_ready_def)
qed

lemma try_failover_returns: "never_throws eo \<Longrightarrow> fst (try_failover eo bf i m w) \<noteq> None"
proof -
  assume quiet: "never_throws eo"
  have "eo_init_blocking eo b cfg w \<noteq> (None, w2)" for b cfg w w2 using quiet by (metis fst_conv never_throws_def)
  then show ?thesis
    by (auto simp: try_failover_def Let_def take_over_result(2)[OF quiet] split: option.splits prod.splits bool.splits)
qed

lemma try_failover_frame:
  assumes "try_failover eo bf k m w = (r, m', w')" "k < length (bm_backends m)"
  shows "lane_ids m' = lane_ids m" "bm_cfg m' = bm_cfg m" "j \<noteq> k \<Longrightarrow> info_at m' j = info_at m j"
    "r = Some True \<Longrightarrow> active_ready m' \<and> bm_active m' = k"
  using assms
  by (auto simp: try_failover_def take_over_def Let_def destroy_instance_def active_ready_def active_usable_def
      usable_def active_backend_def split: if_splits option.splits prod.splits bool.splits)

lemma failover_loop_finds:
  "distinct (lane_ids m) \<Longrightarrow> i < length (bm_backends m) \<Longrightarrow> bi_id (info_at m i) \<in> set ids \<Longrightarrow>
   bi_id (info_at m i) \<noteq> failed \<Longrightarrow> lane_ready eo bf (bm_cfg m) (info_at m i) \<Longrightarrow>
   \<exists>r m' w'. failover_loop eo bf failed ids m w = (r, m', w') \<and> r \<noteq> Some False \<and> (never_throws eo \<longrightarrow> r = Some True) \<and>
     (r = Some True \<longrightarrow> active_ready m' \<and> lane_ids m' = lane_ids m \<and> bi_id (info_at m' (bm_active m')) \<noteq> failed)"
proof (induction ids arbitrary: m w)
  case (Cons bid ids)
  show ?case
  proof (cases "bid = failed \<or> find_entry (\<lambda>b. bi_id b = bid) (bm_backends m) = None")
    case True
    then have "bi_id (info_at m i) \<in> set ids"
      using Cons.prems by (auto simp: find_entry_None_iff)
    then show ?thesis using Cons True by (auto split: option.split)
  next
    case False
    then obtain k where k: "find_entry (\<lambda>b. bi_id b = bid) (bm_backends m) = Some k" by auto
    then have kl: "k < length (bm_backends m)" "bi_id (info_at m k) = bid"
      using find_entry_SomeD by fastforce+
    obtain r m1 w1 where t: "try_failover eo bf k m w = (r, m1, w1)" by (metis prod_cases3)
    note frame = try_failover_frame[OF t kl(1)]
    have len: "length (bm_backends m1) = length (bm_backends m)" using frame(1) by (metis length_map)
    have kid: "bi_id (info_at m1 k) = bid" using frame(1) kl len by (metis nth_map)
    show ?thesis
    proof (cases "r = Some False")
      case False
      then have "failover_loop eo bf failed (bid # ids) m w = (r, m1, w1)"
        using \<open>\<not> (bid = failed \<or> _)\<close> k t by (simp split: option.split bool.split)
      moreover have "never_throws eo \<longrightarrow> r = Some True"
        using try_failover_returns[of eo bf k m w] False t by (cases r) auto
      ultimately show ?thesis using \<open>\<not> (bid = failed \<or> _)\<close> False frame kid by auto
    next
      case nr: True
      with try_failover_ready[OF Cons.prems(2,5), of w] t have "i \<noteq> k" by auto
      then have "bi_id (info_at m i) \<in> set ids" "info_at m1 i = info_at m i"
        using same_id_same_lane[OF Cons.prems(1,2) kl(1)] Cons.prems(3) kl(2) frame(3) by auto
      then show ?thesis using Cons.IH[of m1 w1] Cons.prems frame(1,2) len k t nr False by auto
    qed
  qed
qed simp

text \<open>C12. Failover does not give up early: unless the policy forbids it, if some lane other than the active one has a
  working engine or one can be brought up, \<open>failover\<close> never reports that there is none: it activates another lane,
  available and functional, with an engine, or an exception of an engine leaves it; and when no \<open>init\<close> and no
  \<open>reset\<close> throws, it succeeds.\<close>

theorem failover_succeeds:
  assumes "bm_policy m \<noteq> FB_NONE" "distinct (lane_ids m)" "\<forall>b \<in> set (bm_backends m). bi_id b \<noteq> []"
    "i < length (bm_backends m)" "i \<noteq> bm_active m" "lane_ready eo bf (bm_cfg m) (info_at m i)"
  shows "\<exists>r m' w'. failover eo bf m w = (r, m', w') \<and> r \<noteq> Some False \<and> (never_throws eo \<longrightarrow> r = Some True) \<and>
    (r = Some True \<longrightarrow> active_ready m' \<and> lane_ids m' = lane_ids m \<and> bm_active m' \<noteq> bm_active m)"
proof -
  let ?m = "if bm_active m < length (bm_backends m)
    then upd_info (bm_active m) (\<lambda>b. b\<lparr>bi_functional := False\<rparr>) m else m"
  have ids: "lane_ids ?m = lane_ids m" by simp
  have len: "length (bm_backends ?m) = length (bm_backends m)" by simp
  have i: "info_at ?m i = info_at m i" "bm_cfg ?m = bm_cfg m" using assms(5) by simp_all
  have nf: "bi_id (info_at m i) \<noteq> failed_id ?m"
    using assms(2-5) same_id_same_lane[OF assms(2,4), of "bm_active m"]
    by (auto simp: failed_id_def active_info_def)
  have "bi_id (info_at m i) \<in> set (fallback_order ?m)"
    using fallback_order_mset[of ?m] ids assms(4) by (metis mset_eq_setD nth_mem length_map nth_map)
  then obtain r m' w' where f: "failover_loop eo bf (failed_id ?m) (fallback_order ?m) ?m w = (r, m', w')"
    "r \<noteq> Some False" "never_throws eo \<longrightarrow> r = Some True"
    "r = Some True \<Longrightarrow> active_ready m' \<and> lane_ids m' = lane_ids m \<and> bi_id (info_at m' (bm_active m')) \<noteq> failed_id ?m"
    using failover_loop_finds[of ?m i "fallback_order ?m" "failed_id ?m" eo bf w] assms(2,4,6) ids len i nf by auto
  have "bm_active m' \<noteq> bm_active m" if h: "r = Some True"
  proof
    note f4 = f(4)[OF h]
    assume eq: "bm_active m' = bm_active m"
    have "bm_active m < length (bm_backends m')" using f4 eq by (simp add: active_ready_def active_usable_def)
    moreover have l: "length (bm_backends m') = length (bm_backends m)" using f4 by (metis length_map)
    ultimately have "bi_id (info_at m' (bm_active m)) = bi_id (info_at m (bm_active m))"
      using f4 by (metis nth_map)
    then show False using f4 eq l \<open>bm_active m < _\<close> by (simp add: failed_id_def active_info_def)
  qed
  then show ?thesis using f assms(1) by (simp add: failover_def Let_def)
qed

definition demo_lane :: "'f nums \<Rightarrow> string \<Rightarrow> tier \<Rightarrow> nat option \<Rightarrow> 'f backend_info" where
  "demo_lane nm bid t b =
     (lane nm bid (if t = T3_CPU then CPU_SCALAR else HIP_GPU) t 0 True 0 True)
       \<lparr>bi_functional := b \<noteq> None, bi_instance := b\<rparr>"

definition quiet_ops :: "('w, 'f) engine_ops \<Rightarrow> ('w, 'f) engine_ops" where
  "quiet_ops eo = eo\<lparr>eo_init_blocking := \<lambda>b cfg w. (Some False, w), eo_reset := \<lambda>b w. (Some True, w)\<rparr>"

theorem failover_succeeds_witness:
  "\<forall>(eo :: ('w, 'f) engine_ops) (nm :: 'f nums) bf w. fst (failover (quiet_ops eo) bf
     (new_manager\<lparr>bm_backends := [demo_lane nm ''hip_gpu'' T2_GPU None, demo_lane nm ''cpu_scalar'' T3_CPU (Some 5)]\<rparr>) w) = Some True"
proof (intro allI)
  fix eo :: "('w, 'f) engine_ops" and nm :: "'f nums" and bf w
  let ?m = "new_manager\<lparr>bm_backends := [demo_lane nm ''hip_gpu'' T2_GPU None, demo_lane nm ''cpu_scalar'' T3_CPU (Some 5)]\<rparr>"
  have "never_throws (quiet_ops eo)" by (simp add: never_throws_def quiet_ops_def)
  then show "fst (failover (quiet_ops eo) bf ?m w) = Some True"
    using failover_succeeds[of ?m 1 "quiet_ops eo" bf w]
    by (auto simp: new_manager_def demo_lane_def lane_def lane_ready_def)
qed

text \<open>An engine whose \<open>init\<close> throws ends failover, although the CPU lane behind it is up.\<close>

definition throwing_ops :: "('w, 'f) engine_ops \<Rightarrow> ('w, 'f) engine_ops" where
  "throwing_ops eo = eo\<lparr>eo_create := \<lambda>loc symb w. (Some 7, w), eo_init_blocking := \<lambda>b cfg w. (None, w)\<rparr>"

definition throwing_lanes :: "'f nums \<Rightarrow> 'f manager" where
  "throwing_lanes nm = new_manager\<lparr>bm_backends := [demo_lane nm ''npu_xrt'' T1_ACCELERATOR (Some 0),
     demo_lane nm ''hip_gpu'' T2_GPU None, demo_lane nm ''cpu_scalar'' T3_CPU (Some 5)]\<rparr>"

lemma throwing_order:
  "fallback_order (upd_info 0 (\<lambda>b. b\<lparr>bi_functional := False\<rparr>) (throwing_lanes nm)) = [''hip_gpu'', ''cpu_scalar'', ''npu_xrt'']"
  by (simp add: throwing_lanes_def new_manager_def demo_lane_def lane_def fallback_order_def route_lane_def lane_order_def
      select_backend_route_def find_unused_def default_config_def upt_rec upd_info_def)

lemma throwing_lane_ends_failover: "fst (failover (throwing_ops eo) bf (throwing_lanes nm) w) = None"
proof -
  have lanes: "bm_policy (throwing_lanes nm) \<noteq> FB_NONE" "bm_active (throwing_lanes nm) = 0" "length (bm_backends (throwing_lanes nm)) = 3"
    by (simp_all add: throwing_lanes_def new_manager_def)
  have hip: "info_at (upd_info 0 f (throwing_lanes nm)) (Suc 0) = demo_lane nm ''hip_gpu'' T2_GPU None" for f
    by (simp add: throwing_lanes_def upd_info_def)
  have create: "create_instance_rt (throwing_ops eo) bf (demo_lane nm ''hip_gpu'' T2_GPU None) w = (Some 7, w)" for w
    by (cases "bf_static_hip bf") (simp_all add: create_instance_rt_def throwing_ops_def demo_lane_def lane_def factories_def
        hip_factories_def dynamic_def linked_if_def)
  have stop: "fst (try_failover (throwing_ops eo) bf (Suc 0) (upd_info 0 f (throwing_lanes nm)) w) = None" for f
    unfolding try_failover_def Let_def hip create by (simp add: demo_lane_def lane_def throwing_ops_def)
  have first: "failed_id (upd_info 0 (\<lambda>b. b\<lparr>bi_functional := False\<rparr>) (throwing_lanes nm)) = ''npu_xrt''"
    "find_entry (\<lambda>b. bi_id b = ''hip_gpu'') (bm_backends (upd_info 0 (\<lambda>b. b\<lparr>bi_functional := False\<rparr>) (throwing_lanes nm))) = Some (Suc 0)"
    by (simp_all add: failed_id_def active_info_def throwing_lanes_def upd_info_def new_manager_def demo_lane_def lane_def)
  obtain m1 w1 where "try_failover (throwing_ops eo) bf (Suc 0) (upd_info 0 (\<lambda>b. b\<lparr>bi_functional := False\<rparr>) (throwing_lanes nm)) w =
      (None, m1, w1)" using stop by (metis prod.collapse)
  then show ?thesis by (simp add: failover_def lanes throwing_order first)
qed

end
