(* ===== verification/Startup.thy ===== *)
theory Startup
  imports BackendManager
begin

text \<open>
  What \<open>init\<close> of \<open>src/backend_manager.cpp\<close> establishes: the outcome of one step of its loop, the invariant of
  the loop, which lane ends up active, and the lanes it never starts.
\<close>

section \<open>One step of the loop\<close>

lemma logged_fields [simp]:
  "bm_backends (logged evs m) = bm_backends m" "bm_active (logged evs m) = bm_active m"
  "bm_router (logged evs m) = bm_router m" "bm_cfg (logged evs m) = bm_cfg m" "bm_skip (logged evs m) = bm_skip m"
  by (simp_all add: logged_def)

lemma start_pilot_fields [simp]:
  "bm_backends (start_pilot i b m) = bm_backends m" "bm_active (start_pilot i b m) = bm_active m"
  "bm_router (start_pilot i b m) = bm_router m" "bm_cfg (start_pilot i b m) = bm_cfg m" "bm_skip (start_pilot i b m) = bm_skip m"
  by (simp_all add: start_pilot_def)

lemma register_lane_fields [simp]:
  "bm_backends (register_lane nm i b m) = bm_backends m" "bm_active (register_lane nm i b m) = bm_active m"
  "bm_cfg (register_lane nm i b m) = bm_cfg m" "bm_skip (register_lane nm i b m) = bm_skip m"
  by (simp_all add: register_lane_def Let_def)

lemma destroy_instance_fields [simp]:
  "bm_active (destroy_instance i m) = bm_active m" "bm_router (destroy_instance i m) = bm_router m"
  "bm_cfg (destroy_instance i m) = bm_cfg m" "bm_skip (destroy_instance i m) = bm_skip m" "lane_ids (destroy_instance i m) = lane_ids m"
  "length (bm_backends (destroy_instance i m)) = length (bm_backends m)"
  "i \<noteq> j \<Longrightarrow> info_at (destroy_instance i m) j = info_at m j"
  by (simp_all add: destroy_instance_def)

text \<open>What one step of the loop does. A lane that is not kept leaves the active lane alone and at most leaves the
  router; when its slot was free, its engine's \<open>reset\<close> may have thrown. A lane that is kept is functional with its
  engine, becomes active and may enter the router.\<close>

definition lane_dropped :: "nat \<Rightarrow> ('w, 'f) init_state \<Rightarrow> ('w, 'f) init_state \<Rightarrow> bool" where
  "lane_dropped idx = (\<lambda>(m, acc, cpu, ok, w) (m', acc', cpu', ok', w').
     (acc \<longrightarrow> acc') \<and> (cpu \<longrightarrow> cpu') \<and> (cpu' \<longrightarrow> cpu \<or> bi_tier (info_at m idx) = T3_CPU) \<and>
     (ok' = ok \<or> ok' = None \<and> (if bi_tier (info_at m idx) = T3_CPU then \<not> cpu else \<not> acc)) \<and> bm_active m' = bm_active m \<and>
     (bm_router m' = bm_router m \<or> bm_router m' = remove_backend (bi_id (info_at m idx)) (bm_router m)))"

definition lane_kept :: "'f nums \<Rightarrow> nat \<Rightarrow> ('w, 'f) init_state \<Rightarrow> ('w, 'f) init_state \<Rightarrow> bool" where
  "lane_kept nm idx = (\<lambda>(m, acc, cpu, ok, w) (m', acc', cpu', ok', w').
     (if bi_tier (info_at m idx) = T3_CPU then \<not> cpu \<and> cpu' \<and> acc' = acc else \<not> acc \<and> acc' \<and> cpu' = cpu) \<and>
     ok' = Some True \<and> bm_active m' = idx \<and> usable (info_at m' idx) \<and>
     (\<exists>b s. bi_instance (info_at m' idx) = Some b \<and>
        (bm_router m' = bm_router m \<and> bi_tier (info_at m idx) \<noteq> T3_CPU \<or>
         bm_router m' = add_backend nm (bi_id (info_at m idx)) (Some b) s (bm_router m))))"

lemma keep_lane_kept:
  assumes "keep_lane eo nm idx b (m, acc, cpu, ok, w) = (m', acc', cpu', ok', w')"
    "idx < length (bm_backends m)" "bi_instance (info_at m idx) = Some b" "bi_available (info_at m idx)"
    "if bi_tier (info_at m idx) = T3_CPU then \<not> cpu else \<not> acc" "eo_can_infer eo b w"
    "fst (eo_reset eo b w) \<noteq> None"
  shows "lane_kept nm idx (m, acc, cpu, ok, w) (m', acc', cpu', ok', w')" "bi_instance (info_at m' idx) = Some b"
    "lane_ids m' = lane_ids m" "j \<noteq> idx \<Longrightarrow> info_at m' j = info_at m j" "bm_cfg m' = bm_cfg m" "bm_skip m' = bm_skip m"
proof -
  let ?info = "info_at m idx"
  define m1 where "m1 = (upd_info idx (\<lambda>i. i\<lparr>bi_functional := True\<rparr>) m)\<lparr>bm_initialized := True, bm_active := idx\<rparr>"
  have c: "(acc \<and> bi_tier ?info \<noteq> T3_CPU \<or> cpu \<and> bi_tier ?info = T3_CPU) = False"
    using assms(5) by (auto split: if_splits)
  have m': "m' = start_pilot idx b (register_lane nm idx b (logged [MonHealthy (bi_id ?info) True] m1))"
    "acc' = (acc \<or> bi_tier ?info \<noteq> T3_CPU)" "cpu' = (cpu \<or> bi_tier ?info = T3_CPU)" "ok' = Some True"
    using assms(1,7) unfolding keep_lane_def Let_def prod.case c if_False
    by (simp_all add: assms(6) m1_def split: prod.splits option.splits)
  have m1: "bm_backends m' = bm_backends m1" "bm_active m' = idx" "bm_cfg m' = bm_cfg m" "bm_skip m' = bm_skip m" "bm_router m1 = bm_router m"
    "info_at m1 idx = ?info\<lparr>bi_functional := True\<rparr>" "lane_ids m1 = lane_ids m"
    "j \<noteq> idx \<Longrightarrow> info_at m1 j = info_at m j"
    using assms(2) by (simp_all add: m'(1)) (simp_all add: m1_def)
  have "bm_router m' = bm_router m \<and> bi_tier ?info \<noteq> T3_CPU \<or>
      bm_router m' = add_backend nm (bi_id ?info) (Some b) (lane_strategy (bi_id ?info)) (bm_router m)"
    using m1(5,6) by (simp add: m'(1) register_lane_def Let_def)
  then show "lane_kept nm idx (m, acc, cpu, ok, w) (m', acc', cpu', ok', w')"
    using m' m1 assms(3-5) by (auto simp: lane_kept_def usable_def split: if_splits)
  show "bi_instance (info_at m' idx) = Some b" "lane_ids m' = lane_ids m" "j \<noteq> idx \<Longrightarrow> info_at m' j = info_at m j"
    "bm_cfg m' = bm_cfg m" "bm_skip m' = bm_skip m" using m1 assms(3) by simp_all
qed

lemma keep_lane_outcome:
  assumes "keep_lane eo nm idx b (m, acc, cpu, ok, w) = (m', acc', cpu', ok', w')"
    "idx < length (bm_backends m)" "bi_instance (info_at m idx) = Some b" "bi_available (info_at m idx)"
  shows "lane_dropped idx (m, acc, cpu, ok, w) (m', acc', cpu', ok', w') \<or>
      lane_kept nm idx (m, acc, cpu, ok, w) (m', acc', cpu', ok', w')"
    and "lane_ids m' = lane_ids m" and "j \<noteq> idx \<Longrightarrow> info_at m' j = info_at m j" and "bm_cfg m' = bm_cfg m" and "bm_skip m' = bm_skip m"
proof -
  let ?info = "info_at m idx"
  define skip where "skip = (acc \<and> bi_tier ?info \<noteq> T3_CPU \<or> cpu \<and> bi_tier ?info = T3_CPU)"
  have "(lane_dropped idx (m, acc, cpu, ok, w) (m', acc', cpu', ok', w') \<or>
      lane_kept nm idx (m, acc, cpu, ok, w) (m', acc', cpu', ok', w')) \<and> lane_ids m' = lane_ids m \<and>
    (j \<noteq> idx \<longrightarrow> info_at m' j = info_at m j) \<and> bm_cfg m' = bm_cfg m \<and> bm_skip m' = bm_skip m"
  proof (cases "skip \<or> \<not> eo_can_infer eo b w \<or> fst (eo_reset eo b w) = None")
    case True
    then show ?thesis
      using assms(1) by (auto simp: skip_def keep_lane_def Let_def lane_dropped_def split: if_splits option.splits prod.splits)
  next
    case False
    have c: "if bi_tier ?info = T3_CPU then \<not> cpu else \<not> acc" "eo_can_infer eo b w"
      "fst (eo_reset eo b w) \<noteq> None" using False by (auto simp: skip_def)
    show ?thesis using keep_lane_kept[OF assms c] by simp
  qed
  then show "lane_dropped idx (m, acc, cpu, ok, w) (m', acc', cpu', ok', w') \<or>
      lane_kept nm idx (m, acc, cpu, ok, w) (m', acc', cpu', ok', w')" "lane_ids m' = lane_ids m"
    "j \<noteq> idx \<Longrightarrow> info_at m' j = info_at m j" "bm_cfg m' = bm_cfg m" "bm_skip m' = bm_skip m" by blast+
qed

lemma try_lane_outcome:
  assumes "try_lane eo nm bf cfg idx (m, acc, cpu, ok, w) = (m', acc', cpu', ok', w')" "idx < length (bm_backends m)"
  shows "lane_dropped idx (m, acc, cpu, ok, w) (m', acc', cpu', ok', w') \<or>
      lane_kept nm idx (m, acc, cpu, ok, w) (m', acc', cpu', ok', w')"
    and "lane_ids m' = lane_ids m" and "j \<noteq> idx \<or> \<not> bi_auto (info_at m j) \<Longrightarrow> info_at m' j = info_at m j"
    and "bm_cfg m' = bm_cfg m" and "bm_skip m' = bm_skip m"
proof -
  let ?info = "info_at m idx"
  have "(lane_dropped idx (m, acc, cpu, ok, w) (m', acc', cpu', ok', w') \<or>
      lane_kept nm idx (m, acc, cpu, ok, w) (m', acc', cpu', ok', w')) \<and> lane_ids m' = lane_ids m \<and>
    (j \<noteq> idx \<or> \<not> bi_auto (info_at m j) \<longrightarrow> info_at m' j = info_at m j) \<and> bm_cfg m' = bm_cfg m \<and> bm_skip m' = bm_skip m"
  proof (cases "ok \<noteq> None \<and> bi_available ?info \<and> bi_auto ?info \<and> bi_id ?info \<notin> set (bm_skip m) \<and> fst (create_instance_rt eo bf ?info w) \<noteq> None")
    case False
    then show ?thesis
      using assms(1) by (auto simp: try_lane_def Let_def lane_dropped_def split: if_splits prod.splits option.splits)
  next
    case True
    then obtain b w1 where c: "create_instance_rt eo bf ?info w = (Some b, w1)"
      by (metis option.exhaust prod.collapse)
    let ?m = "upd_info idx (\<lambda>i. i\<lparr>bi_instance := Some b\<rparr>) m"
    have i: "bi_instance (info_at ?m idx) = Some b" "bi_available (info_at ?m idx)"
      "bi_tier (info_at ?m idx) = bi_tier ?info" "bi_id (info_at ?m idx) = bi_id ?info"
      using assms(2) True by simp_all
    let ?w = "if 0 < bm_retries ?m \<or> 0 < bm_timeout ?m then eo_set_budget eo b (bm_retries ?m) (bm_timeout ?m) w1 else w1"
    obtain out w2 where e: "eo_init eo b cfg (if 0 < bm_timeout ?m then bm_timeout ?m else 120) ?w = (out, w2)"
      by (meson surj_pair)
    have run: "(case (out, w2) of (InitOk, w) \<Rightarrow> keep_lane eo nm idx b (?m, acc, cpu, ok, w)
        | (_, w) \<Rightarrow> (destroy_instance idx ?m, acc, cpu, ok, w)) = (m', acc', cpu', ok', w')"
      using assms(1) True unfolding try_lane_def Let_def by (simp only: c e prod.case option.case simp_thms if_False)
    show ?thesis
    proof (cases "out = InitOk")
      case ok: True
      then have k: "keep_lane eo nm idx b (?m, acc, cpu, ok, w2) = (m', acc', cpu', ok', w')" using run by simp
      note o = keep_lane_outcome[OF k _ i(1,2)]
      have "lane_dropped idx (m, acc, cpu, ok, w) (m', acc', cpu', ok', w') \<or>
          lane_kept nm idx (m, acc, cpu, ok, w) (m', acc', cpu', ok', w')"
        using o(1) assms(2) i by (simp add: lane_dropped_def lane_kept_def)
      then show ?thesis using o(2-5) assms(2) True by auto
    next
      case False
      then have "m' = destroy_instance idx ?m \<and> acc' = acc \<and> cpu' = cpu \<and> ok' = ok"
        using run by (cases out) auto
      then show ?thesis using True by (auto simp: lane_dropped_def)
    qed
  qed
  then show "lane_dropped idx (m, acc, cpu, ok, w) (m', acc', cpu', ok', w') \<or>
      lane_kept nm idx (m, acc, cpu, ok, w) (m', acc', cpu', ok', w')" "lane_ids m' = lane_ids m"
    "j \<noteq> idx \<or> \<not> bi_auto (info_at m j) \<Longrightarrow> info_at m' j = info_at m j" "bm_cfg m' = bm_cfg m" "bm_skip m' = bm_skip m"
    by blast+
qed

section \<open>The invariant of the loop\<close>

definition serves :: "'f manager \<Rightarrow> nat \<Rightarrow> 'f backend_entry \<Rightarrow> bool" where
  "serves m i e \<longleftrightarrow> i < length (bm_backends m) \<and> en_id e = bi_id (info_at m i) \<and> usable (info_at m i) \<and>
     en_backend e \<noteq> None \<and> bi_instance (info_at m i) = en_backend e"

definition startup_inv :: "nat set \<Rightarrow> ('w, 'f) init_state \<Rightarrow> bool" where
  "startup_inv done = (\<lambda>(m, acc, cpu, ok, w).
     distinct (lane_ids m) \<and> (\<forall>e \<in> set (rt_entries (bm_router m)). \<exists>i \<in> done. serves m i e) \<and>
     length (rt_entries (bm_router m)) \<le> of_bool acc + of_bool cpu \<and>
     (ok = Some True \<longrightarrow> bm_active m \<in> done \<and> active_ready m))"

lemma serves_frame:
  "serves m i e \<Longrightarrow> info_at m' i = info_at m i \<Longrightarrow> lane_ids m' = lane_ids m \<Longrightarrow> serves m' i e"
  using map_eq_imp_length_eq[of bi_id "bm_backends m'" bi_id "bm_backends m"] by (simp add: serves_def)

lemma try_lane_inv:
  assumes "startup_inv done (m, acc, cpu, ok, w)" "idx < length (bm_backends m)" "idx \<notin> done"
    "try_lane eo nm bf cfg idx (m, acc, cpu, ok, w) = (m', acc', cpu', ok', w')"
  shows "startup_inv (insert idx done) (m', acc', cpu', ok', w')"
proof -
  note o = try_lane_outcome[OF assms(4,2)]
  have len: "length (bm_backends m') = length (bm_backends m)" using o(2) by (metis length_map)
  have keep: "info_at m' i = info_at m i" if "i \<in> done" for i
    using that assms(3) o(3)[of i] by blast
  have old: "serves m' i e" if "i \<in> done" "serves m i e" for i e
    using that keep[OF that(1)] o(2) by (intro serves_frame[of m i e m']) auto
  have ids: "\<forall>e \<in> set (rt_entries (bm_router m)). en_id e \<noteq> bi_id (info_at m idx)"
    using assms(1-3) same_id_same_lane[of m idx] by (fastforce simp: startup_inv_def serves_def)
  have nf: "find_entry (has_id (bi_id (info_at m idx))) (rt_entries (bm_router m)) = None"
    using ids by (simp add: find_entry_None_iff has_id_def)
  from o(1) show ?thesis
  proof
    assume d: "lane_dropped idx (m, acc, cpu, ok, w) (m', acc', cpu', ok', w')"
    then have es: "rt_entries (bm_router m') = rt_entries (bm_router m)"
      using ids by (auto simp: lane_dropped_def remove_backend_def intro!: filter_True)
    have "ok' = Some True \<longrightarrow> active_ready m'"
      using assms(1) d keep[of "bm_active m"] len
      by (auto simp: lane_dropped_def startup_inv_def active_ready_def active_usable_def active_backend_def)
    moreover have "\<forall>e \<in> set (rt_entries (bm_router m')). \<exists>i \<in> insert idx done. serves m' i e"
      using assms(1) old es unfolding startup_inv_def prod.case by (metis insert_iff)
    moreover have "length (rt_entries (bm_router m')) \<le> of_bool acc' + of_bool cpu'"
    proof -
      have "length (rt_entries (bm_router m)) \<le> of_bool acc + of_bool cpu" "acc \<longrightarrow> acc'" "cpu \<longrightarrow> cpu'"
        using assms(1) d by (simp_all add: startup_inv_def lane_dropped_def)
      then show ?thesis unfolding es by (cases acc; cases cpu; cases acc'; cases cpu') simp_all
    qed
    moreover have "ok' = Some True \<longrightarrow> ok = Some True" using d by (auto simp: lane_dropped_def)
    ultimately show ?thesis
      using assms(1) d o(2) by (simp add: startup_inv_def lane_dropped_def)
  next
    assume k: "lane_kept nm idx (m, acc, cpu, ok, w) (m', acc', cpu', ok', w')"
    then obtain b s where b: "bi_instance (info_at m' idx) = Some b"
      "bm_router m' = bm_router m \<or> bm_router m' = add_backend nm (bi_id (info_at m idx)) (Some b) s (bm_router m)"
      by (auto simp: lane_kept_def)
    have same: "bi_id (info_at m' idx) = bi_id (info_at m idx)" using o(2) assms(2) len by (metis nth_map)
    let ?new = "\<lparr>en_id = bi_id (info_at m idx), en_backend = Some b, en_stats = new_stats nm (bi_id (info_at m idx)), en_recent = []\<rparr>"
    have es: "rt_entries (bm_router m') = rt_entries (bm_router m) \<or>
        rt_entries (bm_router m') = rt_entries (bm_router m) @ [?new]"
      using b(2) nf by (auto simp: add_backend_def Let_def)
    have new: "serves m' idx ?new"
      using k b(1) same len assms(2) by (simp add: serves_def lane_kept_def)
    have inv: "\<forall>e \<in> set (rt_entries (bm_router m)). \<exists>i \<in> done. serves m i e"
      "length (rt_entries (bm_router m)) \<le> of_bool acc + of_bool cpu" "distinct (lane_ids m)"
      using assms(1) by (simp_all add: startup_inv_def)
    have "\<forall>e \<in> set (rt_entries (bm_router m')). \<exists>i \<in> insert idx done. serves m' i e"
    proof
      fix e assume "e \<in> set (rt_entries (bm_router m'))"
      then have "e \<in> set (rt_entries (bm_router m)) \<or> e = ?new" using es by auto
      then show "\<exists>i \<in> insert idx done. serves m' i e" using inv(1) old new by blast
    qed
    moreover have "of_bool acc' + of_bool cpu' = Suc (of_bool acc + of_bool cpu)"
      using k by (auto simp: lane_kept_def split: if_splits)
    with es inv(2) have "length (rt_entries (bm_router m')) \<le> of_bool acc' + of_bool cpu'" by auto
    moreover have "active_ready m'" "bm_active m' = idx"
      using k b(1) assms(2) len by (simp_all add: lane_kept_def active_ready_def active_usable_def active_backend_def)
    ultimately show ?thesis using inv(3) o(2) by (simp add: startup_inv_def)
  qed
qed

lemma startup_run:
  "startup_inv done (m, acc, cpu, ok, w) \<Longrightarrow> distinct order \<Longrightarrow> set order \<subseteq> {..<length (bm_backends m)} - done \<Longrightarrow>
   fold (try_lane eo nm bf cfg) order (m, acc, cpu, ok, w) = (m', acc', cpu', ok', w') \<Longrightarrow>
   startup_inv (done \<union> set order) (m', acc', cpu', ok', w') \<and> lane_ids m' = lane_ids m \<and> bm_cfg m' = bm_cfg m \<and>
   (\<forall>i. i \<notin> set order \<or> \<not> bi_auto (info_at m i) \<longrightarrow> info_at m' i = info_at m i)"
proof (induction order arbitrary: "done" m acc cpu ok w)
  case (Cons idx order)
  obtain m1 acc1 cpu1 ok1 w1 where s: "try_lane eo nm bf cfg idx (m, acc, cpu, ok, w) = (m1, acc1, cpu1, ok1, w1)"
    by (metis prod_cases5)
  have idx: "idx < length (bm_backends m)" "idx \<notin> done" using Cons.prems(3) by auto
  note o = try_lane_outcome[OF s idx(1)]
  have len: "length (bm_backends m1) = length (bm_backends m)" using o(2) by (metis length_map)
  have "startup_inv (insert idx done) (m1, acc1, cpu1, ok1, w1)" by (rule try_lane_inv[OF Cons.prems(1) idx s])
  then have "startup_inv (insert idx done \<union> set order) (m', acc', cpu', ok', w') \<and> lane_ids m' = lane_ids m1 \<and>
      bm_cfg m' = bm_cfg m1 \<and> (\<forall>i. i \<notin> set order \<or> \<not> bi_auto (info_at m1 i) \<longrightarrow> info_at m' i = info_at m1 i)"
    using Cons.IH[of "insert idx done" m1 acc1 cpu1 ok1 w1] Cons.prems(2-4) s len by auto
  then have r: "startup_inv (insert idx done \<union> set order) (m', acc', cpu', ok', w')" "lane_ids m' = lane_ids m1"
    "bm_cfg m' = bm_cfg m1" "\<And>i. i \<notin> set order \<or> \<not> bi_auto (info_at m1 i) \<Longrightarrow> info_at m' i = info_at m1 i"
    by blast+
  have "info_at m' i = info_at m i" if "i \<notin> set (idx # order) \<or> \<not> bi_auto (info_at m i)" for i
  proof -
    have "info_at m1 i = info_at m i" using o(3)[of i] that by auto
    then show ?thesis using r(4)[of i] that by auto
  qed
  moreover have "insert idx done \<union> set order = done \<union> set (idx # order)" by auto
  ultimately show ?case using r(1-3) o(2,4) by simp
qed simp

lemma init_in_order_run:
  assumes "init_in_order eo nm bf cfg order m w = (ok, m', w')" "distinct (lane_ids m)"
    "distinct order" "set order \<subseteq> {..<length (bm_backends m)}"
  shows "\<exists>acc cpu. startup_inv (set order) (m', acc, cpu, ok, w')" "lane_ids m' = lane_ids m"
    "\<not> bi_auto (info_at m i) \<Longrightarrow> info_at m' i = info_at m i" "ok = Some True \<Longrightarrow> bm_initialized m'"
proof -
  define mp where "mp = (if bm_pilot m then logged [PilotStop] (m\<lparr>bm_pilot := False\<rparr>) else m)"
  define m0 where "m0 = mp\<lparr>bm_router := clear (bm_router mp)\<rparr>"
  have m0: "bm_backends m0 = bm_backends m" "rt_entries (bm_router m0) = []"
    by (simp_all add: m0_def mp_def clear_def)
  obtain m1 acc cpu ok1 w1 where f: "fold (try_lane eo nm bf cfg) order (m0, False, False, Some False, w) = (m1, acc, cpu, ok1, w1)"
    by (metis prod_cases5)
  have out: "ok = ok1" "m' = (if ok = Some True then m1\<lparr>bm_initialized := True\<rparr> else m1)" "w' = w1"
    using assms(1) unfolding init_in_order_def Let_def mp_def[symmetric] m0_def[symmetric] f by auto
  have "startup_inv {} (m0, False, False, Some False, w)" using assms(2) m0 by (simp add: startup_inv_def)
  from startup_run[OF this assms(3) _ f] assms(4) m0
  have r: "startup_inv (set order) (m1, acc, cpu, ok1, w1)" "lane_ids m1 = lane_ids m"
    "\<And>i. \<not> bi_auto (info_at m i) \<Longrightarrow> info_at m1 i = info_at m i" by simp_all
  have "startup_inv (set order) (m', acc, cpu, ok, w')"
    using r(1) out by (auto simp: startup_inv_def serves_def active_ready_def active_usable_def active_backend_def)
  then show "\<exists>acc cpu. startup_inv (set order) (m', acc, cpu, ok, w')" by blast
  show "lane_ids m' = lane_ids m" "\<not> bi_auto (info_at m i) \<Longrightarrow> info_at m' i = info_at m i" "ok = Some True \<Longrightarrow> bm_initialized m'"
    using r(2,3) out(2) by simp_all
qed

lemma init_run:
  assumes "init eo nm bf is_file cfg preferred m w = (ok, m', w')" "distinct (lane_ids m)" "bm_backends m \<noteq> []"
  shows "\<exists>acc cpu. startup_inv {..<length (bm_backends m)} (m', acc, cpu, ok, w')" "lane_ids m' = lane_ids m"
    "\<not> bi_auto (info_at m i) \<Longrightarrow> info_at m' i = info_at m i" "ok = Some True \<Longrightarrow> bm_initialized m'"
proof -
  obtain m0 where m0: "init_in_order eo nm bf cfg (lane_order (bm_backends m0) preferred) m0 w = (ok, m', w')"
    "bm_backends m0 = bm_backends m"
    using assms(1,3) by (auto simp: init_def Let_def split: if_splits)
  have "distinct (lane_ids m0)" "set (lane_order (bm_backends m0) preferred) \<subseteq> {..<length (bm_backends m0)}"
    using assms(2) m0(2) by (simp_all add: lane_order_set)
  note r = init_in_order_run[OF m0(1) this(1) lane_order_distinct this(2)]
  show "\<exists>acc cpu. startup_inv {..<length (bm_backends m)} (m', acc, cpu, ok, w')" "lane_ids m' = lane_ids m"
    "\<not> bi_auto (info_at m i) \<Longrightarrow> info_at m' i = info_at m i" "ok = Some True \<Longrightarrow> bm_initialized m'"
    using r m0(2) by (simp_all add: lane_order_set)
qed

text \<open>C11. What \<open>init\<close> leaves behind, also when an exception leaves it, for lanes with distinct ids: at most two backends serve tokens in the per-token
  router, each of them the engine of an available, functional lane under the lane's id; and when \<open>init\<close>
  reports success the active lane has a working engine. The lanes keep their ids and their order.\<close>

theorem init_sound:
  assumes "distinct (lane_ids m)" "bm_backends m \<noteq> []" "init eo nm bf is_file cfg preferred m w = (ok, m', w')"
  shows "length (rt_entries (bm_router m')) \<le> 2 \<and> lane_ids m' = lane_ids m \<and>
    (\<forall>e \<in> set (rt_entries (bm_router m')). \<exists>i. serves m' i e) \<and> (ok = Some True \<longrightarrow> active_ready m' \<and> bm_initialized m')"
proof -
  note r = init_run[OF assms(3,1,2)]
  obtain acc cpu where i: "startup_inv {..<length (bm_backends m)} (m', acc, cpu, ok, w')" using r(1) by blast
  have "of_bool acc + of_bool cpu \<le> (2::nat)" by simp
  with i r(2,4) show ?thesis unfolding startup_inv_def prod.case by (meson order.trans)
qed


section \<open>Which lane is active\<close>

text \<open>A lane whose engine \<open>b\<close> always comes up.\<close>

definition lane_boots :: "('w, 'f) engine_ops \<Rightarrow> build_flags \<Rightarrow> model_config \<Rightarrow> nat \<Rightarrow> 'f backend_info \<Rightarrow> bool" where
  "lane_boots eo bf cfg b info \<longleftrightarrow> bi_available info \<and> bi_auto info \<and>
     (\<forall>w. fst (create_instance_rt eo bf info w) = Some b) \<and> (\<forall>cap w. fst (eo_init eo b cfg cap w) = InitOk) \<and>
     (\<forall>w. eo_can_infer eo b w) \<and> (\<forall>w. fst (eo_reset eo b w) \<noteq> None)"

lemma try_lane_boots:
  assumes "lane_boots eo bf cfg b (info_at m idx)" "bi_id (info_at m idx) \<notin> set (bm_skip m)" "idx < length (bm_backends m)"
    "if bi_tier (info_at m idx) = T3_CPU then \<not> cpu else \<not> acc" "ok \<noteq> None"
    "try_lane eo nm bf cfg idx (m, acc, cpu, ok, w) = (m', acc', cpu', ok', w')"
  shows "lane_kept nm idx (m, acc, cpu, ok, w) (m', acc', cpu', ok', w')" "bi_instance (info_at m' idx) = Some b"
proof -
  let ?m = "upd_info idx (\<lambda>i. i\<lparr>bi_instance := Some b\<rparr>) m"
  obtain w1 where c: "create_instance_rt eo bf (info_at m idx) w = (Some b, w1)"
    using assms(1) by (metis lane_boots_def prod.collapse)
  let ?w = "if 0 < bm_retries ?m \<or> 0 < bm_timeout ?m then eo_set_budget eo b (bm_retries ?m) (bm_timeout ?m) w1 else w1"
  obtain w2 where e: "eo_init eo b cfg (if 0 < bm_timeout ?m then bm_timeout ?m else 120) ?w = (InitOk, w2)"
    using assms(1) by (metis lane_boots_def prod.collapse)
  have "bi_available (info_at m idx)" "bi_auto (info_at m idx)" "eo_can_infer eo b w2" "fst (eo_reset eo b w2) \<noteq> None"
    using assms(1) by (simp_all add: lane_boots_def)
  then have k: "keep_lane eo nm idx b (?m, acc, cpu, ok, w2) = (m', acc', cpu', ok', w')"
    using assms(2,5,6) unfolding try_lane_def Let_def
    by (simp only: c e prod.case option.case init_outcome.case simp_thms if_False)
  have i: "info_at ?m idx = (info_at m idx)\<lparr>bi_instance := Some b\<rparr>" using assms(3) by simp
  have slot: "if bi_tier (info_at ?m idx) = T3_CPU then \<not> cpu else \<not> acc" "bi_instance (info_at ?m idx) = Some b"
    "bi_available (info_at ?m idx)" "idx < length (bm_backends ?m)"
    using i assms(3,4) \<open>bi_available _\<close> by simp_all
  note r = keep_lane_kept[OF k slot(4,2,3,1) \<open>eo_can_infer _ _ _\<close> \<open>fst _ \<noteq> None\<close>]
  show "lane_kept nm idx (m, acc, cpu, ok, w) (m', acc', cpu', ok', w')" "bi_instance (info_at m' idx) = Some b"
    using r(1,2) i by (simp_all add: lane_kept_def)
qed


text \<open>Lanes that can only be dropped leave the active lane and the entries of the others alone.\<close>

lemma idle_run:
  "fold (try_lane eo nm bf cfg) order (m, True, cpu, ok, w) = (m', acc', cpu', ok', w') \<Longrightarrow> distinct order \<Longrightarrow>
   set order \<subseteq> {..<length (bm_backends m)} \<Longrightarrow> distinct (lane_ids m) \<Longrightarrow>
   cpu \<or> (\<forall>i \<in> set order. bi_tier (info_at m i) \<noteq> T3_CPU) \<Longrightarrow> c < length (bm_backends m) \<Longrightarrow> c \<notin> set order \<Longrightarrow>
   acc' \<and> cpu' = cpu \<and> ok' = ok \<and> bm_active m' = bm_active m \<and> info_at m' c = info_at m c \<and>
   lane_ids m' = lane_ids m \<and> bm_skip m' = bm_skip m \<and>
   (\<forall>e \<in> set (rt_entries (bm_router m)). en_id e = bi_id (info_at m c) \<longrightarrow> e \<in> set (rt_entries (bm_router m')))"
proof (induction order arbitrary: m cpu ok w)
  case (Cons idx order)
  obtain m1 acc1 cpu1 ok1 w1 where s: "try_lane eo nm bf cfg idx (m, True, cpu, ok, w) = (m1, acc1, cpu1, ok1, w1)"
    by (metis prod_cases5)
  have idx: "idx < length (bm_backends m)" "idx \<noteq> c" using Cons.prems(3,7) by auto
  note o = try_lane_outcome[OF s idx(1)]
  have len: "length (bm_backends m1) = length (bm_backends m)" using o(2) by (metis length_map)
  have d: "lane_dropped idx (m, True, cpu, ok, w) (m1, acc1, cpu1, ok1, w1)"
    using o(1) Cons.prems(5) by (auto simp: lane_kept_def split: if_splits)
  moreover have "\<not> (if bi_tier (info_at m idx) = T3_CPU then \<not> cpu else \<not> True)" using Cons.prems(5) by auto
  ultimately have d1: "acc1" "cpu1 = cpu" "ok1 = ok" "bm_active m1 = bm_active m" 
    "bm_router m1 = bm_router m \<or> bm_router m1 = remove_backend (bi_id (info_at m idx)) (bm_router m)"
    using Cons.prems(5) by (auto simp: lane_dropped_def)
  have other: "bi_id (info_at m c) \<noteq> bi_id (info_at m idx)"
    using same_id_same_lane[OF Cons.prems(4,6) idx(1)] idx(2) by auto
  have frame: "info_at m1 j = info_at m j" if "j \<noteq> idx" for j using o(3)[of j] that by simp
  have rest: "\<forall>i \<in> set order. info_at m1 i = info_at m i" "info_at m1 c = info_at m c"
    using frame idx(2) Cons.prems(2) by (metis distinct.simps(2), metis)
  have f: "fold (try_lane eo nm bf cfg) order (m1, True, cpu, ok, w1) = (m', acc', cpu', ok', w')"
    using Cons.prems(1) s d1 by simp
  have "acc' \<and> cpu' = cpu \<and> ok' = ok \<and> bm_active m' = bm_active m1 \<and> info_at m' c = info_at m1 c \<and>
   lane_ids m' = lane_ids m1 \<and> bm_skip m' = bm_skip m1 \<and>
   (\<forall>e \<in> set (rt_entries (bm_router m1)). en_id e = bi_id (info_at m1 c) \<longrightarrow> e \<in> set (rt_entries (bm_router m')))"
    using Cons.prems(2-7) len o(2) rest by (intro Cons.IH[OF f]) auto
  moreover have "\<forall>e \<in> set (rt_entries (bm_router m)). en_id e = bi_id (info_at m c) \<longrightarrow> e \<in> set (rt_entries (bm_router m1))"
    using d1(5) other by (auto simp: remove_backend_def)
  ultimately show ?case using d1(4) rest(2) o(2,5) by simp
qed simp

lemma add_backend_member: "\<exists>e \<in> set (rt_entries (add_backend nm bid b s rt)). en_id e = bid"
proof (cases "find_entry (has_id bid) (rt_entries rt)")
  case (Some i)
  from find_entry_SomeD[OF this] have i: "i < length (rt_entries rt)" "en_id (rt_entries rt ! i) = bid"
    by (simp_all add: has_id_def)
  let ?e = "(rt_entries rt ! i)\<lparr>en_backend := b, en_stats := new_stats nm []\<rparr>"
  have "?e \<in> set ((rt_entries rt)[i := ?e])" by (rule set_update_memI[OF i(1)])
  moreover have "en_id ?e = bid" using i(2) by simp
  ultimately show ?thesis unfolding add_backend_def Let_def Some option.case by (intro bexI[of _ ?e]) simp_all
qed (simp add: add_backend_def)

lemma cpu_lane_wins:
  assumes "fold (try_lane eo nm bf cfg) (a # xs @ c # ys) (m, False, False, Some False, w) = (m', acc', cpu', ok', w')"
    "distinct (a # xs @ c # ys)" "set (a # xs @ c # ys) \<subseteq> {..<length (bm_backends m)}" "distinct (lane_ids m)"
    "bi_tier (info_at m a) \<noteq> T3_CPU" "lane_boots eo bf cfg ba (info_at m a)" "bi_id (info_at m a) \<notin> set (bm_skip m)"
    "bi_tier (info_at m c) = T3_CPU" "lane_boots eo bf cfg bc (info_at m c)" "bi_id (info_at m c) \<notin> set (bm_skip m)"
    "\<forall>i \<in> set xs. bi_tier (info_at m i) \<noteq> T3_CPU"
  shows "ok' = Some True \<and> bm_active m' = c \<and> bi_instance (info_at m' c) = Some bc \<and> usable (info_at m' c) \<and>
    rt_entries (bm_router m') \<noteq> [] \<and> lane_ids m' = lane_ids m"
proof -
  obtain m1 acc1 cpu1 ok1 w1 where s1: "try_lane eo nm bf cfg a (m, False, False, Some False, w) = (m1, acc1, cpu1, ok1, w1)"
    by (metis prod_cases5)
  obtain m2 acc2 cpu2 ok2 w2 where s2: "fold (try_lane eo nm bf cfg) xs (m1, acc1, cpu1, ok1, w1) = (m2, acc2, cpu2, ok2, w2)"
    by (metis prod_cases5)
  obtain m3 acc3 cpu3 ok3 w3 where s3: "try_lane eo nm bf cfg c (m2, acc2, cpu2, ok2, w2) = (m3, acc3, cpu3, ok3, w3)"
    by (metis prod_cases5)
  have s4: "fold (try_lane eo nm bf cfg) ys (m3, acc3, cpu3, ok3, w3) = (m', acc', cpu', ok', w')"
    using assms(1) s1 s2 s3 by simp
  have a: "a < length (bm_backends m)" "a \<noteq> c" and c: "c < length (bm_backends m)" "c \<notin> set xs" "c \<notin> set ys"
    using assms(2,3) by auto
  note o1 = try_lane_outcome[OF s1 a(1)]
  have k1: "acc1" "\<not> cpu1" "ok1 = Some True"
    using try_lane_boots(1)[OF assms(6,7) a(1) _ _ s1] assms(5) by (simp_all add: lane_kept_def)
  have len1: "length (bm_backends m1) = length (bm_backends m)" using o1(2) by (metis length_map)
  have frame: "info_at m1 j = info_at m j" if "j \<noteq> a" for j using o1(3)[of j] that by simp
  have frame1: "\<forall>i \<in> set xs. info_at m1 i = info_at m i" "info_at m1 c = info_at m c" using frame a(2) assms(2) by (simp_all, metis)
  have i2: "acc2 \<and> \<not> cpu2 \<and> ok2 = Some True \<and> info_at m2 c = info_at m c \<and> lane_ids m2 = lane_ids m \<and> bm_skip m2 = bm_skip m"
    using idle_run[of eo nm bf cfg xs m1 cpu1 ok1 w1 m2 acc2 cpu2 ok2 w2 c] s2 k1 assms(2-4,11) len1 o1(2,5) frame1 c
    by simp
  have len2: "length (bm_backends m2) = length (bm_backends m)" using i2 by (metis length_map)
  note o3 = try_lane_outcome[OF s3, unfolded len2, OF c(1)]
  have k3: "lane_kept nm c (m2, acc2, cpu2, ok2, w2) (m3, acc3, cpu3, ok3, w3)" "bi_instance (info_at m3 c) = Some bc"
    using try_lane_boots[of eo bf cfg bc m2 c cpu2 acc2 ok2 nm w2 m3 acc3 cpu3 ok3 w3] i2 assms(8-10) c(1) len2 s3
    by simp_all
  have len3: "length (bm_backends m3) = length (bm_backends m)" using o3(2) i2 by (metis length_map)
  have id3: "bi_id (info_at m3 c) = bi_id (info_at m c)" using o3(2) i2 c(1) len3 by (metis nth_map)
  have r3: "acc3" "cpu3" "ok3 = Some True" "bm_active m3 = c" "usable (info_at m3 c)"
    using k3(1) i2 assms(8) by (simp_all add: lane_kept_def)
  obtain s where "bm_router m3 = add_backend nm (bi_id (info_at m c)) (Some bc) s (bm_router m2)"
    using k3 i2 assms(8) by (auto simp: lane_kept_def)
  then have e3: "\<exists>e \<in> set (rt_entries (bm_router m3)). en_id e = bi_id (info_at m3 c)"
    using add_backend_member id3 by metis
  show ?thesis
    using idle_run[of eo nm bf cfg ys m3 cpu3 ok3 w3 m' acc' cpu' ok' w' c] s4 r3 e3 assms(2-4) len3 o3(2) i2 c(1,3) k3(2)
    by auto
qed


lemma init_cpu_lane:
  assumes "distinct (lane_ids m)" "lane_order (bm_backends m) preferred = a # xs @ c # ys"
    "bi_tier (info_at m a) \<noteq> T3_CPU" "lane_boots eo bf cfg ba (info_at m a)" "bi_id (info_at m a) \<notin> set (bm_skip m)"
    "bi_tier (info_at m c) = T3_CPU" "lane_boots eo bf cfg bc (info_at m c)" "bi_id (info_at m c) \<notin> set (bm_skip m)"
    "\<forall>i \<in> set xs. bi_tier (info_at m i) \<noteq> T3_CPU" "init eo nm bf is_file cfg preferred m w = (ok, m', w')"
  shows "ok = Some True \<and> bm_active m' = c \<and> active_backend m' = Some bc \<and> rt_entries (bm_router m') \<noteq> [] \<and>
    bm_initialized m' \<and> bm_backends m' \<noteq> []"
proof -
  have "a \<in> {..<length (bm_backends m)}"
    unfolding lane_order_set[of "bm_backends m" preferred, symmetric] assms(2) by simp
  then have ne: "bm_backends m \<noteq> []" by auto
  obtain m0 where m0: "init_in_order eo nm bf cfg (a # xs @ c # ys) m0 w = (ok, m', w')"
    "bm_backends m0 = bm_backends m" "bm_skip m0 = bm_skip m"
    using assms(2,10) ne by (auto simp: init_def Let_def split: if_splits)
  define mp where "mp = (if bm_pilot m0 then logged [PilotStop] (m0\<lparr>bm_pilot := False\<rparr>) else m0)"
  define m1 where "m1 = mp\<lparr>bm_router := clear (bm_router mp)\<rparr>"
  have m1: "bm_backends m1 = bm_backends m" "bm_skip m1 = bm_skip m" using m0(2,3) by (simp_all add: m1_def mp_def)
  obtain m2 acc cpu ok2 w2 where f: "fold (try_lane eo nm bf cfg) (a # xs @ c # ys) (m1, False, False, Some False, w) = (m2, acc, cpu, ok2, w2)"
    by (metis prod_cases5)
  have out: "ok = ok2" "m' = (if ok = Some True then m2\<lparr>bm_initialized := True\<rparr> else m2)"
    using m0(1) unfolding init_in_order_def Let_def mp_def[symmetric] m1_def[symmetric] f by auto
  have order: "distinct (a # xs @ c # ys)" "set (a # xs @ c # ys) \<subseteq> {..<length (bm_backends m1)}"
    using lane_order_distinct[of "bm_backends m" preferred] lane_order_set[of "bm_backends m" preferred] assms(2) m1(1) by simp_all
  have win: "ok2 = Some True \<and> bm_active m2 = c \<and> bi_instance (info_at m2 c) = Some bc \<and> usable (info_at m2 c) \<and>
    rt_entries (bm_router m2) \<noteq> [] \<and> lane_ids m2 = lane_ids m1"
    using cpu_lane_wins[OF f order, of ba bc] assms(1,3-9) m1 by simp
  have len: "c < length (bm_backends m2)" using win order(2) map_eq_imp_length_eq[of bi_id "bm_backends m2" bi_id "bm_backends m1"] by simp
  have "bm_backends m' = bm_backends m2" "bm_active m' = c" "bm_router m' = bm_router m2" "bm_initialized m'" "ok = Some True"
    using out win by simp_all
  moreover from this have "active_backend m' = Some bc" "bm_backends m' \<noteq> []"
    using win len by (auto simp: active_backend_def)
  ultimately show ?thesis using win by simp
qed

text \<open>Every engine of the demo works and gets its lane's id as an address.\<close>

definition boot_ops :: "('w, 'f) engine_ops \<Rightarrow> ('w, 'f) engine_ops" where
  "boot_ops eo = eo\<lparr>eo_create := \<lambda>loc symb w. (Some (if symb = ''create_cpu_backend'' then 1 else 0), w),
     eo_init := \<lambda>b cfg cap w. (InitOk, w), eo_can_infer := \<lambda>b w. True, eo_reset := \<lambda>b w. (Some True, w)\<rparr>"

definition demo_lanes :: "'f nums \<Rightarrow> 'f manager" where
  "demo_lanes nm = new_manager\<lparr>bm_backends := [demo_lane nm ''hip_gpu'' T2_GPU None, demo_lane nm ''cpu_scalar'' T3_CPU None]\<rparr>"

lemma demo_lanes_simps:
  "lane_ids (demo_lanes nm) = [''hip_gpu'', ''cpu_scalar'']" "bm_skip (demo_lanes nm) = []"
  "bm_backends (demo_lanes nm) \<noteq> []" "length (bm_backends (demo_lanes nm)) = 2"
  "lane_order (bm_backends (demo_lanes nm)) [] = [0, 1]"
  "bi_tier (info_at (demo_lanes nm) 0) = T2_GPU" "bi_tier (info_at (demo_lanes nm) 1) = T3_CPU"
  by (simp_all add: demo_lanes_def new_manager_def demo_lane_def lane_def lane_order_def upt_rec)

lemma demo_lanes_boot:
  "lane_boots (boot_ops eo) bf cfg 0 (info_at (demo_lanes nm) 0)"
  "lane_boots (boot_ops eo) bf cfg 1 (info_at (demo_lanes nm) 1)"
  by (cases "bf_static_hip bf";
      simp add: lane_boots_def boot_ops_def demo_lanes_def demo_lane_def new_manager_def lane_def create_instance_rt_def
        factories_def hip_factories_def dynamic_def linked_if_def)+

lemma demo_lanes_init:
  assumes "lane_order (bm_backends (demo_lanes nm)) preferred = [0, 1]"
  shows "fst (init (boot_ops eo) nm bf is_file cfg preferred (demo_lanes nm) w) = Some True"
proof -
  obtain ok m' w' where run: "init (boot_ops eo) nm bf is_file cfg preferred (demo_lanes nm) w = (ok, m', w')" by (metis prod_cases3)
  then show ?thesis
    using init_cpu_lane[of "demo_lanes nm" preferred 0 "[]" 1 "[]" "boot_ops eo" bf cfg 0 1 nm is_file w ok m' w'] assms
    by (simp add: demo_lanes_simps demo_lanes_simps[unfolded One_nat_def] demo_lanes_boot demo_lanes_boot[unfolded One_nat_def])
qed

theorem init_sound_witness:
  "\<forall>(eo :: ('w, 'f) engine_ops) (nm :: 'f nums) bf w.
     length (rt_entries (bm_router (fst (snd (init eo nm bf (\<lambda>_. True) default_config [] (demo_lanes nm) w))))) \<le> 2"
proof (intro allI)
  fix eo :: "('w, 'f) engine_ops" and nm :: "'f nums" and bf w
  obtain ok m' w' where "init eo nm bf (\<lambda>_. True) default_config [] (demo_lanes nm) w = (ok, m', w')"
    by (metis prod_cases3)
  then show "length (rt_entries (bm_router (fst (snd (init eo nm bf (\<lambda>_. True) default_config [] (demo_lanes nm) w))))) \<le> 2"
    using init_sound[of "demo_lanes nm" eo nm bf "\<lambda>_. True" default_config "[]" w ok m' w']
    by (simp add: demo_lanes_simps)
qed

section \<open>Lanes that start-up leaves out\<close>

lemma registered_ids:
  "distinct (map bi_id (registered nm bf hw))" "registered nm bf hw \<noteq> []"
  by (simp_all add: registered_def accelerator_lanes_def gpu_lanes_def cpu_lanes_def frontier_lanes_def
      subprocess_lanes_def lane_def)

lemma registered_frontier:
  "\<forall>b \<in> set (registered nm bf hw). \<not> bi_functional b \<and>
     (bi_id b \<in> {''cpu_deepseek_v4'', ''cpu_glm_moe_dsa'', ''cpu_mimo_v2'', ''cpu_qwen3_5''} \<longrightarrow> \<not> bi_auto b)"
  by (simp add: registered_def accelerator_lanes_def gpu_lanes_def cpu_lanes_def frontier_lanes_def
      subprocess_lanes_def lane_def)

lemma discover_lanes:
  "mset (bm_backends (discover nm bf hw m)) = mset (registered nm bf hw)"
  by (simp add: discover_def Let_def rank_backends_mset)

lemma discover_wf: "distinct (lane_ids (discover nm bf hw m))" "bm_backends (discover nm bf hw m) \<noteq> []"
proof -
  have "mset (lane_ids (discover nm bf hw m)) = mset (map bi_id (registered nm bf hw))"
    using discover_lanes[of nm bf hw m] by simp
  then show "distinct (lane_ids (discover nm bf hw m))" using registered_ids(1) mset_eq_imp_distinct_iff by blast
  show "bm_backends (discover nm bf hw m) \<noteq> []" using discover_lanes[of nm bf hw m] registered_ids(2) by (metis mset_zero_iff)
qed

text \<open>The dedicated engines are never started: whatever the model, the hardware and the preferred ids, after
  \<open>discover\<close> and \<open>init\<close> none of the four frontier lanes can be selected, although the model router names
  them first for their models, and \<open>init\<close> has left them as \<open>discover\<close> registered them.\<close>

lemma frontier_lanes_never_start:
  "list_all (\<lambda>bid. \<not> fst (select_backend bid (fst (snd
       (init eo nm bf is_file cfg preferred (discover nm bf hw m) w)))))
     [''cpu_deepseek_v4'', ''cpu_glm_moe_dsa'', ''cpu_mimo_v2'', ''cpu_qwen3_5'']"
proof -
  obtain ok m' w' where run: "init eo nm bf is_file cfg preferred (discover nm bf hw m) w = (ok, m', w')"
    by (metis prod_cases3)
  note r = init_run[OF run discover_wf]
  let ?d = "discover nm bf hw m"
  have "\<not> bi_functional b" if b: "b \<in> set (bm_backends m')"
    "bi_id b \<in> {''cpu_deepseek_v4'', ''cpu_glm_moe_dsa'', ''cpu_mimo_v2'', ''cpu_qwen3_5''}" for b
  proof -
    obtain i where i: "i < length (bm_backends m')" "info_at m' i = b" using b(1) by (auto simp: in_set_conv_nth)
    have l: "length (bm_backends m') = length (bm_backends ?d)" using r(2) by (metis length_map)
    then have "bi_id (info_at ?d i) = bi_id b" using i r(2) by (metis nth_map)
    moreover have "info_at ?d i \<in> set (registered nm bf hw)"
      using i(1) l discover_lanes[of nm bf hw m] by (metis mset_eq_setD nth_mem)
    ultimately have "\<not> bi_auto (info_at ?d i)" "\<not> bi_functional (info_at ?d i)"
      using registered_frontier[of nm bf hw] b(2) by auto
    then show ?thesis using r(3)[of i] i(2) by simp
  qed
  then have "\<not> fst (select_backend bid m')"
    if "bid \<in> {''cpu_deepseek_v4'', ''cpu_glm_moe_dsa'', ''cpu_mimo_v2'', ''cpu_qwen3_5''}" for bid
    using that
    by (auto simp: select_backend_def select_where_def usable_def find_entry_None_iff split: option.splits)
  then show ?thesis by (simp add: run)
qed

end
