(* ===== verification/Inference.thy ===== *)
theory Inference
  imports Startup
begin

text \<open>
  Inference through the manager of \<open>src/backend_manager.cpp\<close>: \<open>generate\<close> with the per-token router first and
  the failover cascade behind it, text generation, the hidden-state calls, reset, health checks and the
  loading of plugins.
\<close>

definition router_active :: "'f manager \<Rightarrow> bool" where
  "router_active m \<longleftrightarrow> rt_entries (bm_router m) \<noteq> []"

text \<open>The moving average of the score, and the statistics of a call on lane \<open>i\<close>.\<close>

definition ema_score :: "'f nums \<Rightarrow> 'f \<Rightarrow> 'f backend_info \<Rightarrow> 'f" where
  "ema_score nm ms b =
     (if scored nm b then nm_add nm (nm_mul nm (nm_rat nm (9 / 10)) (bi_score b)) (nm_mul nm (nm_rat nm (1 / 10)) ms)
      else ms)"

definition count_success :: "'f nums \<Rightarrow> 'f \<Rightarrow> nat \<Rightarrow> 'f manager \<Rightarrow> 'f manager" where
  "count_success nm ms i m =
     logged [MonRecord (bi_id (info_at m i)) ms True]
       (upd_info i (\<lambda>b. b\<lparr>bi_total := bi_total b + 1, bi_cumulative := nm_add nm (bi_cumulative b) ms\<rparr>) m)"

definition count_failure :: "'f \<Rightarrow> nat \<Rightarrow> 'f manager \<Rightarrow> 'f manager" where
  "count_failure ms i m =
     logged [MonRecord (bi_id (info_at m i)) ms False]
       (upd_info i (\<lambda>b. b\<lparr>bi_failed := bi_failed b + 1, bi_functional := False\<rparr>) m)"

text \<open>Phase 2 on the snapshot of the active lane.\<close>

definition generate_active :: "('w, 'f) engine_ops \<Rightarrow> 'f nums \<Rightarrow> int \<Rightarrow> nat \<Rightarrow> nat \<Rightarrow> 'f manager \<Rightarrow> 'w \<Rightarrow>
    int \<times> 'f manager \<times> 'w" where
  "generate_active eo nm token i b m w =
     (let ((r, ms), w) = eo_generate eo b token w; result = token_of r
      in if 0 \<le> result
         then (result, upd_info i (\<lambda>x. x\<lparr>bi_score := ema_score nm ms x\<rparr>) (count_success nm ms i m), w)
         else (- 1, logged [MonFailure (bi_id (info_at m i)) ''generate() returned -1''] (count_failure ms i m), w))"

text \<open>Phase 3: fail over and try once more.\<close>

definition generate_failover :: "('w, 'f) engine_ops \<Rightarrow> 'f nums \<Rightarrow> build_flags \<Rightarrow> int \<Rightarrow> nat \<Rightarrow> 'f manager \<Rightarrow> 'w \<Rightarrow>
    int call_result \<times> 'f manager \<times> 'w" where
  "generate_failover eo nm bf token prev m w =
     (case failover eo bf m w of
        (None, m, w) \<Rightarrow> (Throws, m, w)
      | (Some False, m, w) \<Rightarrow> (Returns (- 1), m, w)
      | (Some True, m, w) \<Rightarrow>
          let i = bm_active m;
              m = logged [MonFallback (bi_id (info_at m (if prev < length (bm_backends m) then prev else 0)))
                            (bi_id (info_at m i))] m
          in (case bi_instance (info_at m i) of
                None \<Rightarrow> (Returns (- 1), m, w)
              | Some b \<Rightarrow>
                  let ((r, ms), w) = eo_generate eo b token w; result = token_of r
                  in if 0 \<le> result then (Returns result, count_success nm ms i m, w)
                     else (Returns (- 1), count_failure ms i m, w)))"

definition generate_managed :: "('w, 'f) engine_ops \<Rightarrow> 'f nums \<Rightarrow> build_flags \<Rightarrow> int \<Rightarrow> 'f manager \<Rightarrow> 'w \<Rightarrow>
    int call_result \<times> 'f manager \<times> 'w" where
  "generate_managed eo nm bf token m w =
     (if \<not> bm_initialized m \<or> bm_backends m = [] then (Returns (- 1), m, w)
      else if length (bm_backends m) \<le> bm_active m then (Returns (- 1), m, w)
      else
        let i = bm_active m; info = info_at m i
        in case (bi_functional info, bi_instance info) of
             (True, Some b) \<Rightarrow>
               (case generate_active eo nm token i b m w of
                  (r, m, w) \<Rightarrow> if 0 \<le> r then (Returns r, m, w) else generate_failover eo nm bf token i m w)
           | _ \<Rightarrow> generate_failover eo nm bf token i m w)"

definition generate :: "('w, 'f) engine_ops \<Rightarrow> 'f nums \<Rightarrow> build_flags \<Rightarrow> int \<Rightarrow> 'f manager \<Rightarrow> 'w \<Rightarrow>
    int call_result \<times> 'f manager \<times> 'w" where
  "generate eo nm bf token m w =
     (if router_active m then
        (case router_generate eo nm token (bm_router m) w of
           (Returns r, rt, w) \<Rightarrow>
             if 0 \<le> r then (Returns r, m\<lparr>bm_router := rt\<rparr>, w)
             else generate_managed eo nm bf token (m\<lparr>bm_router := clear rt\<rparr>) w
         | (stuck, rt, w) \<Rightarrow> (stuck, m\<lparr>bm_router := rt\<rparr>, w))
      else generate_managed eo nm bf token m w)"

text \<open>Text generation: an engine that throws or answers the empty text has failed. With an active router the
  active engine is called directly; \<open>None\<close> is an exception that reaches the caller.\<close>

definition text_of :: "string option \<Rightarrow> string" where
  "text_of r = (case r of Some s \<Rightarrow> s | None \<Rightarrow> [])"

definition text_failover :: "('w, 'f) engine_ops \<Rightarrow> build_flags \<Rightarrow> string \<Rightarrow> nat \<Rightarrow> 'f manager \<Rightarrow> 'w \<Rightarrow>
    string option \<times> 'f manager \<times> 'w" where
  "text_failover eo bf prompt snap m w =
     (case failover eo bf m w of
        (None, m, w) \<Rightarrow> (None, m, w)
      | (Some False, m, w) \<Rightarrow> (Some [], m, w)
      | (Some True, m, w) \<Rightarrow>
          (case bi_instance (info_at m (bm_active m)) of
             None \<Rightarrow> (Some [], m, w)
           | Some b \<Rightarrow>
               let (r, w) = eo_generate_text eo b prompt w; text' = text_of r
               in if text' \<noteq> [] then
                    (Some text', if bi_id (info_at m (bm_active m)) \<noteq> bi_id (info_at m snap)
                            then logged [MonFallback (bi_id (info_at m snap)) (bi_id (info_at m (bm_active m)))] m
                            else m, w)
                  else (Some [], m, w)))"

definition generate_text :: "('w, 'f) engine_ops \<Rightarrow> build_flags \<Rightarrow> string \<Rightarrow> 'f manager \<Rightarrow> 'w \<Rightarrow>
    string option \<times> 'f manager \<times> 'w" where
  "generate_text eo bf prompt m w =
     (if \<not> bm_initialized m \<or> bm_backends m = [] then (Some [], m, w)
      else case (router_active m, active_backend m) of
        (True, Some b) \<Rightarrow> (let (r, w) = eo_generate_text eo b prompt w in (r, m, w))
      | _ \<Rightarrow>
          if length (bm_backends m) \<le> bm_active m then (Some [], m, w)
          else
            let i = bm_active m; info = info_at m i
            in case (bi_functional info, bi_instance info) of
                 (True, Some b) \<Rightarrow>
                   (let (r, w) = eo_generate_text eo b prompt w
                    in if text_of r \<noteq> [] then (Some (text_of r), m, w)
                       else let m = logged [MonFailure (bi_id info) ''generate_text() returned empty'']
                                      (upd_info i (\<lambda>b. b\<lparr>bi_functional := False\<rparr>) m)
                            in text_failover eo bf prompt i m w)
               | _ \<Rightarrow> text_failover eo bf prompt i m w)"

definition forward :: "('w, 'f) engine_ops \<Rightarrow> 'f nums \<Rightarrow> int \<Rightarrow> 'f manager \<Rightarrow> 'w \<Rightarrow> bool \<times> 'f manager \<times> 'w" where
  "forward eo nm token m w =
     (if router_active m then
        let (ok, rt, w) = router_forward eo nm token (bm_router m) w in (ok, m\<lparr>bm_router := rt\<rparr>, w)
      else case active_backend m of
        None \<Rightarrow> (False, m, w)
      | Some b \<Rightarrow>
          if \<not> bm_initialized m then (False, m, w)
          else
            let ((ok, ms), w) = eo_forward eo b token w; i = bm_active m;
                m = upd_info i (\<lambda>x. x\<lparr>bi_total := bi_total x + 1, bi_cumulative := nm_add nm (bi_cumulative x) ms\<rparr>) m;
                m = logged [MonRecord (bi_id (info_at m i)) ms ok] m
            in (ok, if ok then m
                    else logged [MonFailure (bi_id (info_at m i)) ''forward() returned false'']
                           (upd_info i (\<lambda>x. x\<lparr>bi_failed := bi_failed x + 1\<rparr>) m), w))"

definition lm_head :: "('w, 'f) engine_ops \<Rightarrow> 'f nums \<Rightarrow> 'f manager \<Rightarrow> 'w \<Rightarrow> bool \<times> 'f manager \<times> 'w" where
  "lm_head eo nm m w =
     (if router_active m then
        let (ok, rt, w) = router_lm_head eo nm (bm_router m) w in (ok, m\<lparr>bm_router := rt\<rparr>, w)
      else case active_backend m of
        None \<Rightarrow> (False, m, w)
      | Some b \<Rightarrow> if \<not> bm_initialized m then (False, m, w) else (let (ok, w) = eo_lm_head eo b w in (ok, m, w)))"

text \<open>A reset that throws is not caught here: \<open>None\<close>.\<close>

definition reset :: "('w, 'f) engine_ops \<Rightarrow> 'f manager \<Rightarrow> 'w \<Rightarrow> bool option \<times> 'f manager \<times> 'w" where
  "reset eo m w =
     (if router_active m then
        let (ok, rt, w) = reset_all eo (bm_router m) w in (Some ok, logged [PilotReset] (m\<lparr>bm_router := rt\<rparr>), w)
      else case active_backend m of
        None \<Rightarrow> (Some False, m, w)
      | Some b \<Rightarrow>
          (case eo_reset eo b w of
             (None, w) \<Rightarrow> (None, m, w)
           | (Some ok, w) \<Rightarrow>
               (Some ok, logged [PilotReset]
                  (if ok then upd_info (bm_active m) (\<lambda>x. x\<lparr>bi_functional := True\<rparr>) m else m), w)))"

definition health_check :: "('w, 'f) engine_ops \<Rightarrow> 'f manager \<Rightarrow> 'w \<Rightarrow> bool option \<times> 'f manager \<times> 'w" where
  "health_check eo m w =
     (case active_backend m of
        None \<Rightarrow> (Some False, m, w)
      | Some b \<Rightarrow>
          if \<not> eo_can_infer eo b w
          then (Some False, upd_info (bm_active m) (\<lambda>x. x\<lparr>bi_functional := False\<rparr>) m, w)
          else (case eo_reset eo b w of
                  (None, w) \<Rightarrow> (None, m, w)
                | (Some ok, w) \<Rightarrow>
                    (Some ok, logged [MonHealthy (bi_id (info_at m (bm_active m))) ok]
                       (upd_info (bm_active m) (\<lambda>x. x\<lparr>bi_functional := ok\<rparr>) m), w)))"

definition monitor :: "('w, 'f) engine_ops \<Rightarrow> build_flags \<Rightarrow> 'f manager \<Rightarrow> 'w \<Rightarrow> unit option \<times> 'f manager \<times> 'w" where
  "monitor eo bf m w =
     (case health_check eo m w of
        (Some False, m, w) \<Rightarrow> (case failover eo bf m w of (r, m, w) \<Rightarrow> (map_option (\<lambda>_. ()) r, m, w))
      | (r, m, w) \<Rightarrow> (map_option (\<lambda>_. ()) r, m, w))"

text \<open>Plugins: what the loader reports of a shared library, and the engine it instantiates.\<close>

definition plugin_lane :: "'f nums \<Rightarrow> string \<Rightarrow> backend_type \<Rightarrow> tier \<Rightarrow> bool \<Rightarrow> nat \<Rightarrow> 'f backend_info" where
  "plugin_lane nm bid ty t functional b = (lane nm bid ty t 0 True 0 True)\<lparr>bi_functional := functional, bi_instance := Some b\<rparr>"

definition plugin_tier :: "backend_type \<Rightarrow> tier" where
  "plugin_tier ty =
     (if ty = NPU_XRT then T1_ACCELERATOR else if ty = HIP_GPU \<or> ty = VULKAN then T2_GPU else T3_CPU)"

definition load_plugin :: "'f nums \<Rightarrow> (string \<times> backend_type \<times> nat option) option \<Rightarrow> 'f manager \<Rightarrow> bool \<times> 'f manager" where
  "load_plugin nm loader m =
     (case loader of
        Some (bid, ty, Some b) \<Rightarrow>
          (True, m\<lparr>bm_backends := rank_backends nm (bm_strategy m)
                     (bm_backends m @ [plugin_lane nm bid ty (plugin_tier ty) False b])\<rparr>)
      | _ \<Rightarrow> (False, m))"

definition load_plugins :: "'f nums \<Rightarrow> (string \<times> backend_type \<times> nat option) list \<Rightarrow> 'f manager \<Rightarrow> nat \<times> 'f manager" where
  "load_plugins nm loaders m =
     (let new = List.map_filter (\<lambda>(bid, ty, b). map_option
              (plugin_lane nm bid ty (if ty = NPU_XRT then T1_ACCELERATOR else T2_GPU) True) b) loaders
      in (length new, if new = [] then m
                      else m\<lparr>bm_backends := rank_backends nm (bm_strategy m) (bm_backends m @ new)\<rparr>))"

definition destroy :: "'f manager \<Rightarrow> 'f manager" where
  "destroy m = m\<lparr>bm_backends := [], bm_initialized := False\<rparr>"


section \<open>After start-up\<close>

text \<open>C23. After a start-up that brings up an accelerator and a CPU lane behind it, the CPU lane is the active one, not
  the first success: the loop overwrites the active index. Whole-prompt text generation then asks the CPU
  engine, although the accelerator is up and leads the preferred order.\<close>

theorem text_goes_to_the_cpu_lane:
  assumes "distinct (lane_ids m)" "lane_order (bm_backends m) preferred = a # xs @ c # ys"
    "bi_tier (info_at m a) \<noteq> T3_CPU" "lane_boots eo bf cfg ba (info_at m a)" "bi_id (info_at m a) \<notin> set (bm_skip m)"
    "bi_tier (info_at m c) = T3_CPU" "lane_boots eo bf cfg bc (info_at m c)" "bi_id (info_at m c) \<notin> set (bm_skip m)"
    "\<forall>i \<in> set xs. bi_tier (info_at m i) \<noteq> T3_CPU" "init eo nm bf is_file cfg preferred m w = (ok, m', w')"
  shows "ok = Some True \<and> bm_active m' = c \<and> active_backend m' = Some bc \<and>
    fst (generate_text eo bf prompt m' w') = fst (eo_generate_text eo bc prompt w')"
proof -
  note r = init_cpu_lane[OF assms]
  then show ?thesis by (auto simp: generate_text_def router_active_def split: prod.split)
qed

theorem text_goes_to_the_cpu_lane_witness:
  "\<forall>(eo :: ('w, 'f) engine_ops) (nm :: 'f nums) bf w.
     bm_active (fst (snd (init (boot_ops eo) nm bf (\<lambda>_. True) default_config [] (demo_lanes nm) w))) = 1"
proof (intro allI)
  fix eo :: "('w, 'f) engine_ops" and nm :: "'f nums" and bf w
  obtain ok m' w' where run: "init (boot_ops eo) nm bf (\<lambda>_. True) default_config [] (demo_lanes nm) w = (ok, m', w')"
    by (metis prod_cases3)
  show "bm_active (fst (snd (init (boot_ops eo) nm bf (\<lambda>_. True) default_config [] (demo_lanes nm) w))) = 1"
    using text_goes_to_the_cpu_lane[of "demo_lanes nm" "[]" 0 "[]" 1 "[]" "boot_ops eo" bf default_config 0 1 nm
        "\<lambda>_. True" w ok m' w'] run demo_lanes_boot
    by (simp only: demo_lanes_simps demo_lanes_boot tier.distinct list.set ball_empty distinct.simps insert_iff
        empty_iff simp_thms fst_conv snd_conv) (simp add: demo_lanes_simps)
qed


text \<open>Loading plugins re-ranks the lanes and leaves the active index as it is: with one unscored working lane below
  the accelerator tier, a plugin of the NPU type becomes the active lane, although it is only presumed
  functional and has never been initialised, and the next token is asked of its engine.\<close>

lemma plugin_becomes_active:
  assumes "bm_backends m = [a]" "bm_active m = 0" "bm_initialized m" "usable a" "\<not> scored nm a" "bi_priority a < 300"
    "\<not> nm_less nm (zero nm) (zero nm)" "\<not> router_active m"
    "m' = snd (load_plugins nm [(bid, NPU_XRT, Some b)] m)" "fst (fst (eo_generate eo b token w)) = Some t" "0 \<le> t"
  shows "bm_backends m' = [plugin_lane nm bid NPU_XRT T1_ACCELERATOR True b, a] \<and> active_backend m' = Some b \<and>
    fst (generate eo nm bf token m' w) = Returns t"
proof -
  let ?p = "plugin_lane nm bid NPU_XRT T1_ACCELERATOR True b"
  have "rank_before nm (bm_strategy m) ?p a"
    using assms(4-7) by (auto simp: rank_before_def plugin_lane_def lane_def scored_def usable_def)
  then have bs: "bm_backends m' = [?p, a]"
    using assms(1) by (simp add: assms(9) load_plugins_def rank_backends_def sort_by_def List.map_filter_def)
  have fields: "bm_active m' = 0" "bm_initialized m'" "\<not> router_active m'"
    using assms(2,3,8) by (simp_all add: assms(9) load_plugins_def router_active_def List.map_filter_def)
  have act: "active_backend m' = Some b" using bs fields by (simp add: active_backend_def plugin_lane_def)
  obtain ms w1 where g: "eo_generate eo b token w = ((Some t, ms), w1)" using assms(10) by (metis prod.collapse)
  have "fst (generate eo nm bf token m' w) = Returns t"
    using bs fields g assms(11)
    by (simp add: generate_def generate_managed_def generate_active_def plugin_lane_def token_of_def Let_def)
  then show ?thesis using bs act by simp
qed

lemma plugin_becomes_active_witness:
  "\<forall>(eo :: ('w, rat) engine_ops) bf w. fst (generate (demo_ops (\<lambda>_. True) eo 1) rat_nums bf 7
     (snd (load_plugins rat_nums [(''plugin'', NPU_XRT, Some 9)]
       (new_manager\<lparr>bm_backends := [demo_lane rat_nums ''hip_gpu'' T2_GPU (Some 0)], bm_initialized := True\<rparr>))) w) = Returns 7"
proof (intro allI)
  fix eo :: "('w, rat) engine_ops" and bf w
  let ?m = "new_manager\<lparr>bm_backends := [demo_lane rat_nums ''hip_gpu'' T2_GPU (Some 0)], bm_initialized := True\<rparr>"
  show "fst (generate (demo_ops (\<lambda>_. True) eo 1) rat_nums bf 7
     (snd (load_plugins rat_nums [(''plugin'', NPU_XRT, Some 9)] ?m)) w) = Returns 7"
    using plugin_becomes_active[of ?m "demo_lane rat_nums ''hip_gpu'' T2_GPU (Some 0)" rat_nums
        "snd (load_plugins rat_nums [(''plugin'', NPU_XRT, Some 9)] ?m)" "''plugin''" 9 "demo_ops (\<lambda>_. True) eo 1" 7 w 7 bf]
    by (simp add: new_manager_def demo_lane_def lane_def usable_def scored_def rat_nums_def router_active_def
        new_router_def demo_ops_def)
qed

end

