(* ===== verification/BatchScheduler.thy ===== *)
theory BatchScheduler
  imports Prelude "HOL-Library.Multiset"
begin

text \<open>
  \<open>include/batch_scheduler.h\<close>: requests wait in a queue, a fixed number of slots decodes them together, one
  token per round. \<open>round\<close> is the body of \<open>run()\<close>; \<open>sched_step\<close> interleaves rounds with submissions and the
  shutdown, which only touch the queue and the flag under the lock. A promise is the number of its request.

  The three callbacks are a parameter. Fewer results than the batch asked for are an out-of-range read in
  the code: \<open>None\<close>. Sampling parameters are stored in a slot and never read; they are left out, as is the
  prefill position, which is always 0.
\<close>

record request =
  rq_id :: nat
  rq_prompt :: "int list"
  rq_max :: int
  rq_eos :: int

datatype slot_state = IDLE | PREFILLING | DECODING | DONE

record slot =
  sl_state :: slot_state
  sl_prompt :: "int list"
  sl_output :: "int list"
  sl_max :: int
  sl_eos :: int
  sl_last :: int
  sl_result :: nat

record sched =
  sc_slots :: "slot list"
  sc_pending :: "request list"
  sc_running :: bool
  sc_active :: nat

record 'w batch_ops =
  bo_batch :: "(nat \<times> int) list \<Rightarrow> 'w \<Rightarrow> int list \<times> 'w"
  bo_single :: "int \<Rightarrow> 'w \<Rightarrow> int \<times> 'w"
  bo_reset :: "nat \<Rightarrow> 'w \<Rightarrow> 'w"

type_synonym answer = "nat \<times> int list"

definition empty_slot :: slot where
  "empty_slot = \<lparr>sl_state = IDLE, sl_prompt = [], sl_output = [], sl_max = 0, sl_eos = 0, sl_last = 0, sl_result = 0\<rparr>"

definition new_sched :: "nat \<Rightarrow> sched" where
  "new_sched max_slots = \<lparr>sc_slots = replicate max_slots empty_slot, sc_pending = [], sc_running = True, sc_active = 0\<rparr>"

definition submit :: "request \<Rightarrow> sched \<Rightarrow> sched" where
  "submit r s = s\<lparr>sc_pending := sc_pending s @ [r]\<rparr>"

section \<open>One round\<close>

definition fill_slot :: "request \<Rightarrow> slot \<Rightarrow> slot" where
  "fill_slot r s = s\<lparr>sl_state := PREFILLING, sl_prompt := rq_prompt r, sl_max := rq_max r, sl_eos := rq_eos r,
     sl_output := [], sl_result := rq_id r\<rparr>"

text \<open>\<open>admit_pending\<close> from slot \<open>i\<close> on.\<close>

fun admit :: "'w batch_ops \<Rightarrow> nat \<Rightarrow> slot list \<Rightarrow> request list \<Rightarrow> 'w \<Rightarrow> slot list \<times> request list \<times> 'w" where
  "admit bo i [] pending w = ([], pending, w)"
| "admit bo i (s # ss) [] w = (s # ss, [], w)"
| "admit bo i (s # ss) (r # rs) w =
     (if sl_state s \<noteq> IDLE then let (ss, pending, w) = admit bo (i + 1) ss (r # rs) w in (s # ss, pending, w)
      else let (ss, pending, w) = admit bo (i + 1) ss rs (bo_reset bo i w) in (fill_slot r s # ss, pending, w))"

text \<open>Every prompt token but the last goes through the single-token call; a leading end token is skipped.\<close>

definition prefill_tokens :: "slot \<Rightarrow> int list" where
  "prefill_tokens s =
     drop (if sl_prompt s \<noteq> [] \<and> hd (sl_prompt s) = sl_eos s then 1 else 0) (butlast (sl_prompt s))"

definition prefill :: "'w batch_ops \<Rightarrow> slot \<Rightarrow> 'w \<Rightarrow> slot \<times> 'w" where
  "prefill bo s w =
     (if sl_state s = PREFILLING
      then (s\<lparr>sl_last := (if sl_prompt s = [] then sl_eos s else last (sl_prompt s)), sl_state := DECODING\<rparr>,
            fold (\<lambda>t w. snd (bo_single bo t w)) (prefill_tokens s) w)
      else (s, w))"

fun prefill_all :: "'w batch_ops \<Rightarrow> slot list \<Rightarrow> 'w \<Rightarrow> slot list \<times> 'w" where
  "prefill_all bo [] w = ([], w)"
| "prefill_all bo (s # ss) w = (let (s, w) = prefill bo s w; (ss, w) = prefill_all bo ss w in (s # ss, w))"

definition decoding :: "slot list \<Rightarrow> (nat \<times> int) list" where
  "decoding ss = map (\<lambda>i. (i, sl_last (ss ! i))) (filter (\<lambda>i. sl_state (ss ! i) = DECODING) [0..<length ss])"

definition emit :: "int \<Rightarrow> slot \<Rightarrow> slot \<times> answer list" where
  "emit tok s =
     (let s = s\<lparr>sl_output := sl_output s @ [tok], sl_last := tok\<rparr>
      in if tok = sl_eos s \<or> sl_max s \<le> int (length (sl_output s))
         then (s\<lparr>sl_output := [], sl_state := IDLE\<rparr>, [(sl_result s, sl_output s)])
         else (s, []))"

text \<open>The results go to the decoding slots in order.\<close>

fun emit_all :: "slot list \<Rightarrow> int list \<Rightarrow> slot list \<times> answer list" where
  "emit_all (s # ss) (tok # toks) =
     (if sl_state s = DECODING
      then let (s, a) = emit tok s; (ss, as) = emit_all ss toks in (s # ss, a @ as)
      else let (ss, as) = emit_all ss (tok # toks) in (s # ss, as))"
| "emit_all [] toks = ([], [])"
| "emit_all (s # ss) [] = (s # ss, [])"

definition idle :: "slot \<Rightarrow> bool" where
  "idle s \<longleftrightarrow> sl_state s = IDLE"

definition has_active_slots :: "sched \<Rightarrow> bool" where
  "has_active_slots s \<longleftrightarrow> list_ex (\<lambda>x. \<not> idle x) (sc_slots s)"

definition round :: "'w batch_ops \<Rightarrow> sched \<Rightarrow> 'w \<Rightarrow> (answer list \<times> sched \<times> 'w) option" where
  "round bo s w =
     (let (ss, pending, w) = admit bo 0 (sc_slots s) (sc_pending s) w;
          (ss, w) = prefill_all bo ss w;
          batch = decoding ss
      in if batch = [] then Some ([], s\<lparr>sc_slots := ss, sc_pending := pending, sc_active := 0\<rparr>, w)
         else
           let (results, w) = (if length batch = 1
                               then let (t, w) = bo_single bo (snd (hd batch)) w in ([t], w)
                               else bo_batch bo batch w)
           in if length results < length batch then None
              else let (ss, as) = emit_all ss (take (length batch) results)
                   in Some (as, s\<lparr>sc_slots := ss, sc_pending := pending, sc_active := length (decoding ss)\<rparr>, w))"

section \<open>Runs\<close>

text \<open>A configuration also records what has been submitted and what has been answered. A round starts when
  there is work or the scheduler is to stop, and not when it is to stop without work.\<close>

record 'w config =
  cf_sched :: sched
  cf_world :: 'w
  cf_submitted :: "request list"
  cf_answered :: "answer list"

definition may_run :: "sched \<Rightarrow> bool" where
  "may_run s \<longleftrightarrow> sc_pending s \<noteq> [] \<or> has_active_slots s"

inductive sched_step :: "'w batch_ops \<Rightarrow> 'w config \<Rightarrow> 'w config \<Rightarrow> bool" for bo where
  Submit: "sched_step bo c (c\<lparr>cf_sched := submit r (cf_sched c), cf_submitted := cf_submitted c @ [r]\<rparr>)"
| Stop: "sched_step bo c (c\<lparr>cf_sched := (cf_sched c)\<lparr>sc_running := False\<rparr>\<rparr>)"
| Round: "may_run (cf_sched c) \<Longrightarrow> round bo (cf_sched c) (cf_world c) = Some (as, s, w) \<Longrightarrow>
    sched_step bo c (c\<lparr>cf_sched := s, cf_world := w, cf_answered := cf_answered c @ as\<rparr>)"

inductive_cases sched_stepE: "sched_step bo c c'"

definition new_config :: "nat \<Rightarrow> 'w \<Rightarrow> 'w config" where
  "new_config max_slots w = \<lparr>cf_sched = new_sched max_slots, cf_world = w, cf_submitted = [], cf_answered = []\<rparr>"

inductive reachable :: "'w batch_ops \<Rightarrow> nat \<Rightarrow> 'w config \<Rightarrow> bool" for bo n where
  Start: "reachable bo n (new_config n w)"
| Step: "reachable bo n c \<Longrightarrow> sched_step bo c c' \<Longrightarrow> reachable bo n c'"

section \<open>What a round preserves\<close>

definition busy_ids :: "slot list \<Rightarrow> nat list" where
  "busy_ids ss = map sl_result (filter (\<lambda>s. \<not> idle s) ss)"

definition well_answered :: "request \<Rightarrow> int list \<Rightarrow> bool" where
  "well_answered r out \<longleftrightarrow> out \<noteq> [] \<and> rq_eos r \<notin> set (butlast out) \<and>
     (last out = rq_eos r \<or> rq_max r \<le> int (length out)) \<and> int (length out) \<le> max 1 (rq_max r)"

definition serves_request :: "request set \<Rightarrow> slot \<Rightarrow> bool" where
  "serves_request R s \<longleftrightarrow> (\<exists>r \<in> R. rq_id r = sl_result s \<and> sl_max s = rq_max r \<and> sl_eos s = rq_eos r)"

definition slot_ok :: "request set \<Rightarrow> slot \<Rightarrow> bool" where
  "slot_ok R s \<longleftrightarrow> sl_state s \<noteq> DONE \<and> (idle s \<or> serves_request R s \<and> sl_eos s \<notin> set (sl_output s) \<and>
     (sl_output s = [] \<or> int (length (sl_output s)) < sl_max s))"

definition answer_ok :: "request set \<Rightarrow> answer \<Rightarrow> bool" where
  "answer_ok R a \<longleftrightarrow> (\<exists>r \<in> R. rq_id r = fst a \<and> well_answered r (snd a))"

text \<open>The tokens a slot and a request may still ask for.\<close>

definition slot_work :: "slot \<Rightarrow> nat" where
  "slot_work s = (if idle s then 0 else nat (max 1 (sl_max s) - int (length (sl_output s))))"

definition request_work :: "request \<Rightarrow> nat" where
  "request_work r = nat (max 1 (rq_max r))"

definition work :: "sched \<Rightarrow> nat" where
  "work s = sum_list (map slot_work (sc_slots s)) + sum_list (map request_work (sc_pending s))"

lemma admit_preserves:
  "admit bo i ss p w = (ss', p', w') \<Longrightarrow>
   length ss' = length ss \<and> mset (busy_ids ss') + mset (map rq_id p') = mset (busy_ids ss) + mset (map rq_id p) \<and>
   set p' \<subseteq> set p \<and> sum_list (map slot_work ss') + sum_list (map request_work p') =
     sum_list (map slot_work ss) + sum_list (map request_work p) \<and>
   (list_all (slot_ok R) ss \<longrightarrow> set p \<subseteq> R \<longrightarrow> list_all (slot_ok R) ss') \<and>
   (ss \<noteq> [] \<longrightarrow> p \<noteq> [] \<longrightarrow> list_ex (\<lambda>s. \<not> idle s) ss') \<and>
   (list_ex (\<lambda>s. \<not> idle s) ss \<longrightarrow> list_ex (\<lambda>s. \<not> idle s) ss')"
proof (induction bo i ss p w arbitrary: ss' p' w' rule: admit.induct)
  case (3 bo i s ss r rs w)
  show ?case
  proof (cases "idle s")
    case True
    obtain ss1 p1 w1 where a: "admit bo (i + 1) ss rs (bo_reset bo i w) = (ss1, p1, w1)" by (metis prod_cases3)
    have fill: "busy_ids (fill_slot r s # ss1) = rq_id r # busy_ids ss1" "slot_work (fill_slot r s) = request_work r"
      "\<not> idle (fill_slot r s)" "r \<in> R \<Longrightarrow> slot_ok R (fill_slot r s)"
      by (auto simp: busy_ids_def idle_def fill_slot_def slot_work_def request_work_def slot_ok_def serves_request_def)
    have out: "ss' = fill_slot r s # ss1" "p' = p1" using 3(3) a True by (simp_all add: idle_def)
    have s: "busy_ids (s # ss) = busy_ids ss" "slot_work s = 0" using True by (simp_all add: busy_ids_def slot_work_def)
    show ?thesis using 3(2)[OF _ a] True s fill out by (auto simp: idle_def)
  next
    case False
    obtain ss1 p1 w1 where a: "admit bo (i + 1) ss (r # rs) w = (ss1, p1, w1)" by (metis prod_cases3)
    have out: "ss' = s # ss1" "p' = p1" using 3(3) a False by (simp_all add: idle_def)
    show ?thesis using 3(1)[OF _ a] False out by (auto simp: idle_def busy_ids_def)
  qed
qed auto

lemma prefill_all_preserves:
  "prefill_all bo ss w = (ss', w') \<Longrightarrow>
   busy_ids ss' = busy_ids ss \<and> map slot_work ss' = map slot_work ss \<and> length ss' = length ss \<and>
   (list_all (slot_ok R) ss \<longrightarrow> list_all (slot_ok R) ss' \<and> list_all (\<lambda>s. idle s \<or> sl_state s = DECODING) ss') \<and>
   (list_ex (\<lambda>s. \<not> idle s) ss \<longrightarrow> list_ex (\<lambda>s. \<not> idle s) ss')"
proof (induction ss arbitrary: w ss' w')
  case (Cons s ss)
  obtain s1 w1 where s: "prefill bo s w = (s1, w1)" by (metis prod.exhaust)
  obtain ss1 w2 where r: "prefill_all bo ss w1 = (ss1, w2)" by (metis prod.exhaust)
  have s1: "sl_result s1 = sl_result s" "idle s1 = idle s" "slot_work s1 = slot_work s" "slot_ok R s \<Longrightarrow> slot_ok R s1"
    "slot_ok R s \<Longrightarrow> idle s1 \<or> sl_state s1 = DECODING"
    using s by (auto simp: prefill_def idle_def slot_work_def slot_ok_def serves_request_def intro: slot_state.exhaust[of "sl_state s"] split: if_splits)
  show ?case using Cons.IH[OF r] Cons.prems s r s1 by (auto simp: busy_ids_def)
qed simp

lemma length_decoding: "length (decoding ss) = length (filter (\<lambda>s. sl_state s = DECODING) ss)"
proof -
  have "map (\<lambda>i. ss ! i) (filter (\<lambda>i. sl_state (ss ! i) = DECODING) [0..<length ss]) =
      filter (\<lambda>s. sl_state s = DECODING) (map (\<lambda>i. ss ! i) [0..<length ss])"
    by (simp add: filter_map comp_def)
  then show ?thesis by (metis decoding_def length_map map_nth)
qed

lemma emit_preserves:
  assumes "emit tok s = (s', as)" "sl_state s = DECODING" "slot_ok R s"
  shows "slot_ok R s' \<and> list_all (answer_ok R) as \<and> mset (busy_ids [s']) + mset (map fst as) = mset (busy_ids [s]) \<and>
    slot_work s' < slot_work s \<and> (idle s' \<or> sl_state s' = DECODING)"
proof -
  let ?out = "sl_output s @ [tok]"
  have busy: "\<not> idle s" using assms(2) by (simp add: idle_def)
  then obtain r where r: "r \<in> R" "rq_id r = sl_result s" "sl_max s = rq_max r" "sl_eos s = rq_eos r"
    and no_eos: "sl_eos s \<notin> set (sl_output s)" and len: "sl_output s = [] \<or> int (length (sl_output s)) < sl_max s"
    using assms(3) by (auto simp: slot_ok_def serves_request_def)
  show ?thesis
  proof (cases "tok = sl_eos s \<or> sl_max s \<le> int (length ?out)")
    case True
    then have e: "s' = s\<lparr>sl_output := [], sl_last := tok, sl_state := IDLE\<rparr>" "as = [(sl_result s, ?out)]"
      using assms(1) by (auto simp: emit_def Let_def)
    have "well_answered r ?out" using r no_eos len True by (auto simp: well_answered_def)
    then show ?thesis
      using e r busy len by (auto simp: slot_ok_def answer_ok_def busy_ids_def slot_work_def idle_def)
  next
    case False
    then have e: "s' = s\<lparr>sl_output := ?out, sl_last := tok\<rparr>" "as = []"
      using assms(1) by (auto simp: emit_def Let_def)
    then show ?thesis
      using assms(2) r no_eos len False by (auto simp: slot_ok_def serves_request_def busy_ids_def slot_work_def idle_def)
  qed
qed

lemma emit_all_preserves:
  "emit_all ss toks = (ss', as) \<Longrightarrow> length toks = length (filter (\<lambda>s. sl_state s = DECODING) ss) \<Longrightarrow>
   list_all (slot_ok R) ss \<Longrightarrow> list_all (\<lambda>s. idle s \<or> sl_state s = DECODING) ss \<Longrightarrow>
   length ss' = length ss \<and> list_all (slot_ok R) ss' \<and> list_all (\<lambda>s. idle s \<or> sl_state s = DECODING) ss' \<and>
   list_all (answer_ok R) as \<and> mset (busy_ids ss') + mset (map fst as) = mset (busy_ids ss) \<and>
   sum_list (map slot_work ss') + length toks \<le> sum_list (map slot_work ss)"
proof (induction ss toks arbitrary: ss' as rule: emit_all.induct)
  case (1 s ss tok toks)
  show ?case
  proof (cases "sl_state s = DECODING")
    case True
    obtain s1 a1 where e: "emit tok s = (s1, a1)" by (metis prod.exhaust)
    obtain ss1 as1 where r: "emit_all ss toks = (ss1, as1)" by (metis prod.exhaust)
    have out: "ss' = s1 # ss1" "as = a1 @ as1" using 1(3) True e r by simp_all
    have one: "slot_ok R s1 \<and> list_all (answer_ok R) a1 \<and> mset (busy_ids [s1]) + mset (map fst a1) = mset (busy_ids [s]) \<and>
      slot_work s1 < slot_work s \<and> (idle s1 \<or> sl_state s1 = DECODING)"
      using emit_preserves[OF e True, of R] 1(5) by simp
    have rest: "length ss1 = length ss \<and> list_all (slot_ok R) ss1 \<and> list_all (\<lambda>s. idle s \<or> sl_state s = DECODING) ss1 \<and>
      list_all (answer_ok R) as1 \<and> mset (busy_ids ss1) + mset (map fst as1) = mset (busy_ids ss) \<and>
      sum_list (map slot_work ss1) + length toks \<le> sum_list (map slot_work ss)"
      using 1(1)[OF True e[symmetric] refl r] 1(4-6) True by simp
    have split: "mset (busy_ids (x # xs)) = mset (busy_ids [x]) + mset (busy_ids xs)" for x xs by (simp add: busy_ids_def)
    have "mset (busy_ids (s1 # ss1)) + mset (map fst (a1 @ as1)) =
        (mset (busy_ids [s1]) + mset (map fst a1)) + (mset (busy_ids ss1) + mset (map fst as1))"
      using split[of s1 ss1] by (simp add: union_ac)
    also have "\<dots> = mset (busy_ids (s # ss))" using one rest split[of s ss] by presburger
    finally have "mset (busy_ids (s1 # ss1)) + mset (map fst (a1 @ as1)) = mset (busy_ids (s # ss))" .
    then show ?thesis using one rest out by simp
  next
    case False
    then have idle: "idle s" using 1(6) by simp
    obtain ss1 as1 where r: "emit_all ss (tok # toks) = (ss1, as1)" by (metis prod.exhaust)
    have out: "ss' = s # ss1" "as = as1" using 1(3) False r by simp_all
    show ?thesis using 1(2)[OF False r] 1(4-6) False idle out by (simp add: busy_ids_def)
  qed
next
  case (2 toks)
  then show ?case by simp
next
  case (3 s ss)
  then have "filter (\<lambda>s. sl_state s = DECODING) (s # ss) = []" by simp
  with 3 show ?case by simp
qed

text \<open>A round answers what it takes out of the slots and does work whenever a slot is busy or can be filled.\<close>

lemma round_preserves:
  assumes "round bo s w = Some (as, s', w')" "list_all (slot_ok R) (sc_slots s)" "set (sc_pending s) \<subseteq> R"
  shows "length (sc_slots s') = length (sc_slots s)" "list_all (slot_ok R) (sc_slots s')" "set (sc_pending s') \<subseteq> R"
    "list_all (answer_ok R) as"
    "mset (busy_ids (sc_slots s')) + mset (map rq_id (sc_pending s')) + mset (map fst as) =
      mset (busy_ids (sc_slots s)) + mset (map rq_id (sc_pending s))"
    "may_run s \<Longrightarrow> sc_slots s \<noteq> [] \<Longrightarrow> work s' < work s"
proof -
  obtain ss1 p w1 where a: "admit bo 0 (sc_slots s) (sc_pending s) w = (ss1, p, w1)" by (metis prod_cases3)
  obtain ss2 w2 where f: "prefill_all bo ss1 w1 = (ss2, w2)" by (metis prod.exhaust)
  note A = admit_preserves[OF a, of R] and F = prefill_all_preserves[OF f, of R]
  have ok: "list_all (slot_ok R) ss1" "list_all (slot_ok R) ss2" "list_all (\<lambda>s. idle s \<or> sl_state s = DECODING) ss2"
    using A F assms(2,3) by blast+
  have busy: "decoding ss2 \<noteq> []" if "may_run s" "sc_slots s \<noteq> []"
  proof -
    have "list_ex (\<lambda>s. \<not> idle s) ss2"
      using A F that by (auto simp: may_run_def has_active_slots_def)
    then have "filter (\<lambda>s. sl_state s = DECODING) ss2 \<noteq> []"
      using ok(3) by (auto simp: list_ex_iff list_all_iff filter_empty_conv)
    then show ?thesis using length_decoding[of ss2] by (metis length_0_conv)
  qed
  have ids: "mset (busy_ids ss2) + mset (map rq_id p) = mset (busy_ids (sc_slots s)) + mset (map rq_id (sc_pending s))"
    and p: "set p \<subseteq> R" and len: "length ss2 = length (sc_slots s)"
    and wk: "sum_list (map slot_work ss2) + sum_list (map request_work p) = work s"
    using A F assms(3) by (auto simp: work_def)
  have "length (sc_slots s') = length (sc_slots s) \<and> list_all (slot_ok R) (sc_slots s') \<and> sc_pending s' = p \<and>
    list_all (answer_ok R) as \<and> mset (busy_ids (sc_slots s')) + mset (map fst as) = mset (busy_ids ss2) \<and>
    sum_list (map slot_work (sc_slots s')) + length (decoding ss2) \<le> sum_list (map slot_work ss2)"
  proof (cases "decoding ss2 = []")
    case True
    then have "as = [] \<and> s' = s\<lparr>sc_slots := ss2, sc_pending := p, sc_active := 0\<rparr>"
      using assms(1) a f by (simp add: round_def)
    then show ?thesis using ok len True by simp
  next
    case False
    obtain results w3 where res: "(if length (decoding ss2) = 1 then case bo_single bo (snd (hd (decoding ss2))) w2 of (t, w) \<Rightarrow> ([t], w)
        else bo_batch bo (decoding ss2) w2) = (results, w3)" by (metis prod.exhaust)
    obtain ss3 as3 where e: "emit_all ss2 (take (length (decoding ss2)) results) = (ss3, as3)" by (metis prod.exhaust)
    have n: "length (decoding ss2) \<le> length results" and
      out: "as = as3" "s' = s\<lparr>sc_slots := ss3, sc_pending := p, sc_active := length (decoding ss3)\<rparr>"
      using assms(1) False unfolding round_def a f Let_def prod.case res e if_not_P[OF False] by (auto split: if_splits)
    have "length (take (length (decoding ss2)) results) = length (filter (\<lambda>s. sl_state s = DECODING) ss2)"
      using n length_decoding by simp
    from emit_all_preserves[OF e this ok(2,3)] show ?thesis using out len n by simp
  qed
  note all = this
  show "length (sc_slots s') = length (sc_slots s)" "list_all (slot_ok R) (sc_slots s')" "set (sc_pending s') \<subseteq> R"
    "list_all (answer_ok R) as" using all p by simp_all
  show "mset (busy_ids (sc_slots s')) + mset (map rq_id (sc_pending s')) + mset (map fst as) =
      mset (busy_ids (sc_slots s)) + mset (map rq_id (sc_pending s))"
    using all ids by (metis (no_types, lifting) union_assoc union_commute)
  show "work s' < work s" if "may_run s" "sc_slots s \<noteq> []"
  proof -
    have "0 < length (decoding ss2)" using busy[OF that] by simp
    with all have "sum_list (map slot_work (sc_slots s')) < sum_list (map slot_work ss2)" by linarith
    then show ?thesis using all wk unfolding work_def by simp
  qed
qed

lemma round_total:
  assumes "\<forall>batch w. length batch \<le> length (fst (bo_batch bo batch w))"
  shows "\<exists>as s' w'. round bo s w = Some (as, s', w')"
proof -
  obtain ss1 p w1 where a: "admit bo 0 (sc_slots s) (sc_pending s) w = (ss1, p, w1)" by (metis prod_cases3)
  obtain ss2 w2 where f: "prefill_all bo ss1 w1 = (ss2, w2)" by (metis prod.exhaust)
  obtain t w3 where t: "bo_single bo (snd (hd (decoding ss2))) w2 = (t, w3)" by (metis prod.exhaust)
  obtain res w4 where b: "bo_batch bo (decoding ss2) w2 = (res, w4)" by (metis prod.exhaust)
  have "length (decoding ss2) \<le> length res" using assms b by (metis fst_conv)
  then show ?thesis unfolding round_def a f Let_def prod.case t b by (auto split: prod.split)
qed

section \<open>Safety of every run\<close>

definition config_ok :: "nat \<Rightarrow> 'w config \<Rightarrow> bool" where
  "config_ok n c \<longleftrightarrow> length (sc_slots (cf_sched c)) = n \<and>
     list_all (slot_ok (set (cf_submitted c))) (sc_slots (cf_sched c)) \<and>
     set (sc_pending (cf_sched c)) \<subseteq> set (cf_submitted c) \<and> list_all (answer_ok (set (cf_submitted c))) (cf_answered c) \<and>
     mset (map rq_id (cf_submitted c)) = mset (map rq_id (sc_pending (cf_sched c))) + mset (busy_ids (sc_slots (cf_sched c)))
       + mset (map fst (cf_answered c))"

lemma slot_ok_mono: "R \<subseteq> S \<Longrightarrow> slot_ok R s \<Longrightarrow> slot_ok S s"
  by (auto simp: slot_ok_def serves_request_def)

lemma answer_ok_mono: "R \<subseteq> S \<Longrightarrow> answer_ok R a \<Longrightarrow> answer_ok S a"
  by (auto simp: answer_ok_def)

lemma round_config_ok:
  assumes "config_ok n c" "round bo (cf_sched c) (cf_world c) = Some (as, s, w)"
  shows "config_ok n (c\<lparr>cf_sched := s, cf_world := w, cf_answered := cf_answered c @ as\<rparr>)"
proof -
  have "list_all (slot_ok (set (cf_submitted c))) (sc_slots (cf_sched c))" "set (sc_pending (cf_sched c)) \<subseteq> set (cf_submitted c)"
    using assms(1) by (simp_all add: config_ok_def)
  note r = round_preserves[OF assms(2) this]
  show ?thesis using assms(1) r(1-4) r(5) unfolding config_ok_def by (simp add: union_ac)
qed

lemma reachable_ok: "reachable bo n c \<Longrightarrow> config_ok n c"
proof (induction rule: reachable.induct)
  case (Start w)
  show ?case
    by (simp add: config_ok_def new_config_def new_sched_def empty_slot_def busy_ids_def slot_ok_def idle_def list_all_iff)
next
  case (Step c c')
  from Step.hyps(2) Step.IH show ?case
  proof (cases rule: sched_step.cases)
    case (Submit r)
    have "set (cf_submitted c) \<subseteq> set (cf_submitted c @ [r])" by auto
    with Step.IH Submit show ?thesis
      using slot_ok_mono[of "set (cf_submitted c)"] answer_ok_mono[of "set (cf_submitted c)"]
      by (auto simp: config_ok_def submit_def list_all_iff)
  next
    case Stop
    with Step.IH show ?thesis by (simp add: config_ok_def)
  next
    case (Round as s w)
    with round_config_ok[OF Step.IH] show ?thesis by simp
  qed
qed


text \<open>C16. Every request is accounted for, in every run that interleaves submissions, rounds and the shutdown: the
  requests submitted are those that wait, those in a slot and those answered, each exactly once. An answer
  belongs to its request: it stops at the first end token or at the token limit, is never empty, and is
  never longer than the limit (one token for a limit below one).\<close>

theorem requests_accounted:
  assumes "reachable bo n c"
  shows "mset (map rq_id (cf_submitted c)) = mset (map rq_id (sc_pending (cf_sched c)))
      + mset (busy_ids (sc_slots (cf_sched c))) + mset (map fst (cf_answered c)) \<and>
    list_all (answer_ok (set (cf_submitted c))) (cf_answered c) \<and> length (busy_ids (sc_slots (cf_sched c))) \<le> n"
proof -
  have "config_ok n c" by (rule reachable_ok[OF assms])
  moreover have "length (busy_ids ss) \<le> length ss" for ss by (simp add: busy_ids_def)
  ultimately show ?thesis unfolding config_ok_def by metis
qed

section \<open>Progress\<close>

fun run_rounds :: "'w batch_ops \<Rightarrow> nat \<Rightarrow> 'w config \<Rightarrow> 'w config option" where
  "run_rounds bo 0 c = Some c"
| "run_rounds bo (Suc k) c =
     (if \<not> may_run (cf_sched c) then Some c
      else case round bo (cf_sched c) (cf_world c) of
        None \<Rightarrow> None
      | Some (as, s, w) \<Rightarrow>
          run_rounds bo k (c\<lparr>cf_sched := s, cf_world := w, cf_answered := cf_answered c @ as\<rparr>))"

lemma slot_work_pos: "slot_ok R s \<Longrightarrow> \<not> idle s \<Longrightarrow> 0 < slot_work s"
  by (auto simp: slot_ok_def slot_work_def)

lemma request_work_pos: "0 < request_work r"
  by (simp add: request_work_def)

lemma work_idle:
  assumes "list_all (slot_ok R) (sc_slots s)" "work s = 0"
  shows "\<not> may_run s"
proof -
  have zero: "\<forall>x \<in> set (sc_slots s). slot_work x = 0" "\<forall>r \<in> set (sc_pending s). request_work r = 0"
    using assms(2) by (simp_all add: work_def)
  have "\<forall>x \<in> set (sc_slots s). idle x"
    using zero(1) slot_work_pos assms(1) by (metis list_all_iff less_irrefl)
  moreover have "sc_pending s = []"
    using zero(2) request_work_pos by (metis less_irrefl list.set_sel(1))
  ultimately show ?thesis by (simp add: may_run_def has_active_slots_def list_ex_iff)
qed

lemma run_rounds_drain:
  assumes total: "\<forall>batch w. length batch \<le> length (fst (bo_batch bo batch w))" and n: "0 < n"
  shows "config_ok n c \<Longrightarrow> work (cf_sched c) \<le> k \<Longrightarrow>
    \<exists>c'. run_rounds bo k c = Some c' \<and> config_ok n c' \<and> \<not> may_run (cf_sched c') \<and> cf_submitted c' = cf_submitted c"
proof (induction k arbitrary: c)
  case 0
  then show ?case using work_idle[of "set (cf_submitted c)" "cf_sched c"] by (simp add: config_ok_def)
next
  case (Suc k)
  show ?case
  proof (cases "may_run (cf_sched c)")
    case False
    then show ?thesis using Suc.prems by simp
  next
    case True
    obtain as s w where r: "round bo (cf_sched c) (cf_world c) = Some (as, s, w)"
      using round_total[OF total] by metis
    let ?c = "c\<lparr>cf_sched := s, cf_world := w, cf_answered := cf_answered c @ as\<rparr>"
    have "list_all (slot_ok (set (cf_submitted c))) (sc_slots (cf_sched c))" "set (sc_pending (cf_sched c)) \<subseteq> set (cf_submitted c)"
      "sc_slots (cf_sched c) \<noteq> []"
      using Suc.prems(1) n by (auto simp: config_ok_def)
    then have "work s < work (cf_sched c)" using round_preserves(6)[OF r] True by blast
    then have "work (cf_sched ?c) \<le> k" using Suc.prems(2) by simp
    from Suc.IH[OF round_config_ok[OF Suc.prems(1) r] this] show ?thesis using True r by simp
  qed
qed

text \<open>C17. Every request is answered: with at least one slot and callbacks that give a result per batch entry, from any
  point of any run the scheduler needs at most \<open>work\<close> rounds (the tokens that the waiting and the running
  requests may still ask for) until nothing waits and no slot is busy, and then the answers are exactly the
  submitted requests.\<close>

theorem requests_answered:
  assumes "reachable bo n c" "0 < n" "\<forall>batch w. length batch \<le> length (fst (bo_batch bo batch w))"
  shows "\<exists>c'. run_rounds bo (work (cf_sched c)) c = Some c' \<and> \<not> may_run (cf_sched c') \<and>
    cf_submitted c' = cf_submitted c \<and> mset (map fst (cf_answered c')) = mset (map rq_id (cf_submitted c)) \<and>
    list_all (answer_ok (set (cf_submitted c))) (cf_answered c')"
proof -
  obtain c' where c': "run_rounds bo (work (cf_sched c)) c = Some c'" "config_ok n c'" "\<not> may_run (cf_sched c')"
    "cf_submitted c' = cf_submitted c"
    using run_rounds_drain[OF assms(3,2) reachable_ok[OF assms(1)] order.refl] by blast
  have "sc_pending (cf_sched c') = []" "busy_ids (sc_slots (cf_sched c')) = []"
    using c'(3) by (auto simp: may_run_def has_active_slots_def busy_ids_def list_ex_iff filter_empty_conv)
  then show ?thesis using c' by (auto simp: config_ok_def)
qed

text \<open>A batch of one request, and an engine that counts.\<close>

definition demo_request :: request where
  "demo_request = \<lparr>rq_id = 7, rq_prompt = [1, 2], rq_max = 3, rq_eos = 0\<rparr>"

definition demo_batch_ops :: "int batch_ops" where
  "demo_batch_ops = \<lparr>bo_batch = (\<lambda>batch w. (map snd batch, w)), bo_single = (\<lambda>t w. (w, w + 1)), bo_reset = (\<lambda>i w. w)\<rparr>"

lemma demo_reachable:
  "reachable demo_batch_ops 2 ((new_config 2 (5 :: int))\<lparr>cf_sched := submit demo_request (new_sched 2), cf_submitted := [demo_request]\<rparr>)"
proof -
  have "sched_step demo_batch_ops (new_config 2 (5 :: int)) ((new_config 2 (5 :: int))\<lparr>cf_sched := submit demo_request (cf_sched (new_config 2 (5 :: int))),
      cf_submitted := cf_submitted (new_config 2 (5 :: int)) @ [demo_request]\<rparr>)" by (rule sched_step.Submit)
  from reachable.Step[OF reachable.Start this] show ?thesis by (simp add: new_config_def)
qed

theorem requests_accounted_witness:
  "length (busy_ids (sc_slots (submit demo_request (new_sched 2)))) \<le> 2"
  using requests_accounted[OF demo_reachable] by simp

theorem requests_answered_witness:
  "\<exists>c'. run_rounds demo_batch_ops 3 ((new_config 2 (5 :: int))\<lparr>cf_sched := submit demo_request (new_sched 2),
     cf_submitted := [demo_request]\<rparr>) = Some c' \<and> mset (map fst (cf_answered c')) = {#7#}"
proof -
  have "work (submit demo_request (new_sched 2)) = 3"
    by (simp add: work_def submit_def new_sched_def slot_work_def empty_slot_def idle_def request_work_def demo_request_def)
  then show ?thesis
    using requests_answered[OF demo_reachable] by (auto simp: demo_batch_ops_def demo_request_def)
qed

end
