(* ===== verification/MiniJson.thy ===== *)
theory MiniJson
  imports Prelude
begin

text \<open>
  \<open>json_escape\<close> and the class \<open>MiniJson\<close> of \<open>src/model_registry.cpp\<close>: the writer of a JSON string and the reader of
  a catalog, a top-level object of objects with string fields. The reader's state is the text that is left;
  \<open>None\<close> is \<open>false\<close>. A map of fields is the code's \<open>std::map\<close>.
\<close>

section \<open>Writing a string\<close>

definition escape_digit :: "nat \<Rightarrow> char" where
  "escape_digit n = (if n < 10 then char_of (48 + n) else char_of (87 + n))"

definition quote :: char where "quote = CHR 0x22"

definition backslash :: char where "backslash = CHR 0x5C"

definition escape_char :: "char \<Rightarrow> string" where
  "escape_char c =
     (if c = quote then [backslash, quote] else if c = backslash then [backslash, backslash]
      else if c = CHR 0x0A then [backslash, CHR ''n''] else if c = CHR 0x0D then [backslash, CHR ''r'']
      else if c = CHR 0x09 then [backslash, CHR ''t'']
      else if (of_char c :: nat) < 0x20
      then backslash # ''u00'' @ [escape_digit (of_char c div 16), escape_digit (of_char c mod 16)]
      else [c])"

definition json_escape :: "string \<Rightarrow> string" where
  "json_escape s = concat (map escape_char s)"

section \<open>Reading\<close>

definition is_ws :: "char \<Rightarrow> bool" where
  "is_ws c \<longleftrightarrow> c = CHR '' '' \<or> c = CHR 0x09 \<or> c = CHR 0x0A \<or> c = CHR 0x0D"

definition ws :: "string \<Rightarrow> string" where
  "ws s = dropWhile is_ws s"

definition peek :: "string \<Rightarrow> char" where
  "peek s = (case s of [] \<Rightarrow> CHR 0x00 | c # _ \<Rightarrow> c)"

definition eat :: "char \<Rightarrow> string \<Rightarrow> string option" where
  "eat c s = (if s \<noteq> [] \<and> peek s = c then Some (tl s) else None)"

definition escape_value :: "char \<Rightarrow> nat option" where
  "escape_value h =
     (let n = of_char h in
      if 48 \<le> n \<and> n \<le> 57 then Some (n - 48) else if 97 \<le> n \<and> n \<le> 102 then Some (n - 97 + 10)
      else if 65 \<le> n \<and> n \<le> 70 then Some (n - 65 + 10) else None)"

text \<open>Four hexadecimal digits; the shift and the union of disjoint bits are a multiplication and a sum.\<close>

definition hex4 :: "char \<Rightarrow> char \<Rightarrow> char \<Rightarrow> char \<Rightarrow> nat option" where
  "hex4 a b c d =
     (case (escape_value a, escape_value b, escape_value c, escape_value d) of
        (Some a, Some b, Some c, Some d) \<Rightarrow> Some (((a * 16 + b) * 16 + c) * 16 + d) | _ \<Rightarrow> None)"

definition simple_escape :: "char \<Rightarrow> char" where
  "simple_escape e =
     (if e = CHR ''n'' then CHR 0x0A else if e = CHR ''t'' then CHR 0x09 else if e = CHR ''r'' then CHR 0x0D
      else if e = CHR ''b'' then CHR 0x08 else if e = CHR ''f'' then CHR 0x0C else e)"

text \<open>The characters after the opening quote; an escape beyond ASCII adds nothing.\<close>

fun parse_chars :: "string \<Rightarrow> string \<Rightarrow> (string \<times> string) option" where
  "parse_chars [] out = None"
| "parse_chars (c # cs) out =
     (if c = quote then Some (out, cs)
      else if c = backslash then
        (case cs of
           [] \<Rightarrow> None
         | e # es \<Rightarrow>
             if e = CHR ''u'' then
               (case es of
                  h1 # h2 # h3 # h4 # rest \<Rightarrow>
                    (case hex4 h1 h2 h3 h4 of
                       None \<Rightarrow> None
                     | Some cp \<Rightarrow> parse_chars rest (if cp < 0x80 then out @ [char_of cp] else out))
                | _ \<Rightarrow> None)
             else parse_chars es (out @ [simple_escape e]))
      else parse_chars cs (out @ [c]))"

definition parse_string :: "string \<Rightarrow> (string \<times> string) option" where
  "parse_string s = (case eat quote (ws s) of None \<Rightarrow> None | Some s \<Rightarrow> parse_chars s [])"

lemma quote_backslash [simp]: "quote \<noteq> backslash" "backslash \<noteq> quote"
  by (simp_all add: quote_def backslash_def)

lemma parse_chars_shorter: "parse_chars s out = Some (v, rest) \<Longrightarrow> length rest < length s"
proof (induction s out rule: parse_chars.induct)
  case (2 c cs out)
  note IH = 2(1,2,3)
  show ?case
  proof (cases "c = quote \<or> c \<noteq> backslash")
    case True
    with 2 show ?thesis by (auto split: if_splits)
  next
    case False
    then obtain e es where cs: "cs = e # es" using 2(4) by (cases cs) auto
    show ?thesis
    proof (cases "e = CHR ''u''")
      case True
      then obtain h1 h2 h3 h4 r cp where es: "es = h1 # h2 # h3 # h4 # r" "hex4 h1 h2 h3 h4 = Some cp"
        "parse_chars r (if cp < 0x80 then out @ [char_of cp] else out) = Some (v, rest)"
        using 2(4) False cs by (auto split: list.splits option.splits)
      have "length rest < length r" using IH(1)[OF _ _ cs True es(1) refl refl refl es(2,3)] False by simp
      then show ?thesis using cs es by simp
    next
      case ne: False
      then have "parse_chars es (out @ [simple_escape e]) = Some (v, rest)" using 2(4) False cs by simp
      then have "length rest < length es" using IH(2)[OF _ _ cs ne] False by simp
      then show ?thesis using cs by simp
    qed
  qed
qed simp

lemma eat_Some: "eat c s = Some r \<longleftrightarrow> s = c # r"
  by (cases s) (auto simp: eat_def peek_def)

lemma length_ws: "length (ws s) \<le> length s"
  by (simp add: ws_def length_dropWhile_le)

lemma parse_string_shorter: "parse_string s = Some (v, rest) \<Longrightarrow> length rest < length s"
  using length_ws[of s] by (auto simp: parse_string_def eat_Some dest!: parse_chars_shorter split: option.splits)

function skip_nested :: "char \<Rightarrow> char \<Rightarrow> int \<Rightarrow> string \<Rightarrow> string option" where
  "skip_nested op cl depth [] = None"
| "skip_nested op cl depth (d # ds) =
     (if d = quote then (case parse_string (d # ds) of None \<Rightarrow> None | Some (_, rest) \<Rightarrow> skip_nested op cl depth rest)
      else if d = op then skip_nested op cl (depth + 1) ds
      else if d = cl then (if depth - 1 = 0 then Some ds else skip_nested op cl (depth - 1) ds)
      else skip_nested op cl depth ds)"
  by pat_completeness auto
termination
  by (relation "measure (\<lambda>(_, _, _, s). length s)") (auto dest: parse_string_shorter)

definition skip_value :: "string \<Rightarrow> string option" where
  "skip_value s =
     (let s = ws s; c = peek s in
      if c = quote then map_option snd (parse_string s)
      else if c = CHR ''{'' then skip_nested c (CHR ''}'') 0 s
      else if c = CHR ''['' then skip_nested c (CHR '']'') 0 s
      else let rest = dropWhile (\<lambda>c. c \<noteq> CHR '','' \<and> c \<noteq> CHR ''}'' \<and> c \<noteq> CHR '']'') s
           in if length rest < length s then Some rest else None)"

text \<open>A field: its key and its value, empty unless it is a string.\<close>

definition parse_field :: "string \<Rightarrow> (string \<times> string \<times> string) option" where
  "parse_field s =
     (case parse_string s of
        None \<Rightarrow> None
      | Some (k, s) \<Rightarrow>
          (case eat (CHR '':'') (ws s) of
             None \<Rightarrow> None
           | Some s \<Rightarrow>
               let s = ws s in
               if peek s = quote then map_option (\<lambda>(v, s). (k, v, s)) (parse_string s)
               else map_option (\<lambda>s. (k, [], s)) (skip_value s)))"

lemma skip_nested_shorter: "skip_nested op cl depth s = Some rest \<Longrightarrow> length rest < length s"
proof (induction op cl depth s rule: skip_nested.induct)
  case (2 op cl depth d ds)
  show ?case
  proof (cases "d = quote")
    case True
    then obtain v r where r: "parse_string (d # ds) = Some (v, r)" "skip_nested op cl depth r = Some rest"
      using 2(5) by (auto split: option.splits)
    then have "length rest < length r" using 2(1)[OF True r(1) refl] by simp
    with parse_string_shorter[OF r(1)] show ?thesis by simp
  next
    case False
    with 2 show ?thesis by (auto split: if_splits)
  qed
qed simp

lemma skip_value_shorter: "skip_value s = Some rest \<Longrightarrow> length rest < length s"
  using length_ws[of s] skip_nested_shorter[of _ _ _ "ws s" rest] parse_string_shorter[of "ws s" _ rest]
  by (fastforce simp: skip_value_def Let_def split: if_splits)

lemma parse_field_shorter: "parse_field s = Some (k, v, rest) \<Longrightarrow> length rest < length s"
  using length_ws
  by (auto simp: parse_field_def Let_def eat_Some split: if_splits option.splits
      dest!: parse_string_shorter skip_value_shorter) (metis length_Cons less_or_eq_imp_le less_trans_Suc linorder_not_less Suc_leD le_less_trans)+

type_synonym fields = "string \<Rightarrow> string option"

definition put_field :: "string \<times> string \<Rightarrow> fields \<Rightarrow> fields" where
  "put_field f m = m(fst f \<mapsto> snd f)"

function flat_fields :: "string \<Rightarrow> fields \<Rightarrow> (fields \<times> string) option" where
  "flat_fields s out =
     (case parse_field s of
        None \<Rightarrow> None
      | Some (k, v, s) \<Rightarrow>
          let s = ws s; out = put_field (k, v) out in
          (case eat (CHR '','') s of
             Some s \<Rightarrow> flat_fields (ws s) out
           | None \<Rightarrow> map_option (\<lambda>s. (out, s)) (eat (CHR ''}'') s)))"
  by pat_completeness auto
termination
proof (relation "measure (\<lambda>(s, _). length s)", goal_cases)
  case (2 s out a k b v s1 s2 out' s3)
  then show ?case using parse_field_shorter[of s k v s1] length_ws[of s1] length_ws[of s3] by (auto simp: eat_Some)
qed simp

declare flat_fields.simps [simp del]

definition flat_object :: "string \<Rightarrow> (fields \<times> string) option" where
  "flat_object s =
     (case eat (CHR ''{'') (ws s) of
        None \<Rightarrow> None
      | Some s \<Rightarrow>
          let s = ws s in
          (case eat (CHR ''}'') s of Some s \<Rightarrow> Some (Map.empty, s) | None \<Rightarrow> flat_fields s Map.empty))"

text \<open>The entries of the top-level object: only members that are objects are kept.\<close>

type_synonym entries = "(string \<times> fields) list"

definition parse_member :: "string \<Rightarrow> entries \<Rightarrow> (entries \<times> string) option" where
  "parse_member s out =
     (case parse_string s of
        None \<Rightarrow> None
      | Some (k, s) \<Rightarrow>
          (case eat (CHR '':'') (ws s) of
             None \<Rightarrow> None
           | Some s \<Rightarrow>
               let s = ws s in
               if peek s = CHR ''{'' then map_option (\<lambda>(kv, s). (out @ [(k, kv)], s)) (flat_object s)
               else map_option (\<lambda>s. (out, s)) (skip_value s)))"

lemma flat_fields_shorter: "flat_fields s out = Some (kv, rest) \<Longrightarrow> length rest < length s"
proof (induction s out rule: flat_fields.induct)
  case (1 s out)
  obtain k v r where f: "parse_field s = Some (k, v, r)" using 1(2) by (auto simp: flat_fields.simps[of s] split: option.splits)
  have lr: "length (ws r) < length s" using parse_field_shorter[OF f] length_ws[of r] by simp
  show ?case
  proof (cases "eat (CHR '','') (ws r)")
    case None
    then show ?thesis using 1(2) f lr by (auto simp: flat_fields.simps[of s] eat_Some split: option.splits)
  next
    case (Some r2)
    then have r2: "length r2 < length (ws r)" by (simp add: eat_Some)
    have "flat_fields (ws r2) (put_field (k, v) out) = Some (kv, rest)" using 1(2) f Some by (simp add: flat_fields.simps[of s])
    from 1(1)[OF f refl refl refl refl Some this] show ?thesis using r2 lr length_ws[of r2] by simp
  qed
qed

lemma flat_object_shorter: "flat_object s = Some (kv, rest) \<Longrightarrow> length rest < length s"
proof -
  assume a: "flat_object s = Some (kv, rest)"
  then obtain s1 where s1: "eat (CHR ''{'') (ws s) = Some s1" by (auto simp: flat_object_def split: option.splits)
  then have l: "length s1 < length s" using length_ws[of s] by (simp add: eat_Some)
  show ?thesis
  proof (cases "eat (CHR ''}'') (ws s1)")
    case None
    then have "flat_fields (ws s1) Map.empty = Some (kv, rest)" using a s1 by (simp add: flat_object_def)
    from flat_fields_shorter[OF this] show ?thesis using l length_ws[of s1] by simp
  next
    case (Some r)
    then have "rest = r" using a s1 by (simp add: flat_object_def)
    moreover have "length r < length (ws s1)" using Some by (simp add: eat_Some)
    ultimately show ?thesis using l length_ws[of s1] by simp
  qed
qed

lemma parse_member_shorter: "parse_member s out = Some (out', rest) \<Longrightarrow> length rest < length s"
proof -
  assume a: "parse_member s out = Some (out', rest)"
  then obtain k r where r: "parse_string s = Some (k, r)" by (auto simp: parse_member_def split: option.splits)
  obtain r1 where r1: "eat (CHR '':'') (ws r) = Some r1" using a r by (auto simp: parse_member_def split: option.splits)
  have l: "length (ws r1) < length s"
    using parse_string_shorter[OF r] length_ws[of r] length_ws[of r1] r1 by (simp add: eat_Some)
  show ?thesis
  proof (cases "peek (ws r1) = CHR ''{''")
    case True
    then obtain kv where "flat_object (ws r1) = Some (kv, rest)" using a r r1 by (auto simp: parse_member_def)
    from flat_object_shorter[OF this] show ?thesis using l by simp
  next
    case False
    then have "skip_value (ws r1) = Some rest" using a r r1 by (auto simp: parse_member_def)
    from skip_value_shorter[OF this] show ?thesis using l by simp
  qed
qed

function top_members :: "string \<Rightarrow> entries \<Rightarrow> entries option" where
  "top_members s out =
     (case parse_member s out of
        None \<Rightarrow> None
      | Some (out, s) \<Rightarrow>
          let s = ws s in
          (case eat (CHR '','') s of
             Some s \<Rightarrow> top_members (ws s) out
           | None \<Rightarrow> map_option (\<lambda>_. out) (eat (CHR ''}'') s)))"
  by pat_completeness auto
termination
proof (relation "measure (\<lambda>(s, _). length s)", goal_cases)
  case (2 s out a out1 s1 s2 s3)
  then show ?case using parse_member_shorter[of s out out1 s1] length_ws[of s1] length_ws[of s3] by (auto simp: eat_Some)
qed simp

declare top_members.simps [simp del]

definition top_object :: "string \<Rightarrow> entries option" where
  "top_object s =
     (case eat (CHR ''{'') (ws s) of
        None \<Rightarrow> None
      | Some s \<Rightarrow> let s = ws s in (case eat (CHR ''}'') s of Some _ \<Rightarrow> Some [] | None \<Rightarrow> top_members s []))"

section \<open>Round trips\<close>

lemma hex_value_digit: "n < 16 \<Longrightarrow> escape_value (escape_digit n) = Some n"
  by (auto simp: escape_value_def escape_digit_def of_char_of take_bit_eq_mod Let_def)

lemma parse_escaped: "parse_chars (escape_char c @ rest) out = parse_chars rest (out @ [c])"
proof -
  consider (q) "c = quote" | (b) "c = backslash" | (n) "c = CHR 0x0A" | (r) "c = CHR 0x0D" | (t) "c = CHR 0x09"
    | (ctl) "c \<noteq> quote" "c \<noteq> backslash" "c \<notin> {CHR 0x0A, CHR 0x0D, CHR 0x09}" "(of_char c :: nat) < 0x20"
    | (plain) "c \<noteq> quote" "c \<noteq> backslash" "c \<notin> {CHR 0x0A, CHR 0x0D, CHR 0x09}" "\<not> (of_char c :: nat) < 0x20" by auto
  then show ?thesis
  proof cases
    case ctl
    have "(of_char c :: nat) div 16 < 16" "(of_char c :: nat) mod 16 < 16" using ctl(4) by auto
    then have h: "hex4 (CHR ''0'') (CHR ''0'') (escape_digit (of_char c div 16)) (escape_digit (of_char c mod 16)) = Some (of_char c)"
      by (simp add: hex4_def hex_value_digit) (simp add: escape_value_def)
    show ?thesis using ctl h by (simp add: escape_char_def)
  qed (simp_all add: escape_char_def simple_escape_def, simp_all add: quote_def backslash_def)
qed

lemma parse_escaped_all: "parse_chars (json_escape s @ quote # rest) out = Some (out @ s, rest)"
  by (induction s arbitrary: out) (simp_all add: json_escape_def parse_escaped)

lemma quoted: "parse_string (quote # json_escape s @ quote # rest) = Some (s, rest)"
  using parse_escaped_all[of s rest "[]"]
  by (simp add: parse_string_def ws_def is_ws_def quote_def eat_def peek_def)

text \<open>A catalog as any JSON writer prints it: \<open>sp\<close> is the white space between tokens.\<close>

definition render_string :: "string \<Rightarrow> string" where
  "render_string s = quote # json_escape s @ [quote]"

fun joined :: "string \<Rightarrow> string list \<Rightarrow> string" where
  "joined sp [] = []"
| "joined sp [x] = x"
| "joined sp (x # y # zs) = x @ CHR '','' # sp @ joined sp (y # zs)"

definition render_field :: "string \<Rightarrow> string \<times> string \<Rightarrow> string" where
  "render_field sp = (\<lambda>(k, v). render_string k @ sp @ CHR '':'' # sp @ render_string v @ sp)"

definition render_object :: "string \<Rightarrow> (string \<times> string) list \<Rightarrow> string" where
  "render_object sp fs = CHR ''{'' # sp @ joined sp (map (render_field sp) fs) @ ''}''"

definition render_member :: "string \<Rightarrow> string \<times> (string \<times> string) list \<Rightarrow> string" where
  "render_member sp = (\<lambda>(k, fs). render_string k @ sp @ CHR '':'' # sp @ render_object sp fs @ sp)"

definition render_catalog :: "string \<Rightarrow> (string \<times> (string \<times> string) list) list \<Rightarrow> string" where
  "render_catalog sp es = sp @ CHR ''{'' # sp @ joined sp (map (render_member sp) es) @ ''}''"

definition fields_of :: "(string \<times> string) list \<Rightarrow> fields" where
  "fields_of fs = fold put_field fs Map.empty"

lemma ws_sp: "list_all is_ws sp \<Longrightarrow> \<not> is_ws c \<Longrightarrow> ws (sp @ c # r) = c # r"
  by (simp add: ws_def list_all_iff dropWhile_append2)

lemma tokens: "\<not> is_ws quote" "\<not> is_ws (CHR '':'')" "\<not> is_ws (CHR '','')" "\<not> is_ws (CHR ''{'')" "\<not> is_ws (CHR ''}'')"
  by (simp_all add: is_ws_def quote_def)

lemma token_quote: "quote \<noteq> CHR ''}''" "CHR ''}'' \<noteq> quote" "CHR ''{'' \<noteq> quote"
  by (simp_all add: quote_def)

lemma eat_Cons: "eat c (d # r) = (if d = c then Some r else None)"
  by (simp add: eat_def peek_def)

lemma ws_token: "\<not> is_ws c \<Longrightarrow> ws (c # r) = c # r"
  by (simp add: ws_def)

lemma parse_rendered: "parse_string (render_string s @ rest) = Some (s, rest)"
  using quoted[of s rest] by (simp add: render_string_def)

lemma parse_rendered_field:
  assumes "list_all is_ws sp"
  shows "parse_field (render_field sp (k, v) @ rest) = Some (k, v, sp @ rest)"
proof -
  have "ws (sp @ CHR '':'' # t) = CHR '':'' # t" for t using ws_sp[OF assms tokens(2)] .
  moreover have "ws (sp @ render_string v @ t) = render_string v @ t" for t
    using ws_sp[OF assms tokens(1)] by (simp add: render_string_def)
  moreover have "peek (render_string v @ t) = quote" for t by (simp add: render_string_def peek_def)
  ultimately show ?thesis by (simp add: parse_field_def render_field_def parse_rendered eat_Cons)
qed

lemma flat_fields_rendered:
  assumes "list_all is_ws sp"
  shows "flat_fields (joined sp (map (render_field sp) (f # fs)) @ CHR ''}'' # rest) out =
    Some (fold put_field (f # fs) out, rest)"
proof (induction fs arbitrary: f out)
  case Nil
  obtain k v where f: "f = (k, v)" by (cases f)
  show ?case using parse_rendered_field[OF assms, of k v "CHR ''}'' # rest"] ws_sp[OF assms tokens(5), of rest]
    by (simp add: f flat_fields.simps[of "render_field sp (k, v) @ CHR ''}'' # rest"] eat_Cons)
next
  case (Cons g fs)
  obtain k v where f: "f = (k, v)" by (cases f)
  obtain k' v' where g: "g = (k', v')" by (cases g)
  let ?t = "joined sp (map (render_field sp) (g # fs)) @ CHR ''}'' # rest"
  have head: "\<exists>r. ?t = quote # r" by (cases fs) (simp_all add: g render_field_def render_string_def)
  then have "ws (sp @ ?t) = ?t" using ws_sp[OF assms tokens(1)] by metis
  moreover have "joined sp (map (render_field sp) (f # g # fs)) @ CHR ''}'' # rest = render_field sp (k, v) @ CHR '','' # sp @ ?t"
    by (simp add: f)
  ultimately show ?case
    using parse_rendered_field[OF assms, of k v "CHR '','' # sp @ ?t"] ws_sp[OF assms tokens(3), of "sp @ ?t"] Cons[of g "put_field (k, v) out"]
    by (simp only: flat_fields.simps[of "render_field sp (k, v) @ CHR '','' # sp @ ?t"]) (simp add: f eat_Cons)
qed

lemma flat_object_rendered:
  assumes "list_all is_ws sp"
  shows "flat_object (render_object sp fs @ rest) = Some (fields_of fs, rest)"
proof -
  have brace: "ws (render_object sp fs @ rest) = render_object sp fs @ rest"
    by (simp add: render_object_def ws_token tokens)
  show ?thesis
  proof (cases fs)
    case Nil
    then show ?thesis using brace ws_sp[OF assms tokens(5), of rest]
      by (simp add: flat_object_def render_object_def eat_Cons fields_of_def)
  next
    case (Cons f gs)
    let ?t = "joined sp (map (render_field sp) fs) @ CHR ''}'' # rest"
    obtain k v where f: "f = (k, v)" by (cases f)
    obtain r where r: "?t = quote # r" by (cases gs) (simp_all add: Cons f render_field_def render_string_def)
    have "ws (sp @ ?t) = ?t" using ws_sp[OF assms tokens(1)] r by metis
    moreover have "eat (CHR ''}'') ?t = None" using r token_quote by (simp add: eat_Cons)
    ultimately show ?thesis using brace flat_fields_rendered[OF assms, of f gs rest Map.empty] Cons
      by (simp add: flat_object_def render_object_def eat_Cons fields_of_def)
  qed
qed

lemma parse_rendered_member:
  assumes "list_all is_ws sp"
  shows "parse_member (render_member sp (k, fs) @ rest) out = Some (out @ [(k, fields_of fs)], sp @ rest)"
proof -
  have "ws (sp @ CHR '':'' # t) = CHR '':'' # t" for t using ws_sp[OF assms tokens(2)] .
  moreover have "ws (sp @ render_object sp fs @ t) = render_object sp fs @ t" for t
    using ws_sp[OF assms tokens(4)] by (simp add: render_object_def)
  moreover have "peek (render_object sp fs @ t) = CHR ''{''" for t by (simp add: render_object_def peek_def)
  ultimately show ?thesis
    by (simp add: parse_member_def render_member_def parse_rendered eat_Cons flat_object_rendered[OF assms])
qed

lemma top_members_rendered:
  assumes "list_all is_ws sp"
  shows "top_members (joined sp (map (render_member sp) (e # es)) @ ''}'') out =
    Some (out @ map (\<lambda>(k, fs). (k, fields_of fs)) (e # es))"
proof (induction es arbitrary: e out)
  case Nil
  obtain k fs where e: "e = (k, fs)" by (cases e)
  show ?case using parse_rendered_member[OF assms, of k fs "''}''"] ws_sp[OF assms tokens(5), of "[]"]
    by (simp add: e top_members.simps[of "render_member sp (k, fs) @ ''}''"] eat_Cons)
next
  case (Cons g es)
  obtain k fs where e: "e = (k, fs)" by (cases e)
  obtain k' fs' where g: "g = (k', fs')" by (cases g)
  let ?t = "joined sp (map (render_member sp) (g # es)) @ ''}''"
  have "\<exists>r. ?t = quote # r" by (cases es) (simp_all add: g render_member_def render_string_def)
  then have "ws (sp @ ?t) = ?t" using ws_sp[OF assms tokens(1)] by metis
  moreover have "joined sp (map (render_member sp) (e # g # es)) @ ''}'' = render_member sp (k, fs) @ CHR '','' # sp @ ?t"
    by (simp add: e)
  ultimately show ?case
    using parse_rendered_member[OF assms, of k fs "CHR '','' # sp @ ?t" out] ws_sp[OF assms tokens(3), of "sp @ ?t"]
      Cons[of g "out @ [(k, fields_of fs)]"]
    by (simp only: top_members.simps[of "render_member sp (k, fs) @ CHR '','' # sp @ ?t"]) (simp add: e eat_Cons)
qed

text \<open>C28. The catalog reader understands what a JSON writer prints: for any entries with string fields, any
  characters in the keys and values and any white space between the tokens, reading the printed catalog
  gives the entries back, with the last value of a repeated field. In particular a string written by
  \<open>json_escape\<close> is read back byte for byte.\<close>

theorem catalog_roundtrip:
  assumes "list_all is_ws sp"
  shows "top_object (render_catalog sp es) = Some (map (\<lambda>(k, fs). (k, fields_of fs)) es)"
proof -
  have brace: "ws (render_catalog sp es) = CHR ''{'' # sp @ joined sp (map (render_member sp) es) @ ''}''"
    using ws_sp[OF assms tokens(4)] by (simp add: render_catalog_def)
  show ?thesis
  proof (cases es)
    case Nil
    then show ?thesis using brace ws_sp[OF assms tokens(5), of "[]"] by (simp add: top_object_def eat_Cons)
  next
    case (Cons e gs)
    let ?t = "joined sp (map (render_member sp) es) @ ''}''"
    obtain k fs where e: "e = (k, fs)" by (cases e)
    obtain r where r: "?t = quote # r" by (cases gs) (simp_all add: Cons e render_member_def render_string_def)
    have "ws (sp @ ?t) = ?t" using ws_sp[OF assms tokens(1)] r by metis
    moreover have "eat (CHR ''}'') ?t = None" using r token_quote by (simp add: eat_Cons)
    ultimately show ?thesis using brace top_members_rendered[OF assms, of e gs "[]"] Cons
      by (simp add: top_object_def eat_Cons)
  qed
qed

theorem catalog_roundtrip_witness:
  "top_object (render_catalog [CHR 0x0A, CHR '' '']
     [(''m'', [(''checkpoint'', [CHR 0x22, CHR 0x5C, CHR 0x01, CHR 0xC3]), (''recipe'', [])])]) =
   Some [(''m'', fields_of [(''checkpoint'', [CHR 0x22, CHR 0x5C, CHR 0x01, CHR 0xC3]), (''recipe'', [])])]"
  using catalog_roundtrip[of "[CHR 0x0A, CHR '' '']"] by (simp add: is_ws_def)

end
