(* ===== verification/Sha256.thy ===== *)
theory Sha256
  imports Prelude "HOL-Library.While_Combinator"
begin

text \<open>
  The SHA-256 of \<open>src/model_registry.cpp\<close> (\<open>struct Sha256\<close>, \<open>sha256_file\<close>), which decides what a proven duplicate
  is: a streaming implementation with a 64-byte buffer. It is compared with the standard's definition on the
  whole message (FIPS 180-4): the padded message in blocks, the message schedule as a recurrence.
\<close>

unbundle bit_operations_syntax

record sha =
  sh_h :: "u32 list"
  sh_len :: u64
  sh_buf :: "byte list"

definition sha_iv :: "u32 list" where
  "sha_iv = [0x6a09e667, 0xbb67ae85, 0x3c6ef372, 0xa54ff53a, 0x510e527f, 0x9b05688c, 0x1f83d9ab, 0x5be0cd19]"

definition sha_k :: "u32 list" where
  "sha_k =
     [0x428a2f98, 0x71374491, 0xb5c0fbcf, 0xe9b5dba5, 0x3956c25b, 0x59f111f1, 0x923f82a4, 0xab1c5ed5,
      0xd807aa98, 0x12835b01, 0x243185be, 0x550c7dc3, 0x72be5d74, 0x80deb1fe, 0x9bdc06a7, 0xc19bf174,
      0xe49b69c1, 0xefbe4786, 0x0fc19dc6, 0x240ca1cc, 0x2de92c6f, 0x4a7484aa, 0x5cb0a9dc, 0x76f988da,
      0x983e5152, 0xa831c66d, 0xb00327c8, 0xbf597fc7, 0xc6e00bf3, 0xd5a79147, 0x06ca6351, 0x14292967,
      0x27b70a85, 0x2e1b2138, 0x4d2c6dfc, 0x53380d13, 0x650a7354, 0x766a0abb, 0x81c2c92e, 0x92722c85,
      0xa2bfe8a1, 0xa81a664b, 0xc24b8b70, 0xc76c51a3, 0xd192e819, 0xd6990624, 0xf40e3585, 0x106aa070,
      0x19a4c116, 0x1e376c08, 0x2748774c, 0x34b0bcb5, 0x391c0cb3, 0x4ed8aa4a, 0x5b9cca4f, 0x682e6ff3,
      0x748f82ee, 0x78a5636f, 0x84c87814, 0x8cc70208, 0x90befffa, 0xa4506ceb, 0xbef9a3f7, 0xc67178f2]"

definition new_sha :: sha where
  "new_sha = \<lparr>sh_h = sha_iv, sh_len = 0, sh_buf = []\<rparr>"

definition rotr :: "u32 \<Rightarrow> nat \<Rightarrow> u32" where
  "rotr x n = drop_bit n x OR push_bit (32 - n) x"

section \<open>One block\<close>

definition be32 :: "byte list \<Rightarrow> nat \<Rightarrow> u32" where
  "be32 p i = push_bit 24 (ucast (p ! (4 * i))) OR push_bit 16 (ucast (p ! (4 * i + 1))) OR
     push_bit 8 (ucast (p ! (4 * i + 2))) OR ucast (p ! (4 * i + 3))"

definition extend_schedule :: "nat \<Rightarrow> u32 list \<Rightarrow> u32 list" where
  "extend_schedule i w =
     (let s0 = rotr (w ! (i - 15)) 7 XOR rotr (w ! (i - 15)) 18 XOR drop_bit 3 (w ! (i - 15));
          s1 = rotr (w ! (i - 2)) 17 XOR rotr (w ! (i - 2)) 19 XOR drop_bit 10 (w ! (i - 2))
      in w @ [w ! (i - 16) + s0 + w ! (i - 7) + s1])"

definition schedule :: "byte list \<Rightarrow> u32 list" where
  "schedule p = fold extend_schedule [16..<64] (map (be32 p) [0..<16])"

type_synonym working = "u32 \<times> u32 \<times> u32 \<times> u32 \<times> u32 \<times> u32 \<times> u32 \<times> u32"

definition sha_round :: "u32 list \<Rightarrow> nat \<Rightarrow> working \<Rightarrow> working" where
  "sha_round w i = (\<lambda>(a, b, c, d, e, f, g, hh).
     let S1 = rotr e 6 XOR rotr e 11 XOR rotr e 25;
         ch = (e AND f) XOR (NOT e AND g);
         t1 = hh + S1 + ch + sha_k ! i + w ! i;
         S0 = rotr a 2 XOR rotr a 13 XOR rotr a 22;
         mj = (a AND b) XOR (a AND c) XOR (b AND c);
         t2 = S0 + mj
     in (t1 + t2, a, b, c, d + t1, e, f, g))"

definition sha_block :: "byte list \<Rightarrow> u32 list \<Rightarrow> u32 list" where
  "sha_block p h =
     (let w = schedule p;
          (a, b, c, d, e, f, g, hh) = fold (sha_round w) [0..<64] (h ! 0, h ! 1, h ! 2, h ! 3, h ! 4, h ! 5, h ! 6, h ! 7)
      in [h ! 0 + a, h ! 1 + b, h ! 2 + c, h ! 3 + d, h ! 4 + e, h ! 5 + f, h ! 6 + g, h ! 7 + hh])"

section \<open>Streaming\<close>

text \<open>The loop of \<open>update\<close>. A state with a full buffer does not arise; the code would not return on it.\<close>

function sha_absorb :: "byte list \<Rightarrow> sha \<Rightarrow> sha" where
  "sha_absorb p s =
     (if p = [] \<or> 64 \<le> length (sh_buf s) then s
      else let n = min (length p) (64 - length (sh_buf s)); buf = sh_buf s @ take n p
           in sha_absorb (drop n p)
                (if length buf = 64 then s\<lparr>sh_h := sha_block buf (sh_h s), sh_buf := []\<rparr> else s\<lparr>sh_buf := buf\<rparr>))"
  by pat_completeness auto
termination by (relation "measure (\<lambda>(p, _). length p)") auto

declare sha_absorb.simps [simp del]

definition sha_update :: "byte list \<Rightarrow> sha \<Rightarrow> sha" where
  "sha_update p s = sha_absorb p (s\<lparr>sh_len := sh_len s + of_nat (length p)\<rparr>)"

definition be64 :: "u64 \<Rightarrow> byte list" where
  "be64 bits = map (\<lambda>i. ucast (drop_bit (56 - 8 * i) bits)) [0..<8]"

definition hex_char :: "nat \<Rightarrow> char" where
  "hex_char n = (''0123456789abcdef'' ! n)"

definition hex_word :: "u32 \<Rightarrow> string" where
  "hex_word h = concat (map (\<lambda>j. let b = ucast (drop_bit (8 * j) h) :: byte in
     [hex_char (unat (drop_bit 4 b)), hex_char (unat (b AND 15))]) [3, 2, 1, 0])"

definition sha_finish :: "sha \<Rightarrow> sha" where
  "sha_finish s =
     (let bits = sh_len s * 8;
          s = sha_update [0x80] s;
          s = while (\<lambda>s. length (sh_buf s) \<noteq> 56) (sha_update [0]) s
      in sha_update (be64 bits) s)"

definition sha_hex :: "sha \<Rightarrow> string" where
  "sha_hex s = concat (map hex_word (sh_h (sha_finish s)))"

text \<open>\<open>sha256_file\<close>: \<open>None\<close> is a file that cannot be opened; it is read in pieces of 1 MiB.\<close>

function read_pieces :: "byte list \<Rightarrow> byte list list" where
  "read_pieces bs = (if bs = [] then [] else take (2 ^ 20) bs # read_pieces (drop (2 ^ 20) bs))"
  by pat_completeness auto
termination by (relation "measure length") auto

declare read_pieces.simps [simp del]

definition sha256_file :: "byte list option \<Rightarrow> string" where
  "sha256_file content = (case content of None \<Rightarrow> [] | Some bs \<Rightarrow> sha_hex (fold sha_update (read_pieces bs) new_sha))"

section \<open>The standard\<close>

text \<open>The padded message and its blocks.\<close>

definition padded :: "byte list \<Rightarrow> byte list" where
  "padded m = m @ 0x80 # replicate ((119 - length m mod 64) mod 64) 0 @ be64 (of_nat (8 * length m))"

fun blocks_of :: "nat \<Rightarrow> byte list \<Rightarrow> byte list list" where
  "blocks_of 0 m = []"
| "blocks_of (Suc n) m = take 64 m # blocks_of n (drop 64 m)"

definition sig0 :: "u32 \<Rightarrow> u32" where "sig0 x = word_rotr 7 x XOR word_rotr 18 x XOR drop_bit 3 x"
definition sig1 :: "u32 \<Rightarrow> u32" where "sig1 x = word_rotr 17 x XOR word_rotr 19 x XOR drop_bit 10 x"
definition Sig0 :: "u32 \<Rightarrow> u32" where "Sig0 x = word_rotr 2 x XOR word_rotr 13 x XOR word_rotr 22 x"
definition Sig1 :: "u32 \<Rightarrow> u32" where "Sig1 x = word_rotr 6 x XOR word_rotr 11 x XOR word_rotr 25 x"

function message_word :: "byte list \<Rightarrow> nat \<Rightarrow> u32" where
  "message_word p t =
     (if t < 16 then be32 p t
      else sig1 (message_word p (t - 2)) + message_word p (t - 7) + sig0 (message_word p (t - 15)) + message_word p (t - 16))"
  by pat_completeness auto
termination by (relation "measure snd") auto

declare message_word.simps [simp del]

text \<open>The eight working variables after \<open>t\<close> rounds.\<close>

fun working_vars :: "byte list \<Rightarrow> u32 list \<Rightarrow> nat \<Rightarrow> working" where
  "working_vars p h 0 = (h ! 0, h ! 1, h ! 2, h ! 3, h ! 4, h ! 5, h ! 6, h ! 7)"
| "working_vars p h (Suc t) =
     (case working_vars p h t of (a, b, c, d, e, f, g, hh) \<Rightarrow>
        let T1 = hh + Sig1 e + ((e AND f) XOR (NOT e AND g)) + sha_k ! t + message_word p t;
            T2 = Sig0 a + ((a AND b) XOR (a AND c) XOR (b AND c))
        in (T1 + T2, a, b, c, d + T1, e, f, g))"

definition compress :: "byte list \<Rightarrow> u32 list \<Rightarrow> u32 list" where
  "compress p h =
     (case working_vars p h 64 of (a, b, c, d, e, f, g, hh) \<Rightarrow>
        map2 (+) h [a, b, c, d, e, f, g, hh])"

definition sha256_digest :: "byte list \<Rightarrow> string" where
  "sha256_digest m =
     concat (map hex_word (fold compress (blocks_of (length (padded m) div 64) (padded m)) sha_iv))"

section \<open>The block function\<close>

lemma rotr_eq:
  assumes "0 < n" "n < 32"
  shows "rotr x n = word_rotr n x"
proof (rule bit_word_eqI)
  fix k assume "k < LENGTH(32)"
  then have k: "k < 32" by simp
  show "bit (rotr x n) k \<longleftrightarrow> bit (word_rotr n x) k"
  proof (cases "k + n < 32")
    case True
    then show ?thesis
      using k by (auto simp: rotr_def bit_or_iff bit_drop_bit_eq bit_push_bit_iff bit_word_rotr_iff add.commute)
  next
    case False
    then have "(k + n) mod 32 = k + n - 32" "\<not> bit x (n + k)"
      using k assms bit_imp_le_length[of x "n + k"] by (auto simp: mod_if)
    then show ?thesis
      using k assms False by (auto simp: rotr_def bit_or_iff bit_drop_bit_eq bit_push_bit_iff bit_word_rotr_iff)
  qed
qed

lemma schedule_prefix:
  "n \<le> 48 \<Longrightarrow> fold extend_schedule [16..<16 + n] (map (be32 p) [0..<16]) = map (message_word p) [0..<16 + n]"
proof (induction n)
  case 0
  have "map (be32 p) [0..<16] = map (message_word p) [0..<16]" by (simp add: message_word.simps)
  then show ?case by simp
next
  case (Suc n)
  let ?w = "map (message_word p) [0..<16 + n]"
  have nth: "?w ! (16 + n - k) = message_word p (16 + n - k)" if "0 < k" "k \<le> 16" for k
    using that by simp
  have "extend_schedule (16 + n) ?w = ?w @ [message_word p (16 + n)]"
    unfolding extend_schedule_def Let_def message_word.simps[of p "16 + n"] sig0_def sig1_def
    by (simp add: nth[of 15] nth[of 2] nth[of 7] nth[of 16] rotr_eq ac_simps)
  moreover have "fold extend_schedule [16..<16 + n] (map (be32 p) [0..<16]) = ?w" using Suc by simp
  moreover have "[16..<16 + Suc n] = [16..<16 + n] @ [16 + n]" "[0..<16 + Suc n] = [0..<16 + n] @ [16 + n]"
    unfolding add_Suc_right by (rule upt_Suc_append, simp)+
  ultimately show ?case by (simp only: fold_append map_append) simp
qed

lemma schedule_eq: "schedule p = map (message_word p) [0..<64]"
  using schedule_prefix[of 48 p] by (simp add: schedule_def)

lemma rounds_eq: "n \<le> 64 \<Longrightarrow>
  fold (sha_round (schedule p)) [0..<n] (h ! 0, h ! 1, h ! 2, h ! 3, h ! 4, h ! 5, h ! 6, h ! 7) = working_vars p h n"
proof (induction n)
  case (Suc n)
  then show ?case
    by (simp add: sha_round_def schedule_eq Let_def Sig0_def Sig1_def rotr_eq split: prod.split)
qed simp

lemma block_eq: "length h = 8 \<Longrightarrow> sha_block p h = compress p h"
proof -
  assume "length h = 8"
  then obtain a b c d e f g hh where h: "h = [a, b, c, d, e, f, g, hh]"
    by (auto simp: length_Suc_conv eval_nat_numeral)
  show ?thesis unfolding sha_block_def Let_def compress_def rounds_eq[OF order.refl]
    by (simp add: h split: prod.split)
qed

section \<open>The stream\<close>

lemma length_compress: "length h = 8 \<Longrightarrow> length (compress p h) = 8"
  by (simp add: compress_def split: prod.split)

lemma length_fold_compress: "length h = 8 \<Longrightarrow> length (fold compress ps h) = 8"
  by (induction ps arbitrary: h) (simp_all add: length_compress)

lemma blocks_of_prefix: "64 * n \<le> length m \<Longrightarrow> blocks_of n (m @ x) = blocks_of n m"
  by (induction n arbitrary: m) simp_all

lemma blocks_of_Suc: "64 * Suc n \<le> length m \<Longrightarrow> blocks_of (Suc n) m = blocks_of n m @ [take 64 (drop (64 * n) m)]"
proof (induction n arbitrary: m)
  case (Suc n)
  have "blocks_of (Suc n) (drop 64 m) = blocks_of n (drop 64 m) @ [take 64 (drop (64 * n) (drop 64 m))]"
    by (rule Suc.IH) (use Suc.prems in simp)
  then show ?case by (simp add: add.commute)
qed simp

text \<open>The state after a message: the hash of its full blocks, and the rest in the buffer.\<close>

definition absorbed :: "byte list \<Rightarrow> sha \<Rightarrow> bool" where
  "absorbed m s \<longleftrightarrow> sh_h s = fold compress (blocks_of (length m div 64) m) sha_iv \<and> sh_buf s = drop (64 * (length m div 64)) m"

lemma absorbed_new: "absorbed [] new_sha"
  by (simp add: absorbed_def new_sha_def)

lemma absorbed_buf: "absorbed m s \<Longrightarrow> length (sh_buf s) = length m mod 64"
  by (simp add: absorbed_def minus_mult_div_eq_mod)

lemma absorb_piece:
  assumes a: "absorbed m s" and n: "length (sh_buf s) + length x \<le> 64" and buf: "buf = sh_buf s @ x"
  shows "absorbed (m @ x) (if length buf = 64 then s\<lparr>sh_h := sha_block buf (sh_h s), sh_buf := []\<rparr> else s\<lparr>sh_buf := buf\<rparr>)"
proof -
  let ?q = "length m div 64"
  have q: "64 * ?q \<le> length m" "length m = 64 * ?q + length (sh_buf s)" using absorbed_buf[OF a] by simp_all
  have h: "sh_h s = fold compress (blocks_of ?q m) sha_iv" "sh_buf s = drop (64 * ?q) m" using a by (simp_all add: absorbed_def)
  show ?thesis
  proof (cases "length buf = 64")
    case True
    then have len: "length (m @ x) = 64 * Suc ?q" using q(2) buf by simp
    then have d: "length (m @ x) div 64 = Suc ?q" by simp
    have "take 64 (drop (64 * ?q) (m @ x)) = buf" using h(2) buf q(1) True by simp
    then have "blocks_of (Suc ?q) (m @ x) = blocks_of ?q m @ [buf]"
      using blocks_of_Suc[of ?q "m @ x"] len blocks_of_prefix[OF q(1), of x] by simp
    moreover have "length (sh_h s) = 8" using h length_fold_compress[of sha_iv] by (simp add: sha_iv_def)
    ultimately show ?thesis using True d h(1) len block_eq[of "sh_h s" buf] unfolding absorbed_def d by simp
  next
    case False
    then have "length (m @ x) = 64 * ?q + length buf" "length buf < 64" using q(2) buf n by auto
    then have d: "length (m @ x) div 64 = ?q" by simp
    show ?thesis using False h q(1) buf blocks_of_prefix[OF q(1), of x] unfolding absorbed_def d by simp
  qed
qed

lemma absorb_all: "absorbed m s \<Longrightarrow> absorbed (m @ p) (sha_absorb p s)"
proof (induction p s arbitrary: m rule: sha_absorb.induct)
  case (1 p s)
  have l: "length (sh_buf s) < 64" using absorbed_buf[OF 1(2)] by simp
  show ?case
  proof (cases "p = []")
    case True
    then show ?thesis using 1(2) by (simp add: sha_absorb.simps)
  next
    case False
    define n where "n = min (length p) (64 - length (sh_buf s))"
    define buf where "buf = sh_buf s @ take n p"
    let ?s = "if length buf = 64 then s\<lparr>sh_h := sha_block buf (sh_h s), sh_buf := []\<rparr> else s\<lparr>sh_buf := buf\<rparr>"
    have "absorbed (m @ take n p) ?s" by (rule absorb_piece[OF 1(2) _ buf_def]) (use l in \<open>simp add: n_def\<close>)
    moreover have "\<not> (p = [] \<or> 64 \<le> length (sh_buf s))" using False l by simp
    ultimately have "absorbed ((m @ take n p) @ drop n p) (sha_absorb (drop n p) ?s)"
      using 1(1)[OF _ n_def buf_def] by blast
    moreover have "sha_absorb p s = sha_absorb (drop n p) ?s"
      using False l by (subst sha_absorb.simps) (simp add: n_def buf_def Let_def)
    ultimately show ?thesis by simp
  qed
qed

lemma sha_absorb_len: "sh_len (sha_absorb p s) = sh_len s"
proof (induction p s rule: sha_absorb.induct)
  case (1 p s)
  then show ?case by (subst sha_absorb.simps) (auto simp: Let_def)
qed

lemma absorbed_update: "absorbed m s \<Longrightarrow> absorbed (m @ p) (sha_update p s)"
  unfolding sha_update_def by (rule absorb_all) (simp add: absorbed_def)

lemma sha_update_len: "sh_len (sha_update p s) = sh_len s + of_nat (length p)"
  by (simp add: sha_update_def sha_absorb_len)

lemma absorbed_updates: "absorbed m s \<Longrightarrow> absorbed (m @ concat ps) (fold sha_update ps s)"
  by (induction ps arbitrary: m s) (use absorbed_update in fastforce)+

lemma updates_len: "sh_len (fold sha_update ps s) = sh_len s + of_nat (length (concat ps))"
  by (induction ps arbitrary: s) (simp_all add: sha_update_len)

lemma pad_loop:
  "absorbed x s \<Longrightarrow> (length x + k) mod 64 = 56 \<Longrightarrow> k < 64 \<Longrightarrow>
   absorbed (x @ replicate k 0) (while (\<lambda>s. length (sh_buf s) \<noteq> 56) (sha_update [0]) s)"
proof (induction k arbitrary: x s)
  case 0
  then show ?case using absorbed_buf[OF 0(1)] by (subst while_unfold) simp
next
  case (Suc k)
  have "length x mod 64 \<noteq> 56"
  proof
    assume r: "length x mod 64 = 56"
    have "(56 + Suc k) mod 64 = 56" using Suc.prems(2) r by (metis mod_add_left_eq)
    then show False using Suc.prems(3) by (simp add: mod_if split: if_splits)
  qed
  moreover have "absorbed ((x @ [0]) @ replicate k 0) (while (\<lambda>s. length (sh_buf s) \<noteq> 56) (sha_update [0]) (sha_update [0] s))"
    by (rule Suc.IH[OF absorbed_update[OF Suc.prems(1)]]) (use Suc.prems in simp_all)
  ultimately show ?case using absorbed_buf[OF Suc.prems(1)] by (subst while_unfold) simp
qed

lemma padding_fits: "(Suc n + (119 - n mod 64) mod 64) mod 64 = 56"
proof -
  let ?r = "n mod 64" and ?f = "(119 - n mod 64) mod 64" and ?e = "(119 - n mod 64) div 64"
  have arith: "Suc n + f + 64 * e = 120 + 64 * q" if "f + 64 * e = 119 - r" "r < 64" "n = 64 * q + r" for f e r q :: nat
    using that by linarith
  have "Suc n + ?f + 64 * ?e = 120 + 64 * (n div 64)"
    by (rule arith[of _ _ ?r]) (rule mod_mult_div_eq, rule mod_less_divisor, simp, rule mult_div_mod_eq[symmetric])
  moreover have "(Suc n + ?f + 64 * ?e) mod 64 = (Suc n + ?f) mod 64" by (rule mod_mult_self2)
  moreover have "(120 + 64 * (n div 64)) mod 64 = (56 :: nat)" by (simp only: mod_mult_self2) simp
  ultimately show ?thesis by metis
qed

lemma sha_hex_absorbed:
  assumes "absorbed m s" "sh_len s = of_nat (length m)"
  shows "sha_hex s = sha256_digest m"
proof -
  let ?x = "m @ [0x80]" and ?k = "(119 - length m mod 64) mod 64"
  have k: "(length ?x + ?k) mod 64 = 56" "?k < 64" using padding_fits[of "length m"] by simp_all
  have "absorbed (?x @ replicate ?k 0) (while (\<lambda>s. length (sh_buf s) \<noteq> 56) (sha_update [0]) (sha_update [0x80] s))"
    by (rule pad_loop[OF absorbed_update[OF assms(1)] k])
  from absorbed_update[OF this, of "be64 (sh_len s * 8)"] have "absorbed (padded m) (sha_finish s)"
    by (simp add: sha_finish_def padded_def assms(2) mult.commute)
  then show ?thesis by (simp add: sha_hex_def sha256_digest_def absorbed_def)
qed

lemma concat_pieces: "concat (read_pieces bs) = bs"
proof (induction bs rule: read_pieces.induct)
  case (1 bs)
  then show ?case by (subst read_pieces.simps) auto
qed

text \<open>C27. The digest the registry compares files by is SHA-256: however a message is cut into pieces for \<open>update\<close>,
  and so for every file read in pieces of 1 MiB, the result is the standard's hash of the whole message.
  Equal messages therefore have equal digests, whatever the cuts. (The length field is the bit length
  modulo \<open>2^64\<close>.)\<close>

theorem sha256_correct:
  "sha_hex (fold sha_update pieces new_sha) = sha256_digest (concat pieces) \<and>
   sha256_file (Some bs) = sha256_digest bs"
proof -
  have all: "sha_hex (fold sha_update ps new_sha) = sha256_digest (concat ps)" for ps
    using absorbed_updates[OF absorbed_new, of ps] updates_len[of ps new_sha]
    by (intro sha_hex_absorbed) (simp_all add: new_sha_def)
  then show ?thesis by (simp add: sha256_file_def concat_pieces)
qed

end
