(* ===== verification/Registry.thy ===== *)
theory Registry
  imports Prelude
begin

text \<open>
  The part of \<open>src/model_registry.cpp\<close> the serving path asks: what can serve an artifact, under which context
  limit, and which artifact a name or a path means. An artifact keeps the fields these functions and the
  route planner read; \<open>RegistryScan\<close> models how a scan fills the registry. A limit is its number of tokens
  (0 in an override removes it), its notes and provenance are left out.
\<close>

datatype container = ContGGUF | ContONEBP | ContSafetensors | ContMLX | ContRawBin | ContUnknown

datatype dtype_space = DsEmpty | GGML_MAINLINE | ENGINE_TERNARY | HRX2_Q4NX | AMBIGUOUS | ONEBP_HEADER | Q4NX_JSON
  | UNRECOGNIZED_NATIVE

datatype capability = FUSED_GPU_NPU | VULKAN_1BP | NPU_Q4NX | NPU_1BP | HIP_1BP | HIP_GGUF | RADV_GGUF
  | HRX2_GGUF_Q4NX | HRX_GGUF | MLX_GPU | CPU | CapUnknown

record artifact_file =
  af_path :: string
  af_bytes :: u64
  af_shard_index :: u16
  af_shard_count :: u16
  af_digest :: string
  af_duplicate :: bool

record artifact =
  ma_id :: string
  ma_aliases :: "string list"
  ma_display_name :: string
  ma_architecture :: string
  ma_quantization :: string
  ma_lineage :: string
  ma_container :: container
  ma_dtype_space :: dtype_space
  ma_declared_hidden :: int
  ma_declared_layers :: int
  ma_declared_experts :: int
  ma_native_has_experts :: bool
  ma_native_experts :: int
  ma_native_tensors :: int
  ma_tensor_count :: int
  ma_tok_embd_dtype :: int
  ma_q4nx_mismatch :: bool
  ma_native_mismatch :: bool
  ma_arch_suspect :: bool
  ma_display_suspect :: bool
  ma_underdeclared :: bool
  ma_capabilities :: "capability list"
  ma_files :: "artifact_file list"
  ma_tokenizer :: string
  ma_tokenizer_borrowed :: bool
  ma_merged_ids :: "string list"
  ma_catalog_ids :: "string list"

section \<open>Names\<close>

definition lower_char :: "char \<Rightarrow> char" where
  "lower_char c = (if 65 \<le> (of_char c :: nat) \<and> (of_char c :: nat) \<le> 90 then char_of ((of_char c :: nat) + 32) else c)"

definition lower :: "string \<Rightarrow> string" where
  "lower = map lower_char"

definition separator :: "char \<Rightarrow> bool" where
  "separator c \<longleftrightarrow> c \<in> set ''_ .+()[],''"

definition norm_step :: "char \<Rightarrow> string \<times> bool \<Rightarrow> string \<times> bool" where
  "norm_step c = (\<lambda>(out, dash).
     if separator c then (if out \<noteq> [] \<and> \<not> dash then (out @ ''-'', True) else (out, dash)) else (out @ [c], c = CHR ''-''))"

definition trim_end :: "string \<Rightarrow> string" where
  "trim_end s = rev (dropWhile (\<lambda>c. c = CHR ''-'' \<or> c = CHR ''.'') (rev s))"

definition collapse_step :: "char \<Rightarrow> string \<Rightarrow> string" where
  "collapse_step c out = (if c = CHR ''-'' \<and> out \<noteq> [] \<and> last out = CHR ''-'' then out else out @ [c])"

definition normalize_token :: "string \<Rightarrow> string" where
  "normalize_token s = fold collapse_step (trim_end (fst (fold norm_step (lower s) ([], False)))) []"

definition basename_of :: "string \<Rightarrow> string" where
  "basename_of p = rev (takeWhile (\<lambda>c. c \<noteq> CHR ''/'') (rev p))"

text \<open>\<open>id_quality\<close> is empty (true here) when some alias is the id up to normalisation.\<close>

definition id_clean :: "artifact \<Rightarrow> bool" where
  "id_clean a \<longleftrightarrow> list_ex (\<lambda>al. normalize_token al = normalize_token (ma_id a)) (ma_aliases a)"

section \<open>Capabilities\<close>

definition derive_capabilities :: "container \<Rightarrow> dtype_space \<Rightarrow> bool \<Rightarrow> capability list" where
  "derive_capabilities c sp q4nx_named = remdups_adj (case c of
       ContONEBP \<Rightarrow>
         if q4nx_named \<and> sp = Q4NX_JSON then [NPU_Q4NX, CPU]
         else [FUSED_GPU_NPU, HIP_1BP, VULKAN_1BP, if q4nx_named then NPU_Q4NX else NPU_1BP]
     | ContGGUF \<Rightarrow>
         (if sp = HRX2_Q4NX then [HRX2_GGUF_Q4NX]
          else if sp = ENGINE_TERNARY then [HIP_GGUF, CPU]
          else [HRX_GGUF, RADV_GGUF, HIP_GGUF, CPU]) @ [CPU]
     | ContMLX \<Rightarrow> [MLX_GPU, CPU]
     | ContSafetensors \<Rightarrow> [CPU]
     | ContRawBin \<Rightarrow> [NPU_Q4NX, CPU]
     | ContUnknown \<Rightarrow> [CapUnknown])"

type_synonym overrides = "(capability \<times> nat) list"

definition set_limit_override :: "capability \<Rightarrow> nat \<Rightarrow> overrides \<Rightarrow> overrides" where
  "set_limit_override c n ovs =
     (case find_entry (\<lambda>o'. fst o' = c) ovs of Some i \<Rightarrow> ovs[i := (c, n)] | None \<Rightarrow> ovs @ [(c, n)])"

definition capability_limit :: "overrides \<Rightarrow> capability \<Rightarrow> nat option" where
  "capability_limit ovs c =
     (case find_entry (\<lambda>o'. fst o' = c) ovs of
        Some i \<Rightarrow> if snd (ovs ! i) = 0 then None else Some (snd (ovs ! i))
      | None \<Rightarrow> if c = HRX_GGUF then Some 2048 else None)"

definition has :: "artifact \<Rightarrow> capability \<Rightarrow> bool" where
  "has a c \<longleftrightarrow> c \<in> set (ma_capabilities a)"

definition max_context_for :: "overrides \<Rightarrow> artifact \<Rightarrow> capability \<Rightarrow> nat" where
  "max_context_for ovs a c =
     (if \<not> has a c then 0 else case capability_limit ovs c of Some n \<Rightarrow> n | None \<Rightarrow> 0)"

definition supports :: "overrides \<Rightarrow> artifact \<Rightarrow> capability \<Rightarrow> nat \<Rightarrow> bool" where
  "supports ovs a c ctx \<longleftrightarrow>
     has a c \<and> (let lim = max_context_for ovs a c in lim = 0 \<or> ctx \<le> lim)"

section \<open>Queries\<close>

definition find_artifact :: "artifact list \<Rightarrow> string \<Rightarrow> artifact option" where
  "find_artifact reg name = List.find (\<lambda>a. ma_id a = name \<or> name \<in> set (ma_aliases a)) reg"

definition resolve_path :: "artifact list \<Rightarrow> string \<Rightarrow> artifact option" where
  "resolve_path reg path =
     (case List.find (\<lambda>a. list_ex (\<lambda>f. af_path f = path \<or> basename_of (af_path f) = basename_of path) (ma_files a)) reg of
        Some a \<Rightarrow> Some a
      | None \<Rightarrow> List.find (\<lambda>a. ma_id a = path) reg)"

text \<open>\<open>std::string\<close>'s order on the ids.\<close>

fun string_less :: "string \<Rightarrow> string \<Rightarrow> bool" where
  "string_less _ [] = False"
| "string_less [] (_ # _) = True"
| "string_less (a # as) (b # bs) = ((of_char a :: nat) < of_char b \<or> a = b \<and> string_less as bs)"

definition better_id :: "artifact \<Rightarrow> artifact \<Rightarrow> bool" where
  "better_id a b =
     (if id_clean a \<noteq> id_clean b then id_clean a
      else if length (ma_id a) \<noteq> length (ma_id b) then length (ma_id a) < length (ma_id b)
      else string_less (ma_id a) (ma_id b))"

definition preferred_artifact :: "artifact list \<Rightarrow> string \<Rightarrow> artifact option" where
  "preferred_artifact reg name =
     (case find_artifact reg name of
        Some a \<Rightarrow> Some a
      | None \<Rightarrow> fold (\<lambda>a best.
            if ma_display_name a \<noteq> name then best
            else case best of None \<Rightarrow> Some a | Some b \<Rightarrow> if better_id a b then Some a else best) reg None)"

definition with_capability :: "artifact list \<Rightarrow> capability \<Rightarrow> artifact list" where
  "with_capability reg c = filter (\<lambda>a. has a c) reg"

definition serve_at :: "overrides \<Rightarrow> artifact list \<Rightarrow> capability \<Rightarrow> nat \<Rightarrow> artifact list" where
  "serve_at ovs reg c ctx = filter (\<lambda>a. supports ovs a c ctx) reg"

text \<open>The resolver: the chosen capability with whether it is limited, and the capabilities it rejected.\<close>

record decision =
  rd_artifact :: "artifact option"
  rd_chosen :: "capability option"
  rd_limit_binding :: bool
  rd_rejected :: "capability list"

fun first_serving :: "overrides \<Rightarrow> artifact \<Rightarrow> nat \<Rightarrow> capability list \<Rightarrow> capability list \<Rightarrow> decision" where
  "first_serving ovs a ctx [] rejected =
     \<lparr>rd_artifact = Some a, rd_chosen = None, rd_limit_binding = False, rd_rejected = rejected\<rparr>"
| "first_serving ovs a ctx (c # cs) rejected =
     (if \<not> has a c \<or> ctx \<noteq> 0 \<and> \<not> supports ovs a c ctx then first_serving ovs a ctx cs (rejected @ [c])
      else \<lparr>rd_artifact = Some a, rd_chosen = Some c, rd_limit_binding = max_context_for ovs a c \<noteq> 0,
            rd_rejected = rejected\<rparr>)"

definition resolve :: "overrides \<Rightarrow> artifact list \<Rightarrow> string \<Rightarrow> nat \<Rightarrow> capability list \<Rightarrow> decision" where
  "resolve ovs reg target ctx prefer =
     (case (case resolve_path reg target of Some a \<Rightarrow> Some a | None \<Rightarrow> find_artifact reg target) of
        None \<Rightarrow> \<lparr>rd_artifact = None, rd_chosen = None, rd_limit_binding = False, rd_rejected = []\<rparr>
      | Some a \<Rightarrow> first_serving ovs a ctx (if prefer = [] then ma_capabilities a else prefer) [])"

end
