(* ===== verification/RegistryScan.thy ===== *)
theory RegistryScan
  imports Registry Sorting
begin

text \<open>
  \<open>ModelRegistry::scan\<close> of \<open>src/model_registry.cpp\<close> for files: grouping them into artifacts, what is known of
  an artifact, the tokenizer file next to it, the collapse of proven duplicates, the cross-check of expert
  counts and the disambiguation of ids. The file system, the two header probes and the digest of a file are
  parameters. Directories that are artifacts themselves (MLX, Safetensors, raw weights) enter as pending
  artifacts; the geometry bound (floating point, a report only) is left out. Paths have no doubled separators.
\<close>

record gguf_probe =
  gp_ok :: bool
  gp_tensor_count :: u64
  gp_dtypes :: "u32 list"
  gp_general_name :: string
  gp_architecture :: string
  gp_hidden :: int
  gp_layers :: int
  gp_experts :: int
  gp_tok_embd_dtype :: int

record native_probe =
  np_space :: dtype_space
  np_quant :: string
  np_arch :: string
  np_tag :: string
  np_num_experts :: int
  np_hidden :: int
  np_layers :: int
  np_tensor_count :: int
  np_has_experts :: bool

record pending =
  pd_base :: string
  pd_container :: container
  pd_quant :: string
  pd_files :: "artifact_file list"
  pd_probe :: gguf_probe
  pd_q4nx_named :: bool

record scan_env =
  se_probe_headers :: bool
  se_digest :: bool
  se_gguf :: "string \<Rightarrow> gguf_probe"
  se_native :: "string \<Rightarrow> native_probe"
  se_sha256 :: "string \<Rightarrow> string"
  se_exists :: "string \<Rightarrow> bool"

definition no_probe :: gguf_probe where
  "no_probe = \<lparr>gp_ok = False, gp_tensor_count = 0, gp_dtypes = [], gp_general_name = [], gp_architecture = [],
     gp_hidden = 0, gp_layers = 0, gp_experts = 0, gp_tok_embd_dtype = -1\<rparr>"

section \<open>Shards\<close>

definition is_digit :: "char \<Rightarrow> bool" where
  "is_digit c \<longleftrightarrow> 48 \<le> (of_char c :: nat) \<and> (of_char c :: nat) \<le> 57"

definition stoi :: "string \<Rightarrow> nat" where
  "stoi s = fold (\<lambda>c n. 10 * n + (of_char c - 48)) s 0"

text \<open>\<open>rfind(p, pos)\<close>: the last occurrence of \<open>p\<close> that starts at \<open>pos\<close> or before.\<close>

definition occurs_at :: "string \<Rightarrow> string \<Rightarrow> nat \<Rightarrow> bool" where
  "occurs_at p s i \<longleftrightarrow> starts_with p (drop i s)"

definition rfind :: "string \<Rightarrow> string \<Rightarrow> nat \<Rightarrow> nat option" where
  "rfind p s pos =
     (case filter (occurs_at p s) [0..<min (Suc pos) (length s)] of [] \<Rightarrow> None | i # is \<Rightarrow> Some (last (i # is)))"

record shard_info =
  si_base :: string
  si_index :: u16
  si_count :: u16
  si_is_shard :: bool

definition whole_file :: "string \<Rightarrow> shard_info" where
  "whole_file stem = \<lparr>si_base = stem, si_index = 0, si_count = 1, si_is_shard = False\<rparr>"

text \<open>The body of the loop for an occurrence of \<open>-of-\<close> at \<open>pos\<close>.\<close>

definition shard_at :: "string \<Rightarrow> nat \<Rightarrow> shard_info option" where
  "shard_at stem pos =
     (if pos < 6 \<or> pos + 4 + 5 \<noteq> length stem then None
      else let a = take 5 (drop (pos - 5) stem); b = take 5 (drop (pos + 4) stem)
           in if \<not> list_all is_digit a \<or> \<not> list_all is_digit b \<or> stem ! (pos - 6) \<noteq> CHR ''-'' then None
              else Some \<lparr>si_base = take (pos - 6) stem, si_index = of_nat (stoi a), si_count = of_nat (stoi b),
                         si_is_shard = True\<rparr>)"

text \<open>\<open>pos - 1\<close> is \<open>npos\<close> at position 0, which starts the search at the end again.\<close>

definition next_occurrence :: "string \<Rightarrow> nat \<Rightarrow> nat option" where
  "next_occurrence stem pos = rfind ''-of-'' stem (if pos = 0 then length stem else pos - 1)"

partial_function (option) shard_loop :: "string \<Rightarrow> nat option \<Rightarrow> shard_info option" where
  "shard_loop stem p =
     (case p of
        None \<Rightarrow> Some (whole_file stem)
      | Some pos \<Rightarrow>
          (case shard_at stem pos of Some si \<Rightarrow> Some si | None \<Rightarrow> shard_loop stem (next_occurrence stem pos)))"

declare shard_loop.simps [code]

definition parse_shard :: "string \<Rightarrow> shard_info option" where
  "parse_shard stem = shard_loop stem (rfind ''-of-'' stem (length stem))"

section \<open>Names of artifacts\<close>

definition ends_with :: "string \<Rightarrow> string \<Rightarrow> bool" where
  "ends_with s suf \<longleftrightarrow> starts_with (rev suf) (rev s)"

definition quant_markers :: "string list" where
  "quant_markers =
     [''q4nx'', ''rocmfp4'', ''fp4'', ''tq2nz'', ''tq2'', ''tq1'', ''q1_0'', ''iq2_xxs'', ''iq1_s'', ''iq3_xxs'',
      ''q4_k_m'', ''q4_k_s'', ''q4_k'', ''q5_k_m'', ''q5_0'', ''q6_k'', ''q8_0'', ''q4_0'', ''q3_k_m'', ''bf16'', ''f16'',
      ''f32'', ''1bp'']"

definition census_names :: "(u32 \<times> string) list" where
  "census_names = [(42, ''type42''), (41, ''q1_0''), (35, ''tq2_0''), (34, ''tq1_0''), (12, ''q4_k''), (14, ''q6_k''), (8, ''q8_0'')]"

definition guess_quant :: "string \<Rightarrow> gguf_probe \<Rightarrow> string" where
  "guess_quant base pr =
     (if gp_ok pr \<and> 101 \<in> set (gp_dtypes pr) then ''q4_0_rocmfp4_fast''
      else if gp_ok pr \<and> 100 \<in> set (gp_dtypes pr) then ''q4_0_rocmfp4''
      else case List.find (contains base) quant_markers of
        Some q \<Rightarrow> q
      | None \<Rightarrow>
          if gp_ok pr then (case List.find (\<lambda>(t, _). t \<in> set (gp_dtypes pr)) census_names of Some (_, q) \<Rightarrow> q | None \<Rightarrow> [])
          else [])"

definition lineage_tags :: "string list" where
  "lineage_tags = [''ft-merged'', ''merged'', ''lora'', ''qat'', ''preview'', ''fixed'', ''fresh'', ''eval'']"

definition guess_lineage :: "string \<Rightarrow> string" where
  "guess_lineage base = (case List.find (contains base) lineage_tags of Some t \<Rightarrow> t | None \<Rightarrow> [])"

definition strip_suffix :: "string \<Rightarrow> string \<Rightarrow> string" where
  "strip_suffix suffix b =
     (if length suffix < length b \<and> ends_with b suffix then take (length b - length suffix) b else b)"

definition id_tag :: "container \<Rightarrow> bool \<Rightarrow> string" where
  "id_tag c q4nx = (case c of
       ContGGUF \<Rightarrow> if q4nx then ''q4nx-gguf'' else ''gguf''
     | ContONEBP \<Rightarrow> if q4nx then ''q4nx'' else ''1bp''
     | ContSafetensors \<Rightarrow> ''safetensors''
     | ContMLX \<Rightarrow> ''mlx''
     | ContRawBin \<Rightarrow> ''bin''
     | ContUnknown \<Rightarrow> ''unknown'')"

definition canonical_id :: "string \<Rightarrow> container \<Rightarrow> bool \<Rightarrow> string" where
  "canonical_id base c q4nx =
     (let b = normalize_token base;
          b = (case c of
                 ContGGUF \<Rightarrow> strip_suffix (if q4nx then ''-q4nx'' else ''-gguf'') b
               | ContONEBP \<Rightarrow> strip_suffix (if q4nx then ''-q4nx'' else ''-1bp'') b
               | _ \<Rightarrow> b)
      in (if b = [] then ''artifact'' else b) @ ''.'' @ id_tag c q4nx)"

section \<open>Grouping files\<close>

text \<open>The extension (with its dot) and the stem of a file name.\<close>

definition stem_of_name :: "string \<Rightarrow> string" where
  "stem_of_name n =
     (if n = ''..'' then n
      else case find_last_char (CHR ''.'') n of Some (Suc i) \<Rightarrow> take (Suc i) n | _ \<Rightarrow> n)"

definition stem_of :: "string \<Rightarrow> string" where
  "stem_of p = stem_of_name (basename_of p)"

definition extension_of :: "string \<Rightarrow> string" where
  "extension_of p = drop (length (stem_of p)) (basename_of p)"

definition container_name :: "container \<Rightarrow> string" where
  "container_name c = (case c of ContGGUF \<Rightarrow> ''gguf'' | ContONEBP \<Rightarrow> ''onebp'' | ContSafetensors \<Rightarrow> ''safetensors''
     | ContMLX \<Rightarrow> ''mlx'' | ContRawBin \<Rightarrow> ''raw_bin'' | ContUnknown \<Rightarrow> ''unknown'')"

text \<open>The pending artifacts with their keys, in the order of their first file; the code keeps them in a hash map.\<close>

type_synonym pendings = "(string \<times> pending) list"

definition add_file :: "artifact_file \<Rightarrow> container \<Rightarrow> string \<Rightarrow> string \<Rightarrow> string \<Rightarrow> string \<Rightarrow> gguf_probe \<Rightarrow> bool \<Rightarrow> pendings \<Rightarrow> pendings"
where
  "add_file af c base_key base ext quant pr q4nx_named ps =
     (let k = container_name c @ ''|'' @ ext @ ''|'' @ base_key;
          fresh = \<lparr>pd_base = base, pd_container = c, pd_quant = quant, pd_files = [], pd_probe = pr, pd_q4nx_named = q4nx_named\<rparr>;
          (ps, i) = (case find_entry (\<lambda>e. fst e = k) ps of Some i \<Rightarrow> (ps, i) | None \<Rightarrow> (ps @ [(k, fresh)], length ps));
          p = snd (ps ! i);
          p = (if gp_ok pr \<and> \<not> gp_ok (pd_probe p) then p\<lparr>pd_probe := pr, pd_q4nx_named := q4nx_named\<rparr> else p)
      in ps[i := (k, p\<lparr>pd_files := pd_files p @ [af]\<rparr>)])"

definition file_container :: "string \<Rightarrow> container option" where
  "file_container ext =
     (if ext = ''.gguf'' \<or> ext = ''.h1b'' then Some ContGGUF
      else if ext = ''.q4nx'' \<or> ext = ''.1bp'' then Some ContONEBP
      else if ext = ''.safetensors'' then Some ContSafetensors
      else None)"

text \<open>A regular file of the walk. \<open>None\<close>: the scan never returns.\<close>

definition scan_file :: "scan_env \<Rightarrow> string \<times> u64 \<Rightarrow> pendings \<Rightarrow> pendings option" where
  "scan_file env = (\<lambda>(path, sz) ps.
     (let name = basename_of path; ext = lower (extension_of path)
      in case file_container ext of
           None \<Rightarrow> Some ps
         | Some c \<Rightarrow>
             let lower_name = lower name; q4nx_named = contains lower_name ''q4nx'';
                 pr = (if se_probe_headers env \<and> c = ContGGUF then se_gguf env path else no_probe)
             in (case parse_shard (stem_of path) of
                  None \<Rightarrow> None
                | Some sh \<Rightarrow>
                    let q = guess_quant lower_name pr;
                        q = (if c = ContONEBP then if q4nx_named then ''q4nx'' else if q = [] then ''1bp'' else q else q);
                        af = (\<lparr>af_path = path, af_bytes = sz, af_shard_index = si_index sh, af_shard_count = si_count sh,
                               af_digest = [], af_duplicate = False\<rparr>)
                    in Some (add_file af c (normalize_token (si_base sh)) (si_base sh) ext q pr q4nx_named ps))))"

fun scan_files :: "scan_env \<Rightarrow> (string \<times> u64) list \<Rightarrow> pendings \<Rightarrow> pendings option" where
  "scan_files env [] ps = Some ps"
| "scan_files env (f # fs) ps = (case scan_file env f ps of None \<Rightarrow> None | Some ps \<Rightarrow> scan_files env fs ps)"

section \<open>What is known of an artifact\<close>

definition file_before :: "artifact_file \<Rightarrow> artifact_file \<Rightarrow> bool" where
  "file_before a b \<longleftrightarrow>
     (if af_shard_index a \<noteq> af_shard_index b then af_shard_index a < af_shard_index b else string_less (af_path a) (af_path b))"

text \<open>The name flags of a GGUF: the numbering of its tensor types, and whether the id says Q4NX.\<close>

definition gguf_space :: "pending \<Rightarrow> dtype_space" where
  "gguf_space p =
     (let has42 = 42 \<in> set (gp_dtypes (pd_probe p))
      in if has42 \<and> pd_q4nx_named p then HRX2_Q4NX else if has42 then ENGINE_TERNARY
         else if \<not> gp_ok (pd_probe p) then AMBIGUOUS else GGML_MAINLINE)"

text \<open>The fields a pending artifact and its GGUF probe give.\<close>

definition probed :: "pending \<Rightarrow> artifact_file list \<Rightarrow> artifact" where
  "probed p files =
     (let pr = pd_probe p in
      \<lparr>ma_id = [], ma_aliases = [], ma_display_name = gp_general_name pr, ma_architecture = gp_architecture pr,
       ma_quantization = pd_quant p, ma_lineage = guess_lineage (lower (pd_base p)), ma_container = pd_container p,
       ma_dtype_space = DsEmpty, ma_declared_hidden = gp_hidden pr, ma_declared_layers = gp_layers pr,
       ma_declared_experts = gp_experts pr, ma_native_has_experts = False, ma_native_experts = 0, ma_native_tensors = 0,
       ma_tensor_count = sint (ucast (gp_tensor_count pr) :: u32), ma_tok_embd_dtype = gp_tok_embd_dtype pr,
       ma_q4nx_mismatch = False, ma_native_mismatch = False, ma_arch_suspect = False, ma_display_suspect = False,
       ma_underdeclared = False, ma_capabilities = [], ma_files = files, ma_tokenizer = [], ma_tokenizer_borrowed = False,
       ma_merged_ids = [], ma_catalog_ids = []\<rparr>)"

text \<open>The fields the native header overrides.\<close>

definition with_native :: "native_probe \<Rightarrow> artifact \<Rightarrow> artifact" where
  "with_native np a =
     a\<lparr>ma_dtype_space := np_space np, ma_native_has_experts := np_has_experts np, ma_native_experts := np_num_experts np,
       ma_native_tensors := np_tensor_count np, ma_tensor_count := np_tensor_count np, ma_declared_hidden := np_hidden np,
       ma_declared_layers := np_layers np, ma_declared_experts := np_num_experts np,
       ma_arch_suspect := (np_space np = ONEBP_HEADER \<and> (np_arch np = ''dense'' \<or> np_arch np = ''moe'') \<and>
         (np_arch np = ''moe'') \<noteq> (0 < np_num_experts np)),
       ma_native_mismatch := (np_space np = UNRECOGNIZED_NATIVE),
       ma_quantization := (if np_quant np \<noteq> [] then np_quant np else ma_quantization a),
       ma_architecture := (if np_arch np \<noteq> [] then np_arch np else ma_architecture a),
       ma_display_name := (if np_tag np \<noteq> [] \<and> ma_display_name a = [] then np_tag np else ma_display_name a)\<rparr>"

definition display_suspect :: "gguf_probe \<Rightarrow> string \<Rightarrow> string \<Rightarrow> bool" where
  "display_suspect pr quant display \<longleftrightarrow> gp_ok pr \<and> quant \<noteq> [] \<and> display \<noteq> [] \<and>
     list_ex (\<lambda>q. contains (lower display) q \<and> \<not> contains (lower quant) q)
       [''awq'', ''gptq'', ''int4'', ''int8'', ''fp8'', ''bnb'']"

definition materialize :: "scan_env \<Rightarrow> pending \<Rightarrow> artifact" where
  "materialize env p =
     (let files = sort_by file_before (pd_files p);
          a = probed p files;
          native = (pd_container p = ContONEBP \<and> se_probe_headers env \<and> files \<noteq> []);
          np = se_native env (af_path (hd files));
          a = (if pd_container p = ContGGUF
               then a\<lparr>ma_dtype_space := gguf_space p,
                      ma_q4nx_mismatch := (pd_q4nx_named p \<and> gp_ok (pd_probe p) \<and> 42 \<notin> set (gp_dtypes (pd_probe p)))\<rparr>
               else if native then with_native np a else a);
          id_q4nx = (pd_container p = ContGGUF \<and> gguf_space p = HRX2_Q4NX \<or> pd_container p = ContONEBP \<and> pd_q4nx_named p);
          bytes_q4nx = (id_q4nx \<or> native \<and> np_quant np = ''q4nx'')
      in a\<lparr>ma_id := canonical_id (pd_base p) (pd_container p) id_q4nx,
           ma_display_suspect := display_suspect (pd_probe p) (ma_quantization a) (ma_display_name a),
           ma_capabilities := derive_capabilities (pd_container p) (ma_dtype_space a) bytes_q4nx,
           ma_aliases := map (basename_of \<circ> af_path) files,
           ma_files := (if se_digest env then map (\<lambda>f. f\<lparr>af_digest := se_sha256 env (af_path f)\<rparr>) files else files)\<rparr>)"

section \<open>The tokenizer next to an artifact\<close>

definition dir_of :: "string \<Rightarrow> string" where
  "dir_of p = take (length p - length (basename_of p)) p"

text \<open>The spellings tried for a file, in order; the second is relative to the working directory.\<close>

definition tokenizer_candidates :: "string \<Rightarrow> string list" where
  "tokenizer_candidates p =
     (let sib = dir_of p @ stem_of p @ ''.htok'' in [p @ ''.htok'', sib, stem_of p @ ''.htok'', sib])"

definition find_tokenizer :: "(string \<Rightarrow> bool) \<Rightarrow> artifact \<Rightarrow> artifact" where
  "find_tokenizer exists a =
     (case List.find exists (concat (map (tokenizer_candidates \<circ> af_path) (ma_files a))) of
        Some t \<Rightarrow> a\<lparr>ma_tokenizer := t\<rparr> | None \<Rightarrow> a)"

section \<open>Proven duplicates\<close>

definition total_bytes :: "artifact \<Rightarrow> u64" where
  "total_bytes a = sum_list (map af_bytes (filter (\<lambda>f. \<not> af_duplicate f) (ma_files a)))"

definition add_alias :: "string \<Rightarrow> string list \<Rightarrow> string list" where
  "add_alias al als = (if al \<in> set als then als else als @ [al])"

definition absorb :: "artifact \<Rightarrow> artifact \<Rightarrow> artifact" where
  "absorb k d =
     k\<lparr>ma_merged_ids := ma_merged_ids k @ [ma_id d],
       ma_files := ma_files k @ map (\<lambda>f. f\<lparr>af_duplicate := True\<rparr>) (ma_files d),
       ma_aliases := add_alias (ma_id d) (fold add_alias (ma_aliases d) (ma_aliases k)),
       ma_tokenizer := (if ma_tokenizer k = [] then ma_tokenizer d else ma_tokenizer k),
       ma_tokenizer_borrowed := (ma_tokenizer_borrowed k \<or> ma_tokenizer k = [] \<and> ma_tokenizer d \<noteq> [])\<rparr>"

record merging =
  mg_arts :: "artifact list"
  mg_by_digest :: "string \<Rightarrow> nat option"
  mg_absorbed :: "nat list"
  mg_reclaimed :: u64
  mg_count :: nat

definition merge_step :: "nat \<Rightarrow> merging \<Rightarrow> merging" where
  "merge_step i m =
     (let a = mg_arts m ! i in
      if length (ma_files a) \<noteq> 1 then m
      else let dg = af_digest (hd (ma_files a)) in
        if dg = [] then m
        else case mg_by_digest m dg of
          None \<Rightarrow> m\<lparr>mg_by_digest := (mg_by_digest m)(dg \<mapsto> i)\<rparr>
        | Some j \<Rightarrow>
            let (keep, drop) = (if better_id a (mg_arts m ! j) then (i, j) else (j, i));
                d = mg_arts m ! drop
            in m\<lparr>mg_arts := (mg_arts m)[keep := absorb (mg_arts m ! keep) d],
                 mg_reclaimed := mg_reclaimed m + total_bytes d, mg_count := mg_count m + 1,
                 mg_absorbed := drop # mg_absorbed m, mg_by_digest := (mg_by_digest m)(dg \<mapsto> keep)\<rparr>)"

definition start_merging :: "artifact list \<Rightarrow> merging" where
  "start_merging arts = \<lparr>mg_arts = arts, mg_by_digest = Map.empty, mg_absorbed = [], mg_reclaimed = 0, mg_count = 0\<rparr>"

definition merge_duplicates :: "artifact list \<Rightarrow> merging" where
  "merge_duplicates arts = fold merge_step [0..<length arts] (start_merging arts)"

definition kept :: "merging \<Rightarrow> artifact list" where
  "kept m = map (\<lambda>i. mg_arts m ! i) (filter (\<lambda>i. i \<notin> set (mg_absorbed m)) [0..<length (mg_arts m)])"

section \<open>Expert counts and ids\<close>

definition silent_header :: "artifact \<Rightarrow> bool" where
  "silent_header a \<longleftrightarrow> ma_container a = ContONEBP \<and> ma_dtype_space a = ONEBP_HEADER \<and> ma_native_experts a \<le> 0 \<and>
     ma_declared_hidden a \<noteq> 0 \<and> ma_declared_layers a \<noteq> 0"

definition expert_sibling :: "artifact \<Rightarrow> artifact \<Rightarrow> bool" where
  "expert_sibling hdr sib \<longleftrightarrow> ma_container sib = ContGGUF \<and> 0 < ma_declared_experts sib \<and>
     ma_declared_hidden sib = ma_declared_hidden hdr \<and> ma_declared_layers sib = ma_declared_layers hdr \<and>
     \<not> (0 < ma_native_tensors hdr \<and> 0 < ma_tensor_count sib \<and> ma_native_tensors hdr \<noteq> ma_tensor_count sib)"

definition mark_underdeclared :: "artifact list \<Rightarrow> artifact list" where
  "mark_underdeclared arts =
     map (\<lambda>a. if silent_header a \<and> list_ex (expert_sibling a) arts then a\<lparr>ma_underdeclared := True\<rparr> else a) arts"

fun digits :: "nat \<Rightarrow> string" where
  "digits n = (if n < 10 then [char_of (48 + n)] else digits (n div 10) @ [char_of (48 + n mod 10)])"

declare digits.simps [simp del]

fun number_ids :: "(string \<Rightarrow> nat) \<Rightarrow> (string \<Rightarrow> nat) \<Rightarrow> artifact list \<Rightarrow> artifact list" where
  "number_ids cnt seen [] = []"
| "number_ids cnt seen (a # as) =
     (if 1 < cnt (ma_id a)
      then let n = seen (ma_id a) + 1
           in (if 1 < n then a\<lparr>ma_id := ma_id a @ ''-'' @ digits n\<rparr> else a) # number_ids cnt (seen(ma_id a := n)) as
      else a # number_ids cnt seen as)"

definition disambiguate :: "artifact list \<Rightarrow> artifact list" where
  "disambiguate arts = number_ids (count_list (map ma_id arts)) (\<lambda>_. 0) arts"

text \<open>The registry a scan leaves, from the pending artifacts on.\<close>

definition finish_scan :: "scan_env \<Rightarrow> pending list \<Rightarrow> artifact list" where
  "finish_scan env ps =
     (let arts = sort_by (\<lambda>a b. string_less (ma_id a) (ma_id b)) (map (materialize env) ps);
          arts = map (find_tokenizer (se_exists env)) arts;
          arts = (if se_digest env then kept (merge_duplicates arts) else arts)
      in disambiguate (mark_underdeclared arts))"

definition scan_registry :: "scan_env \<Rightarrow> (string \<times> u64) list \<Rightarrow> pending list \<Rightarrow> artifact list option" where
  "scan_registry env files dirs = map_option (\<lambda>ps. finish_scan env (map snd ps @ dirs)) (scan_files env files [])"

end
