(* ===== verification/ShardNames.thy ===== *)
theory ShardNames
  imports RegistryScan
begin

text \<open>
  \<open>parse_shard\<close> of \<open>src/model_registry.cpp\<close> against the description of a shard name: the loop over the
  occurrences of \<open>-of-\<close> from the last one on, and the wrap-around at position 0.
\<close>

section \<open>Shard names\<close>

text \<open>What the loop computes: the suffix is looked for at the one place it can stand.\<close>

definition shard_suffix :: "string \<Rightarrow> shard_info option" where
  "shard_suffix s =
     (if 9 \<le> length s \<and> occurs_at ''-of-'' s (length s - 9) then shard_at s (length s - 9) else None)"

lemma rfind_SomeD: "rfind p s pos = Some i \<Longrightarrow> i \<le> pos \<and> i < length s \<and> occurs_at p s i \<and> (\<forall>j \<le> pos. j < length s \<longrightarrow> occurs_at p s j \<longrightarrow> j \<le> i)"
proof -
  assume a: "rfind p s pos = Some i"
  let ?l = "filter (occurs_at p s) [0..<min (Suc pos) (length s)]"
  have ne: "?l \<noteq> []" and i: "i = last ?l" using a by (auto simp: rfind_def split: list.splits)
  have mem: "i \<in> set ?l" using ne i by (metis last_in_set)
  have last: "sorted l \<Longrightarrow> j \<in> set l \<Longrightarrow> j \<le> last l" for l :: "nat list" and j
    by (induction l) auto
  have "sorted ?l" by (simp add: sorted_wrt_filter)
  then have "\<forall>j \<in> set ?l. j \<le> i" using last i by blast
  with mem show ?thesis by auto
qed

lemma rfind_NoneD: "rfind p s pos = None \<Longrightarrow> j \<le> pos \<Longrightarrow> j < length s \<Longrightarrow> \<not> occurs_at p s j"
  by (auto simp: rfind_def filter_empty_conv split: list.splits)

lemma shard_at_suffix:
  assumes "occurs_at ''-of-'' s pos" "shard_at s pos = Some si"
  shows "shard_suffix s = Some si" "pos = length s - 9"
proof -
  have l: "pos + 9 = length s" using assms(2) by (auto simp: shard_at_def simp del: List.take_drop split: if_splits)
  then show "pos = length s - 9" by simp
  then show "shard_suffix s = Some si" using assms l by (simp add: shard_suffix_def)
qed

text \<open>A stem that starts with \<open>-of-\<close> sends the loop round for ever.\<close>

lemma shard_loop_stuck:
  assumes "occurs_at ''-of-'' s 0" "shard_suffix s = None"
  shows "p \<noteq> None \<Longrightarrow> (\<forall>i. p = Some i \<longrightarrow> occurs_at ''-of-'' s i) \<Longrightarrow> shard_loop s p = None"
proof -
  have len: "0 < length s" using assms(1) by (cases s) (auto simp: occurs_at_def)
  let ?Q = "\<lambda>t q (y :: shard_info). t = s \<longrightarrow> q \<noteq> None \<longrightarrow> (\<forall>i. q = Some i \<longrightarrow> occurs_at ''-of-'' s i) \<longrightarrow> False"
  have never: "?Q t q si" if r: "shard_loop t q = Some si" for t q si
  proof (rule shard_loop.raw_induct[where P = ?Q, OF _ r])
    fix loop :: "string \<Rightarrow> nat option \<Rightarrow> shard_info option" and t q y
    assume IH: "\<And>t q y. loop t q = Some y \<Longrightarrow> ?Q t q y"
      and b: "(case q of None \<Rightarrow> Some (whole_file t)
        | Some pos \<Rightarrow> (case shard_at t pos of None \<Rightarrow> loop t (next_occurrence t pos) | Some si \<Rightarrow> Some si)) = Some y"
    show "?Q t q y"
    proof (intro impI)
    assume t: "t = s" and q: "q \<noteq> None" "\<forall>i. q = Some i \<longrightarrow> occurs_at ''-of-'' s i"
    then obtain i where i: "q = Some i" "occurs_at ''-of-'' s i" by blast
    have "shard_at s i = None" using shard_at_suffix(1)[OF i(2)] assms(2) by (cases "shard_at s i") auto
    then have l: "loop s (next_occurrence s i) = Some y" using b i t by simp
    obtain k where k: "next_occurrence s i = Some k"
      using rfind_NoneD[of "''-of-''" s "if i = 0 then length s else i - 1" 0] assms(1) len
      by (cases "next_occurrence s i") (auto simp: next_occurrence_def)
    then have "occurs_at ''-of-'' s k" using rfind_SomeD by (auto simp: next_occurrence_def)
    then show False using IH[OF l] k by simp
    qed
  qed
  show "p \<noteq> None \<Longrightarrow> (\<forall>i. p = Some i \<longrightarrow> occurs_at ''-of-'' s i) \<Longrightarrow> shard_loop s p = None"
    using never by (cases "shard_loop s p") blast+
qed

lemma shard_loop_ends:
  assumes "\<not> occurs_at ''-of-'' s 0" "shard_suffix s = None" "\<forall>i. p = Some i \<longrightarrow> occurs_at ''-of-'' s i"
  shows "shard_loop s p = Some (whole_file s)"
proof -
  have loop: "occurs_at ''-of-'' s i \<Longrightarrow> shard_loop s (Some i) = Some (whole_file s)" for i
  proof (induction i rule: less_induct)
    case (less i)
    have i: "i \<noteq> 0" using less.prems assms(1) by metis
    have at: "shard_at s i = None" using shard_at_suffix(1)[OF less.prems] assms(2) by (cases "shard_at s i") auto
    show ?case
    proof (cases "next_occurrence s i")
      case None
      then show ?thesis using at by (simp add: shard_loop.simps[of s "Some i"] shard_loop.simps[of s None])
    next
      case (Some k)
      then have "k < i" "occurs_at ''-of-'' s k" using i rfind_SomeD[of "''-of-''" s "i - 1" k] by (auto simp: next_occurrence_def)
      then show ?thesis using less.IH at Some by (simp add: shard_loop.simps[of s "Some i"])
    qed
  qed
  show ?thesis
  proof (cases p)
    case None
    then show ?thesis by (simp add: shard_loop.simps)
  next
    case (Some i)
    then show ?thesis using loop assms(3) by blast
  qed
qed

lemma shard_loop_finds:
  assumes "shard_suffix s = Some si" "occurs_at ''-of-'' s i" "length s - 9 \<le> i"
  shows "shard_loop s (Some i) = Some si"
  using assms(2,3)
proof (induction i rule: less_induct)
  case (less i)
  have q: "occurs_at ''-of-'' s (length s - 9)" "shard_at s (length s - 9) = Some si" "9 \<le> length s"
    using assms(1) by (auto simp: shard_suffix_def split: if_splits)
  show ?case
  proof (cases "shard_at s i")
    case (Some x)
    then show ?thesis using shard_at_suffix(1)[OF less.prems(1) Some] assms(1) Some by (simp add: shard_loop.simps[of s "Some i"])
  next
    case None
    then have i: "length s - 9 < i" using q(2) less.prems(2) by (metis le_neq_implies_less option.distinct(1))
    have "length s - 9 \<le> i - 1" "length s - 9 < length s" using i q(3) by linarith+
    from rfind_NoneD[OF _ this] obtain k where k: "next_occurrence s i = Some k"
      using i q(1) by (cases "next_occurrence s i") (auto simp: next_occurrence_def)
    then have "k < i" "occurs_at ''-of-'' s k" "length s - 9 \<le> k"
      using i rfind_SomeD[of "''-of-''" s "i - 1" k] q by (auto simp: next_occurrence_def)
    then show ?thesis using less.IH None k by (simp add: shard_loop.simps[of s "Some i"])
  qed
qed

text \<open>C29. \<open>parse_shard\<close> on every stem: the file is a shard exactly if the stem ends in \<open>-NNNNN-of-NNNNN\<close>; else it is
  the whole artifact, unless the stem starts with \<open>-of-\<close>: then the search wraps around at position 0 and
  the function never returns, so one file of that name hangs the scan.\<close>

theorem parse_shard_correct:
  "parse_shard s =
     (case shard_suffix s of Some si \<Rightarrow> Some si
      | None \<Rightarrow> if starts_with ''-of-'' s then None else Some (whole_file s))"
proof (cases "shard_suffix s")
  case (Some si)
  then have q: "occurs_at ''-of-'' s (length s - 9)" "9 \<le> length s" by (auto simp: shard_suffix_def split: if_splits)
  then obtain i where i: "rfind ''-of-'' s (length s) = Some i"
    using rfind_NoneD[of "''-of-''" s "length s" "length s - 9"] by (cases "rfind ''-of-'' s (length s)") auto
  have "occurs_at ''-of-'' s i" "length s - 9 \<le> i" using rfind_SomeD[OF i] q by auto
  then show ?thesis using shard_loop_finds[OF Some] Some i by (simp add: parse_shard_def)
next
  case None
  note n = this
  show ?thesis
  proof (cases "starts_with ''-of-'' s")
    case True
    then have 0: "occurs_at ''-of-'' s 0" "0 < length s" by (auto simp: occurs_at_def)
    then obtain i where i: "rfind ''-of-'' s (length s) = Some i"
      using rfind_NoneD[of "''-of-''" s "length s" 0] by (cases "rfind ''-of-'' s (length s)") auto
    then show ?thesis using shard_loop_stuck[OF 0(1) n, of "Some i"] rfind_SomeD[OF i] n True by (simp add: parse_shard_def)
  next
    case False
    then have "\<not> occurs_at ''-of-'' s 0" by (simp add: occurs_at_def)
    then show ?thesis
      using shard_loop_ends[OF _ n, of "rfind ''-of-'' s (length s)"] rfind_SomeD n False by (auto simp: parse_shard_def)
  qed
qed

end
