(* ===== verification/RegistryIds.thy ===== *)
theory RegistryIds
  imports RegistryScan
begin

text \<open>
  The ids of a scanned registry: the shape of \<open>canonical_id\<close>, what every phase of \<open>ModelRegistry::scan\<close> does to the
  ids, and the numbering that tells equal ones apart.
\<close>

section \<open>Ids stay apart\<close>

lemma digit_char: "k < 10 \<Longrightarrow> (of_char (char_of (48 + k) :: char) :: nat) = 48 + k"
  by (simp add: of_char_of take_bit_eq_mod)

lemma stoi_append: "stoi (s @ [c]) = 10 * stoi s + (of_char c - 48)"
  by (simp add: stoi_def)

lemma digits_facts: "digits n \<noteq> [] \<and> list_all is_digit (digits n) \<and> stoi (digits n) = n"
proof (induction n rule: digits.induct)
  case (1 n)
  have d: "is_digit (char_of (48 + k))" "stoi [char_of (48 + k)] = k" if "k < 10" for k :: nat
    using digit_char[OF that] that by (simp_all add: is_digit_def stoi_def)
  show ?case
  proof (cases "n < 10")
    case True
    then show ?thesis using d[OF True] by (simp add: digits.simps[of n])
  next
    case False
    with 1 d[of "n mod 10"] digit_char[of "n mod 10"] show ?thesis
      by (simp add: digits.simps[of n] stoi_append)
  qed
qed

lemma digits_inj: "digits m = digits n \<Longrightarrow> m = n"
  using digits_facts by metis

definition tagged :: "string \<Rightarrow> bool" where
  "tagged s \<longleftrightarrow> s \<noteq> [] \<and> \<not> is_digit (last s)"

lemma canonical_id_tagged: "tagged (canonical_id b c q)"
  by (cases c) (auto simp: tagged_def canonical_id_def id_tag_def is_digit_def Let_def)

lemma numbered_not_tagged: "\<not> tagged (s @ ''-'' @ digits n)"
proof -
  have "is_digit (last (digits n))" using digits_facts[of n] by (simp add: list_all_iff)
  then show ?thesis using digits_facts[of n] by (simp add: tagged_def)
qed

lemma numbered_inj:
  assumes "s @ ''-'' @ digits m = t @ ''-'' @ digits n"
  shows "s = t \<and> m = n"
proof -
  have dash: "takeWhile is_digit (rev (u @ ''-'' @ digits k)) = rev (digits k)" for u k
    using digits_facts[of k] by (simp add: list_all_iff is_digit_def takeWhile_tail)
  from assms have "rev (digits m) = rev (digits n)" using dash by metis
  then have "m = n" using digits_inj by simp
  with assms show ?thesis by simp
qed

text \<open>The id given to the \<open>n\<close>-th artifact that claims \<open>s\<close>, and those ordinals.\<close>

definition new_id :: "(string \<Rightarrow> nat) \<Rightarrow> string \<times> nat \<Rightarrow> string" where
  "new_id cnt = (\<lambda>(s, n). if 1 < cnt s \<and> 1 < n then s @ ''-'' @ digits n else s)"

fun ordinals :: "(string \<Rightarrow> nat) \<Rightarrow> string list \<Rightarrow> (string \<times> nat) list" where
  "ordinals seen [] = []"
| "ordinals seen (s # ss) = (s, seen s + 1) # ordinals (seen(s := seen s + 1)) ss"

lemma number_ids_ordinals:
  "\<forall>s. 1 < cnt s \<longrightarrow> seen' s = seen s \<Longrightarrow>
   map ma_id (number_ids cnt seen as) = map (new_id cnt) (ordinals seen' (map ma_id as))"
proof (induction cnt seen as arbitrary: seen' rule: number_ids.induct)
  case (2 cnt seen a as)
  show ?case
  proof (cases "1 < cnt (ma_id a)")
    case True
    have "\<forall>s. 1 < cnt s \<longrightarrow> (seen'(ma_id a := seen (ma_id a) + 1)) s = (seen(ma_id a := seen (ma_id a) + 1)) s"
      using 2(3) by simp
    from 2(1)[OF True refl this] show ?thesis using True 2(3) by (auto simp: new_id_def Let_def fun_upd_def)
  next
    case False
    have "\<forall>s. 1 < cnt s \<longrightarrow> (seen'(ma_id a := seen' (ma_id a) + 1)) s = seen s"
      using 2(3) False by simp
    from 2(2)[OF False this] show ?thesis using False by (simp add: new_id_def fun_upd_def)
  qed
qed simp

lemma ordinals_bounds:
  "(s, n) \<in> set (ordinals seen ss) \<Longrightarrow> s \<in> set ss \<and> seen s < n \<and> n \<le> seen s + count_list ss s"
proof (induction seen ss rule: ordinals.induct)
  case (2 seen t ss)
  then consider "s = t" "n = seen t + 1" | "(s, n) \<in> set (ordinals (seen(t := seen t + 1)) ss)" by auto
  then show ?case
  proof cases
    case 2
    from "2.IH"[OF this] show ?thesis by (auto split: if_splits)
  qed simp
qed simp

lemma ordinals_distinct: "distinct (ordinals seen ss)"
proof (induction seen ss rule: ordinals.induct)
  case (2 seen t ss)
  have "(t, seen t + 1) \<notin> set (ordinals (seen(t := seen t + 1)) ss)"
    using ordinals_bounds[of t "seen t + 1"] by fastforce
  with 2 show ?case by (simp add: fun_upd_def)
qed simp

lemma disambiguate_distinct:
  assumes "\<forall>a \<in> set arts. tagged (ma_id a)"
  shows "distinct (map ma_id (disambiguate arts))"
proof -
  let ?ids = "map ma_id arts" let ?cnt = "count_list (map ma_id arts)" let ?os = "ordinals (\<lambda>_. 0) (map ma_id arts)"
  have tag: "tagged s \<and> 1 \<le> n \<and> n \<le> ?cnt s" if "(s, n) \<in> set ?os" for s n
    using ordinals_bounds[OF that] assms by auto
  have "x = y" if x: "x \<in> set ?os" and y: "y \<in> set ?os" and e: "new_id ?cnt x = new_id ?cnt y" for x y
  proof -
    obtain s n t m where p: "x = (s, n)" "y = (t, m)" by (metis prod.exhaust)
    have sn: "tagged s" "1 \<le> n" "n \<le> ?cnt s" and tm: "tagged t" "1 \<le> m" "m \<le> ?cnt t" using tag x y p by auto
    show ?thesis
    proof (cases "1 < n")
      case True
      then have l: "new_id ?cnt x = s @ ''-'' @ digits n" using sn p by (simp add: new_id_def)
      then have "1 < m" using e numbered_not_tagged[of s n] tm p by (auto simp: new_id_def split: if_splits)
      then have "new_id ?cnt y = t @ ''-'' @ digits m" using tm p by (simp add: new_id_def)
      with e l have "s @ ''-'' @ digits n = t @ ''-'' @ digits m" by metis
      from numbered_inj[OF this] p show ?thesis by simp
    next
      case False
      then have n: "n = 1" and l: "new_id ?cnt x = s" using sn p by (simp_all add: new_id_def)
      have "\<not> 1 < m"
      proof
        assume "1 < m"
        then have "new_id ?cnt y = t @ ''-'' @ digits m" using tm p by (simp add: new_id_def)
        then show False using e l sn(1) numbered_not_tagged[of t m] by metis
      qed
      then have "m = 1" "new_id ?cnt y = t" using tm p by (simp_all add: new_id_def)
      then show ?thesis using n l e p by metis
    qed
  qed
  then have "distinct (map (new_id ?cnt) ?os)"
    unfolding distinct_map using ordinals_distinct by (auto intro!: inj_onI)
  then show ?thesis using number_ids_ordinals[of ?cnt "\<lambda>_. 0" "\<lambda>_. 0" arts] by (simp add: disambiguate_def)
qed

text \<open>Every step before the numbering keeps the canonical ids.\<close>

lemma mark_underdeclared_ids: "map ma_id (mark_underdeclared arts) = map ma_id arts"
  by (simp add: mark_underdeclared_def)

lemma materialize_id: "\<exists>q. ma_id (materialize env p) = canonical_id (pd_base p) (pd_container p) q"
  by (auto simp: materialize_def Let_def)

lemma find_tokenizer_id [simp]: "ma_id (find_tokenizer ex a) = ma_id a"
  by (simp add: find_tokenizer_def split: option.split)

lemma absorb_id [simp]: "ma_id (absorb k d) = ma_id k"
  by (simp add: absorb_def)

lemma merge_step_ids:
  "length (mg_arts (merge_step i m)) = length (mg_arts m) \<and> map ma_id (mg_arts (merge_step i m)) = map ma_id (mg_arts m)"
proof -
  have upd: "map ma_id (as[k := absorb (as ! k) d]) = map ma_id as" for as k d
  proof (cases "k < length as")
    case True
    then have "ma_id (absorb (as ! k) d) = map ma_id as ! k" by simp
    then show ?thesis by (simp only: map_update list_update_id)
  qed (simp add: list_update_beyond)
  show ?thesis by (auto simp: merge_step_def Let_def upd split: option.split)
qed

lemma merge_duplicates_ids: "map ma_id (mg_arts (merge_duplicates arts)) = map ma_id arts"
proof -
  have "map ma_id (mg_arts (fold merge_step is m)) = map ma_id (mg_arts m)" for "is" m
    by (induction "is" arbitrary: m) (simp_all add: merge_step_ids)
  then show ?thesis by (simp add: merge_duplicates_def start_merging_def)
qed

lemma kept_ids: "set (map ma_id (kept m)) \<subseteq> set (map ma_id (mg_arts m))"
  by (auto simp: kept_def)

text \<open>C25. No two artifacts of a scanned registry have the same id, whatever the names of the files, with and without
  the collapse of duplicates: an id ends in the letters of its container, a numbered one in digits, so the
  numbers that tell equal ids apart cannot clash with another id.\<close>

theorem registry_ids_distinct: "distinct (map ma_id (finish_scan env ps))"
proof -
  let ?sorted = "sort_by (\<lambda>a b. string_less (ma_id a) (ma_id b)) (map (materialize env) ps)"
  let ?arts = "map (find_tokenizer (se_exists env)) ?sorted"
  let ?arts' = "if se_digest env then kept (merge_duplicates ?arts) else ?arts"
  have "set ?sorted = materialize env ` set ps"
    by (metis list.set_map set_mset_mset sort_by_mset)
  moreover have "tagged (ma_id (materialize env p))" for p by (metis materialize_id canonical_id_tagged)
  ultimately have "\<forall>s \<in> set (map ma_id ?arts). tagged s" by auto
  then have "\<forall>s \<in> set (map ma_id ?arts'). tagged s"
    using kept_ids[of "merge_duplicates ?arts"] merge_duplicates_ids[of ?arts] by (auto simp del: set_map)
  then have "\<forall>s \<in> set (map ma_id (mark_underdeclared ?arts')). tagged s" by (simp only: mark_underdeclared_ids)
  then have "\<forall>a \<in> set (mark_underdeclared ?arts'). tagged (ma_id a)" by simp
  then show ?thesis unfolding finish_scan_def Let_def by (rule disambiguate_distinct)
qed

end
