(* ===== verification/Duplicates.thy ===== *)
theory Duplicates
  imports RegistryIds
begin

text \<open>
  The collapse of proven duplicates in \<open>ModelRegistry::scan\<close>: the invariant of the loop over the artifacts, what
  can still be found afterwards, and the bytes.
\<close>

section \<open>What the collapse of duplicates keeps\<close>

text \<open>\<open>covers k a\<close>: whoever asks for \<open>a\<close> by id, alias or path finds \<open>k\<close>.\<close>

definition paths :: "artifact \<Rightarrow> string set" where
  "paths a = af_path ` set (ma_files a)"

definition covers :: "artifact \<Rightarrow> artifact \<Rightarrow> bool" where
  "covers k a \<longleftrightarrow> (ma_id a = ma_id k \<or> ma_id a \<in> set (ma_aliases k)) \<and> set (ma_aliases a) \<subseteq> set (ma_aliases k) \<and>
     paths a \<subseteq> paths k"

definition single_digest :: "artifact \<Rightarrow> string option" where
  "single_digest a =
     (if length (ma_files a) = 1 \<and> af_digest (hd (ma_files a)) \<noteq> [] then Some (af_digest (hd (ma_files a))) else None)"

lemma covers_refl: "covers a a"
  by (simp add: covers_def)

lemma covers_trans: "covers k d \<Longrightarrow> covers d a \<Longrightarrow> covers k a"
  by (auto simp: covers_def)

lemma set_add_alias: "set (add_alias al als) = insert al (set als)"
  by (auto simp: add_alias_def)

lemma set_add_aliases: "set (fold add_alias ds als) = set ds \<union> set als"
  by (induction ds arbitrary: als) (auto simp: set_add_alias)

lemma covers_absorb: "covers (absorb k d) k" "covers (absorb k d) d"
proof -
  have "paths (absorb k d) = paths k \<union> paths d"
    by (simp add: paths_def absorb_def image_Un image_image)
  then show "covers (absorb k d) k" "covers (absorb k d) d"
    by (auto simp: covers_def absorb_def set_add_alias set_add_aliases)
qed

lemma total_bytes_absorb [simp]: "total_bytes (absorb k d) = total_bytes k"
  by (simp add: total_bytes_def absorb_def filter_map comp_def)

text \<open>The state of the loop before artifact \<open>n\<close>.\<close>

definition merge_inv :: "artifact list \<Rightarrow> nat \<Rightarrow> merging \<Rightarrow> bool" where
  "merge_inv arts n m \<longleftrightarrow> length (mg_arts m) = length arts \<and> set (mg_absorbed m) \<subseteq> {..<n} \<and>
     (\<forall>i. n \<le> i \<longrightarrow> i < length arts \<longrightarrow> mg_arts m ! i = arts ! i) \<and>
     (\<forall>dg j. mg_by_digest m dg = Some j \<longrightarrow> j < n \<and> j \<notin> set (mg_absorbed m) \<and> single_digest (arts ! j) = Some dg) \<and>
     (\<forall>i < n. \<forall>dg. single_digest (arts ! i) = Some dg \<longrightarrow> i \<in> set (mg_absorbed m) \<or> mg_by_digest m dg = Some i) \<and>
     (\<forall>i < length arts. \<exists>k < length arts. k \<notin> set (mg_absorbed m) \<and> covers (mg_arts m ! k) (arts ! i)) \<and>
     (\<Sum>i \<in> {..<length arts} - set (mg_absorbed m). total_bytes (mg_arts m ! i)) + mg_reclaimed m =
       (\<Sum>i \<in> {..<length arts}. total_bytes (arts ! i))"

lemma merge_inv_bytes:
  "merge_inv arts n m \<Longrightarrow>
   (\<Sum>i \<in> {..<length arts} - set (mg_absorbed m). total_bytes (mg_arts m ! i)) + mg_reclaimed m =
     (\<Sum>i \<in> {..<length arts}. total_bytes (arts ! i))"
  unfolding merge_inv_def by blast

lemma merge_inv_start: "merge_inv arts 0 (start_merging arts)"
  using covers_refl by (auto simp: merge_inv_def start_merging_def)

lemma merge_step_eq:
  "merge_step i m = (case single_digest (mg_arts m ! i) of None \<Rightarrow> m
    | Some dg \<Rightarrow> (case mg_by_digest m dg of
        None \<Rightarrow> m\<lparr>mg_by_digest := (mg_by_digest m)(dg \<mapsto> i)\<rparr>
      | Some j \<Rightarrow>
          let (keep, drop) = (if better_id (mg_arts m ! i) (mg_arts m ! j) then (i, j) else (j, i)); d = mg_arts m ! drop
          in m\<lparr>mg_arts := (mg_arts m)[keep := absorb (mg_arts m ! keep) d],
               mg_reclaimed := mg_reclaimed m + total_bytes d, mg_count := mg_count m + 1,
               mg_absorbed := drop # mg_absorbed m, mg_by_digest := (mg_by_digest m)(dg \<mapsto> keep)\<rparr>))"
  by (simp add: merge_step_def single_digest_def Let_def)

text \<open>One artifact absorbs another.\<close>

lemma merge_inv_absorb:
  assumes inv: "merge_inv arts n m" and n: "n < length arts" and dg: "single_digest (arts ! n) = Some dg"
    and j: "mg_by_digest m dg = Some j" and kd: "keep = n \<and> gone = j \<or> keep = j \<and> gone = n"
  shows "merge_inv arts (n + 1) (m\<lparr>mg_arts := (mg_arts m)[keep := absorb (mg_arts m ! keep) (mg_arts m ! gone)],
      mg_reclaimed := mg_reclaimed m + total_bytes (mg_arts m ! gone), mg_count := mg_count m + 1,
      mg_absorbed := gone # mg_absorbed m, mg_by_digest := (mg_by_digest m)(dg \<mapsto> keep)\<rparr>)"
proof -
  let ?A = "set (mg_absorbed m)" and ?new = "absorb (mg_arts m ! keep) (mg_arts m ! gone)"
  have jn: "j < n" "j \<notin> ?A" "single_digest (arts ! j) = Some dg" and A: "?A \<subseteq> {..<n}" and len: "length (mg_arts m) = length arts"
    and rest: "\<And>i. n \<le> i \<Longrightarrow> i < length arts \<Longrightarrow> mg_arts m ! i = arts ! i"
    and dig: "\<And>dg j. mg_by_digest m dg = Some j \<Longrightarrow> j < n \<and> j \<notin> ?A \<and> single_digest (arts ! j) = Some dg"
    and seen: "\<And>i dg. i < n \<Longrightarrow> single_digest (arts ! i) = Some dg \<Longrightarrow> i \<in> ?A \<or> mg_by_digest m dg = Some i"
    and cov: "\<And>i. i < length arts \<Longrightarrow> \<exists>k < length arts. k \<notin> ?A \<and> covers (mg_arts m ! k) (arts ! i)"
    and sum: "(\<Sum>i \<in> {..<length arts} - ?A. total_bytes (mg_arts m ! i)) + mg_reclaimed m = (\<Sum>i \<in> {..<length arts}. total_bytes (arts ! i))"
    using inv j unfolding merge_inv_def by blast+
  have k: "keep < length arts" "gone < length arts" "keep \<noteq> gone" "keep \<notin> ?A" "gone \<notin> ?A" "keep < n + 1" "gone < n + 1"
    "single_digest (arts ! keep) = Some dg" "single_digest (arts ! gone) = Some dg"
    using kd jn n A dg by auto
  have at: "(mg_arts m)[keep := ?new] ! i = (if i = keep then ?new else mg_arts m ! i)" for i
    using k(1) len by (cases "i < length arts") (auto simp: nth_list_update list_update_beyond)
  show ?thesis unfolding merge_inv_def
  proof (intro conjI, goal_cases)
    case 1
    show ?case using len by simp
  next
    case 2
    show ?case using A k(7) by auto
  next
    case 3
    show ?case using rest at k(6) by simp
  next
    case 4
    show ?case using dig k(3,4,6,8,9) jn by (auto simp: less_Suc_eq)
  next
    case 5
    have "i \<in> ?A \<or> i = j" if "i < n" "single_digest (arts ! i) = Some dg" for i
      using seen[OF that] j by auto
    then show ?case using seen dg j kd by (auto simp: less_Suc_eq)
  next
    case 6
    have "\<exists>k' < length arts. k' \<notin> insert gone ?A \<and> covers ((mg_arts m)[keep := ?new] ! k') (arts ! i)" if i: "i < length arts" for i
    proof -
      obtain k' where k': "k' < length arts" "k' \<notin> ?A" "covers (mg_arts m ! k') (arts ! i)" using cov[OF i] by blast
      show ?thesis
      proof (cases "k' = gone \<or> k' = keep")
        case True
        then have "covers ?new (arts ! i)" using k'(3) covers_absorb covers_trans by metis
        then show ?thesis using k at by auto
      next
        case False
        then show ?thesis using k' at by auto
      qed
    qed
    then show ?case by simp
  next
    case 7
    have fin: "finite ({..<length arts} - ?A)" "gone \<in> {..<length arts} - ?A" using k by auto
    have "(\<Sum>i \<in> {..<length arts} - insert gone ?A. total_bytes ((mg_arts m)[keep := ?new] ! i)) =
        (\<Sum>i \<in> ({..<length arts} - ?A) - {gone}. total_bytes (mg_arts m ! i))"
      using at by (intro sum.cong) auto
    also have "\<dots> + total_bytes (mg_arts m ! gone) = (\<Sum>i \<in> {..<length arts} - ?A. total_bytes (mg_arts m ! i))"
      using fin by (simp add: sum.remove[of _ gone])
    finally show ?case using sum by (simp add: algebra_simps)
  qed
qed

lemma merge_inv_step:
  assumes inv: "merge_inv arts n m" and n: "n < length arts"
  shows "merge_inv arts (n + 1) (merge_step n m)"
proof -
  have a: "mg_arts m ! n = arts ! n" using inv n by (simp add: merge_inv_def)
  show ?thesis
  proof (cases "single_digest (arts ! n)")
    case None
    then have "merge_step n m = m" using a by (simp add: merge_step_eq)
    then show ?thesis using inv None unfolding merge_inv_def by (auto simp: less_Suc_eq)
  next
    case (Some dg)
    show ?thesis
    proof (cases "mg_by_digest m dg")
      case None
      then have "merge_step n m = m\<lparr>mg_by_digest := (mg_by_digest m)(dg \<mapsto> n)\<rparr>" using a Some by (simp add: merge_step_eq)
      moreover have "n \<notin> set (mg_absorbed m)" using inv by (auto simp: merge_inv_def)
      ultimately show ?thesis using inv Some None unfolding merge_inv_def by (auto simp: less_Suc_eq)
    next
      case j: (Some j)
      show ?thesis
      proof (cases "better_id (arts ! n) (mg_arts m ! j)")
        case True
        with merge_inv_absorb[OF inv n Some j, of n j] a Some j show ?thesis by (simp add: merge_step_eq Let_def)
      next
        case False
        with merge_inv_absorb[OF inv n Some j, of j n] a Some j show ?thesis by (simp add: merge_step_eq Let_def)
      qed
    qed
  qed
qed

lemma merge_duplicates_inv: "merge_inv arts (length arts) (merge_duplicates arts)"
proof -
  have "n \<le> length arts \<Longrightarrow> merge_inv arts n (fold merge_step [0..<n] (start_merging arts))" for n
    by (induction n) (use merge_inv_start merge_inv_step in auto)
  then show ?thesis by (simp add: merge_duplicates_def)
qed

lemma set_kept: "set (kept m) = (\<lambda>i. mg_arts m ! i) ` ({..<length (mg_arts m)} - set (mg_absorbed m))"
  by (auto simp: kept_def)

lemma kept_bytes: "sum_list (map total_bytes (kept m)) = (\<Sum>i \<in> {..<length (mg_arts m)} - set (mg_absorbed m). total_bytes (mg_arts m ! i))"
proof -
  have "set (filter (\<lambda>i. i \<notin> set (mg_absorbed m)) [0..<length (mg_arts m)]) = {..<length (mg_arts m)} - set (mg_absorbed m)" by auto
  then show ?thesis
    by (simp add: kept_def comp_def sum_list_distinct_conv_sum_set)
qed

text \<open>C26. Collapsing proven duplicates loses nothing: every artifact is covered by one that is kept (its id, all its
  aliases and all its paths still lead somewhere), and the unique bytes of the kept artifacts plus the
  bytes reported as reclaimed are the bytes there were, exactly, modulo \<open>2^64\<close>.\<close>

theorem merge_duplicates_correct:
  "list_all (\<lambda>a. list_ex (\<lambda>k. covers k a) (kept (merge_duplicates arts))) arts \<and>
   sum_list (map total_bytes (kept (merge_duplicates arts))) + mg_reclaimed (merge_duplicates arts) = sum_list (map total_bytes arts)"
proof -
  let ?m = "merge_duplicates arts"
  have inv: "merge_inv arts (length arts) ?m" by (rule merge_duplicates_inv)
  then have len: "length (mg_arts ?m) = length arts" by (simp add: merge_inv_def)
  have covered: "\<exists>k \<in> set (kept ?m). covers k a" if a: "a \<in> set arts" for a
  proof -
    obtain i where i: "i < length arts" "a = arts ! i" using a by (metis in_set_conv_nth)
    then obtain k where "k < length arts" "k \<notin> set (mg_absorbed ?m)" "covers (mg_arts ?m ! k) a"
      using inv unfolding merge_inv_def by blast
    then show ?thesis unfolding set_kept len by blast
  qed
  have "sum_list (map total_bytes arts) = (\<Sum>i \<in> {..<length arts}. total_bytes (arts ! i))"
    by (simp add: sum_list_sum_nth atLeast0LessThan)
  also have "\<dots> = sum_list (map total_bytes (kept ?m)) + mg_reclaimed ?m"
    using merge_inv_bytes[OF inv] by (simp only: kept_bytes len)
  finally have bytes: "sum_list (map total_bytes arts) = sum_list (map total_bytes (kept ?m)) + mg_reclaimed ?m" .
  show ?thesis using covered bytes[symmetric] by (simp add: list_all_iff list_ex_iff)
qed

end
