(* ===== verification/RoutePlan.thy ===== *)
theory RoutePlan
  imports Engines Registry "HOL-Library.Multiset"
begin

text \<open>
  \<open>src/model_registry_route.cpp\<close>: the translation of what an artifact can do into the backends of this machine, and
  its combination with the route of the static table. The availability probe is a parameter. Reasons,
  constraints and evidence notes are texts for a log and left out: an exclusion is the list it is put in.
\<close>

datatype availability = AvUnknown | AvPresent | AvAbsent | AvRegisteredDry

record target =
  tg_capability :: capability
  tg_type :: backend_type
  tg_id :: string
  tg_availability :: availability

record plan =
  pl_targets :: "target list"
  pl_refused :: "capability list"
  pl_unavailable :: "capability list"
  pl_conditional :: "capability list"
  pl_blocked :: "capability list"
  pl_skipped :: "capability list"
  pl_degraded :: bool

record route =
  ro_ids :: "string list"
  ro_abort :: "string list"

definition backend_for :: "capability \<Rightarrow> (backend_type \<times> string) option" where
  "backend_for c = (case c of
       NPU_Q4NX \<Rightarrow> Some (NPU_XRT, ''npu_flm'')
     | NPU_1BP \<Rightarrow> Some (NPU_XRT, ''npu_flm'')
     | FUSED_GPU_NPU \<Rightarrow> Some (HIP_GPU, ''fused_gpu_npu'')
     | VULKAN_1BP \<Rightarrow> Some (HIP_GPU, ''vulkan_hpp_gpu'')
     | HIP_1BP \<Rightarrow> Some (HIP_GPU, ''hip_1bp_gpu'')
     | HIP_GGUF \<Rightarrow> Some (HIP_GPU, ''hip_gpu'')
     | RADV_GGUF \<Rightarrow> Some (HIP_GPU, ''ggml_vulkan'')
     | HRX_GGUF \<Rightarrow> Some (HRX_GPU, ''hrx_gpu'')
     | HRX2_GGUF_Q4NX \<Rightarrow> None
     | MLX_GPU \<Rightarrow> Some (LSE_GPU, ''lse'')
     | CPU \<Rightarrow> Some (CPU_SCALAR, ''cpu_generic'')
     | CapUnknown \<Rightarrow> None)"

definition availability_for :: "bool \<Rightarrow> bool \<Rightarrow> bool \<Rightarrow> availability" where
  "availability_for is_predicate available functional =
     (if \<not> is_predicate then AvUnknown else if \<not> available then AvAbsent
      else if \<not> functional then AvRegisteredDry else AvPresent)"

section \<open>The plan of an artifact\<close>

datatype verdict = Ignored | Skipped | Refused | Conditional | Blocked | Unavailable | Target target

definition k_quant :: "int \<Rightarrow> bool" where
  "k_quant t \<longleftrightarrow> 10 \<le> t \<and> t \<le> 15"

text \<open>The gates of the HRX lane in the code's order, and the gate of the HIP lane.\<close>

definition hrx_gate :: "artifact \<Rightarrow> verdict option" where
  "hrx_gate a =
     (let arch = lower (ma_architecture a); t = ma_tok_embd_dtype a in
      if contains arch ''zaya'' then Some Conditional
      else if 0 \<le> t \<and> \<not> k_quant t \<and> contains arch ''qwen35moe'' then Some Blocked
      else if 0 \<le> t \<and> \<not> k_quant t then Some Conditional
      else if t < 0 then Some Conditional
      else if t \<noteq> 12 then Some Conditional
      else None)"

definition hip_gate :: "artifact \<Rightarrow> verdict option" where
  "hip_gate a =
     (if ma_declared_experts a \<le> 0 \<and> \<not> ma_native_has_experts a \<and> \<not> contains (lower (ma_architecture a)) ''zaya''
        \<and> \<not> contains (lower (ma_architecture a)) ''mamba''
      then Some Conditional else None)"

definition gate :: "artifact \<Rightarrow> capability \<Rightarrow> verdict option" where
  "gate a c = (if c = HRX_GGUF then hrx_gate a else if c = HIP_GGUF then hip_gate a else None)"

text \<open>The body of the loop of \<open>plan_route\<close> for one capability.\<close>

definition judge :: "overrides \<Rightarrow> (string \<Rightarrow> availability) \<Rightarrow> artifact \<Rightarrow> nat \<Rightarrow> capability \<Rightarrow> verdict" where
  "judge ovs probe a ctx c =
     (if \<not> has a c then Ignored
      else if ctx \<noteq> 0 \<and> \<not> supports ovs a c ctx then Skipped
      else case backend_for c of
        None \<Rightarrow> Refused
      | Some (t, i) \<Rightarrow>
          (case gate a c of
             Some v \<Rightarrow> v
           | None \<Rightarrow>
               (case probe i of
                  AvRegisteredDry \<Rightarrow> Conditional
                | AvAbsent \<Rightarrow> Unavailable
                | av \<Rightarrow> Target \<lparr>tg_capability = c, tg_type = t, tg_id = i, tg_availability = av\<rparr>)))"

definition file_verdict :: "capability \<Rightarrow> verdict \<Rightarrow> plan \<Rightarrow> plan" where
  "file_verdict c v p = (case v of
       Ignored \<Rightarrow> p
     | Skipped \<Rightarrow> p\<lparr>pl_skipped := pl_skipped p @ [c]\<rparr>
     | Refused \<Rightarrow> p\<lparr>pl_refused := pl_refused p @ [c]\<rparr>
     | Conditional \<Rightarrow> p\<lparr>pl_conditional := pl_conditional p @ [c]\<rparr>
     | Blocked \<Rightarrow> p\<lparr>pl_blocked := pl_blocked p @ [c]\<rparr>
     | Unavailable \<Rightarrow> p\<lparr>pl_unavailable := pl_unavailable p @ [c]\<rparr>
     | Target t \<Rightarrow> p\<lparr>pl_targets := pl_targets p @ [t]\<rparr>)"

definition empty_plan :: plan where
  "empty_plan = \<lparr>pl_targets = [], pl_refused = [], pl_unavailable = [], pl_conditional = [], pl_blocked = [],
     pl_skipped = [], pl_degraded = False\<rparr>"

definition plan_route :: "overrides \<Rightarrow> (string \<Rightarrow> availability) \<Rightarrow> artifact \<Rightarrow> nat \<Rightarrow> capability list \<Rightarrow> plan" where
  "plan_route ovs probe a ctx prefer =
     (let order = (if prefer = [] then ma_capabilities a else prefer);
          p = fold (\<lambda>c. file_verdict c (judge ovs probe a ctx c)) order empty_plan
      in p\<lparr>pl_degraded := has a NPU_Q4NX\<rparr>)"

section \<open>Routes\<close>

definition id_of :: "capability \<Rightarrow> string option" where
  "id_of c = map_option snd (backend_for c)"

definition to_backend_route :: "plan \<Rightarrow> route" where
  "to_backend_route p = \<lparr>ro_ids = map tg_id (pl_targets p), ro_abort = List.map_filter id_of (pl_blocked p)\<rparr>"

definition named_in :: "capability list \<Rightarrow> string \<Rightarrow> bool" where
  "named_in cs i \<longleftrightarrow> list_ex (\<lambda>c. id_of c = Some i) cs"

text \<open>Ids of \<open>new\<close> that are not there yet, appended one by one.\<close>

definition append_missing :: "string list \<Rightarrow> string list \<Rightarrow> string list" where
  "append_missing have_ids new = fold (\<lambda>i ids. if i \<in> set ids then ids else ids @ [i]) new have_ids"

definition head_excluded :: "route \<Rightarrow> plan \<Rightarrow> bool" where
  "head_excluded router p \<longleftrightarrow>
     (case ro_ids router of
        [] \<Rightarrow> False
      | h # _ \<Rightarrow> h \<noteq> [] \<and> h \<notin> set (ro_ids (to_backend_route p)) \<and>
          (named_in (pl_refused p) h \<or> named_in (pl_unavailable p) h \<or> named_in (pl_blocked p) h \<or>
           named_in (pl_skipped p) h \<or> named_in (pl_conditional p) h))"

definition merge_router_and_registry :: "route \<Rightarrow> plan \<Rightarrow> route" where
  "merge_router_and_registry router p =
     (let reg = to_backend_route p in
      if ro_ids reg = [] then router
      else \<lparr>ro_ids = (if head_excluded router p then append_missing (ro_ids reg) (ro_ids router)
                      else append_missing (ro_ids router) (ro_ids reg)),
            ro_abort = ro_abort reg\<rparr>)"

text \<open>\<open>registry\<close> is \<open>None\<close> for a null pointer; \<open>model_name\<close> is the field of the configuration.\<close>

definition select_route_with_registry :: "overrides \<Rightarrow> (string \<Rightarrow> availability) \<Rightarrow> model_config \<Rightarrow> string \<Rightarrow> string \<Rightarrow>
    artifact list option \<Rightarrow> nat \<Rightarrow> route" where
  "select_route_with_registry ovs probe cfg model_name model_path registry ctx =
     (let router = \<lparr>ro_ids = select_backend_route cfg, ro_abort = []\<rparr> in
      case registry of
        None \<Rightarrow> router
      | Some reg \<Rightarrow>
          if model_path = [] then router
          else (case (case resolve_path reg model_path of
                        Some a \<Rightarrow> Some a
                      | None \<Rightarrow> if model_name \<noteq> [] then find_artifact reg model_name else None) of
                  None \<Rightarrow> router
                | Some a \<Rightarrow> merge_router_and_registry router (plan_route ovs probe a ctx [])))"


section \<open>What a plan says\<close>

text \<open>The plan as the lists of its verdicts.\<close>

definition with_verdict :: "(capability \<Rightarrow> verdict) \<Rightarrow> verdict \<Rightarrow> capability list \<Rightarrow> capability list" where
  "with_verdict j v cs = filter (\<lambda>c. j c = v) cs"

definition target_of :: "verdict \<Rightarrow> target option" where
  "target_of v = (case v of Target t \<Rightarrow> Some t | _ \<Rightarrow> None)"

lemma fold_verdicts:
  "fold (\<lambda>c. file_verdict c (j c)) cs p =
   p\<lparr>pl_targets := pl_targets p @ List.map_filter (target_of \<circ> j) cs,
     pl_refused := pl_refused p @ with_verdict j Refused cs, pl_unavailable := pl_unavailable p @ with_verdict j Unavailable cs,
     pl_conditional := pl_conditional p @ with_verdict j Conditional cs, pl_blocked := pl_blocked p @ with_verdict j Blocked cs,
     pl_skipped := pl_skipped p @ with_verdict j Skipped cs\<rparr>"
proof (induction cs arbitrary: p)
  case Nil
  show ?case by (simp add: with_verdict_def List.map_filter_def)
next
  case (Cons c cs)
  have step: "fold (\<lambda>c. file_verdict c (j c)) (c # cs) p = fold (\<lambda>c. file_verdict c (j c)) cs (file_verdict c (j c) p)" by simp
  show ?case unfolding step Cons
    by (cases "j c") (simp_all add: file_verdict_def with_verdict_def target_of_def List.map_filter_def)
qed

definition plan_order :: "artifact \<Rightarrow> capability list \<Rightarrow> capability list" where
  "plan_order a pref = (if pref = [] then ma_capabilities a else pref)"

lemma plan_lists:
  fixes ovs probe a ctx pref
  defines "j \<equiv> judge ovs probe a ctx" and "cs \<equiv> plan_order a pref" and "p \<equiv> plan_route ovs probe a ctx pref"
  shows "pl_targets p = List.map_filter (target_of \<circ> j) cs" "pl_refused p = with_verdict j Refused cs"
    "pl_unavailable p = with_verdict j Unavailable cs" "pl_conditional p = with_verdict j Conditional cs"
    "pl_blocked p = with_verdict j Blocked cs" "pl_skipped p = with_verdict j Skipped cs"
  unfolding assms plan_route_def Let_def fold_verdicts by (simp_all add: empty_plan_def plan_order_def)

lemma gate_not_target: "gate a c = Some v \<Longrightarrow> v = Conditional \<or> v = Blocked \<and> c = HRX_GGUF"
  by (auto simp: gate_def hrx_gate_def hip_gate_def Let_def split: if_splits)

lemma judge_ignored: "judge ovs probe a ctx c = Ignored \<longleftrightarrow> \<not> has a c"
  using gate_not_target[of a c] by (auto simp: judge_def split: option.splits availability.splits)

lemma judge_target_capability: "judge ovs probe a ctx c = Target t \<Longrightarrow> tg_capability t = c"
  using gate_not_target[of a c] by (auto simp: judge_def split: if_splits option.splits availability.splits)

text \<open>What it takes to be a target.\<close>

definition target_ok :: "overrides \<Rightarrow> (string \<Rightarrow> availability) \<Rightarrow> artifact \<Rightarrow> nat \<Rightarrow> target \<Rightarrow> bool" where
  "target_ok ovs probe a ctx t \<longleftrightarrow> has a (tg_capability t) \<and> (ctx = 0 \<or> supports ovs a (tg_capability t) ctx) \<and>
     backend_for (tg_capability t) = Some (tg_type t, tg_id t) \<and> probe (tg_id t) = tg_availability t \<and>
     tg_availability t \<in> {AvUnknown, AvPresent} \<and> gate a (tg_capability t) = None"

lemma judge_target_ok: "judge ovs probe a ctx c = Target t \<Longrightarrow> target_ok ovs probe a ctx t"
  using gate_not_target[of a c]
  by (auto simp: judge_def target_ok_def split: if_splits option.splits availability.splits)

lemma sum_verdicts:
  "mset (map tg_capability (List.map_filter (target_of \<circ> judge ovs probe a ctx) cs)) +
   mset (with_verdict (judge ovs probe a ctx) Refused cs) + mset (with_verdict (judge ovs probe a ctx) Unavailable cs) +
   mset (with_verdict (judge ovs probe a ctx) Conditional cs) + mset (with_verdict (judge ovs probe a ctx) Blocked cs) +
   mset (with_verdict (judge ovs probe a ctx) Skipped cs) = mset (filter (has a) cs)"
proof (induction cs)
  case Nil
  show ?case by (simp add: with_verdict_def List.map_filter_def)
next
  case (Cons c cs)
  show ?case
    using Cons judge_ignored[of ovs probe a ctx c] judge_target_capability[of ovs probe a ctx c]
    by (cases "judge ovs probe a ctx c") (simp_all add: with_verdict_def List.map_filter_def target_of_def)
qed

text \<open>C21. A plan drops nothing silently: every capability of the order that the artifact has is in exactly one of the
  six lists (target, refused, unavailable here, conditional, blocked, out of context), as often as it is
  listed. A target is a lane of the translation table that the artifact's context limit admits, that passes
  the gate of its capability and that the probe does not report absent or dry; and only the HRX lane is
  ever blocked.\<close>

theorem plan_complete:
  fixes ovs probe a ctx pref
  defines "p \<equiv> plan_route ovs probe a ctx pref"
  shows "mset (map tg_capability (pl_targets p)) + mset (pl_refused p) + mset (pl_unavailable p) + mset (pl_conditional p) +
      mset (pl_blocked p) + mset (pl_skipped p) = mset (filter (has a) (plan_order a pref)) \<and>
    list_all (target_ok ovs probe a ctx) (pl_targets p) \<and> set (pl_blocked p) \<subseteq> {HRX_GGUF}"
proof -
  let ?j = "judge ovs probe a ctx" and ?cs = "plan_order a pref"
  note lists = plan_lists[of ovs probe a ctx pref, folded p_def]
  have "list_all (target_ok ovs probe a ctx) (pl_targets p)"
    unfolding lists by (auto simp: list_all_iff List.map_filter_def target_of_def judge_target_ok split: verdict.splits)
  moreover have "c = HRX_GGUF" if "?j c = Blocked" for c
    using that gate_not_target[of a c] by (auto simp: judge_def split: if_splits option.splits availability.splits)
  then have "set (pl_blocked p) \<subseteq> {HRX_GGUF}" unfolding lists with_verdict_def by auto
  ultimately show ?thesis unfolding lists using sum_verdicts[of ovs probe a ctx ?cs] by simp
qed

section \<open>The merge\<close>

lemma append_missing_ids:
  "set (append_missing xs ys) = set xs \<union> set ys \<and> take (length xs) (append_missing xs ys) = xs \<and>
   (distinct xs \<longrightarrow> distinct (append_missing xs ys))"
  unfolding append_missing_def
proof (induction ys arbitrary: xs)
  case (Cons y ys)
  let ?xs = "if y \<in> set xs then xs else xs @ [y]"
  let ?r = "fold (\<lambda>i ids. if i \<in> set ids then ids else ids @ [i]) ys ?xs"
  have r: "set ?r = set ?xs \<union> set ys" "take (length ?xs) ?r = ?xs" "distinct ?xs \<longrightarrow> distinct ?r"
    using Cons[of ?xs] by blast+
  have "take (length xs) ?r = take (length xs) (take (length ?xs) ?r)" by (simp add: min_def)
  then have "take (length xs) ?r = xs" by (simp add: r(2))
  then show ?case using r(1,3) by (auto split: if_splits)
qed simp

text \<open>C22. The merge with the registry loses no lane and knows its place: the merged route consists of the ids of the
  static route and of the plan's targets; the static route stays at the front, in its order, unless the plan
  excludes its head for a reason, and then the targets come first, in theirs. With no target at all the
  static route is returned as it is.\<close>

theorem merge_keeps_lanes:
  fixes router p
  defines "m \<equiv> merge_router_and_registry router p"
  shows "set (ro_ids m) = set (ro_ids router) \<union> set (map tg_id (pl_targets p)) \<and>
    (if pl_targets p = [] then m = router
     else ro_abort m = ro_abort (to_backend_route p) \<and>
       (if head_excluded router p then take (length (pl_targets p)) (ro_ids m) = map tg_id (pl_targets p)
        else take (length (ro_ids router)) (ro_ids m) = ro_ids router))"
  using append_missing_ids[of "ro_ids router" "map tg_id (pl_targets p)"]
    append_missing_ids[of "map tg_id (pl_targets p)" "ro_ids router"]
  by (auto simp: m_def merge_router_and_registry_def Let_def to_backend_route_def)

end
