(* ===== verification/AutoSelect.thy ===== *)
theory AutoSelect
  imports Startup RoutePlan RegistryScan
begin

text \<open>
  The start of the server, \<open>tools/unified_server.cpp\<close>: the route of a model, the lanes it may not touch, the
  initialisation, the next candidate when nothing comes up, and the lane that becomes active. A candidate is a
  configuration with its model name; the candidate that was discovered first is given. Tokenizer and
encoder follow the model and are left out. An exception of an engine's \<open>reset\<close> is not caught on the way and ends the
  program.
\<close>

record start_env =
  st_overrides :: overrides
  st_probe :: "string \<Rightarrow> availability"
  st_registry :: "artifact list"
  st_skip_known_abort :: bool
  st_pinned :: bool

type_synonym candidate = "string \<times> model_config"

definition route_and_init :: "start_env \<Rightarrow> ('w, 'f) engine_ops \<Rightarrow> 'f nums \<Rightarrow> build_flags \<Rightarrow> (string \<Rightarrow> bool) \<Rightarrow>
    candidate \<Rightarrow> 'f manager \<Rightarrow> 'w \<Rightarrow> bool option \<times> route \<times> 'f manager \<times> 'w" where
  "route_and_init env eo nm bf is_file cand m w =
     (let (name, cfg) = cand;
          route = select_route_with_registry (st_overrides env) (st_probe env) cfg name (mc_model_path cfg)
            (Some (st_registry env)) 0;
          m = m\<lparr>bm_skip := (if st_skip_known_abort env \<and> \<not> st_pinned env then ro_abort route else [])\<rparr>;
          (ok, m, w) = init eo nm bf is_file cfg (ro_ids route) m w
      in (ok, route, m, w))"

text \<open>The remaining candidates in order; the state goes on from a candidate that failed. The outer \<open>None\<close> is the
  exception, the inner one that no candidate is left.\<close>

fun try_candidates :: "start_env \<Rightarrow> ('w, 'f) engine_ops \<Rightarrow> 'f nums \<Rightarrow> build_flags \<Rightarrow> (string \<Rightarrow> bool) \<Rightarrow> string \<Rightarrow>
    candidate list \<Rightarrow> route \<Rightarrow> 'f manager \<Rightarrow> 'w \<Rightarrow> candidate option option \<times> route \<times> 'f manager \<times> 'w" where
  "try_candidates env eo nm bf is_file path [] route m w = (Some None, route, m, w)"
| "try_candidates env eo nm bf is_file path (cand # cands) route m w =
     (if mc_model_path (snd cand) = path then try_candidates env eo nm bf is_file path cands route m w
      else case route_and_init env eo nm bf is_file cand m w of
        (None, route, m, w) \<Rightarrow> (None, route, m, w)
      | (Some True, route, m, w) \<Rightarrow> (Some (Some cand), route, m, w)
      | (Some False, route, m, w) \<Rightarrow> try_candidates env eo nm bf is_file path cands route m w)"

definition start_model :: "start_env \<Rightarrow> ('w, 'f) engine_ops \<Rightarrow> 'f nums \<Rightarrow> build_flags \<Rightarrow> (string \<Rightarrow> bool) \<Rightarrow>
    candidate list \<Rightarrow> candidate \<Rightarrow> 'f manager \<Rightarrow> 'w \<Rightarrow> candidate option option \<times> route \<times> 'f manager \<times> 'w" where
  "start_model env eo nm bf is_file discovered first m w =
     (case route_and_init env eo nm bf is_file first m w of
        (None, route, m, w) \<Rightarrow> (None, route, m, w)
      | (Some True, route, m, w) \<Rightarrow> (Some (Some first), route, m, w)
      | (Some False, route, m, w) \<Rightarrow>
          if \<not> st_pinned env \<and> 1 < length discovered
          then try_candidates env eo nm bf is_file (mc_model_path (snd first)) discovered route m w
          else (Some None, route, m, w))"

text \<open>The lane that serves: the first of the route that came up, else any that did.\<close>

definition came_up :: "'f backend_info \<Rightarrow> bool" where
  "came_up b \<longleftrightarrow> bi_available b \<and> bi_functional b \<and> bi_instance b \<noteq> None"

definition select_routed :: "string list \<Rightarrow> 'f manager \<Rightarrow> 'f manager" where
  "select_routed ids m =
     (case List.find (\<lambda>i. list_ex (\<lambda>b. bi_id b = i \<and> came_up b) (bm_backends m)) ids of
        Some i \<Rightarrow> snd (select_backend i m)
      | None \<Rightarrow> (case List.find came_up (bm_backends m) of Some b \<Rightarrow> snd (select_backend (bi_id b) m) | None \<Rightarrow> m))"

text \<open>The start up to the choice of the active lane; \<open>Some None\<close>: no model, which without a pinned model ends the server.\<close>

definition start_server :: "start_env \<Rightarrow> ('w, 'f) engine_ops \<Rightarrow> 'f nums \<Rightarrow> build_flags \<Rightarrow> (string \<Rightarrow> bool) \<Rightarrow>
    candidate list \<Rightarrow> candidate \<Rightarrow> 'f manager \<Rightarrow> 'w \<Rightarrow> candidate option option \<times> 'f manager \<times> 'w" where
  "start_server env eo nm bf is_file discovered first m w =
     (case start_model env eo nm bf is_file discovered first m w of
        (Some (Some cand), route, m, w) \<Rightarrow> (Some (Some cand), select_routed (ro_ids route) m, w)
      | (c, route, m, w) \<Rightarrow> (c, m, w))"

section \<open>Lanes that are not touched\<close>

lemma try_lane_skips:
  assumes "try_lane eo nm bf cfg idx (m, acc, cpu, ok, w) = (m', acc', cpu', ok', w')" "idx < length (bm_backends m)"
    "bi_id (info_at m j) \<in> set (bm_skip m)"
  shows "info_at m' j = info_at m j"
proof (cases "j = idx")
  case True
  then show ?thesis using assms by (auto simp: try_lane_def Let_def split: if_splits)
next
  case False
  then show ?thesis using try_lane_outcome(3)[OF assms(1,2), of j] by simp
qed

lemma startup_skips:
  "fold (try_lane eo nm bf cfg) order (m, acc, cpu, ok, w) = (m', acc', cpu', ok', w') \<Longrightarrow>
   set order \<subseteq> {..<length (bm_backends m)} \<Longrightarrow> bi_id (info_at m j) \<in> set (bm_skip m) \<Longrightarrow>
   info_at m' j = info_at m j \<and> bm_skip m' = bm_skip m"
proof (induction order arbitrary: m acc cpu ok w)
  case (Cons idx order)
  obtain m1 acc1 cpu1 ok1 w1 where s: "try_lane eo nm bf cfg idx (m, acc, cpu, ok, w) = (m1, acc1, cpu1, ok1, w1)"
    by (metis prod_cases5)
  have idx: "idx < length (bm_backends m)" using Cons.prems(2) by simp
  note o = try_lane_outcome[OF s idx]
  have j: "info_at m1 j = info_at m j" by (rule try_lane_skips[OF s idx Cons.prems(3)])
  have "length (bm_backends m1) = length (bm_backends m)" using o(2) by (metis length_map)
  then have "info_at m' j = info_at m1 j \<and> bm_skip m' = bm_skip m1"
    using Cons.prems j o(5) s by (intro Cons.IH[of m1 acc1 cpu1 ok1 w1]) auto
  then show ?case using j o(5) by simp
qed simp

lemma init_skips:
  assumes "init eo nm bf is_file cfg preferred m w = (ok, m', w')" "bi_id (info_at m j) \<in> set (bm_skip m)"
  shows "info_at m' j = info_at m j"
proof (cases "bm_backends m = []")
  case True
  then show ?thesis using assms(1) by (auto simp: init_def Let_def)
next
  case False
  obtain m0 where m0: "init_in_order eo nm bf cfg (lane_order (bm_backends m) preferred) m0 w = (ok, m', w')"
    "bm_backends m0 = bm_backends m" "bm_skip m0 = bm_skip m"
    using assms(1) False by (auto simp: init_def Let_def split: if_splits)
  define mp where "mp = (if bm_pilot m0 then logged [PilotStop] (m0\<lparr>bm_pilot := False\<rparr>) else m0)"
  define m1 where "m1 = mp\<lparr>bm_router := clear (bm_router mp)\<rparr>"
  have m1: "bm_backends m1 = bm_backends m" "bm_skip m1 = bm_skip m" using m0 by (simp_all add: m1_def mp_def)
  obtain m2 acc cpu ok2 w2 where f: "fold (try_lane eo nm bf cfg) (lane_order (bm_backends m) preferred) (m1, False, False, Some False, w) = (m2, acc, cpu, ok2, w2)"
    by (metis prod_cases5)
  have "m' = (if ok = Some True then m2\<lparr>bm_initialized := True\<rparr> else m2)"
    using m0(1) unfolding init_in_order_def Let_def mp_def[symmetric] m1_def[symmetric] f by auto
  moreover have "info_at m2 j = info_at m1 j"
    using startup_skips[OF f, of j] assms(2) m1 by (simp add: lane_order_set)
  ultimately show ?thesis using m1 by auto
qed

definition route_of :: "start_env \<Rightarrow> candidate \<Rightarrow> route" where
  "route_of env cand = select_route_with_registry (st_overrides env) (st_probe env) (snd cand) (fst cand)
     (mc_model_path (snd cand)) (Some (st_registry env)) 0"

text \<open>The class of artifacts on which the HRX lane aborts the process.\<close>

definition known_abort :: "artifact \<Rightarrow> bool" where
  "known_abort a \<longleftrightarrow> has a HRX_GGUF \<and> contains (lower (ma_architecture a)) ''qwen35moe'' \<and>
     \<not> contains (lower (ma_architecture a)) ''zaya'' \<and> 0 \<le> ma_tok_embd_dtype a \<and> \<not> k_quant (ma_tok_embd_dtype a)"

lemma known_abort_blocked: "known_abort a \<Longrightarrow> judge ovs probe a 0 HRX_GGUF = Blocked"
  by (auto simp: known_abort_def judge_def backend_for_def gate_def hrx_gate_def Let_def)

lemma known_abort_ids:
  assumes "known_abort a"
  shows "''hrx_gpu'' \<in> set (ro_abort (to_backend_route (plan_route ovs probe a 0 [])))"
proof -
  have "HRX_GGUF \<in> set (pl_blocked (plan_route ovs probe a 0 []))"
    using known_abort_blocked[OF assms] assms
    by (simp add: plan_lists with_verdict_def plan_order_def known_abort_def has_def)
  then show ?thesis
    by (auto simp: to_backend_route_def List.map_filter_def id_of_def backend_for_def intro!: image_eqI[of _ _ HRX_GGUF])
qed

lemma route_of_artifact:
  assumes "resolve_path (st_registry env) (mc_model_path (snd cand)) = Some a" "mc_model_path (snd cand) \<noteq> []"
  shows "route_of env cand = merge_router_and_registry \<lparr>ro_ids = select_backend_route (snd cand), ro_abort = []\<rparr>
    (plan_route (st_overrides env) (st_probe env) a 0 [])"
  using assms by (simp add: route_of_def select_route_with_registry_def)

text \<open>C14. A lane that is known to abort the process is not touched: when the skip list is in use and no model is
  pinned, the initialisation for an artifact of the known-abort class (a Qwen3.5-MoE GGUF whose token
  embedding is not of a K-quant type) leaves the HRX lane exactly as it was: the verdict of the plan travels
  as an id through the merged route into the manager's skip list. Some target must remain, or the merge
  returns the static route and drops the verdict.\<close>

theorem blocked_lane_left_alone:
  assumes "st_skip_known_abort env" "\<not> st_pinned env" "mc_model_path (snd cand) \<noteq> []"
    "resolve_path (st_registry env) (mc_model_path (snd cand)) = Some a" "known_abort a"
    "pl_targets (plan_route (st_overrides env) (st_probe env) a 0 []) \<noteq> []"
    "route_and_init env eo nm bf is_file cand m w = (ok, route, m', w')" "bi_id (info_at m j) = ''hrx_gpu''"
  shows "info_at m' j = info_at m j"
proof -
  let ?plan = "plan_route (st_overrides env) (st_probe env) a 0 []"
  have "ro_abort (route_of env cand) = ro_abort (to_backend_route ?plan)"
    using assms(6) unfolding route_of_artifact[OF assms(4,3)]
    by (simp add: merge_router_and_registry_def Let_def to_backend_route_def)
  then have abort: "''hrx_gpu'' \<in> set (ro_abort (route_of env cand))" using known_abort_ids[OF assms(5)] by simp
  define m0 where "m0 = m\<lparr>bm_skip := ro_abort (route_of env cand)\<rparr>"
  have "init eo nm bf is_file (snd cand) (ro_ids (route_of env cand)) m0 w = (ok, m', w')"
    using assms(1,2,7) by (cases cand) (simp add: route_and_init_def route_of_def m0_def Let_def split: prod.splits)
  from init_skips[OF this, of j] assms(8) abort show ?thesis by (simp add: m0_def)
qed

text \<open>Without a target the verdict is lost: the merge returns the static route, nothing is skipped, and the lane that
  aborts the process is initialised like any other.\<close>

lemma verdict_lost_without_target:
  assumes "resolve_path (st_registry env) (mc_model_path (snd cand)) = Some a" "mc_model_path (snd cand) \<noteq> []"
    "pl_targets (plan_route (st_overrides env) (st_probe env) a 0 []) = []"
  shows "ro_abort (route_of env cand) = []"
  unfolding route_of_artifact[OF assms(1,2)] using assms(3) by (simp add: merge_router_and_registry_def to_backend_route_def Let_def)

section \<open>Failover and the skip list\<close>

lemma skip_frame:
  "upd_info i f (m\<lparr>bm_skip := ids\<rparr>) = (upd_info i f m)\<lparr>bm_skip := ids\<rparr>"
  "destroy_instance i (m\<lparr>bm_skip := ids\<rparr>) = (destroy_instance i m)\<lparr>bm_skip := ids\<rparr>"
  by (simp_all add: upd_info_def destroy_instance_def)

definition with_skip :: "string list \<Rightarrow> bool option \<times> 'f manager \<times> 'w \<Rightarrow> bool option \<times> 'f manager \<times> 'w" where
  "with_skip ids = (\<lambda>(ok, m, w). (ok, m\<lparr>bm_skip := ids\<rparr>, w))"

lemma take_over_skip: "take_over eo idx b (m\<lparr>bm_skip := ids\<rparr>) w = with_skip ids (take_over eo idx b m w)"
  by (auto simp: take_over_def with_skip_def Let_def split: prod.split option.split)

lemma try_failover_skip: "try_failover eo bf idx (m\<lparr>bm_skip := ids\<rparr>) w = with_skip ids (try_failover eo bf idx m w)"
  by (simp add: try_failover_def Let_def skip_frame take_over_skip with_skip_def split: prod.split option.split bool.split)

lemma failover_loop_skip: "failover_loop eo bf failed bids (m\<lparr>bm_skip := ids\<rparr>) w = with_skip ids (failover_loop eo bf failed bids m w)"
proof (induction bids arbitrary: m w)
  case Nil
  show ?case by (simp add: with_skip_def)
next
  case (Cons bid bids)
  show ?case
  proof (cases "bid = failed \<or> find_entry (\<lambda>b. bi_id b = bid) (bm_backends m) = None")
    case True
    then show ?thesis using Cons by auto
  next
    case False
    then obtain idx where i: "find_entry (\<lambda>b. bi_id b = bid) (bm_backends m) = Some idx" by auto
    obtain ok m1 w1 where t: "try_failover eo bf idx m w = (ok, m1, w1)" by (metis prod_cases3)
    then have "try_failover eo bf idx (m\<lparr>bm_skip := ids\<rparr>) w = (ok, m1\<lparr>bm_skip := ids\<rparr>, w1)"
      by (simp add: try_failover_skip with_skip_def)
    then show ?thesis using False i t Cons[of m1 w1] by (simp add: with_skip_def split: option.split bool.split)
  qed
qed

lemma skip_selectors:
  "bm_policy (m\<lparr>bm_skip := ids\<rparr>) = bm_policy m" "bm_active (m\<lparr>bm_skip := ids\<rparr>) = bm_active m"
  "bm_backends (m\<lparr>bm_skip := ids\<rparr>) = bm_backends m"
  by simp_all

lemma failed_id_skip: "failed_id (m\<lparr>bm_skip := ids\<rparr>) = failed_id m"
  by (simp add: failed_id_def active_info_def)

lemma fallback_order_skip: "fallback_order (m\<lparr>bm_skip := ids\<rparr>) = fallback_order m"
  by (simp add: fallback_order_def)

text \<open>The verdict does not reach failover: with any skip list \<open>failover\<close> does exactly what it does without one.
  After the first failed token it brings up, on demand, the next lane of the order, also one that the plan
  has blocked because it aborts the process.\<close>

lemma failover_ignores_skip_list:
  "failover eo bf (m\<lparr>bm_skip := ids\<rparr>) w =
     (case failover eo bf m w of (ok, m', w') \<Rightarrow> (ok, m'\<lparr>bm_skip := ids\<rparr>, w'))"
proof -
  have "failover eo bf (m\<lparr>bm_skip := ids\<rparr>) w = with_skip ids (failover eo bf m w)"
    unfolding failover_def Let_def skip_selectors
    by (simp only: skip_frame failed_id_skip fallback_order_skip failover_loop_skip if_distrib[of "with_skip ids"]
        if_distrib[of failed_id] split: if_split) (simp add: with_skip_def)
  then show ?thesis by (simp add: with_skip_def)
qed


section \<open>The lane that serves\<close>

lemma find_SomeD: "List.find P xs = Some x \<Longrightarrow> P x \<and> x \<in> set xs \<and> (\<forall>y \<in> set (takeWhile (\<lambda>y. y \<noteq> x) xs). \<not> P y)"
proof (induction xs)
  case (Cons a xs)
  show ?case
  proof (cases "P a")
    case True
    then show ?thesis using Cons.prems by simp
  next
    case False
    then have f: "List.find P xs = Some x" using Cons.prems by simp
    have x: "P x" "x \<in> set xs" "\<forall>y \<in> set (takeWhile (\<lambda>y. y \<noteq> x) xs). \<not> P y" using Cons.IH[OF f] by blast+
    have "takeWhile (\<lambda>y. y \<noteq> x) (a # xs) = a # takeWhile (\<lambda>y. y \<noteq> x) xs" using x(1) False by auto
    then have "\<forall>y \<in> set (takeWhile (\<lambda>y. y \<noteq> x) (a # xs)). \<not> P y" using x(3) False by (simp only: list.set ball_simps simp_thms)
    then show ?thesis using x(1,2) by (intro conjI) (assumption, rule list.set_intros(2), assumption+)
  qed
qed simp

lemma came_up_selected:
  assumes "distinct (lane_ids m)" "b \<in> set (bm_backends m)" "came_up b"
  shows "\<exists>k. select_backend (bi_id b) m = (True, m\<lparr>bm_active := k, bm_strategy := SEL_MANUAL\<rparr>) \<and>
    k < length (bm_backends m) \<and> info_at m k = b"
proof -
  obtain i where i: "i < length (bm_backends m)" "info_at m i = b" using assms(2) by (metis in_set_conv_nth)
  have "usable b" using assms(3) by (simp add: came_up_def usable_def)
  then obtain k where k: "find_entry (\<lambda>b'. bi_id b' = bi_id b \<and> usable b') (bm_backends m) = Some k"
    using find_entry_ex[OF assms(2), of "\<lambda>b'. bi_id b' = bi_id b \<and> usable b'"] by auto
  note kf = find_entry_SomeD[OF k]
  then have "k = i" using same_id_same_lane[OF assms(1), of k i] i by simp
  then show ?thesis using k i by (intro exI[of _ i]) (simp add: select_backend_def select_where_def)
qed

definition active_id :: "'f manager \<Rightarrow> string" where
  "active_id m = bi_id (info_at m (bm_active m))"

text \<open>No lane that the route names before the active one came up.\<close>

definition leads_route :: "string list \<Rightarrow> 'f manager \<Rightarrow> bool" where
  "leads_route ids m \<longleftrightarrow>
     list_all (\<lambda>i. list_all (\<lambda>b. bi_id b = i \<longrightarrow> \<not> came_up b) (bm_backends m)) (takeWhile (\<lambda>i. i \<noteq> active_id m) ids)"

lemma select_routed_leads:
  assumes "distinct (lane_ids m)" "active_ready m"
  shows "active_ready (select_routed ids m) \<and> bm_backends (select_routed ids m) = bm_backends m \<and>
    leads_route ids (select_routed ids m)"
proof -
  let ?P = "\<lambda>i. list_ex (\<lambda>b. bi_id b = i \<and> came_up b) (bm_backends m)"
  have sel: "active_ready m' \<and> bm_backends m' = bm_backends m \<and> active_id m' = bi_id b"
    if "b \<in> set (bm_backends m)" "came_up b" "m' = snd (select_backend (bi_id b) m)" for b m'
    using came_up_selected[OF assms(1) that(1,2)] that(2,3)
    by (auto simp: active_ready_def active_usable_def active_backend_def usable_def came_up_def active_id_def)
  show ?thesis
  proof (cases "List.find ?P ids")
    case (Some i)
    note f = find_SomeD[OF this]
    then obtain b where b: "b \<in> set (bm_backends m)" "bi_id b = i" "came_up b" by (auto simp: list_ex_iff)
    have r: "select_routed ids m = snd (select_backend (bi_id b) m)" using Some b(2) by (simp add: select_routed_def)
    note s = sel[OF b(1,3) r]
    then have "leads_route ids (select_routed ids m)"
      using f b(2) by (auto simp: leads_route_def list_all_iff list_ex_iff)
    with s show ?thesis by blast
  next
    case None
    let ?b = "info_at m (bm_active m)"
    have up: "?b \<in> set (bm_backends m)" "came_up ?b"
      using assms(2) by (auto simp: active_ready_def active_usable_def active_backend_def usable_def came_up_def split: if_splits)
    then obtain b where f: "List.find came_up (bm_backends m) = Some b" by (metis find_None_iff option.exhaust)
    then have b: "b \<in> set (bm_backends m)" "came_up b" using find_SomeD by fastforce+
    have r: "select_routed ids m = snd (select_backend (bi_id b) m)" using None f by (simp add: select_routed_def)
    have "\<not> ?P i" if "i \<in> set ids" for i using None that by (auto simp: find_None_iff)
    then have "leads_route ids (select_routed ids m)"
      using sel[OF b r] by (auto simp: leads_route_def list_all_iff list_ex_iff dest!: set_takeWhileD)
    with sel[OF b r] show ?thesis by blast
  qed
qed

lemma route_and_init_run:
  assumes "distinct (lane_ids m)" "bm_backends m \<noteq> []"
    "route_and_init env eo nm bf is_file cand m w = (ok, route, m', w')"
  shows "lane_ids m' = lane_ids m" "ok = Some True \<Longrightarrow> active_ready m'" "route = route_of env cand"
proof -
  obtain nm' cfg where c: "cand = (nm', cfg)" by (cases cand)
  define ids where "ids = (if st_skip_known_abort env \<and> \<not> st_pinned env then ro_abort (route_of env cand) else [])"
  define m0 where "m0 = m\<lparr>bm_skip := ids\<rparr>"
  have route: "select_route_with_registry (st_overrides env) (st_probe env) cfg nm' (mc_model_path cfg) (Some (st_registry env)) 0 =
      route_of env cand" by (simp add: route_of_def c)
  obtain ok1 m1 w1 where i1: "init eo nm bf is_file cfg (ro_ids (route_of env cand)) m0 w = (ok1, m1, w1)" by (metis prod_cases3)
  have "(ok1, route_of env cand, m1, w1) = (ok, route, m', w')"
    using assms(3) unfolding route_and_init_def Let_def c prod.case route[unfolded c] ids_def[symmetric, unfolded c] m0_def[symmetric]
    using i1 by (simp add: c)
  then have i: "init eo nm bf is_file (snd cand) (ro_ids (route_of env cand)) m0 w = (ok, m', w')" and "route = route_of env cand"
    using i1 c by auto
  then show "route = route_of env cand" by simp
  have m0: "distinct (lane_ids m0)" "bm_backends m0 \<noteq> []" using assms(1,2) by (simp_all add: m0_def)
  note r = init_run[OF i m0]
  show "lane_ids m' = lane_ids m" using r(2) by (simp add: m0_def)
  show "active_ready m'" if "ok = Some True" using r(1) that by (auto simp: startup_inv_def)
qed

lemma lane_ids_nonempty: "lane_ids m' = lane_ids m \<Longrightarrow> bm_backends m \<noteq> [] \<Longrightarrow> bm_backends m' \<noteq> []"
  by auto

definition started :: "start_env \<Rightarrow> candidate \<Rightarrow> route \<Rightarrow> 'f manager \<Rightarrow> 'f manager \<Rightarrow> bool" where
  "started env cand route m m' \<longleftrightarrow> lane_ids m' = lane_ids m \<and> active_ready m' \<and> route = route_of env cand"

lemma try_candidates_started:
  "try_candidates env eo nm bf is_file path cands route m w = (Some (Some cand), route', m', w') \<Longrightarrow>
   distinct (lane_ids m) \<Longrightarrow> bm_backends m \<noteq> [] \<Longrightarrow> started env cand route' m m' \<and> cand \<in> set cands"
proof (induction cands arbitrary: route m w)
  case (Cons c cands)
  show ?case
  proof (cases "mc_model_path (snd c) = path")
    case True
    then show ?thesis using Cons by auto
  next
    case False
    obtain ok route1 m1 w1 where s: "route_and_init env eo nm bf is_file c m w = (ok, route1, m1, w1)" by (metis prod_cases4)
    note r = route_and_init_run[OF Cons.prems(2,3) s]
    show ?thesis
    proof (cases "ok = Some True")
      case True
      then show ?thesis using Cons.prems(1) False s r by (auto simp: started_def)
    next
      case False
      then have fails: "ok = Some False" using Cons.prems(1) s \<open>mc_model_path _ \<noteq> _\<close> by (cases ok) auto
      then have "started env cand route' m1 m' \<and> cand \<in> set cands"
        using Cons.IH[of route1 m1 w1] Cons.prems \<open>mc_model_path _ \<noteq> _\<close> s r(1) lane_ids_nonempty[OF r(1)] by simp
      then show ?thesis using r(1) by (simp add: started_def)
    qed
  qed
qed simp

lemma start_model_started:
  assumes "start_model env eo nm bf is_file discovered first m w = (Some (Some cand), route, m', w')"
    "distinct (lane_ids m)" "bm_backends m \<noteq> []"
  shows "started env cand route m m' \<and> (cand = first \<or> \<not> st_pinned env \<and> cand \<in> set discovered)"
proof -
  obtain ok route1 m1 w1 where s: "route_and_init env eo nm bf is_file first m w = (ok, route1, m1, w1)" by (metis prod_cases4)
  note r = route_and_init_run[OF assms(2,3) s]
  show ?thesis
  proof (cases "ok = Some True")
    case True
    then show ?thesis using assms(1) s r by (auto simp: start_model_def started_def)
  next
    case False
    then have "ok = Some False" using assms(1) s by (cases ok) (auto simp: start_model_def)
    then have p: "\<not> st_pinned env" "try_candidates env eo nm bf is_file (mc_model_path (snd first)) discovered route1 m1 w1 =
        (Some (Some cand), route, m', w')"
      using assms(1) s by (auto simp: start_model_def split: if_splits)
    show ?thesis
      using try_candidates_started[OF p(2)] assms(2,3) p(1) r(1) lane_ids_nonempty[OF r(1)] by (simp add: started_def)
  qed
qed

text \<open>C13. A start that reports a model serves it: the model is the given one or, only when none is pinned, another
  discovered one; the active lane has a working engine; and it is the first lane of that model's merged
  route that came up, not the lane \<open>init\<close> left active.\<close>

theorem server_start_sound:
  assumes "distinct (lane_ids m)" "bm_backends m \<noteq> []"
    "start_server env eo nm bf is_file discovered first m w = (Some (Some cand), m', w')"
  shows "(cand = first \<or> \<not> st_pinned env \<and> cand \<in> set discovered) \<and> active_ready m' \<and> lane_ids m' = lane_ids m \<and>
    leads_route (ro_ids (route_of env cand)) m'"
proof -
  obtain route m1 where s: "start_model env eo nm bf is_file discovered first m w = (Some (Some cand), route, m1, w')"
    "m' = select_routed (ro_ids route) m1"
    using assms(3) by (auto simp: start_server_def split: prod.splits option.splits)
  note r = start_model_started[OF s(1) assms(1,2)]
  then have "distinct (lane_ids m1)" "active_ready m1" using assms(1) by (simp_all add: started_def)
  from select_routed_leads[OF this, of "ro_ids route"] r show ?thesis by (auto simp: started_def s(2))
qed

definition demo_env :: start_env where
  "demo_env = \<lparr>st_overrides = [], st_probe = \<lambda>_. AvUnknown, st_registry = [], st_skip_known_abort = False, st_pinned = True\<rparr>"

lemma demo_route_order:
  "lane_order (bm_backends (demo_lanes nm)) (ro_ids (select_route_with_registry [] (\<lambda>_. AvUnknown) default_config [] (mc_model_path default_config) (Some []) 0)) =
    [0, 1]"
  by (simp add: select_route_with_registry_def resolve_path_def demo_lanes_def new_manager_def demo_lane_def lane_def lane_order_def
      select_backend_route_def find_unused_def default_config_def upt_rec Let_def)

theorem server_start_sound_witness:
  "\<forall>(eo :: ('w, 'f) engine_ops) (nm :: 'f nums) bf w. \<exists>m' w'.
     start_server demo_env (boot_ops eo) nm bf (\<lambda>_. True) [] ([], default_config) (demo_lanes nm) w = (Some (Some ([], default_config)), m', w') \<and>
     active_ready m'"
proof (intro allI)
  fix eo :: "('w, 'f) engine_ops" and nm :: "'f nums" and bf w
  have skip: "(demo_lanes nm)\<lparr>bm_skip := []\<rparr> = demo_lanes nm" by (simp add: demo_lanes_def new_manager_def)
  have "fst (route_and_init demo_env (boot_ops eo) nm bf (\<lambda>_. True) ([], default_config) (demo_lanes nm) w) = Some True"
    using demo_lanes_init[OF demo_route_order[of nm], where eo = eo and bf = bf and is_file = "\<lambda>_. True" and cfg = default_config and w = w]
    by (auto simp: route_and_init_def demo_env_def skip Let_def split: prod.splits)
  then obtain route m1 w' where "route_and_init demo_env (boot_ops eo) nm bf (\<lambda>_. True) ([], default_config) (demo_lanes nm) w =
      (Some True, route, m1, w')" by (metis prod.collapse)
  then have s: "start_server demo_env (boot_ops eo) nm bf (\<lambda>_. True) [] ([], default_config) (demo_lanes nm) w =
      (Some (Some ([], default_config)), select_routed (ro_ids route) m1, w')"
    by (simp add: start_server_def start_model_def)
  from server_start_sound[OF _ _ s] s show "\<exists>m' w'. start_server demo_env (boot_ops eo) nm bf (\<lambda>_. True) [] ([], default_config) (demo_lanes nm) w =
      (Some (Some ([], default_config)), m', w') \<and> active_ready m'"
    by (simp add: demo_lanes_simps)
qed

section \<open>A blocked lane\<close>

definition moe_artifact :: artifact where
  "moe_artifact = (probed \<lparr>pd_base = ''m'', pd_container = ContGGUF, pd_quant = [], pd_files = [], pd_probe = no_probe, pd_q4nx_named = False\<rparr>
     [\<lparr>af_path = ''m.gguf'', af_bytes = 1, af_shard_index = 0, af_shard_count = 1, af_digest = [], af_duplicate = False\<rparr>])
     \<lparr>ma_architecture := ''qwen35moe'', ma_tok_embd_dtype := 30, ma_capabilities := [HRX_GGUF, RADV_GGUF, HIP_GGUF, CPU]\<rparr>"

definition moe_env :: start_env where
  "moe_env = \<lparr>st_overrides = [], st_probe = \<lambda>_. AvUnknown, st_registry = [moe_artifact], st_skip_known_abort = True, st_pinned = False\<rparr>"

definition moe_config :: model_config where
  "moe_config = default_config\<lparr>mc_model_path := ''m.gguf''\<rparr>"

definition hrx_lanes :: "'f nums \<Rightarrow> 'f manager" where
  "hrx_lanes nm = new_manager\<lparr>bm_backends := [demo_lane nm ''hrx_gpu'' T2_GPU None, demo_lane nm ''cpu_generic'' T3_CPU None]\<rparr>"

lemma moe_facts:
  "resolve_path [moe_artifact] ''m.gguf'' = Some moe_artifact" "known_abort moe_artifact"
  "pl_targets (plan_route [] (\<lambda>_. AvUnknown) moe_artifact 0 []) \<noteq> []"
  by (simp_all add: moe_artifact_def probed_def no_probe_def resolve_path_def known_abort_def has_def k_quant_def lower_def
      lower_char_def contains_def plan_lists plan_order_def target_of_def List.map_filter_def judge_def gate_def hip_gate_def
      hrx_gate_def backend_for_def str_find_def upt_rec)

theorem blocked_lane_left_alone_witness:
  "\<forall>(eo :: ('w, 'f) engine_ops) (nm :: 'f nums) bf w.
     info_at (fst (snd (snd (route_and_init moe_env (boot_ops eo) nm bf (\<lambda>_. True) (''m'', moe_config) (hrx_lanes nm) w)))) 0 =
     info_at (hrx_lanes nm) 0"
proof (intro allI)
  fix eo :: "('w, 'f) engine_ops" and nm :: "'f nums" and bf w
  obtain ok route m' w' where run: "route_and_init moe_env (boot_ops eo) nm bf (\<lambda>_. True) (''m'', moe_config) (hrx_lanes nm) w =
    (ok, route, m', w')" by (metis prod_cases4)
  have env: "st_skip_known_abort moe_env" "\<not> st_pinned moe_env" "st_registry moe_env = [moe_artifact]"
    "st_overrides moe_env = []" "st_probe moe_env = (\<lambda>_. AvUnknown)" "mc_model_path moe_config = ''m.gguf''"
    "bi_id (info_at (hrx_lanes nm) 0) = ''hrx_gpu''"
    by (simp_all add: moe_env_def moe_config_def hrx_lanes_def new_manager_def demo_lane_def lane_def)
  show "info_at (fst (snd (snd (route_and_init moe_env (boot_ops eo) nm bf (\<lambda>_. True) (''m'', moe_config) (hrx_lanes nm) w)))) 0 =
      info_at (hrx_lanes nm) 0"
    using blocked_lane_left_alone[of moe_env "(''m'', moe_config)" moe_artifact "boot_ops eo" nm bf "\<lambda>_. True"
        "hrx_lanes nm" w ok route m' w' 0] run by (simp add: env moe_facts)
qed

end
