(* ===== verification/OnebpFormat.thy ===== *)
theory OnebpFormat
  imports GgufDequant
begin

text \<open>
  \<open>include/onebp_format.h\<close>: the header of a \<open>.1bp\<close> file, the size of a tiled matrix and the 8-bit scales. A
  quantisation type is the 32-bit field of the file. The fields after the tensor count (expert and attention
  parameters, padding, tag) are kept as the bytes they are; no code modelled here reads them.
\<close>

section \<open>Header\<close>

record header =
  oh_magic :: u32
  oh_version :: u32
  oh_arch :: u32
  oh_quant :: u32
  oh_scale_type :: u32
  oh_hidden_size :: u32
  oh_num_layers :: u32
  oh_num_heads :: u32
  oh_num_kv_heads :: u32
  oh_head_dim :: u32
  oh_intermediate_size :: u32
  oh_vocab_size :: u32
  oh_max_seq_len :: u32
  oh_tile_rows :: u32
  oh_tile_cols :: u32
  oh_group_size :: u32
  oh_has_q_norm :: u32
  oh_has_k_norm :: u32
  oh_has_bias :: u32
  oh_rope_theta :: u32
  oh_bos :: u32
  oh_eos :: u32
  oh_tensor_count :: u32
  oh_rest :: "byte list"

text \<open>The fields from \<open>hidden_size\<close> to \<open>max_seq_len\<close> are signed.\<close>

definition header_valid :: "header \<Rightarrow> bool" where
  "header_valid h \<longleftrightarrow>
     oh_magic h = 0x00504231 \<and> 1 \<le> oh_version h \<and> oh_version h \<le> 4 \<and>
     0 < sint (oh_hidden_size h) \<and> 0 < sint (oh_num_layers h) \<and> 0 < sint (oh_vocab_size h) \<and>
     \<not> (0 < sint (oh_num_heads h) \<and> sint (oh_head_dim h) \<le> 0) \<and>
     \<not> (0 < sint (oh_head_dim h) \<and> sint (oh_num_heads h) \<le> 0) \<and>
     0 < sint (oh_intermediate_size h) \<and> 0 < oh_tile_rows h \<and> 0 < oh_tile_cols h \<and> 0 < oh_group_size h"

definition header_words :: "header \<Rightarrow> u32 list" where
  "header_words h =
     [oh_magic h, oh_version h, oh_arch h, oh_quant h, oh_scale_type h, oh_hidden_size h, oh_num_layers h,
      oh_num_heads h, oh_num_kv_heads h, oh_head_dim h, oh_intermediate_size h, oh_vocab_size h, oh_max_seq_len h,
      oh_tile_rows h, oh_tile_cols h, oh_group_size h, oh_has_q_norm h, oh_has_k_norm h, oh_has_bias h,
      oh_rope_theta h, oh_bos h, oh_eos h, oh_tensor_count h]"

definition put32 :: "u32 \<Rightarrow> byte list" where
  "put32 w = le_bytes 4 (unat w)"

definition put64 :: "u64 \<Rightarrow> byte list" where
  "put64 w = le_bytes 8 (unat w)"

definition put_header :: "header \<Rightarrow> byte list" where
  "put_header h = concat (map put32 (header_words h)) @ oh_rest h"

text \<open>\<open>memcpy\<close> of the first 256 bytes: field \<open>i\<close> is the \<open>i\<close>-th word.\<close>

definition word_at :: "byte list \<Rightarrow> nat \<Rightarrow> u32" where
  "word_at bs i = of_nat (le_value (take 4 (drop (4 * i) bs)))"

definition get_header :: "byte list \<Rightarrow> header" where
  "get_header bs =
     \<lparr>oh_magic = word_at bs 0, oh_version = word_at bs 1, oh_arch = word_at bs 2, oh_quant = word_at bs 3,
      oh_scale_type = word_at bs 4, oh_hidden_size = word_at bs 5, oh_num_layers = word_at bs 6,
      oh_num_heads = word_at bs 7, oh_num_kv_heads = word_at bs 8, oh_head_dim = word_at bs 9,
      oh_intermediate_size = word_at bs 10, oh_vocab_size = word_at bs 11, oh_max_seq_len = word_at bs 12,
      oh_tile_rows = word_at bs 13, oh_tile_cols = word_at bs 14, oh_group_size = word_at bs 15,
      oh_has_q_norm = word_at bs 16, oh_has_k_norm = word_at bs 17, oh_has_bias = word_at bs 18,
      oh_rope_theta = word_at bs 19, oh_bos = word_at bs 20, oh_eos = word_at bs 21, oh_tensor_count = word_at bs 22,
      oh_rest = take 164 (drop 92 bs)\<rparr>"

section \<open>Sizes\<close>

text \<open>\<open>onebp_tiled_size\<close>: the counts of tiles and groups are 32-bit, the bytes 64-bit.\<close>

definition writer_tile_bytes :: "u32 \<Rightarrow> u32 \<Rightarrow> u32 \<Rightarrow> u32 \<Rightarrow> u64" where
  "writer_tile_bytes tr tc gs q =
     (let r = ucast tr; c = ucast tc; g = ucast (tc div gs) in
      if q = 0 then r * g * 2 + r * g * 2 + r * c div 2
      else if q = 1 then r * c
      else if q = 3 \<or> q = 6 then r * g * 2 + r * c div 4
      else if q = 7 then r * g * 1 + r * c div 4
      else if q = 2 then r * ucast ((tc + 4) div 5) * 2 + r * ucast ((tc + 4) div 5)
      else if q = 9 \<or> q = 10 then r * ucast ((tc + 31) div 32) * (if q = 10 then 17 else 18)
      else if q = 4 then r * c * 2
      else r * c * 4)"

definition tiled_size :: "u32 \<Rightarrow> u32 \<Rightarrow> u32 \<Rightarrow> u32 \<Rightarrow> u32 \<Rightarrow> u32 \<Rightarrow> u64" where
  "tiled_size rows cols tr tc gs q =
     ucast ((rows + tr - 1) div tr) * ucast ((cols + tc - 1) div tc) * writer_tile_bytes tr tc gs q"

definition embed_padding_rows :: "u64 \<Rightarrow> int \<Rightarrow> int \<Rightarrow> int" where
  "embed_padding_rows elems vocab hidden =
     (if vocab \<le> 0 \<or> hidden \<le> 0 then -1
      else if elems = 0 \<or> uint elems mod hidden \<noteq> 0 then -1
      else let rows = uint elems div hidden in
        if rows = vocab then 0 else if vocab < rows then -1
        else if 4096 < vocab - rows then -1 else vocab - rows)"

section \<open>Scales of 8 bits\<close>

text \<open>The value of a scale byte, which a \<open>float\<close> holds exactly.\<close>

definition onebp_ue4m3 :: "byte \<Rightarrow> rat" where
  "onebp_ue4m3 b =
     (let e = unat (drop_bit 3 b); mant = unat (b AND 7) in
      if 0x7e < b then 0 else if e = 0 then of_nat mant / 1024 else (8 + of_nat mant) * 2 powi (int e - 11))"

abbreviation ue4m3_f32 :: "'f fops \<Rightarrow> byte \<Rightarrow> 'f" where
  "ue4m3_f32 fo b \<equiv> f_rat fo (onebp_ue4m3 b)"

text \<open>The arithmetic of the converter: \<open>fops\<close> with division, \<open><=\<close>, \<open>fabsf\<close>, \<open>isfinite\<close>, \<open>(int)roundf\<close> and the bits of a
  \<open>float\<close>.\<close>

record 'f qops =
  q_fops :: "'f fops"
  q_div :: "'f \<Rightarrow> 'f \<Rightarrow> 'f"
  q_le :: "'f \<Rightarrow> 'f \<Rightarrow> bool"
  q_abs :: "'f \<Rightarrow> 'f"
  q_finite :: "'f \<Rightarrow> bool"
  q_round :: "'f \<Rightarrow> int"
  q_bits :: "'f \<Rightarrow> u32"

abbreviation q_rat :: "'f qops \<Rightarrow> rat \<Rightarrow> 'f" where "q_rat qo \<equiv> f_rat (q_fops qo)"
abbreviation q_mul :: "'f qops \<Rightarrow> 'f \<Rightarrow> 'f \<Rightarrow> 'f" where "q_mul qo \<equiv> f_mul (q_fops qo)"
abbreviation q_add :: "'f qops \<Rightarrow> 'f \<Rightarrow> 'f \<Rightarrow> 'f" where "q_add qo \<equiv> f_add (q_fops qo)"
abbreviation q_sub :: "'f qops \<Rightarrow> 'f \<Rightarrow> 'f \<Rightarrow> 'f" where "q_sub qo \<equiv> f_sub (q_fops qo)"
abbreviation q_less :: "'f qops \<Rightarrow> 'f \<Rightarrow> 'f \<Rightarrow> bool" where "q_less qo \<equiv> f_less (q_fops qo)"

text \<open>The binary search of \<open>onebp_nearest_ue4m3\<close> for the last entry that is not above the target.\<close>

function ue4m3_floor :: "'f qops \<Rightarrow> 'f \<Rightarrow> nat \<Rightarrow> nat \<Rightarrow> nat" where
  "ue4m3_floor qo t lo hi =
     (if lo < hi
      then let mid = (lo + hi + 1) div 2 in
        if q_le qo (q_rat qo (onebp_ue4m3 (of_nat mid))) t then ue4m3_floor qo t mid hi else ue4m3_floor qo t lo (mid - 1)
      else lo)"
  by pat_completeness auto
termination by (relation "measure (\<lambda>(_, _, lo, hi). hi - lo)") auto

declare ue4m3_floor.simps [simp del]

definition nearest_ue4m3 :: "'f qops \<Rightarrow> 'f \<Rightarrow> byte" where
  "nearest_ue4m3 qo t =
     (if q_le qo t (q_rat qo 0) then 0
      else let lo = ue4m3_floor qo t 0 126;
               d = (\<lambda>e. q_abs qo (q_sub qo (q_rat qo (onebp_ue4m3 (of_nat e))) t))
           in if lo < 126 \<and> q_less qo (d (lo + 1)) (d lo) then of_nat (lo + 1) else of_nat lo)"

section \<open>The header survives\<close>

lemma length_put32 [simp]: "length (put32 w) = 4" by (simp add: put32_def)
lemma length_put64 [simp]: "length (put64 w) = 8" by (simp add: put64_def)

lemma le_value_put32: "le_value (put32 w) = unat w"
  using unsigned_less[of w, where ?'a = nat] by (simp add: put32_def le_value_le_bytes)

lemma le_value_put64: "le_value (put64 w) = unat w"
  using unsigned_less[of w, where ?'a = nat] by (simp add: put64_def le_value_le_bytes)

lemma word_at_put: "i < length ws \<Longrightarrow> word_at (concat (map put32 ws) @ r) i = ws ! i"
proof (induction ws arbitrary: i)
  case (Cons w ws)
  show ?case
  proof (cases i)
    case 0
    then show ?thesis by (simp add: word_at_def le_value_put32)
  next
    case (Suc j)
    then have "word_at (concat (map put32 (w # ws)) @ r) i = word_at (concat (map put32 ws) @ r) j"
      by (simp add: word_at_def)
    then show ?thesis using Cons Suc by simp
  qed
qed simp

lemma length_header_words [simp]: "length (header_words h) = 23" by (simp add: header_words_def)

lemma length_put_words: "length (concat (map put32 ws)) = 4 * length ws" by (induction ws) auto

lemma length_put_header: "length (oh_rest h) = 164 \<Longrightarrow> length (put_header h) = 256"
  by (simp add: put_header_def length_put_words)

lemma get_put_header:
  assumes "length (oh_rest h) = 164"
  shows "get_header (put_header h @ r) = h"
proof -
  have w: "word_at (put_header h @ r) i = header_words h ! i" if "i < 23" for i
    using word_at_put[of i "header_words h" "oh_rest h @ r"] that by (simp add: put_header_def)
  have rest: "take 164 (drop 92 (put_header h @ r)) = oh_rest h"
    using assms by (simp add: put_header_def length_put_words)
  show ?thesis unfolding get_header_def rest by (simp add: w) (simp add: header_words_def)
qed

end
