(* ===== verification/OnebpIndex.thy ===== *)
theory OnebpIndex
  imports OnebpFormat "HOL-Library.Monad_Syntax"
begin

text \<open>
  The tensor index of a \<open>.1bp\<close> file and its two readers: \<open>NpuOnebpModel::open\<close> of
  \<open>engine/npu/src/onebp_loader.cpp\<close> and \<open>OnebpModel::load\<close> of \<open>src/onebp_model.cpp\<close>. A file is its bytes; a
  reader's pointer is the rest of the file. A read past the end of the mapping is \<open>Faulted\<close>.
\<close>

datatype 'a open_result = Faulted | Refused | Opened 'a

section \<open>The writer\<close>

record item =
  it_name :: "byte list"
  it_dims :: "u32 list"
  it_offset :: u64
  it_bytes :: u64
  it_quant :: u32

text \<open>An index entry: the name loses everything after 63 characters and gains a null.\<close>

definition put_item :: "item \<Rightarrow> byte list" where
  "put_item t =
     (let name = take 63 (it_name t) in
      put32 (of_nat (length name)) @ name @ [0] @ put32 (of_nat (length (it_dims t))) @ concat (map put32 (it_dims t)) @
      put64 (it_offset t) @ put64 (it_bytes t) @ put32 (it_quant t))"

definition put_index :: "item list \<Rightarrow> byte list" where
  "put_index ts = concat (map put_item ts)"

section \<open>The reader of the NPU engine\<close>

record npu_entry =
  te_name :: "byte list"
  te_ndim :: u32
  te_rows :: int
  te_cols :: int
  te_experts :: int
  te_offset :: u64
  te_bytes :: u64
  te_quant :: u32

definition get32 :: "byte list \<Rightarrow> (u32 \<times> byte list) option" where
  "get32 bs = map_option (\<lambda>(v, r). (of_nat v, r)) (dec_le 4 bs)"

definition get64 :: "byte list \<Rightarrow> (u64 \<times> byte list) option" where
  "get64 bs = map_option (\<lambda>(v, r). (of_nat v, r)) (dec_le 8 bs)"

definition get_bytes :: "nat \<Rightarrow> byte list \<Rightarrow> (byte list \<times> byte list) option" where
  "get_bytes n bs = (if length bs < n then None else Some (take n bs, drop n bs))"

definition skip_null :: "byte list \<Rightarrow> byte list option" where
  "skip_null bs = (case bs of [] \<Rightarrow> None | b # r \<Rightarrow> Some (if b = 0 then r else bs))"

definition npu_dims :: "u32 \<Rightarrow> u32 list \<Rightarrow> int \<times> int \<times> int" where
  "npu_dims ndim ds =
     (let d = (\<lambda>i. if i < length ds then sint (ds ! i) else 1) in
      if ndim = 1 then (1, 1, d 0) else if ndim = 2 then (1, d 0, d 1) else (d 0, d 1, d 2))"

text \<open>The entry after the length of its name; at most three dimensions are read.\<close>

definition npu_body :: "header \<Rightarrow> nat \<Rightarrow> byte list \<Rightarrow> (npu_entry \<times> byte list) option" where
  "npu_body h n bs = do {
     (name, bs) \<leftarrow> get_bytes n bs;
     bs \<leftarrow> skip_null bs;
     (ndim, bs) \<leftarrow> get32 bs;
     (ds, bs) \<leftarrow> dec_run get32 (min (unat ndim) 3) bs;
     (off, bs) \<leftarrow> get64 bs;
     (len, bs) \<leftarrow> get64 bs;
     (q, bs) \<leftarrow> (if 2 \<le> oh_version h then get32 bs else Some (oh_quant h, bs));
     let (ne, rows, cols) = npu_dims ndim ds;
     Some (\<lparr>te_name = name, te_ndim = ndim, te_rows = rows, te_cols = cols, te_experts = ne, te_offset = off,
            te_bytes = len, te_quant = q\<rparr>, bs)
   }"

text \<open>The loop over the entries stops at the end of the file and at a name of more than 128 bytes.\<close>

fun npu_index :: "header \<Rightarrow> nat \<Rightarrow> byte list \<Rightarrow> (npu_entry list \<times> byte list) option" where
  "npu_index h 0 bs = Some ([], bs)"
| "npu_index h (Suc n) bs =
     (case get32 bs of
        None \<Rightarrow> Some ([], bs)
      | Some (len, r) \<Rightarrow>
          if 128 < len then Some ([], r)
          else (case npu_body h (unat len) r of
                  None \<Rightarrow> None
                | Some (t, r) \<Rightarrow> map_option (\<lambda>(ts, r). (t # ts, r)) (npu_index h n r)))"

text \<open>The aliases, in order: an entry without bytes takes everything but its name from an earlier one.\<close>

definition npu_alias :: "npu_entry \<Rightarrow> npu_entry \<Rightarrow> npu_entry" where
  "npu_alias t src = src\<lparr>te_name := te_name t\<rparr>"

fun npu_resolve :: "npu_entry list \<Rightarrow> npu_entry list \<Rightarrow> npu_entry list option" where
  "npu_resolve done [] = Some done"
| "npu_resolve done (t # ts) =
     (if te_bytes t \<noteq> 0 then npu_resolve (done @ [t]) ts
      else if length done \<le> unat (te_offset t) then None
      else npu_resolve (done @ [npu_alias t (done ! unat (te_offset t))]) ts)"

definition npu_in_file :: "u64 \<Rightarrow> npu_entry \<Rightarrow> bool" where
  "npu_in_file fsz t \<longleftrightarrow> \<not> (fsz < te_offset t \<or> fsz - te_offset t < te_bytes t)"

record npu_model =
  nm_header :: header
  nm_tensors :: "npu_entry list"
  nm_file :: "byte list"

definition npu_open :: "byte list \<Rightarrow> npu_model open_result" where
  "npu_open fl =
     (if length fl < 256 then Refused
      else let h = get_header fl in
        if \<not> header_valid h then Refused
        else (case npu_index h (unat (oh_tensor_count h)) (drop 256 fl) of
                None \<Rightarrow> Faulted
              | Some (ts, r) \<Rightarrow>
                  (case npu_resolve [] ts of
                     None \<Rightarrow> Refused
                   | Some ts \<Rightarrow>
                       let data_start = of_nat (length fl - length r);
                           ts = map (\<lambda>t. t\<lparr>te_offset := te_offset t + data_start\<rparr>) ts
                       in if list_all (npu_in_file (of_nat (length fl))) ts
                          then Opened \<lparr>nm_header = h, nm_tensors = ts, nm_file = fl\<rparr> else Refused)))"

definition npu_find :: "npu_model \<Rightarrow> byte list \<Rightarrow> npu_entry option" where
  "npu_find m name = List.find (\<lambda>t. te_name t = name) (nm_tensors m)"

section \<open>The reader of the host\<close>

record host_entry =
  he_name :: "byte list"
  he_dims :: "u32 list"
  he_offset :: u64
  he_bytes :: u64
  he_quant :: u32

text \<open>Every read is guarded; \<open>None\<close> is \<open>false\<close>.\<close>

definition host_entry_at :: "header \<Rightarrow> byte list \<Rightarrow> (host_entry \<times> byte list) option" where
  "host_entry_at h bs = (if length bs < 25 then None else do {
     (len, bs) \<leftarrow> get32 bs;
     (name, bs) \<leftarrow> (if 1024 < len \<or> length bs < unat len + 1 then None else get_bytes (unat len) bs);
     bs \<leftarrow> Some (drop 1 bs);
     (ndim, bs) \<leftarrow> get32 bs;
     (ds, bs) \<leftarrow> (if 8 < ndim \<or> length bs < unat ndim * 4 + 16 then None else dec_run get32 (unat ndim) bs);
     (off, bs) \<leftarrow> get64 bs;
     (len, bs) \<leftarrow> get64 bs;
     (q, bs) \<leftarrow> (if 2 \<le> oh_version h then get32 bs else Some (0, bs));
     Some (\<lparr>he_name = name, he_dims = ds, he_offset = off, he_bytes = len, he_quant = q\<rparr>, bs)
   })"

fun host_resolve :: "host_entry list \<Rightarrow> host_entry list \<Rightarrow> host_entry list option" where
  "host_resolve done [] = Some done"
| "host_resolve done (t # ts) =
     (if he_bytes t \<noteq> 0 then host_resolve (done @ [t]) ts
      else if length done \<le> unat (he_offset t) then None
      else host_resolve (done @ [(done ! unat (he_offset t))\<lparr>he_name := he_name t\<rparr>]) ts)"

record host_model =
  hm_header :: header
  hm_tensors :: "host_entry list"
  hm_data :: u64
  hm_file :: "byte list"

text \<open>The check of \<open>load\<close> and of \<open>tensor_data\<close>, in 64-bit arithmetic.\<close>

definition host_in_file :: "u64 \<Rightarrow> u64 \<Rightarrow> host_entry \<Rightarrow> bool" where
  "host_in_file fsz dat t \<longleftrightarrow> \<not> (fsz < dat + he_offset t + he_bytes t \<or> dat + he_offset t < dat)"

definition host_load :: "byte list \<Rightarrow> host_model option" where
  "host_load fl = (if length fl < 256 then None else do {
     h \<leftarrow> Some (get_header fl);
     (if header_valid h \<and> oh_tensor_count h \<le> 16384 then Some () else None);
     (ts, r) \<leftarrow> dec_run (host_entry_at h) (unat (oh_tensor_count h)) (drop 256 fl);
     ts \<leftarrow> host_resolve [] ts;
     dat \<leftarrow> Some (of_nat (length fl - length r));
     if list_all (host_in_file (of_nat (length fl)) dat) ts
     then Some \<lparr>hm_header = h, hm_tensors = ts, hm_data = dat, hm_file = fl\<rparr> else None
   })"

text \<open>The address that \<open>tensor_data\<close> returns.\<close>

definition tensor_data :: "host_model \<Rightarrow> host_entry \<Rightarrow> u64 option" where
  "tensor_data m t =
     (if host_in_file (of_nat (length (hm_file m))) (hm_data m) t then Some (hm_data m + he_offset t) else None)"

section \<open>What the readers make of a written entry\<close>

locale item_reader =
  fixes dec :: "byte list \<Rightarrow> ('e \<times> byte list) option"
    and view :: "item \<Rightarrow> 'e"
    and ok :: "item \<Rightarrow> bool"
  assumes reads: "ok t \<Longrightarrow> dec (put_item t @ rest) = Some (view t, rest)"
begin

lemma reads_index:
  "list_all ok ts \<Longrightarrow> dec_run dec (length ts) (put_index ts @ rest) = Some (map view ts, rest)"
  by (induction ts) (simp_all add: put_index_def reads)

end

lemma get32_put [simp]: "get32 (put32 w @ r) = Some (w, r)"
  by (simp add: get32_def dec_le_def le_value_put32)

lemma get64_put [simp]: "get64 (put64 w @ r) = Some (w, r)"
  by (simp add: get64_def dec_le_def le_value_put64)

lemma get32_run [simp]: "dec_run get32 (length ws) (concat (map put32 ws) @ r) = Some (ws, r)"
  by (induction ws) simp_all

lemma get_bytes_append [simp]: "get_bytes (length xs) (xs @ r) = Some (xs, r)"
  by (simp add: get_bytes_def)

definition item_ok :: "item \<Rightarrow> bool" where
  "item_ok t \<longleftrightarrow> length (it_dims t) \<le> 3"

definition npu_view :: "item \<Rightarrow> npu_entry" where
  "npu_view t =
     (let (ne, rows, cols) = npu_dims (of_nat (length (it_dims t))) (it_dims t) in
      \<lparr>te_name = take 63 (it_name t), te_ndim = of_nat (length (it_dims t)), te_rows = rows, te_cols = cols,
       te_experts = ne, te_offset = it_offset t, te_bytes = it_bytes t, te_quant = it_quant t\<rparr>)"

definition host_view :: "item \<Rightarrow> host_entry" where
  "host_view t = \<lparr>he_name = take 63 (it_name t), he_dims = it_dims t, he_offset = it_offset t, he_bytes = it_bytes t,
     he_quant = it_quant t\<rparr>"

text \<open>One round of the loop of \<open>npu_index\<close> that goes on.\<close>

definition npu_entry_at :: "header \<Rightarrow> byte list \<Rightarrow> (npu_entry \<times> byte list) option" where
  "npu_entry_at h bs = Option.bind (get32 bs) (\<lambda>(len, r). if 128 < len then None else npu_body h (unat len) r)"

lemma npu_index_run: "dec_run (npu_entry_at h) n bs = Some x \<Longrightarrow> npu_index h n bs = Some x"
  by (induction n arbitrary: bs x) (auto simp: npu_entry_at_def split: option.splits if_splits)

lemma small_word: "n < 2 ^ 32 \<Longrightarrow> unat (of_nat n :: u32) = n"
  by (simp add: unat_of_nat)

lemma npu_reads: "2 \<le> oh_version h \<Longrightarrow> item_ok t \<Longrightarrow> npu_entry_at h (put_item t @ rest) = Some (npu_view t, rest)"
proof -
  assume v: "2 \<le> oh_version h" and ok: "item_ok t"
  define name where "name = take 63 (it_name t)"
  have n: "unat (of_nat (length name) :: u32) = length name" "\<not> 128 < (of_nat (length name) :: u32)"
    by (simp_all add: name_def unat_of_nat word_less_nat_alt)
  have d: "min (unat (of_nat (length (it_dims t)) :: u32)) 3 = length (it_dims t)"
    using ok by (simp add: item_ok_def unat_of_nat)
  show ?thesis
    by (simp add: npu_entry_at_def put_item_def name_def[symmetric] Let_def n npu_body_def skip_null_def d v npu_view_def split: prod.split)
qed

lemma host_reads: "2 \<le> oh_version h \<Longrightarrow> item_ok t \<Longrightarrow> host_entry_at h (put_item t @ rest) = Some (host_view t, rest)"
proof -
  assume v: "2 \<le> oh_version h" and ok: "item_ok t"
  define name where "name = take 63 (it_name t)"
  have n: "unat (of_nat (length name) :: u32) = length name" "\<not> 1024 < (of_nat (length name) :: u32)"
    by (simp_all add: name_def unat_of_nat word_less_nat_alt)
  have d: "unat (of_nat (length (it_dims t)) :: u32) = length (it_dims t)" "\<not> 8 < (of_nat (length (it_dims t)) :: u32)"
    using ok by (simp_all add: item_ok_def unat_of_nat word_less_nat_alt)
  show ?thesis
    by (simp add: host_entry_at_def put_item_def name_def[symmetric] Let_def n d length_put_words v host_view_def)
qed

end
