(* ===== verification/OnebpDequant.thy ===== *)
theory OnebpDequant
  imports OnebpIndex
begin

text \<open>
  The tiles of a \<open>.1bp\<close> file as \<open>NpuOnebpModel\<close> of \<open>engine/npu/src/onebp_loader.cpp\<close> decodes them: one routine per
  family of formats, the matrix loop and the accessors. \<open>junk\<close> is what the uninitialised tile buffer holds.
  For each family \<open><family>_value\<close> is the reference, the value of the element at a row and a column of a tile.
  Dimensions are positive; the code would throw on a negative one.
\<close>

unbundle bit_operations_syntax

section \<open>One tile\<close>

definition evens :: "nat \<Rightarrow> nat list" where
  "evens n = map (\<lambda>k. 2 * k) [0..<ceil_div n 2]"

definition fours :: "nat \<Rightarrow> nat list" where
  "fours n = map (\<lambda>k. 4 * k) [0..<ceil_div n 4]"

definition q4nx_scale :: "'f fops \<Rightarrow> u16 \<Rightarrow> 'f" where
  "q4nx_scale fo s = (let s = bf16_to_fp32 fo s in if f_less fo s (f_rat fo (1 / 10 ^ 10)) then f_rat fo 1 else s)"

definition dequant_tile :: "'f fops \<Rightarrow> ptr \<Rightarrow> 'f buf \<Rightarrow> nat \<Rightarrow> nat \<Rightarrow> nat \<Rightarrow> nat \<Rightarrow> nat \<Rightarrow> 'f buf" where
  "dequant_tile fo tile out out_rows out_cols tr tc gs =
     (let groups = tc div gs; zps = tr * groups * 2; qdata = tr * groups * 4 in
      for_loop [0..<min tr out_rows] (\<lambda>r out.
        for_loop [0..<groups] (\<lambda>g out.
          let scale = q4nx_scale fo (rd16 (adv tile (2 * (r * groups + g))));
              zp = bf16_to_fp32 fo (rd16 (adv tile (zps + 2 * (r * groups + g))))
          in for_loop (while_below (g * gs) out_cols (evens gs)) (\<lambda>i out.
               let col = g * gs + i; packed = tile (qdata + (r * tc + col) div 2);
                   out = out(r * out_cols + col := f_add fo (f_mul fo (f_int fo (uint (packed AND 0xF))) scale) zp)
               in if col + 1 < out_cols
                  then out(r * out_cols + col + 1 := f_add fo (f_mul fo (f_int fo (uint (drop_bit 4 packed))) scale) zp)
                  else out) out) out) out)"

definition tq2_code :: "'f fops \<Rightarrow> bool \<Rightarrow> byte \<Rightarrow> 'f \<Rightarrow> 'f" where
  "tq2_code fo no_zero code scale =
     (if no_zero then f_mul fo (f_int fo ([-4, -1, 1, 4] ! unat code)) scale
      else if code = 0 then f_neg fo scale else if code = 2 then scale else f_rat fo 0)"

definition dequant_tile_tq2 :: "'f fops \<Rightarrow> ptr \<Rightarrow> 'f buf \<Rightarrow> nat \<Rightarrow> nat \<Rightarrow> nat \<Rightarrow> nat \<Rightarrow> nat \<Rightarrow> bool \<Rightarrow> bool \<Rightarrow> 'f buf" where
  "dequant_tile_tq2 fo tile out out_rows out_cols tr tc gs no_zero e4m3 =
     (let groups = tc div gs; qdata = tr * groups * (if e4m3 then 1 else 2) in
      for_loop [0..<min tr out_rows] (\<lambda>r out.
        for_loop [0..<groups] (\<lambda>g out.
          let scale = (if e4m3 then ue4m3_f32 fo (tile (r * groups + g))
                       else bf16_to_fp32 fo (rd16 (adv tile (2 * (r * groups + g)))))
          in for_loop (while_below (g * gs) out_cols (fours gs)) (\<lambda>i out.
               let col = g * gs + i; packed = tile (qdata + (r * tc + col) div 4)
               in for_loop (while_below col out_cols [0..<4]) (\<lambda>k out.
                    out(r * out_cols + col + k := tq2_code fo no_zero (drop_bit (2 * k) packed AND 3) scale)) out) out) out) out)"

text \<open>The codebook of ROCmFP4: three bits of magnitude and a sign.\<close>

definition npu_cb10 :: "byte \<Rightarrow> int" where
  "npu_cb10 q = (let m = uint (q AND 7); mag = (if m \<le> 4 then m else 2 * m - 4) in if q AND 8 \<noteq> 0 then - mag else mag)"

definition rocm_block_bytes :: "bool \<Rightarrow> nat" where
  "rocm_block_bytes fast = (if fast then 17 else 18)"

definition dequant_tile_rocmfp4 :: "'f fops \<Rightarrow> ptr \<Rightarrow> 'f buf \<Rightarrow> nat \<Rightarrow> nat \<Rightarrow> nat \<Rightarrow> nat \<Rightarrow> bool \<Rightarrow> 'f buf" where
  "dequant_tile_rocmfp4 fo tile out out_rows out_cols tr tc fast =
     (let bb = rocm_block_bytes fast; nb = ceil_div tc 32 in
      for_loop [0..<min tr out_rows] (\<lambda>r out.
        for_loop [0..<nb] (\<lambda>b out.
          let blk = adv tile (r * nb * bb + b * bb); d0 = ue4m3_f32 fo (blk 16); d1 = (if fast then d0 else ue4m3_f32 fo (blk 17))
          in for_loop (while_below (b * 32) out_cols [0..<32]) (\<lambda>i out.
               let nib = (if i < 16 then blk (i mod 16) AND 0xF else drop_bit 4 (blk (i mod 16)))
               in out(r * out_cols + (b * 32 + i) := f_mul fo (f_int fo (npu_cb10 nib)) (if i < 16 then d0 else d1))) out) out) out)"

definition tile_f16 :: "'f fops \<Rightarrow> ptr \<Rightarrow> 'f buf \<Rightarrow> nat \<Rightarrow> nat \<Rightarrow> nat \<Rightarrow> 'f buf" where
  "tile_f16 fo tile out rh cw tc =
     for_loop [0..<rh] (\<lambda>r out. for_loop [0..<cw] (\<lambda>c out. out(r * tc + c := f16_at fo (adv tile (2 * (r * tc + c))))) out) out"

definition tile_f32 :: "'f fops \<Rightarrow> ptr \<Rightarrow> 'f buf \<Rightarrow> nat \<Rightarrow> nat \<Rightarrow> nat \<Rightarrow> 'f buf" where
  "tile_f32 fo tile out rh cw tc =
     for_loop [0..<rh] (\<lambda>r out. for_loop [0..<cw] (\<lambda>c out. out(r * tc + c := f_bits fo (rd32 (adv tile (4 * (r * tc + c)))))) out) out"

section \<open>A matrix\<close>

definition is_tq2 :: "u32 \<Rightarrow> bool" where "is_tq2 q \<longleftrightarrow> q = 3 \<or> q = 6 \<or> q = 7"
definition is_rocm :: "u32 \<Rightarrow> bool" where "is_rocm q \<longleftrightarrow> q = 9 \<or> q = 10"

definition reader_tile_bytes :: "nat \<Rightarrow> nat \<Rightarrow> nat \<Rightarrow> u32 \<Rightarrow> nat" where
  "reader_tile_bytes tr tc gs q =
     (if q = 4 then tr * tc * 2 else if q = 5 then tr * tc * 4
      else if is_rocm q then tr * ceil_div tc 32 * rocm_block_bytes (q = 10)
      else if is_tq2 q then tr * (tc div gs) * (if q = 7 then 1 else 2) + tr * tc div 4
      else tr * (tc div gs) * 4 + tr * tc div 2)"

definition fill_tile :: "'f fops \<Rightarrow> ptr \<Rightarrow> 'f buf \<Rightarrow> nat \<Rightarrow> nat \<Rightarrow> nat \<Rightarrow> nat \<Rightarrow> nat \<Rightarrow> u32 \<Rightarrow> 'f buf" where
  "fill_tile fo tile junk rh cw tr tc gs q =
     (if q = 4 then tile_f16 fo tile junk rh cw tc
      else if q = 5 then tile_f32 fo tile junk rh cw tc
      else if is_tq2 q then dequant_tile_tq2 fo tile junk rh tc tr tc gs (q = 6 \<or> q = 7) (q = 7)
      else if is_rocm q then dequant_tile_rocmfp4 fo tile junk rh tc tr tc (q = 10)
      else dequant_tile fo tile junk rh tc tr tc gs)"

definition dequant_matrix :: "'f fops \<Rightarrow> 'f buf \<Rightarrow> ptr \<Rightarrow> nat \<Rightarrow> nat \<Rightarrow> nat \<Rightarrow> nat \<Rightarrow> nat \<Rightarrow> u32 \<Rightarrow> 'f buf" where
  "dequant_matrix fo junk base R C tr tc gs q =
     (let ntr = ceil_div R tr; ntc = ceil_div C tc; tb = reader_tile_bytes tr tc gs q in
      for_loop [0..<ntr] (\<lambda>trr out.
        for_loop [0..<ntc] (\<lambda>tcc out.
          let r0 = trr * tr; c0 = tcc * tc; rh = min (R - r0) tr; cw = min (C - c0) tc;
              buf = fill_tile fo (adv base ((trr * ntc + tcc) * tb)) junk rh cw tr tc gs q
          in for_loop [0..<rh] (\<lambda>r out. for_loop [0..<cw] (\<lambda>c out. out((r0 + r) * C + (c0 + c) := buf (r * tc + c))) out) out)
        out) (\<lambda>_. f_rat fo 0))"

section \<open>The accessors\<close>

definition file_ptr :: "byte list \<Rightarrow> nat \<Rightarrow> ptr" where
  "file_ptr fl off = (\<lambda>i. fl ! (off + i))"

definition npu_tensor_f32 :: "'f fops \<Rightarrow> 'f buf \<Rightarrow> npu_model \<Rightarrow> byte list \<Rightarrow> 'f list option" where
  "npu_tensor_f32 fo junk m name =
     (case npu_find m name of
        None \<Rightarrow> None
      | Some t \<Rightarrow>
          let p = file_ptr (nm_file m) (unat (te_offset t)); h = nm_header m; R = nat (te_rows t); C = nat (te_cols t) in
          if te_ndim t = 1 then Some (map (\<lambda>i. f_bits fo (rd32 (adv p (4 * i)))) [0..<C])
          else if te_ndim t = 3 then None
          else if of_nat (length (nm_file m)) < te_offset t + te_bytes t then None
          else Some (map (dequant_matrix fo junk p R C (unat (oh_tile_rows h)) (unat (oh_tile_cols h))
                 (unat (oh_group_size h)) (te_quant t)) [0..<R * C]))"

definition npu_tensor_f32_expert :: "'f fops \<Rightarrow> 'f buf \<Rightarrow> npu_model \<Rightarrow> byte list \<Rightarrow> int \<Rightarrow> 'f list option" where
  "npu_tensor_f32_expert fo junk m name e =
     (case npu_find m name of
        None \<Rightarrow> None
      | Some t \<Rightarrow>
          if te_ndim t \<noteq> 3 \<or> e < 0 \<or> te_experts t \<le> e then None
          else
            let h = nm_header m; R = nat (te_rows t); C = nat (te_cols t);
                per = te_bytes t div word_of_int (te_experts t); off = te_offset t + word_of_int e * per in
            if of_nat (length (nm_file m)) < off + per then None
            else Some (map (dequant_matrix fo junk (file_ptr (nm_file m) (unat off)) R C (unat (oh_tile_rows h))
                   (unat (oh_tile_cols h)) (unat (oh_group_size h)) (te_quant t)) [0..<R * C]))"

text \<open>The address of one tile.\<close>

definition dma_tile_bytes :: "nat \<Rightarrow> nat \<Rightarrow> nat \<Rightarrow> u32 \<Rightarrow> nat" where
  "dma_tile_bytes tr tc gs q =
     (if is_tq2 q then tr * (tc div gs) * (if q = 7 then 1 else 2) + tr * tc div 4
      else if is_rocm q then tr * ceil_div tc 32 * rocm_block_bytes (q = 10)
      else tr * (tc div gs) * 4 + tr * tc div 2)"

definition get_tile_ptr :: "npu_model \<Rightarrow> byte list \<Rightarrow> nat \<Rightarrow> nat \<Rightarrow> u64 option" where
  "get_tile_ptr m name tile_row tile_col =
     (case npu_find m name of
        None \<Rightarrow> None
      | Some t \<Rightarrow>
          if te_ndim t \<noteq> 2 then None
          else
            let h = nm_header m; tr = unat (oh_tile_rows h); tc = unat (oh_tile_cols h);
                tb = dma_tile_bytes tr tc (unat (oh_group_size h)) (te_quant t);
                off = te_offset t + of_nat ((tile_row * ceil_div (nat (te_cols t)) tc + tile_col) * tb) in
            if of_nat (length (nm_file m)) < off + of_nat tb then None else Some off)"

section \<open>What a tile decodes to\<close>

definition q4nx_value :: "'f fops \<Rightarrow> nat \<Rightarrow> nat \<Rightarrow> nat \<Rightarrow> ptr \<Rightarrow> nat \<Rightarrow> nat \<Rightarrow> 'f" where
  "q4nx_value fo tr tc gs tile r c =
     (let groups = tc div gs; k = r * groups + c div gs; packed = tile (tr * groups * 4 + (r * tc + c) div 2);
          v = (if even c then packed AND 0xF else drop_bit 4 packed)
      in f_add fo (f_mul fo (f_int fo (uint v)) (q4nx_scale fo (rd16 (adv tile (2 * k)))))
           (bf16_to_fp32 fo (rd16 (adv tile (tr * groups * 2 + 2 * k)))))"

definition tq2_value :: "'f fops \<Rightarrow> nat \<Rightarrow> nat \<Rightarrow> nat \<Rightarrow> bool \<Rightarrow> bool \<Rightarrow> ptr \<Rightarrow> nat \<Rightarrow> nat \<Rightarrow> 'f" where
  "tq2_value fo tr tc gs no_zero e4m3 tile r c =
     (let groups = tc div gs; k = r * groups + c div gs;
          scale = (if e4m3 then ue4m3_f32 fo (tile k) else bf16_to_fp32 fo (rd16 (adv tile (2 * k))));
          packed = tile (tr * groups * (if e4m3 then 1 else 2) + (r * tc + c) div 4)
      in tq2_code fo no_zero (drop_bit (2 * (c mod 4)) packed AND 3) scale)"

definition rocm_value :: "'f fops \<Rightarrow> nat \<Rightarrow> bool \<Rightarrow> ptr \<Rightarrow> nat \<Rightarrow> nat \<Rightarrow> 'f" where
  "rocm_value fo tc fast tile r c =
     (let bb = rocm_block_bytes fast; nb = ceil_div tc 32; blk = adv tile (r * nb * bb + c div 32 * bb); i = c mod 32;
          nib = (if i < 16 then blk (i mod 16) AND 0xF else drop_bit 4 (blk (i mod 16)))
      in f_mul fo (f_int fo (npu_cb10 nib)) (ue4m3_f32 fo (if i < 16 \<or> fast then blk 16 else blk 17)))"

definition tile_value :: "'f fops \<Rightarrow> nat \<Rightarrow> nat \<Rightarrow> nat \<Rightarrow> u32 \<Rightarrow> ptr \<Rightarrow> nat \<Rightarrow> nat \<Rightarrow> 'f" where
  "tile_value fo tr tc gs q tile r c =
     (if q = 4 then f16_at fo (adv tile (2 * (r * tc + c)))
      else if q = 5 then f_bits fo (rd32 (adv tile (4 * (r * tc + c))))
      else if is_tq2 q then tq2_value fo tr tc gs (q = 6 \<or> q = 7) (q = 7) tile r c
      else if is_rocm q then rocm_value fo tc (q = 10) tile r c
      else q4nx_value fo tr tc gs tile r c)"

section \<open>The loops compute the reference\<close>

text \<open>Tiles whose groups divide a row and hold whole bytes of codes.\<close>

definition tile_shape :: "nat \<Rightarrow> nat \<Rightarrow> bool" where
  "tile_shape tc gs \<longleftrightarrow> 0 < gs \<and> gs dvd tc \<and> 4 dvd gs \<and> 0 < tc"

lemma div_mod_at: "c < tc \<Longrightarrow> (r * tc + c) div tc = r \<and> (r * tc + c) mod tc = (c::nat)"
  by (simp add: div_mult_self3)

lemma tile_shapeD:
  assumes "tile_shape tc gs" "g < tc div gs" "i < gs"
  shows "g * gs + i < tc"
proof -
  have "Suc g * gs \<le> tc div gs * gs" using assms(2) by (intro mult_le_mono1) simp
  then show ?thesis using assms by (simp add: tile_shape_def)
qed

lemma group_of:
  assumes "tile_shape tc gs" "c < tc"
  shows "c div gs < tc div gs" "c div gs * gs + c mod gs = c" "c mod gs < gs"
  using assms by (auto simp: tile_shape_def less_mult_imp_div_less dvd_div_mult_self div_mult_mod_eq)

lemma while_below_all: "\<forall>k \<in> set ks. base + k < n \<Longrightarrow> while_below base n ks = ks"
  by (simp add: while_below_def takeWhile_eq_all_conv)

lemma set_evens: "2 dvd n \<Longrightarrow> set (evens n) = {i. i < n \<and> even i}"
  by (auto simp: evens_def less_ceil_div elim!: evenE intro!: image_eqI)

lemma set_fours: "4 dvd n \<Longrightarrow> set (fours n) = {i. i < n \<and> 4 dvd i}"
  by (auto simp: fours_def less_ceil_div elim!: dvdE intro!: image_eqI)

lemma evens_room: "even n \<Longrightarrow> even i \<Longrightarrow> i < n \<Longrightarrow> Suc i < n"
  by (metis Suc_lessI even_Suc)

lemma fours_room:
  assumes "4 dvd n" "i \<in> set (fours n)"
  shows "i + 4 \<le> n"
proof -
  obtain a b where "n = 4 * a" "i = 4 * b" "i < n" using assms set_fours[OF assms(1)] by (auto elim!: dvdE)
  then show ?thesis by simp
qed

lemma evens_cover:
  assumes "even n"
  shows "(\<Union>i \<in> set (evens n). {f i, f (Suc i)}) = f ` {..<n}"
proof (rule antisym)
  have "i \<in> set (evens n) \<Longrightarrow> i < n \<and> Suc i < n" for i
    using assms set_evens[of n] by (auto intro: evens_room)
  then show "(\<Union>i \<in> set (evens n). {f i, f (Suc i)}) \<subseteq> f ` {..<n}" by blast
  show "f ` {..<n} \<subseteq> (\<Union>i \<in> set (evens n). {f i, f (Suc i)})"
  proof (rule image_subsetI)
    fix i assume "i \<in> {..<n}"
    then have "2 * (i div 2) \<in> set (evens n)" using set_evens[OF assms] by simp
    moreover have "i = 2 * (i div 2) \<or> i = Suc (2 * (i div 2))" by presburger
    ultimately
    show "f i \<in> (\<Union>i \<in> set (evens n). {f i, f (Suc i)})" by (metis UN_I insertI1 insertI2)
  qed
qed

lemma fours_cover:
  assumes "4 dvd n"
  shows "(\<Union>i \<in> set (fours n). (\<lambda>k. f (i + k)) ` {..<4}) = f ` {..<n}"
proof (rule antisym)
  have "i + k < n" if "i \<in> set (fours n)" "k < 4" for i k
    using that(2) fours_room[OF assms that(1)] by simp
  then show "(\<Union>i \<in> set (fours n). (\<lambda>k. f (i + k)) ` {..<4}) \<subseteq> f ` {..<n}" by blast
  show "f ` {..<n} \<subseteq> (\<Union>i \<in> set (fours n). (\<lambda>k. f (i + k)) ` {..<4})"
  proof (rule image_subsetI)
    fix i assume "i \<in> {..<n}"
    then have "4 * (i div 4) \<in> set (fours n)" "i = 4 * (i div 4) + i mod 4" "i mod 4 < 4"
      using set_fours[OF assms] by auto
    then show "f i \<in> (\<Union>i \<in> set (fours n). (\<lambda>k. f (i + k)) ` {..<4})"
      by (intro UN_I[of "4 * (i div 4)"] image_eqI[of _ _ "i mod 4"]) auto
  qed
qed

lemma upd2_override_on: "v = w i \<Longrightarrow> u = w j \<Longrightarrow> f(i := v, j := u) = override_on f w {i, j}"
  by (auto simp: override_on_def fun_eq_iff)

text \<open>A loop over rows and groups that stores the reference in each of its group stores it in the rows.\<close>

lemma rows_groups_loop:
  assumes shape: "tile_shape tc gs"
    and body: "\<And>r g s. r < n \<Longrightarrow> g < tc div gs \<Longrightarrow>
      body r g s = override_on s w ((\<lambda>i. r * tc + (g * gs + i)) ` {..<gs})"
    and at: "r < n" "c < tc"
  shows "for_loop [0..<n] (\<lambda>r s. for_loop [0..<tc div gs] (body r) s) s (r * tc + c) = w (r * tc + c)"
proof -
  let ?S = "\<lambda>r. \<Union>g \<in> set [0..<tc div gs]. (\<lambda>i. r * tc + (g * gs + i)) ` {..<gs}"
  have row: "for_loop [0..<tc div gs] (body r) s = override_on s w (?S r)" if "r \<in> set [0..<n]" for r s
    by (rule for_loop_override) (use that body in auto)
  have "for_loop [0..<n] (\<lambda>r s. for_loop [0..<tc div gs] (body r) s) s = override_on s w (\<Union>r \<in> set [0..<n]. ?S r)"
    by (rule for_loop_override) (rule row)
  moreover have "r * tc + c \<in> (\<Union>r \<in> set [0..<n]. ?S r)"
    using at group_of[OF shape at(2)] by (intro UN_I[of r] UN_I[of "c div gs"] image_eqI[of _ _ "c mod gs"]) simp_all
  ultimately show ?thesis by (simp add: override_on_def)
qed

lemma dequant_tile_elem:
  assumes shape: "tile_shape tc gs" and at: "r < min tr rh" "c < tc"
  shows "dequant_tile fo tile junk rh tc tr tc gs (r * tc + c) = q4nx_value fo tr tc gs tile r c"
proof -
  let ?w = "\<lambda>k. q4nx_value fo tr tc gs tile (k div tc) (k mod tc)"
  have ev: "even gs" "even tc" using shape by (auto simp: tile_shape_def elim!: dvdE)
  have "dequant_tile fo tile junk rh tc tr tc gs (r * tc + c) = ?w (r * tc + c)"
    unfolding dequant_tile_def Let_def
  proof (rule rows_groups_loop[OF shape _ at])
    fix r g s assume r: "r < min tr rh" and g: "g < tc div gs"
    have lt: "g * gs + i < tc" if "i < gs" for i using tile_shapeD[OF shape g that] .
    let ?p = "\<lambda>i. tile (tr * (tc div gs) * 4 + (r * tc + (g * gs + i)) div 2)"
    let ?sc = "q4nx_scale fo (rd16 (adv tile (2 * (r * (tc div gs) + g))))"
      and ?zp = "bf16_to_fp32 fo (rd16 (adv tile (tr * (tc div gs) * 2 + 2 * (r * (tc div gs) + g))))"
    let ?lo = "\<lambda>i. f_add fo (f_mul fo (f_int fo (uint (?p i AND 0xF))) ?sc) ?zp"
      and ?hi = "\<lambda>i. f_add fo (f_mul fo (f_int fo (uint (drop_bit 4 (?p i)))) ?sc) ?zp"
    let ?body = "\<lambda>i out. if g * gs + i + 1 < tc
      then out(r * tc + (g * gs + i) := ?lo i, r * tc + (g * gs + i) + 1 := ?hi i) else out(r * tc + (g * gs + i) := ?lo i)"
    have gr: "(g * gs + i) div gs = g" if "i < gs" for i using that by (simp add: div_mult_self3)
    have step: "?body i s = override_on s ?w {r * tc + (g * gs + i), r * tc + (g * gs + Suc i)}"
      if i: "i < gs" "even i" for i s
    proof -
      have si: "Suc i < gs" using i ev(1) by (metis Suc_lessI even_Suc)
      have e: "even (g * gs + i)" "even (r * tc + (g * gs + i))" using i ev by simp_all
      have o: "even (g * gs + Suc i) = False" using e(1) by simp
      have same: "(r * tc + (g * gs + Suc i)) div 2 = (r * tc + (g * gs + i)) div 2" using e(2) by simp
      have w0: "?w (r * tc + (g * gs + i)) = q4nx_value fo tr tc gs tile r (g * gs + i)"
        and w1: "?w (r * tc + (g * gs + Suc i)) = q4nx_value fo tr tc gs tile r (g * gs + Suc i)"
        using div_mod_at[OF lt[OF i(1)], of r] div_mod_at[OF lt[OF si], of r] by simp_all
      have a: "Suc (g * gs + i) < tc" "r * tc + (g * gs + i) + 1 = r * tc + (g * gs + Suc i)" using lt[OF si] by simp_all
      show ?thesis
        unfolding Let_def if_P[OF a(1)[unfolded Suc_eq_plus1]] a(2)
        by (rule upd2_override_on; (unfold w0 w1)?; simp only: q4nx_value_def Let_def gr[OF i(1)] gr[OF si] same e(1) o if_True if_False)
    qed
    have "for_loop (evens gs) ?body s = override_on s ?w (\<Union>i \<in> set (evens gs). {r * tc + (g * gs + i), r * tc + (g * gs + Suc i)})"
      by (rule for_loop_override) (use step ev(1) set_evens[of gs] in auto)
    moreover have "(\<Union>i \<in> set (evens gs). {r * tc + (g * gs + i), r * tc + (g * gs + Suc i)}) = (\<lambda>i. r * tc + (g * gs + i)) ` {..<gs}"
      by (rule evens_cover[OF ev(1)])
    moreover have "while_below (g * gs) tc (evens gs) = evens gs"
      by (rule while_below_all) (use lt set_evens[of gs] ev(1) in auto)
    ultimately show "for_loop (while_below (g * gs) tc (evens gs)) ?body s = override_on s ?w ((\<lambda>i. r * tc + (g * gs + i)) ` {..<gs})"
      by simp
  qed
  then show ?thesis using div_mod_at[OF at(2), of r] by simp
qed

lemma dequant_tile_tq2_elem:
  assumes shape: "tile_shape tc gs" and at: "r < min tr rh" "c < tc"
  shows "dequant_tile_tq2 fo tile junk rh tc tr tc gs nz e4 (r * tc + c) = tq2_value fo tr tc gs nz e4 tile r c"
proof -
  let ?w = "\<lambda>k. tq2_value fo tr tc gs nz e4 tile (k div tc) (k mod tc)"
  have dv: "4 dvd gs" "4 dvd tc" using shape by (auto simp: tile_shape_def intro: dvd_trans)
  have "dequant_tile_tq2 fo tile junk rh tc tr tc gs nz e4 (r * tc + c) = ?w (r * tc + c)"
    unfolding dequant_tile_tq2_def Let_def
  proof (rule rows_groups_loop[OF shape _ at])
    fix r g s assume r: "r < min tr rh" and g: "g < tc div gs"
    have lt: "g * gs + i < tc" if "i < gs" for i using tile_shapeD[OF shape g that] .
    have gr: "(g * gs + i) div gs = g" if "i < gs" for i using that by (simp add: div_mult_self3)
    let ?sc = "if e4 then ue4m3_f32 fo (tile (r * (tc div gs) + g)) else bf16_to_fp32 fo (rd16 (adv tile (2 * (r * (tc div gs) + g))))"
    let ?inner = "\<lambda>i k out. out(r * tc + (g * gs + i) + k := tq2_code fo nz
      (drop_bit (2 * k) (tile (tr * (tc div gs) * (if e4 then 1 else 2) + (r * tc + (g * gs + i)) div 4)) AND 3) ?sc)"
    have "for_loop (while_below (g * gs + i) tc [0..<4]) (?inner i) s = override_on s ?w ((\<lambda>k. r * tc + (g * gs + (i + k))) ` {..<4})"
      if i: "i \<in> set (fours gs)" for i s
    proof -
      have ik: "i + k < gs" if "k < 4" for k using that fours_room[OF dv(1) i] by simp
      have i4: "4 dvd g * gs + i" using i dv set_fours[OF dv(1)] by simp
      then have al: "4 dvd r * tc + (g * gs + i)" using dv(2) by simp
      have d: "(r * tc + (g * gs + (i + k))) div 4 = (r * tc + (g * gs + i)) div 4" "(g * gs + (i + k)) mod 4 = k" if "k < 4" for k
      proof -
        obtain a where a: "r * tc + (g * gs + i) = 4 * a" using al by (rule dvdE)
        have "r * tc + (g * gs + (i + k)) = 4 * a + k" using a by simp
        then show "(r * tc + (g * gs + (i + k))) div 4 = (r * tc + (g * gs + i)) div 4" using a that by simp
        obtain b where "g * gs + i = 4 * b" using i4 by (rule dvdE)
        then have "g * gs + (i + k) = 4 * b + k" by simp
        then show "(g * gs + (i + k)) mod 4 = k" using that by (simp only: mod_mult_self4 mod_less)
      qed
      have w: "?w (r * tc + (g * gs + (i + k))) = tq2_code fo nz
          (drop_bit (2 * k) (tile (tr * (tc div gs) * (if e4 then 1 else 2) + (r * tc + (g * gs + i)) div 4)) AND 3) ?sc" if "k < 4" for k
        unfolding div_mod_at[OF lt[OF ik[OF that]], THEN conjunct1] div_mod_at[OF lt[OF ik[OF that]], THEN conjunct2]
        by (simp only: tq2_value_def Let_def gr[OF ik[OF that]] d[OF that])
      have "for_loop [0..<4] (?inner i) s = override_on s ?w (\<Union>k \<in> set [0..<4]. {r * tc + (g * gs + (i + k))})"
      proof (rule for_loop_override)
        fix k s assume "k \<in> set [0..<4]"
        then have k: "k < 4" by simp
        show "?inner i k s = override_on s ?w {r * tc + (g * gs + (i + k))}"
          unfolding add.assoc by (rule upd_override_on[where w = ?w]) (rule w[OF k])
      qed
      moreover have "while_below (g * gs + i) tc [0..<4] = [0..<4]"
        by (rule while_below_all) (use lt[OF ik] in \<open>auto simp: add.assoc\<close>)
      moreover have "(\<Union>k \<in> set [0..<4]. {r * tc + (g * gs + (i + k))}) = (\<lambda>k. r * tc + (g * gs + (i + k))) ` {..<4}" by auto
      ultimately show ?thesis by simp
    qed
    then have "for_loop (fours gs) (\<lambda>i. for_loop (while_below (g * gs + i) tc [0..<4]) (?inner i)) s =
        override_on s ?w (\<Union>i \<in> set (fours gs). (\<lambda>k. r * tc + (g * gs + (i + k))) ` {..<4})"
      by (rule for_loop_override)
    moreover have "(\<Union>i \<in> set (fours gs). (\<lambda>k. r * tc + (g * gs + (i + k))) ` {..<4}) = (\<lambda>i. r * tc + (g * gs + i)) ` {..<gs}"
      by (rule fours_cover[OF dv(1)])
    moreover have "while_below (g * gs) tc (fours gs) = fours gs"
      by (rule while_below_all) (use lt set_fours[OF dv(1)] in auto)
    ultimately show "for_loop (while_below (g * gs) tc (fours gs)) (\<lambda>i. for_loop (while_below (g * gs + i) tc [0..<4]) (?inner i)) s =
        override_on s ?w ((\<lambda>i. r * tc + (g * gs + i)) ` {..<gs})"
      by simp
  qed
  then show ?thesis using div_mod_at[OF at(2), of r] by simp
qed

lemma override_at:
  "f = override_on s w (\<Union>a < n. \<Union>b < m. S a b) \<Longrightarrow> k \<in> S a b \<Longrightarrow> a < n \<Longrightarrow> b < m \<Longrightarrow> f k = w k"
  by (auto simp: override_on_def)

lemma two_level_override:
  assumes "\<And>r c s. r < n \<Longrightarrow> c < m r \<Longrightarrow> body r c s = override_on s w (S r c)"
  shows "for_loop [0..<n] (\<lambda>r s. for_loop [0..<m r] (body r) s) s = override_on s w (\<Union>r < n. \<Union>c < m r. S r c)"
proof -
  have row: "for_loop [0..<m r] (body r) s = override_on s w (\<Union>c < m r. S r c)" if "r \<in> set [0..<n]" for r s
    using for_loop_override[of "[0..<m r]" "body r" w "S r"] that assms by (simp add: lessThan_atLeast0)
  show ?thesis using for_loop_override[of "[0..<n]" _ w, OF row] by (simp add: lessThan_atLeast0)
qed

lemma grid_loop_elem:
  assumes "\<And>r c. r < n \<Longrightarrow> c < m \<Longrightarrow> v r c = w (r * k + c)" "r < n" "c < m"
  shows "for_loop [0..<n] (\<lambda>r s. for_loop [0..<m] (\<lambda>c s. s(r * k + c := v r c)) s) s (r * k + c) = w (r * k + c)"
proof -
  have "for_loop [0..<n] (\<lambda>r s. for_loop [0..<m] (\<lambda>c s. s(r * k + c := v r c)) s) s =
      override_on s w (\<Union>r < n. \<Union>c < m. {r * k + c})"
    by (rule two_level_override[of n "\<lambda>_. m"]) (simp add: assms(1) upd_override_on)
  moreover have "r * k + c \<in> (\<Union>r < n. \<Union>c < m. {r * k + c})" using assms(2,3) by auto
  ultimately show ?thesis by (simp add: override_on_def)
qed

lemma dequant_tile_rocmfp4_elem:
  assumes "0 < tc" and at: "r < min tr rh" "c < tc"
  shows "dequant_tile_rocmfp4 fo tile junk rh tc tr tc fast (r * tc + c) = rocm_value fo tc fast tile r c"
proof -
  let ?w = "\<lambda>k. rocm_value fo tc fast tile (k div tc) (k mod tc)" and ?nb = "ceil_div tc 32"
  let ?S = "\<lambda>r b. (\<lambda>i. r * tc + (b * 32 + i)) ` {i. i < 32 \<and> b * 32 + i < tc}"
  have "dequant_tile_rocmfp4 fo tile junk rh tc tr tc fast = override_on junk ?w (\<Union>r < min tr rh. \<Union>b < ?nb. ?S r b)"
    unfolding dequant_tile_rocmfp4_def Let_def
  proof (rule two_level_override[of _ "\<lambda>_. ?nb"])
    fix r b s
    let ?blk = "adv tile (r * ?nb * rocm_block_bytes fast + b * rocm_block_bytes fast)"
    let ?v = "\<lambda>i. f_mul fo (f_int fo (npu_cb10 (if i < 16 then ?blk (i mod 16) AND 0xF else drop_bit 4 (?blk (i mod 16)))))
      (if i < 16 then ue4m3_f32 fo (?blk 16) else if fast then ue4m3_f32 fo (?blk 16) else ue4m3_f32 fo (?blk 17))"
    have v: "?w (r * tc + (b * 32 + i)) = ?v i" if "i < 32" "b * 32 + i < tc" for i
      using div_mod_at[OF that(2), of r] that(1) by (simp add: rocm_value_def Let_def div_mult_self3 mod_mult_self3)
    have "for_loop (while_below (b * 32) tc [0..<32]) (\<lambda>i out. out(r * tc + (b * 32 + i) := ?v i)) s =
        override_on s ?w (\<Union>i \<in> set (while_below (b * 32) tc [0..<32]). {r * tc + (b * 32 + i)})"
    proof (rule for_loop_override)
      fix i s assume "i \<in> set (while_below (b * 32) tc [0..<32])"
      then have i: "i < 32" "b * 32 + i < tc" using set_while_below[of "[0..<32]" "b * 32" tc] by simp_all
      show "s(r * tc + (b * 32 + i) := ?v i) = override_on s ?w {r * tc + (b * 32 + i)}"
        by (rule upd_override_on[where w = ?w]) (rule v[OF i])
    qed
    moreover have "(\<Union>i \<in> set (while_below (b * 32) tc [0..<32]). {r * tc + (b * 32 + i)}) = ?S r b"
      using set_while_below[of "[0..<32]" "b * 32" tc] by auto
    ultimately show "for_loop (while_below (b * 32) tc [0..<32]) (\<lambda>i out. out(r * tc + (b * 32 + i) := ?v i)) s = override_on s ?w (?S r b)"
      by simp
  qed
  moreover have "r * tc + c \<in> ?S r (c div 32)"
    using at by (intro image_eqI[of _ _ "c mod 32"]) (simp_all add: div_mult_mod_eq)
  moreover have "c div 32 < ?nb" using at(2) by (subst less_ceil_div) (auto intro: le_less_trans[OF div_times_less_eq_dividend])
  ultimately have "dequant_tile_rocmfp4 fo tile junk rh tc tr tc fast (r * tc + c) = ?w (r * tc + c)"
    using at(1) by (intro override_at[where w = ?w])
  then show ?thesis using div_mod_at[OF at(2), of r] by simp
qed

text \<open>A tile buffer holds the reference at every row and column of the matrix.\<close>

lemma fill_tile_elem:
  assumes "tile_shape tc gs" "r < rh" "rh \<le> tr" "c < cw" "cw \<le> tc"
  shows "fill_tile fo tile junk rh cw tr tc gs q (r * tc + c) = tile_value fo tr tc gs q tile r c"
proof -
  have r: "r < min tr rh" "c < tc" "0 < tc" using assms by auto
  have "tile_f16 fo tile junk rh cw tc (r * tc + c) = f16_at fo (adv tile (2 * (r * tc + c)))"
    "tile_f32 fo tile junk rh cw tc (r * tc + c) = f_bits fo (rd32 (adv tile (4 * (r * tc + c))))"
    unfolding tile_f16_def tile_f32_def
    using grid_loop_elem[of rh cw _ "\<lambda>k. f16_at fo (adv tile (2 * k))" tc] grid_loop_elem[of rh cw _ "\<lambda>k. f_bits fo (rd32 (adv tile (4 * k)))" tc]
      assms by simp_all
  then show ?thesis
    by (simp add: fill_tile_def tile_value_def dequant_tile_elem[OF assms(1) r(1,2)] dequant_tile_tq2_elem[OF assms(1) r(1,2)]
        dequant_tile_rocmfp4_elem[OF r(3,1,2)])
qed

text \<open>The decoded matrix: element \<open>(r, c)\<close> is element \<open>(r mod tr, c mod tc)\<close> of its tile, whatever was in the buffer.\<close>

definition matrix_value :: "'f fops \<Rightarrow> ptr \<Rightarrow> nat \<Rightarrow> nat \<Rightarrow> nat \<Rightarrow> nat \<Rightarrow> u32 \<Rightarrow> nat \<Rightarrow> nat \<Rightarrow> 'f" where
  "matrix_value fo base C tr tc gs q r c =
     tile_value fo tr tc gs q (adv base ((r div tr * ceil_div C tc + c div tc) * reader_tile_bytes tr tc gs q)) (r mod tr) (c mod tc)"

lemma tile_of:
  assumes "0 < (t :: nat)" "x < n"
  shows "x div t < ceil_div n t" "x div t * t + x mod t = x" "x mod t < min (n - x div t * t) t"
proof -
  show "x div t < ceil_div n t" using assms by (subst less_ceil_div) (auto intro: le_less_trans[OF div_times_less_eq_dividend])
  show e: "x div t * t + x mod t = x" by (rule div_mult_mod_eq)
  show "x mod t < min (n - x div t * t) t" using e assms mod_less_divisor[of t x] by linarith
qed

lemma dequant_matrix_elem:
  assumes shape: "tile_shape tc gs" "0 < tr" and at: "r < R" "c < C"
  shows "dequant_matrix fo junk base R C tr tc gs q (r * C + c) = matrix_value fo base C tr tc gs q r c"
proof -
  let ?w = "\<lambda>k. matrix_value fo base C tr tc gs q (k div C) (k mod C)" and ?ntc = "ceil_div C tc"
  let ?rh = "\<lambda>a. min (R - a * tr) tr" and ?cw = "\<lambda>b. min (C - b * tc) tc"
  let ?S = "\<lambda>a b. \<Union>r < ?rh a. \<Union>c < ?cw b. {(a * tr + r) * C + (b * tc + c)}"
  have "dequant_matrix fo junk base R C tr tc gs q =
      override_on (\<lambda>_. f_rat fo 0) ?w (\<Union>a < ceil_div R tr. \<Union>b < ?ntc. ?S a b)"
    unfolding dequant_matrix_def Let_def
  proof (rule two_level_override[of _ "\<lambda>_. ?ntc"])
    fix a b s
    let ?buf = "fill_tile fo (adv base ((a * ?ntc + b) * reader_tile_bytes tr tc gs q)) junk (?rh a) (?cw b) tr tc gs q"
    show "for_loop [0..<?rh a] (\<lambda>r out. for_loop [0..<?cw b] (\<lambda>c out. out((a * tr + r) * C + (b * tc + c) := ?buf (r * tc + c))) out) s =
        override_on s ?w (?S a b)"
    proof (rule two_level_override[of _ "\<lambda>_. ?cw b"])
      fix r c s assume rc: "r < ?rh a" "c < ?cw b"
      have "b * tc + c < C" using rc(2) by linarith
      from div_mod_at[OF this, of "a * tr + r"]
      have "?w ((a * tr + r) * C + (b * tc + c)) = matrix_value fo base C tr tc gs q (a * tr + r) (b * tc + c)" by simp
      also have "\<dots> = ?buf (r * tc + c)"
        using div_mod_at[of r tr a] div_mod_at[of c tc b] rc
        by (simp add: matrix_value_def fill_tile_elem[OF shape(1) rc(1) _ rc(2)])
      finally show "s((a * tr + r) * C + (b * tc + c) := ?buf (r * tc + c)) = override_on s ?w {(a * tr + r) * C + (b * tc + c)}"
        by (rule upd_override_on)
    qed
  qed
  moreover have tc: "0 < tc" using shape(1) by (simp add: tile_shape_def)
  have "r * C + c \<in> ?S (r div tr) (c div tc)"
    using tile_of[OF shape(2) at(1)] tile_of[OF tc at(2)]
    by (intro UN_I[of "r mod tr" "{..<?rh (r div tr)}"] UN_I[of "c mod tc" "{..<?cw (c div tc)}"]) (simp_all only: lessThan_iff insert_iff simp_thms)
  moreover have "r div tr < ceil_div R tr" "c div tc < ?ntc" by (rule tile_of(1)[OF shape(2) at(1)], rule tile_of(1)[OF tc at(2)])
  ultimately have "dequant_matrix fo junk base R C tr tc gs q (r * C + c) = ?w (r * C + c)"
    by (intro override_at[where w = ?w])
  then show ?thesis using div_mod_at[OF at(2), of r] by simp
qed

end
