(* ===== verification/OnebpEncode.thy ===== *)
theory OnebpEncode
  imports OnebpDequant
begin

text \<open>
  The tile loop of \<open>src/gguf_to_onebp.cpp\<close>: one encoder per format, each a loop that stores into a zeroed tile. The
  weights of a matrix are a function of the index, element \<open>(r, c)\<close> at \<open>r * C + c\<close>; \<open>imw\<close> are the importances
  of the columns when the user gave any. The references \<open><family>_weight\<close> say what an element becomes, in the
  coordinates of the matrix.
\<close>

unbundle bit_operations_syntax

section \<open>Groups of weights\<close>

definition elem_at :: "'f buf \<Rightarrow> nat \<Rightarrow> nat \<Rightarrow> nat \<Rightarrow> nat \<Rightarrow> 'f option" where
  "elem_at fw R C ar ac = (if ar < R \<and> ac < C then Some (fw (ar * C + ac)) else None)"

definition group_max :: "'f qops \<Rightarrow> 'f buf \<Rightarrow> nat \<Rightarrow> nat \<Rightarrow> nat \<Rightarrow> nat \<Rightarrow> nat \<Rightarrow> 'f" where
  "group_max qo fw R C ar acs n =
     for_loop [0..<n] (\<lambda>i m.
       case elem_at fw R C ar (acs + i) of
         None \<Rightarrow> m
       | Some v \<Rightarrow> if q_finite qo v then (let a = q_abs qo v in if q_less qo m a then a else m) else m) (q_rat qo 0)"

text \<open>The error of a scale: the weighted squares of what the codes lose, over the weights when there are any.\<close>

definition scale_error ::
  "'f qops \<Rightarrow> 'f buf option \<Rightarrow> 'f buf \<Rightarrow> nat \<Rightarrow> nat \<Rightarrow> nat \<Rightarrow> nat \<Rightarrow> nat \<Rightarrow> ('f \<Rightarrow> 'f \<Rightarrow> 'f) \<Rightarrow> 'f \<Rightarrow> 'f" where
  "scale_error qo imw fw R C ar acs n code scv =
     (let inv = q_div qo (q_rat qo 1) scv;
          (err, wsum) = for_loop [0..<n] (\<lambda>i (err, wsum).
            case elem_at fw R C ar (acs + i) of
              None \<Rightarrow> (err, wsum)
            | Some v \<Rightarrow>
                if q_finite qo v
                then let dv = q_sub qo v (q_mul qo (code (q_mul qo v inv) v) scv);
                         w = (case imw of Some ws \<Rightarrow> ws (acs + i) | None \<Rightarrow> q_rat qo 1)
                     in (q_add qo err (q_mul qo (q_mul qo w dv) dv), q_add qo wsum w)
                else (err, wsum)) (q_rat qo 0, q_rat qo 0)
      in if imw \<noteq> None \<and> q_less qo (q_rat qo 0) wsum then q_div qo err wsum else err)"

abbreviation q_inf :: "'f qops \<Rightarrow> 'f" where
  "q_inf qo \<equiv> f_half (q_fops qo) (HInf False)"

definition f32b :: "'f qops \<Rightarrow> 'f \<Rightarrow> u16" where
  "f32b qo v = ucast (drop_bit 16 (q_bits qo v))"

definition put16 :: "nat \<Rightarrow> u16 \<Rightarrow> byte buf \<Rightarrow> byte buf" where
  "put16 i w t = t(i := ucast w, i + 1 := ucast (drop_bit 8 w))"

definition groups_of :: "nat \<Rightarrow> nat \<Rightarrow> nat" where
  "groups_of tc gs = (if tc div gs = 0 then 1 else tc div gs)"

section \<open>Two bits a weight\<close>

text \<open>The loop of TQ2 and TQ2NZ: the scale of a group, then its codes into the bits of the zeroed bytes.\<close>

definition pack2_tile :: "nat \<Rightarrow> nat \<Rightarrow> nat \<Rightarrow> nat \<Rightarrow> (nat \<Rightarrow> nat \<Rightarrow> byte buf \<Rightarrow> byte buf) \<Rightarrow> (nat \<Rightarrow> nat \<Rightarrow> nat \<Rightarrow> byte) \<Rightarrow> byte buf" where
  "pack2_tile tr tc gs sb put code =
     for_loop [0..<tr] (\<lambda>rr t.
       for_loop [0..<groups_of tc gs] (\<lambda>g t.
         for_loop [0..<gs] (\<lambda>i t.
           let pos = rr * tc + (g * gs + i); k = sb + pos div 4
           in t(k := t k OR push_bit (2 * (pos mod 4)) (code rr g i))) (put rr g t)) t) (\<lambda>_. 0)"

definition tq2_scale :: "'f qops \<Rightarrow> 'f \<Rightarrow> 'f" where
  "tq2_scale qo m = (if q_less qo m (q_rat qo (1 / 10 ^ 20)) then q_rat qo 1 else m)"

definition tq2_encode :: "'f qops \<Rightarrow> 'f \<Rightarrow> 'f option \<Rightarrow> byte" where
  "tq2_encode qo s v =
     (let inv = q_div qo (q_rat qo 1) s in
      case v of
        None \<Rightarrow> 1
      | Some v \<Rightarrow> if q_finite qo v then of_int (max (-1) (min 1 (q_round qo (q_mul qo v inv))) + 1) else 1)"

definition tile_tq2 :: "'f qops \<Rightarrow> 'f buf \<Rightarrow> nat \<Rightarrow> nat \<Rightarrow> nat \<Rightarrow> nat \<Rightarrow> nat \<Rightarrow> nat \<Rightarrow> nat \<Rightarrow> byte list" where
  "tile_tq2 qo fw R C r0 c0 tr tc gs =
     (let grps = groups_of tc gs; sb = tr * grps * 2;
          s = (\<lambda>rr g. tq2_scale qo (group_max qo fw R C (r0 + rr) (c0 + g * gs) gs))
      in map (pack2_tile tr tc gs sb (\<lambda>rr g. put16 (2 * (rr * grps + g)) (f32b qo (s rr g)))
           (\<lambda>rr g i. tq2_encode qo (s rr g) (elem_at fw R C (r0 + rr) (c0 + g * gs + i)))) [0..<sb + tr * tc div 4])"

definition nz_round :: "'f qops \<Rightarrow> 'f \<Rightarrow> byte" where
  "nz_round qo q =
     (if q_less qo (q_rat qo (5 / 2)) q then 3 else if q_less qo q (q_rat qo (-5 / 2)) then 0
      else if q_less qo (q_rat qo 0) q then 2 else 1)"

definition nz_level :: "'f qops \<Rightarrow> 'f \<Rightarrow> 'f \<Rightarrow> 'f" where
  "nz_level qo q v = q_rat qo (of_int ([-4, -1, 1, 4] ! unat (nz_round qo q)))"

text \<open>The search of the 8-bit scale: eight entries on each side of the nearest one.\<close>

definition nz_search :: "'f qops \<Rightarrow> 'f buf option \<Rightarrow> 'f buf \<Rightarrow> nat \<Rightarrow> nat \<Rightarrow> nat \<Rightarrow> nat \<Rightarrow> nat \<Rightarrow> 'f \<Rightarrow> byte" where
  "nz_search qo imw fw R C ar acs gs s =
     snd (fold (\<lambda>d (best, sb).
       let e = uint (nearest_ue4m3 qo s) + d in
       if e < 0 \<or> 126 < e then (best, sb)
       else let scv = q_rat qo (onebp_ue4m3 (of_int e)) in
         if q_le qo scv (q_rat qo 0) then (best, sb)
         else let err = scale_error qo imw fw R C ar acs gs (nz_level qo) scv in
           if q_less qo err best then (err, of_int e) else (best, sb)) [-8..8] (q_inf qo, 0))"

text \<open>A group without weight has scale 0, any other the scale of its maximum or the result of the search.\<close>

datatype 'f nz_scale = NzZero | NzBf16 'f | NzByte byte

definition nz_scale_of :: "'f qops \<Rightarrow> 'f buf option \<Rightarrow> bool \<Rightarrow> 'f buf \<Rightarrow> nat \<Rightarrow> nat \<Rightarrow> nat \<Rightarrow> nat \<Rightarrow> nat \<Rightarrow> 'f nz_scale" where
  "nz_scale_of qo imw e4m3 fw R C ar acs gs =
     (let s = q_mul qo (group_max qo fw R C ar acs gs) (q_rat qo (1 / 4)) in
      if q_less qo s (q_rat qo (1 / 10 ^ 20)) then NzZero
      else if e4m3 then NzByte (nz_search qo imw fw R C ar acs gs s) else NzBf16 s)"

definition nz_encode :: "'f qops \<Rightarrow> 'f \<Rightarrow> 'f nz_scale \<Rightarrow> 'f option \<Rightarrow> byte" where
  "nz_encode qo s sc v =
     (let inv = (case sc of NzZero \<Rightarrow> q_rat qo 0 | NzBf16 s \<Rightarrow> q_div qo (q_rat qo 1) s
                 | NzByte b \<Rightarrow> q_div qo (q_rat qo 1) (q_rat qo (onebp_ue4m3 b)));
          s = (case sc of NzZero \<Rightarrow> q_rat qo 0 | _ \<Rightarrow> s)
      in case v of
           None \<Rightarrow> 1
         | Some v \<Rightarrow> if q_less qo (q_rat qo 0) s \<and> q_finite qo v then nz_round qo (q_mul qo v inv) else 1)"

definition tile_nz :: "'f qops \<Rightarrow> 'f buf option \<Rightarrow> bool \<Rightarrow> 'f buf \<Rightarrow> nat \<Rightarrow> nat \<Rightarrow> nat \<Rightarrow> nat \<Rightarrow> nat \<Rightarrow> nat \<Rightarrow> nat \<Rightarrow> byte list" where
  "tile_nz qo imw e4m3 fw R C r0 c0 tr tc gs =
     (let grps = groups_of tc gs; sb = tr * grps * (if e4m3 then 1 else 2);
          sc = (\<lambda>rr g. nz_scale_of qo imw e4m3 fw R C (r0 + rr) (c0 + g * gs) gs);
          s = (\<lambda>rr g. q_mul qo (group_max qo fw R C (r0 + rr) (c0 + g * gs) gs) (q_rat qo (1 / 4)))
      in map (pack2_tile tr tc gs sb
           (\<lambda>rr g t. case sc rr g of NzZero \<Rightarrow> t | NzBf16 s \<Rightarrow> put16 (2 * (rr * grps + g)) (f32b qo s) t
                     | NzByte b \<Rightarrow> t(rr * grps + g := b))
           (\<lambda>rr g i. nz_encode qo (s rr g) (sc rr g) (elem_at fw R C (r0 + rr) (c0 + g * gs + i)))) [0..<sb + tr * tc div 4])"

section \<open>Four bits a weight\<close>

text \<open>The magnitude of ROCmFP4 nearest to \<open>aq\<close> and its index in the codebook.\<close>

definition rocm_mag :: "'f qops \<Rightarrow> 'f \<Rightarrow> int" where
  "rocm_mag qo aq =
     (if q_le qo aq (q_rat qo (1 / 2)) then 0 else if q_le qo aq (q_rat qo (3 / 2)) then 1
      else if q_le qo aq (q_rat qo (5 / 2)) then 2 else if q_le qo aq (q_rat qo (7 / 2)) then 3
      else if q_le qo aq (q_rat qo 5) then 4 else if q_le qo aq (q_rat qo 7) then 6
      else if q_le qo aq (q_rat qo 9) then 8 else 10)"

definition rocm_index :: "int \<Rightarrow> int" where
  "rocm_index mag = (if mag \<le> 4 then mag else (mag + 4) div 2)"

definition rocm_level :: "'f qops \<Rightarrow> 'f \<Rightarrow> 'f \<Rightarrow> 'f" where
  "rocm_level qo q v =
     (let code = q_rat qo (of_int (rocm_mag qo (q_abs qo q))) in
      if q_less qo v (q_rat qo 0) then f_neg (q_fops qo) code else code)"

text \<open>The search from the nearest entry outwards; it gives up the smaller scales once clipping alone costs more
  than the best.\<close>

fun rocm_search ::
  "'f qops \<Rightarrow> 'f buf option \<Rightarrow> 'f buf \<Rightarrow> nat \<Rightarrow> nat \<Rightarrow> nat \<Rightarrow> nat \<Rightarrow> 'f \<Rightarrow> int \<Rightarrow> int list \<Rightarrow> 'f \<Rightarrow> byte \<Rightarrow> bool \<Rightarrow> byte" where
  "rocm_search qo imw fw R C ar hs m start [] best sb lower_done = sb"
| "rocm_search qo imw fw R C ar hs m start (delta # ds) best sb lower_done =
     (let e0 = start - delta; e1 = start + delta;
          err = (\<lambda>e. scale_error qo imw fw R C ar hs 16 (rocm_level qo) (q_rat qo (onebp_ue4m3 (of_int e))));
          (best, sb, lower_done) =
            (if \<not> lower_done \<and> 1 \<le> e0 \<and> e0 \<le> 126
             then let clip = q_sub qo m (q_mul qo (q_rat qo 10) (q_rat qo (onebp_ue4m3 (of_int e0)))) in
               if q_less qo (q_rat qo 0) clip \<and> q_less qo best (q_mul qo clip clip) then (best, sb, True)
               else if q_less qo (err e0) best then (err e0, of_int e0, lower_done) else (best, sb, lower_done)
             else (best, sb, lower_done));
          (best, sb) =
            (if delta \<noteq> 0 \<and> 1 \<le> e1 \<and> e1 \<le> 126
             then (if q_less qo (err e1) best then (err e1, of_int e1) else (best, sb)) else (best, sb))
      in if (lower_done \<or> e0 \<le> 1) \<and> 126 \<le> e1 then sb
         else rocm_search qo imw fw R C ar hs m start ds best sb lower_done)"

definition rocm_scale :: "'f qops \<Rightarrow> 'f buf option \<Rightarrow> 'f buf \<Rightarrow> nat \<Rightarrow> nat \<Rightarrow> nat \<Rightarrow> nat \<Rightarrow> byte" where
  "rocm_scale qo imw fw R C ar hs =
     (let m = group_max qo fw R C ar hs 16; s = q_mul qo m (q_rat qo (1 / 10)) in
      if q_le qo (q_rat qo (1 / 10 ^ 20)) s
      then rocm_search qo imw fw R C ar hs m (uint (nearest_ue4m3 qo s)) [0..125] (q_inf qo) 0 False
      else 0)"

definition rocm_encode :: "'f qops \<Rightarrow> 'f \<Rightarrow> 'f option \<Rightarrow> byte" where
  "rocm_encode qo d v =
     (case v of
        None \<Rightarrow> 0
      | Some v \<Rightarrow>
          if q_finite qo v \<and> q_less qo (q_rat qo 0) d
          then let q = q_div qo v d
               in of_int (rocm_index (rocm_mag qo (q_abs qo q))) OR (if q_less qo q (q_rat qo 0) then 8 else 0)
          else 0)"

text \<open>One block of 32 columns: the scales of its halves (one of them if \<open>fast\<close>), then the codes into the low and the
  high halves of 16 bytes.\<close>

definition rocm_block :: "'f qops \<Rightarrow> 'f buf option \<Rightarrow> bool \<Rightarrow> 'f buf \<Rightarrow> nat \<Rightarrow> nat \<Rightarrow> nat \<Rightarrow> nat \<Rightarrow> nat \<Rightarrow> byte buf \<Rightarrow> byte buf" where
  "rocm_block qo imw fast fw R C ar c0b blk t =
     (let t = for_loop [0..<if fast then 1 else 2] (\<lambda>half t.
                t(blk + (16 + half) := rocm_scale qo imw fw R C ar (c0b + half * 16))) t;
          d0 = q_rat qo (onebp_ue4m3 (t (blk + 16))); d1 = (if fast then d0 else q_rat qo (onebp_ue4m3 (t (blk + 17))))
      in for_loop [0..<32] (\<lambda>i t.
           let code = rocm_encode qo (if i < 16 then d0 else d1) (elem_at fw R C ar (c0b + i)); k = blk + i mod 16
           in if i < 16 then t(k := t k AND 0xf0 OR code AND 0x0f)
              else t(k := t k AND 0x0f OR push_bit 4 (code AND 0x0f))) t)"

definition tile_rocm :: "'f qops \<Rightarrow> 'f buf option \<Rightarrow> bool \<Rightarrow> 'f buf \<Rightarrow> nat \<Rightarrow> nat \<Rightarrow> nat \<Rightarrow> nat \<Rightarrow> nat \<Rightarrow> nat \<Rightarrow> byte list" where
  "tile_rocm qo imw fast fw R C r0 c0 tr tc =
     (let bb = rocm_block_bytes fast; nb = ceil_div tc 32
      in map (for_loop (while_below r0 R [0..<tr]) (\<lambda>rr t.
                for_loop [0..<nb] (\<lambda>b t. rocm_block qo imw fast fw R C (r0 + rr) (c0 + b * 32) ((rr * nb + b) * bb) t) t)
                (\<lambda>_. 0)) [0..<tr * nb * bb])"

text \<open>Q4NX: minimum and scale of a group; a group of equal weights gets scale 1 and minimum 0.\<close>

definition q4_range :: "'f qops \<Rightarrow> 'f buf \<Rightarrow> nat \<Rightarrow> nat \<Rightarrow> nat \<Rightarrow> nat \<Rightarrow> nat \<Rightarrow> 'f \<times> 'f \<times> nat" where
  "q4_range qo fw R C ar acs gs =
     for_loop [0..<gs] (\<lambda>i (mx, mn, valid_cnt).
       case elem_at fw R C ar (acs + i) of
         None \<Rightarrow> (mx, mn, valid_cnt)
       | Some v \<Rightarrow>
           if q_finite qo v
           then (if q_less qo mx v then v else mx, if q_less qo v mn then v else mn, valid_cnt + 1)
           else (mx, mn, valid_cnt)) (q_rat qo (- (10 ^ 10)), q_rat qo (10 ^ 10), 0)"

definition q4_scale_min :: "'f qops \<Rightarrow> 'f buf \<Rightarrow> nat \<Rightarrow> nat \<Rightarrow> nat \<Rightarrow> nat \<Rightarrow> nat \<Rightarrow> 'f \<times> 'f" where
  "q4_scale_min qo fw R C ar acs gs =
     (let (mx, mn, valid_cnt) = q4_range qo fw R C ar acs gs;
          (s, mn) = (if valid_cnt < 2 \<or> q_le qo mx mn \<and> q_le qo mn mx then (q_rat qo 1, q_rat qo 0)
                     else (q_div qo (q_sub qo mx mn) (q_rat qo 15), mn))
      in if q_less qo s (q_rat qo (1 / 10 ^ 10)) then (q_rat qo 1, q_rat qo 0) else (s, mn))"

definition q4_encode :: "'f qops \<Rightarrow> 'f \<Rightarrow> 'f \<Rightarrow> 'f option \<Rightarrow> byte" where
  "q4_encode qo s mn v =
     (let inv = q_div qo (q_rat qo 1) s in
      case v of None \<Rightarrow> 0 | Some v \<Rightarrow> of_int (max 0 (min 15 (q_round qo (q_mul qo (q_sub qo v mn) inv)))))"

definition tile_q4nx :: "'f qops \<Rightarrow> 'f buf \<Rightarrow> nat \<Rightarrow> nat \<Rightarrow> nat \<Rightarrow> nat \<Rightarrow> nat \<Rightarrow> nat \<Rightarrow> nat \<Rightarrow> byte list" where
  "tile_q4nx qo fw R C r0 c0 tr tc gs =
     (let grps = groups_of tc gs; sb = tr * grps * 2
      in map (for_loop [0..<tr] (\<lambda>rr t.
                for_loop [0..<grps] (\<lambda>g t.
                  let acs = c0 + g * gs; (s, mn) = q4_scale_min qo fw R C (r0 + rr) acs gs;
                      t = put16 (2 * (rr * grps + g)) (f32b qo s) t; t = put16 (sb + 2 * (rr * grps + g)) (f32b qo mn) t
                  in for_loop (evens gs) (\<lambda>i t.
                       let v0 = q4_encode qo s mn (elem_at fw R C (r0 + rr) (acs + i));
                           v1 = q4_encode qo s mn (elem_at fw R C (r0 + rr) (acs + i + 1))
                       in t(sb + sb + (rr * tc + (g * gs + i)) div 2 := push_bit 4 v1 OR v0)) t) t) (\<lambda>_. 0))
           [0..<sb + sb + tr * tc div 2])"

section \<open>Base 3 and half precision\<close>

definition tq1_encode :: "'f qops \<Rightarrow> 'f \<Rightarrow> 'f option \<Rightarrow> byte" where
  "tq1_encode qo s v =
     (let inv = q_div qo (q_rat qo 1) s in
      case v of
        None \<Rightarrow> 1
      | Some v \<Rightarrow>
          if q_finite qo v
          then let q = q_mul qo v inv
               in if q_less qo (q_rat qo (1 / 2)) q then 2 else if q_less qo q (q_rat qo (-1 / 2)) then 0 else 1
          else 1)"

definition tile_tq1 :: "'f qops \<Rightarrow> 'f buf \<Rightarrow> nat \<Rightarrow> nat \<Rightarrow> nat \<Rightarrow> nat \<Rightarrow> nat \<Rightarrow> nat \<Rightarrow> byte list" where
  "tile_tq1 qo fw R C r0 c0 tr tc =
     (let grps = (tc + 4) div 5; sb = tr * grps * 2
      in map (for_loop [0..<tr] (\<lambda>rr t.
                for_loop [0..<grps] (\<lambda>g t.
                  let acs = c0 + g * 5; m = group_max qo fw R C (r0 + rr) acs 5;
                      s = (if q_less qo (q_rat qo (1 / 10 ^ 20)) m then m else q_rat qo 1);
                      t = put16 (2 * (rr * grps + g)) (f32b qo s) t
                  in t(sb + (rr * grps + g) :=
                       for_loop [0..<5] (\<lambda>i packed. packed + tq1_encode qo s (elem_at fw R C (r0 + rr) (acs + i)) * 3 ^ i) 0)) t)
                (\<lambda>_. 0)) [0..<sb + tr * grps])"

definition f32_to_f16 :: "u32 \<Rightarrow> u16" where
  "f32_to_f16 x =
     (let s = ucast (drop_bit 16 x AND 0x8000) :: u16; e = uint (drop_bit 23 x AND 0xff) - 127 + 15; m = x AND 0x7fffff in
      if 31 \<le> e then s OR 0x7c00
      else if e \<le> 0 then
        (if e < -10 then s else let m = drop_bit (nat (1 - e)) (m OR 0x800000) in s OR ucast (drop_bit 13 m))
      else s OR push_bit 10 (of_int e) OR ucast (drop_bit 13 m))"

definition tile_half :: "'f qops \<Rightarrow> 'f buf \<Rightarrow> nat \<Rightarrow> nat \<Rightarrow> nat \<Rightarrow> nat \<Rightarrow> nat \<Rightarrow> nat \<Rightarrow> byte list" where
  "tile_half qo fw R C r0 c0 tr tc =
     map (for_loop [0..<tr] (\<lambda>rr t.
            for_loop [0..<tc] (\<lambda>cc t.
              case elem_at fw R C (r0 + rr) (c0 + cc) of
                None \<Rightarrow> t
              | Some v \<Rightarrow> put16 (2 * (rr * tc + cc)) (f32_to_f16 (q_bits qo v)) t) t) (\<lambda>_. 0)) [0..<tr * tc * 2]"

section \<open>A tensor\<close>

definition encode_tile :: "'f qops \<Rightarrow> 'f buf option \<Rightarrow> u32 \<Rightarrow> 'f buf \<Rightarrow> nat \<Rightarrow> nat \<Rightarrow> nat \<Rightarrow> nat \<Rightarrow> nat \<Rightarrow> nat \<Rightarrow> nat \<Rightarrow> byte list" where
  "encode_tile qo imw q fw R C r0 c0 tr tc gs =
     (if q = 3 then tile_tq2 qo fw R C r0 c0 tr tc gs
      else if q = 6 \<or> q = 7 then tile_nz qo imw (q = 7) fw R C r0 c0 tr tc gs
      else if is_rocm q then tile_rocm qo imw (q = 10) fw R C r0 c0 tr tc
      else if q = 2 then tile_tq1 qo fw R C r0 c0 tr tc
      else if q = 4 then tile_half qo fw R C r0 c0 tr tc
      else tile_q4nx qo fw R C r0 c0 tr tc gs)"

text \<open>Experts, then rows of tiles, then tiles. TQ2BS, which has its own packer, is not among the formats.\<close>

definition encode_tensor :: "'f qops \<Rightarrow> 'f buf option \<Rightarrow> u32 \<Rightarrow> 'f buf \<Rightarrow> nat \<Rightarrow> nat \<Rightarrow> nat \<Rightarrow> nat \<Rightarrow> nat \<Rightarrow> nat \<Rightarrow> byte list" where
  "encode_tensor qo imw q fw NE R C tr tc gs =
     concat (map (\<lambda>ei.
       concat (map (\<lambda>r.
         concat (map (\<lambda>c. encode_tile qo imw q (\<lambda>k. fw (ei * R * C + k)) R C (r * tr) (c * tc) tr tc gs)
           [0..<ceil_div C tc])) [0..<ceil_div R tr])) [0..<NE])"

end
