(* ===== verification/OnebpReadback.thy ===== *)
theory OnebpReadback
  imports OnebpEncode
begin

text \<open>
  The decoder of \<open>onebp_loader.cpp\<close> on a tile of the converter: every element comes back as its own code times the
  scale of its own group. First the loop that ORs two-bit codes into bytes, then one lemma per format.
\<close>

unbundle bit_operations_syntax

section \<open>Loops that override below a bound and accumulate above it\<close>

definition or_all :: "nat list \<Rightarrow> (nat \<Rightarrow> byte) \<Rightarrow> byte" where
  "or_all ks f = fold (\<lambda>k a. a OR f k) ks 0"

lemma fold_or: "fold (\<lambda>k a. a OR f k) ks (x :: byte) = x OR or_all ks f"
proof (induction ks arbitrary: x)
  case Nil
  then show ?case by (simp add: or_all_def)
next
  case (Cons k ks)
  show ?case using Cons[of "x OR f k"] Cons[of "f k"] by (simp add: or_all_def or.assoc)
qed

lemma or_all_Cons: "or_all (k # ks) f = f k OR or_all ks f"
  using fold_or[of f ks "f k"] by (simp add: or_all_def)

lemma bit_or_all: "bit (or_all ks f) n \<longleftrightarrow> (\<exists>k \<in> set ks. bit (f k) n)"
  by (induction ks) (auto simp: or_all_Cons bit_or_iff, simp add: or_all_def)

definition stores :: "nat \<Rightarrow> byte buf \<Rightarrow> nat set \<Rightarrow> byte buf \<Rightarrow> byte buf \<Rightarrow> byte buf" where
  "stores sb w S V s = (\<lambda>k. if k < sb then override_on s w S k else s k OR V k)"

lemma stores_stores: "stores sb w T U (stores sb w S V s) = stores sb w (S \<union> T) (\<lambda>x. V x OR U x) s"
  by (auto simp: stores_def override_on_def fun_eq_iff or.assoc)

lemma for_loop_stores:
  assumes "\<And>k s. k \<in> set ks \<Longrightarrow> body k s = stores sb w (S k) (V k) s"
  shows "for_loop ks body s = stores sb w (\<Union>k \<in> set ks. S k) (\<lambda>x. or_all ks (\<lambda>k. V k x)) s"
  using assms
proof (induction ks arbitrary: s)
  case Nil
  show ?case by (auto simp: for_loop_Nil stores_def or_all_def override_on_def)
next
  case (Cons k ks)
  have "for_loop ks body (body k s) = stores sb w (\<Union>k \<in> set ks. S k) (\<lambda>x. or_all ks (\<lambda>k. V k x)) (body k s)"
    using Cons by simp
  then show ?case
    using Cons.prems[of k s] by (simp add: for_loop_Cons stores_stores or_all_Cons)
qed

text \<open>The codes of a tile.\<close>

definition code_bits :: "nat \<Rightarrow> nat \<Rightarrow> nat \<Rightarrow> (nat \<Rightarrow> nat \<Rightarrow> nat \<Rightarrow> byte) \<Rightarrow> nat \<Rightarrow> nat \<Rightarrow> nat \<Rightarrow> byte buf" where
  "code_bits sb tc gs code r g i =
     (\<lambda>x. if x = sb + (r * tc + (g * gs + i)) div 4 then push_bit (2 * ((r * tc + (g * gs + i)) mod 4)) (code r g i) else 0)"

lemma bit_code_bits:
  "bit (code_bits sb tc gs code r g i (sb + p)) m \<longleftrightarrow> (r * tc + (g * gs + i)) div 4 = p \<and>
     bit (push_bit (2 * ((r * tc + (g * gs + i)) mod 4)) (code r g i)) m"
  by (auto simp: code_bits_def)

lemma pack2_tile_stores:
  assumes put: "\<And>r g t. r < tr \<Longrightarrow> g < groups_of tc gs \<Longrightarrow> put r g t = override_on t w (S r g)"
    and below: "\<And>r g. r < tr \<Longrightarrow> g < groups_of tc gs \<Longrightarrow> S r g \<subseteq> {..<sb}"
  shows "pack2_tile tr tc gs sb put code =
    stores sb w (\<Union>r \<in> set [0..<tr]. \<Union>g \<in> set [0..<groups_of tc gs]. S r g)
      (\<lambda>x. or_all [0..<tr] (\<lambda>r. or_all [0..<groups_of tc gs] (\<lambda>g. or_all [0..<gs] (\<lambda>i. code_bits sb tc gs code r g i x)))) (\<lambda>_. 0)"
  unfolding pack2_tile_def
proof (intro for_loop_stores)
  fix r g s assume rg: "r \<in> set [0..<tr]" "g \<in> set [0..<groups_of tc gs]"
  have codes: "for_loop [0..<gs] (\<lambda>i t. let pos = r * tc + (g * gs + i); k = sb + pos div 4
      in t(k := t k OR push_bit (2 * (pos mod 4)) (code r g i))) t =
      stores sb w (\<Union>i \<in> set [0..<gs]. {}) (\<lambda>x. or_all [0..<gs] (\<lambda>i. code_bits sb tc gs code r g i x)) t" for t
    by (rule for_loop_stores) (auto simp: stores_def code_bits_def Let_def fun_eq_iff override_on_def)
  have "put r g s = override_on s w (S r g)" and sub: "S r g \<subseteq> {..<sb}" using put below rg by simp_all
  then show "for_loop [0..<gs] (\<lambda>i t. let pos = r * tc + (g * gs + i); k = sb + pos div 4
      in t(k := t k OR push_bit (2 * (pos mod 4)) (code r g i))) (put r g s) =
      stores sb w (S r g) (\<lambda>x. or_all [0..<gs] (\<lambda>i. code_bits sb tc gs code r g i x)) s"
    unfolding codes by (auto simp: stores_def override_on_def fun_eq_iff)
qed

text \<open>Two positions in the same two bits are the same position of the same group.\<close>

lemma position_unique:
  assumes shape: "tile_shape tc gs" and g: "g < tc div gs" "g' < tc div gs" and i: "i < gs" "i' < gs"
    and eq: "r * tc + (g * gs + i) = r' * tc + (g' * gs + i')"
  shows "r = r' \<and> g = g' \<and> i = i'"
proof -
  have lt: "g * gs + i < tc" "g' * gs + i' < tc" using tile_shapeD[OF shape] g i by blast+
  have r: "r = r'" using div_mod_at[OF lt(1), of r] div_mod_at[OF lt(2), of r'] eq by simp
  then have "g * gs + i = g' * gs + i'" using eq by simp
  then show ?thesis using r div_mod_at[OF i(1), of g] div_mod_at[OF i(2), of g'] by simp
qed

lemma bit_3: "bit (3 :: byte) n \<longleftrightarrow> n < 2"
proof -
  have "(3 :: byte) = mask 2" by (simp add: mask_eq_exp_minus_1)
  moreover have "bit (mask 2 :: byte) n \<longleftrightarrow> n < 8 \<and> n < 2" by (simp only: bit_mask_iff possible_bit_word) simp
  ultimately show ?thesis by (simp only:) auto
qed

lemma bit_two: "x AND 3 = (x :: byte) \<Longrightarrow> bit x n \<Longrightarrow> n < 2"
  by (metis bit_and_iff bit_3)

lemma pack2_tile_code:
  assumes shape: "tile_shape tc gs"
    and put: "\<And>r g t. r < tr \<Longrightarrow> g < groups_of tc gs \<Longrightarrow> put r g t = override_on t w (S r g)"
    and below: "\<And>r g. r < tr \<Longrightarrow> g < groups_of tc gs \<Longrightarrow> S r g \<subseteq> {..<sb}"
    and two: "\<And>r g i. code r g i AND 3 = code r g i"
    and at: "r < tr" "c < tc"
  shows "drop_bit (2 * (c mod 4)) (pack2_tile tr tc gs sb put code (sb + (r * tc + c) div 4)) AND 3 = code r (c div gs) (c mod gs)"
proof (rule bit_eqI)
  fix n assume "possible_bit TYPE(8 word) n"
  let ?pos = "r * tc + c" and ?p = "\<lambda>r g i. r * tc + (g * gs + i)"
  have grp: "groups_of tc gs = tc div gs" using group_of(1)[OF shape at(2)] by (simp add: groups_of_def)
  note go = group_of[OF shape at(2)]
  have "4 dvd r * tc" using shape by (auto simp: tile_shape_def intro: dvd_trans)
  then have m4: "?pos mod 4 = c mod 4" by (auto elim: dvdE)
  have st: "pack2_tile tr tc gs sb put code =
      stores sb w (\<Union>r \<in> set [0..<tr]. \<Union>g \<in> set [0..<groups_of tc gs]. S r g)
        (\<lambda>x. or_all [0..<tr] (\<lambda>r. or_all [0..<groups_of tc gs] (\<lambda>g. or_all [0..<gs] (\<lambda>i. code_bits sb tc gs code r g i x)))) (\<lambda>_. 0)"
    by (rule pack2_tile_stores) (simp_all add: put below)
  have b: "bit (pack2_tile tr tc gs sb put code (sb + ?pos div 4)) m \<longleftrightarrow>
      (\<exists>r' < tr. \<exists>g' < tc div gs. \<exists>i' < gs. ?p r' g' i' div 4 = ?pos div 4 \<and>
        bit (push_bit (2 * (?p r' g' i' mod 4)) (code r' g' i')) m)" for m
    unfolding st grp by (simp add: stores_def bit_or_all bit_code_bits Bex_def)
  let ?n = "2 * (c mod 4) + n"
  have "bit (pack2_tile tr tc gs sb put code (sb + ?pos div 4)) ?n \<and> n < 2 \<longleftrightarrow> bit (code r (c div gs) (c mod gs)) n"
  proof
    assume "bit (code r (c div gs) (c mod gs)) n"
    moreover from bit_two[OF two this] have "n < 2" .
    moreover have "c mod 4 \<le> 3" by simp
    ultimately show "bit (pack2_tile tr tc gs sb put code (sb + ?pos div 4)) ?n \<and> n < 2"
      unfolding b using at go m4
      by (intro conjI exI[of _ r] exI[of _ "c div gs"] exI[of _ "c mod gs"]) (auto simp: bit_push_bit_iff)
  next
    assume "bit (pack2_tile tr tc gs sb put code (sb + ?pos div 4)) ?n \<and> n < 2"
    then obtain r' g' i' where x: "g' < tc div gs" "i' < gs" "?p r' g' i' div 4 = ?pos div 4"
      "bit (push_bit (2 * (?p r' g' i' mod 4)) (code r' g' i')) ?n" and n: "n < 2" unfolding b by blast
    then have y: "2 * (?p r' g' i' mod 4) \<le> ?n" "bit (code r' g' i') (?n - 2 * (?p r' g' i' mod 4))"
      by (simp_all add: bit_push_bit_iff)
    then have m: "?p r' g' i' mod 4 = ?pos mod 4" using bit_two[OF two y(2)] n m4 by linarith
    then have "?p r' g' i' = ?pos" using x(3) by (metis div_mult_mod_eq)
    then have "r' * tc + (g' * gs + i') = r * tc + (c div gs * gs + c mod gs)" using go(2) by simp
    then have "r' = r \<and> g' = c div gs \<and> i' = c mod gs" by (rule position_unique[OF shape x(1) go(1) x(2) go(3)])
    then show "bit (code r (c div gs) (c mod gs)) n" using y(2) m m4 by simp
  qed
  then show "bit (drop_bit (2 * (c mod 4)) (pack2_tile tr tc gs sb put code (sb + ?pos div 4)) AND 3) n =
      bit (code r (c div gs) (c mod gs)) n"
    by (simp only: bit_and_iff bit_drop_bit_eq bit_3 comp_apply)
qed

lemma pack2_tile_below:
  assumes put: "\<And>r g t. r < tr \<Longrightarrow> g < groups_of tc gs \<Longrightarrow> put r g t = override_on t w (S r g)"
    and below: "\<And>r g. r < tr \<Longrightarrow> g < groups_of tc gs \<Longrightarrow> S r g \<subseteq> {..<sb}"
    and at: "r < tr" "g < groups_of tc gs" "k \<in> S r g \<or> w k = 0" "k < sb"
  shows "pack2_tile tr tc gs sb put code k = w k"
proof -
  have "pack2_tile tr tc gs sb put code =
      stores sb w (\<Union>r \<in> set [0..<tr]. \<Union>g \<in> set [0..<groups_of tc gs]. S r g)
        (\<lambda>x. or_all [0..<tr] (\<lambda>r. or_all [0..<groups_of tc gs] (\<lambda>g. or_all [0..<gs] (\<lambda>i. code_bits sb tc gs code r g i x)))) (\<lambda>_. 0)"
    by (rule pack2_tile_stores) (simp_all add: put below)
  then show ?thesis using at by (auto simp: stores_def override_on_def)
qed

section \<open>Scales of 16 bits\<close>

definition halves :: "(nat \<Rightarrow> u16) \<Rightarrow> byte buf" where
  "halves f = (\<lambda>x. if even x then ucast (f (x div 2)) else ucast (drop_bit 8 (f (x div 2))))"

lemma put16_override: "f j = v \<Longrightarrow> put16 (2 * j) v t = override_on t (halves f) {2 * j, Suc (2 * j)}"
  by (auto simp: put16_def halves_def override_on_def fun_eq_iff)

lemma halves_join: "ucast (ucast v :: byte) OR push_bit 8 (ucast (ucast (drop_bit 8 v) :: byte)) = (v :: u16)"
  by (rule bit_word_eqI) (auto simp: bit_simps)

lemma rd16_halves:
  "p (2 * j) = halves f (2 * j) \<Longrightarrow> p (Suc (2 * j)) = halves f (Suc (2 * j)) \<Longrightarrow> rd16 (adv p (2 * j)) = f j"
  by (simp add: rd16_def halves_def halves_join)

lemma slot_at: "g < n \<Longrightarrow> (r * n + g) div n = r \<and> (r * n + g) mod n = (g :: nat)"
  by (rule div_mod_at)

lemma quarter_bound:
  assumes "tile_shape tc gs" "r < tr" "c < tc"
  shows "(r * tc + c) div 4 < tr * tc div 4"
proof -
  have "4 dvd tr * tc" using assms(1) by (auto simp: tile_shape_def intro: dvd_trans)
  then show ?thesis using slot_bounds[OF assms(2,3)] by (auto elim!: dvdE)
qed

lemma group_start:
  assumes "tile_shape tc gs"
  shows "(b * tc + c) div gs * gs = b * tc + c div gs * gs"
proof -
  obtain k where k: "tc = gs * k" "0 < gs" using assms by (auto simp: tile_shape_def elim!: dvdE)
  have "b * tc + c = c + gs * (b * k)" unfolding k(1) by simp
  moreover have "(c + gs * (b * k)) div gs = b * k + c div gs" using k(2) by simp
  ultimately have "(b * tc + c) div gs = b * k + c div gs" by (simp only:)
  then show ?thesis using k(1) by (simp add: algebra_simps)
qed

section \<open>TQ2\<close>

definition tq2_weight :: "'f qops \<Rightarrow> 'f buf \<Rightarrow> nat \<Rightarrow> nat \<Rightarrow> nat \<Rightarrow> nat \<Rightarrow> nat \<Rightarrow> 'f" where
  "tq2_weight qo fw R C gs r c =
     (let s = tq2_scale qo (group_max qo fw R C r (c div gs * gs) gs)
      in tq2_code (q_fops qo) False (tq2_encode qo s (Some (fw (r * C + c)))) (bf16_to_fp32 (q_fops qo) (f32b qo s)))"

lemma tq2_encode_two: "tq2_encode qo s v AND 3 = tq2_encode qo s v"
proof -
  have "(of_int (max (-1) (min 1 k) + 1) :: byte) \<in> {0, 1, 2}" for k :: int
  proof -
    define m where "m = max (-1) (min 1 k) + 1"
    have "m = 0 \<or> m = 1 \<or> m = 2" by (simp add: m_def) arith
    then have "(of_int m :: byte) \<in> {0, 1, 2}" by auto
    then show ?thesis by (simp only: m_def)
  qed
  then have "tq2_encode qo s v \<in> {0, 1, 2}"
    unfolding tq2_encode_def Let_def by (auto split: option.split simp del: of_int_add)
  then show ?thesis by auto
qed

lemma tile_tq2_readback:
  assumes shape: "tile_shape tc gs" and at: "r < tr" "c < tc" and inside: "a * tr + r < R" "b * tc + c < C"
    and ptr: "\<And>i. i < length (tile_tq2 qo fw R C (a * tr) (b * tc) tr tc gs) \<Longrightarrow> p i = tile_tq2 qo fw R C (a * tr) (b * tc) tr tc gs ! i"
  shows "tq2_value (q_fops qo) tr tc gs False False p r c = tq2_weight qo fw R C gs (a * tr + r) (b * tc + c)"
proof -
  note go = group_of[OF shape at(2)]
  define grps where "grps = tc div gs"
  have grp: "groups_of tc gs = grps" using go(1) by (simp add: groups_of_def grps_def)
  define s where "s = (\<lambda>rr g. tq2_scale qo (group_max qo fw R C (a * tr + rr) (b * tc + g * gs) gs))"
  define code where "code = (\<lambda>rr g i. tq2_encode qo (s rr g) (elem_at fw R C (a * tr + rr) (b * tc + g * gs + i)))"
  define put where "put = (\<lambda>rr g. put16 (2 * (rr * grps + g)) (f32b qo (s rr g)))"
  define f where "f = (\<lambda>j. f32b qo (s (j div grps) (j mod grps)))"
  let ?S = "\<lambda>rr g. {2 * (rr * grps + g), Suc (2 * (rr * grps + g))}" and ?sb = "tr * grps * 2"
  let ?buf = "pack2_tile tr tc gs ?sb put code"
  have tile: "tile_tq2 qo fw R C (a * tr) (b * tc) tr tc gs = map ?buf [0..<?sb + tr * tc div 4]"
    by (simp add: tile_tq2_def Let_def grp s_def put_def code_def)
  have put: "put rr g t = override_on t (halves f) (?S rr g)" if "rr < tr" "g < groups_of tc gs" for rr g t
    unfolding put_def by (rule put16_override) (use that slot_at[of g grps rr] in \<open>simp add: f_def grp\<close>)
  have below: "?S rr g \<subseteq> {..<?sb}" if "rr < tr" "g < groups_of tc gs" for rr g
    using slot_bounds[OF that(1), of g grps] that(2) by (simp add: grp)
  let ?k = "r * grps + c div gs"
  have k: "?k < tr * grps" using slot_bounds[OF at(1), of "c div gs" grps] go(1) by (simp add: grps_def)
  have "rd16 (adv p (2 * ?k)) = f ?k"
  proof (rule rd16_halves)
    have "?buf x = halves f x" if "x \<in> ?S r (c div gs)" for x
      by (rule pack2_tile_below[where S = ?S and r = r and g = "c div gs"])
        (use put below that at(1) go(1) k in \<open>auto simp: grp grps_def\<close>)
    then show "p (2 * ?k) = halves f (2 * ?k)" "p (Suc (2 * ?k)) = halves f (Suc (2 * ?k))"
      using ptr k by (simp_all add: tile)
  qed
  then have scale: "rd16 (adv p (2 * ?k)) = f32b qo (s r (c div gs))"
    using slot_at[of "c div gs" grps r] go(1) by (simp add: f_def grps_def)
  have q: "(r * tc + c) div 4 < tr * tc div 4" by (rule quarter_bound[OF shape at])
  have "drop_bit (2 * (c mod 4)) (?buf (?sb + (r * tc + c) div 4)) AND 3 = code r (c div gs) (c mod gs)"
    by (rule pack2_tile_code[OF shape put below _ at]) (simp_all add: code_def tq2_encode_two)
  moreover have "p (?sb + (r * tc + c) div 4) = ?buf (?sb + (r * tc + c) div 4)" using ptr q by (simp add: tile)
  moreover have "code r (c div gs) (c mod gs) = tq2_encode qo (s r (c div gs)) (Some (fw ((a * tr + r) * C + (b * tc + c))))"
    using inside go(2) by (simp add: code_def elem_at_def add.assoc)
  ultimately show ?thesis
    using scale unfolding tq2_value_def Let_def tq2_weight_def group_start[OF shape] by (simp add: s_def grps_def)
qed

section \<open>TQ2NZ\<close>

definition nz_stored :: "'f qops \<Rightarrow> bool \<Rightarrow> 'f nz_scale \<Rightarrow> 'f" where
  "nz_stored qo e4m3 sc =
     (case sc of NzZero \<Rightarrow> if e4m3 then q_rat qo (onebp_ue4m3 0) else bf16_to_fp32 (q_fops qo) 0
      | NzBf16 s \<Rightarrow> bf16_to_fp32 (q_fops qo) (f32b qo s) | NzByte b \<Rightarrow> q_rat qo (onebp_ue4m3 b))"

definition nz_weight :: "'f qops \<Rightarrow> 'f buf option \<Rightarrow> bool \<Rightarrow> 'f buf \<Rightarrow> nat \<Rightarrow> nat \<Rightarrow> nat \<Rightarrow> nat \<Rightarrow> nat \<Rightarrow> 'f" where
  "nz_weight qo imw e4m3 fw R C gs r c =
     (let acs = c div gs * gs; sc = nz_scale_of qo imw e4m3 fw R C r acs gs;
          s = q_mul qo (group_max qo fw R C r acs gs) (q_rat qo (1 / 4))
      in tq2_code (q_fops qo) True (nz_encode qo s sc (Some (fw (r * C + c)))) (nz_stored qo e4m3 sc))"

lemma nz_scale_kinds:
  "nz_scale_of qo imw False fw R C ar acs gs \<noteq> NzByte b" "nz_scale_of qo imw True fw R C ar acs gs \<noteq> NzBf16 s"
  by (simp_all add: nz_scale_of_def Let_def)

lemma nz_encode_two: "nz_encode qo s sc v AND 3 = nz_encode qo s sc v"
  by (simp add: nz_encode_def nz_round_def Let_def split: option.split nz_scale.split)

lemma tile_nz_readback:
  assumes shape: "tile_shape tc gs" and at: "r < tr" "c < tc" and inside: "a * tr + r < R" "b * tc + c < C"
    and ptr: "\<And>i. i < length (tile_nz qo imw e4 fw R C (a * tr) (b * tc) tr tc gs) \<Longrightarrow>
      p i = tile_nz qo imw e4 fw R C (a * tr) (b * tc) tr tc gs ! i"
  shows "tq2_value (q_fops qo) tr tc gs True e4 p r c = nz_weight qo imw e4 fw R C gs (a * tr + r) (b * tc + c)"
proof -
  note go = group_of[OF shape at(2)]
  define grps where "grps = tc div gs"
  have grp: "groups_of tc gs = grps" using go(1) by (simp add: groups_of_def grps_def)
  have g: "c div gs < grps" using go(1) by (simp add: grps_def)
  define sc where "sc = (\<lambda>rr g. nz_scale_of qo imw e4 fw R C (a * tr + rr) (b * tc + g * gs) gs)"
  define s where "s = (\<lambda>rr g. q_mul qo (group_max qo fw R C (a * tr + rr) (b * tc + g * gs) gs) (q_rat qo (1 / 4)))"
  define code where "code = (\<lambda>rr g i. nz_encode qo (s rr g) (sc rr g) (elem_at fw R C (a * tr + rr) (b * tc + g * gs + i)))"
  define put where "put = (\<lambda>rr g t. case sc rr g of NzZero \<Rightarrow> t | NzBf16 s \<Rightarrow> put16 (2 * (rr * grps + g)) (f32b qo s) t
    | NzByte b \<Rightarrow> t(rr * grps + g := b))"
  define f where "f = (\<lambda>j. case sc (j div grps) (j mod grps) of NzBf16 s \<Rightarrow> f32b qo s | _ \<Rightarrow> 0)"
  define e where "e = (\<lambda>j. case sc (j div grps) (j mod grps) of NzByte b \<Rightarrow> b | _ \<Rightarrow> 0)"
  define w where "w = (if e4 then e else halves f)"
  define S where "S = (\<lambda>rr g. case sc rr g of NzZero \<Rightarrow> {} | NzBf16 _ \<Rightarrow> {2 * (rr * grps + g), Suc (2 * (rr * grps + g))} | NzByte _ \<Rightarrow> {rr * grps + g})"
  let ?sb = "tr * grps * (if e4 then 1 else 2)" and ?k = "r * grps + c div gs"
  let ?buf = "pack2_tile tr tc gs ?sb put code"
  have tile: "tile_nz qo imw e4 fw R C (a * tr) (b * tc) tr tc gs = map ?buf [0..<?sb + tr * tc div 4]"
    by (simp add: tile_nz_def Let_def grp sc_def s_def put_def code_def)
  have kinds: "e4 \<Longrightarrow> sc rr g \<noteq> NzBf16 x" "\<not> e4 \<Longrightarrow> sc rr g \<noteq> NzByte y" for rr g x y
    unfolding sc_def by (cases e4; simp add: nz_scale_kinds)+
  have put: "put rr g t = override_on t w (S rr g)" if "rr < tr" "g < groups_of tc gs" for rr g t
  proof -
    have j: "(rr * grps + g) div grps = rr" "(rr * grps + g) mod grps = g" using slot_at[of g grps rr] that(2) by (simp_all add: grp)
    show ?thesis
    proof (cases "sc rr g")
      case NzZero
      then show ?thesis by (simp add: put_def S_def)
    next
      case (NzBf16 x)
      then have "f (rr * grps + g) = f32b qo x" by (simp only: f_def j nz_scale.case)
      then have "put16 (2 * (rr * grps + g)) (f32b qo x) t = override_on t (halves f) (S rr g)"
        unfolding S_def NzBf16 nz_scale.case by (rule put16_override)
      then show ?thesis using NzBf16 kinds(1)[of rr g x] by (auto simp: put_def w_def)
    next
      case (NzByte x)
      then have "e (rr * grps + g) = x" by (simp only: e_def j nz_scale.case)
      then have "t(rr * grps + g := x) = override_on t e (S rr g)"
        unfolding S_def NzByte nz_scale.case by (rule upd_override_on)
      then show ?thesis using NzByte kinds(2)[of rr g x] by (auto simp: put_def w_def)
    qed
  qed
  have below: "S rr g \<subseteq> {..<?sb}" if "rr < tr" "g < groups_of tc gs" for rr g
    using slot_bounds[OF that(1), of g grps] that(2) kinds[of rr g] by (cases "sc rr g") (auto simp: grp S_def)
  have k: "?k < tr * grps" using slot_bounds[OF at(1) g] .
  have j: "?k div grps = r" "?k mod grps = c div gs" using slot_at[OF g, of r] by simp_all
  have low: "p x = w x" if "x < ?sb" "x \<in> S r (c div gs) \<or> w x = 0" for x
  proof -
    have "?buf x = w x" by (rule pack2_tile_below[where S = S and r = r and g = "c div gs"]) (use put below that at(1) g in \<open>auto simp: grp\<close>)
    then show ?thesis using ptr that(1) by (simp add: tile)
  qed
  have at_k: "e ?k = (case sc r (c div gs) of NzByte b \<Rightarrow> b | _ \<Rightarrow> 0)" "f ?k = (case sc r (c div gs) of NzBf16 s \<Rightarrow> f32b qo s | _ \<Rightarrow> 0)"
    by (simp_all only: e_def f_def j)
  have scale: "(if e4 then q_rat qo (onebp_ue4m3 (p ?k)) else bf16_to_fp32 (q_fops qo) (rd16 (adv p (2 * ?k)))) = nz_stored qo e4 (sc r (c div gs))"
  proof (cases e4)
    case True
    have "w ?k = e ?k" using True by (simp add: w_def)
    then have "p ?k = e ?k" using low[of ?k] k True kinds(1)[of r "c div gs"] at_k(1) by (cases "sc r (c div gs)") (simp_all add: S_def)
    then show ?thesis using True kinds(1)[of r "c div gs"] at_k(1) by (cases "sc r (c div gs)") (auto simp: nz_stored_def)
  next
    case False
    have h: "w x = halves f x" for x using False by (simp add: w_def)
    have z: "sc r (c div gs) = NzZero \<Longrightarrow> halves f x = 0" if "x div 2 = ?k" for x using that at_k(2) by (simp add: halves_def)
    have "p x = halves f x" if "x = 2 * ?k \<or> x = Suc (2 * ?k)" for x
    proof -
      have "x < ?sb" "x div 2 = ?k" using that k False by auto
      moreover have "x \<in> S r (c div gs) \<or> halves f x = 0"
        using z[OF \<open>x div 2 = ?k\<close>] that kinds(2)[OF False, of r "c div gs"] by (cases "sc r (c div gs)") (auto simp: S_def)
      ultimately show ?thesis using low[of x] by (simp add: h)
    qed
    then have "rd16 (adv p (2 * ?k)) = f ?k" by (intro rd16_halves) simp_all
    then show ?thesis using False kinds(2)[OF False, of r "c div gs"] at_k(2) by (cases "sc r (c div gs)") (auto simp: nz_stored_def)
  qed
  have "drop_bit (2 * (c mod 4)) (?buf (?sb + (r * tc + c) div 4)) AND 3 = code r (c div gs) (c mod gs)"
    by (rule pack2_tile_code[where S = S]) (use shape put below at in \<open>simp_all add: code_def nz_encode_two\<close>)
  moreover have "p (?sb + (r * tc + c) div 4) = ?buf (?sb + (r * tc + c) div 4)"
    using ptr quarter_bound[OF shape at] by (simp add: tile)
  moreover have "code r (c div gs) (c mod gs) =
      nz_encode qo (s r (c div gs)) (sc r (c div gs)) (Some (fw ((a * tr + r) * C + (b * tc + c))))"
    using inside go(2) by (simp add: code_def elem_at_def add.assoc)
  ultimately show ?thesis
    using scale unfolding tq2_value_def Let_def nz_weight_def group_start[OF shape] grps_def[symmetric] by (simp add: s_def sc_def)
qed

end
