(* ===== verification/OnebpByteTiles.thy ===== *)
theory OnebpByteTiles
  imports OnebpReadback
begin

text \<open>The decoder on the tiles of Q4NX, ROCmFP4 and half precision, which the converter fills byte by byte.\<close>

unbundle bit_operations_syntax

section \<open>Q4NX\<close>

definition q4nx_weight :: "'f qops \<Rightarrow> 'f buf \<Rightarrow> nat \<Rightarrow> nat \<Rightarrow> nat \<Rightarrow> nat \<Rightarrow> nat \<Rightarrow> 'f" where
  "q4nx_weight qo fw R C gs r c =
     (let (s, mn) = q4_scale_min qo fw R C r (c div gs * gs) gs; fo = q_fops qo
      in f_add fo (f_mul fo (f_int fo (uint (q4_encode qo s mn (Some (fw (r * C + c)))))) (q4nx_scale fo (f32b qo s)))
           (bf16_to_fp32 fo (f32b qo mn)))"

lemma nibbles_join:
  assumes "v0 < 16" "v1 < (16 :: byte)"
  shows "(push_bit 4 v1 OR v0) AND 0xF = v0" "drop_bit 4 (push_bit 4 v1 OR v0) = v1"
proof -
  have high: "\<not> bit v n" if "v < 16" "4 \<le> n" for v :: byte and n
  proof -
    have "v AND mask 4 = v" by (rule less_mask_eq) (use that(1) in simp)
    then have "bit v n \<longleftrightarrow> bit (take_bit 4 v) n" by (simp only: take_bit_eq_mask)
    then show ?thesis using that(2) by (simp add: bit_take_bit_iff)
  qed
  have f: "(0xF :: byte) = mask 4" by (simp add: mask_eq_exp_minus_1)
  show "(push_bit 4 v1 OR v0) AND 0xF = v0"
    unfolding f by (rule bit_word_eqI) (use high[OF assms(1)] in \<open>auto simp: bit_simps simp del: mask_numeral simp flip: not_le\<close>)
  show "drop_bit 4 (push_bit 4 v1 OR v0) = v1"
    by (rule bit_word_eqI) (use high[OF assms(1)] high[OF assms(2)] in \<open>auto simp: bit_simps simp flip: not_le\<close>)
qed

lemma q4_encode_nibble: "q4_encode qo s mn v < 16"
proof -
  have "(of_int (max 0 (min 15 k)) :: byte) < 16" for k :: int
    by (simp add: word_less_def uint_word_of_int)
  then show ?thesis by (simp add: q4_encode_def Let_def split: option.split)
qed

lemma override_cong: "(\<And>x. x \<in> A \<Longrightarrow> w x = w' x) \<Longrightarrow> override_on t w A = override_on t w' A"
  by (auto simp: override_on_def fun_eq_iff)

lemma half_bound:
  assumes "tile_shape tc gs" "r < tr" "c < tc"
  shows "(r * tc + c) div 2 < tr * tc div 2"
proof -
  have "2 dvd tr * tc" using assms(1) by (auto simp: tile_shape_def elim!: dvdE)
  then show ?thesis using slot_bounds[OF assms(2,3)] by (auto elim!: dvdE)
qed

lemma tile_q4nx_readback:
  assumes shape: "tile_shape tc gs" and at: "r < tr" "c < tc" and inside: "a * tr + r < R" "b * tc + c < C"
    and ptr: "\<And>i. i < length (tile_q4nx qo fw R C (a * tr) (b * tc) tr tc gs) \<Longrightarrow> p i = tile_q4nx qo fw R C (a * tr) (b * tc) tr tc gs ! i"
  shows "q4nx_value (q_fops qo) tr tc gs p r c = q4nx_weight qo fw R C gs (a * tr + r) (b * tc + c)"
proof -
  note go = group_of[OF shape at(2)]
  define grps where "grps = tc div gs"
  define N where "N = tr * grps"
  have grp: "groups_of tc gs = grps" using go(1) by (simp add: groups_of_def grps_def)
  have g: "c div gs < grps" using go(1) by (simp add: grps_def)
  have ev: "even gs" "even tc" using shape by (auto simp: tile_shape_def elim!: dvdE)
  define s where "s = (\<lambda>rr g. fst (q4_scale_min qo fw R C (a * tr + rr) (b * tc + g * gs) gs))"
  define mn where "mn = (\<lambda>rr g. snd (q4_scale_min qo fw R C (a * tr + rr) (b * tc + g * gs) gs))"
  define code where "code = (\<lambda>rr c. q4_encode qo (s rr (c div gs)) (mn rr (c div gs)) (elem_at fw R C (a * tr + rr) (b * tc + c)))"
  define f where "f = (\<lambda>j. if j < N then f32b qo (s (j div grps) (j mod grps)) else f32b qo (mn ((j - N) div grps) ((j - N) mod grps)))"
  define pair where "pair = (\<lambda>y. push_bit 4 (code (2 * y div tc) (2 * y mod tc + 1)) OR code (2 * y div tc) (2 * y mod tc))"
  define w where "w = (\<lambda>x. if x < 4 * N then halves f x else pair (x - 4 * N))"
  define S where "S = (\<lambda>rr g. {2 * (rr * grps + g), Suc (2 * (rr * grps + g)), 2 * (N + (rr * grps + g)), Suc (2 * (N + (rr * grps + g)))} \<union>
    (\<lambda>i. 4 * N + (rr * tc + (g * gs + i)) div 2) ` set (evens gs))"
  define body where "body = (\<lambda>rr g t. let acs = b * tc + g * gs; (s, mn) = q4_scale_min qo fw R C (a * tr + rr) acs gs;
      t = put16 (2 * (rr * grps + g)) (f32b qo s) t; t = put16 (2 * N + 2 * (rr * grps + g)) (f32b qo mn) t
    in for_loop (evens gs) (\<lambda>i t.
         let v0 = q4_encode qo s mn (elem_at fw R C (a * tr + rr) (acs + i)); v1 = q4_encode qo s mn (elem_at fw R C (a * tr + rr) (acs + i + 1))
         in t(2 * N + 2 * N + (rr * tc + (g * gs + i)) div 2 := push_bit 4 v1 OR v0)) t)"
  have N2: "tr * grps * 2 = 2 * N" by (simp add: N_def)
  let ?buf = "for_loop [0..<tr] (\<lambda>rr t. for_loop [0..<grps] (body rr) t) (\<lambda>_. 0)"
  have tile: "tile_q4nx qo fw R C (a * tr) (b * tc) tr tc gs = map ?buf [0..<4 * N + tr * tc div 2]"
    unfolding tile_q4nx_def Let_def grp N2 body_def by simp
  have step: "body rr g t = override_on t w (S rr g)" if rg: "rr < tr" "g < grps" for rr g t
  proof -
    let ?j = "rr * grps + g"
    have j: "?j < N" "?j div grps = rr" "?j mod grps = g" using slot_bounds[OF rg] slot_at[OF rg(2), of rr] by (simp_all add: N_def)
    have fj: "f ?j = f32b qo (s rr g)" "f (N + ?j) = f32b qo (mn rr g)"
      unfolding f_def using j by (simp_all only: if_True if_False add_diff_cancel_left' not_add_less1)
    have lo: "put16 (2 * (N + ?j)) (f32b qo (mn rr g)) (put16 (2 * ?j) (f32b qo (s rr g)) t) =
        override_on t (halves f) ({2 * ?j, Suc (2 * ?j)} \<union> {2 * (N + ?j), Suc (2 * (N + ?j))})"
      unfolding put16_override[of f ?j, OF fj(1)] put16_override[of f "N + ?j", OF fj(2)] override_on_twice ..
    have hw: "halves f x = w x" if "x \<in> {2 * ?j, Suc (2 * ?j)} \<union> {2 * (N + ?j), Suc (2 * (N + ?j))}" for x
      using that j(1) by (auto simp: w_def)
    have lo_w: "override_on t (halves f) ({2 * ?j, Suc (2 * ?j)} \<union> {2 * (N + ?j), Suc (2 * (N + ?j))}) =
        override_on t w ({2 * ?j, Suc (2 * ?j)} \<union> {2 * (N + ?j), Suc (2 * (N + ?j))})"
      by (rule override_cong) (rule hw)
    let ?codes = "\<lambda>i t. t(2 * N + 2 * N + (rr * tc + (g * gs + i)) div 2 :=
        push_bit 4 (q4_encode qo (s rr g) (mn rr g) (elem_at fw R C (a * tr + rr) (b * tc + g * gs + i + 1))) OR
        q4_encode qo (s rr g) (mn rr g) (elem_at fw R C (a * tr + rr) (b * tc + g * gs + i)))"
    have codes: "for_loop (evens gs) ?codes u = override_on u w (\<Union>i \<in> set (evens gs). {4 * N + (rr * tc + (g * gs + i)) div 2})" for u
    proof (rule for_loop_override)
      fix i u assume "i \<in> set (evens gs)"
      then have i: "i < gs" "even i" using set_evens[OF ev(1)] by simp_all
      have si: "i + 1 < gs" using evens_room[OF ev(1) i(2,1)] by simp
      have e: "2 * ((rr * tc + (g * gs + i)) div 2) = rr * tc + (g * gs + i)" using i(2) ev by simp
      have lt: "g * gs + i < tc" using tile_shapeD[OF shape, of g i] rg(2) i(1) by (simp add: grps_def)
      have gi: "(g * gs + i) div gs = g" "(g * gs + i + 1) div gs = g"
        using div_mod_at[OF i(1), of g] div_mod_at[OF si, of g] by (simp_all add: add.assoc)
      have "w (4 * N + (rr * tc + (g * gs + i)) div 2) = pair ((rr * tc + (g * gs + i)) div 2)" by (simp add: w_def)
      also have "\<dots> = push_bit 4 (code rr (g * gs + i + 1)) OR code rr (g * gs + i)"
        unfolding pair_def e using div_mod_at[OF lt, of rr] by (simp only:)
      also have "\<dots> = push_bit 4 (q4_encode qo (s rr g) (mn rr g) (elem_at fw R C (a * tr + rr) (b * tc + g * gs + i + 1))) OR
        q4_encode qo (s rr g) (mn rr g) (elem_at fw R C (a * tr + rr) (b * tc + g * gs + i))"
        unfolding code_def gi by (simp only: add.assoc)
      finally show "?codes i u = override_on u w {4 * N + (rr * tc + (g * gs + i)) div 2}"
        by (subst upd_override_on[where w = w]) (simp_all add: mult.commute)
    qed
    have "body rr g t = for_loop (evens gs) ?codes (put16 (2 * (N + ?j)) (f32b qo (mn rr g)) (put16 (2 * ?j) (f32b qo (s rr g)) t))"
      unfolding body_def Let_def s_def mn_def by (simp only: case_prod_beta distrib_left)
    then show ?thesis unfolding codes lo lo_w override_on_twice S_def by (simp only: UNION_singleton_eq_range Un_insert_left Un_empty_left)
  qed
  have val: "p x = w x" if "x \<in> S r (c div gs)" "x < 4 * N + tr * tc div 2" for x
  proof -
    have "?buf = override_on (\<lambda>_. 0) w (\<Union>rr < tr. \<Union>g < grps. S rr g)"
      by (rule two_level_override[of tr "\<lambda>_. grps"]) (rule step)
    from override_at[OF this that(1) at(1) g] have "?buf x = w x" .
    then show ?thesis using ptr that(2) by (simp add: tile)
  qed
  let ?k = "r * grps + c div gs"
  have k: "?k < N" "?k div grps = r" "?k mod grps = c div gs"
    using slot_bounds[OF at(1) g] slot_at[OF g, of r] by (simp_all add: N_def)
  have "p x = halves f x" if "x \<in> {2 * ?k, Suc (2 * ?k), 2 * (N + ?k), Suc (2 * (N + ?k))}" for x
  proof -
    have "x \<in> S r (c div gs)" unfolding S_def using that by blast
    moreover have lt: "x < 4 * N" using that k(1) by auto
    ultimately have "p x = w x" by (intro val) simp_all
    then show ?thesis using lt by (simp add: w_def)
  qed
  then have rd: "rd16 (adv p (2 * ?k)) = f ?k" "rd16 (adv p (2 * (N + ?k))) = f (N + ?k)"
    by (rule rd16_halves; blast)+
  have f: "f ?k = f32b qo (s r (c div gs))" "f (N + ?k) = f32b qo (mn r (c div gs))"
    unfolding f_def using k by (simp_all only: if_True if_False add_diff_cancel_left' not_add_less1)
  let ?y = "(r * tc + c) div 2"
  have y: "2 * ?y = r * tc + 2 * (c div 2)" using ev(2) by (auto elim!: evenE simp: div_add1_eq)
  have c2: "2 * (c div 2) < tc" using at(2) by simp
  have mem: "4 * N + ?y \<in> S r (c div gs)"
  proof -
    let ?i = "2 * (c mod gs div 2)"
    have "?i < gs" using go(3) by simp
    then have "?i \<in> set (evens gs)" using set_evens[OF ev(1)] by simp
    moreover have "(r * tc + (c div gs * gs + ?i)) div 2 = ?y"
    proof -
      obtain m n where mn: "c div gs * gs = 2 * m" "r * tc = 2 * n" using ev by (metis dvd_def dvd_mult)
      define x where "x = c mod gs"
      have "c = 2 * m + x" using go(2) mn(1) by (simp add: x_def)
      then show ?thesis unfolding mn x_def[symmetric] by presburger
    qed
    ultimately have "4 * N + ?y \<in> (\<lambda>i. 4 * N + (r * tc + (c div gs * gs + i)) div 2) ` set (evens gs)"
      by (intro image_eqI[of _ _ ?i]) (simp_all only:)
    then show ?thesis unfolding S_def by (rule UnI2)
  qed
  have pk: "p (4 * N + ?y) = push_bit 4 (code r (2 * (c div 2) + 1)) OR code r (2 * (c div 2))"
    using val[OF mem] half_bound[OF shape at] div_mod_at[OF c2, of r] by (simp add: w_def pair_def y)
  have code_lt: "code rr x < 16" for rr x by (simp add: code_def q4_encode_nibble)
  have nib: "(if even c then p (4 * N + ?y) AND 0xF else drop_bit 4 (p (4 * N + ?y))) = code r c"
    unfolding pk nibbles_join[OF code_lt code_lt] by auto
  have code: "code r c = q4_encode qo (s r (c div gs)) (mn r (c div gs)) (Some (fw ((a * tr + r) * C + (b * tc + c))))"
    using inside by (simp add: code_def elem_at_def)
  have sizes: "tr * grps * 4 = 4 * N" "tr * grps * 2 + 2 * ?k = 2 * (N + ?k)" by (simp_all add: N_def)
  show ?thesis
    unfolding q4nx_value_def Let_def q4nx_weight_def group_start[OF shape] grps_def[symmetric] sizes nib rd f code s_def mn_def case_prod_beta ..
qed

section \<open>Half precision\<close>

definition half_weight :: "'f qops \<Rightarrow> 'f \<Rightarrow> 'f" where
  "half_weight qo v = f_half (q_fops qo) (read_f16 (halves (\<lambda>_. f32_to_f16 (q_bits qo v))))"

lemma read_f16_cong: "rd16 p = rd16 p' \<Longrightarrow> read_f16 p = read_f16 p'"
  by (simp add: read_f16_def)

lemma tile_half_readback:
  assumes at: "r < tr" "c < tc" and inside: "a * tr + r < R" "b * tc + c < C"
    and ptr: "\<And>i. i < length (tile_half qo fw R C (a * tr) (b * tc) tr tc) \<Longrightarrow> p i = tile_half qo fw R C (a * tr) (b * tc) tr tc ! i"
  shows "f16_at (q_fops qo) (adv p (2 * (r * tc + c))) = half_weight qo (fw ((a * tr + r) * C + (b * tc + c)))"
proof -
  define f where "f = (\<lambda>j. case elem_at fw R C (a * tr + j div tc) (b * tc + j mod tc) of Some v \<Rightarrow> f32_to_f16 (q_bits qo v) | None \<Rightarrow> 0)"
  define S where "S = (\<lambda>rr cc. if elem_at fw R C (a * tr + rr) (b * tc + cc) = None then {} else {2 * (rr * tc + cc), Suc (2 * (rr * tc + cc))})"
  let ?buf = "for_loop [0..<tr] (\<lambda>rr t. for_loop [0..<tc] (\<lambda>cc t. case elem_at fw R C (a * tr + rr) (b * tc + cc) of
    None \<Rightarrow> t | Some v \<Rightarrow> put16 (2 * (rr * tc + cc)) (f32_to_f16 (q_bits qo v)) t) t) (\<lambda>_. 0)"
  have tile: "tile_half qo fw R C (a * tr) (b * tc) tr tc = map ?buf [0..<tr * tc * 2]" by (simp add: tile_half_def)
  have "?buf = override_on (\<lambda>_. 0) (halves f) (\<Union>rr < tr. \<Union>cc < tc. S rr cc)"
  proof (rule two_level_override[of tr "\<lambda>_. tc"])
    fix rr cc t assume rc: "rr < tr" "cc < tc"
    note j = div_mod_at[OF rc(2), of rr]
    show "(case elem_at fw R C (a * tr + rr) (b * tc + cc) of
        None \<Rightarrow> t | Some v \<Rightarrow> put16 (2 * (rr * tc + cc)) (f32_to_f16 (q_bits qo v)) t) = override_on t (halves f) (S rr cc)"
    proof (cases "elem_at fw R C (a * tr + rr) (b * tc + cc)")
      case (Some v)
      then have "f (rr * tc + cc) = f32_to_f16 (q_bits qo v)" unfolding f_def using j by (simp only: option.case)
      note put = put16_override[of f, OF this]
      have S: "S rr cc = {2 * (rr * tc + cc), Suc (2 * (rr * tc + cc))}" unfolding S_def Some by (simp only: option.distinct if_False)
      show ?thesis unfolding Some option.case S by (rule put)
    qed (simp add: S_def)
  qed
  note buf = override_at[OF this]
  have some: "elem_at fw R C (a * tr + r) (b * tc + c) = Some (fw ((a * tr + r) * C + (b * tc + c)))" using inside by (simp add: elem_at_def)
  let ?j = "r * tc + c"
  have "p x = halves f x" if "x = 2 * ?j \<or> x = Suc (2 * ?j)" for x
  proof -
    have "x \<in> S r c" using that some by (auto simp: S_def)
    then have "?buf x = halves f x" by (rule buf[OF _ at])
    moreover have "x < tr * tc * 2" using that slot_bounds[OF at] by auto
    ultimately show ?thesis using ptr by (simp add: tile)
  qed
  then have "rd16 (adv p (2 * ?j)) = f ?j" by (intro rd16_halves) simp_all
  also have "\<dots> = f32_to_f16 (q_bits qo (fw ((a * tr + r) * C + (b * tc + c))))"
    unfolding f_def using div_mod_at[OF at(2), of r] some by (simp only: option.case)
  also have "\<dots> = rd16 (halves (\<lambda>_. f32_to_f16 (q_bits qo (fw ((a * tr + r) * C + (b * tc + c))))))"
    using rd16_halves[of "halves (\<lambda>_. f32_to_f16 (q_bits qo (fw ((a * tr + r) * C + (b * tc + c)))))" 0] by simp
  finally show ?thesis unfolding half_weight_def by (intro arg_cong[of _ _ "f_half _"] read_f16_cong)
qed

section \<open>ROCmFP4\<close>

definition rocm_weight :: "'f qops \<Rightarrow> 'f buf option \<Rightarrow> bool \<Rightarrow> 'f buf \<Rightarrow> nat \<Rightarrow> nat \<Rightarrow> nat \<Rightarrow> nat \<Rightarrow> 'f" where
  "rocm_weight qo imw fast fw R C r c =
     (let b = c div 32 * 32; hs = (if c mod 32 < 16 \<or> fast then b else b + 16);
          d = q_rat qo (onebp_ue4m3 (rocm_scale qo imw fw R C r hs))
      in f_mul (q_fops qo) (f_int (q_fops qo) (npu_cb10 (rocm_encode qo d (Some (fw (r * C + c)))))) d)"

lemma for_loop_cong: "(\<And>i s. i \<in> set ks \<Longrightarrow> f i s = g i s) \<Longrightarrow> for_loop ks f s = for_loop ks g s"
  by (induction ks arbitrary: s) (simp_all add: for_loop_Nil for_loop_Cons)

lemma for_loop_cells:
  "for_loop [0..<n] (\<lambda>i t. t(a + i := F i (t (a + i)))) t = (\<lambda>x. if a \<le> x \<and> x < a + n then F (x - a) (t x) else t x)"
proof (induction n)
  case (Suc n)
  then show ?case by (auto simp: for_loop_append for_loop_Cons for_loop_Nil fun_eq_iff)
qed (auto simp: for_loop_Nil fun_eq_iff)

lemma masked_nibbles:
  "((x AND 0xf0 OR v0 AND 0x0f) AND 0x0f OR push_bit 4 (v1 AND 0x0f)) = (push_bit 4 (v1 AND 0x0f) OR v0 AND 0x0f :: byte)"
proof -
  have f: "(0x0f :: byte) = mask 4" "(0xf0 :: byte) = NOT (mask 4)" by (simp_all add: mask_eq_exp_minus_1)
  show ?thesis unfolding f by (rule bit_word_eqI) (auto simp: bit_simps simp del: mask_numeral)
qed

text \<open>What a block writes, whatever was there.\<close>

definition rocm_bytes :: "'f qops \<Rightarrow> 'f buf option \<Rightarrow> bool \<Rightarrow> 'f buf \<Rightarrow> nat \<Rightarrow> nat \<Rightarrow> nat \<Rightarrow> nat \<Rightarrow> byte buf" where
  "rocm_bytes qo imw fast fw R C ar c0b =
     (let e = (\<lambda>half. rocm_scale qo imw fw R C ar (c0b + half * 16)); d0 = q_rat qo (onebp_ue4m3 (e 0));
          d1 = (if fast then d0 else q_rat qo (onebp_ue4m3 (e 1)))
      in (\<lambda>j. if j < 16 then push_bit 4 (rocm_encode qo d1 (elem_at fw R C ar (c0b + (16 + j))) AND 0x0f) OR
               rocm_encode qo d0 (elem_at fw R C ar (c0b + j)) AND 0x0f
             else e (j - 16)))"

lemma upt_halves: "[0..<32] = [0..<16] @ map (\<lambda>i. 16 + i) [0..<16]"
  by (simp add: upt_conv_Cons)

lemma rocm_block_override:
  "rocm_block qo imw fast fw R C ar c0b blk t = override_on t (\<lambda>x. rocm_bytes qo imw fast fw R C ar c0b (x - blk)) {blk..<blk + rocm_block_bytes fast}"
proof -
  define e where "e = (\<lambda>half. rocm_scale qo imw fw R C ar (c0b + half * 16))"
  have e: "rocm_scale qo imw fw R C ar (c0b + half * 16) = e half" for half by (simp add: e_def)
  define d0 where "d0 = q_rat qo (onebp_ue4m3 (e 0))"
  define d1 where "d1 = (if fast then d0 else q_rat qo (onebp_ue4m3 (e 1)))"
  define c0 where "c0 = (\<lambda>i. rocm_encode qo d0 (elem_at fw R C ar (c0b + i)))"
  define c1 where "c1 = (\<lambda>i. rocm_encode qo d1 (elem_at fw R C ar (c0b + (16 + i))))"
  define lo where "lo = (\<lambda>v x. x AND 0xf0 OR v AND (0x0f :: byte))"
  define hi where "hi = (\<lambda>v x. x AND 0x0f OR push_bit 4 (v AND (0x0f :: byte)))"
  define pair where "pair = (\<lambda>v1 v0. push_bit 4 (v1 AND 0x0f) OR v0 AND (0x0f :: byte))"
  have masked: "hi v1 (lo v0 x) = pair v1 v0" for v1 v0 x unfolding hi_def lo_def pair_def by (rule masked_nibbles)
  let ?t1 = "for_loop [0..<if fast then 1 else 2] (\<lambda>half t. t(blk + (16 + half) := e half)) t"
  have t1: "?t1 = (\<lambda>x. if blk + 16 \<le> x \<and> x < blk + rocm_block_bytes fast then e (x - (blk + 16)) else t x)"
    using for_loop_cells[of "if fast then 1 else 2" "blk + 16" "\<lambda>i _. e i" t] by (simp add: rocm_block_bytes_def add.assoc fun_eq_iff)
  have d: "q_rat qo (onebp_ue4m3 (?t1 (blk + 16))) = d0" "(if fast then d0 else q_rat qo (onebp_ue4m3 (?t1 (blk + 17)))) = d1"
    unfolding t1 by (simp_all add: rocm_block_bytes_def d0_def d1_def)
  let ?body = "\<lambda>i t. let code = rocm_encode qo (if i < 16 then d0 else d1) (elem_at fw R C ar (c0b + i)); k = blk + i mod 16
    in if i < 16 then t(k := lo code (t k)) else t(k := hi code (t k))"
  have "rocm_block qo imw fast fw R C ar c0b blk t = for_loop ([0..<16] @ map (\<lambda>i. 16 + i) [0..<16]) ?body ?t1"
    unfolding rocm_block_def e Let_def d upt_halves lo_def hi_def by (simp only:)
  also have "\<dots> = for_loop [0..<16] (\<lambda>i. ?body (16 + i)) (for_loop [0..<16] ?body ?t1)"
    by (simp only: for_loop_append for_loop_map)
  also have "for_loop [0..<16] ?body ?t1 = for_loop [0..<16] (\<lambda>i t. t(blk + i := lo (c0 i) (t (blk + i)))) ?t1"
    by (rule for_loop_cong) (simp add: c0_def Let_def)
  also have "for_loop [0..<16] (\<lambda>i. ?body (16 + i)) (for_loop [0..<16] (\<lambda>i t. t(blk + i := lo (c0 i) (t (blk + i)))) ?t1) =
      for_loop [0..<16] (\<lambda>i t. t(blk + i := hi (c1 i) (t (blk + i)))) (for_loop [0..<16] (\<lambda>i t. t(blk + i := lo (c0 i) (t (blk + i)))) ?t1)"
    by (rule for_loop_cong) (simp add: c1_def Let_def)
  also have "\<dots> = override_on t (\<lambda>x. if x - blk < 16 then pair (c1 (x - blk)) (c0 (x - blk)) else e (x - blk - 16)) {blk..<blk + rocm_block_bytes fast}"
    unfolding for_loop_cells[where F = "\<lambda>i. lo (c0 i)"] for_loop_cells[where F = "\<lambda>i. hi (c1 i)"] t1
    by (auto simp: fun_eq_iff override_on_def masked rocm_block_bytes_def split: if_splits)
  also have "(\<lambda>x. if x - blk < 16 then pair (c1 (x - blk)) (c0 (x - blk)) else e (x - blk - 16)) = (\<lambda>x. rocm_bytes qo imw fast fw R C ar c0b (x - blk))"
    unfolding rocm_bytes_def Let_def e d0_def[symmetric] d1_def[symmetric] by (simp only: pair_def c0_def c1_def)
  finally show ?thesis .
qed

lemma while_below_upt: "while_below a n [0..<m] = [0..<min m (n - a)]"
  unfolding while_below_def
proof (induction m)
  case (Suc m)
  show ?case
  proof (cases "m < n - a")
    case True
    then have "takeWhile (\<lambda>l. a + l < n) ([0..<m] @ [m]) = [0..<m] @ [m]" by (intro takeWhile_eq_all_conv[THEN iffD2]) auto
    then show ?thesis using True by (simp add: min_def)
  next
    case False
    then have "takeWhile (\<lambda>l. a + l < n) ([0..<m] @ [m]) = takeWhile (\<lambda>l. a + l < n) [0..<m]" by (simp add: takeWhile_tail)
    then show ?thesis using False Suc by (simp add: min_def)
  qed
qed simp

lemma cb10_nibble: "npu_cb10 (x AND 0xF) = npu_cb10 x"
  by (simp add: npu_cb10_def and.assoc)

lemma tile_rocm_readback:
  assumes tc: "32 dvd tc" and at: "r < tr" "c < tc" and inside: "a * tr + r < R" "b * tc + c < C"
    and ptr: "\<And>i. i < length (tile_rocm qo imw fast fw R C (a * tr) (b * tc) tr tc) \<Longrightarrow>
      p i = tile_rocm qo imw fast fw R C (a * tr) (b * tc) tr tc ! i"
  shows "rocm_value (q_fops qo) tc fast p r c = rocm_weight qo imw fast fw R C (a * tr + r) (b * tc + c)"
proof -
  define bb where "bb = rocm_block_bytes fast"
  define nb where "nb = ceil_div tc 32"
  obtain m where m: "tc = m * 32" using tc by (metis dvd_def mult.commute)
  have nb: "nb = m" unfolding nb_def m by simp
  have bb0: "0 < bb" "16 < bb" "\<not> fast \<Longrightarrow> 17 < bb" by (simp_all add: bb_def rocm_block_bytes_def)
  have cb: "c div 32 < nb" using at(2) m nb by simp
  define out where "out = (\<lambda>rr k. rocm_bytes qo imw fast fw R C (a * tr + rr) (b * tc + k * 32))"
  define w where "w = (\<lambda>x. out (x div bb div nb) (x div bb mod nb) (x mod bb))"
  let ?S = "\<lambda>rr k. {(rr * nb + k) * bb..<(rr * nb + k) * bb + bb}" and ?n = "min tr (R - a * tr)"
  let ?buf = "for_loop [0..<?n] (\<lambda>rr t. for_loop [0..<nb] (\<lambda>k t.
    rocm_block qo imw fast fw R C (a * tr + rr) (b * tc + k * 32) ((rr * nb + k) * bb) t) t) (\<lambda>_. 0)"
  have tile: "tile_rocm qo imw fast fw R C (a * tr) (b * tc) tr tc = map ?buf [0..<tr * nb * bb]"
    unfolding tile_rocm_def Let_def while_below_upt bb_def nb_def ..
  have "?buf = override_on (\<lambda>_. 0) w (\<Union>rr < ?n. \<Union>k < nb. ?S rr k)"
  proof (rule two_level_override[of ?n "\<lambda>_. nb"])
    fix rr k t assume rk: "rr < ?n" "k < nb"
    let ?blk = "(rr * nb + k) * bb"
    have "out rr k (x - ?blk) = w x" if "x \<in> ?S rr k" for x
    proof -
      define y where "y = x - ?blk"
      have y: "x = ?blk + y" "y < bb" using that unfolding y_def atLeastLessThan_iff by linarith+
      note xy = div_mod_at[OF y(2), of "rr * nb + k"] and jk = div_mod_at[OF rk(2), of rr]
      show ?thesis unfolding w_def y(1) using xy jk by (simp only: add_diff_cancel_left')
    qed
    then have "override_on t (\<lambda>x. out rr k (x - ?blk)) (?S rr k) = override_on t w (?S rr k)" by (rule override_cong)
    then show "rocm_block qo imw fast fw R C (a * tr + rr) (b * tc + k * 32) ?blk t = override_on t w (?S rr k)"
      unfolding rocm_block_override bb_def[symmetric] out_def .
  qed
  note buf = override_at[OF this]
  let ?blk = "(r * nb + c div 32) * bb"
  have val: "p (?blk + y) = out r (c div 32) y" if y: "y < bb" for y
  proof -
    have "?blk + y \<in> ?S r (c div 32)" using y by simp
    then have "?buf (?blk + y) = w (?blk + y)" by (rule buf) (use at(1) inside(1) cb in simp_all)
    also have "\<dots> = out r (c div 32) y"
      unfolding w_def using div_mod_at[OF y, of "r * nb + c div 32"] div_mod_at[OF cb, of r] by (simp only:)
    finally have "?buf (?blk + y) = out r (c div 32) y" .
    moreover have "?blk + y < tr * nb * bb" using slot_bounds[OF slot_bounds[OF at(1) cb] y] .
    ultimately show ?thesis using ptr by (simp add: tile)
  qed
  define e where "e = (\<lambda>half. rocm_scale qo imw fw R C (a * tr + r) (b * tc + c div 32 * 32 + half * 16))"
  define d where "d = (\<lambda>half. q_rat qo (onebp_ue4m3 (e half)))"
  define dc where "dc = (if c mod 32 < 16 \<or> fast then d 0 else d 1)"
  define code where "code = (\<lambda>d i. rocm_encode qo d (elem_at fw R C (a * tr + r) (b * tc + c div 32 * 32 + i)))"
  have bytes: "out r (c div 32) y = (if y < 16 then push_bit 4 (code (if fast then d 0 else d 1) (16 + y) AND 0x0f) OR code (d 0) y AND 0x0f else e (y - 16))" for y
    unfolding out_def rocm_bytes_def Let_def code_def d_def e_def by simp
  have nib: "v AND 0x0f < 16" for v :: byte
    using and_mask_less'[of 4 v] by (simp add: mask_eq_exp_minus_1)
  let ?i = "c mod 32"
  have code_c: "code dc ?i = rocm_encode qo dc (Some (fw ((a * tr + r) * C + (b * tc + c))))"
    using inside by (simp add: code_def elem_at_def add.assoc)
  have i16: "\<not> ?i < 16 \<Longrightarrow> 16 + ?i mod 16 = ?i"
  proof -
    assume "\<not> ?i < 16"
    moreover define x where "x = ?i"
    moreover have "x < 32" by (simp add: x_def)
    ultimately show "16 + ?i mod 16 = ?i" unfolding x_def[symmetric] by presburger
  qed
  have m16: "?i mod 16 < bb" using bb0(2) by (meson less_trans mod_less_divisor zero_less_numeral)
  have nibv: "npu_cb10 (if ?i < 16 then p (?blk + ?i mod 16) AND 0xF else drop_bit 4 (p (?blk + ?i mod 16))) = npu_cb10 (code dc ?i)"
  proof (cases "?i < 16")
    case True
    then show ?thesis unfolding val[OF m16] bytes using nibbles_join[OF nib nib] by (simp add: dc_def cb10_nibble)
  next
    case False
    have "drop_bit 4 (out r (c div 32) (?i mod 16)) = code (if fast then d 0 else d 1) (16 + ?i mod 16) AND 0x0f"
      unfolding bytes using nibbles_join[OF nib nib] by simp
    then show ?thesis unfolding val[OF m16] using False i16[OF False] by (simp only: if_False cb10_nibble dc_def) simp
  qed
  have scl: "q_rat qo (onebp_ue4m3 (if ?i < 16 \<or> fast then p (?blk + 16) else p (?blk + 17))) = dc"
    using val[OF bb0(2)] val[OF bb0(3)] by (auto simp: bytes dc_def d_def)
  have wsc: "q_rat qo (onebp_ue4m3 (rocm_scale qo imw fw R C (a * tr + r)
      (if (b * tc + c) mod 32 < 16 \<or> fast then (b * tc + c) div 32 * 32 else (b * tc + c) div 32 * 32 + 16))) = dc"
  proof -
    have "(b * tc + c) div 32 = b * m + c div 32" "(b * tc + c) mod 32 = c mod 32"
      unfolding m using div_mult_self3[of 32 "b * m" c] by (simp_all add: mult.assoc[symmetric])
    then show ?thesis by (simp add: dc_def d_def e_def m algebra_simps)
  qed
  have blk: "r * nb * bb + c div 32 * bb = ?blk" by (simp add: algebra_simps)
  show ?thesis
    unfolding rocm_value_def rocm_weight_def Let_def nb_def[symmetric] bb_def[symmetric] adv_apply blk nibv scl wsc code_c ..
qed

end
