(* ===== verification/OnebpFile.thy ===== *)
theory OnebpFile
  imports OnebpIndex
begin

text \<open>
  How \<open>src/gguf_to_onebp.cpp\<close> lays out a \<open>.1bp\<close> file: one storage block for tensors with the same data, offsets
  relative to the data section, then header, index and blocks. A tensor comes with the bytes its digest is
  taken of (the 32-bit floats or the raw tiles) and the bytes the tile loop writes for it.
\<close>

unbundle bit_operations_syntax

section \<open>The layout\<close>

record tensor =
  tn_name :: "byte list"
  tn_ndim :: nat
  tn_rows :: nat
  tn_cols :: nat
  tn_experts :: nat
  tn_tiled :: u64
  tn_quant :: u32
  tn_source :: "byte list"
  tn_payload :: "byte list"

definition fnv1a :: "byte list \<Rightarrow> u64" where
  "fnv1a bs = fold (\<lambda>b h. (h XOR ucast b) * 1099511628211) bs 1469598103934665603"

type_synonym dedup_tuple = "u64 \<times> nat \<times> nat \<times> nat \<times> nat \<times> u32 \<times> u64"

definition dedup_key :: "tensor \<Rightarrow> dedup_tuple" where
  "dedup_key t = (fnv1a (tn_source t), tn_ndim t, tn_rows t, tn_cols t, tn_experts t, tn_quant t, tn_tiled t)"

definition written_dims :: "tensor \<Rightarrow> u32 list" where
  "written_dims t =
     (if tn_ndim t = 1 then [of_nat (tn_cols t)]
      else if tn_ndim t = 2 then [of_nat (tn_rows t), of_nat (tn_cols t)]
      else [of_nat (tn_experts t), of_nat (tn_rows t), of_nat (tn_cols t)])"

definition index_item :: "tensor \<Rightarrow> u64 \<Rightarrow> u64 \<Rightarrow> item" where
  "index_item t off len =
     \<lparr>it_name = tn_name t, it_dims = written_dims t, it_offset = off, it_bytes = len, it_quant = tn_quant t\<rparr>"

text \<open>The loop over the tensors: the keys seen with the index of their first tensor, the index of the tensor and
  the end of the data so far. An alias has no bytes and the index of the first tensor as its offset.\<close>

fun lay_out :: "(dedup_tuple \<times> nat) list \<Rightarrow> nat \<Rightarrow> u64 \<Rightarrow> tensor list \<Rightarrow> item list \<times> byte list list" where
  "lay_out seen i off [] = ([], [])"
| "lay_out seen i off (t # ts) =
     (case List.find (\<lambda>s. fst s = dedup_key t) seen of
        Some (_, j) \<Rightarrow> (let (is, ds) = lay_out seen (Suc i) off ts in (index_item t (of_nat j) 0 # is, ds))
      | None \<Rightarrow>
          (let (is, ds) = lay_out (seen @ [(dedup_key t, i)]) (Suc i) (off + tn_tiled t) ts
           in (index_item t off (tn_tiled t) # is, tn_payload t # ds)))"

text \<open>The file, for a header that is complete but for the count of tensors. The writes succeed.\<close>

definition onebp_file :: "header \<Rightarrow> tensor list \<Rightarrow> byte list" where
  "onebp_file h ts =
     (let (is, ds) = lay_out [] 0 0 ts
      in put_header (h\<lparr>oh_tensor_count := of_nat (length ts)\<rparr>) @ put_index is @ concat ds)"

section \<open>The loaders find what was written\<close>

text \<open>A tensor is stored if its entry describes it and its bytes of the file are its payload.\<close>

definition stored_at :: "byte list \<Rightarrow> nat \<Rightarrow> nat \<Rightarrow> tensor \<Rightarrow> bool" where
  "stored_at fl off len t \<longleftrightarrow> off + len \<le> length fl \<and> take len (drop off fl) = tn_payload t"

definition npu_stored :: "byte list \<Rightarrow> tensor \<Rightarrow> npu_entry \<Rightarrow> bool" where
  "npu_stored fl t e \<longleftrightarrow> te_name e = take 63 (tn_name t) \<and> te_quant e = tn_quant t \<and>
     te_ndim e = of_nat (length (written_dims t)) \<and>
     (te_experts e, te_rows e, te_cols e) = npu_dims (te_ndim e) (written_dims t) \<and>
     stored_at fl (unat (te_offset e)) (unat (te_bytes e)) t"

definition host_stored :: "byte list \<Rightarrow> u64 \<Rightarrow> tensor \<Rightarrow> host_entry \<Rightarrow> bool" where
  "host_stored fl dat t e \<longleftrightarrow> he_name e = take 63 (tn_name t) \<and> he_quant e = tn_quant t \<and>
     he_dims e = written_dims t \<and> stored_at fl (unat (dat + he_offset e)) (unat (he_bytes e)) t"

text \<open>What the converter relies on: the blocks have the reserved size, none is empty, tensors with the same key
  have the same block, and the whole fits 63 bits.\<close>

definition same_blocks :: "tensor list \<Rightarrow> bool" where
  "same_blocks ts \<longleftrightarrow> list_all (\<lambda>t. list_all (\<lambda>u. dedup_key t = dedup_key u \<longrightarrow> tn_payload t = tn_payload u) ts) ts"

definition sized :: "tensor \<Rightarrow> bool" where
  "sized t \<longleftrightarrow> length (tn_payload t) = unat (tn_tiled t) \<and> tn_tiled t \<noteq> 0"

definition total_tiled :: "tensor list \<Rightarrow> nat" where
  "total_tiled ts = sum_list (map (\<lambda>t. unat (tn_tiled t)) ts)"

definition layable :: "tensor list \<Rightarrow> bool" where
  "layable ts \<longleftrightarrow> list_all sized ts \<and> same_blocks ts \<and> length ts \<le> 16384 \<and> total_tiled ts < 2 ^ 62"

lemma same_blocksD: "same_blocks ts \<Longrightarrow> t \<in> set ts \<Longrightarrow> u \<in> set ts \<Longrightarrow> dedup_key t = dedup_key u \<Longrightarrow> tn_payload t = tn_payload u"
  unfolding same_blocks_def list_all_iff by blast

lemma total_tiled_Cons: "total_tiled (t # ts) = unat (tn_tiled t) + total_tiled ts"
  by (simp add: total_tiled_def)

text \<open>The invariant of the resolution: entry \<open>k\<close> describes tensor \<open>k\<close> and points into the data so far.\<close>

definition in_data :: "byte list \<Rightarrow> tensor \<Rightarrow> u64 \<Rightarrow> u64 \<Rightarrow> bool" where
  "in_data W t off len \<longleftrightarrow> len = tn_tiled t \<and> unat off + unat len \<le> length W \<and> take (unat len) (drop (unat off) W) = tn_payload t"

lemma in_data_append: "in_data W t off len \<Longrightarrow> in_data (W @ V) t off len"
  by (auto simp: in_data_def)

lemma written_dims_key: "dedup_key t = dedup_key u \<Longrightarrow> written_dims t = written_dims u \<and> tn_quant t = tn_quant u \<and> tn_tiled t = tn_tiled u"
  by (simp add: dedup_key_def written_dims_def)

lemma written_dims_length: "length (written_dims t) \<le> 3" "length (written_dims t) \<noteq> 0"
  by (simp_all add: written_dims_def)

definition seen_ok :: "(dedup_tuple \<times> nat) list \<Rightarrow> tensor list \<Rightarrow> bool" where
  "seen_ok seen ps \<longleftrightarrow> list_all (\<lambda>(k, j). j < length ps \<and> dedup_key (ps ! j) = k) seen"

text \<open>Both loaders resolve aliases in the same way; \<open>mk\<close> makes an entry of an item, \<open>al\<close> resolves an alias.\<close>

locale index_resolver =
  fixes mk :: "item \<Rightarrow> 'e"
    and off_of :: "'e \<Rightarrow> u64"
    and len_of :: "'e \<Rightarrow> u64"
    and al :: "'e \<Rightarrow> 'e \<Rightarrow> 'e"
    and resolve :: "'e list \<Rightarrow> 'e list \<Rightarrow> 'e list option"
    and describes :: "tensor \<Rightarrow> 'e \<Rightarrow> bool"
  assumes mk_len: "len_of (mk it) = it_bytes it"
    and mk_off: "off_of (mk it) = it_offset it"
    and al_fields: "off_of (al e src) = off_of src" "len_of (al e src) = len_of src"
    and resolve_Nil: "resolve d [] = Some d"
    and resolve_Cons: "resolve d (e # es) =
        (if len_of e \<noteq> 0 then resolve (d @ [e]) es
         else if length d \<le> unat (off_of e) then None
         else resolve (d @ [al e (d ! unat (off_of e))]) es)"
    and mk_describes: "describes t (mk (index_item t off len))"
    and al_describes: "describes u src \<Longrightarrow> dedup_key u = dedup_key t \<Longrightarrow> describes t (al (mk (index_item t off len)) src)"
begin

definition placed :: "byte list \<Rightarrow> tensor \<Rightarrow> 'e \<Rightarrow> bool" where
  "placed W t e \<longleftrightarrow> describes t e \<and> in_data W t (off_of e) (len_of e)"

lemma placed_append: "placed W t e \<Longrightarrow> placed (W @ V) t e"
  by (simp add: placed_def in_data_append)

lemma resolve_laid_out:
  "lay_out seen (length ps) off ts = (is, ds) \<Longrightarrow> seen_ok seen ps \<Longrightarrow> list_all2 (placed W) ps d \<Longrightarrow>
   unat off = length W \<Longrightarrow> length W + total_tiled ts < 2 ^ 62 \<Longrightarrow>
   list_all sized ts \<Longrightarrow> same_blocks (ps @ ts) \<Longrightarrow>
   length ps + length ts \<le> 16384 \<Longrightarrow>
   \<exists>d'. resolve d (map mk is) = Some d' \<and> list_all2 (placed (W @ concat ds)) (ps @ ts) d'"
proof (induction ts arbitrary: seen ps off "is" ds W d)
  case Nil
  then show ?case by (simp add: resolve_Nil)
next
  case (Cons t ts)
  have len: "length d = length ps" using Cons.prems(3) by (simp add: list_all2_lengthD)
  show ?case
  proof (cases "List.find (\<lambda>s. fst s = dedup_key t) seen")
    case (Some s)
    then have "fst s = dedup_key t" "s \<in> set seen" by (auto simp: find_Some_iff)
    then obtain j where j: "s = (dedup_key t, j)" "s \<in> set seen" by (metis prod.collapse)
    then have jl: "j < length ps" "dedup_key (ps ! j) = dedup_key t"
      using Cons.prems(2) by (auto simp: seen_ok_def list_all_iff)
    obtain is' where r: "lay_out seen (Suc (length ps)) off ts = (is', ds)" "is = index_item t (of_nat j) 0 # is'"
      using Cons.prems(1) Some j(1) by (auto split: prod.splits)
    have small: "unat (of_nat j :: u64) = j" using jl(1) Cons.prems(8) by (simp add: unat_of_nat)
    let ?e = "al (mk (index_item t (of_nat j) 0)) (d ! j)"
    have p: "placed W (ps ! j) (d ! j)" using Cons.prems(3) jl(1) by (simp add: list_all2_nthD)
    have same: "tn_payload t = tn_payload (ps ! j)" "tn_tiled t = tn_tiled (ps ! j)"
      using same_blocksD[OF Cons.prems(7), of t "ps ! j"] jl written_dims_key[OF jl(2)] by simp_all
    have pe: "placed W t ?e"
      using p same al_describes[OF _ jl(2)] by (auto simp: placed_def al_fields in_data_def)
    have "\<exists>d'. resolve (d @ [?e]) (map mk is') = Some d' \<and> list_all2 (placed (W @ concat ds)) ((ps @ [t]) @ ts) d'"
    proof (rule Cons.IH)
      show "lay_out seen (length (ps @ [t])) off ts = (is', ds)" using r(1) by simp
      show "seen_ok seen (ps @ [t])" using Cons.prems(2) by (auto simp: seen_ok_def list_all_iff nth_append)
      show "list_all2 (placed W) (ps @ [t]) (d @ [?e])" using Cons.prems(3) pe by (simp add: list_all2_appendI)
      show "unat off = length W" by (rule Cons.prems(4))
      show "length W + total_tiled ts < 2 ^ 62" using Cons.prems(5) by (simp add: total_tiled_Cons)
      show "list_all sized ts" "same_blocks ((ps @ [t]) @ ts)" "length (ps @ [t]) + length ts \<le> 16384"
        using Cons.prems(6-8) by simp_all
    qed
    then show ?thesis
      using r(2) jl(1) len small by (simp add: resolve_Cons mk_len mk_off index_item_def)
  next
    case None
    let ?seen = "seen @ [(dedup_key t, length ps)]"
    obtain is' ds' where r: "lay_out ?seen (Suc (length ps)) (off + tn_tiled t) ts = (is', ds')"
      "is = index_item t off (tn_tiled t) # is'" "ds = tn_payload t # ds'"
      using Cons.prems(1) None by (auto split: prod.splits)
    let ?e = "mk (index_item t off (tn_tiled t))"
    have sz: "length (tn_payload t) = unat (tn_tiled t)" "tn_tiled t \<noteq> 0" using Cons.prems(6) by (simp_all add: sized_def)
    have pe: "placed (W @ tn_payload t) t ?e"
      using Cons.prems(4) sz by (simp add: placed_def mk_describes mk_len mk_off) (simp add: index_item_def in_data_def)
    have off: "unat (off + tn_tiled t) = length (W @ tn_payload t)"
      using Cons.prems(4,5) sz by (subst unat_add_lem[THEN iffD1]) (simp_all add: total_tiled_Cons)
    have old: "list_all2 (placed (W @ tn_payload t)) ps d"
      by (rule list_all2_mono[OF Cons.prems(3)]) (rule placed_append)
    have "\<exists>d'. resolve (d @ [?e]) (map mk is') = Some d' \<and> list_all2 (placed ((W @ tn_payload t) @ concat ds')) ((ps @ [t]) @ ts) d'"
    proof (rule Cons.IH)
      show "lay_out ?seen (length (ps @ [t])) (off + tn_tiled t) ts = (is', ds')" using r(1) by simp
      show "seen_ok ?seen (ps @ [t])" using Cons.prems(2) by (auto simp: seen_ok_def list_all_iff nth_append)
      show "list_all2 (placed (W @ tn_payload t)) (ps @ [t]) (d @ [?e])" using old pe by (simp add: list_all2_appendI)
      show "unat (off + tn_tiled t) = length (W @ tn_payload t)" by (rule off)
      show "length (W @ tn_payload t) + total_tiled ts < 2 ^ 62" using Cons.prems(5) sz by (simp add: total_tiled_Cons)
      show "list_all sized ts" "same_blocks ((ps @ [t]) @ ts)" "length (ps @ [t]) + length ts \<le> 16384"
        using Cons.prems(6-8) by simp_all
    qed
    then show ?thesis using r sz by (simp add: resolve_Cons mk_len index_item_def)
  qed
qed

end

definition npu_describes :: "tensor \<Rightarrow> npu_entry \<Rightarrow> bool" where
  "npu_describes t e \<longleftrightarrow> te_name e = take 63 (tn_name t) \<and> te_quant e = tn_quant t \<and>
     te_ndim e = of_nat (length (written_dims t)) \<and>
     (te_experts e, te_rows e, te_cols e) = npu_dims (te_ndim e) (written_dims t)"

definition host_describes :: "tensor \<Rightarrow> host_entry \<Rightarrow> bool" where
  "host_describes t e \<longleftrightarrow> he_name e = take 63 (tn_name t) \<and> he_quant e = tn_quant t \<and> he_dims e = written_dims t"

interpretation npu_index: index_resolver npu_view te_offset te_bytes npu_alias npu_resolve npu_describes
proof unfold_locales
  fix u t src off len
  assume "npu_describes u src" "dedup_key u = dedup_key t"
  then show "npu_describes t (npu_alias (npu_view (index_item t off len)) src)"
    using written_dims_key[of u t] by (simp add: npu_describes_def npu_alias_def npu_view_def index_item_def Let_def split: prod.split)
qed (simp_all add: npu_view_def npu_alias_def npu_describes_def index_item_def Let_def split: prod.split)

interpretation host_index: index_resolver host_view he_offset he_bytes "\<lambda>t src. src\<lparr>he_name := he_name t\<rparr>" host_resolve host_describes
proof unfold_locales
  fix u t src off len
  assume "host_describes u src" "dedup_key u = dedup_key t"
  then show "host_describes t (src\<lparr>he_name := he_name (host_view (index_item t off len))\<rparr>)"
    using written_dims_key[of u t] by (simp add: host_describes_def host_view_def index_item_def)
qed (simp_all add: host_view_def host_describes_def index_item_def)

interpretation npu_reader: item_reader "npu_entry_at h" npu_view "\<lambda>t. item_ok t \<and> 2 \<le> oh_version h" for h
  by unfold_locales (simp add: npu_reads)

interpretation host_reader: item_reader "host_entry_at h" host_view "\<lambda>t. item_ok t \<and> 2 \<le> oh_version h" for h
  by unfold_locales (simp add: host_reads)

lemma lay_out_length: "lay_out seen i off ts = (is, ds) \<Longrightarrow> length is = length ts \<and> list_all item_ok is"
proof (induction ts arbitrary: seen i off "is" ds)
  case (Cons t ts)
  then show ?case
    by (auto simp: item_ok_def index_item_def written_dims_length split: option.splits prod.splits)
qed simp

lemma lay_out_data:
  "lay_out seen i off ts = (is, ds) \<Longrightarrow> list_all sized ts \<Longrightarrow> length (concat ds) \<le> total_tiled ts"
proof (induction ts arbitrary: seen i off "is" ds)
  case (Cons t ts)
  show ?case
  proof (cases "List.find (\<lambda>s. fst s = dedup_key t) seen")
    case None
    then obtain is' ds' where r: "lay_out (seen @ [(dedup_key t, i)]) (Suc i) (off + tn_tiled t) ts = (is', ds')" "ds = tn_payload t # ds'"
      using Cons.prems(1) by (auto split: prod.splits)
    then show ?thesis using Cons.IH[OF r(1)] Cons.prems(2) by (simp add: sized_def total_tiled_Cons)
  next
    case (Some s)
    obtain k j where s: "s = (k, j)" by (cases s)
    then obtain is' where "lay_out seen (Suc i) off ts = (is', ds)" using Cons.prems(1) Some by (auto split: prod.splits)
    from Cons.IH[OF this] show ?thesis using Cons.prems(2) by (simp add: total_tiled_Cons)
  qed
qed simp

lemma length_put_item: "item_ok t \<Longrightarrow> length (put_item t) \<le> 4 + 63 + 1 + 4 + 12 + 20"
  by (simp add: put_item_def Let_def length_put_words item_ok_def)

lemma length_put_index: "list_all item_ok is \<Longrightarrow> length (put_index is) \<le> 104 * length is"
  by (induction "is") (use length_put_item in \<open>fastforce simp: put_index_def\<close>)+

lemma npu_in_file_unat: "npu_in_file n t \<longleftrightarrow> unat (te_offset t) + unat (te_bytes t) \<le> unat n"
proof -
  have "unat (n - te_offset t) = unat n - unat (te_offset t)" if "te_offset t \<le> n" using that by (simp add: unat_sub)
  then show ?thesis by (auto simp: npu_in_file_def word_less_nat_alt word_le_nat_alt not_less)
qed

text \<open>The parts of a converted file.\<close>

lemma onebp_file_parts:
  assumes "layable ts" "lay_out [] 0 0 ts = (is, ds)" "length (oh_rest h) = 164"
  shows "length is = length ts" "list_all item_ok is" "length (concat ds) < 2 ^ 62"
    "onebp_file h ts = put_header (h\<lparr>oh_tensor_count := of_nat (length ts)\<rparr>) @ put_index is @ concat ds"
    "unat (of_nat (length ts) :: u32) = length ts" "256 + length (put_index is) < 2 ^ 32"
    "length (put_header (h\<lparr>oh_tensor_count := of_nat (length ts)\<rparr>)) = 256"
proof -
  show l: "length is = length ts" "list_all item_ok is" using lay_out_length[OF assms(2)] by simp_all
  have "list_all sized ts" "total_tiled ts < 2 ^ 62" and n: "length ts \<le> 16384" using assms(1) by (simp_all add: layable_def)
  then show "length (concat ds) < 2 ^ 62" using lay_out_data[OF assms(2)] by linarith
  show "unat (of_nat (length ts) :: u32) = length ts" using n by (simp add: unat_of_nat)
  show "256 + length (put_index is) < 2 ^ 32" using length_put_index[OF l(2)] l(1) n by simp
  show "length (put_header (h\<lparr>oh_tensor_count := of_nat (length ts)\<rparr>)) = 256" using assms(3) by (simp add: length_put_header)
qed (simp add: onebp_file_def assms(2))

definition writable :: "header \<Rightarrow> bool" where
  "writable h \<longleftrightarrow> header_valid h \<and> 2 \<le> oh_version h \<and> length (oh_rest h) = 164"

lemma small64: "n < 2 ^ 64 \<Longrightarrow> unat (of_nat n :: u64) = n"
  by (simp add: unat_of_nat)

lemma stored_shift:
  assumes "in_data W t off len" "n + length W < 2 ^ 63" "length P = n"
  shows "unat (off + of_nat n) + unat len \<le> length (P @ W) \<and> stored_at (P @ W) (unat (off + of_nat n)) (unat len) t"
proof -
  have n: "unat (of_nat n :: u64) = n" using assms(2) by (simp add: unat_of_nat)
  have o: "unat off + unat len \<le> length W" using assms(1) by (auto simp: in_data_def)
  then have "unat (off + of_nat n) = unat off + n" using n assms(2) by (subst unat_add_lem[THEN iffD1]) simp_all
  then show ?thesis using assms o by (auto simp: stored_at_def in_data_def)
qed

lemma npu_opens:
  assumes "layable ts" "writable h"
  shows "\<exists>m. npu_open (onebp_file h ts) = Opened m \<and> nm_file m = onebp_file h ts \<and>
    nm_header m = h\<lparr>oh_tensor_count := of_nat (length ts)\<rparr> \<and> list_all2 (npu_stored (onebp_file h ts)) ts (nm_tensors m)"
proof -
  obtain "is" ds where lay: "lay_out [] 0 0 ts = (is, ds)" by (metis surj_pair)
  have w: "header_valid h" "2 \<le> oh_version h" "length (oh_rest h) = 164" using assms(2) by (simp_all add: writable_def)
  note parts = onebp_file_parts[OF assms(1) lay w(3)]
  let ?h = "h\<lparr>oh_tensor_count := of_nat (length ts)\<rparr>" and ?W = "concat ds"
  let ?P = "put_header ?h @ put_index is"
  define n where "n = length ?P"
  have n: "n + length ?W < 2 ^ 63" using parts(3,6,7) by (simp add: n_def)
  have fl: "onebp_file h ts = ?P @ ?W" using parts(4) by simp
  have gh: "get_header (onebp_file h ts) = ?h" using get_put_header[of ?h "put_index is @ ?W"] w(3) parts(4) by simp
  have "dec_run (npu_entry_at ?h) (length is) (put_index is @ ?W) = Some (map npu_view is, ?W)"
    using npu_reader.reads_index[of ?h "is" ?W] parts(2) w(2) by (simp add: list_all_iff)
  then have idx: "npu_index ?h (unat (oh_tensor_count ?h)) (drop 256 (onebp_file h ts)) = Some (map npu_view is, ?W)"
    using npu_index_run parts(1,4,5,7) by simp
  have "\<exists>d'. npu_resolve [] (map npu_view is) = Some d' \<and> list_all2 (npu_index.placed ([] @ concat ds)) ([] @ ts) d'"
    by (rule npu_index.resolve_laid_out[of "[]" "[]" 0]) (use assms(1) lay in \<open>simp_all add: seen_ok_def layable_def\<close>)
  then obtain es where es: "npu_resolve [] (map npu_view is) = Some es" "list_all2 (npu_index.placed ?W) ts es" by auto
  let ?es = "map (\<lambda>t. t\<lparr>te_offset := te_offset t + of_nat n\<rparr>) es"
  have st: "list_all2 (\<lambda>t e. npu_stored (onebp_file h ts) t (e\<lparr>te_offset := te_offset e + of_nat n\<rparr>) \<and>
      npu_in_file (of_nat (length (onebp_file h ts))) (e\<lparr>te_offset := te_offset e + of_nat n\<rparr>)) ts es"
  proof (rule list_all2_mono[OF es(2)])
    fix t e assume "npu_index.placed ?W t e"
    then have d: "npu_describes t e" "in_data ?W t (te_offset e) (te_bytes e)" by (simp_all add: npu_index.placed_def)
    note s = stored_shift[OF d(2) n, of ?P]
    have "unat (of_nat (length (onebp_file h ts)) :: u64) = length (onebp_file h ts)"
      by (rule small64) (use n fl in \<open>simp add: n_def\<close>)
    then show "npu_stored (onebp_file h ts) t (e\<lparr>te_offset := te_offset e + of_nat n\<rparr>) \<and>
      npu_in_file (of_nat (length (onebp_file h ts))) (e\<lparr>te_offset := te_offset e + of_nat n\<rparr>)"
      using s d(1) fl by (simp add: npu_stored_def npu_describes_def npu_in_file_unat n_def)
  qed
  have "list_all (npu_in_file (of_nat (length (onebp_file h ts)))) ?es" "list_all2 (npu_stored (onebp_file h ts)) ts ?es"
    using st by (auto simp: list_all2_conv_all_nth list_all_length)
  moreover have "length (onebp_file h ts) - length ?W = n" using fl by (simp add: n_def)
  moreover have "256 \<le> length (onebp_file h ts)" "header_valid ?h" using fl parts(7) w(1) by (simp_all add: header_valid_def)
  ultimately show ?thesis using gh idx es(1) by (simp add: npu_open_def Let_def)
qed

lemma host_opens:
  assumes "layable ts" "writable h"
  shows "\<exists>m. host_load (onebp_file h ts) = Some m \<and> hm_file m = onebp_file h ts \<and>
    list_all2 (host_stored (onebp_file h ts) (hm_data m)) ts (hm_tensors m)"
proof -
  obtain "is" ds where lay: "lay_out [] 0 0 ts = (is, ds)" by (metis surj_pair)
  have w: "header_valid h" "2 \<le> oh_version h" "length (oh_rest h) = 164" using assms(2) by (simp_all add: writable_def)
  note parts = onebp_file_parts[OF assms(1) lay w(3)]
  let ?h = "h\<lparr>oh_tensor_count := of_nat (length ts)\<rparr>" and ?W = "concat ds"
  let ?P = "put_header ?h @ put_index is"
  define n where "n = length ?P"
  have n: "n + length ?W < 2 ^ 63" using parts(3,6,7) by (simp add: n_def)
  have fl: "onebp_file h ts = ?P @ ?W" using parts(4) by simp
  have gh: "get_header (onebp_file h ts) = ?h" using get_put_header[of ?h "put_index is @ ?W"] w(3) parts(4) by simp
  have idx: "dec_run (host_entry_at ?h) (unat (oh_tensor_count ?h)) (drop 256 (onebp_file h ts)) = Some (map host_view is, ?W)"
    using host_reader.reads_index[of ?h "is" ?W] parts(1,2,4,5,7) w(2) by (simp add: list_all_iff)
  have "\<exists>d'. host_resolve [] (map host_view is) = Some d' \<and> list_all2 (host_index.placed ([] @ concat ds)) ([] @ ts) d'"
    by (rule host_index.resolve_laid_out[of "[]" "[]" 0]) (use assms(1) lay in \<open>simp_all add: seen_ok_def layable_def\<close>)
  then obtain es where es: "host_resolve [] (map host_view is) = Some es" "list_all2 (host_index.placed ?W) ts es" by auto
  have st: "list_all2 (\<lambda>t e. host_stored (onebp_file h ts) (of_nat n) t e \<and>
      host_in_file (of_nat (length (onebp_file h ts))) (of_nat n) e) ts es"
  proof (rule list_all2_mono[OF es(2)])
    fix t e assume "host_index.placed ?W t e"
    then have d: "host_describes t e" "in_data ?W t (he_offset e) (he_bytes e)" by (simp_all add: host_index.placed_def)
    have s: "stored_at (onebp_file h ts) (unat (of_nat n + he_offset e)) (unat (he_bytes e)) t"
      "unat (of_nat n + he_offset e) + unat (he_bytes e) \<le> length (onebp_file h ts)"
      using stored_shift[OF d(2) n, of ?P] fl by (simp_all add: n_def add.commute)
    have sz: "unat (of_nat (length (onebp_file h ts)) :: u64) = length (onebp_file h ts)" "unat (of_nat n :: u64) = n"
      by (rule small64, use n fl in \<open>simp add: n_def\<close>)+
    have o: "unat (he_offset e) + unat (he_bytes e) \<le> length ?W" using d(2) by (auto simp: in_data_def)
    then have a: "unat (of_nat n + he_offset e) = n + unat (he_offset e)" using n sz(2) by (subst unat_add_lem[THEN iffD1]) simp_all
    then have "unat (of_nat n + he_offset e + he_bytes e) = n + unat (he_offset e) + unat (he_bytes e)"
      using n o by (subst unat_add_lem[THEN iffD1]) simp_all
    then have "host_in_file (of_nat (length (onebp_file h ts))) (of_nat n) e"
      using s(2) sz a unfolding host_in_file_def word_less_nat_alt by linarith
    then show "host_stored (onebp_file h ts) (of_nat n) t e \<and> host_in_file (of_nat (length (onebp_file h ts))) (of_nat n) e"
      using s(1) d(1) by (simp add: host_stored_def host_describes_def)
  qed
  have "list_all (host_in_file (of_nat (length (onebp_file h ts))) (of_nat n)) es"
    "list_all2 (host_stored (onebp_file h ts) (of_nat n)) ts es"
    using st by (auto simp: list_all2_conv_all_nth list_all_length)
  moreover have "length (onebp_file h ts) - length ?W = n" using fl by (simp add: n_def)
  moreover have "256 \<le> length (onebp_file h ts)" "header_valid ?h" using fl parts(7) w(1) by (simp_all add: header_valid_def)
  moreover have "oh_tensor_count ?h \<le> 16384" using assms(1) parts(5) by (simp add: word_le_nat_alt layable_def)
  ultimately show ?thesis using gh idx es(1) by (simp add: host_load_def)
qed

end
