(* ===== verification/OnebpPipeline.thy ===== *)
theory OnebpPipeline
  imports OnebpByteTiles OnebpFile
begin

text \<open>
  From the converter to the engine: a tensor that \<open>gguf_to_onebp\<close> encodes and lays out comes back from
  \<open>NpuOnebpModel\<close> element by element as the value its code and its group's scale stand for.
\<close>

unbundle bit_operations_syntax

section \<open>Tiles\<close>

text \<open>The formats that the converter writes and the decoder knows, and tiles that suit all of them.\<close>

definition known_format :: "u32 \<Rightarrow> bool" where
  "known_format q \<longleftrightarrow> q = 0 \<or> q = 3 \<or> q = 4 \<or> q = 6 \<or> q = 7 \<or> q = 9 \<or> q = 10"

definition shape_ok :: "nat \<Rightarrow> nat \<Rightarrow> nat \<Rightarrow> bool" where
  "shape_ok tr tc gs \<longleftrightarrow> 0 < tr \<and> tile_shape tc gs \<and> 32 dvd tc"

text \<open>What an element becomes; no tile occurs in it.\<close>

definition requantised :: "'f qops \<Rightarrow> 'f buf option \<Rightarrow> u32 \<Rightarrow> 'f buf \<Rightarrow> nat \<Rightarrow> nat \<Rightarrow> nat \<Rightarrow> nat \<Rightarrow> nat \<Rightarrow> 'f" where
  "requantised qo imw q fw R C gs r c =
     (if q = 3 then tq2_weight qo fw R C gs r c
      else if q = 6 \<or> q = 7 then nz_weight qo imw (q = 7) fw R C gs r c
      else if is_rocm q then rocm_weight qo imw (q = 10) fw R C r c
      else if q = 4 then half_weight qo (fw (r * C + c))
      else q4nx_weight qo fw R C gs r c)"

lemma groups_of_shape: "tile_shape tc gs \<Longrightarrow> groups_of tc gs = tc div gs"
  by (auto simp: groups_of_def tile_shape_def dvd_div_eq_0_iff)

lemma length_encode_tile:
  assumes "known_format q" "shape_ok tr tc gs"
  shows "length (encode_tile qo imw q fw R C r0 c0 tr tc gs) = reader_tile_bytes tr tc gs q"
proof -
  have g: "groups_of tc gs = tc div gs" using assms(2) by (simp add: shape_ok_def groups_of_shape)
  show ?thesis
    using assms(1)
    by (auto simp: known_format_def encode_tile_def reader_tile_bytes_def is_rocm_def is_tq2_def g tile_tq2_def tile_nz_def
        tile_rocm_def tile_half_def tile_q4nx_def Let_def rocm_block_bytes_def)
qed

lemma encode_tile_readback:
  assumes "known_format q" "shape_ok tr tc gs" and at: "r < tr" "c < tc" and inside: "a * tr + r < R" "b * tc + c < C"
    and ptr: "\<And>i. i < reader_tile_bytes tr tc gs q \<Longrightarrow> p i = encode_tile qo imw q fw R C (a * tr) (b * tc) tr tc gs ! i"
  shows "tile_value (q_fops qo) tr tc gs q p r c = requantised qo imw q fw R C gs (a * tr + r) (b * tc + c)"
proof -
  have shape: "tile_shape tc gs" and tc: "32 dvd tc" using assms(2) by (simp_all add: shape_ok_def)
  have ptr: "p i = encode_tile qo imw q fw R C (a * tr) (b * tc) tr tc gs ! i"
    if "i < length (encode_tile qo imw q fw R C (a * tr) (b * tc) tr tc gs)" for i
    using that ptr by (simp add: length_encode_tile[OF assms(1,2)])
  consider "q = 3" | "q = 6 \<or> q = 7" | "q = 9 \<or> q = 10" | "q = 4" | "q = 0" using assms(1) by (auto simp: known_format_def)
  then show ?thesis
  proof cases
    case 1
    then show ?thesis using tile_tq2_readback[OF shape at inside, of qo fw p] ptr
      by (simp add: tile_value_def requantised_def encode_tile_def is_tq2_def)
  next
    case 2
    then show ?thesis using tile_nz_readback[OF shape at inside, of qo imw "q = 7" fw p] ptr
      by (auto simp: tile_value_def requantised_def encode_tile_def is_tq2_def)
  next
    case 3
    then show ?thesis using tile_rocm_readback[OF tc at inside, of qo imw "q = 10" fw p] ptr
      by (auto simp: tile_value_def requantised_def encode_tile_def is_tq2_def is_rocm_def)
  next
    case 4
    then show ?thesis using tile_half_readback[OF at inside, of qo fw p] ptr
      by (simp add: tile_value_def requantised_def encode_tile_def is_rocm_def)
  next
    case 5
    then show ?thesis using tile_q4nx_readback[OF shape at inside, of qo fw p] ptr
      by (simp add: tile_value_def requantised_def encode_tile_def is_rocm_def is_tq2_def)
  qed
qed

section \<open>Matrices\<close>

definition expert_bytes :: "nat \<Rightarrow> nat \<Rightarrow> nat \<Rightarrow> nat \<Rightarrow> nat \<Rightarrow> u32 \<Rightarrow> nat" where
  "expert_bytes R C tr tc gs q = ceil_div R tr * (ceil_div C tc * reader_tile_bytes tr tc gs q)"

lemma length_encode_tensor:
  assumes "known_format q" "shape_ok tr tc gs"
  shows "length (encode_tensor qo imw q fw NE R C tr tc gs) = NE * expert_bytes R C tr tc gs q"
  unfolding encode_tensor_def expert_bytes_def
  by (intro concat_blocks(1) length_encode_tile[OF assms])

lemma encode_tensor_readback:
  assumes fmt: "known_format q" "shape_ok tr tc gs" and at: "ei < NE" "r < R" "c < C"
    and ptr: "\<And>i. i < expert_bytes R C tr tc gs q \<Longrightarrow>
      p i = encode_tensor qo imw q fw NE R C tr tc gs ! (ei * expert_bytes R C tr tc gs q + i)"
  shows "matrix_value (q_fops qo) p C tr tc gs q r c = requantised qo imw q (\<lambda>k. fw (ei * R * C + k)) R C gs r c"
proof -
  have pos: "0 < tr" "0 < tc" using fmt(2) by (auto simp: shape_ok_def tile_shape_def)
  define tb where "tb = reader_tile_bytes tr tc gs q"
  define ntc where "ntc = ceil_div C tc"
  define ntr where "ntr = ceil_div R tr"
  have eb: "expert_bytes R C tr tc gs q = ntr * (ntc * tb)" by (simp add: expert_bytes_def tb_def ntc_def ntr_def)
  note tr_of = tile_of[OF pos(1) at(2)] and tc_of = tile_of[OF pos(2) at(3)]
  let ?a = "r div tr" and ?b = "c div tc"
  let ?f = "\<lambda>k. fw (ei * R * C + k)"
  have ab: "?a < ntr" "?b < ntc" using tr_of(1) tc_of(1) by (simp_all add: ntr_def ntc_def)
  note len1 = length_encode_tile[OF fmt, folded tb_def]
  have "tile_value (q_fops qo) tr tc gs q (adv p ((?a * ntc + ?b) * tb)) (r mod tr) (c mod tc) =
      requantised qo imw q ?f R C gs (?a * tr + r mod tr) (?b * tc + c mod tc)"
  proof (rule encode_tile_readback[OF fmt])
    show "r mod tr < tr" "c mod tc < tc" using pos by simp_all
    show "?a * tr + r mod tr < R" "?b * tc + c mod tc < C" using tr_of(2) tc_of(2) at by simp_all
    fix i assume "i < reader_tile_bytes tr tc gs q"
    then have i: "i < tb" by (simp add: tb_def)
    have i2: "?b * tb + i < ntc * tb" by (rule slot_bounds[OF ab(2) i])
    have i3: "?a * (ntc * tb) + (?b * tb + i) < ntr * (ntc * tb)" by (rule slot_bounds[OF ab(1) i2])
    have idx: "(?a * ntc + ?b) * tb + i = ?a * (ntc * tb) + (?b * tb + i)" by (simp add: algebra_simps)
    have "adv p ((?a * ntc + ?b) * tb) i =
        encode_tensor qo imw q fw NE R C tr tc gs ! (ei * (ntr * (ntc * tb)) + (?a * (ntc * tb) + (?b * tb + i)))"
      using ptr i3 by (simp only: adv_apply eb idx)
    also have "\<dots> = encode_tile qo imw q ?f R C (?a * tr) (?b * tc) tr tc gs ! i"
      unfolding encode_tensor_def ntr_def[symmetric] ntc_def[symmetric]
      by (simp only: concat_blocks(2)[OF concat_blocks(1)[OF concat_blocks(1)[OF len1]] at(1) i3]
          concat_blocks(2)[OF concat_blocks(1)[OF len1] ab(1) i2] concat_blocks(2)[OF len1 ab(2) i])
    finally show "adv p ((?a * ntc + ?b) * tb) i = encode_tile qo imw q ?f R C (?a * tr) (?b * tc) tr tc gs ! i" .
  qed
  then show ?thesis unfolding matrix_value_def tb_def[symmetric] ntc_def[symmetric] tr_of(2) tc_of(2) .
qed

section \<open>The size reserved is the size written\<close>

lemma tiles_of_word:
  assumes "n < 2 ^ 31" "t = 2 ^ k" "k \<le> 16" "0 < k"
  shows "unat ((of_nat n + of_nat t - 1 :: u32) div of_nat t) = ceil_div n t"
proof -
  have t: "t \<le> 2 ^ 16" "0 < t" using assms(2,3) power_increasing[of k 16 "2 :: nat"] by simp_all
  have sum: "(of_nat n + of_nat t - 1 :: u32) = of_nat (n + t - 1)" using t(2) by (simp add: of_nat_diff)
  have "unat (of_nat (n + t - 1) :: u32) = n + t - 1" "unat (of_nat t :: u32) = t"
    by (rule small_word, use assms(1) t in simp)+
  then show ?thesis unfolding sum unat_div ceil_div_def by simp
qed

text \<open>The bytes of a tile in the format's own geometry, TQ1 included.\<close>

definition tile_size :: "u32 \<Rightarrow> nat" where
  "tile_size q = (if q = 0 then 5120 else if q = 3 \<or> q = 6 then 2560 else if q = 7 then 2304 else if q = 2 then 4992
     else if q = 9 then 4608 else if q = 10 then 4352 else 16384)"

lemma writer_tile_size: "known_format q \<or> q = 2 \<Longrightarrow> unat (writer_tile_bytes 32 256 32 q) = tile_size q"
  by (auto simp: known_format_def writer_tile_bytes_def tile_size_def Let_def)

lemma length_standard_tile:
  assumes "known_format q \<or> q = 2"
  shows "length (encode_tile qo imw q fw R C r0 c0 32 256 32) = tile_size q"
proof (cases "q = 2")
  case True
  then show ?thesis by (simp add: encode_tile_def tile_tq1_def Let_def is_rocm_def tile_size_def)
next
  case False
  then have q: "known_format q" using assms by simp
  have "shape_ok 32 256 32" by (simp add: shape_ok_def tile_shape_def)
  from length_encode_tile[OF q this] show ?thesis
    using q by (auto simp: known_format_def reader_tile_bytes_def tile_size_def is_rocm_def is_tq2_def rocm_block_bytes_def ceil_div_def)
qed

text \<open>C7. The index reserves exactly what the tile loop writes: for Q4NX, TQ1, TQ2, TQ2NZ (16 or 8 bit scales), ROCmFP4
  (two scales or one) and half precision, \<open>onebp_tiled_size\<close>, computed with 32-bit counts and 64-bit products, is the number of bytes of the
  encoded matrix, so the offsets of the tensors behind it are right and the final size gate passes.\<close>

theorem reserved_size_exact:
  assumes "known_format q \<or> q = 2" "R < 2 ^ 31" "C < 2 ^ 31"
  shows "unat (tiled_size (of_nat R) (of_nat C) 32 256 32 q) = length (encode_tensor qo imw q fw 1 R C 32 256 32)"
proof -
  let ?n = "ceil_div R 32" and ?m = "ceil_div C 256"
  have n: "unat ((of_nat R + 32 - 1 :: u32) div 32) = ?n" using tiles_of_word[OF assms(2), of 32 5] by simp
  have m: "unat ((of_nat C + 256 - 1 :: u32) div 256) = ?m" using tiles_of_word[OF assms(3), of 256 8] by simp
  have nb: "?n \<le> 2 ^ 26" "?m \<le> 2 ^ 23" using assms(2,3) by (simp_all add: ceil_div_def)
  have ts: "tile_size q \<le> 2 ^ 14" by (simp add: tile_size_def)
  have nm: "?n * ?m \<le> 2 ^ 26 * 2 ^ 23" using nb by (rule mult_le_mono)
  have nmt: "?n * ?m * tile_size q \<le> 2 ^ 26 * 2 ^ 23 * 2 ^ 14" using nm ts by (rule mult_le_mono)
  have u: "unat (ucast w :: u64) = unat w" for w :: u32 using unsigned_less[of w, where ?'a = nat] by (simp add: unsigned_ucast_eq take_bit_eq_mod)
  have p: "unat (ucast ((of_nat R + 32 - 1 :: u32) div 32) * ucast ((of_nat C + 256 - 1 :: u32) div 256) :: u64) = ?n * ?m"
    using nm by (subst unat_mult_lem[THEN iffD1]) (simp_all only: u n m, simp)
  have "unat (tiled_size (of_nat R) (of_nat C) 32 256 32 q) = ?n * ?m * tile_size q"
    unfolding tiled_size_def using nmt by (subst unat_mult_lem[THEN iffD1]) (simp_all only: p writer_tile_size[OF assms(1)], simp)
  moreover have "length (encode_tensor qo imw q fw 1 R C 32 256 32) = 1 * (?n * (?m * tile_size q))"
    unfolding encode_tensor_def by (intro concat_blocks(1) length_standard_tile[OF assms(1)])
  ultimately show ?thesis by simp
qed

theorem reserved_size_exact_witness:
  "\<forall>(qo :: rat qops) imw fw. unat (tiled_size 70 300 32 256 32 7) = length (encode_tensor qo imw 7 fw 1 70 300 32 256 32)"
proof (intro allI)
  fix qo :: "rat qops" and imw fw
  show "unat (tiled_size 70 300 32 256 32 7) = length (encode_tensor qo imw 7 fw 1 70 300 32 256 32)"
    using reserved_size_exact[of 7 70 300 qo imw fw] by (simp add: known_format_def)
qed

text \<open>The loader has no branch for TQ1 or for 8-bit integers: it steps over their tiles with the size of Q4NX.\<close>

lemma loader_misreads_tq1: "reader_tile_bytes 32 256 32 2 = 5120 \<and> tile_size 2 = 4992"
  by (simp add: reader_tile_bytes_def tile_size_def is_rocm_def is_tq2_def)

section \<open>The engine reads what the converter meant\<close>

text \<open>A tensor of the converter holds the encoded weights: raw floats, a matrix or a stack of matrices.\<close>

definition holds_weights :: "'f qops \<Rightarrow> 'f buf option \<Rightarrow> header \<Rightarrow> 'f buf \<Rightarrow> tensor \<Rightarrow> bool" where
  "holds_weights qo imw h fw t \<longleftrightarrow>
     tn_rows t < 2 ^ 31 \<and> tn_cols t < 2 ^ 31 \<and> tn_experts t < 2 ^ 31 \<and>
     (if tn_ndim t = 1 then tn_payload t = concat (map (\<lambda>i. put32 (q_bits qo (fw i))) [0..<tn_cols t])
      else known_format (tn_quant t) \<and> (tn_ndim t = 2 \<and> tn_experts t = 1 \<or> tn_ndim t = 3 \<and> 0 < tn_experts t) \<and>
        tn_payload t = encode_tensor qo imw (tn_quant t) fw (tn_experts t) (tn_rows t) (tn_cols t)
          (unat (oh_tile_rows h)) (unat (oh_tile_cols h)) (unat (oh_group_size h)))"

definition weights_of :: "'f qops \<Rightarrow> 'f buf option \<Rightarrow> header \<Rightarrow> 'f buf \<Rightarrow> tensor \<Rightarrow> nat \<Rightarrow> 'f list" where
  "weights_of qo imw h fw t ei =
     (let R = tn_rows t; C = tn_cols t in
      map (\<lambda>i. requantised qo imw (tn_quant t) (\<lambda>k. fw (ei * R * C + k)) R C (unat (oh_group_size h)) (i div C) (i mod C)) [0..<R * C])"

definition engine_reads :: "'f qops \<Rightarrow> 'f buf option \<Rightarrow> header \<Rightarrow> 'f buf \<Rightarrow> 'f buf \<Rightarrow> npu_model \<Rightarrow> tensor \<Rightarrow> bool" where
  "engine_reads qo imw h fw junk m t \<longleftrightarrow>
     (let fo = q_fops qo; name = take 63 (tn_name t) in
      if tn_ndim t = 1 then npu_tensor_f32 fo junk m name = Some (map (\<lambda>i. f_bits fo (q_bits qo (fw i))) [0..<tn_cols t])
      else if tn_ndim t = 2 then npu_tensor_f32 fo junk m name = Some (weights_of qo imw h fw t 0)
      else list_all (\<lambda>ei. npu_tensor_f32_expert fo junk m name (int ei) = Some (weights_of qo imw h fw t ei)) [0..<tn_experts t])"

lemma dequant_matrix_map:
  assumes fmt: "known_format q" "shape_ok tr tc gs" and ei: "ei < NE"
    and ptr: "\<And>i. i < expert_bytes R C tr tc gs q \<Longrightarrow>
      p i = encode_tensor qo imw q fw NE R C tr tc gs ! (ei * expert_bytes R C tr tc gs q + i)"
  shows "map (dequant_matrix (q_fops qo) junk p R C tr tc gs q) [0..<R * C] =
    map (\<lambda>i. requantised qo imw q (\<lambda>k. fw (ei * R * C + k)) R C gs (i div C) (i mod C)) [0..<R * C]"
proof (rule map_cong[OF refl])
  fix i assume "i \<in> set [0..<R * C]"
  then have i: "i < R * C" by simp
  then have C: "0 < C" by (cases C) simp_all
  have rc: "i div C < R" "i mod C < C" using i C by (simp_all add: less_mult_imp_div_less)
  have sh: "tile_shape tc gs" "0 < tr" using fmt(2) by (simp_all add: shape_ok_def)
  have "dequant_matrix (q_fops qo) junk p R C tr tc gs q (i div C * C + i mod C) = matrix_value (q_fops qo) p C tr tc gs q (i div C) (i mod C)"
    by (rule dequant_matrix_elem[OF sh rc])
  also have "\<dots> = requantised qo imw q (\<lambda>k. fw (ei * R * C + k)) R C gs (i div C) (i mod C)"
    by (rule encode_tensor_readback[OF fmt ei rc ptr])
  finally show "dequant_matrix (q_fops qo) junk p R C tr tc gs q i =
      requantised qo imw q (\<lambda>k. fw (ei * R * C + k)) R C gs (i div C) (i mod C)" by simp
qed

lemma stored_nth:
  assumes "stored_at fl off len t" "i < len"
  shows "fl ! (off + i) = tn_payload t ! i"
proof -
  have "tn_payload t = take len (drop off fl)" "off + len \<le> length fl" using assms(1) by (simp_all add: stored_at_def)
  then show ?thesis using assms(2) by (simp only: nth_take nth_drop)
qed

lemma stored_length: "stored_at fl off len t \<Longrightarrow> length (tn_payload t) = len"
  unfolding stored_at_def by (metis add_diff_cancel_left' diff_le_mono length_drop length_take min.absorb2)

text \<open>A file of the converter is shorter than \<open>2 ^ 63\<close> bytes.\<close>

lemma onebp_file_short:
  assumes "layable ts" "length (oh_rest h) = 164"
  shows "length (onebp_file h ts) < 2 ^ 63"
proof -
  obtain "is" ds where lay: "lay_out [] 0 0 ts = (is, ds)" by (metis surj_pair)
  note parts = onebp_file_parts[OF assms(1) lay assms(2)]
  show ?thesis unfolding parts(4) using parts(3,6,7) by simp
qed

lemma npu_find_stored:
  assumes "list_all2 (npu_stored fl) ts es" "distinct (map (\<lambda>t. take 63 (tn_name t)) ts)" "t \<in> set ts"
  shows "\<exists>e. List.find (\<lambda>e. te_name e = take 63 (tn_name t)) es = Some e \<and> npu_stored fl t e"
  using assms
proof (induction rule: list_all2_induct)
  case (Cons u us e es)
  then show ?case by (cases "t = u") (auto simp: npu_stored_def)
qed simp

lemma word_sint: "n < 2 ^ 31 \<Longrightarrow> sint (of_nat n :: u32) = int n"
proof -
  assume n: "n < 2 ^ 31"
  have "uint (of_nat n :: u32) = int n" using n small_word[of n] unfolding uint_nat by simp
  then show ?thesis using n unfolding sint_uint by (simp add: signed_take_bit_int_eq_self)
qed

lemma put32_bytes: "put32 w = [ucast w, ucast (drop_bit 8 w), ucast (drop_bit 16 w), ucast (drop_bit 24 w)]"
proof -
  have b: "(of_nat (unat (drop_bit k w) mod 256) :: byte) = ucast (drop_bit k w)" for k
    by (rule word_unat_eq_iff[THEN iffD2]) (simp add: unat_of_nat unsigned_ucast_eq take_bit_eq_mod)
  have d: "unat w div 2 ^ k = unat (drop_bit k w)" for k by (simp add: unat_shift_right)
  have "put32 w = [of_nat (unat w mod 256), of_nat (unat w div 2 ^ 8 mod 256), of_nat (unat w div 2 ^ 16 mod 256), of_nat (unat w div 2 ^ 24 mod 256)]"
  proof -
    have four: "4 = Suc (Suc (Suc (Suc 0)))" by simp
    show ?thesis unfolding put32_def four le_bytes.simps div_mult2_eq[symmetric] by simp
  qed
  then show ?thesis unfolding d b using b[of 0] by simp
qed

lemma rd32_put: "(\<And>j. j < 4 \<Longrightarrow> p j = put32 w ! j) \<Longrightarrow> rd32 p = w"
proof -
  assume p: "\<And>j. j < 4 \<Longrightarrow> p j = put32 w ! j"
  have "rd32 p = ucast (ucast w :: byte) OR push_bit 8 (ucast (ucast (drop_bit 8 w) :: byte)) OR
      push_bit 16 (ucast (ucast (drop_bit 16 w) :: byte)) OR push_bit 24 (ucast (ucast (drop_bit 24 w) :: byte))"
    using p[of 0] p[of 1] p[of 2] p[of 3] by (simp add: rd32_def put32_bytes)
  also have "\<dots> = w"
  proof (rule bit_word_eqI)
    fix n assume "n < LENGTH(32)"
    then consider "n < 8" | "8 \<le> n" "n < 16" | "16 \<le> n" "n < 24" | "24 \<le> n" "n < 32" by fastforce
    then show "bit (ucast (ucast w :: byte) OR push_bit 8 (ucast (ucast (drop_bit 8 w) :: byte)) OR
      push_bit 16 (ucast (ucast (drop_bit 16 w) :: byte)) OR push_bit 24 (ucast (ucast (drop_bit 24 w) :: byte)) :: u32) n = bit w n"
      by cases (auto simp: bit_simps)
  qed
  finally show ?thesis .
qed

text \<open>C6. Both loaders read what the converter writes: a converted file opens in the NPU engine and on the host, and
  entry by entry both find the tensor's name (cut to 63 bytes), type, dimensions and exactly the bytes the
  converter wrote for it, also for tensors that share a block, provided equal digests mean equal blocks.\<close>

theorem converted_file_opens:
  assumes "layable ts" "writable h"
  shows "\<exists>n m. npu_open (onebp_file h ts) = Opened n \<and> host_load (onebp_file h ts) = Some m \<and>
    list_all2 (npu_stored (onebp_file h ts)) ts (nm_tensors n) \<and>
    list_all2 (host_stored (onebp_file h ts) (hm_data m)) ts (hm_tensors m)"
  using npu_opens[OF assms] host_opens[OF assms] by blast

text \<open>C5. Convert, then load: a matrix that \<open>gguf_to_onebp\<close> quantises to Q4NX, TQ2, TQ2NZ (16 or 8 bit scales),
  ROCmFP4 (two scales or one) or half precision, and lays out with any other tensors, comes back from the loader of
  the NPU engine with every element equal to its own code times the scale of its own group, also in partial tiles,
  in each matrix of a stack of experts and whatever the tile buffer held before; a vector comes back as it was.\<close>

theorem converted_weights_load:
  assumes "layable ts" "writable h" "distinct (map (\<lambda>t. take 63 (tn_name t)) ts)" "t \<in> set ts"
    and "shape_ok (unat (oh_tile_rows h)) (unat (oh_tile_cols h)) (unat (oh_group_size h))" "holds_weights qo imw h fw t"
  shows "\<exists>m. npu_open (onebp_file h ts) = Opened m \<and> engine_reads qo imw h fw junk m t"
proof -
  let ?fl = "onebp_file h ts" and ?fo = "q_fops qo"
  let ?tr = "unat (oh_tile_rows h)" and ?tc = "unat (oh_tile_cols h)" and ?gs = "unat (oh_group_size h)"
  obtain m where m: "npu_open ?fl = Opened m" "nm_file m = ?fl" "nm_header m = h\<lparr>oh_tensor_count := of_nat (length ts)\<rparr>"
    "list_all2 (npu_stored ?fl) ts (nm_tensors m)" using npu_opens[OF assms(1,2)] by blast
  obtain e where "npu_find m (take 63 (tn_name t)) = Some e" and st: "npu_stored ?fl t e"
    using npu_find_stored[OF m(4) assms(3,4)] by (auto simp: npu_find_def)
  then have find: "npu_find m (take 63 (tn_name t)) = Some e" by simp
  have short: "length ?fl < 2 ^ 63" by (rule onebp_file_short[OF assms(1)]) (use assms(2) in \<open>simp add: writable_def\<close>)
  have fsz: "unat (of_nat (length ?fl) :: u64) = length ?fl" by (rule small64) (use short in simp)
  have at: "stored_at ?fl (unat (te_offset e)) (unat (te_bytes e)) t" using st by (simp add: npu_stored_def)
  have bytes: "length (tn_payload t) = unat (te_bytes e)" by (rule stored_length[OF at])
  have within: "unat (te_offset e) + unat (te_bytes e) \<le> length ?fl" using at by (simp add: stored_at_def)
  have small: "tn_rows t < 2 ^ 31" "tn_cols t < 2 ^ 31" "tn_experts t < 2 ^ 31" using assms(6) by (simp_all add: holds_weights_def)
  have q: "te_quant e = tn_quant t" using st by (simp add: npu_stored_def)
  have ptr: "file_ptr ?fl (unat (te_offset e) + k) i = tn_payload t ! (k + i)" if "k + i < unat (te_bytes e)" for k i
    using stored_nth[OF at that] by (simp add: file_ptr_def add.assoc)
  have "engine_reads qo imw h fw junk m t"
  proof (cases "tn_ndim t = 1")
    case True
    then have d: "te_ndim e = 1" "nat (te_cols e) = tn_cols t"
      using st small by (auto simp: npu_stored_def written_dims_def npu_dims_def Let_def word_sint)
    have payload: "tn_payload t = concat (map (\<lambda>i. put32 (q_bits qo (fw i))) [0..<tn_cols t])"
      using assms(6) True by (simp add: holds_weights_def)
    have len4: "length (put32 (q_bits qo (fw i))) = 4" for i by simp
    have sz: "unat (te_bytes e) = tn_cols t * 4" using bytes unfolding payload concat_blocks(1)[OF len4] by simp
    have "rd32 (adv (file_ptr ?fl (unat (te_offset e))) (4 * i)) = q_bits qo (fw i)" if i: "i < tn_cols t" for i
    proof (rule rd32_put)
      fix j :: nat assume j: "j < 4"
      have "i * 4 + j < unat (te_bytes e)" unfolding sz by (rule slot_bounds[OF i j])
      then have "adv (file_ptr ?fl (unat (te_offset e))) (4 * i) j = tn_payload t ! (i * 4 + j)"
        using ptr[of 0 "i * 4 + j"] by (simp add: mult.commute)
      then show "adv (file_ptr ?fl (unat (te_offset e))) (4 * i) j = put32 (q_bits qo (fw i)) ! j"
        unfolding payload concat_blocks(2)[OF len4 i j] .
    qed
    then have "npu_tensor_f32 ?fo junk m (take 63 (tn_name t)) = Some (map (\<lambda>i. f_bits ?fo (q_bits qo (fw i))) [0..<tn_cols t])"
      unfolding npu_tensor_f32_def find option.case Let_def m(2) d by simp
    then show ?thesis using True by (simp add: engine_reads_def)
  next
    case False
    then have hw: "known_format (tn_quant t)" "0 < tn_experts t" "tn_ndim t = 2 \<longrightarrow> tn_experts t = 1" "tn_ndim t = 2 \<or> tn_ndim t = 3"
      and payload: "tn_payload t = encode_tensor qo imw (tn_quant t) fw (tn_experts t) (tn_rows t) (tn_cols t) ?tr ?tc ?gs"
      using assms(6) by (auto simp: holds_weights_def split: if_splits)
    define eb where "eb = expert_bytes (tn_rows t) (tn_cols t) ?tr ?tc ?gs (tn_quant t)"
    have sz: "unat (te_bytes e) = tn_experts t * eb"
      using bytes unfolding payload length_encode_tensor[OF hw(1) assms(5)] eb_def by simp
    have mat: "map (dequant_matrix ?fo junk (file_ptr ?fl (unat (te_offset e) + ei * eb)) (tn_rows t) (tn_cols t) ?tr ?tc ?gs (tn_quant t))
        [0..<tn_rows t * tn_cols t] = weights_of qo imw h fw t ei" if ei: "ei < tn_experts t" for ei
      unfolding weights_of_def Let_def
    proof (rule dequant_matrix_map[OF hw(1) assms(5) ei], fold eb_def payload)
      fix i assume "i < eb"
      then have "ei * eb + i < unat (te_bytes e)" unfolding sz by (rule slot_bounds[OF ei])
      then show "file_ptr ?fl (unat (te_offset e) + ei * eb) i = tn_payload t ! (ei * eb + i)" by (rule ptr)
    qed
    show ?thesis
    proof (cases "tn_ndim t = 2")
      case True
      then have d: "te_ndim e = 2" "nat (te_rows e) = tn_rows t" "nat (te_cols e) = tn_cols t"
        using st small by (auto simp: npu_stored_def written_dims_def npu_dims_def Let_def word_sint)
      have "unat (te_offset e + te_bytes e) = unat (te_offset e) + unat (te_bytes e)"
        using within short by (subst unat_add_lem[THEN iffD1]) simp_all
      then have "\<not> of_nat (length ?fl) < te_offset e + te_bytes e" using within fsz by (simp add: word_less_nat_alt)
      then have "npu_tensor_f32 ?fo junk m (take 63 (tn_name t)) = Some (weights_of qo imw h fw t 0)"
        unfolding npu_tensor_f32_def find option.case Let_def m(2,3) d q using mat[of 0] hw(2) by simp
      then show ?thesis using True by (simp add: engine_reads_def)
    next
      case False
      then have n3: "tn_ndim t = 3" using hw(4) by simp
      then have d: "te_ndim e = 3" "nat (te_rows e) = tn_rows t" "nat (te_cols e) = tn_cols t" "te_experts e = int (tn_experts t)"
        using st small by (auto simp: npu_stored_def written_dims_def npu_dims_def Let_def word_sint)
      have ne: "unat (word_of_int (int (tn_experts t)) :: u64) = tn_experts t" using small(3) small64[of "tn_experts t"] by simp
      then have per: "unat (te_bytes e div word_of_int (te_experts e)) = eb" unfolding d(4) unat_div ne sz using hw(2) by simp
      have "npu_tensor_f32_expert ?fo junk m (take 63 (tn_name t)) (int ei) = Some (weights_of qo imw h fw t ei)" if ei: "ei < tn_experts t" for ei
      proof -
        let ?per = "te_bytes e div word_of_int (te_experts e)"
        have le: "ei * eb + eb \<le> unat (te_bytes e)" unfolding sz using mult_le_mono1[of "Suc ei" "tn_experts t" eb] ei by simp
        have u: "unat (of_nat ei :: u64) = ei" using ei small(3) by (intro small64) simp
        have wi: "(word_of_int (int ei) :: u64) = of_nat ei" by simp
        have mul: "unat (of_nat ei * ?per) = ei * eb"
          using le within short by (subst unat_mult_lem[THEN iffD1]) (simp_all add: u per)
        have off: "unat (te_offset e + of_nat ei * ?per) = unat (te_offset e) + ei * eb"
          using le within short by (subst unat_add_lem[THEN iffD1]) (simp_all add: mul)
        have "unat (te_offset e + of_nat ei * ?per + ?per) = unat (te_offset e) + ei * eb + eb"
          using le within short by (subst unat_add_lem[THEN iffD1]) (simp_all add: off per)
        then have "\<not> of_nat (length ?fl) < te_offset e + of_nat ei * ?per + ?per"
          using le within fsz by (simp add: word_less_nat_alt)
        moreover have "\<not> (te_ndim e \<noteq> 3 \<or> int ei < 0 \<or> te_experts e \<le> int ei)" using d ei by simp
        ultimately show ?thesis
          unfolding npu_tensor_f32_expert_def find option.case Let_def m(2,3) q wi d(2,3) off using mat[OF ei] by simp
      qed
      then show ?thesis using n3 by (simp add: engine_reads_def list_all_iff)
    qed
  qed
  with m(1) show ?thesis by blast
qed

text \<open>A model of one stack of two 3 by 40 matrices in ROCmFP4, with tiles of 2 by 32.\<close>

definition sample_header :: header where
  "sample_header =
     \<lparr>oh_magic = 0x00504231, oh_version = 4, oh_arch = 0, oh_quant = 9, oh_scale_type = 0, oh_hidden_size = 40,
      oh_num_layers = 1, oh_num_heads = 1, oh_num_kv_heads = 1, oh_head_dim = 40, oh_intermediate_size = 40,
      oh_vocab_size = 3, oh_max_seq_len = 8, oh_tile_rows = 2, oh_tile_cols = 32, oh_group_size = 32, oh_has_q_norm = 0,
      oh_has_k_norm = 0, oh_has_bias = 0, oh_rope_theta = 10000, oh_bos = 0, oh_eos = 1, oh_tensor_count = 0,
      oh_rest = replicate 164 0\<rparr>"

definition sample_tensor :: "'f qops \<Rightarrow> 'f buf \<Rightarrow> tensor" where
  "sample_tensor qo fw =
     \<lparr>tn_name = [119], tn_ndim = 3, tn_rows = 3, tn_cols = 40, tn_experts = 2, tn_tiled = 288, tn_quant = 9,
      tn_source = [], tn_payload = encode_tensor qo None 9 fw 2 3 40 2 32 32\<rparr>"

lemma sample_shape: "known_format 9" "shape_ok 2 32 32"
  by (simp_all add: known_format_def shape_ok_def tile_shape_def)

lemma sample_layable: "layable [sample_tensor qo fw]"
proof -
  have "length (encode_tensor qo None 9 fw 2 3 40 2 32 32) = 288"
    by (simp add: length_encode_tensor[OF sample_shape] expert_bytes_def ceil_div_def reader_tile_bytes_def is_rocm_def rocm_block_bytes_def)
  then show ?thesis by (simp add: layable_def sized_def same_blocks_def total_tiled_def sample_tensor_def)
qed

lemma sample_writable: "writable sample_header"
  by (simp add: writable_def header_valid_def sample_header_def)

theorem converted_weights_load_witness:
  "\<forall>(qo :: rat qops) fw junk. \<exists>m. npu_open (onebp_file sample_header [sample_tensor qo fw]) = Opened m \<and>
     engine_reads qo None sample_header fw junk m (sample_tensor qo fw)"
proof (intro allI)
  fix qo :: "rat qops" and fw junk
  show "\<exists>m. npu_open (onebp_file sample_header [sample_tensor qo fw]) = Opened m \<and>
     engine_reads qo None sample_header fw junk m (sample_tensor qo fw)"
    by (rule converted_weights_load[OF sample_layable sample_writable])
      (simp_all add: sample_header_def sample_tensor_def holds_weights_def sample_shape)
qed

theorem converted_file_opens_witness:
  "\<forall>(qo :: rat qops) fw. \<exists>n m. npu_open (onebp_file sample_header [sample_tensor qo fw]) = Opened n \<and>
     host_load (onebp_file sample_header [sample_tensor qo fw]) = Some m \<and>
     list_all2 (npu_stored (onebp_file sample_header [sample_tensor qo fw])) [sample_tensor qo fw] (nm_tensors n) \<and>
     list_all2 (host_stored (onebp_file sample_header [sample_tensor qo fw]) (hm_data m)) [sample_tensor qo fw] (hm_tensors m)"
  using converted_file_opens[OF sample_layable sample_writable] by blast

end
