(* ===== verification/Q4nxTiles.thy ===== *)
theory Q4nxTiles
  imports OnebpByteTiles
begin

text \<open>
  The 5120-byte tiles of FLM's Q4NX files: the decoders of \<open>engine/npu/src/dequant_q4nx.cpp\<close>, the readers of
  \<open>engine/npu/src/q4nx_raw.h\<close> that keep the 4-bit integers, and \<open>q4nx_tile_to_onebp\<close> of \<open>src/gguf_to_onebp.cpp\<close>, which
  moves a tile into the layout of \<open>.1bp\<close> files. A file is a pointer; \<open>None\<close> is a division by zero. The \<open>int\<close>
  indices of the code are unbounded here, and the allocation of the output succeeds.
\<close>

unbundle bit_operations_syntax

section \<open>Decoders\<close>

record 'f decoded =
  dq_rows :: nat
  dq_cols :: nat
  dq_out :: "'f buf"

definition bf16_at :: "'f fops \<Rightarrow> ptr \<Rightarrow> 'f" where
  "bf16_at fo p = bf16_to_fp32 fo (rd16 p)"

text \<open>A scale or zero point that is not finite or above 100 counts as 0.\<close>

definition sane :: "'f qops \<Rightarrow> 'f \<Rightarrow> 'f" where
  "sane qo x = (if \<not> q_finite qo x \<or> q_less qo (q_rat qo 100) (q_abs qo x) then q_rat qo 0 else x)"

definition nibble :: "nat \<Rightarrow> byte \<Rightarrow> byte" where
  "nibble sel b = (if sel = 0 then b AND 0x0F else drop_bit 4 b AND 0x0F)"

text \<open>The nibble of a row and a column: two lanes of 16 rows, eight bytes a column.\<close>

definition lane_nibble :: "nat \<Rightarrow> ptr \<Rightarrow> nat \<Rightarrow> nat \<Rightarrow> byte" where
  "lane_nibble tile_cols packed lr col = nibble (lr mod 2) (packed (lr div 16 * (tile_cols * 8) + (col * 8 + lr mod 16 div 2)))"

definition signed4 :: "byte \<Rightarrow> int" where
  "signed4 q = (if q < 8 then uint q else uint q - 16)"

text \<open>Where the element of a tile goes: tiles of 32 rows and \<open>tc\<close> columns, \<open>ntc\<close> to a row of tiles, in lines of \<open>K\<close>.\<close>

definition store_at :: "nat \<Rightarrow> nat \<Rightarrow> nat \<Rightarrow> nat \<Rightarrow> nat \<Rightarrow> nat \<Rightarrow> nat" where
  "store_at ntc K tc ir lr col = (ir div ntc * 32 + lr) * K + (ir mod ntc * tc + col)"

definition tile_loop :: "nat \<Rightarrow> nat \<Rightarrow> nat \<Rightarrow> nat \<Rightarrow> (nat \<Rightarrow> nat \<Rightarrow> nat \<Rightarrow> 'f) \<Rightarrow> 'f buf \<Rightarrow> 'f buf" where
  "tile_loop n ntc K tc v =
     for_loop [0..<n] (\<lambda>ir out.
       for_loop [0..<32] (\<lambda>lr out.
         for_loop [0..<tc] (\<lambda>col out. out(store_at ntc K tc ir lr col := v ir lr col)) out) out)"

definition decode_tiles :: "'f fops \<Rightarrow> nat \<Rightarrow> nat \<Rightarrow> nat \<Rightarrow> (nat \<Rightarrow> nat \<Rightarrow> nat \<Rightarrow> 'f) \<Rightarrow> 'f decoded option" where
  "decode_tiles fo i8_rows in_features tile_cols v =
     (let ntc = in_features div tile_cols in
      if ntc = 0 then None
      else Some \<lparr>dq_rows = i8_rows div ntc * 32, dq_cols = ntc * tile_cols,
        dq_out = tile_loop i8_rows ntc (ntc * tile_cols) tile_cols v (\<lambda>_. f_rat fo 0)\<rparr>)"

definition dequant_i8_core :: "'f qops \<Rightarrow> ptr \<Rightarrow> nat \<Rightarrow> nat \<Rightarrow> nat \<Rightarrow> 'f decoded option" where
  "dequant_i8_core qo data i8_rows in_features tile_cols =
     (let fo = q_fops qo in
      decode_tiles fo i8_rows in_features tile_cols (\<lambda>ir lr col.
        let rd = adv data (ir * (tile_cols * 20)); group = col div 32;
            scale = sane qo (bf16_at fo (adv rd ((group * 32 + lr) * 2)));
            zp = sane qo (bf16_at fo (adv (adv rd (tile_cols * 2)) ((group * 32 + lr) * 2)));
            val = lane_nibble tile_cols (adv rd (tile_cols * 4)) lr col
        in f_add fo (f_mul fo (f_int fo (uint val)) scale) zp))"

definition dequant_i8_to_float_ex :: "'f qops \<Rightarrow> ptr \<Rightarrow> nat \<Rightarrow> nat \<Rightarrow> 'f decoded option" where
  "dequant_i8_to_float_ex qo data i8_rows in_features = dequant_i8_core qo data i8_rows in_features 256"

definition dequant_i8_to_float :: "'f qops \<Rightarrow> ptr \<Rightarrow> nat \<Rightarrow> 'f decoded option" where
  "dequant_i8_to_float qo data i8_rows = dequant_i8_to_float_ex qo data i8_rows 1024"

definition dequant_i8_to_float_geom :: "'f qops \<Rightarrow> ptr \<Rightarrow> nat \<Rightarrow> nat \<Rightarrow> int \<Rightarrow> 'f decoded option" where
  "dequant_i8_to_float_geom qo data i8_rows in_features tile_cols =
     dequant_i8_core qo data i8_rows in_features (if 0 < tile_cols then nat tile_cols else 256)"

text \<open>Signed nibbles, with the scales by rows or by groups.\<close>

definition signed_value :: "'f qops \<Rightarrow> ptr \<Rightarrow> nat \<Rightarrow> nat \<Rightarrow> nat \<Rightarrow> 'f" where
  "signed_value qo rd k lr col =
     (let fo = q_fops qo; scale = sane qo (bf16_at fo (adv rd (k * 2))); zp = sane qo (bf16_at fo (adv (adv rd 512) (k * 2)));
          val = signed4 (lane_nibble 256 (adv rd 1024) lr col)
      in f_add fo (f_mul fo (f_int fo val) scale) zp)"

definition dequant_i8_signed_to_float_ex :: "'f qops \<Rightarrow> ptr \<Rightarrow> nat \<Rightarrow> nat \<Rightarrow> 'f decoded option" where
  "dequant_i8_signed_to_float_ex qo data i8_rows in_features =
     decode_tiles (q_fops qo) i8_rows in_features 256 (\<lambda>ir lr col.
       let group = col div 32 in signed_value qo (adv data (ir * 5120)) (lr * 8 + group) lr col)"

definition dequant_i8_group_signed_to_float_ex :: "'f qops \<Rightarrow> ptr \<Rightarrow> nat \<Rightarrow> nat \<Rightarrow> 'f decoded option" where
  "dequant_i8_group_signed_to_float_ex qo data i8_rows in_features =
     decode_tiles (q_fops qo) i8_rows in_features 256 (\<lambda>ir lr col.
       let group = col div 32 in signed_value qo (adv data (ir * 5120)) (group * 32 + lr) lr col)"

definition dequant_q8_0_to_float_ex :: "'f qops \<Rightarrow> ptr \<Rightarrow> nat \<Rightarrow> nat \<Rightarrow> 'f decoded option" where
  "dequant_q8_0_to_float_ex qo data i8_rows in_features =
     (let fo = q_fops qo in
      decode_tiles fo i8_rows in_features 256 (\<lambda>ir lr col.
        let rd = adv data (ir * 8704); group = col div 32; scale = sane qo (bf16_at fo (adv rd ((group * 32 + lr) * 2)));
            val = adv (adv rd 512) (lr * 256 + col) 0
        in f_mul fo (f_int fo (sint val)) scale))"

text \<open>The tiles of 4736 bytes. \<open>nib_mode\<close> and \<open>mode\<close> are the environment's switches; the selector of the nibble is a
  variable of the row that \<open>nib_mode\<close> 3 flips at every column.\<close>

definition i8_formula :: "'f qops \<Rightarrow> int \<Rightarrow> byte \<Rightarrow> byte \<Rightarrow> byte \<Rightarrow> 'f \<Rightarrow> 'f \<Rightarrow> 'f" where
  "i8_formula qo mode nib sb mb rs rm =
     (let mul = q_mul qo; add = q_add qo; sub = q_sub qo; num = (\<lambda>k. f_int (q_fops qo) k); q = num (uint nib); q8 = sub q (num 8);
          su = num (uint sb); mu = num (uint mb); ss = num (sint sb); ms = num (sint mb) in
      if mode \<ge> 20 then
        (if mode = 20 then add (mul (mul q8 ss) rs) rm
         else if mode = 21 then mul (add (mul q ss) ms) rs
         else if mode = 22 then add (mul (mul q ss) rs) rm
         else add (mul (add (mul q ss) ms) rs) rm)
      else if mode \<ge> 10 then
        (if mode = 10 then add (mul (mul q8 su) rs) rm
         else if mode = 11 then add (mul (add (mul q8 su) mu) rs) rm
         else if mode = 12 then add (mul (mul (sub q mu) su) rs) rm
         else if mode = 13 then add (mul (mul (sub q (sub mu (num 128))) su) rs) rm
         else if mode = 14 then mul (mul q8 su) rs
         else if mode = 15 then add (mul (mul q8 (sub su (num 128))) rs) rm
         else add (mul (add (mul q su) mu) rs) rm)
      else
        (let (s, m) = (if mode = 1 then (sub su (num 128), sub mu (num 128)) else if mode = 2 then (su, mu) else (ss, ms))
         in add (add (mul (mul q s) rs) (mul m rs)) rm))"

definition i8_row :: "'f qops \<Rightarrow> int \<Rightarrow> int \<Rightarrow> ptr \<Rightarrow> nat \<Rightarrow> (nat \<Rightarrow> nat) \<Rightarrow> 'f buf \<Rightarrow> 'f buf" where
  "i8_row qo nib_mode mode rd lr ix out =
     (let fo = q_fops qo; rs = bf16_at fo (adv rd (4608 + lr * 2)); rm = bf16_at fo (adv rd (4672 + lr * 2)) in
      snd (for_loop [0..<256] (\<lambda>col (sel, out).
        let sel = (if nib_mode = 3 then 1 - sel else sel);
            q = (if nib_mode = 1 then nibble (col mod 2) (rd (lr * 128 + col div 2))
                 else if nib_mode = 2 then nibble (lr mod 2) (rd (col * 16 + lr div 2))
                 else nibble sel (rd (lr div 16 * 2048 + (col * 8 + lr mod 16 div 2))))
        in (sel, out(ix col := i8_formula qo mode q (rd (4096 + col)) (rd (4352 + col)) rs rm))) (lr mod 2, out)))"

definition dequant_i8_4736_to_float :: "'f qops \<Rightarrow> int \<Rightarrow> int \<Rightarrow> ptr \<Rightarrow> nat \<Rightarrow> nat \<Rightarrow> 'f decoded option" where
  "dequant_i8_4736_to_float qo nib_mode mode data i8_rows in_features =
     (let ntc = in_features div 256; ntr = (if 0 < ntc then i8_rows div ntc else 0) in
      if ntc = 0 \<and> 0 < i8_rows then None
      else Some \<lparr>dq_rows = ntr * 32, dq_cols = ntc * 256, dq_out =
        for_loop [0..<i8_rows] (\<lambda>ir out.
          for_loop [0..<32] (\<lambda>lr out.
            i8_row qo nib_mode mode (adv data (ir * 4736)) lr
              (store_at ntc (ntc * 256) 256 ir lr) out) out) (\<lambda>_. q_rat qo 0)\<rparr>)"

section \<open>Readers that keep the integers\<close>

record 'f raw_q4 =
  rw_rows :: nat
  rw_cols :: nat
  rw_q4 :: "int buf"
  rw_scl :: "'f buf"
  rw_zp :: "'f buf"

definition new_raw :: "'f fops \<Rightarrow> nat \<Rightarrow> nat \<Rightarrow> 'f raw_q4" where
  "new_raw fo rows cols = \<lparr>rw_rows = rows, rw_cols = cols, rw_q4 = (\<lambda>_. 0), rw_scl = (\<lambda>_. f_rat fo 0), rw_zp = (\<lambda>_. f_rat fo 0)\<rparr>"

definition set_q4 :: "nat \<Rightarrow> int \<Rightarrow> 'f raw_q4 \<Rightarrow> 'f raw_q4" where
  "set_q4 i q t = t\<lparr>rw_q4 := (rw_q4 t)(i := q)\<rparr>"

definition set_group :: "nat \<Rightarrow> 'f \<Rightarrow> 'f \<Rightarrow> 'f raw_q4 \<Rightarrow> 'f raw_q4" where
  "set_group i s z t = t\<lparr>rw_scl := (rw_scl t)(i := s), rw_zp := (rw_zp t)(i := z)\<rparr>"

definition folded :: "'f fops \<Rightarrow> 'f \<Rightarrow> 'f \<Rightarrow> 'f" where
  "folded fo s z = f_add fo (f_mul fo (f_int fo 8) s) z"

text \<open>The loop of the two readers of tiles in the order of the file: an integer per element, scale and zero point per group.\<close>

definition raw_loop :: "nat \<Rightarrow> nat \<Rightarrow> nat \<Rightarrow> (nat \<Rightarrow> nat \<Rightarrow> nat \<Rightarrow> int) \<Rightarrow> (nat \<Rightarrow> nat \<Rightarrow> nat \<Rightarrow> 'f \<times> 'f) \<Rightarrow> 'f raw_q4 \<Rightarrow> 'f raw_q4" where
  "raw_loop n ntc cols q sz =
     for_loop [0..<n] (\<lambda>ir t.
       for_loop [0..<32] (\<lambda>lr t.
         let t = for_loop [0..<256] (\<lambda>c t. set_q4 (store_at ntc cols 256 ir lr c) (q ir lr c) t) t
         in for_loop [0..<8] (\<lambda>g t. let (s, z) = sz ir lr g in set_group (store_at ntc (cols div 32) 8 ir lr g) s z t) t) t)"

definition read_q4nx_raw :: "'f fops \<Rightarrow> ptr \<Rightarrow> nat \<Rightarrow> nat \<Rightarrow> 'f raw_q4 option" where
  "read_q4nx_raw fo rd i8_rows cols =
     (let ntc = cols div 256 in
      if ntc = 0 \<and> 0 < i8_rows then None
      else Some (raw_loop i8_rows ntc cols
        (\<lambda>ir lr c. signed4 (lane_nibble 256 (adv rd (ir * 5120 + 1024)) lr c))
        (\<lambda>ir lr g. (bf16_at fo (adv rd (ir * 5120 + (lr * 8 + g) * 2)), bf16_at fo (adv rd (ir * 5120 + 512 + (lr * 8 + g) * 2))))
        (new_raw fo (i8_rows * 32) cols)))"

definition read_q4nx_raw_asym :: "'f fops \<Rightarrow> ptr \<Rightarrow> nat \<Rightarrow> nat \<Rightarrow> 'f raw_q4 option" where
  "read_q4nx_raw_asym fo rd i8_rows cols =
     (let ntc = cols div 256 in
      if ntc = 0 \<and> 0 < i8_rows then None
      else Some (raw_loop i8_rows ntc cols
        (\<lambda>ir lr c. uint (lane_nibble 256 (adv rd (ir * 5120 + 1024)) lr c) - 8)
        (\<lambda>ir lr g.
          let s = bf16_at fo (adv rd (ir * 5120 + (g * 32 + lr) * 2)); z = bf16_at fo (adv rd (ir * 5120 + 512 + (g * 32 + lr) * 2))
          in (s, folded fo s z))
        (new_raw fo (i8_rows * 32) cols)))"

definition read_q4nx_raw_1bp :: "'f fops \<Rightarrow> ptr \<Rightarrow> nat \<Rightarrow> nat \<Rightarrow> 'f raw_q4" where
  "read_q4nx_raw_1bp fo tiles rows cols =
     (let ntc = cols div 256 in
      for_loop [0..<ceil_div rows 32] (\<lambda>tile_row t.
        for_loop [0..<ntc] (\<lambda>tile_col t.
          let tile = adv tiles ((tile_row * ntc + tile_col) * 5120) in
          for_loop (while_below (tile_row * 32) rows [0..<32]) (\<lambda>lr t.
            let row = tile_row * 32 + lr;
                t = for_loop (while_below (tile_col * 256) cols [0..<256]) (\<lambda>c t.
                      let b = tile (1024 + (lr * 256 + c) div 2); v = (if c mod 2 = 0 then b AND 0x0F else drop_bit 4 b AND 0x0F)
                      in set_q4 (row * cols + (tile_col * 256 + c)) (uint v - 8) t) t
            in for_loop (while_below (tile_col * 8) (cols div 32) [0..<8]) (\<lambda>g t.
                 let s = q4nx_scale fo (rd16 (adv tile (2 * (lr * 8 + g)))); z = bf16_at fo (adv tile (512 + 2 * (lr * 8 + g)))
                 in set_group (row * (cols div 32) + (tile_col * 8 + g)) s (folded fo s z) t) t) t) t)
        (new_raw fo rows cols))"

section \<open>Into the layout of 1BP\<close>

text \<open>One nibble of the packed part, by parity of the column.\<close>

definition set_nibble :: "nat \<Rightarrow> byte \<Rightarrow> byte buf \<Rightarrow> byte buf" where
  "set_nibble k q dst =
     (let i = 1024 + k div 2 in
      if even k then dst(i := dst i AND 0xF0 OR q AND 0x0F) else dst(i := dst i AND 0x0F OR push_bit 4 (q AND 0x0F)))"

definition q4nx_tile_to_onebp :: "ptr \<Rightarrow> byte buf" where
  "q4nx_tile_to_onebp src =
     (let dst = for_loop [0..<32] (\<lambda>r dst.
            for_loop [0..<8] (\<lambda>g dst.
              put16 (512 + 2 * (r * 8 + g)) (rd16 (adv src (512 + 2 * (g * 32 + r))))
                (put16 (2 * (r * 8 + g)) (rd16 (adv src (2 * (g * 32 + r)))) dst)) dst) (\<lambda>_. 0)
      in for_loop [0..<32] (\<lambda>lr dst.
           for_loop [0..<256] (\<lambda>col dst.
             let raw = src (1024 + (lr div 16 * 2048 + (col * 8 + lr mod 16 div 2)));
                 q = (if lr mod 16 mod 2 = 0 then raw AND 0x0F else drop_bit 4 raw)
             in set_nibble (lr * 256 + col) q dst) dst) dst)"

text \<open>The bytes that the converter writes for the bytes of a tensor that the index holds room for.\<close>

definition transform_tiles :: "bstr \<Rightarrow> nat \<Rightarrow> bstr" where
  "transform_tiles raw tiled =
     (let n = min (length raw) tiled; ntiles = n div 5120 in
      map (\<lambda>i. if i < ntiles * 5120 then q4nx_tile_to_onebp (file_ptr raw (i div 5120 * 5120)) (i mod 5120) else raw ! i) [0..<n])"

section \<open>The loops over tiles\<close>

definition grid_fn :: "nat \<Rightarrow> nat \<Rightarrow> (nat \<Rightarrow> nat \<Rightarrow> nat \<Rightarrow> nat \<Rightarrow> 'f) \<Rightarrow> 'f buf" where
  "grid_fn K tc V = (\<lambda>x. V (x div K div 32) (x mod K div tc) (x div K mod 32) (x mod K mod tc))"

lemma grid_fn_at:
  assumes "lr < 32" "c < tc" "b * tc + c < K"
  shows "grid_fn K tc V ((a * 32 + lr) * K + (b * tc + c)) = V a b lr c"
  unfolding grid_fn_def using div_mod_at[OF assms(3), of "a * 32 + lr"] div_mod_at[OF assms(1), of a] div_mod_at[OF assms(2), of b]
  by (simp only:)

definition grid_cells :: "nat \<Rightarrow> nat \<Rightarrow> nat \<Rightarrow> nat \<Rightarrow> nat set" where
  "grid_cells K tc a b = (\<Union>lr < 32. \<Union>c < tc. {(a * 32 + lr) * K + (b * tc + c)})"

lemma tile_loop_override:
  assumes "ntc * tc \<le> K" "0 < ntc"
  shows "tile_loop n ntc K tc v out =
    override_on out (grid_fn K tc (\<lambda>a b. v (a * ntc + b))) (\<Union>ir < n. grid_cells K tc (ir div ntc) (ir mod ntc))"
proof -
  let ?w = "grid_fn K tc (\<lambda>a b. v (a * ntc + b))"
  have "for_loop [0..<32] (\<lambda>lr out. for_loop [0..<tc] (\<lambda>col out. out(store_at ntc K tc ir lr col := v ir lr col)) out) out =
      override_on out ?w (grid_cells K tc (ir div ntc) (ir mod ntc))" for ir out
    unfolding grid_cells_def
  proof (rule two_level_override[of 32 "\<lambda>_. tc"])
    fix lr c :: nat and s :: "'a buf" assume at: "lr < 32" "c < tc"
    have "ir mod ntc * tc + c < ntc * tc" using assms(2) at(2) by (intro slot_bounds) simp_all
    then have b: "ir mod ntc * tc + c < K" using assms(1) by simp
    have "?w (store_at ntc K tc ir lr c) = v (ir div ntc * ntc + ir mod ntc) lr c"
      unfolding store_at_def by (rule grid_fn_at[OF at b])
    then show "s(store_at ntc K tc ir lr c := v ir lr c) = override_on s ?w {(ir div ntc * 32 + lr) * K + (ir mod ntc * tc + c)}"
      unfolding store_at_def by (intro upd_override_on) (simp only: div_mult_mod_eq)
  qed
  then show ?thesis unfolding tile_loop_def
    using for_loop_override[of "[0..<n]" _ ?w "\<lambda>ir. grid_cells K tc (ir div ntc) (ir mod ntc)"]
    by (simp add: lessThan_atLeast0)
qed

lemma tile_cells:
  assumes "0 < ntc"
  shows "(\<Union>ir < m * ntc. grid_cells K tc (ir div ntc) (ir mod ntc)) = (\<Union>a < m. \<Union>b < ntc. grid_cells K tc a b)" (is "?A = ?B")
proof
  show "?A \<subseteq> ?B"
  proof
    fix x assume "x \<in> ?A"
    then obtain ir where ir: "ir < m * ntc" "x \<in> grid_cells K tc (ir div ntc) (ir mod ntc)" by blast
    show "x \<in> ?B" by (rule UN_I[of "ir div ntc"], use ir assms in \<open>simp add: less_mult_imp_div_less\<close>) (rule UN_I[of "ir mod ntc"], use ir assms in simp_all)
  qed
  show "?B \<subseteq> ?A"
  proof
    fix x assume "x \<in> ?B"
    then obtain a b where ab: "a < m" "b < ntc" "x \<in> grid_cells K tc a b" by blast
    show "x \<in> ?A"
      by (rule UN_I[of "a * ntc + b"]) (use ab slot_bounds[OF ab(1,2)] div_mod_at[OF ab(2), of a] in \<open>simp_all only: lessThan_iff\<close>)
  qed
qed

lemma tile_loop_at:
  assumes "ntc * tc \<le> K" "0 < ntc" "a * ntc + b < n" "b < ntc" "lr < 32" "c < tc"
  shows "tile_loop n ntc K tc v out ((a * 32 + lr) * K + (b * tc + c)) = v (a * ntc + b) lr c"
proof -
  have k: "b * tc + c < K" using slot_bounds[OF assms(4,6)] assms(1) by simp
  have "(a * 32 + lr) * K + (b * tc + c) \<in> grid_cells K tc a b" unfolding grid_cells_def using assms(5,6) by blast
  then have "(a * 32 + lr) * K + (b * tc + c) \<in> (\<Union>ir < n. grid_cells K tc (ir div ntc) (ir mod ntc))"
    by (intro UN_I[of "a * ntc + b"]) (use assms(3) div_mod_at[OF assms(4), of a] in \<open>simp_all only: lessThan_iff\<close>)
  then show ?thesis unfolding tile_loop_override[OF assms(1,2)] by (simp only: override_on_apply_in grid_fn_at[OF assms(5,6) k])
qed

section \<open>The bytes of a converted tile\<close>

lemma for_loop_proj: "(\<And>k s. p (f k s) = g k (p s)) \<Longrightarrow> p (for_loop ks f s) = for_loop ks g (p s)"
  by (induction ks arbitrary: s) (simp_all add: for_loop_Nil for_loop_Cons)

lemma for_loop_keeps: "(\<And>k s. f k s x = s x) \<Longrightarrow> for_loop ks f s x = s x"
  by (induction ks arbitrary: s) (simp_all add: for_loop_Nil for_loop_Cons)

text \<open>The packed part as nibbles.\<close>

definition nibbles_of :: "byte buf \<Rightarrow> byte buf" where
  "nibbles_of p = (\<lambda>k. if even k then p (1024 + k div 2) AND 0x0F else drop_bit 4 (p (1024 + k div 2)))"

lemma nibble_masks:
  "(d AND 0xF0 OR q AND 0x0F) AND 0x0F = (q AND 0x0F :: byte)" "drop_bit 4 (d AND 0xF0 OR q AND 0x0F) = (drop_bit 4 d :: byte)"
  "(d AND 0x0F OR push_bit 4 (q AND 0x0F)) AND 0x0F = (d AND 0x0F :: byte)"
  "drop_bit 4 (d AND 0x0F OR push_bit 4 (q AND 0x0F)) = (q AND 0x0F :: byte)"
proof -
  have m: "(0x0F :: byte) = mask 4" "(0xF0 :: byte) = NOT (mask 4)" by (simp_all add: mask_eq_exp_minus_1)
  show "(d AND 0xF0 OR q AND 0x0F) AND 0x0F = (q AND 0x0F :: byte)" unfolding m
    by (rule bit_word_eqI) (auto simp: bit_simps simp del: mask_numeral simp flip: not_le)
  show "drop_bit 4 (d AND 0xF0 OR q AND 0x0F) = (drop_bit 4 d :: byte)" unfolding m
    by (rule bit_word_eqI) (auto simp: bit_simps simp del: mask_numeral simp flip: not_le dest: bit_imp_le_length)
  show "(d AND 0x0F OR push_bit 4 (q AND 0x0F)) AND 0x0F = (d AND 0x0F :: byte)" unfolding m
    by (rule bit_word_eqI) (auto simp: bit_simps simp del: mask_numeral simp flip: not_le)
  show "drop_bit 4 (d AND 0x0F OR push_bit 4 (q AND 0x0F)) = (q AND 0x0F :: byte)" unfolding m
    by (rule bit_word_eqI) (auto simp: bit_simps simp del: mask_numeral simp flip: not_le)
qed

lemma nibbles_set: "nibbles_of (set_nibble j q p) = (nibbles_of p)(j := q AND 0x0F)"
proof
  fix k
  have at: "k div 2 = j div 2 \<Longrightarrow> even k = even j \<Longrightarrow> k = j" by presburger
  show "nibbles_of (set_nibble j q p) k = ((nibbles_of p)(j := q AND 0x0F)) k"
  proof (cases "k div 2 = j div 2")
    case True
    note defs = nibbles_of_def set_nibble_def Let_def nibble_masks fun_upd_apply if_True if_False simp_thms True
    show ?thesis
    proof (cases "k = j")
      case True
      then show ?thesis by (cases "even j") (simp_all only: defs)
    next
      case False
      then have "even k \<longleftrightarrow> odd j" using at True by blast
      then show ?thesis using False by (cases "even j") (simp_all only: defs)
    qed
  next
    case False
    then have "set_nibble j q p (1024 + k div 2) = p (1024 + k div 2)" "k \<noteq> j" by (auto simp: set_nibble_def Let_def)
    then show ?thesis unfolding nibbles_of_def by simp
  qed
qed

lemma set_nibble_below: "x < 1024 \<Longrightarrow> set_nibble j q p x = p x"
  by (simp add: set_nibble_def Let_def)

lemma lane_nibble_alt:
  "(if lr mod 16 mod 2 = 0 then b AND 0x0F else drop_bit 4 b) AND 0x0F = nibble (lr mod 2) (b :: byte)"
proof -
  have "lr mod 16 mod 2 = lr mod 2" by (rule mod_mod_cancel) simp
  then show ?thesis by (simp add: nibble_def and.assoc)
qed

lemma converted_tile_nibble:
  assumes "lr < 32" "c < 256"
  shows "nibbles_of (q4nx_tile_to_onebp src) (lr * 256 + c) = lane_nibble 256 (adv src 1024) lr c"
proof -
  let ?raw = "\<lambda>lr c. src (1024 + (lr div 16 * 2048 + (c * 8 + lr mod 16 div 2)))"
  let ?q = "\<lambda>lr c. if lr mod 16 mod 2 = 0 then ?raw lr c AND 0x0F else drop_bit 4 (?raw lr c)"
  have "nibbles_of (for_loop [0..<256] (\<lambda>col. set_nibble (lr * 256 + col) (?q lr col)) d)
      = for_loop [0..<256] (\<lambda>col n. n(lr * 256 + col := nibble (lr mod 2) (?raw lr col))) (nibbles_of d)" for lr d
    by (rule for_loop_proj[where p = nibbles_of]) (simp only: nibbles_set lane_nibble_alt)
  then have "nibbles_of (for_loop [0..<32] (\<lambda>lr. for_loop [0..<256] (\<lambda>col. set_nibble (lr * 256 + col) (?q lr col))) d)
      = for_loop [0..<32] (\<lambda>lr. for_loop [0..<256] (\<lambda>col n. n(lr * 256 + col := nibble (lr mod 2) (?raw lr col)))) (nibbles_of d)" for d
    by (rule for_loop_proj[where p = nibbles_of])
  then have "nibbles_of (q4nx_tile_to_onebp src) (lr * 256 + c) = nibble (lr mod 2) (?raw lr c)"
    unfolding q4nx_tile_to_onebp_def Let_def
  proof (simp only:, intro trans[OF grid_loop_elem[where w = "\<lambda>x. nibble (x div 256 mod 2) (?raw (x div 256) (x mod 256))"]])
    fix r c :: nat assume "c < 256"
    then show "nibble (r mod 2) (?raw r c) = nibble ((r * 256 + c) div 256 mod 2) (?raw ((r * 256 + c) div 256) ((r * 256 + c) mod 256))"
      using div_mod_at[of c 256 r] by (simp only:)
  qed (use assms div_mod_at[of c 256 lr] in \<open>simp_all only:\<close>)
  then show ?thesis by (simp add: lane_nibble_def)
qed

lemma converted_tile_scale:
  assumes "r < 32" "g < 8"
  shows "rd16 (adv (q4nx_tile_to_onebp src) (2 * (r * 8 + g))) = rd16 (adv src (2 * (g * 32 + r)))"
    "rd16 (adv (q4nx_tile_to_onebp src) (512 + 2 * (r * 8 + g))) = rd16 (adv src (512 + 2 * (g * 32 + r)))"
proof -
  define f where "f = (\<lambda>j. if j < 256 then rd16 (adv src (2 * (j mod 8 * 32 + j div 8)))
    else rd16 (adv src (512 + 2 * ((j - 256) mod 8 * 32 + (j - 256) div 8))))"
  let ?S = "\<lambda>r g. {2 * (r * 8 + g), Suc (2 * (r * 8 + g))} \<union> {2 * (256 + (r * 8 + g)), Suc (2 * (256 + (r * 8 + g)))}"
  let ?t = "for_loop [0..<32] (\<lambda>r dst. for_loop [0..<8] (\<lambda>g dst.
      put16 (512 + 2 * (r * 8 + g)) (rd16 (adv src (512 + 2 * (g * 32 + r)))) (put16 (2 * (r * 8 + g)) (rd16 (adv src (2 * (g * 32 + r)))) dst)) dst) (\<lambda>_. 0)"
  have f: "f (r * 8 + g) = rd16 (adv src (2 * (g * 32 + r)))" "f (256 + (r * 8 + g)) = rd16 (adv src (512 + 2 * (g * 32 + r)))"
    if rg: "r < 32" "g < 8" for r g
  proof -
    have "r * 8 + g < 256" using slot_bounds[OF rg] by simp
    then show "f (r * 8 + g) = rd16 (adv src (2 * (g * 32 + r)))" "f (256 + (r * 8 + g)) = rd16 (adv src (512 + 2 * (g * 32 + r)))"
      unfolding f_def using slot_at[OF rg(2), of r] by (simp_all only: if_True if_False add_diff_cancel_left' not_add_less1)
  qed
  have t: "?t = override_on (\<lambda>_. 0) (halves f) (\<Union>r < 32. \<Union>g < 8. ?S r g)"
  proof (rule two_level_override[of 32 "\<lambda>_. 8"])
    fix r g :: nat and s assume rg: "r < 32" "g < 8"
    have e: "512 + 2 * (r * 8 + g) = 2 * (256 + (r * 8 + g))" by simp
    show "put16 (512 + 2 * (r * 8 + g)) (rd16 (adv src (512 + 2 * (g * 32 + r)))) (put16 (2 * (r * 8 + g)) (rd16 (adv src (2 * (g * 32 + r)))) s)
        = override_on s (halves f) (?S r g)"
      unfolding e put16_override[of f, OF f(1)[OF rg]] put16_override[of f, OF f(2)[OF rg, unfolded e]] override_on_twice ..
  qed
  have low: "q4nx_tile_to_onebp src x = ?t x" if "x < 1024" for x
    unfolding q4nx_tile_to_onebp_def Let_def by (intro for_loop_keeps set_nibble_below that)
  have at: "q4nx_tile_to_onebp src x = halves f x" if "x \<in> ?S r g" for x
  proof -
    have "x < 1024" using that slot_bounds[OF assms] by auto
    then show ?thesis using low override_at[OF t that assms] by simp
  qed
  have "rd16 (adv (q4nx_tile_to_onebp src) (2 * j)) = f j" if "j = r * 8 + g \<or> j = 256 + (r * 8 + g)" for j
    by (rule rd16_halves; rule at) (use that in auto)
  note rd = this[of "r * 8 + g", OF disjI1[OF refl]] this[of "256 + (r * 8 + g)", OF disjI2[OF refl]]
  show "rd16 (adv (q4nx_tile_to_onebp src) (2 * (r * 8 + g))) = rd16 (adv src (2 * (g * 32 + r)))"
    using rd(1) f(1)[OF assms] by (rule trans)
  have e: "512 + 2 * (r * 8 + g) = 2 * (256 + (r * 8 + g))" by simp
  show "rd16 (adv (q4nx_tile_to_onebp src) (512 + 2 * (r * 8 + g))) = rd16 (adv src (512 + 2 * (g * 32 + r)))"
    unfolding e using rd(2) f(2)[OF assms] by (rule trans)
qed

section \<open>The readers agree\<close>

lemma for_loop_keep: "(\<And>k s. p (f k s) = p s) \<Longrightarrow> p (for_loop ks f s) = p s"
  by (induction ks arbitrary: s) (simp_all add: for_loop_Nil for_loop_Cons)

lemma set_fields [simp]:
  "rw_q4 (set_q4 i q t) = (rw_q4 t)(i := q)" "rw_scl (set_q4 i q t) = rw_scl t" "rw_zp (set_q4 i q t) = rw_zp t"
  "rw_q4 (set_group i s z t) = rw_q4 t" "rw_scl (set_group i s z t) = (rw_scl t)(i := s)" "rw_zp (set_group i s z t) = (rw_zp t)(i := z)"
  by (simp_all add: set_q4_def set_group_def)

lemma raw_loop_fields:
  "rw_q4 (raw_loop n ntc cols q sz t) = tile_loop n ntc cols 256 q (rw_q4 t)"
  "rw_scl (raw_loop n ntc cols q sz t) = tile_loop n ntc (cols div 32) 8 (\<lambda>ir lr g. fst (sz ir lr g)) (rw_scl t)"
  "rw_zp (raw_loop n ntc cols q sz t) = tile_loop n ntc (cols div 32) 8 (\<lambda>ir lr g. snd (sz ir lr g)) (rw_zp t)"
proof -
  let ?row = "\<lambda>ir lr t. let t = for_loop [0..<256] (\<lambda>c t. set_q4 (store_at ntc cols 256 ir lr c) (q ir lr c) t) t
    in for_loop [0..<8] (\<lambda>g t. let (s, z) = sz ir lr g in set_group (store_at ntc (cols div 32) 8 ir lr g) s z t) t"
  have q4: "rw_q4 (?row ir lr t) = for_loop [0..<256] (\<lambda>c b. b(store_at ntc cols 256 ir lr c := q ir lr c)) (rw_q4 t)" for ir lr t
    unfolding Let_def
    by (rule trans[OF for_loop_keep[where p = rw_q4] for_loop_proj[where p = rw_q4]]) (simp_all add: case_prod_beta)
  have scl: "rw_scl (?row ir lr t) = for_loop [0..<8] (\<lambda>g b. b(store_at ntc (cols div 32) 8 ir lr g := fst (sz ir lr g))) (rw_scl t)" for ir lr t
    unfolding Let_def
    by (subst for_loop_proj[where p = rw_scl], simp add: case_prod_beta, subst for_loop_keep[where p = rw_scl]) simp_all
  have zp: "rw_zp (?row ir lr t) = for_loop [0..<8] (\<lambda>g b. b(store_at ntc (cols div 32) 8 ir lr g := snd (sz ir lr g))) (rw_zp t)" for ir lr t
    unfolding Let_def
    by (subst for_loop_proj[where p = rw_zp], simp add: case_prod_beta, subst for_loop_keep[where p = rw_zp]) simp_all
  show "rw_q4 (raw_loop n ntc cols q sz t) = tile_loop n ntc cols 256 q (rw_q4 t)"
    unfolding raw_loop_def tile_loop_def by (intro for_loop_proj[where p = rw_q4] q4)
  show "rw_scl (raw_loop n ntc cols q sz t) = tile_loop n ntc (cols div 32) 8 (\<lambda>ir lr g. fst (sz ir lr g)) (rw_scl t)"
    unfolding raw_loop_def tile_loop_def by (intro for_loop_proj[where p = rw_scl] scl)
  show "rw_zp (raw_loop n ntc cols q sz t) = tile_loop n ntc (cols div 32) 8 (\<lambda>ir lr g. snd (sz ir lr g)) (rw_zp t)"
    unfolding raw_loop_def tile_loop_def by (intro for_loop_proj[where p = rw_zp] zp)
qed

lemma while_below_full: "a + m \<le> n \<Longrightarrow> while_below a n [0..<m] = [0..<m]"
  by (simp add: while_below_upt)

lemma onebp_nibble:
  "(if c mod 2 = 0 then p (1024 + (lr * 256 + c) div 2) AND 0x0F else drop_bit 4 (p (1024 + (lr * 256 + c) div 2)) AND 0x0F) =
    nibbles_of p (lr * 256 + c)"
proof -
  have "drop_bit 4 b AND 0x0F = drop_bit 4 b" for b :: byte
  proof -
    have m: "(0x0F :: byte) = mask 4" by (simp add: mask_eq_exp_minus_1)
    show ?thesis unfolding m by (rule bit_word_eqI) (auto simp: bit_simps simp del: mask_numeral simp flip: not_le dest: bit_imp_le_length)
  qed
  moreover have "even (lr * 256 + c) \<longleftrightarrow> c mod 2 = 0" by presburger
  ultimately show ?thesis unfolding nibbles_of_def by presburger
qed

lemma grid_override:
  "for_loop [0..<m] (\<lambda>a. for_loop [0..<n] (\<lambda>b. for_loop [0..<32] (\<lambda>lr. for_loop [0..<tc] (\<lambda>c u. u((a * 32 + lr) * K + (b * tc + c) := V a b lr c))))) u
    = override_on u (grid_fn K tc V) (\<Union>a < m. \<Union>b < n. grid_cells K tc a b)" if "n * tc \<le> K"
proof (rule two_level_override[of m "\<lambda>_. n"])
  fix a b and u :: "'a buf" assume b: "b < n"
  show "for_loop [0..<32] (\<lambda>lr. for_loop [0..<tc] (\<lambda>c u. u((a * 32 + lr) * K + (b * tc + c) := V a b lr c))) u
      = override_on u (grid_fn K tc V) (grid_cells K tc a b)"
    unfolding grid_cells_def
  proof (rule two_level_override[of 32 "\<lambda>_. tc"])
    fix lr c :: nat and u :: "'a buf" assume at: "lr < 32" "c < tc"
    have "b * tc + c < K" using slot_bounds[OF b at(2)] that by simp
    from grid_fn_at[OF at this, of V a]
    show "u((a * 32 + lr) * K + (b * tc + c) := V a b lr c) = override_on u (grid_fn K tc V) {(a * 32 + lr) * K + (b * tc + c)}"
      by (rule upd_override_on)
  qed
qed

lemma onebp_loop:
  assumes "cols div 256 = ntc"
  shows "read_q4nx_raw_1bp fo tiles (m * 32) cols =
    for_loop [0..<m] (\<lambda>a. for_loop [0..<ntc] (\<lambda>b. for_loop [0..<32] (\<lambda>lr t.
      for_loop [0..<8] (\<lambda>g t.
          let p = adv tiles ((a * ntc + b) * 5120); s = q4nx_scale fo (rd16 (adv p (2 * (lr * 8 + g))))
          in set_group ((a * 32 + lr) * (cols div 32) + (b * 8 + g)) s (folded fo s (bf16_at fo (adv p (512 + 2 * (lr * 8 + g))))) t)
        (for_loop [0..<256] (\<lambda>c t. set_q4 ((a * 32 + lr) * cols + (b * 256 + c))
          (uint (nibbles_of (adv tiles ((a * ntc + b) * 5120)) (lr * 256 + c)) - 8) t) t))))
      (new_raw fo (m * 32) cols)"
proof -
  have full: "while_below (a * 32) (m * 32) [0..<32] = [0..<32]" if "a \<in> set [0..<m]" for a
    using that mult_le_mono1[of "Suc a" m 32] by (intro while_below_full) simp
  have fc: "while_below (b * 256) cols [0..<256] = [0..<256]" "while_below (b * 8) (cols div 32) [0..<8] = [0..<8]" if "b \<in> set [0..<ntc]" for b
  proof -
    have "Suc b \<le> cols div 256" using that assms by simp
    then have "Suc b * 256 \<le> cols" by (simp add: less_eq_div_iff_mult_less_eq)
    then show "while_below (b * 256) cols [0..<256] = [0..<256]" "while_below (b * 8) (cols div 32) [0..<8] = [0..<8]"
      by (intro while_below_full, simp)+ 
  qed
  show ?thesis unfolding read_q4nx_raw_1bp_def Let_def assms
    by (simp only: ceil_div_mult zero_less_numeral) (intro for_loop_cong, simp only: full fc onebp_nibble)
qed

lemma onebp_fields:
  fixes fo :: "'f fops"
  assumes ntc: "cols div 256 = ntc"
  defines "tile tiles a b \<equiv> adv tiles ((a * ntc + b) * 5120)"
  defines "scale tiles a b lr g \<equiv> q4nx_scale fo (rd16 (adv (tile tiles a b) (2 * (lr * 8 + g))))"
  shows
    "rw_q4 (read_q4nx_raw_1bp fo tiles (m * 32) cols) = override_on (\<lambda>_. 0)
      (grid_fn cols 256 (\<lambda>a b lr c. uint (nibbles_of (tile tiles a b) (lr * 256 + c)) - 8)) (\<Union>a < m. \<Union>b < ntc. grid_cells cols 256 a b)"
    "rw_scl (read_q4nx_raw_1bp fo tiles (m * 32) cols) = override_on (\<lambda>_. f_rat fo 0)
      (grid_fn (cols div 32) 8 (scale tiles)) (\<Union>a < m. \<Union>b < ntc. grid_cells (cols div 32) 8 a b)"
    "rw_zp (read_q4nx_raw_1bp fo tiles (m * 32) cols) = override_on (\<lambda>_. f_rat fo 0)
      (grid_fn (cols div 32) 8 (\<lambda>a b lr g. folded fo (scale tiles a b lr g) (bf16_at fo (adv (tile tiles a b) (512 + 2 * (lr * 8 + g))))))
      (\<Union>a < m. \<Union>b < ntc. grid_cells (cols div 32) 8 a b)"
proof -
  have room: "ntc * 256 \<le> cols" "ntc * 8 \<le> cols div 32" using ntc by auto
  let ?q = "\<lambda>a b lr c. uint (nibbles_of (tile tiles a b) (lr * 256 + c)) - 8"
  let ?z = "\<lambda>a b lr g. folded fo (scale tiles a b lr g) (bf16_at fo (adv (tile tiles a b) (512 + 2 * (lr * 8 + g))))"
  let ?row = "\<lambda>a b lr t. for_loop [0..<8] (\<lambda>g. set_group ((a * 32 + lr) * (cols div 32) + (b * 8 + g)) (scale tiles a b lr g) (?z a b lr g))
      (for_loop [0..<256] (\<lambda>c. set_q4 ((a * 32 + lr) * cols + (b * 256 + c)) (?q a b lr c)) t)"
  have loop: "read_q4nx_raw_1bp fo tiles (m * 32) cols =
      for_loop [0..<m] (\<lambda>a. for_loop [0..<ntc] (\<lambda>b. for_loop [0..<32] (?row a b))) (new_raw fo (m * 32) cols)"
    unfolding onebp_loop[OF ntc] Let_def tile_def scale_def ..
  have q4: "rw_q4 (?row a b lr t) = for_loop [0..<256] (\<lambda>c u. u((a * 32 + lr) * cols + (b * 256 + c) := ?q a b lr c)) (rw_q4 t)" for a b lr t
    by (rule trans[OF for_loop_keep[where p = rw_q4] for_loop_proj[where p = rw_q4]]) simp_all
  have scl: "rw_scl (?row a b lr t) =
      for_loop [0..<8] (\<lambda>g u. u((a * 32 + lr) * (cols div 32) + (b * 8 + g) := scale tiles a b lr g)) (rw_scl t)" for a b lr t
    by (subst for_loop_proj[where p = rw_scl], simp, subst for_loop_keep[where p = rw_scl]) simp_all
  have zp: "rw_zp (?row a b lr t) =
      for_loop [0..<8] (\<lambda>g u. u((a * 32 + lr) * (cols div 32) + (b * 8 + g) := ?z a b lr g)) (rw_zp t)" for a b lr t
    by (subst for_loop_proj[where p = rw_zp], simp, subst for_loop_keep[where p = rw_zp]) simp_all
  have init: "rw_q4 (new_raw fo n cols) = (\<lambda>_. 0)" "rw_scl (new_raw fo n cols) = (\<lambda>_. f_rat fo 0)" "rw_zp (new_raw fo n cols) = (\<lambda>_. f_rat fo 0)" for n
    by (simp_all add: new_raw_def)
  show "rw_q4 (read_q4nx_raw_1bp fo tiles (m * 32) cols) = override_on (\<lambda>_. 0)
      (grid_fn cols 256 (\<lambda>a b lr c. uint (nibbles_of (tile tiles a b) (lr * 256 + c)) - 8)) (\<Union>a < m. \<Union>b < ntc. grid_cells cols 256 a b)"
    unfolding loop grid_override[OF room(1), symmetric] init(1)[of "m * 32", symmetric] by (intro for_loop_proj[where p = rw_q4] q4)
  show "rw_scl (read_q4nx_raw_1bp fo tiles (m * 32) cols) = override_on (\<lambda>_. f_rat fo 0)
      (grid_fn (cols div 32) 8 (scale tiles)) (\<Union>a < m. \<Union>b < ntc. grid_cells (cols div 32) 8 a b)"
    unfolding loop grid_override[OF room(2), symmetric] init(2)[of "m * 32", symmetric] by (intro for_loop_proj[where p = rw_scl] scl)
  show "rw_zp (read_q4nx_raw_1bp fo tiles (m * 32) cols) = override_on (\<lambda>_. f_rat fo 0)
      (grid_fn (cols div 32) 8 (\<lambda>a b lr g. folded fo (scale tiles a b lr g) (bf16_at fo (adv (tile tiles a b) (512 + 2 * (lr * 8 + g))))))
      (\<Union>a < m. \<Union>b < ntc. grid_cells (cols div 32) 8 a b)"
    unfolding loop grid_override[OF room(2), symmetric] init(3)[of "m * 32", symmetric] by (intro for_loop_proj[where p = rw_zp] zp)
qed

text \<open>The tiles of a converted tensor.\<close>

lemma length_transform: "length (transform_tiles raw tiled) = min (length raw) tiled"
  by (simp add: transform_tiles_def Let_def)

lemma transformed_byte:
  assumes "n * 5120 \<le> length raw" "t < n" "y < 5120"
  shows "transform_tiles raw (n * 5120) ! (t * 5120 + y) = q4nx_tile_to_onebp (file_ptr raw (t * 5120)) y"
proof -
  have "t * 5120 + y < n * 5120" by (rule slot_bounds[OF assms(2,3)])
  then show ?thesis using assms(1) div_mod_at[OF assms(3), of t] by (simp add: transform_tiles_def Let_def min_def)
qed

lemma transformed_tile:
  assumes "n * 5120 \<le> length raw" "t < n"
  defines "tile \<equiv> adv (file_ptr (transform_tiles raw (n * 5120)) 0) (t * 5120)" and "src \<equiv> adv (file_ptr raw 0) (t * 5120)"
  shows "\<lbrakk>lr < 32; c < 256\<rbrakk> \<Longrightarrow> nibbles_of tile (lr * 256 + c) = lane_nibble 256 (adv src 1024) lr c"
    "\<lbrakk>lr < 32; g < 8\<rbrakk> \<Longrightarrow> rd16 (adv tile (2 * (lr * 8 + g))) = rd16 (adv src (2 * (g * 32 + lr)))"
    "\<lbrakk>lr < 32; g < 8\<rbrakk> \<Longrightarrow> rd16 (adv tile (512 + 2 * (lr * 8 + g))) = rd16 (adv src (512 + 2 * (g * 32 + lr)))"
proof -
  have src: "file_ptr raw (t * 5120) = src" by (simp add: src_def file_ptr_def adv_def)
  have tile: "tile y = q4nx_tile_to_onebp src y" if "y < 5120" for y
    using transformed_byte[OF assms(1,2) that, unfolded src] by (simp add: tile_def file_ptr_def)
  have nib: "nibbles_of tile k = nibbles_of (q4nx_tile_to_onebp src) k" if "k < 8192" for k
    using that by (simp add: nibbles_of_def tile)
  have rd: "rd16 (adv tile x) = rd16 (adv (q4nx_tile_to_onebp src) x)" if "x + 1 < 5120" for x
    using that by (simp add: rd16_def tile)
  show "nibbles_of tile (lr * 256 + c) = lane_nibble 256 (adv src 1024) lr c" if "lr < 32" "c < 256"
    using nib[of "lr * 256 + c"] slot_bounds[OF that] converted_tile_nibble[OF that] by simp
  show "rd16 (adv tile (2 * (lr * 8 + g))) = rd16 (adv src (2 * (g * 32 + lr)))" if "lr < 32" "g < 8"
    using rd[of "2 * (lr * 8 + g)"] slot_bounds[OF that] converted_tile_scale(1)[OF that, of src] by simp
  show "rd16 (adv tile (512 + 2 * (lr * 8 + g))) = rd16 (adv src (512 + 2 * (g * 32 + lr)))" if "lr < 32" "g < 8"
    using rd[of "512 + 2 * (lr * 8 + g)"] slot_bounds[OF that] converted_tile_scale(2)[OF that, of src] by simp
qed

section \<open>The decoders at an element\<close>

lemma decode_tiles_at:
  assumes "decode_tiles fo n f tc v = Some d" "0 < tc" "a * (f div tc) + b < n" "b < f div tc" "lr < 32" "c < tc"
  shows "dq_out d ((a * 32 + lr) * dq_cols d + (b * tc + c)) = v (a * (f div tc) + b) lr c"
proof -
  have d: "dq_cols d = f div tc * tc" "dq_out d = tile_loop n (f div tc) (f div tc * tc) tc v (\<lambda>_. f_rat fo 0)" "0 < f div tc"
    using assms(1) by (auto simp: decode_tiles_def Let_def split: if_splits)
  show ?thesis unfolding d(1,2) by (rule tile_loop_at[OF order_refl d(3) assms(3-6)])
qed

text \<open>No scale or zero point of the first \<open>n\<close> tiles is one that a decoder replaces.\<close>

definition tame_scales :: "'f qops \<Rightarrow> bstr \<Rightarrow> nat \<Rightarrow> bool" where
  "tame_scales qo raw n \<longleftrightarrow> list_all (\<lambda>t. list_all (\<lambda>k.
     let s = bf16_at (q_fops qo) (file_ptr raw (t * 5120 + 2 * k)); z = bf16_at (q_fops qo) (file_ptr raw (t * 5120 + 512 + 2 * k))
     in sane qo s = s \<and> \<not> q_less qo s (q_rat qo (1 / 10 ^ 10)) \<and> sane qo z = z) [0..<256]) [0..<n]"

lemma tame_at:
  assumes "tame_scales qo raw n" "t < n" "k < 256"
  defines "s \<equiv> bf16_at (q_fops qo) (adv (adv (file_ptr raw 0) (t * 5120)) (2 * k))"
    and "z \<equiv> bf16_at (q_fops qo) (adv (adv (file_ptr raw 0) (t * 5120)) (512 + 2 * k))"
  shows "sane qo s = s" "\<not> q_less qo s (q_rat qo (1 / 10 ^ 10))" "sane qo z = z"
proof -
  have "adv (adv (file_ptr raw 0) (t * 5120)) j = file_ptr raw (t * 5120 + j)" for j by (simp add: file_ptr_def adv_def add.assoc)
  then have sz: "s = bf16_at (q_fops qo) (file_ptr raw (t * 5120 + 2 * k))" "z = bf16_at (q_fops qo) (file_ptr raw (t * 5120 + 512 + 2 * k))"
    by (simp_all only: s_def z_def add.assoc)
  have "sane qo s = s \<and> \<not> q_less qo s (q_rat qo (1 / 10 ^ 10)) \<and> sane qo z = z"
    using assms(1-3) unfolding tame_scales_def list_all_iff sz Let_def set_upt by force
  then show "sane qo s = s" "\<not> q_less qo s (q_rat qo (1 / 10 ^ 10))" "sane qo z = z" by blast+
qed

lemma converted_value:
  assumes "n * 5120 \<le> length raw" "t < n" "tame_scales qo raw n" "r < 32" "c < 256"
  defines "src \<equiv> adv (file_ptr raw 0) (t * 5120)"
  shows "q4nx_value (q_fops qo) 32 256 32 (adv (file_ptr (transform_tiles raw (n * 5120)) 0) (t * 5120)) r c =
    f_add (q_fops qo) (f_mul (q_fops qo) (f_int (q_fops qo) (uint (lane_nibble 256 (adv src 1024) r c)))
      (sane qo (bf16_at (q_fops qo) (adv src ((c div 32 * 32 + r) * 2)))))
      (sane qo (bf16_at (q_fops qo) (adv src (512 + (c div 32 * 32 + r) * 2))))"
proof -
  let ?tile = "adv (file_ptr (transform_tiles raw (n * 5120)) 0) (t * 5120)" and ?k = "c div 32 * 32 + r"
  have g: "c div 32 < 8" using assms(5) by (simp add: less_mult_imp_div_less)
  have k: "?k < 256" using slot_bounds[OF g assms(4)] by simp
  note conv = transformed_tile[OF assms(1,2), folded src_def]
  note tame = tame_at[OF assms(3,2) k, folded src_def]
  have nib: "(if even c then ?tile (1024 + (r * 256 + c) div 2) AND 0xF else drop_bit 4 (?tile (1024 + (r * 256 + c) div 2))) =
      lane_nibble 256 (adv src 1024) r c"
    unfolding conv(1)[OF assms(4,5), symmetric] nibbles_of_def by simp
  have sizes: "(256 :: nat) div 32 = 8" "32 * 8 * 4 = (1024 :: nat)" "32 * 8 * 2 = (512 :: nat)" by simp_all
  have scale: "q4nx_scale (q_fops qo) (rd16 (adv ?tile (2 * (r * 8 + c div 32)))) = bf16_at (q_fops qo) (adv src (2 * ?k))"
    unfolding conv(2)[OF assms(4) g] q4nx_scale_def Let_def using tame(2) by (simp only: bf16_at_def if_False)
  have zero: "bf16_to_fp32 (q_fops qo) (rd16 (adv ?tile (512 + 2 * (r * 8 + c div 32)))) = bf16_at (q_fops qo) (adv src (512 + 2 * ?k))"
    unfolding conv(3)[OF assms(4) g] bf16_at_def ..
  show ?thesis
    unfolding q4nx_value_def Let_def sizes nib scale zero mult.commute[of ?k 2] tame(1,3) ..
qed

text \<open>The raw reader and the decoder of signed tiles: the value is the integer times the scale plus the zero point, when no
  scale or zero point is replaced.\<close>

lemma signed_decoder_is_raw_reader:
  assumes "0 < ntc" "A < m" "B < ntc" "lr < 32" "c < 256"
    and scales: "\<And>k. k < 256 \<Longrightarrow> sane qo (bf16_at (q_fops qo) (adv rd ((A * ntc + B) * 5120 + k * 2))) = bf16_at (q_fops qo) (adv rd ((A * ntc + B) * 5120 + k * 2))"
    and zeros: "\<And>k. k < 256 \<Longrightarrow> sane qo (bf16_at (q_fops qo) (adv rd ((A * ntc + B) * 5120 + 512 + k * 2))) = bf16_at (q_fops qo) (adv rd ((A * ntc + B) * 5120 + 512 + k * 2))"
  shows "\<exists>t d. read_q4nx_raw (q_fops qo) rd (m * ntc) (ntc * 256) = Some t \<and>
    dequant_i8_signed_to_float_ex qo rd (m * ntc) (ntc * 256) = Some d \<and>
    (let r = A * 32 + lr; k = r * (ntc * 8) + (B * 8 + c div 32) in
     dq_out d (r * (ntc * 256) + (B * 256 + c)) =
       q_add qo (q_mul qo (f_int (q_fops qo) (rw_q4 t (r * (ntc * 256) + (B * 256 + c)))) (rw_scl t k)) (rw_zp t k))"
proof -
  let ?fo = "q_fops qo" and ?ir = "A * ntc + B"
  have w: "ntc * 256 div 256 = ntc" "ntc * 256 div 32 = ntc * 8" by simp_all
  obtain t where t: "read_q4nx_raw ?fo rd (m * ntc) (ntc * 256) = Some t"
    using assms(1) unfolding read_q4nx_raw_def Let_def w by simp
  obtain d where d: "dequant_i8_signed_to_float_ex qo rd (m * ntc) (ntc * 256) = Some d" "dq_cols d = ntc * 256"
    using assms(1) unfolding dequant_i8_signed_to_float_ex_def decode_tiles_def Let_def w by simp
  have g: "c div 32 < 8" using assms(5) by (simp add: less_mult_imp_div_less)
  note ir = slot_bounds[OF assms(2,3)] and k = slot_bounds[OF assms(4) g]
  have te: "t = raw_loop (m * ntc) ntc (ntc * 256)
      (\<lambda>ir lr c. signed4 (lane_nibble 256 (adv rd (ir * 5120 + 1024)) lr c))
      (\<lambda>ir lr g. (bf16_at ?fo (adv rd (ir * 5120 + (lr * 8 + g) * 2)), bf16_at ?fo (adv rd (ir * 5120 + 512 + (lr * 8 + g) * 2))))
      (new_raw ?fo (m * ntc * 32) (ntc * 256))"
    using t assms(1) unfolding read_q4nx_raw_def Let_def w by simp
  have q: "rw_q4 t ((A * 32 + lr) * (ntc * 256) + (B * 256 + c)) = signed4 (lane_nibble 256 (adv rd (?ir * 5120 + 1024)) lr c)"
    unfolding te raw_loop_fields by (rule tile_loop_at[OF order_refl assms(1) ir assms(3-5)])
  have sz: "rw_scl t ((A * 32 + lr) * (ntc * 8) + (B * 8 + c div 32)) = bf16_at ?fo (adv rd (?ir * 5120 + (lr * 8 + c div 32) * 2))"
    "rw_zp t ((A * 32 + lr) * (ntc * 8) + (B * 8 + c div 32)) = bf16_at ?fo (adv rd (?ir * 5120 + 512 + (lr * 8 + c div 32) * 2))"
    unfolding te raw_loop_fields w tile_loop_at[OF order_refl assms(1) ir assms(3,4) g] by simp_all
  have k': "lr * 8 + c div 32 < 256" using k by simp
  have out: "dq_out d ((A * 32 + lr) * (ntc * 256) + (B * 256 + c)) = signed_value qo (adv rd (?ir * 5120)) (lr * 8 + c div 32) lr c"
    using decode_tiles_at[OF d(1)[unfolded dequant_i8_signed_to_float_ex_def], unfolded w d(2), OF zero_less_numeral ir assms(3-5)]
    by (simp only: Let_def)
  have "signed_value qo (adv rd (?ir * 5120)) (lr * 8 + c div 32) lr c =
      q_add qo (q_mul qo (f_int ?fo (signed4 (lane_nibble 256 (adv rd (?ir * 5120 + 1024)) lr c)))
        (sane qo (bf16_at ?fo (adv rd (?ir * 5120 + (lr * 8 + c div 32) * 2)))))
        (sane qo (bf16_at ?fo (adv rd (?ir * 5120 + 512 + (lr * 8 + c div 32) * 2))))"
    by (simp only: signed_value_def Let_def) (simp add: adv_def add.assoc)
  then have "dq_out d ((A * 32 + lr) * (ntc * 256) + (B * 256 + c)) =
      q_add qo (q_mul qo (f_int ?fo (rw_q4 t ((A * 32 + lr) * (ntc * 256) + (B * 256 + c))))
        (rw_scl t ((A * 32 + lr) * (ntc * 8) + (B * 8 + c div 32)))) (rw_zp t ((A * 32 + lr) * (ntc * 8) + (B * 8 + c div 32)))"
    unfolding out q sz scales[OF k'] zeros[OF k'] .
  with t d(1) show ?thesis unfolding Let_def by (intro exI conjI)
qed

text \<open>In mode 3, which its comment calls inverted, the selected half of the byte alternates from column to column.\<close>

lemma nib_mode_3_alternates:
  fixes lr :: nat and out :: "'f buf"
  assumes "inj ix"
  defines "sel \<equiv> \<lambda>n. (lr + n) mod 2"
  shows "for_loop [0..<n] (\<lambda>col (s, out). (1 - s, out(ix col := f (1 - s) col))) (lr mod 2, out) =
    (sel n, override_on out (\<lambda>x. f (sel (Suc (the_inv ix x))) (the_inv ix x)) (ix ` {..<n}))"
proof (induction n)
  case (Suc n)
  have flip: "1 - sel n = sel (Suc n)" unfolding sel_def by (simp add: mod_Suc)
  have upt: "[0..<Suc n] = [0..<n] @ [n]" by simp
  show ?case
    unfolding upt for_loop_append Suc.IH for_loop_Cons for_loop_Nil split flip lessThan_Suc image_insert
    by (simp only: override_on_upd the_inv_f_f[OF assms(1)])
qed (simp add: for_loop_Nil sel_def)

section \<open>Properties\<close>

text \<open>C9. Converting the tiles of an FLM tensor keeps its weights as the raw readers see them: on the converted bytes
  \<open>read_q4nx_raw_1bp\<close> returns the integers that \<open>read_q4nx_raw_asym\<close> returns on the file, and the same scales and
  folded zero points, except that a scale below 1e-10 (a negative one too) becomes 1.\<close>

theorem readers_agree:
  assumes "cols div 256 = ntc" "0 < ntc" "m * ntc * 5120 \<le> length raw"
  shows "\<exists>a. read_q4nx_raw_asym fo (file_ptr raw 0) (m * ntc) cols = Some a \<and>
    (let b = read_q4nx_raw_1bp fo (file_ptr (transform_tiles raw (m * ntc * 5120)) 0) (m * 32) cols in
     (\<forall>r < m * 32. \<forall>c < ntc * 256. rw_q4 b (r * cols + c) = rw_q4 a (r * cols + c)) \<and>
     (\<forall>r < m * 32. \<forall>g < ntc * 8. let k = r * (cols div 32) + g; tiny = f_less fo (rw_scl a k) (f_rat fo (1 / 10 ^ 10)) in
        rw_scl b k = (if tiny then f_rat fo 1 else rw_scl a k) \<and> (\<not> tiny \<longrightarrow> rw_zp b k = rw_zp a k)))"
proof -
  define src where "src = (\<lambda>a b. adv (file_ptr raw 0) ((a * ntc + b) * 5120))"
  define a where "a = raw_loop (m * ntc) ntc cols
    (\<lambda>ir lr c. uint (lane_nibble 256 (adv (file_ptr raw 0) (ir * 5120 + 1024)) lr c) - 8)
    (\<lambda>ir lr g. let s = bf16_at fo (adv (file_ptr raw 0) (ir * 5120 + (g * 32 + lr) * 2));
                    z = bf16_at fo (adv (file_ptr raw 0) (ir * 5120 + 512 + (g * 32 + lr) * 2)) in (s, folded fo s z))
    (new_raw fo (m * ntc * 32) cols)"
  have some: "read_q4nx_raw_asym fo (file_ptr raw 0) (m * ntc) cols = Some a"
    unfolding read_q4nx_raw_asym_def Let_def assms(1) a_def using assms(2) by simp
  define b where "b = read_q4nx_raw_1bp fo (file_ptr (transform_tiles raw (m * ntc * 5120)) 0) (m * 32) cols"
  note b = onebp_fields[OF assms(1), of fo "file_ptr (transform_tiles raw (m * ntc * 5120)) 0" m, folded b_def]
  have room: "ntc * 256 \<le> cols" "ntc * 8 \<le> cols div 32" using assms(1) by auto
  have cell: "(A * 32 + lr) * K + (B * tc + c) \<in> (\<Union>a < m. \<Union>b < ntc. grid_cells K tc a b)"
    if "A < m" "B < ntc" "lr < 32" "c < tc" for A B lr c K tc
    using that unfolding grid_cells_def by blast
  have q4: "rw_q4 b ((A * 32 + lr) * cols + (B * 256 + c)) = rw_q4 a ((A * 32 + lr) * cols + (B * 256 + c))"
    if at: "A < m" "B < ntc" "lr < 32" "c < 256" for A B lr c
  proof -
    note t = slot_bounds[OF at(1,2)]
    have k: "B * 256 + c < cols" using slot_bounds[OF at(2,4)] room(1) by simp
    show ?thesis
      unfolding b(1) a_def raw_loop_fields(1) tile_loop_at[OF room(1) assms(2) t at(2-4)] override_on_apply_in[OF cell[OF at]]
        grid_fn_at[OF at(3,4) k] transformed_tile(1)[OF assms(3) t at(3,4)] by (simp add: adv_def add.assoc)
  qed
  have grp: "rw_scl b k = (if f_less fo (rw_scl a k) (f_rat fo (1 / 10 ^ 10)) then f_rat fo 1 else rw_scl a k) \<and>
      (\<not> f_less fo (rw_scl a k) (f_rat fo (1 / 10 ^ 10)) \<longrightarrow> rw_zp b k = rw_zp a k)"
    if at: "A < m" "B < ntc" "lr < 32" "g < 8" and k: "k = (A * 32 + lr) * (cols div 32) + (B * 8 + g)" for A B lr g k
  proof -
    note t = slot_bounds[OF at(1,2)]
    have kb: "B * 8 + g < cols div 32" using slot_bounds[OF at(2,4)] room(2) by simp
    let ?t = "(A * ntc + B) * 5120"
    define s where "s = bf16_to_fp32 fo (rd16 (adv (adv (file_ptr raw 0) ?t) (2 * (g * 32 + lr))))"
    define z where "z = bf16_to_fp32 fo (rd16 (adv (adv (file_ptr raw 0) ?t) (512 + 2 * (g * 32 + lr))))"
    have sz: "bf16_at fo (adv (file_ptr raw 0) (?t + (g * 32 + lr) * 2)) = s" "bf16_at fo (adv (file_ptr raw 0) (?t + 512 + (g * 32 + lr) * 2)) = z"
      unfolding s_def z_def bf16_at_def by (simp_all add: adv_def algebra_simps)
    have ra: "rw_scl a k = s" "rw_zp a k = folded fo s z"
      unfolding a_def raw_loop_fields k tile_loop_at[OF room(2) assms(2) t at(2-4)] Let_def sz by simp_all
    have sc: "q4nx_scale fo (rd16 (adv (adv (file_ptr raw 0) ?t) (2 * (g * 32 + lr)))) = (if f_less fo s (f_rat fo (1 / 10 ^ 10)) then f_rat fo 1 else s)"
      unfolding q4nx_scale_def Let_def s_def ..
    have rb: "rw_scl b k = (if f_less fo s (f_rat fo (1 / 10 ^ 10)) then f_rat fo 1 else s)"
        "rw_zp b k = folded fo (if f_less fo s (f_rat fo (1 / 10 ^ 10)) then f_rat fo 1 else s) z"
      unfolding b(2,3) k override_on_apply_in[OF cell[OF at]] grid_fn_at[OF at(3,4) kb] transformed_tile(2)[OF assms(3) t at(3,4)]
        bf16_at_def transformed_tile(3)[OF assms(3) t at(3,4)] sc z_def by (rule refl)+
    show ?thesis unfolding ra rb by simp
  qed
  have split: "r = r div 32 * 32 + r mod 32" "r div 32 < m" "r mod 32 < 32" if "r < m * 32" for r
    using that by (simp_all add: less_mult_imp_div_less)
  have split_c: "c = c div t * t + c mod t" "c div t < ntc" "c mod t < t" if "c < ntc * t" "0 < t" for c t
    using that by (simp_all add: less_mult_imp_div_less)
  show ?thesis
  proof (rule exI[of _ a], rule conjI[OF some], unfold Let_def, unfold b_def[symmetric], intro conjI allI impI)
    fix r c assume r: "r < m * 32" and c: "c < ntc * 256"
    note c = split_c[OF c] and r = split[OF r]
    show "rw_q4 b (r * cols + c) = rw_q4 a (r * cols + c)"
      using q4[OF r(2) c(2) r(3) c(3)] r(1) c(1) by simp
  next
    fix r g assume r: "r < m * 32" and g: "g < ntc * 8"
    have "r * (cols div 32) + g = (r div 32 * 32 + r mod 32) * (cols div 32) + (g div 8 * 8 + g mod 8)" by simp
    from grp[OF split(2)[OF r] split_c(2)[OF g] split(3)[OF r] split_c(3)[OF g] this]
    show "rw_scl b (r * (cols div 32) + g) =
        (if f_less fo (rw_scl a (r * (cols div 32) + g)) (f_rat fo (1 / 10 ^ 10)) then f_rat fo 1 else rw_scl a (r * (cols div 32) + g))"
      and "\<not> f_less fo (rw_scl a (r * (cols div 32) + g)) (f_rat fo (1 / 10 ^ 10)) \<Longrightarrow>
        rw_zp b (r * (cols div 32) + g) = rw_zp a (r * (cols div 32) + g)" by simp_all
  qed
qed


text \<open>C8. An FLM tensor converted to \<open>.1bp\<close> keeps its weights: what \<open>tensor_f32\<close> of the engine decodes from the
  converted tiles is, element by element, what the decoder of the FLM tiles gives, when every scale and zero point is finite and at
  most 100 and no scale is below 1e-10.\<close>

theorem converted_tensor_decodes:
  assumes "0 < ntc" "m * ntc * 5120 \<le> length raw" "tame_scales qo raw (m * ntc)"
  shows "\<exists>d. dequant_i8_to_float_ex qo (file_ptr raw 0) (m * ntc) (ntc * 256) = Some d \<and> dq_rows d = m * 32 \<and> dq_cols d = ntc * 256 \<and>
    (\<forall>r < m * 32. \<forall>c < ntc * 256.
       dequant_matrix (q_fops qo) junk (file_ptr (transform_tiles raw (m * ntc * 5120)) 0) (m * 32) (ntc * 256) 32 256 32 0 (r * (ntc * 256) + c)
       = dq_out d (r * (ntc * 256) + c))"
proof -
  have ntc: "ntc * 256 div 256 = ntc" by simp
  obtain d where d: "dequant_i8_to_float_ex qo (file_ptr raw 0) (m * ntc) (ntc * 256) = Some d" "dq_rows d = m * 32" "dq_cols d = ntc * 256"
    using assms(1) unfolding dequant_i8_to_float_ex_def dequant_i8_core_def decode_tiles_def Let_def ntc by simp
  note at = decode_tiles_at[OF d(1)[unfolded dequant_i8_to_float_ex_def dequant_i8_core_def Let_def], unfolded ntc d(3)]
  have "dequant_matrix (q_fops qo) junk (file_ptr (transform_tiles raw (m * ntc * 5120)) 0) (m * 32) (ntc * 256) 32 256 32 0 (r * (ntc * 256) + c)
      = dq_out d (r * (ntc * 256) + c)" if r: "r < m * 32" and c: "c < ntc * 256" for r c
  proof -
    let ?a = "r div 32" and ?b = "c div 256" and ?lr = "r mod 32" and ?c = "c mod 256"
    have b: "?a < m" "?b < ntc" "?lr < 32" "?c < 256" using r c by (simp_all add: less_mult_imp_div_less)
    note t = slot_bounds[OF b(1,2)]
    have cd: "ceil_div (ntc * 256) 256 = ntc" "reader_tile_bytes 32 256 32 0 = 5120" "tile_shape 256 32"
      by (simp_all add: reader_tile_bytes_def is_tq2_def is_rocm_def tile_shape_def)
    have "dequant_matrix (q_fops qo) junk (file_ptr (transform_tiles raw (m * ntc * 5120)) 0) (m * 32) (ntc * 256) 32 256 32 0 (r * (ntc * 256) + c) =
        q4nx_value (q_fops qo) 32 256 32 (adv (file_ptr (transform_tiles raw (m * ntc * 5120)) 0) ((?a * ntc + ?b) * 5120)) ?lr ?c"
      unfolding dequant_matrix_elem[OF cd(3) zero_less_numeral r c] matrix_value_def cd by (simp add: tile_value_def is_tq2_def is_rocm_def)
    also have "\<dots> = dq_out d ((?a * 32 + ?lr) * (ntc * 256) + (?b * 256 + ?c))"
      unfolding converted_value[OF assms(2) t assms(3) b(3,4)] at[OF zero_less_numeral t b(2-4)] by (simp add: adv_def add.assoc)
    finally show ?thesis by simp
  qed
  with d show ?thesis by blast
qed






section \<open>Witnesses\<close>

text \<open>Exact arithmetic on the finite values of a 32-bit float.\<close>

definition f32_rat :: "u32 \<Rightarrow> rat" where
  "f32_rat w =
     (let m = of_int (uint (w AND 0x7FFFFF)); e = unat (drop_bit 23 w AND 0xFF);
          v = (if e = 0 then m / 2 ^ 149 else (m + 2 ^ 23) * 2 ^ e / 2 ^ 150)
      in if bit w 31 then - v else v)"

definition exact_ops :: "rat qops" where
  "exact_ops = \<lparr>q_fops = \<lparr>f_half = (\<lambda>_. 0), f_bits = f32_rat, f_rat = id, f_mul = (*), f_add = (+), f_sub = (-), f_neg = uminus, f_less = (<)\<rparr>,
     q_div = (/), q_le = (\<le>), q_abs = abs, q_finite = (\<lambda>_. True), q_round = round, q_bits = (\<lambda>_. 0)\<rparr>"

lemma sample_scale: "k + 1 < n \<Longrightarrow> bf16_at (q_fops exact_ops) (file_ptr (replicate n 0x3F) k) = 12517376 / 2 ^ 24"
  by (simp add: bf16_at_def bf16_to_fp32_def rd16_def file_ptr_def exact_ops_def f32_rat_def Let_def)

lemma sample_tame: "tame_scales exact_ops (replicate 5120 0x3F) 1"
  by (auto simp: tame_scales_def list_all_iff Let_def sample_scale sane_def) (simp_all add: exact_ops_def)

theorem readers_agree_witness:
  "\<forall>fo :: rat fops. \<exists>a. read_q4nx_raw_asym fo (file_ptr (replicate 5120 0x3F) 0) (1 * 1) 256 = Some a \<and>
    (let b = read_q4nx_raw_1bp fo (file_ptr (transform_tiles (replicate 5120 0x3F) (1 * 1 * 5120)) 0) (1 * 32) 256 in
     (\<forall>r < 1 * 32. \<forall>c < 1 * 256. rw_q4 b (r * 256 + c) = rw_q4 a (r * 256 + c)) \<and>
     (\<forall>r < 1 * 32. \<forall>g < 1 * 8. let k = r * (256 div 32) + g; tiny = f_less fo (rw_scl a k) (f_rat fo (1 / 10 ^ 10)) in
        rw_scl b k = (if tiny then f_rat fo 1 else rw_scl a k) \<and> (\<not> tiny \<longrightarrow> rw_zp b k = rw_zp a k)))"
  by (intro allI readers_agree) simp_all

theorem converted_tensor_decodes_witness:
  "\<exists>d. dequant_i8_to_float_ex exact_ops (file_ptr (replicate 5120 0x3F) 0) (1 * 1) (1 * 256) = Some d \<and> dq_rows d = 1 * 32 \<and>
    dq_cols d = 1 * 256 \<and> (\<forall>r < 1 * 32. \<forall>c < 1 * 256.
       dequant_matrix (q_fops exact_ops) (\<lambda>_. 0) (file_ptr (transform_tiles (replicate 5120 0x3F) (1 * 1 * 5120)) 0)
         (1 * 32) (1 * 256) 32 256 32 0 (r * (1 * 256) + c) = dq_out d (r * (1 * 256) + c))"
  by (rule converted_tensor_decodes) (simp_all add: sample_tame[simplified])



end
