(* ===== verification/SpecDecode.thy ===== *)
theory SpecDecode
  imports Prelude "HOL-Library.Monad_Syntax"
begin

text \<open>
  Speculative decoding in \<open>tools/unified_server.cpp\<close>: a draft engine proposes tokens, the target verifies them in one batch.
  The engines are what \<open>src/backend.h\<close> lets a caller do with a key-value cache: decode a token, decode a batch, cut the cache.
  An operation that fails is \<open>None\<close>; the caller then resets both engines, so what a failure leaves behind is not kept. The clock
  is a function: \<open>late i\<close> is the comparison with the deadline before round \<open>i\<close>.
\<close>

record ('w, 'f) kv_ops =
  ko_decode :: "int \<Rightarrow> 'w \<Rightarrow> ('f list \<times> 'w) option"
  ko_verify :: "int list \<Rightarrow> 'w \<Rightarrow> ('f list \<times> 'w) option"
  ko_rollback :: "int \<Rightarrow> 'w \<Rightarrow> 'w option"

section \<open>The loop\<close>

text \<open>The first largest entry among the \<open>vs\<close> entries from \<open>a\<close> on.\<close>

definition argmax_at :: "('f \<Rightarrow> 'f \<Rightarrow> bool) \<Rightarrow> 'f list \<Rightarrow> nat \<Rightarrow> nat \<Rightarrow> int" where
  "argmax_at lt l a vs = int (for_loop [1..<vs] (\<lambda>v best. if lt (l ! (a + best)) (l ! (a + v)) then v else best) 0)"

abbreviation argmax :: "('f \<Rightarrow> 'f \<Rightarrow> bool) \<Rightarrow> 'f list \<Rightarrow> int" where
  "argmax lt l \<equiv> argmax_at lt l 0 (length l)"

record ('w, 'v, 'f) spec =
  sp_target :: 'w
  sp_draft :: 'v
  sp_prev :: "'f list"
  sp_dlogits :: "'f list"
  sp_base :: int
  sp_out :: "int list"
  sp_accept :: nat
  sp_reject :: nat

definition g_spec_n_draft :: nat where
  "g_spec_n_draft = 4"

fun spec_prefill ::
  "('w, 'f) kv_ops \<Rightarrow> ('v, 'f) kv_ops \<Rightarrow> int list \<Rightarrow> 'f list \<Rightarrow> 'f list \<Rightarrow> 'w \<Rightarrow> 'v \<Rightarrow> ('f list \<times> 'f list \<times> 'w \<times> 'v) option" where
  "spec_prefill T D [] tlg dlg w v = Some (tlg, dlg, w, v)"
| "spec_prefill T D (t # ts) tlg dlg w v =
     do { (tlg, w) \<leftarrow> ko_decode T t w; (dlg, v) \<leftarrow> ko_decode D t v; spec_prefill T D ts tlg dlg w v }"

fun propose :: "('f \<Rightarrow> 'f \<Rightarrow> bool) \<Rightarrow> ('v, 'f) kv_ops \<Rightarrow> nat \<Rightarrow> 'f list \<Rightarrow> 'v \<Rightarrow> (int list \<times> 'f list \<times> 'v) option" where
  "propose lt D 0 dl v = Some ([], dl, v)"
| "propose lt D (Suc n) dl v =
     (let nxt = argmax lt dl in
      do { (dl, v) \<leftarrow> ko_decode D nxt v; (ps, dl, v) \<leftarrow> propose lt D n dl v; Some (nxt # ps, dl, v) })"

text \<open>What the target predicts at proposal \<open>i\<close>, from its last decode or from the batch.\<close>

definition predicted :: "('f \<Rightarrow> 'f \<Rightarrow> bool) \<Rightarrow> nat \<Rightarrow> 'f list \<Rightarrow> 'f list \<Rightarrow> nat \<Rightarrow> int" where
  "predicted lt vs prev vl i = (if i = 0 then argmax_at lt prev 0 vs else argmax_at lt vl ((i - 1) * vs) vs)"

definition accepted :: "(nat \<Rightarrow> int) \<Rightarrow> int list \<Rightarrow> nat" where
  "accepted prd props = length (takeWhile (\<lambda>i. prd i = props ! i) [0..<length props])"

text \<open>After the batch: the target decodes its own next token, on the accepted prefix.\<close>

definition settle ::
  "('f \<Rightarrow> 'f \<Rightarrow> bool) \<Rightarrow> ('w, 'f) kv_ops \<Rightarrow> ('v, 'f) kv_ops \<Rightarrow> nat \<Rightarrow> int \<Rightarrow> 'f list \<Rightarrow> 'f list \<Rightarrow> int list \<Rightarrow> nat \<Rightarrow> 'w \<Rightarrow> 'v \<Rightarrow>
    (int \<times> 'f list \<times> 'w \<times> 'v \<times> int) option" where
  "settle lt T D vs kv_base prev vl props n w v =
     (if n = length props
      then let tok = argmax_at lt vl ((length props - 1) * vs) vs in
        do { (lg, w) \<leftarrow> ko_decode T tok w; Some (tok, lg, w, v, kv_base + (int (length props) + 1)) }
      else let tok = predicted lt vs prev vl n in
        do { w \<leftarrow> ko_rollback T (kv_base + int n) w; (lg, w) \<leftarrow> ko_decode T tok w;
             v \<leftarrow> ko_rollback D (kv_base + int n) v; Some (tok, lg, w, v, kv_base + int n + 1) })"

text \<open>One round; the flag says that the loop is left.\<close>

definition spec_round ::
  "('f \<Rightarrow> 'f \<Rightarrow> bool) \<Rightarrow> ('w, 'f) kv_ops \<Rightarrow> ('v, 'f) kv_ops \<Rightarrow> nat \<Rightarrow> nat \<Rightarrow> nat \<Rightarrow> int \<Rightarrow> ('w, 'v, 'f) spec \<Rightarrow>
    (bool \<times> ('w, 'v, 'f) spec) option" where
  "spec_round lt T D nd vs max_tokens eos s =
     do {
       (props, dl, v) \<leftarrow> propose lt D nd (sp_dlogits s) (sp_draft s);
       (vl, w) \<leftarrow> ko_verify T props (sp_target s);
       let n = accepted (predicted lt vs (sp_prev s) vl) props;
       let out = sp_out s @ take (max_tokens - length (sp_out s)) (take n props);
       (tok, prev, w, v, base) \<leftarrow> settle lt T D vs (sp_base s) (sp_prev s) vl props n w v;
       let s' = s\<lparr>sp_target := w, sp_draft := v, sp_prev := prev, sp_dlogits := dl, sp_base := base, sp_out := out,
                  sp_accept := sp_accept s + n, sp_reject := sp_reject s + (length props - n)\<rparr>;
       if max_tokens \<le> length out then Some (True, s')
       else do {
         (dlg, v) \<leftarrow> ko_decode D tok v;
         Some (tok = eos, s'\<lparr>sp_draft := v, sp_dlogits := dlg, sp_out := out @ [tok]\<rparr>) }
     }"

lemma spec_round_grows:
  assumes "spec_round lt T D nd vs m eos s = Some (False, s')"
  shows "length (sp_out s) < length (sp_out s') \<and> length (sp_out s') \<le> m"
  using assms unfolding spec_round_def Let_def by (auto split: Option.bind_splits if_splits prod.splits)

function spec_loop ::
  "('f \<Rightarrow> 'f \<Rightarrow> bool) \<Rightarrow> ('w, 'f) kv_ops \<Rightarrow> ('v, 'f) kv_ops \<Rightarrow> nat \<Rightarrow> nat \<Rightarrow> nat \<Rightarrow> int \<Rightarrow> (nat \<Rightarrow> bool) \<Rightarrow> nat \<Rightarrow> ('w, 'v, 'f) spec \<Rightarrow>
    ('w, 'v, 'f) spec option" where
  "spec_loop lt T D nd vs m eos late i s =
     (if length (sp_out s) < m \<and> \<not> late i
      then case spec_round lt T D nd vs m eos s of
             None \<Rightarrow> None
           | Some (stop, s') \<Rightarrow> if stop then Some s' else spec_loop lt T D nd vs m eos late (Suc i) s'
      else Some s)"
  by pat_completeness auto
termination
  by (relation "measure (\<lambda>(_, _, _, _, _, m, _, _, _, s). m - length (sp_out s))")
    (auto dest!: spec_round_grows)

declare spec_loop.simps [simp del]

definition run_spec_decode ::
  "('f \<Rightarrow> 'f \<Rightarrow> bool) \<Rightarrow> ('w, 'f) kv_ops \<Rightarrow> ('v, 'f) kv_ops \<Rightarrow> nat \<Rightarrow> int list \<Rightarrow> nat \<Rightarrow> nat \<Rightarrow> int \<Rightarrow> (nat \<Rightarrow> bool) \<Rightarrow> 'w \<Rightarrow> 'v \<Rightarrow>
    (int list \<times> nat \<times> nat) option" where
  "run_spec_decode lt T D nd prompt start max_tokens eos late w v =
     do {
       (tlg, dlg, w, v) \<leftarrow> spec_prefill T D (drop start prompt) [] [] w v;
       let vs = length tlg;
       let tok = argmax lt tlg;
       (tlg, w) \<leftarrow> ko_decode T tok w;
       (dlg, v) \<leftarrow> ko_decode D tok v;
       s \<leftarrow> spec_loop lt T D nd vs max_tokens eos late 0
         \<lparr>sp_target = w, sp_draft = v, sp_prev = tlg, sp_dlogits = dlg, sp_base = int (length prompt) - int start + 1,
          sp_out = [tok], sp_accept = 0, sp_reject = 0\<rparr>;
       Some (sp_out s, sp_accept s, sp_reject s)
     }"

section \<open>What an engine owes\<close>

text \<open>The contract of \<open>src/backend.h\<close> over the tokens in the cache: the logits after a decode are a function of the tokens that the
  cache then holds, a batch gives the logits at each of its positions, a rollback keeps a prefix.\<close>

definition kv_contract :: "('w, 'f) kv_ops \<Rightarrow> ('w \<Rightarrow> bool) \<Rightarrow> ('w \<Rightarrow> int list) \<Rightarrow> (int list \<Rightarrow> 'f list) \<Rightarrow> nat \<Rightarrow> bool" where
  "kv_contract E ok kv logits vs \<longleftrightarrow>
     (\<forall>s. length (logits s) = vs) \<and>
     (\<forall>t w l w'. ok w \<longrightarrow> ko_decode E t w = Some (l, w') \<longrightarrow> ok w' \<and> kv w' = kv w @ [t] \<and> l = logits (kv w @ [t])) \<and>
     (\<forall>ts w l w'. ok w \<longrightarrow> ko_verify E ts w = Some (l, w') \<longrightarrow>
        ok w' \<and> kv w' = kv w @ ts \<and> l = concat (map (\<lambda>i. logits (kv w @ take (Suc i) ts)) [0..<length ts])) \<and>
     (\<forall>n w w'. ok w \<longrightarrow> ko_rollback E (int n) w = Some w' \<longrightarrow> ok w' \<and> kv w' = take n (kv w))"

lemma kv_contractD:
  assumes "kv_contract E ok kv logits vs"
  shows kv_logits: "length (logits s) = vs"
    and kv_decodeD: "ko_decode E t w = Some (l, w') \<Longrightarrow> ok w \<Longrightarrow> ok w' \<and> kv w' = kv w @ [t] \<and> l = logits (kv w @ [t])"
    and kv_verifyD: "ko_verify E ts w = Some (l, w') \<Longrightarrow> ok w \<Longrightarrow>
      ok w' \<and> kv w' = kv w @ ts \<and> l = concat (map (\<lambda>i. logits (kv w @ take (Suc i) ts)) [0..<length ts])"
    and kv_rollbackD: "ko_rollback E (int n) w = Some w' \<Longrightarrow> ok w \<Longrightarrow> ok w' \<and> kv w' = take n (kv w)"
  using assms unfolding kv_contract_def by blast+

text \<open>The reference: the target alone, always with its most likely token.\<close>

fun greedy :: "('f \<Rightarrow> 'f \<Rightarrow> bool) \<Rightarrow> (int list \<Rightarrow> 'f list) \<Rightarrow> int list \<Rightarrow> nat \<Rightarrow> int list" where
  "greedy lt logits p 0 = []"
| "greedy lt logits p (Suc n) = greedy lt logits p n @ [argmax lt (logits (p @ greedy lt logits p n))]"

lemma length_greedy [simp]: "length (greedy lt logits p n) = n"
  by (induction n) simp_all

lemma take_greedy: "k \<le> n \<Longrightarrow> take k (greedy lt logits p n) = greedy lt logits p k"
proof (induction n)
  case (Suc n)
  then show ?case by (cases "k = Suc n") simp_all
qed simp

lemma greedy_prefix: "out = greedy lt logits p (length out) \<Longrightarrow> take k out = greedy lt logits p (length (take k out))"
  by (metis length_greedy length_take min.cobounded1 take_all_iff take_greedy nle_le length_take min_def)

text \<open>Accepted tokens are greedy.\<close>

lemma greedy_extend:
  assumes "out = greedy lt logits p (length out)"
    and "\<And>i. i < n \<Longrightarrow> xs ! i = argmax lt (logits (p @ out @ take i xs))" and "n \<le> length xs"
  shows "out @ take n xs = greedy lt logits p (length out + n)"
  using assms(2,3)
proof (induction n)
  case 0
  then show ?case using assms(1) by simp
next
  case (Suc n)
  then have ih: "out @ take n xs = greedy lt logits p (length out + n)" by simp
  have "take (Suc n) xs = take n xs @ [xs ! n]" using Suc.prems(2) by (simp add: take_Suc_conv_app_nth)
  then show ?case using Suc.prems(1)[of n] ih by simp
qed

lemma argmax_at_cong:
  assumes "\<And>b. b < vs \<Longrightarrow> l ! (a + b) = l' ! (a' + b)"
  shows "argmax_at lt l a vs = argmax_at lt l' a' vs"
proof (cases "vs = 0")
  case False
  have "for_loop [1..<n] (\<lambda>v best. if lt (l ! (a + best)) (l ! (a + v)) then v else best) 0 =
      for_loop [1..<n] (\<lambda>v best. if lt (l' ! (a' + best)) (l' ! (a' + v)) then v else best) 0 \<and>
      for_loop [1..<n] (\<lambda>v best. if lt (l ! (a + best)) (l ! (a + v)) then v else best) 0 < vs" if "n \<le> vs" for n
    using that
  proof (induction n)
    case (Suc n)
    then show ?case
      using assms[of n] assms[of "for_loop [1..<n] (\<lambda>v best. if lt (l ! (a + best)) (l ! (a + v)) then v else best) 0"]
      by (cases "n = 0") (auto simp: for_loop_append for_loop_Cons for_loop_Nil False)
  qed (use False in \<open>simp add: for_loop_Nil\<close>)
  then show ?thesis by (simp add: argmax_at_def)
qed (simp add: argmax_at_def for_loop_Nil)

lemma predicted_eq:
  assumes "kv_contract T ok kv logits vs" and "ok w" and "ko_verify T props w = Some (vl, w')" and "prev = logits (kv w)" and "i \<le> length props"
  shows "predicted lt vs prev vl i = argmax lt (logits (kv w @ take i props))"
proof (cases i)
  case 0
  then show ?thesis using assms(4) kv_logits[OF assms(1)] by (simp add: predicted_def)
next
  case (Suc k)
  let ?f = "\<lambda>i. logits (kv w @ take (Suc i) props)"
  have "argmax_at lt (concat (map ?f [0..<length props])) (k * vs) vs = argmax_at lt (?f k) 0 vs"
    by (rule argmax_at_cong) (use concat_blocks(2)[of "length props" ?f vs k] kv_logits[OF assms(1)] Suc assms(5) in simp)
  then show ?thesis
    using Suc kv_logits[OF assms(1)] kv_verifyD[OF assms(1,3,2)] by (simp add: predicted_def)
qed

section \<open>One round\<close>

lemma propose_kv:
  assumes "kv_contract D ok kv logits vd"
  shows "propose lt D n dl v = Some (ps, dl', v') \<Longrightarrow> ok v \<Longrightarrow> ok v' \<and> kv v' = kv v @ ps \<and> length ps = n"
proof (induction n arbitrary: dl v ps)
  case (Suc n)
  then obtain l v1 qs where d: "ko_decode D (argmax lt dl) v = Some (l, v1)" "propose lt D n l v1 = Some (qs, dl', v')" "ps = argmax lt dl # qs"
    by (auto simp: Let_def split: Option.bind_splits prod.splits)
  show ?case using Suc.IH[OF d(2)] kv_decodeD[OF assms d(1) Suc.prems(2)] d(3) by simp
qed simp

lemma accepted_facts: "accepted prd props \<le> length props" "i < accepted prd props \<Longrightarrow> props ! i = prd i"
proof -
  let ?t = "takeWhile (\<lambda>i. prd i = props ! i) [0..<length props]"
  show le: "accepted prd props \<le> length props"
    unfolding accepted_def using length_takeWhile_le[of _ "[0..<length props]"] by simp
  assume i: "i < accepted prd props"
  then have "?t ! i \<in> set ?t" by (simp add: accepted_def)
  moreover have "?t ! i = i" using i le takeWhile_nth[of i _ "[0..<length props]"] by (simp add: accepted_def)
  ultimately have "i \<in> set ?t" by simp
  from set_takeWhileD[OF this] show "props ! i = prd i" by simp
qed

definition spec_inv ::
  "('f \<Rightarrow> 'f \<Rightarrow> bool) \<Rightarrow> (int list \<Rightarrow> 'f list) \<Rightarrow> ('w \<Rightarrow> bool) \<Rightarrow> ('w \<Rightarrow> int list) \<Rightarrow> ('v \<Rightarrow> bool) \<Rightarrow> ('v \<Rightarrow> int list) \<Rightarrow> int list \<Rightarrow>
    ('w, 'v, 'f) spec \<Rightarrow> bool" where
  "spec_inv lt logits okt kt okd kd p s \<longleftrightarrow>
     okt (sp_target s) \<and> okd (sp_draft s) \<and> kt (sp_target s) = p @ sp_out s \<and> kd (sp_draft s) = p @ sp_out s \<and>
     sp_prev s = logits (p @ sp_out s) \<and> sp_base s = int (length p + length (sp_out s)) \<and>
     sp_out s = greedy lt logits p (length (sp_out s))"

lemma settle_ok:
  assumes T: "kv_contract T okt kt logits vs" and D: "kv_contract D okd kd dlogits vd" and w0: "okt w0"
    and ve: "ko_verify T props w0 = Some (vl, w)" and prev: "prev = logits (kt w0)" and n: "n \<le> length props" "props \<noteq> []"
    and v: "okd v" "kd v = kt w0 @ props" and settle: "settle lt T D vs (int (length (kt w0))) prev vl props n w v = Some (tok, lg, w', v', base)"
  defines "q \<equiv> kt w0 @ take n props"
  shows "tok = argmax lt (logits q) \<and> okt w' \<and> kt w' = q @ [tok] \<and> lg = logits (q @ [tok]) \<and> okd v' \<and> kd v' = q \<and> base = int (length q + 1)"
proof -
  note w = kv_verifyD[OF T ve w0]
  have prd: "predicted lt vs prev vl n = argmax lt (logits q)" unfolding q_def by (rule predicted_eq[OF T w0 ve prev n(1)])
  show ?thesis
  proof (cases "n = length props")
    case True
    have e: "argmax_at lt vl ((length props - 1) * vs) vs = argmax lt (logits q)"
      using n(2) True prd by (simp add: predicted_def)
    obtain l w1 where d: "ko_decode T (argmax lt (logits q)) w = Some (l, w1)" "(tok, lg, w', v', base) =
        (argmax lt (logits q), l, w1, v, int (length (kt w0)) + (int (length props) + 1))"
      using settle True unfolding settle_def e Let_def by (auto split: Option.bind_splits prod.splits)
    show ?thesis using d(2) kv_decodeD[OF T d(1)] w v True by (simp add: q_def)
  next
    case False
    obtain w1 w2 v1 l where r: "ko_rollback T (int (length (kt w0) + n)) w = Some w1" "ko_decode T (argmax lt (logits q)) w1 = Some (l, w2)"
      "ko_rollback D (int (length (kt w0) + n)) v = Some v1"
      "(tok, lg, w', v', base) = (argmax lt (logits q), l, w2, v1, int (length (kt w0)) + int n + 1)"
      using settle False unfolding settle_def prd Let_def by (auto split: Option.bind_splits prod.splits)
    have cut: "take (length (kt w0) + n) (kt w0 @ props) = q" by (simp add: q_def)
    have "okt w1 \<and> kt w1 = q" "okd v1 \<and> kd v1 = q" using kv_rollbackD[OF T r(1)] kv_rollbackD[OF D r(3)] w v cut by simp_all
    then show ?thesis using r(4) kv_decodeD[OF T r(2)] n(1) by (simp add: q_def)
  qed
qed

lemma spec_round_inv:
  assumes T: "kv_contract T okt kt logits vs" and D: "kv_contract D okd kd dlogits vd" and nd: "0 < nd"
    and inv: "spec_inv lt logits okt kt okd kd p s" and room: "length (sp_out s) < m"
    and round: "spec_round lt T D nd vs m eos s = Some (stop, s')"
  shows "sp_out s' = greedy lt logits p (length (sp_out s'))" "length (sp_out s') \<le> m"
    "stop \<Longrightarrow> length (sp_out s') = m \<or> last (sp_out s') = eos" "\<not> stop \<Longrightarrow> spec_inv lt logits okt kt okd kd p s'"
proof -
  from round obtain props dl v1 vl w1 where
    pr: "propose lt D nd (sp_dlogits s) (sp_draft s) = Some (props, dl, v1)" and
    ve: "ko_verify T props (sp_target s) = Some (vl, w1)"
    unfolding spec_round_def Let_def by (auto split: Option.bind_splits prod.splits)
  define n where "n = accepted (predicted lt vs (sp_prev s) vl) props"
  define out where "out = sp_out s @ take (m - length (sp_out s)) (take n props)"
  have "settle lt T D vs (sp_base s) (sp_prev s) vl props n w1 v1 \<noteq> None"
    by (rule notI) (use round in \<open>simp add: spec_round_def pr ve n_def Let_def\<close>)
  then obtain tok lg w2 v2 base where se: "settle lt T D vs (sp_base s) (sp_prev s) vl props n w1 v1 = Some (tok, lg, w2, v2, base)"
    by (cases "settle lt T D vs (sp_base s) (sp_prev s) vl props n w1 v1") auto
  let ?s = "s\<lparr>sp_target := w2, sp_draft := v2, sp_prev := lg, sp_dlogits := dl, sp_base := base, sp_out := out,
      sp_accept := sp_accept s + n, sp_reject := sp_reject s + (length props - n)\<rparr>"
  have res: "(m \<le> length out \<and> stop \<and> s' = ?s) \<or> (\<not> m \<le> length out \<and> (\<exists>dlg v3. ko_decode D tok v2 = Some (dlg, v3) \<and>
      stop = (tok = eos) \<and> s' = ?s\<lparr>sp_draft := v3, sp_dlogits := dlg, sp_out := out @ [tok]\<rparr>))"
    using round se[unfolded n_def] unfolding n_def out_def
    by (cases "ko_decode D tok v2") (auto simp: spec_round_def pr ve Let_def split: if_splits)
  from inv have iv: "kt (sp_target s) = p @ sp_out s" "kd (sp_draft s) = p @ sp_out s" "sp_prev s = logits (kt (sp_target s))"
      "sp_base s = int (length (kt (sp_target s)))" "sp_out s = greedy lt logits p (length (sp_out s))"
      "okt (sp_target s)" "okd (sp_draft s)"
    by (simp_all add: spec_inv_def)
  note dr = propose_kv[OF D pr iv(7)]
  have nl: "n \<le> length props" "props \<noteq> []" using accepted_facts(1) dr nd by (auto simp: n_def)
  have "okd v1" "kd v1 = kt (sp_target s) @ props" using dr iv by simp_all
  note ok = settle_ok[OF T D iv(6) ve iv(3) nl this se[unfolded iv(4)]]
  have acc: "props ! i = argmax lt (logits (p @ sp_out s @ take i props))" if "i < n" for i
    using accepted_facts(2)[of i _ props] predicted_eq[OF T iv(6) ve iv(3), of i] nl that by (simp add: n_def iv(1))
  note full = greedy_extend[OF iv(5) acc nl(1)]
  have out: "out = take m (sp_out s @ take n props)" using room by (simp add: out_def)
  have "length (sp_out s @ take n props) = length (sp_out s) + n" using nl by simp
  with full have outg: "out = greedy lt logits p (length out)" "length out \<le> m"
    unfolding out by (intro greedy_prefix, simp_all only: length_take min.cobounded2 min.cobounded1)
  have next_tok: "out @ [tok] = greedy lt logits p (Suc (length out))" and outn: "out = sp_out s @ take n props" if "\<not> m \<le> length out"
  proof -
    have "length (sp_out s @ take n props) \<le> m" using that unfolding out length_take by linarith
    then show o: "out = sp_out s @ take n props" unfolding out by (rule take_all)
    show "out @ [tok] = greedy lt logits p (Suc (length out))" using ok full nl by (simp add: o iv(1))
  qed
  show "sp_out s' = greedy lt logits p (length (sp_out s'))" "length (sp_out s') \<le> m"
    using res outg next_tok by (auto simp del: greedy.simps)
  show "stop \<Longrightarrow> length (sp_out s') = m \<or> last (sp_out s') = eos" using res outg(2) by auto
  show "spec_inv lt logits okt kt okd kd p s'" if ns: "\<not> stop"
  proof -
    obtain dlg v3 where d: "ko_decode D tok v2 = Some (dlg, v3)" "\<not> m \<le> length out"
      "s' = ?s\<lparr>sp_draft := v3, sp_dlogits := dlg, sp_out := out @ [tok]\<rparr>" using res ns by blast
    show ?thesis unfolding spec_inv_def d(3)
      using next_tok[OF d(2)] ok kv_decodeD[OF D d(1)] by (simp add: outn[OF d(2)] iv(1) del: greedy.simps)
  qed
qed

section \<open>The whole run\<close>

lemma spec_loop_run:
  assumes T: "kv_contract T okt kt logits vs" and D: "kv_contract D okd kd dlogits vd" and nd: "0 < nd"
  shows "spec_inv lt logits okt kt okd kd p s \<Longrightarrow> spec_loop lt T D nd vs m eos late i s = Some s' \<Longrightarrow>
    sp_out s' = greedy lt logits p (length (sp_out s')) \<and> length (sp_out s') \<le> max (length (sp_out s)) m \<and>
    (length (sp_out s') < m \<longrightarrow> last (sp_out s') = eos \<or> (\<exists>j. late j))"
proof (induction "m - length (sp_out s)" arbitrary: s i rule: less_induct)
  case less
  note loop = less.prems(2)[unfolded spec_loop.simps[of lt T D nd vs m eos late i s]]
  show ?case
  proof (cases "length (sp_out s) < m \<and> \<not> late i")
    case False
    then show ?thesis using loop less.prems(1) by (auto simp: spec_inv_def)
  next
    case True
    then obtain stop s1 where r: "spec_round lt T D nd vs m eos s = Some (stop, s1)" using loop by (auto split: option.splits)
    note inv = spec_round_inv[OF T D nd less.prems(1) conjunct1[OF True] r]
    show ?thesis
    proof (cases stop)
      case True
      then have "s' = s1" using loop r \<open>length (sp_out s) < m \<and> \<not> late i\<close> by simp
      then show ?thesis using inv True by auto
    next
      case False
      then have l: "spec_loop lt T D nd vs m eos late (Suc i) s1 = Some s'" using loop r True by simp
      have g: "length (sp_out s) < length (sp_out s1) \<and> length (sp_out s1) \<le> m" by (rule spec_round_grows) (use r False in simp)
      show ?thesis using less.hyps[OF _ inv(4)[OF False] l] g True by auto
    qed
  qed
qed

lemma spec_round_longer: "spec_round lt T D nd vs m eos s = Some (stop, s') \<Longrightarrow> length (sp_out s) \<le> length (sp_out s')"
  unfolding spec_round_def Let_def by (auto split: Option.bind_splits if_splits prod.splits)

lemma spec_loop_longer: "spec_loop lt T D nd vs m eos late i s = Some s' \<Longrightarrow> length (sp_out s) \<le> length (sp_out s')"
proof (induction "m - length (sp_out s)" arbitrary: s i rule: less_induct)
  case less
  note loop = less.prems[unfolded spec_loop.simps[of lt T D nd vs m eos late i s]]
  show ?case
  proof (cases "length (sp_out s) < m \<and> \<not> late i")
    case True
    then obtain stop s1 where r: "spec_round lt T D nd vs m eos s = Some (stop, s1)" using loop by (auto split: option.splits)
    show ?thesis
    proof (cases stop)
      case False
      then have l: "spec_loop lt T D nd vs m eos late (Suc i) s1 = Some s'" using loop r True by simp
      have "length (sp_out s) < length (sp_out s1)" using spec_round_grows[of lt T D nd vs m eos s s1] r False by simp
      then show ?thesis using less.hyps[OF _ l] True by linarith
    qed (use loop r True spec_round_longer[OF r] in simp)
  qed (use loop in auto)
qed

lemma spec_prefill_run:
  assumes T: "kv_contract T okt kt logits vs" and D: "kv_contract D okd kd dlogits vd"
  shows "spec_prefill T D ts tlg dlg w v = Some (tlg', dlg', w', v') \<Longrightarrow> okt w \<Longrightarrow> okd v \<Longrightarrow>
    okt w' \<and> okd v' \<and> kt w' = kt w @ ts \<and> kd v' = kd v @ ts \<and> (ts \<noteq> [] \<longrightarrow> tlg' = logits (kt w @ ts))"
proof (induction ts arbitrary: tlg dlg w v)
  case (Cons t ts)
  then obtain tl w1 dl v1 where d: "ko_decode T t w = Some (tl, w1)" "ko_decode D t v = Some (dl, v1)"
    "spec_prefill T D ts tl dl w1 v1 = Some (tlg', dlg', w', v')"
    by (auto split: Option.bind_splits prod.splits)
  show ?case using Cons.IH[OF d(3)] kv_decodeD[OF T d(1) Cons.prems(2)] kv_decodeD[OF D d(2) Cons.prems(3)] d(3) by (cases "ts = []") auto
qed simp

section \<open>Engines that do not fail\<close>

definition always_up :: "('w, 'f) kv_ops \<Rightarrow> bool" where
  "always_up E \<longleftrightarrow> (\<forall>t w. ko_decode E t w \<noteq> None) \<and> (\<forall>ts w. ts \<noteq> [] \<longrightarrow> ko_verify E ts w \<noteq> None) \<and> (\<forall>n w. ko_rollback E n w \<noteq> None)"

lemma always_upD:
  assumes "always_up E"
  shows "\<exists>l w'. ko_decode E t w = Some (l, w')" "ts \<noteq> [] \<Longrightarrow> \<exists>l w'. ko_verify E ts w = Some (l, w')" "\<exists>w'. ko_rollback E n w = Some w'"
  using assms unfolding always_up_def by (metis not_None_eq surj_pair)+

lemma propose_up: "always_up D \<Longrightarrow> \<exists>ps dl' v'. propose lt D n dl v = Some (ps, dl', v') \<and> length ps = n"
proof (induction n arbitrary: dl v)
  case (Suc n)
  obtain l v1 where "ko_decode D (argmax lt dl) v = Some (l, v1)" using always_upD(1)[OF Suc.prems] by blast
  moreover obtain ps dl' v' where "propose lt D n l v1 = Some (ps, dl', v')" "length ps = n" using Suc by blast
  ultimately show ?case by (simp add: Let_def)
qed simp

lemma settle_up:
  assumes "always_up T" "always_up D"
  shows "settle lt T D vs base prev vl props n w v \<noteq> None"
proof (cases "n = length props")
  case True
  then show ?thesis
    using always_upD(1)[OF assms(1), of "argmax_at lt vl ((length props - 1) * vs) vs" w] by (auto simp: settle_def Let_def)
next
  case False
  obtain w1 where w1: "ko_rollback T (base + int n) w = Some w1" using always_upD(3)[OF assms(1)] by blast
  obtain l w2 where w2: "ko_decode T (predicted lt vs prev vl n) w1 = Some (l, w2)" using always_upD(1)[OF assms(1)] by blast
  obtain v1 where v1: "ko_rollback D (base + int n) v = Some v1" using always_upD(3)[OF assms(2)] by blast
  show ?thesis using False w1 w2 v1 by (simp add: settle_def Let_def)
qed

lemma spec_round_up:
  assumes "always_up T" "always_up D" "0 < nd"
  shows "spec_round lt T D nd vs m eos s \<noteq> None"
proof -
  obtain ps dl v where p: "propose lt D nd (sp_dlogits s) (sp_draft s) = Some (ps, dl, v)" "ps \<noteq> []"
    using propose_up[OF assms(2)] assms(3) by (metis length_greater_0_conv)
  obtain vl w where ve: "ko_verify T ps (sp_target s) = Some (vl, w)" using always_upD(2)[OF assms(1) p(2)] by blast
  obtain tok lg w' v' base where se: "settle lt T D vs (sp_base s) (sp_prev s) vl ps (accepted (predicted lt vs (sp_prev s) vl) ps) w v =
      Some (tok, lg, w', v', base)" using settle_up[OF assms(1,2)] by (metis not_None_eq surj_pair)
  obtain l v2 where "ko_decode D tok v' = Some (l, v2)" using always_upD(1)[OF assms(2)] by blast
  then show ?thesis using p ve se by (auto simp: spec_round_def Let_def)
qed

lemma spec_loop_up:
  assumes "always_up T" "always_up D" "0 < nd"
  shows "spec_loop lt T D nd vs m eos late i s \<noteq> None"
proof (induction "m - length (sp_out s)" arbitrary: s i rule: less_induct)
  case less
  show ?case
  proof (cases "length (sp_out s) < m \<and> \<not> late i")
    case True
    obtain stop s1 where r: "spec_round lt T D nd vs m eos s = Some (stop, s1)" using spec_round_up[OF assms] by (metis not_None_eq surj_pair)
    show ?thesis
    proof (cases stop)
      case False
      then have "length (sp_out s) < length (sp_out s1)" using spec_round_grows[of lt T D nd vs m eos s s1] r by simp
      with True have "m - length (sp_out s1) < m - length (sp_out s)" by linarith
      from less[OF this, of "Suc i"] show ?thesis using True r False by (subst spec_loop.simps) simp
    qed (use True r in \<open>subst spec_loop.simps, simp\<close>)
  qed (subst spec_loop.simps, auto)
qed

lemma spec_prefill_up: "always_up T \<Longrightarrow> always_up D \<Longrightarrow> spec_prefill T D ts tlg dlg w v \<noteq> None"
proof (induction ts arbitrary: tlg dlg w v)
  case (Cons t ts)
  obtain tl w1 dl v1 where "ko_decode T t w = Some (tl, w1)" "ko_decode D t v = Some (dl, v1)"
    using always_upD(1)[OF Cons.prems(1)] always_upD(1)[OF Cons.prems(2)] by blast
  then show ?case using Cons.IH[OF Cons.prems] by simp
qed simp

section \<open>The Vulkan engine\<close>

text \<open>
  \<open>src/backend_ggml_vulkan.cpp\<close> over llama.cpp, which is a parameter: a batch is a list of tokens with their positions, \<open>None\<close> for
  the position that the library assigns; each call returns whether it succeeded.
  The engine is initialised: without a context every operation fails.
\<close>

record ('c, 'f) llama_ops =
  ll_decode :: "(int \<times> int option) list \<Rightarrow> 'c \<Rightarrow> bool \<times> 'c"
  ll_logits :: "'c \<Rightarrow> int \<Rightarrow> 'f list"
  ll_seq_rm :: "int \<Rightarrow> 'c \<Rightarrow> bool \<times> 'c"
  ll_clear :: "'c \<Rightarrow> 'c"

record 'c vulkan =
  vk_pos :: int
  vk_ctx :: 'c

definition vk_decode_one :: "('c, 'f) llama_ops \<Rightarrow> int \<Rightarrow> 'c vulkan \<Rightarrow> ('f list \<times> 'c vulkan) option" where
  "vk_decode_one L t b =
     (let (good, c) = ll_decode L [(t, None)] (vk_ctx b) in
      if good then Some (ll_logits L c (- 1), b\<lparr>vk_pos := vk_pos b + 1, vk_ctx := c\<rparr>) else None)"

definition vk_verify_batch :: "('c, 'f) llama_ops \<Rightarrow> int list \<Rightarrow> 'c vulkan \<Rightarrow> ('f list \<times> 'c vulkan) option" where
  "vk_verify_batch L ts b =
     (if ts = [] then None
      else
        let (good, c) = ll_decode L (map (\<lambda>i. (ts ! i, Some (vk_pos b + int i))) [0..<length ts]) (vk_ctx b) in
        if good then Some (concat (map (\<lambda>i. ll_logits L c (int i)) [0..<length ts]), b\<lparr>vk_pos := vk_pos b + int (length ts), vk_ctx := c\<rparr>)
        else None)"

definition vk_rollback :: "('c, 'f) llama_ops \<Rightarrow> int \<Rightarrow> 'c vulkan \<Rightarrow> 'c vulkan option" where
  "vk_rollback L keep b =
     (if vk_pos b \<le> keep then Some b
      else let (good, c) = ll_seq_rm L keep (vk_ctx b) in if good then Some (b\<lparr>vk_pos := keep, vk_ctx := c\<rparr>) else None)"

definition vk_reset :: "('c, 'f) llama_ops \<Rightarrow> 'c vulkan \<Rightarrow> 'c vulkan" where
  "vk_reset L b = b\<lparr>vk_pos := 0, vk_ctx := ll_clear L (vk_ctx b)\<rparr>"

definition vulkan_engine :: "('c, 'f) llama_ops \<Rightarrow> ('c vulkan, 'f) kv_ops" where
  "vulkan_engine L = \<lparr>ko_decode = vk_decode_one L, ko_verify = vk_verify_batch L, ko_rollback = vk_rollback L\<rparr>"

text \<open>What llama.cpp documents: tokens are appended at the end of the cache, by themselves or at consecutive positions that start
  there; the logits at an index of a batch are those after its token; positions from a given one on can be removed.\<close>

definition llama_contract :: "('c, 'f) llama_ops \<Rightarrow> ('c \<Rightarrow> int list) \<Rightarrow> (int list \<Rightarrow> 'f list) \<Rightarrow> nat \<Rightarrow> bool" where
  "llama_contract L kv logits vs \<longleftrightarrow>
     (\<forall>s. length (logits s) = vs) \<and>
     (\<forall>t c c'. ll_decode L [(t, None)] c = (True, c') \<longrightarrow> kv c' = kv c @ [t] \<and> ll_logits L c' (- 1) = logits (kv c @ [t])) \<and>
     (\<forall>ts c c'. ll_decode L (map (\<lambda>i. (ts ! i, Some (int (length (kv c) + i)))) [0..<length ts]) c = (True, c') \<longrightarrow>
        kv c' = kv c @ ts \<and> (\<forall>i < length ts. ll_logits L c' (int i) = logits (kv c @ take (Suc i) ts))) \<and>
     (\<forall>n c c'. ll_seq_rm L (int n) c = (True, c') \<longrightarrow> kv c' = take n (kv c)) \<and>
     (\<forall>c. kv (ll_clear L c) = [])"

text \<open>The engine's own count of positions is the length of the cache.\<close>

definition vk_ok :: "('c \<Rightarrow> int list) \<Rightarrow> 'c vulkan \<Rightarrow> bool" where
  "vk_ok kv b \<longleftrightarrow> vk_pos b = int (length (kv (vk_ctx b)))"

lemma vulkan_contract:
  assumes "llama_contract L kv logits vs"
  shows "kv_contract (vulkan_engine L) (vk_ok kv) (\<lambda>b. kv (vk_ctx b)) logits vs"
proof -
  have dec: "vk_ok kv w' \<and> kv (vk_ctx w') = kv (vk_ctx w) @ [t] \<and> l = logits (kv (vk_ctx w) @ [t])"
    if h: "vk_ok kv w" "vk_decode_one L t w = Some (l, w')" for t w l w'
  proof -
    obtain c where "ll_decode L [(t, None)] (vk_ctx w) = (True, c)" "l = ll_logits L c (- 1)" "w' = w\<lparr>vk_pos := vk_pos w + 1, vk_ctx := c\<rparr>"
      using h(2) by (auto simp: vk_decode_one_def Let_def split: prod.splits if_splits)
    then show ?thesis using assms h(1) by (simp add: llama_contract_def vk_ok_def)
  qed
  have ver: "vk_ok kv w' \<and> kv (vk_ctx w') = kv (vk_ctx w) @ ts \<and>
      l = concat (map (\<lambda>i. logits (kv (vk_ctx w) @ take (Suc i) ts)) [0..<length ts])"
    if h: "vk_ok kv w" "vk_verify_batch L ts w = Some (l, w')" for ts w l w'
  proof -
    obtain c where c: "ll_decode L (map (\<lambda>i. (ts ! i, Some (vk_pos w + int i))) [0..<length ts]) (vk_ctx w) = (True, c)"
      "l = concat (map (\<lambda>i. ll_logits L c (int i)) [0..<length ts])" "w' = w\<lparr>vk_pos := vk_pos w + int (length ts), vk_ctx := c\<rparr>"
      using h(2) by (auto simp: vk_verify_batch_def Let_def split: prod.splits if_splits)
    have "vk_pos w + int i = int (length (kv (vk_ctx w)) + i)" for i using h(1) by (simp add: vk_ok_def)
    then have k: "kv c = kv (vk_ctx w) @ ts \<and> (\<forall>i < length ts. ll_logits L c (int i) = logits (kv (vk_ctx w) @ take (Suc i) ts))"
      using c(1) assms unfolding llama_contract_def by simp
    then have "map (\<lambda>i. ll_logits L c (int i)) [0..<length ts] = map (\<lambda>i. logits (kv (vk_ctx w) @ take (Suc i) ts)) [0..<length ts]"
      by (intro map_cong) simp_all
    with c(2) have "l = concat (map (\<lambda>i. logits (kv (vk_ctx w) @ take (Suc i) ts)) [0..<length ts])" by simp
    then show ?thesis using c(3) k h(1) by (simp add: vk_ok_def)
  qed
  have rol: "vk_ok kv w' \<and> kv (vk_ctx w') = take n (kv (vk_ctx w))" if h: "vk_ok kv w" "vk_rollback L (int n) w = Some w'" for n w w'
  proof (cases "vk_pos w \<le> int n")
    case True
    then show ?thesis using h by (simp add: vk_rollback_def vk_ok_def)
  next
    case False
    then obtain c where "ll_seq_rm L (int n) (vk_ctx w) = (True, c)" "w' = w\<lparr>vk_pos := int n, vk_ctx := c\<rparr>"
      using h(2) by (auto simp: vk_rollback_def Let_def split: prod.splits if_splits)
    then show ?thesis using assms h(1) False by (simp add: llama_contract_def vk_ok_def)
  qed
  have len: "length (logits q) = vs" for q using assms by (simp add: llama_contract_def)
  show ?thesis unfolding kv_contract_def vulkan_engine_def kv_ops.simps
    by (intro conjI allI impI len) (blast dest: dec ver rol)+
qed

lemma vulkan_reset: "llama_contract L kv logits vs \<Longrightarrow> vk_ok kv (vk_reset L b) \<and> kv (vk_ctx (vk_reset L b)) = []"
  by (simp add: llama_contract_def vk_reset_def vk_ok_def)

section \<open>Properties\<close>

lemma run_spec_decode_run:
  assumes T: "kv_contract T okt kt logits vs" and D: "kv_contract D okd kd dlogits vd" and nd: "0 < nd"
    and fresh: "okt w" "kt w = []" "okd v" "kd v = []" and start: "start < length prompt"
    and run: "run_spec_decode lt T D nd prompt start m eos late w v = Some (out, a, r)"
  shows "out = greedy lt logits (drop start prompt) (length out) \<and> 1 \<le> length out \<and> length out \<le> max 1 m \<and>
    (length out < m \<longrightarrow> last out = eos \<or> (\<exists>j. late j))"
proof -
  let ?p = "drop start prompt"
  from run obtain tlg dlg w1 v1 where pre: "spec_prefill T D ?p [] [] w v = Some (tlg, dlg, w1, v1)"
    unfolding run_spec_decode_def Let_def by (auto split: Option.bind_splits prod.splits)
  have ne: "?p \<noteq> []" using start by simp
  note p1 = spec_prefill_run[OF T D pre fresh(1,3)]
  let ?tok = "argmax lt tlg"
  from run obtain lg w2 dl v2 s where d: "ko_decode T ?tok w1 = Some (lg, w2)" "ko_decode D ?tok v1 = Some (dl, v2)" and
    loop: "spec_loop lt T D nd (length tlg) m eos late 0 \<lparr>sp_target = w2, sp_draft = v2, sp_prev = lg, sp_dlogits = dl,
      sp_base = int (length prompt) - int start + 1, sp_out = [?tok], sp_accept = 0, sp_reject = 0\<rparr> = Some s" and out: "out = sp_out s"
    unfolding run_spec_decode_def pre Let_def by (auto split: Option.bind_splits prod.splits)
  have tl: "tlg = logits ?p" "length tlg = vs" using p1 ne fresh(2) kv_logits[OF T] by simp_all
  define s0 where "s0 = \<lparr>sp_target = w2, sp_draft = v2, sp_prev = lg, sp_dlogits = dl,
      sp_base = int (length prompt) - int start + 1, sp_out = [?tok], sp_accept = 0, sp_reject = 0\<rparr>"
  have "spec_inv lt logits okt kt okd kd ?p s0"
    unfolding spec_inv_def s0_def using p1 fresh kv_decodeD[OF T d(1)] kv_decodeD[OF D d(2)] tl start by (simp add: of_nat_diff)
  from spec_loop_run[OF T D nd this loop[folded s0_def, unfolded tl(2)]] have
    "sp_out s = greedy lt logits ?p (length (sp_out s))" "length (sp_out s) \<le> max 1 m"
    "length (sp_out s) < m \<longrightarrow> last (sp_out s) = eos \<or> (\<exists>j. late j)" by (simp_all add: s0_def)
  moreover have "1 \<le> length (sp_out s)" using spec_loop_longer[OF loop[folded s0_def]] by (simp add: s0_def)
  ultimately show ?thesis unfolding out by blast
qed

lemma run_spec_decode_up:
  assumes "always_up T" "always_up D" "0 < nd"
  shows "run_spec_decode lt T D nd prompt start m eos late w v \<noteq> None"
proof -
  obtain tlg dlg w1 v1 where pre: "spec_prefill T D (drop start prompt) [] [] w v = Some (tlg, dlg, w1, v1)"
    using spec_prefill_up[OF assms(1,2)] by (metis not_None_eq surj_pair)
  obtain lg w2 dl v2 where d: "ko_decode T (argmax lt tlg) w1 = Some (lg, w2)" "ko_decode D (argmax lt tlg) v1 = Some (dl, v2)"
    using always_upD(1)[OF assms(1)] always_upD(1)[OF assms(2)] by blast
  obtain s where "spec_loop lt T D nd (length tlg) m eos late 0 \<lparr>sp_target = w2, sp_draft = v2, sp_prev = lg, sp_dlogits = dl,
      sp_base = int (length prompt) - int start + 1, sp_out = [argmax lt tlg], sp_accept = 0, sp_reject = 0\<rparr> = Some s"
    using spec_loop_up[OF assms] by blast
  then show ?thesis using pre d by (simp add: run_spec_decode_def Let_def)
qed

text \<open>C0. Speculative decoding is lossless: on freshly reset engines that keep their contract, whatever the draft proposes, the tokens
  that \<open>run_spec_decode\<close> returns are the first tokens of the target's own greedy continuation of the prompt; there is at least one
  and at most \<open>max_tokens\<close> (or one), fewer only after an end token or when the deadline has passed; and the call fails only
  if an operation of an engine does.\<close>

theorem spec_decode_lossless:
  assumes "kv_contract T okt kt logits vs" "kv_contract D okd kd dlogits vd" "0 < nd"
    and "okt w" "kt w = []" "okd v" "kd v = []" and "start < length prompt"
  shows "case run_spec_decode lt T D nd prompt start max_tokens eos late w v of
      None \<Rightarrow> \<not> (always_up T \<and> always_up D)
    | Some (out, n_accept, n_reject) \<Rightarrow>
        out = greedy lt logits (drop start prompt) (length out) \<and> 1 \<le> length out \<and> length out \<le> max 1 max_tokens \<and>
        (length out < max_tokens \<longrightarrow> last out = eos \<or> (\<exists>j. late j))"
proof (cases "run_spec_decode lt T D nd prompt start max_tokens eos late w v")
  case None
  then show ?thesis using run_spec_decode_up[of T D nd lt prompt start max_tokens eos late w v] assms(3) by auto
next
  case (Some res)
  obtain out a r where "res = (out, a, r)" by (cases res)
  then show ?thesis using run_spec_decode_run[OF assms, of lt max_tokens eos late out a r] Some by simp
qed

text \<open>With two Vulkan engines over llama.cpp, each reset by the server before the call.\<close>

lemma vulkan_spec_decode_lossless:
  assumes "llama_contract L kt logits vs" "llama_contract M kd dlogits vd" "start < length prompt"
    and "run_spec_decode lt (vulkan_engine L) (vulkan_engine M) g_spec_n_draft prompt start max_tokens eos late (vk_reset L b) (vk_reset M d) =
      Some (out, a, r)"
  shows "out = greedy lt logits (drop start prompt) (length out)"
  using run_spec_decode_run[OF vulkan_contract[OF assms(1)] vulkan_contract[OF assms(2)] _ _ _ _ _ assms(3,4)]
    vulkan_reset[OF assms(1)] vulkan_reset[OF assms(2)] by (simp add: g_spec_n_draft_def)

section \<open>Witnesses\<close>

text \<open>An engine that is its cache: the logits are a function of the tokens.\<close>

definition list_engine :: "(int list \<Rightarrow> 'f list) \<Rightarrow> (int list, 'f) kv_ops" where
  "list_engine f =
     \<lparr>ko_decode = (\<lambda>t w. Some (f (w @ [t]), w @ [t])),
      ko_verify = (\<lambda>ts w. Some (concat (map (\<lambda>i. f (w @ take (Suc i) ts)) [0..<length ts]), w @ ts)),
      ko_rollback = (\<lambda>n w. Some (take (nat n) w))\<rparr>"

lemma list_engine_ops [simp]:
  "ko_decode (list_engine f) t w = Some (f (w @ [t]), w @ [t])"
  "ko_verify (list_engine f) ts w = Some (concat (map (\<lambda>i. f (w @ take (Suc i) ts)) [0..<length ts]), w @ ts)"
  "ko_rollback (list_engine f) n w = Some (take (nat n) w)"
  by (simp_all add: list_engine_def)

lemma list_engine_contract: "(\<And>s. length (f s) = vs) \<Longrightarrow> kv_contract (list_engine f) (\<lambda>_. True) (\<lambda>w. w) f vs"
  by (simp add: kv_contract_def list_engine_def)

lemma list_engine_up: "always_up (list_engine f)"
  by (simp add: always_up_def list_engine_def)

text \<open>A model of three tokens that says 2 once, after two tokens, and 1 otherwise; and a draft that is sometimes wrong.\<close>

definition demo_logits :: "int list \<Rightarrow> int list" where
  "demo_logits s = (if length s = 2 then [0, 0, 1] else [0, 1, 0])"

definition draft_logits :: "int list \<Rightarrow> int list" where
  "draft_logits s = (if length s mod 3 = 2 then [0, 0, 1] else [0, 1, 0])"

theorem spec_decode_lossless_witness:
  "case run_spec_decode (<) (list_engine demo_logits) (list_engine draft_logits) g_spec_n_draft [5, 7] 1 8 9 (\<lambda>_. False) [] [] of
      None \<Rightarrow> \<not> (always_up (list_engine demo_logits) \<and> always_up (list_engine draft_logits))
    | Some (out, n_accept, n_reject) \<Rightarrow>
        out = greedy (<) demo_logits (drop 1 [5, 7]) (length out) \<and> 1 \<le> length out \<and> length out \<le> max 1 8 \<and>
        (length out < 8 \<longrightarrow> last out = 9 \<or> (\<exists>j :: nat. False))"
  by (rule spec_decode_lossless[OF list_engine_contract[where vs = 3] list_engine_contract[where vs = 3]])
    (simp_all add: demo_logits_def draft_logits_def g_spec_n_draft_def)

text \<open>The loop looks for the end token only in the token it adds itself: when the draft proposes the end token and the target
  agrees, the tokens after it are returned too. Greedy decoding of the same model, which stops there, gives two tokens.\<close>

lemma demo_argmax:
  "argmax_at (<) (demo_logits q) 0 3 = (if length q = 2 then 2 else 1)" "length (demo_logits q) = 3"
  by (simp_all add: demo_logits_def argmax_at_def for_loop_Nil for_loop_Cons upt_rec[of _ 3])

lemma demo_round:
  "spec_round (<) (list_engine demo_logits) (list_engine demo_logits) 2 3 4 2
     \<lparr>sp_target = [7, 1], sp_draft = [7, 1], sp_prev = demo_logits [7, 1], sp_dlogits = demo_logits [7, 1], sp_base = 2, sp_out = [1],
      sp_accept = 0, sp_reject = 0\<rparr> =
   Some (False, \<lparr>sp_target = [7, 1, 2, 1, 1], sp_draft = [7, 1, 2, 1, 1], sp_prev = demo_logits [7, 1, 2, 1, 1],
      sp_dlogits = demo_logits [7, 1, 2, 1, 1], sp_base = 5, sp_out = [1, 2, 1, 1], sp_accept = 2, sp_reject = 0\<rparr>)"
proof -
  have p: "propose (<) (list_engine demo_logits) 2 (demo_logits [7, 1]) [7, 1] = Some ([2, 1], demo_logits [7, 1, 2, 1], [7, 1, 2, 1])"
    by (simp add: numeral_2_eq_2 Let_def demo_argmax)
  let ?vl = "demo_logits [7, 1, 2] @ demo_logits [7, 1, 2, 1]"
  have v: "ko_verify (list_engine demo_logits) [2, 1] [7, 1] = Some (?vl, [7, 1, 2, 1])"
    by simp
  have a0: "predicted (<) 3 (demo_logits [7, 1]) ?vl 0 = 2" by (simp add: predicted_def demo_argmax)
  have a1: "argmax_at (<) ?vl 0 3 = 1" "argmax_at (<) ?vl 3 3 = 1"
    by (simp_all add: demo_logits_def argmax_at_def for_loop_Nil for_loop_Cons upt_rec[of _ 3])
  have acc: "accepted (predicted (<) 3 (demo_logits [7, 1]) ?vl) [2, 1] = 2"
    using a0 a1(1) by (simp add: accepted_def predicted_def upt_rec[of _ 2])
  show ?thesis
    by (simp add: spec_round_def p v acc settle_def a1)
qed

theorem spec_decode_runs_past_eos:
  "run_spec_decode (<) (list_engine demo_logits) (list_engine demo_logits) 2 [5, 7] 1 4 2 (\<lambda>_. False) [] [] = Some ([1, 2, 1, 1], 2, 0) \<and>
   greedy (<) demo_logits [7] 2 = [1, 2]"
proof -
  have "spec_loop (<) (list_engine demo_logits) (list_engine demo_logits) 2 3 4 2 (\<lambda>_. False) 0
     \<lparr>sp_target = [7, 1], sp_draft = [7, 1], sp_prev = demo_logits [7, 1], sp_dlogits = demo_logits [7, 1], sp_base = 2, sp_out = [1],
      sp_accept = 0, sp_reject = 0\<rparr> =
    Some \<lparr>sp_target = [7, 1, 2, 1, 1], sp_draft = [7, 1, 2, 1, 1], sp_prev = demo_logits [7, 1, 2, 1, 1],
      sp_dlogits = demo_logits [7, 1, 2, 1, 1], sp_base = 5, sp_out = [1, 2, 1, 1], sp_accept = 2, sp_reject = 0\<rparr>"
    by (subst spec_loop.simps, simp add: demo_round) (subst spec_loop.simps, simp)
  moreover have "spec_prefill (list_engine demo_logits) (list_engine demo_logits) [7] [] [] [] [] =
      Some (demo_logits [7], demo_logits [7], [7], [7])" by simp
  ultimately show ?thesis by (simp add: run_spec_decode_def demo_argmax numeral_2_eq_2)
qed

end
