(* ===== verification/Monitor.thy ===== *)
theory Monitor
  imports Inference Sorting
begin

text \<open>
  The performance monitor (\<open>include/backend_monitor.h\<close>, \<open>src/backend_monitor.cpp\<close>): a ring buffer of latencies, the counters of a
  lane, and the table of all lanes that the manager's log of events fills. The clock is in nanoseconds; \<open>float\<close> and
  \<open>double\<close> are one type. A pointer into the table is an index.
  \<open>last_health_check\<close> is never written and left out.
\<close>

section \<open>The ring buffer\<close>

record 'f window =
  mw_samples :: "'f list"
  mw_head :: nat
  mw_count :: nat

definition new_window :: "'f nums \<Rightarrow> 'f window" where
  "new_window nm = \<lparr>mw_samples = replicate 256 (zero nm), mw_head = 0, mw_count = 0\<rparr>"

definition push :: "'f \<Rightarrow> 'f window \<Rightarrow> 'f window" where
  "push ms w =
     \<lparr>mw_samples = (mw_samples w)[mw_head w := ms], mw_head = (mw_head w + 1) mod 256,
      mw_count = (if mw_count w < 256 then mw_count w + 1 else mw_count w)\<rparr>"

text \<open>\<open>(head - count + i + N) % N\<close> on \<open>size_t\<close>: the difference may wrap.\<close>

definition ring_idx :: "'f window \<Rightarrow> nat \<Rightarrow> nat" where
  "ring_idx w i = unat ((of_nat (mw_head w) - of_nat (mw_count w) + of_nat i + 256 :: u64) mod 256)"

definition ring :: "'f window \<Rightarrow> 'f list" where
  "ring w = map (\<lambda>i. mw_samples w ! ring_idx w i) [0..<mw_count w]"

definition win_avg :: "'f nums \<Rightarrow> 'f window \<Rightarrow> 'f" where
  "win_avg nm w =
     (if mw_count w = 0 then zero nm else nm_div nm (fold (\<lambda>v s. nm_add nm s v) (ring w) (zero nm)) (nm_rat nm (of_nat (mw_count w))))"

definition win_min :: "'f nums \<Rightarrow> 'f window \<Rightarrow> 'f" where
  "win_min nm w =
     (if mw_count w = 0 then zero nm else fold (\<lambda>v m. if nm_less nm v m then v else m) (tl (ring w)) (hd (ring w)))"

definition win_max :: "'f nums \<Rightarrow> 'f window \<Rightarrow> 'f" where
  "win_max nm w =
     (if mw_count w = 0 then zero nm else fold (\<lambda>v m. if nm_less nm m v then v else m) (tl (ring w)) (hd (ring w)))"

text \<open>\<open>ix p n\<close> is \<open>size_t(p * n)\<close>, a product in floating point.\<close>

definition percentile :: "'f nums \<Rightarrow> (rat \<Rightarrow> nat \<Rightarrow> nat) \<Rightarrow> rat \<Rightarrow> 'f window \<Rightarrow> 'f" where
  "percentile nm ix p w =
     (if mw_count w = 0 then zero nm else sort_by (nm_less nm) (ring w) ! min (ix p (mw_count w - 1)) (mw_count w - 1))"

abbreviation p50 :: "'f nums \<Rightarrow> (rat \<Rightarrow> nat \<Rightarrow> nat) \<Rightarrow> 'f window \<Rightarrow> 'f" where "p50 nm ix \<equiv> percentile nm ix (1 / 2)"
abbreviation p95 :: "'f nums \<Rightarrow> (rat \<Rightarrow> nat \<Rightarrow> nat) \<Rightarrow> 'f window \<Rightarrow> 'f" where "p95 nm ix \<equiv> percentile nm ix (95 / 100)"
abbreviation p99 :: "'f nums \<Rightarrow> (rat \<Rightarrow> nat \<Rightarrow> nat) \<Rightarrow> 'f window \<Rightarrow> 'f" where "p99 nm ix \<equiv> percentile nm ix (99 / 100)"

section \<open>The metrics of a lane\<close>

record 'f metrics =
  pm_id :: string
  pm_inferences :: u64
  pm_failures :: u64
  pm_fallbacks :: u64
  pm_last_ms :: 'f
  pm_recent :: "'f window"
  pm_tps :: 'f
  pm_util :: 'f
  pm_healthy :: bool
  pm_error :: string
  pm_start :: nat
  pm_window_inferences :: u64

definition new_metrics :: "'f nums \<Rightarrow> nat \<Rightarrow> string \<Rightarrow> 'f metrics" where
  "new_metrics nm now bid =
     \<lparr>pm_id = bid, pm_inferences = 0, pm_failures = 0, pm_fallbacks = 0, pm_last_ms = zero nm, pm_recent = new_window nm,
      pm_tps = zero nm, pm_util = zero nm, pm_healthy = True, pm_error = [], pm_start = now, pm_window_inferences = 0\<rparr>"

definition reset_window :: "nat \<Rightarrow> 'f metrics \<Rightarrow> 'f metrics" where
  "reset_window now pm = pm\<lparr>pm_start := now, pm_window_inferences := 0\<rparr>"

definition update_throughput :: "'f nums \<Rightarrow> nat \<Rightarrow> 'f metrics \<Rightarrow> 'f metrics" where
  "update_throughput nm now pm =
     (if pm_window_inferences pm \<ge> 10
      then let elapsed = nm_div nm (nm_rat nm (of_nat (now - pm_start pm))) (nm_rat nm (10 ^ 9)) in
        reset_window now
          (if nm_less nm (zero nm) elapsed
           then let tps = nm_div nm (nm_rat nm (of_nat (unat (pm_window_inferences pm)))) elapsed in
             pm\<lparr>pm_tps := nm_add nm (nm_mul nm (nm_rat nm (3 / 10)) tps) (nm_mul nm (nm_rat nm (7 / 10)) (pm_tps pm))\<rparr>
           else pm)
      else pm)"

definition record_inference :: "'f nums \<Rightarrow> nat \<Rightarrow> 'f \<Rightarrow> bool \<Rightarrow> 'f metrics \<Rightarrow> 'f metrics" where
  "record_inference nm now ms good pm =
     (let pm = pm\<lparr>pm_inferences := pm_inferences pm + 1, pm_failures := (if good then pm_failures pm else pm_failures pm + 1),
                  pm_last_ms := ms, pm_recent := push ms (pm_recent pm), pm_window_inferences := pm_window_inferences pm + 1\<rparr>;
          pm = update_throughput nm now pm
      in pm\<lparr>pm_util := nm_add nm (nm_mul nm (nm_rat nm (9 / 10)) (pm_util pm))
               (nm_mul nm (nm_rat nm (1 / 10)) (nm_rat nm (if good then 1 else 0)))\<rparr>)"

definition record_failure :: "string \<Rightarrow> 'f metrics \<Rightarrow> 'f metrics" where
  "record_failure e pm = pm\<lparr>pm_failures := pm_failures pm + 1, pm_error := e, pm_healthy := False\<rparr>"

definition record_fallback :: "'f metrics \<Rightarrow> 'f metrics" where
  "record_fallback pm = pm\<lparr>pm_fallbacks := pm_fallbacks pm + 1\<rparr>"

section \<open>The table\<close>

definition find_or_create :: "'f nums \<Rightarrow> nat \<Rightarrow> string \<Rightarrow> 'f metrics list \<Rightarrow> nat \<times> 'f metrics list" where
  "find_or_create nm now bid ms =
     (case find_entry (\<lambda>pm. pm_id pm = bid) ms of Some i \<Rightarrow> (i, ms) | None \<Rightarrow> (length ms, ms @ [new_metrics nm now bid]))"

definition upd_metrics :: "'f nums \<Rightarrow> nat \<Rightarrow> string \<Rightarrow> ('f metrics \<Rightarrow> 'f metrics) \<Rightarrow> 'f metrics list \<Rightarrow> 'f metrics list" where
  "upd_metrics nm now bid f ms = (let (i, ms) = find_or_create nm now bid ms in ms[i := f (ms ! i)])"

text \<open>What an event of the manager's log does to the table.\<close>

fun mon_event :: "'f nums \<Rightarrow> nat \<Rightarrow> 'f event \<Rightarrow> 'f metrics list \<Rightarrow> 'f metrics list" where
  "mon_event nm now (MonRecord bid ms good) t = upd_metrics nm now bid (record_inference nm now ms good) t"
| "mon_event nm now (MonFailure bid e) t = upd_metrics nm now bid (record_failure e) t"
| "mon_event nm now (MonFallback a b) t =
     (let (i, t) = find_or_create nm now a t; (j, t) = find_or_create nm now b t; t = t[i := record_fallback (t ! i)]
      in t[j := record_fallback (t ! j)])"
| "mon_event nm now (MonHealthy bid good) t = upd_metrics nm now bid (\<lambda>pm. pm\<lparr>pm_healthy := good\<rparr>) t"
| "mon_event nm now _ t = t"

definition mon_run :: "'f nums \<Rightarrow> (nat \<Rightarrow> nat) \<Rightarrow> 'f event list \<Rightarrow> 'f metrics list \<Rightarrow> 'f metrics list" where
  "mon_run nm clock es t = fold (\<lambda>(k, e). mon_event nm (clock k) e) (List.enumerate 0 es) t"

definition total_inferences :: "'f metrics list \<Rightarrow> u64" where
  "total_inferences t = fold (\<lambda>pm n. n + pm_inferences pm) t 0"

definition total_failures :: "'f metrics list \<Rightarrow> u64" where
  "total_failures t = fold (\<lambda>pm n. n + pm_failures pm) t 0"

definition total_fallbacks :: "'f metrics list \<Rightarrow> u64" where
  "total_fallbacks t = fold (\<lambda>pm n. n + pm_fallbacks pm) t 0"

section \<open>The ring buffer keeps the last 256 samples\<close>

definition window_ok :: "'f window \<Rightarrow> bool" where
  "window_ok w \<longleftrightarrow> length (mw_samples w) = 256 \<and> mw_head w < 256 \<and> mw_count w \<le> 256"

lemma window_ok_push: "window_ok w \<Longrightarrow> window_ok (push ms w)"
  by (simp add: window_ok_def push_def)

lemma ring_idx_nat:
  assumes "window_ok w" "i < mw_count w"
  shows "ring_idx w i = (mw_head w + 256 - mw_count w + i) mod 256"
proof -
  have le: "mw_count w \<le> mw_head w + 256" using assms(1) by (simp add: window_ok_def)
  have E: "(of_nat (mw_head w) - of_nat (mw_count w) + of_nat i + 256 :: u64) = of_nat (mw_head w + 256 - mw_count w + i)"
    using le by (simp add: of_nat_diff)
  have "mw_head w + 256 - mw_count w + i < 1024" using assms unfolding window_ok_def by linarith
  then have U: "unat (of_nat (mw_head w + 256 - mw_count w + i) :: u64) = mw_head w + 256 - mw_count w + i"
    by (subst unat_of_nat, intro mod_less) simp
  show ?thesis unfolding ring_idx_def unat_mod E U by simp
qed

lemma length_ring [simp]: "length (ring w) = mw_count w"
  by (simp add: ring_def)

lemma ring_nth: "window_ok w \<Longrightarrow> i < mw_count w \<Longrightarrow> ring w ! i = mw_samples w ! ((mw_head w + 256 - mw_count w + i) mod 256)"
  by (simp add: ring_def ring_idx_nat)

lemma ring_push:
  assumes "window_ok w"
  shows "ring (push ms w) = drop (mw_count w - 255) (ring w) @ [ms]"
proof (rule nth_equalityI)
  let ?h = "mw_head w" and ?c = "mw_count w"
  note ok = window_ok_push[OF assms, of ms]
  have b: "?h < 256" "?c \<le> 256" "length (mw_samples w) = 256" using assms by (simp_all add: window_ok_def)
  have new: "mw_head (push ms w) = (?h + 1) mod 256" "mw_count (push ms w) = (if ?c < 256 then ?c + 1 else ?c)"
    "mw_samples (push ms w) = (mw_samples w)[?h := ms]" by (simp_all add: push_def)
  show "length (ring (push ms w)) = length (drop (mw_count w - 255) (ring w) @ [ms])" using b by (simp add: new)
  fix i assume "i < length (ring (push ms w))"
  then have i: "i < mw_count (push ms w)" by simp
  let ?j = "((?h + 1) mod 256 + 256 - mw_count (push ms w) + i) mod 256"
  have at: "ring (push ms w) ! i = (mw_samples w)[?h := ms] ! ?j" using ring_nth[OF ok i] by (simp add: new)
  define k where "k = ?c - 255"
  define d where "d = 256 - ?c + k + i"
  have "(?h + 1) mod 256 + 256 - mw_count (push ms w) + i = (?h + 1) mod 256 + (d - 1)"
    using b unfolding new d_def k_def by (cases "?c < 256") auto
  moreover have "?h + 1 + (d - 1) = ?h + d" using b unfolding d_def k_def by (cases "?c < 256") auto
  ultimately have j: "?j = (?h + d) mod 256" by (metis mod_add_left_eq)
  show "ring (push ms w) ! i = (drop (?c - 255) (ring w) @ [ms]) ! i"
  proof (cases "i + k < ?c")
    case True
    have "0 < d \<and> d < 256" using True b unfolding d_def k_def by auto
    then have "?j \<noteq> ?h" using b(1) unfolding j by (cases "?h + d < 256") (auto simp: mod_if)
    moreover have "ring w ! (k + i) = mw_samples w ! ((?h + 256 - ?c + (k + i)) mod 256)"
      by (rule ring_nth[OF assms]) (use True in simp)
    moreover have "?h + 256 - ?c + (k + i) = ?h + d" using b unfolding d_def by simp
    moreover have "i < ?c - k" using True by linarith
    ultimately show ?thesis using at True b j by (simp add: nth_append k_def[symmetric])
  next
    case False
    have ik: "i = ?c - k" using False i b by (simp add: new k_def split: if_splits)
    then have "d = 256" using b unfolding d_def k_def by linarith
    then have "?j = ?h" using b(1) unfolding j by simp
    then show ?thesis using at b ik by (simp add: nth_append k_def[symmetric])
  qed
qed

text \<open>After any number of recorded latencies the ring buffer holds exactly the last 256 of them, oldest first.\<close>

theorem window_keeps_last:
  "ring (fold push xs (new_window nm)) = drop (length xs - 256) xs"
proof -
  have "window_ok (fold push xs (new_window nm)) \<and> mw_count (fold push xs (new_window nm)) = min 256 (length xs) \<and>
    ring (fold push xs (new_window nm)) = drop (length xs - 256) xs"
  proof (induction xs rule: rev_induct)
    case (snoc x xs)
    let ?w = "fold push xs (new_window nm)"
    have "mw_count ?w = min 256 (length xs)" using snoc by blast
    then have c: "mw_count (push x ?w) = min 256 (Suc (length xs))" unfolding push_def by (cases "length xs < 256") simp_all
    have "drop (mw_count ?w - 255) (drop (length xs - 256) xs) @ [x] = drop (Suc (length xs) - 256) (xs @ [x])"
    proof (cases "length xs < 256")
      case False
      then have "length xs - 255 = Suc (length xs - 256)" by linarith
      then show ?thesis using snoc False by simp
    qed (use snoc in auto)
    then show ?case using snoc c by (simp add: window_ok_push ring_push)
  qed (simp add: new_window_def window_ok_def ring_def)
  then show ?thesis by blast
qed

section \<open>Percentiles\<close>

lemma percentile_in:
  assumes "mw_count w \<noteq> 0"
  shows "percentile nm ix p w \<in> set (ring w)"
proof -
  have "length (sort_by (nm_less nm) (ring w)) = mw_count w" using sort_by_mset[of "nm_less nm" "ring w"] by (metis length_ring size_mset)
  moreover have "min (ix p (mw_count w - 1)) (mw_count w - 1) < mw_count w" using assms by linarith
  ultimately have "percentile nm ix p w \<in> set (sort_by (nm_less nm) (ring w))" using assms by (simp add: percentile_def)
  then show ?thesis using sort_by_mset[of "nm_less nm" "ring w"] by (metis set_mset_mset)
qed

lemma percentile_mono:
  assumes "strict_weak (nm_less nm)" "ix p (mw_count w - 1) \<le> ix q (mw_count w - 1)"
  shows "\<not> nm_less nm (percentile nm ix q w) (percentile nm ix p w)"
proof (cases "mw_count w = 0")
  case True
  then show ?thesis using assms(1) by (auto simp: percentile_def strict_weak_def)
next
  case False
  let ?s = "sort_by (nm_less nm) (ring w)" and ?n = "mw_count w - 1"
  have len: "length ?s = mw_count w" using sort_by_mset[of "nm_less nm" "ring w"] by (metis length_ring size_mset)
  have "\<not> nm_less nm (?s ! j) (?s ! i)" if "i \<le> j" "j < mw_count w" for i j
    using sort_by_sorted[OF assms(1), of "ring w"] that assms(1) len
    by (cases "i = j") (auto simp: sorted_wrt_iff_nth_less strict_weak_def)
  moreover have "min (ix p ?n) ?n \<le> min (ix q ?n) ?n" "min (ix q ?n) ?n < mw_count w" using assms(2) False by auto
  ultimately show ?thesis using False by (simp add: percentile_def)
qed

section \<open>What the counters count\<close>

definition lookup :: "string \<Rightarrow> 'f metrics list \<Rightarrow> 'f metrics option" where
  "lookup bid t = find (\<lambda>pm. pm_id pm = bid) t"

definition counter :: "('f metrics \<Rightarrow> u64) \<Rightarrow> string \<Rightarrow> 'f metrics list \<Rightarrow> u64" where
  "counter sel bid t = (case lookup bid t of Some pm \<Rightarrow> sel pm | None \<Rightarrow> 0)"

lemma find_nth: "find P xs = (case find_entry P xs of Some i \<Rightarrow> Some (xs ! i) | None \<Rightarrow> None)"
  by (induction xs) (auto split: option.splits)

lemma find_entry_append: "find_entry P (xs @ ys) = (case find_entry P xs of Some i \<Rightarrow> Some i | None \<Rightarrow> map_option ((+) (length xs)) (find_entry P ys))"
  by (induction xs) (cases "find_entry P ys", auto split: option.splits)+

lemma find_entry_upd:
  assumes "\<And>y. P (g y) \<longleftrightarrow> P y"
  shows "find_entry P (xs[i := g (xs ! i)]) = find_entry P xs"
proof (induction xs arbitrary: i)
  case (Cons x xs)
  then show ?case using assms by (cases i) auto
qed simp

lemma lookup_upd:
  assumes "\<And>pm. pm_id (f pm) = pm_id pm"
  shows "lookup b (upd_metrics nm now bid f t) =
    (if b = bid then Some (f (case lookup bid t of Some pm \<Rightarrow> pm | None \<Rightarrow> new_metrics nm now bid)) else lookup b t)"
proof -
  obtain i t' where f: "find_or_create nm now bid t = (i, t')" by (cases "find_or_create nm now bid t")
  have upd: "find_entry (\<lambda>pm. pm_id pm = b) (t'[i := f (t' ! i)]) = find_entry (\<lambda>pm. pm_id pm = b) t'" for b
    by (rule find_entry_upd) (simp add: assms)
  show ?thesis
  proof (cases "find_entry (\<lambda>pm. pm_id pm = bid) t")
    case None
    then have t': "i = length t" "t' = t @ [new_metrics nm now bid]" using f by (auto simp: find_or_create_def)
    have new: "pm_id (new_metrics nm now bid) = bid" by (simp add: new_metrics_def)
    show ?thesis
      unfolding lookup_def find_nth upd_metrics_def f Let_def split upd
      using None new by (auto simp: t' find_entry_append nth_append nth_list_update dest: find_entry_SomeD split: option.splits)
  next
    case (Some k)
    then have t': "i = k" "t' = t" using f by (auto simp: find_or_create_def)
    note k = find_entry_SomeD[OF Some]
    show ?thesis
      unfolding lookup_def find_nth upd_metrics_def f Let_def split upd
      using k by (auto simp: t' Some nth_list_update dest: find_entry_SomeD split: option.splits)
  qed
qed

lemma find_or_create_facts:
  assumes "find_or_create nm now bid t = (i, t')"
  shows "i < length t'" "pm_id (t' ! i) = bid"
  using assms by (auto simp: find_or_create_def new_metrics_def nth_append split: option.splits dest: find_entry_SomeD)

text \<open>A fallback counts at the lane that failed and at the one that took over.\<close>

lemma fallback_event: "mon_event nm now (MonFallback a b) t = upd_metrics nm now b record_fallback (upd_metrics nm now a record_fallback t)"
proof -
  obtain i t1 where a: "find_or_create nm now a t = (i, t1)" by (cases "find_or_create nm now a t")
  note i = find_or_create_facts[OF a]
  have same: "find_entry (\<lambda>pm. pm_id pm = b) (t1[i := record_fallback (t1 ! i)]) = find_entry (\<lambda>pm. pm_id pm = b) t1"
    by (rule find_entry_upd) (simp add: record_fallback_def)
  show ?thesis
  proof (cases "find_entry (\<lambda>pm. pm_id pm = b) t1")
    case None
    then show ?thesis using a i same by (simp add: upd_metrics_def find_or_create_def[of nm now b] nth_append list_update_append Let_def)
  next
    case (Some j)
    then show ?thesis using a same by (simp add: upd_metrics_def find_or_create_def[of nm now b] Let_def)
  qed
qed

definition infs :: "string \<Rightarrow> 'f event \<Rightarrow> nat" where
  "infs bid e = (case e of MonRecord b _ _ \<Rightarrow> if b = bid then 1 else 0 | _ \<Rightarrow> 0)"

definition fails :: "string \<Rightarrow> 'f event \<Rightarrow> nat" where
  "fails bid e = (case e of MonRecord b _ good \<Rightarrow> if b = bid \<and> \<not> good then 1 else 0 | MonFailure b _ \<Rightarrow> if b = bid then 1 else 0 | _ \<Rightarrow> 0)"

lemma record_ids:
  "pm_id (record_inference nm now ms good pm) = pm_id pm" "pm_inferences (record_inference nm now ms good pm) = pm_inferences pm + 1"
  "pm_failures (record_inference nm now ms good pm) = (if good then pm_failures pm else pm_failures pm + 1)"
  by (simp_all add: record_inference_def update_throughput_def reset_window_def Let_def)

lemma counter_upd:
  assumes "\<And>pm. pm_id (f pm) = pm_id pm" "\<And>pm. sel (f pm) = sel pm + d" "sel (new_metrics nm now bid) = 0"
  shows "counter sel b (upd_metrics nm now bid f t) = counter sel b t + (if b = bid then d else 0)"
  using assms by (auto simp: counter_def lookup_upd split: option.splits)

lemma mon_event_counters:
  "counter pm_inferences bid (mon_event nm now e t) = counter pm_inferences bid t + of_nat (infs bid e)"
  "counter pm_failures bid (mon_event nm now e t) = counter pm_failures bid t + of_nat (fails bid e)"
proof -
  have new: "pm_inferences (new_metrics nm now b) = 0" "pm_failures (new_metrics nm now b) = 0" for b
    by (simp_all add: new_metrics_def)
  note upd = counter_upd[where sel = pm_inferences and d = 1, OF _ _ new(1)] counter_upd[where sel = pm_inferences and d = 0, OF _ _ new(1)]
    counter_upd[where sel = pm_failures and d = 1, OF _ _ new(2)] counter_upd[where sel = pm_failures and d = 0, OF _ _ new(2)]
  show "counter pm_inferences bid (mon_event nm now e t) = counter pm_inferences bid t + of_nat (infs bid e)"
    by (cases e) (simp_all add: upd record_ids record_failure_def record_fallback_def fallback_event infs_def del: mon_event.simps(3))
  show "counter pm_failures bid (mon_event nm now e t) = counter pm_failures bid t + of_nat (fails bid e)"
  proof (cases e)
    case (MonRecord b ms good)
    then show ?thesis by (cases good) (simp_all add: upd record_ids fails_def)
  qed (simp_all add: upd record_failure_def record_fallback_def fallback_event fails_def del: mon_event.simps(3))
qed

text \<open>The counters are the numbers of events, up to the width of the counter.\<close>

lemma mon_run_counters:
  "counter pm_inferences bid (mon_run nm clock es t) = counter pm_inferences bid t + of_nat (\<Sum>e \<leftarrow> es. infs bid e)"
  "counter pm_failures bid (mon_run nm clock es t) = counter pm_failures bid t + of_nat (\<Sum>e \<leftarrow> es. fails bid e)"
proof -
  have "counter pm_inferences bid (fold (\<lambda>(k, e). mon_event nm (clock k) e) (List.enumerate n es) t) =
      counter pm_inferences bid t + of_nat (\<Sum>e \<leftarrow> es. infs bid e) \<and>
    counter pm_failures bid (fold (\<lambda>(k, e). mon_event nm (clock k) e) (List.enumerate n es) t) =
      counter pm_failures bid t + of_nat (\<Sum>e \<leftarrow> es. fails bid e)" for n
    by (induction es arbitrary: n t) (simp_all add: mon_event_counters)
  then show "counter pm_inferences bid (mon_run nm clock es t) = counter pm_inferences bid t + of_nat (\<Sum>e \<leftarrow> es. infs bid e)"
    "counter pm_failures bid (mon_run nm clock es t) = counter pm_failures bid t + of_nat (\<Sum>e \<leftarrow> es. fails bid e)"
    unfolding mon_run_def by blast+
qed

text \<open>A token that the active engine fails to produce is one inference and two failures in the monitor: the manager records the
  failed call and then the failure.\<close>

theorem failed_token_counts_twice:
  assumes "i < length (bm_backends m)" "generate_active eo nm token i b m w = (r, m', w')" "r < 0"
  shows "counter pm_inferences (bi_id (info_at m i)) (mon_run nm clock (bm_log m') []) =
      counter pm_inferences (bi_id (info_at m i)) (mon_run nm clock (bm_log m) []) + 1 \<and>
    counter pm_failures (bi_id (info_at m i)) (mon_run nm clock (bm_log m') []) =
      counter pm_failures (bi_id (info_at m i)) (mon_run nm clock (bm_log m) []) + 2"
proof -
  obtain ms where "bm_log m' = bm_log m @ [MonRecord (bi_id (info_at m i)) ms False, MonFailure (bi_id (info_at m i)) ''generate() returned -1'']"
    using assms by (auto simp: generate_active_def Let_def count_failure_def logged_def upd_info_def split: prod.splits if_splits)
  then show ?thesis by (simp add: mon_run_counters infs_def fails_def)
qed

theorem failed_token_counts_twice_witness:
  "\<forall>(eo :: ('w, rat) engine_ops) w. counter pm_failures ''hip_gpu'' (mon_run rat_nums (\<lambda>k. k)
     (bm_log (fst (snd (generate_active (eo\<lparr>eo_generate := \<lambda>b token w. ((None, 2), w)\<rparr>) rat_nums 7 0 3
       (new_manager\<lparr>bm_backends := [demo_lane rat_nums ''hip_gpu'' T2_GPU (Some 3)]\<rparr>) w)))) []) = 2"
proof (intro allI)
  fix eo :: "('w, rat) engine_ops" and w
  let ?eo = "eo\<lparr>eo_generate := \<lambda>b token w. ((None, 2), w)\<rparr>"
  let ?m = "new_manager\<lparr>bm_backends := [demo_lane rat_nums ''hip_gpu'' T2_GPU (Some 3)]\<rparr>"
  obtain r m' w' where run: "generate_active ?eo rat_nums 7 0 3 ?m w = (r, m', w')" by (metis prod_cases3)
  then have "r < 0" by (auto simp: generate_active_def token_of_def Let_def)
  then show "counter pm_failures ''hip_gpu'' (mon_run rat_nums (\<lambda>k. k) (bm_log (fst (snd (generate_active ?eo rat_nums 7 0 3 ?m w)))) []) = 2"
    using failed_token_counts_twice[OF _ run, of "\<lambda>k. k"] run
    by (simp add: new_manager_def demo_lane_def lane_def mon_run_def counter_def lookup_def)
qed

end
