(* ===== verification/Strategy.thy ===== *)
theory Strategy
  imports Monitor Registry
begin

text \<open>
  The per-token strategies (\<open>include/strategy_engine.h\<close>, \<open>src/strategy_engine.cpp\<close>): the six configurations, what each
  decides for a token, and the engine that builds one of them on the manager's lanes. The state shared with the watchdog is the
  record \<open>agent\<close>; a configuration's pointer to it is null or the engine's own. The monitor is the table of \<open>Monitor\<close>, passed on
  because asking it for a lane creates the lane's entry. Reports as JSON are left out.
\<close>

section \<open>Types\<close>

record 'f token_context =
  tc_token :: int
  tc_log_prob :: 'f
  tc_entropy :: 'f
  tc_position :: nat
  tc_prompt_tokens :: nat
  tc_max_tokens :: nat
  tc_message :: string

record routing_decision =
  rd_backend :: string
  rd_speculative :: bool
  rd_draft :: string
  rd_n_draft :: int

abbreviation plain :: "string \<Rightarrow> routing_decision" where
  "plain bid \<equiv> \<lparr>rd_backend = bid, rd_speculative = False, rd_draft = [], rd_n_draft = 0\<rparr>"

record 'f model_route =
  mr_pattern :: string
  mr_backend :: string
  mr_speed :: 'f

record 'f agent =
  ag_override :: 'f
  ag_cascades :: u64
  ag_routed :: u64
  ag_acceptance :: 'f
  ag_n_draft :: int
  ag_npu_share :: 'f
  ag_npu_off :: bool
  ag_gpu_off :: bool
  ag_threshold :: 'f
  ag_reprofile :: bool

definition new_agent :: "'f nums \<Rightarrow> 'f agent" where
  "new_agent nm =
     \<lparr>ag_override = nm_rat nm (- 999), ag_cascades = 0, ag_routed = 0, ag_acceptance = nm_rat nm (85 / 100), ag_n_draft = 4,
      ag_npu_share = nm_rat nm (7 / 10), ag_npu_off = False, ag_gpu_off = False, ag_threshold = nm_rat nm (- 5 / 2),
      ag_reprofile = False\<rparr>"

record 'f cascade_config =
  cc_small :: string
  cc_large :: string
  cc_threshold :: 'f
  cc_min_context :: nat
  cc_agent :: bool

record 'f performance_config =
  pc_default :: string
  pc_table :: "'f model_route list"

record 'f spec_config =
  sc_draft :: string
  sc_target :: string
  sc_n_draft :: int
  sc_acceptance :: 'f
  sc_agent :: bool

record content_config =
  ct_small :: string
  ct_large :: string
  ct_keywords :: "string list"
  ct_max_small :: nat

record adaptive_config =
  ad_primary :: string
  ad_secondary :: string
  ad_fallback :: string
  ad_agent :: bool
  ad_monitor :: bool

datatype 'f strategy_variant = Cascade "'f cascade_config" | Performance "'f performance_config" | SpecStrategy "'f spec_config"
  | Content content_config | Adaptive adaptive_config | Passthrough string

record 'f strategy_engine =
  se_strategy :: "'f strategy_variant"
  se_name :: string
  se_agent :: "'f agent"

section \<open>The decisions\<close>

definition known_below :: "'f nums \<Rightarrow> 'f \<Rightarrow> 'f \<Rightarrow> bool" where
  "known_below nm lp threshold \<longleftrightarrow> nm_less nm (nm_rat nm (- (10 ^ 9))) lp \<and> nm_less nm lp threshold"

definition cascade_route :: "'f nums \<Rightarrow> 'f cascade_config \<Rightarrow> 'f token_context \<Rightarrow> 'f agent \<Rightarrow> routing_decision \<times> 'f agent" where
  "cascade_route nm c ctx ag =
     (let ag = (if cc_agent c then ag\<lparr>ag_routed := ag_routed ag + 1\<rparr> else ag)
      in if cc_min_context c \<le> tc_position ctx then (plain (cc_large c), ag)
         else let threshold = (if cc_agent c \<and> nm_less nm (nm_rat nm (- 900)) (ag_override ag) then ag_override ag
                               else cc_threshold c)
           in if known_below nm (tc_log_prob ctx) threshold
              then (plain (cc_large c), if cc_agent c then ag\<lparr>ag_cascades := ag_cascades ag + 1\<rparr> else ag)
              else (plain (cc_small c), ag))"

definition best_backend_for_model :: "'f performance_config \<Rightarrow> string \<Rightarrow> string" where
  "best_backend_for_model c model =
     (case find (\<lambda>r. contains (lower model) (mr_pattern r)) (pc_table c) of Some r \<Rightarrow> mr_backend r | None \<Rightarrow> pc_default c)"

definition performance_route :: "'f performance_config \<Rightarrow> 'f token_context \<Rightarrow> routing_decision" where
  "performance_route c ctx = plain (pc_default c)"

definition spec_route :: "'f spec_config \<Rightarrow> 'f token_context \<Rightarrow> 'f agent \<Rightarrow> routing_decision" where
  "spec_route c ctx ag =
     (if tc_position ctx < 4 then plain (sc_draft c)
      else \<lparr>rd_backend = sc_target c, rd_speculative = True, rd_draft = sc_draft c,
            rd_n_draft = (if sc_agent c \<and> 0 < ag_n_draft ag then ag_n_draft ag else sc_n_draft c)\<rparr>)"

definition has_gpu_keywords :: "content_config \<Rightarrow> string \<Rightarrow> bool" where
  "has_gpu_keywords c msg \<longleftrightarrow> msg \<noteq> [] \<and> list_ex (\<lambda>kw. contains (lower msg) kw) (ct_keywords c)"

definition content_route :: "content_config \<Rightarrow> 'f token_context \<Rightarrow> routing_decision" where
  "content_route c ctx =
     plain (if ct_max_small c \<le> tc_position ctx \<or> has_gpu_keywords c (tc_message ctx) \<or> 800 < length (tc_message ctx)
            then ct_large c else ct_small c)"

definition balanced_share :: "'f nums \<Rightarrow> 'f \<Rightarrow> 'f \<Rightarrow> 'f \<Rightarrow> 'f" where
  "balanced_share nm npu gpu share =
     (if nm_less nm (nm_mul nm npu (nm_rat nm (3 / 2))) gpu then nm_rat nm (3 / 10)
      else if nm_less nm (nm_mul nm gpu (nm_rat nm (3 / 2))) npu then nm_rat nm (8 / 10) else share)"

definition adaptive_route :: "'f nums \<Rightarrow> nat \<Rightarrow> adaptive_config \<Rightarrow> 'f token_context \<Rightarrow> 'f agent \<Rightarrow> 'f metrics list \<Rightarrow>
    routing_decision \<times> 'f metrics list" where
  "adaptive_route nm now c ctx ag t =
     (let npu_off = ad_agent c \<and> ag_npu_off ag; gpu_off = ad_agent c \<and> ag_gpu_off ag;
          share = (if ad_agent c then ag_npu_share ag else nm_rat nm (7 / 10));
          threshold = (if ad_agent c then ag_threshold ag else nm_rat nm (- 5 / 2))
      in if npu_off \<and> gpu_off then (plain (ad_fallback c), t)
         else if npu_off then (plain (ad_secondary c), t)
         else if gpu_off then (plain (ad_primary c), t)
         else if known_below nm (tc_log_prob ctx) threshold then (plain (ad_secondary c), t)
         else if ad_agent c \<and> ad_monitor c
         then let (i, t) = find_or_create nm now (ad_primary c) t; (j, t) = find_or_create nm now (ad_secondary c) t;
                  share = balanced_share nm (pm_tps (t ! i)) (pm_tps (t ! j)) share;
                  pos = nm_div nm (nm_rat nm (of_nat (tc_position ctx mod 100))) (nm_rat nm 100)
              in (plain (if nm_less nm pos share then ad_primary c else ad_secondary c), t)
         else (plain (ad_primary c), t))"

definition strategy_route :: "'f nums \<Rightarrow> nat \<Rightarrow> 'f token_context \<Rightarrow> 'f strategy_engine \<Rightarrow> 'f metrics list \<Rightarrow>
    routing_decision \<times> 'f strategy_engine \<times> 'f metrics list" where
  "strategy_route nm now ctx e t =
     (case se_strategy e of
        Cascade c \<Rightarrow> let (d, ag) = cascade_route nm c ctx (se_agent e) in (d, e\<lparr>se_agent := ag\<rparr>, t)
      | Performance c \<Rightarrow> (performance_route c ctx, e, t)
      | SpecStrategy c \<Rightarrow> (spec_route c ctx (se_agent e), e, t)
      | Content c \<Rightarrow> (content_route c ctx, e, t)
      | Adaptive c \<Rightarrow> let (d, t) = adaptive_route nm now c ctx (se_agent e) t in (d, e, t)
      | Passthrough bid \<Rightarrow> (plain bid, e, t))"

section \<open>The engine\<close>

definition new_engine :: "'f nums \<Rightarrow> 'f strategy_engine" where
  "new_engine nm = \<lparr>se_strategy = Passthrough ''default'', se_name = ''passthrough'', se_agent = new_agent nm\<rparr>"

text \<open>The lanes by the pattern of their id: NPU, GPU and CPU. The last match wins, but a Vulkan lane only while no GPU lane is
  known.\<close>

definition classify :: "'f backend_info \<Rightarrow> string \<times> string \<times> string \<Rightarrow> string \<times> string \<times> string" where
  "classify b = (\<lambda>(npu, gpu, cpu).
     if \<not> bi_available b then (npu, gpu, cpu)
     else if contains (bi_id b) ''npu'' then (bi_id b, gpu, cpu)
     else if contains (bi_id b) ''hip'' then (npu, bi_id b, cpu)
     else if contains (bi_id b) ''vulkan'' \<and> gpu = [] then (npu, bi_id b, cpu)
     else if contains (bi_id b) ''cpu'' then (npu, gpu, bi_id b)
     else (npu, gpu, cpu))"

definition pick_lanes :: "'f backend_info list \<Rightarrow> string \<times> string \<times> string" where
  "pick_lanes bs =
     (let (npu, gpu, cpu) = fold classify bs ([], [], []);
          npu = (if npu = [] then case find bi_available bs of Some b \<Rightarrow> bi_id b | None \<Rightarrow> [] else npu)
      in (npu, if gpu = [] then npu else gpu, if cpu = [] then npu else cpu))"

definition gpu_keywords :: "string list" where
  "gpu_keywords = [''code'', ''explain'', ''analyze'', ''debug'', ''refactor'', ''implement'', ''function'', ''algorithm'',
     ''write'', ''fix'', ''design'', ''architecture'', ''test'', ''review'', ''optimize'']"

definition engine_init :: "'f nums \<Rightarrow> string \<Rightarrow> 'f model_route list \<Rightarrow> 'f manager \<Rightarrow> 'f strategy_engine \<times> 'f manager" where
  "engine_init nm name perf m =
     (let (npu, gpu, cpu) = pick_lanes (bm_backends m);
          (s, m) =
            (if name = ''cascade''
             then (Cascade \<lparr>cc_small = npu, cc_large = gpu, cc_threshold = nm_rat nm (- 5 / 2), cc_min_context = 50, cc_agent = True\<rparr>, m)
             else if name = ''performance''
             then (Performance \<lparr>pc_default = (if perf = [] then npu else mr_backend (hd perf)), pc_table = perf\<rparr>,
                   manager_set_strategy nm SEL_FASTEST m)
             else if name = ''spec_decode''
             then (SpecStrategy \<lparr>sc_draft = npu, sc_target = gpu, sc_n_draft = 4, sc_acceptance = nm_rat nm (8 / 10), sc_agent = True\<rparr>, m)
             else if name = ''content''
             then (Content \<lparr>ct_small = npu, ct_large = gpu, ct_keywords = gpu_keywords, ct_max_small = 2000\<rparr>, m)
             else if name = ''adaptive''
             then (Adaptive \<lparr>ad_primary = npu, ad_secondary = gpu, ad_fallback = cpu, ad_agent = True, ad_monitor = True\<rparr>, m)
             else (Passthrough npu, m))
      in (\<lparr>se_strategy = s, se_name = name, se_agent = new_agent nm\<rparr>, m))"

definition route_speed :: "'f nums \<Rightarrow> 'f backend_info \<Rightarrow> 'f" where
  "route_speed nm b = (if scored nm b then nm_div nm (nm_rat nm 1000) (bi_score b) else zero nm)"

definition build_performance_table :: "'f nums \<Rightarrow> 'f manager \<Rightarrow> string \<Rightarrow> 'f model_route list" where
  "build_performance_table nm m pattern =
     sort_by (\<lambda>a b. nm_less nm (mr_speed b) (mr_speed a))
       (map (\<lambda>b. \<lparr>mr_pattern = pattern, mr_backend = bi_id b, mr_speed = route_speed nm b\<rparr>) (filter usable (bm_backends m)))"

definition backend_tier_name :: "string \<Rightarrow> string" where
  "backend_tier_name bid =
     (if contains bid ''npu'' then ''accelerator'' else if contains bid ''hip'' then ''gpu''
      else if contains bid ''vulkan'' then ''gpu'' else if contains bid ''cpu'' then ''cpu'' else ''unknown'')"

section \<open>Every decision names a lane\<close>

definition available_ids :: "'f backend_info list \<Rightarrow> string set" where
  "available_ids bs = bi_id ` {b \<in> set bs. bi_available b}"

lemma classify_ids:
  assumes "fold classify bs (npu, gpu, cpu) = (npu', gpu', cpu')" "{npu, gpu, cpu} \<subseteq> insert [] A" "available_ids bs \<subseteq> A"
  shows "{npu', gpu', cpu'} \<subseteq> insert [] A"
  using assms
proof (induction bs arbitrary: npu gpu cpu)
  case (Cons b bs)
  obtain n g c where step: "classify b (npu, gpu, cpu) = (n, g, c)" by (metis prod_cases3)
  have "{n, g, c} \<subseteq> insert [] A" using step Cons.prems by (auto simp: classify_def available_ids_def split: if_splits)
  then show ?case using Cons.IH[of n g c] Cons.prems step by (auto simp: available_ids_def)
qed auto

lemma pick_lanes_available:
  assumes "pick_lanes bs = (npu, gpu, cpu)" "\<exists>b \<in> set bs. bi_available b"
  shows "{npu, gpu, cpu} \<subseteq> available_ids bs"
proof -
  obtain n g c where f: "fold classify bs ([], [], []) = (n, g, c)" by (metis prod_cases3)
  have ids: "{n, g, c} \<subseteq> insert [] (available_ids bs)" by (rule classify_ids[OF f]) auto
  obtain b where b: "find bi_available bs = Some b" using assms(2) by (cases "find bi_available bs") (auto simp: find_None_iff)
  then have "bi_id b \<in> available_ids bs" by (auto simp: available_ids_def find_Some_iff)
  then show ?thesis using ids assms(1) b by (auto simp: pick_lanes_def f Let_def split: if_splits)
qed

lemma performance_table_mset:
  "mset (build_performance_table nm m pattern) =
     mset (map (\<lambda>b. \<lparr>mr_pattern = pattern, mr_backend = bi_id b, mr_speed = route_speed nm b\<rparr>) (filter usable (bm_backends m)))"
  by (simp add: build_performance_table_def sort_by_mset)

lemma performance_table_backends: "r \<in> set (build_performance_table nm m pattern) \<Longrightarrow> mr_backend r \<in> available_ids (bm_backends m)"
proof -
  assume "r \<in> set (build_performance_table nm m pattern)"
  then have "r \<in># mset (build_performance_table nm m pattern)" by simp
  then show ?thesis unfolding performance_table_mset by (auto simp: available_ids_def usable_def)
qed

text \<open>Once the engine is initialised on a manager with at least one available lane, every decision of every strategy, whatever
  the watchdog has written since, names an available lane, and so does the draft lane of a speculative one.\<close>

theorem decisions_name_available_lanes:
  assumes "\<exists>b \<in> set (bm_backends m). bi_available b" "perf = [] \<or> perf = build_performance_table nm m pattern"
    "engine_init nm name perf m = (e, m')" "strategy_route nm now ctx (e\<lparr>se_agent := ag\<rparr>) t = (d, e', t')"
  shows "rd_backend d \<in> available_ids (bm_backends m) \<and> (rd_speculative d \<longrightarrow> rd_draft d \<in> available_ids (bm_backends m))"
proof -
  obtain npu gpu cpu where p: "pick_lanes (bm_backends m) = (npu, gpu, cpu)" by (metis prod_cases3)
  note lanes = pick_lanes_available[OF p assms(1)]
  have hd: "mr_backend (hd perf) \<in> available_ids (bm_backends m)" if "perf \<noteq> []"
    using that assms(2) by (metis hd_in_set performance_table_backends)
  have "strategy_route nm now ctx (e\<lparr>se_agent := ag\<rparr>) t = (d, e', t') \<Longrightarrow> ?thesis"
    using assms(3) lanes hd unfolding engine_init_def p Let_def prod.case
    by (auto simp: strategy_route_def cascade_route_def performance_route_def spec_route_def content_route_def adaptive_route_def
        Let_def split: if_splits prod.splits)
  then show ?thesis using assms(4) by blast
qed

section \<open>The performance table\<close>

lemma performance_table_sorted:
  assumes "strict_linear nm"
  shows "sorted_wrt (\<lambda>a b. \<not> nm_less nm (mr_speed a) (mr_speed b)) (build_performance_table nm m pattern)"
proof -
  have "strict_weak (\<lambda>a b :: 'a model_route. nm_less nm (mr_speed b) (mr_speed a))"
    using assms unfolding strict_linear_def strict_weak_def by metis
  from sort_by_sorted[OF this] show ?thesis unfolding build_performance_table_def by simp
qed

text \<open>Under the strategy \<open>performance\<close> every token goes to the usable lane with the highest measured speed.\<close>

lemma performance_uses_fastest:
  assumes "strict_linear nm" "\<exists>b \<in> set (bm_backends m). usable b"
    "engine_init nm ''performance'' (build_performance_table nm m pattern) m = (e, m')"
  shows "\<exists>b \<in> set (bm_backends m). usable b \<and> (\<forall>now ctx t. fst (strategy_route nm now ctx e t) = plain (bi_id b)) \<and>
    (\<forall>c \<in> set (bm_backends m). usable c \<longrightarrow> \<not> nm_less nm (route_speed nm b) (route_speed nm c))"
proof -
  let ?t = "build_performance_table nm m pattern"
  have set: "set ?t = (\<lambda>b. \<lparr>mr_pattern = pattern, mr_backend = bi_id b, mr_speed = route_speed nm b\<rparr>) ` {b \<in> set (bm_backends m). usable b}"
    using arg_cong[OF performance_table_mset[of nm m pattern], of set_mset] by simp
  then have ne: "?t \<noteq> []" using assms(2) by auto
  then have "hd ?t \<in> set ?t" by simp
  then obtain b where b: "b \<in> set (bm_backends m)" "usable b" "hd ?t = \<lparr>mr_pattern = pattern, mr_backend = bi_id b, mr_speed = route_speed nm b\<rparr>"
    unfolding set by blast
  have first: "\<not> nm_less nm (mr_speed (hd ?t)) (mr_speed r)" if "r \<in> set ?t" for r
    using performance_table_sorted[OF assms(1), of m pattern] that ne assms(1) by (cases ?t) (auto simp: strict_linear_def)
  have "\<not> nm_less nm (route_speed nm b) (route_speed nm c)" if h: "c \<in> set (bm_backends m)" "usable c" for c
    using first[of "\<lparr>mr_pattern = pattern, mr_backend = bi_id c, mr_speed = route_speed nm c\<rparr>"] h b(3) set by auto
  moreover have "fst (strategy_route nm now ctx e t) = plain (bi_id b)" for now ctx t
  proof -
    obtain npu gpu cpu where p: "pick_lanes (bm_backends m) = (npu, gpu, cpu)" by (metis prod_cases3)
    show ?thesis using assms(3) ne b(3) unfolding engine_init_def p Let_def prod.case
      by (auto simp: strategy_route_def performance_route_def)
  qed
  ultimately show ?thesis using b by blast
qed

section \<open>The adaptive strategy\<close>

text \<open>When no available lane has the id of a GPU, disabling the NPU changes nothing: the second lane of the adaptive strategy is
  the NPU itself, and every token goes on to the lane the watchdog has disabled, although a CPU lane may be available.\<close>

theorem disabled_npu_is_still_used:
  assumes "\<forall>b \<in> set (bm_backends m). bi_available b \<longrightarrow> \<not> contains (bi_id b) ''hip'' \<and> \<not> contains (bi_id b) ''vulkan''"
    "engine_init nm ''adaptive'' perf m = (e, m')" "ag_npu_off ag" "\<not> ag_gpu_off ag"
  shows "fst (strategy_route nm now ctx (e\<lparr>se_agent := ag\<rparr>) t) = plain (fst (pick_lanes (bm_backends m)))"
proof -
  have keep: "fst (snd (fold classify bs s)) = fst (snd s)"
    if "\<forall>b \<in> set bs. bi_available b \<longrightarrow> \<not> contains (bi_id b) ''hip'' \<and> \<not> contains (bi_id b) ''vulkan''"
    for bs :: "'a backend_info list" and s
    using that by (induction bs arbitrary: s) (auto simp: classify_def split: prod.splits)
  obtain npu gpu cpu where p: "pick_lanes (bm_backends m) = (npu, gpu, cpu)" by (metis prod_cases3)
  obtain n g c where f: "fold classify (bm_backends m) ([], [], []) = (n, g, c)" by (metis prod_cases3)
  have "g = []" using keep[OF assms(1), of "([], [], [])"] f by simp
  then have "gpu = npu" using p by (auto simp: pick_lanes_def f Let_def)
  then show ?thesis using assms(2-4) unfolding engine_init_def p Let_def prod.case
    by (auto simp: strategy_route_def adaptive_route_def Let_def split: prod.splits)
qed

lemma window_residues: "(\<lambda>p. p mod n) ` {k..<k + n} = {..<n}" if "0 < n" for n k :: nat
proof
  show "{..<n} \<subseteq> (\<lambda>p. p mod n) ` {k..<k + n}"
  proof
    fix r assume "r \<in> {..<n}"
    then have r: "r < n" by simp
    define p where "p = k + (r + n - k mod n) mod n"
    have "p mod n = (k + (r + n - k mod n)) mod n" unfolding p_def by (simp add: mod_add_right_eq)
    also have "k + (r + n - k mod n) = k div n * n + n + r"
      using mod_less_divisor[OF that, of k] div_mult_mod_eq[of k n] by linarith
    also have "\<dots> = (k div n + 1) * n + r" by simp
    also have "\<dots> mod n = r mod n" by (rule mod_mult_self3)
    finally have "p mod n = r" using r by simp
    moreover have "p \<in> {k..<k + n}" using that by (simp add: p_def)
    ultimately show "r \<in> (\<lambda>p. p mod n) ` {k..<k + n}" by blast
  qed
qed (use that in auto)

lemma window_count:
  assumes "a \<le> n" "0 < (n :: nat)"
  shows "card {p \<in> {k..<k + n}. p mod n < a} = a"
proof -
  have inj: "inj_on (\<lambda>p. p mod n) {k..<k + n}"
    by (rule eq_card_imp_inj_on) (simp_all add: window_residues[OF assms(2)])
  have "(\<lambda>p. p mod n) ` {p \<in> {k..<k + n}. p mod n < a} = {..<a}"
  proof
    show "{..<a} \<subseteq> (\<lambda>p. p mod n) ` {p \<in> {k..<k + n}. p mod n < a}"
    proof
      fix r assume r: "r \<in> {..<a}"
      then have "r \<in> (\<lambda>p. p mod n) ` {k..<k + n}" unfolding window_residues[OF assms(2)] using assms(1) by simp
      then show "r \<in> (\<lambda>p. p mod n) ` {p \<in> {k..<k + n}. p mod n < a}" using r by auto
    qed
  qed auto
  moreover have "inj_on (\<lambda>p. p mod n) {p \<in> {k..<k + n}. p mod n < a}" by (rule inj_on_subset[OF inj]) auto
  ultimately show ?thesis by (metis card_image card_lessThan)
qed

text \<open>The share of the first lane in percent, as the two throughputs and the agent's share make it.\<close>

definition share_percent :: "rat \<Rightarrow> rat \<Rightarrow> nat \<Rightarrow> nat" where
  "share_percent npu gpu a = (if npu * (3 / 2) < gpu then 30 else if gpu * (3 / 2) < npu then 80 else a)"

text \<open>With both lanes enabled and no low confidence, exactly the balanced share of any hundred consecutive tokens goes to the
  first lane: 30 when the other lane is more than 1.5 times as fast, 80 when it is that much slower, else the agent's percentage.\<close>

theorem adaptive_keeps_share:
  assumes "ag_npu_share ag = of_nat a / 100" "a \<le> 100" "\<not> ag_npu_off ag" "\<not> ag_gpu_off ag" "npu \<noteq> gpu"
    "\<forall>p. \<not> known_below rat_nums (lp p) (ag_threshold ag)"
    "lookup npu t = Some m1" "lookup gpu t = Some m2"
  shows "card {p \<in> {k..<k + 100}. fst (adaptive_route rat_nums now \<lparr>ad_primary = npu, ad_secondary = gpu, ad_fallback = cpu,
      ad_agent = True, ad_monitor = True\<rparr> \<lparr>tc_token = 0, tc_log_prob = lp p, tc_entropy = 0, tc_position = p, tc_prompt_tokens = 0,
      tc_max_tokens = 0, tc_message = []\<rparr> ag t) = plain npu} = share_percent (pm_tps m1) (pm_tps m2) a"
proof -
  obtain i where i: "find_entry (\<lambda>pm. pm_id pm = npu) t = Some i" "t ! i = m1"
    using assms(7) by (auto simp: lookup_def find_nth split: option.splits)
  obtain j where j: "find_entry (\<lambda>pm. pm_id pm = gpu) t = Some j" "t ! j = m2"
    using assms(8) by (auto simp: lookup_def find_nth split: option.splits)
  have share: "balanced_share rat_nums (pm_tps m1) (pm_tps m2) (ag_npu_share ag) = of_nat (share_percent (pm_tps m1) (pm_tps m2) a) / 100"
    by (simp add: balanced_share_def share_percent_def rat_nums_def assms(1))
  have route: "fst (adaptive_route rat_nums now \<lparr>ad_primary = npu, ad_secondary = gpu, ad_fallback = cpu,
      ad_agent = True, ad_monitor = True\<rparr> \<lparr>tc_token = 0, tc_log_prob = lp p, tc_entropy = 0, tc_position = p, tc_prompt_tokens = 0,
      tc_max_tokens = 0, tc_message = []\<rparr> ag t) = plain npu \<longleftrightarrow> p mod 100 < share_percent (pm_tps m1) (pm_tps m2) a" for p
  proof -
    have lt: "nm_less rat_nums (nm_div rat_nums (nm_rat rat_nums (of_nat (p mod 100))) (nm_rat rat_nums 100))
        (of_nat (share_percent (pm_tps m1) (pm_tps m2) a) / 100) \<longleftrightarrow> p mod 100 < share_percent (pm_tps m1) (pm_tps m2) a"
      by (simp add: rat_nums_def divide_less_cancel)
    show ?thesis using assms(3-6)
      by (simp add: adaptive_route_def find_or_create_def i j share lt)
  qed
  have "share_percent (pm_tps m1) (pm_tps m2) a \<le> 100" using assms(2) by (simp add: share_percent_def)
  then show ?thesis unfolding route by (rule window_count) simp
qed

definition demo_metrics :: "string \<Rightarrow> rat \<Rightarrow> rat metrics" where
  "demo_metrics bid tps = (new_metrics rat_nums 0 bid)\<lparr>pm_tps := tps\<rparr>"

theorem decisions_name_available_lanes_witness:
  "rd_backend (fst (strategy_route rat_nums 0 \<lparr>tc_token = 0, tc_log_prob = 0, tc_entropy = 0, tc_position = 60, tc_prompt_tokens = 0,
      tc_max_tokens = 0, tc_message = []\<rparr>
     ((fst (engine_init rat_nums ''cascade'' [] (new_manager\<lparr>bm_backends := [demo_lane rat_nums ''npu_xrt'' T1_ACCELERATOR (Some 0), demo_lane rat_nums ''hip_gpu'' T2_GPU (Some 1)]\<rparr>)))\<lparr>se_agent := new_agent rat_nums\<rparr>) []))
   \<in> {''npu_xrt'', ''hip_gpu''}"
proof -
  let ?m = "new_manager\<lparr>bm_backends := [demo_lane rat_nums ''npu_xrt'' T1_ACCELERATOR (Some 0), demo_lane rat_nums ''hip_gpu'' T2_GPU (Some 1)]\<rparr>"
  let ?ctx = "\<lparr>tc_token = 0, tc_log_prob = 0, tc_entropy = 0, tc_position = 60, tc_prompt_tokens = 0, tc_max_tokens = 0, tc_message = []\<rparr>"
  obtain e m' where e: "engine_init rat_nums ''cascade'' [] ?m = (e, m')" by (metis prod.exhaust)
  obtain d e' t' where d: "strategy_route rat_nums 0 ?ctx (e\<lparr>se_agent := new_agent rat_nums\<rparr>) [] = (d, e', t')" by (metis prod_cases3)
  have "\<exists>b \<in> set (bm_backends ?m). bi_available b" by (simp add: demo_lane_def lane_def)
  then have "rd_backend d \<in> available_ids (bm_backends ?m)" using decisions_name_available_lanes[OF _ _ e d] by blast
  moreover have "available_ids (bm_backends ?m) \<subseteq> {''npu_xrt'', ''hip_gpu''}" by (auto simp: available_ids_def demo_lane_def lane_def)
  ultimately show ?thesis unfolding e fst_conv d by blast
qed

theorem disabled_npu_is_still_used_witness:
  "fst (strategy_route rat_nums 0 \<lparr>tc_token = 0, tc_log_prob = 0, tc_entropy = 0, tc_position = 60, tc_prompt_tokens = 0,
      tc_max_tokens = 0, tc_message = []\<rparr>
     ((fst (engine_init rat_nums ''adaptive'' [] (new_manager\<lparr>bm_backends := [demo_lane rat_nums ''npu_xrt'' T1_ACCELERATOR (Some 0),
        demo_lane rat_nums ''cpu_scalar'' T3_CPU (Some 1)]\<rparr>)))\<lparr>se_agent := (new_agent rat_nums)\<lparr>ag_npu_off := True\<rparr>\<rparr>) []) = plain ''npu_xrt''"
proof -
  let ?m = "new_manager\<lparr>bm_backends := [demo_lane rat_nums ''npu_xrt'' T1_ACCELERATOR (Some 0), demo_lane rat_nums ''cpu_scalar'' T3_CPU (Some 1)]\<rparr>"
  obtain e m' where e: "engine_init rat_nums ''adaptive'' [] ?m = (e, m')" by (metis prod.exhaust)
  have none: "\<forall>b \<in> set (bm_backends ?m). bi_available b \<longrightarrow> \<not> contains (bi_id b) ''hip'' \<and> \<not> contains (bi_id b) ''vulkan''"
    by (simp add: demo_lane_def lane_def contains_def str_find_def)
  have lane: "fst (pick_lanes (bm_backends ?m)) = ''npu_xrt''"
    by (simp add: pick_lanes_def classify_def demo_lane_def lane_def contains_def str_find_def Let_def)
  show ?thesis using disabled_npu_is_still_used[OF none e, of "(new_agent rat_nums)\<lparr>ag_npu_off := True\<rparr>"] unfolding e lane
    by (simp add: new_agent_def)
qed

theorem adaptive_keeps_share_witness:
  "card {p \<in> {7..<107}. fst (adaptive_route rat_nums 0 \<lparr>ad_primary = ''npu'', ad_secondary = ''hip'', ad_fallback = ''cpu'',
      ad_agent = True, ad_monitor = True\<rparr> \<lparr>tc_token = 0, tc_log_prob = 0, tc_entropy = 0, tc_position = p, tc_prompt_tokens = 0,
      tc_max_tokens = 0, tc_message = []\<rparr> (new_agent rat_nums) [demo_metrics ''npu'' 20, demo_metrics ''hip'' 25]) = plain ''npu''} = 70"
  using adaptive_keeps_share[of "new_agent rat_nums" 70 "''npu''" "''hip''" "\<lambda>p. 0" "[demo_metrics ''npu'' 20, demo_metrics ''hip'' 25]"
      "demo_metrics ''npu'' 20" "demo_metrics ''hip'' 25" 7 0 "''cpu''"]
  by (simp add: new_agent_def demo_metrics_def new_metrics_def lookup_def rat_nums_def known_below_def share_percent_def)

end
