(* ===== verification/Spec2Isabelle.thy ===== *)
theory Spec2Isabelle
  imports ModelPool GgufBits GgufReader Htok Inference BatchScheduler MiniJson Sha256 ShardNames Duplicates AutoSelect OnebpPipeline Q4nxTiles SpecDecode Strategy
begin

text \<open>
  The host-side core of a local inference engine: how a model file is read, how text becomes tokens
  and back, which backend serves a model, and what happens when a backend fails. All paths are below
  \<open>src/\<close> of the repository root.

  \<^bold>\<open>Program and theories\<close>

  A request runs through the parts in this order. A model file is pooled and parsed; its tokenizer
  is exported and loaded; its architecture name is looked up; the model router orders the backends;
  the backend manager brings them up and registers them with the per-token router; tokens are then
  generated with failover. Beside this path the registry scans the model files, plans per artifact
  which lanes can serve it and corrects the static route; the server's start puts the two together.

  \<^item> \<open>Prelude\<close>, \<open>Bytes\<close>: machine integers, string search, counted loops over an output buffer,
    little-endian codecs.
  \<^item> \<open>ModelPool\<close>: \<open>unified_pool.cpp\<close>. The state is the vector of slots; \<open>pool_load\<close>, \<open>pool_unload\<close>,
    \<open>pool_get\<close>, \<open>pool_find\<close>, \<open>pool_has_path\<close>, \<open>pool_count\<close>.
  \<^item> \<open>GgufDequant\<close>, \<open>GgufBlocks\<close>, \<open>GgufDispatch\<close>, \<open>GgufBits\<close>: the dequantisers of \<open>gguf_reader.cpp\<close>
    loop by loop, their per-element references, and what their bit manipulation computes.
  \<^item> \<open>GgufFile\<close>, \<open>GgufReader\<close>: the C stream, the metadata section, \<open>GgufReader::open\<close>, the accessors and
    the tensor reads.
  \<^item> \<open>Utf8\<close>, \<open>Pretokenizer\<close>, \<open>Bpe\<close>, \<open>Htok\<close>: \<open>tokenizer.cpp\<close> and \<open>GgufReader::write_htok\<close>: characters, the
    two splitters, encoder and decoder, the \<open>.htok\<close> file.
  \<^item> \<open>ArchTable\<close>: \<open>include/rocm_cpp/bitnet_model.h\<close>, every enumerator of \<open>rcpp_arch_t\<close> and every row of
    \<open>rcpp_arch_from_string\<close>.
  \<^item> \<open>ModelRouter\<close>: \<open>select_backend_route\<close> of \<open>model_router.cpp\<close>.
  \<^item> \<open>Engines\<close>: the interface of \<open>backend.h\<close> as a record of operations on an abstract state of all
    engines.
  \<^item> \<open>DynRouter\<close>: \<open>dynamic_router.cpp\<close>, the per-token router: the record \<open>router\<close> and an operation per
    method; \<open>router_step\<close> runs any sequence of them.
  \<^item> \<open>Backends\<close>: the lanes of \<open>backend_manager.cpp\<close>: the table \<open>discover()\<close> registers, the factories of
    \<open>create_instance_rt\<close>, \<open>rank_backends\<close>.
  \<^item> \<open>BackendManager\<close>, \<open>Startup\<close>, \<open>Inference\<close>: the record \<open>manager\<close> and the methods of \<open>BackendManager\<close>:
    initialisation, selection, benchmarks and failover; what initialisation establishes; generation,
    text generation, health checks and plugins.
  \<^item> \<open>BatchScheduler\<close>: \<open>include/batch_scheduler.h\<close>: submission, admission, prefill, batched decoding and the
    end of the thread as steps on the record \<open>sched\<close>.
  \<^item> \<open>Registry\<close>, \<open>RegistryScan\<close>, \<open>ShardNames\<close>, \<open>RegistryIds\<close>, \<open>Duplicates\<close>: \<open>model_registry.cpp\<close>: the record
    \<open>artifact\<close>, the queries, the phases of \<open>ModelRegistry::scan\<close> on the files of a walk, and what they do to
    names, ids and duplicates.
  \<^item> \<open>Sha256\<close>, \<open>MiniJson\<close>: the digest and the catalog reader of the same file.
  \<^item> \<open>RoutePlan\<close>: \<open>model_registry_route.cpp\<close>: the plan of an artifact and its merge with the static route.
  \<^item> \<open>AutoSelect\<close>: the start of \<open>tools/unified_server.cpp\<close>, from the chosen model to the active lane.
  \<^item> \<open>OnebpFormat\<close>, \<open>OnebpIndex\<close>, \<open>OnebpFile\<close>: the \<open>.1bp\<close> file: header (\<open>include/onebp_format.h\<close>), tensor index with its
    two readers (\<open>engine/npu/src/onebp_loader.cpp\<close>, \<open>src/onebp_model.cpp\<close>), layout and shared blocks
    (\<open>src/gguf_to_onebp.cpp\<close>). \<open>OnebpEncode\<close>, \<open>OnebpDequant\<close>: the tile encoders of the converter and the decoders of the
    loader; \<open>OnebpReadback\<close>, \<open>OnebpByteTiles\<close>, \<open>OnebpPipeline\<close>: what comes back.
  \<^item> \<open>Q4nxTiles\<close>: the tiles of FLM's files: \<open>engine/npu/src/dequant_q4nx.cpp\<close>, \<open>engine/npu/src/q4nx_raw.h\<close>, and their
    conversion into the tiles of a \<open>.1bp\<close> file.
  \<^item> \<open>Sorting\<close>: strict weak orders and the stable order the model fixes for \<open>std::sort\<close>.

  \<^bold>\<open>What the lemmas show\<close>

  \<^item> Pool: every branch of \<open>load\<close>, exact reference counts over any run, residency under the client's
    discipline, and the reload defect.
  \<^item> GGUF: each dequantiser equals its reference and writes nothing else; it reads only the bytes the
    geometry table announces; a successful \<open>open\<close> puts every tensor of at most \<open>2^31\<close> elements inside the file (the
    check wraps for larger ones, which the reads refuse), so raw and block-wise reads succeed and the latter equals
    decoding the whole tensor; \<open>open\<close> returns
    on every file without a length of \<open>2^63\<close> or more, and does not on an 81-byte one.
  \<^item> Tokenizer: UTF-8 and the byte table are bijective where they must be; the splitters lose no byte;
    the merge loop reaches its fixed point within its cap; with a GPT-2 style vocabulary text survives
    encoding and decoding, special tokens and a BOS included, also through the exported file; what a loaded tokenizer
    guarantees, and that it does not check BOS and EOS.
  \<^item> Routing: the type of the registry, the routes of one family of names by all rows of the table, the
    branch that shadows others.
  \<^item> Per-token router: an invariant over any run, the 4:1 ratio of backfill, failover that answers, and
    one that hangs on the compute mutex of the failed backend. The locale \<open>picker\<close> is what the inference code needs of a choice; both pickers
    interpret it.
  \<^item> Manager: the comparison is a strict weak order; the failover order covers every lane and
    starts with the route; failover finds a lane that can be brought up unless an engine throws, and
    one that throws ends it; the invariant of start-up (at most two engines in the router, each the
    engine of a working lane); the lanes start-up never reaches; which lane is active afterwards and
    which engine answers text; plugins and the active index.
  \<^item> 1BP: both loaders open what the converter writes and find every tensor's bytes, shared blocks included
    (the locales \<open>item_reader\<close> and \<open>index_resolver\<close>, each interpreted on both loaders); the size reserved for
    a tensor is the size written (every format but TQ2BS); a decoded element is its own code times its own group's scale.
  \<^item> FLM tiles: a converted tensor decodes, and reads as raw integers, as the original does; on which shapes the
    asymmetric decoder fills exactly its output, stores outside it, or divides by zero.
  \<^item> Scheduler: no request is lost or answered twice, every one is answered within a bound.
  \<^item> Registry: shard names and the stems on which the scan hangs; ids stay distinct; the collapse of
    duplicates keeps every name, path and byte; the digest is the standard's SHA-256; the catalog reader
    inverts the printer.
  \<^item> Start: a plan accounts for every capability, the merge keeps every lane; a start that reports a
    model serves it on the first lane of its route that came up; a lane that is known to abort is not
    touched by initialisation as long as the plan has a target, and is touched without one and by failover.

  \<^bold>\<open>Other interfaces\<close>: \<open>byte_codec\<close> (writer and reader of one item), \<open>block_format\<close> (an element depends
  on its own block), \<open>splitter\<close> (no byte lost, no empty chunk); each is interpreted on the model's own
  definitions where they are given.

  \<^bold>\<open>Bounds and fuel\<close>

  \<open>skip_kv_value\<close> carries a bound on the nesting of arrays; \<open>gguf_open_returns\<close> shows that a twelfth of the
  file's length is enough, and \<open>gguf_open_diverges\<close> that none is for a crafted file. The merge loop of the
  encoder has the iteration cap of the code. The search for a shard marker is a partial function, with the
  names on which it does not return; the padding of the digest is a \<open>while\<close>. Every other recursion is structural or over a list of
  lanes, entries or bytes. Unsigned fields of files are words and wrap; counters of the router and the
  manager are natural numbers. The round counter of the router is an \<open>int\<close> in the code and unbounded here,
  so its overflow after \<open>2^31\<close> picks is not covered. On a manager without lanes \<open>select_best\<close> under
  round-robin takes a remainder by zero in the code; the model answers false there.

  \<^bold>\<open>Parameters\<close>

  Floating-point arithmetic is a record of operations (\<open>fops\<close>, \<open>nums\<close>) applied in the code's order. The
  mapping of files, hardware probes, build flags, the loader of shared libraries and the engines are
  arguments, as are the file system, the header probes and the availability probe of the registry.
  Durations come back with the result of the call that is measured.

  \<^bold>\<open>Not modelled\<close>

  The engines' forward passes and all device code (floating point on GPU and NPU memory); the NPU worker
  and its instruction streams; the listing of candidates at the start, the walk of directories, the
  header probes and the geometry bound of the registry, the strategy engine, the mesh and the loaders of
  the other formats (candidates for an extension); of the 1BP converter the reading of the GGUF metadata, the
  choice of a format per tensor and its TQ2BS branch; the HTTP part of the servers, command lines, bridges to external processes, reports on the console (input and
  output); vendored code, other languages, assets. Of the manager: the interleaving of threads while
  \<open>generate\<close> has released its lock, the weights directory, exceptions that leave \<open>forward\<close> and \<open>lm_head\<close> or come
  from a factory, and the Windows variant of the factories.
\<close>

end
